(* ===== verification/Prelude.thy ===== *)
theory Prelude
  imports Main "HOL-Library.AList"
begin

text \<open>
  Shared vocabulary of the development: Go error values and outcomes, the Go
  string functions the operator calls (package \<^verbatim>\<open>strings\<close> and the decimal verbs of
  \<^verbatim>\<open>fmt\<close>), and Go maps.

  Strings are lists of bytes (\<^typ>\<open>char list\<close>). The functions that look at character
  classes are those of the standard library restricted to ASCII text, which is what
  Kubernetes names, label keys and OpenTelemetry component ids are made of.

  A Go map is an association list with distinct keys. The order of the list stands for
  the order in which a \<^verbatim>\<open>range\<close> loop visits the entries; Go leaves that order open, so a
  theorem about a loop over a map holds for every order of the list.
\<close>

named_theorems go_string_simps
  \<open>evaluation rules of the Go string functions\<close>

named_theorems outcome_iff
  \<open>when a computation returns a given outcome\<close>

section \<open>Errors and outcomes\<close>

text \<open>
  A Go error value: \<^verbatim>\<open>errors.New\<close> (or \<^verbatim>\<open>fmt.Errorf\<close> without \<^verbatim>\<open>%w\<close>), an error
  returned by a library call (kept with its text), a wrapped error (\<^verbatim>\<open>fmt.Errorf\<close> with
  \<^verbatim>\<open>%w\<close>), and \<^verbatim>\<open>errors.Join\<close>.
\<close>

datatype goerr =
    ErrNew string
  | ErrLib string
  | ErrWrap string goerr
  | ErrJoin "goerr list"

text \<open>
  The outcome of a Go call that returns \<^verbatim>\<open>(T, error)\<close> and that may also panic.
\<close>

datatype 'a outcome = Ok 'a | Err goerr | Panic string

fun bind_outcome :: "'a outcome \<Rightarrow> ('a \<Rightarrow> 'b outcome) \<Rightarrow> 'b outcome" where
  "bind_outcome (Ok x) f = f x"
| "bind_outcome (Err e) f = Err e"
| "bind_outcome (Panic m) f = Panic m"

fun of_sum :: "goerr + 'a \<Rightarrow> 'a outcome" where
  "of_sum (Inl e) = Err e"
| "of_sum (Inr x) = Ok x"

definition panics :: "'a outcome \<Rightarrow> bool" where
  "panics r \<longleftrightarrow> (case r of Panic _ \<Rightarrow> True | _ \<Rightarrow> False)"

section \<open>Characters and strings\<close>

abbreviation code :: "char \<Rightarrow> nat" where
  "code c \<equiv> of_char c"

definition is_digit :: "char \<Rightarrow> bool" where
  "is_digit c \<longleftrightarrow> 48 \<le> code c \<and> code c \<le> 57"

definition is_lower :: "char \<Rightarrow> bool" where
  "is_lower c \<longleftrightarrow> 97 \<le> code c \<and> code c \<le> 122"

definition is_upper :: "char \<Rightarrow> bool" where
  "is_upper c \<longleftrightarrow> 65 \<le> code c \<and> code c \<le> 90"

definition is_alnum :: "char \<Rightarrow> bool" where
  "is_alnum c \<longleftrightarrow> is_upper c \<or> is_lower c \<or> is_digit c"

definition is_lower_alnum :: "char \<Rightarrow> bool" where
  "is_lower_alnum c \<longleftrightarrow> is_lower c \<or> is_digit c"

definition is_space :: "char \<Rightarrow> bool" where
  "is_space c \<longleftrightarrow> code c = 32 \<or> (9 \<le> code c \<and> code c \<le> 13)"

definition lower_char :: "char \<Rightarrow> char" where
  "lower_char c = (if is_upper c then char_of (code c + 32) else c)"

definition upper_char :: "char \<Rightarrow> char" where
  "upper_char c = (if is_lower c then char_of (code c - 32) else c)"

definition ToLower :: "string \<Rightarrow> string" where
  "ToLower s = map lower_char s"

definition TrimSpace :: "string \<Rightarrow> string" where
  "TrimSpace s = rev (dropWhile is_space (rev (dropWhile is_space s)))"

definition HasPrefix :: "string \<Rightarrow> string \<Rightarrow> bool" where
  "HasPrefix s p \<longleftrightarrow> take (length p) s = p"

definition HasSuffix :: "string \<Rightarrow> string \<Rightarrow> bool" where
  "HasSuffix s p \<longleftrightarrow> length p \<le> length s \<and> drop (length s - length p) s = p"

definition TrimPrefix :: "string \<Rightarrow> string \<Rightarrow> string" where
  "TrimPrefix s p = (if HasPrefix s p then drop (length p) s else s)"

definition TrimSuffix :: "string \<Rightarrow> string \<Rightarrow> string" where
  "TrimSuffix s p = (if HasSuffix s p then take (length s - length p) s else s)"

text \<open>\<^verbatim>\<open>strings.ReplaceAll\<close> for a one-byte pattern and a one-byte replacement.\<close>

definition ReplaceAllChar :: "string \<Rightarrow> char \<Rightarrow> char \<Rightarrow> string" where
  "ReplaceAllChar s a b = map (\<lambda>c. if c = a then b else c) s"

text \<open>\<^verbatim>\<open>strings.Split\<close> and \<^verbatim>\<open>strings.SplitN\<close> for a one-byte separator.\<close>

fun Split :: "string \<Rightarrow> char \<Rightarrow> string list" where
  "Split [] c = [[]]"
| "Split (x # xs) c =
     (if x = c then [] # Split xs c
      else (case Split xs c of [] \<Rightarrow> [[x]] | y # ys \<Rightarrow> (x # y) # ys))"

fun SplitN :: "string \<Rightarrow> char \<Rightarrow> nat \<Rightarrow> string list" where
  "SplitN s c 0 = []"
| "SplitN s c (Suc 0) = [s]"
| "SplitN s c (Suc (Suc n)) =
     (if c \<in> set s
      then takeWhile (\<lambda>x. x \<noteq> c) s # SplitN (tl (dropWhile (\<lambda>x. x \<noteq> c) s)) c (Suc n)
      else [s])"

fun Join :: "string list \<Rightarrow> string \<Rightarrow> string" where
  "Join [] sep = []"
| "Join [x] sep = x"
| "Join (x # y # xs) sep = x @ sep @ Join (y # xs) sep"

text \<open>The decimal rendering of \<^verbatim>\<open>%d\<close>.\<close>

definition digit_char :: "nat \<Rightarrow> char" where
  "digit_char d = char_of (48 + d)"

fun nat_str :: "nat \<Rightarrow> string" where
  "nat_str n = (if n < 10 then [digit_char n] else nat_str (n div 10) @ [digit_char (n mod 10)])"

declare nat_str.simps [simp del]

definition int_str :: "int \<Rightarrow> string" where
  "int_str i = (if i < 0 then CHR ''-'' # nat_str (nat (- i)) else nat_str (nat i))"

definition bool_str :: "bool \<Rightarrow> string" where
  "bool_str b = (if b then ''true'' else ''false'')"

section \<open>Go maps\<close>

type_synonym ('k, 'v) gomap = "('k \<times> 'v) list"

type_synonym labels = "(string, string) gomap"

abbreviation gget :: "('k, 'v) gomap \<Rightarrow> 'k \<Rightarrow> 'v option" where
  "gget m k \<equiv> map_of m k"

abbreviation gset :: "'k \<Rightarrow> 'v \<Rightarrow> ('k, 'v) gomap \<Rightarrow> ('k, 'v) gomap" where
  "gset k v m \<equiv> AList.update k v m"

abbreviation gdelete :: "'k \<Rightarrow> ('k, 'v) gomap \<Rightarrow> ('k, 'v) gomap" where
  "gdelete k m \<equiv> AList.delete k m"

text \<open>\<^verbatim>\<open>m[k]\<close> on a map of strings: the zero value when the key is absent.\<close>

definition gget_str :: "('k, string) gomap \<Rightarrow> 'k \<Rightarrow> string" where
  "gget_str m k = (case gget m k of None \<Rightarrow> [] | Some v \<Rightarrow> v)"

text \<open>\<^verbatim>\<open>maps.Copy(dst, src)\<close>: every entry of src is written into dst.\<close>

definition maps_copy :: "('k, 'v) gomap \<Rightarrow> ('k, 'v) gomap \<Rightarrow> ('k, 'v) gomap" where
  "maps_copy dst src = fold (\<lambda>(k, v) m. gset k v m) src dst"

text \<open>\<^verbatim>\<open>ptr.Deref\<close> and the zero test of an optional string.\<close>

definition ptr_Deref :: "'a option \<Rightarrow> 'a \<Rightarrow> 'a" where
  "ptr_Deref p d = (case p of None \<Rightarrow> d | Some x \<Rightarrow> x)"

section \<open>Lemmas on outcomes\<close>

lemma bind_outcome_Ok_iff [outcome_iff]:
  "bind_outcome r f = Ok y \<longleftrightarrow> (\<exists>x. r = Ok x \<and> f x = Ok y)"
  by (cases r) auto

lemma bind_outcome_Panic_iff [outcome_iff]:
  "bind_outcome r f = Panic m \<longleftrightarrow> r = Panic m \<or> (\<exists>x. r = Ok x \<and> f x = Panic m)"
  by (cases r) auto

lemma map_outcome_Ok_iff [outcome_iff]:
  "map_outcome f r = Ok y \<longleftrightarrow> (\<exists>x. r = Ok x \<and> y = f x)"
  by (cases r) auto

lemma panics_map_outcome [simp]: "panics (map_outcome f r) = panics r"
  by (cases r) (simp_all add: panics_def)

lemma panics_simps [simp]:
  "panics (Panic m)" "\<not> panics (Ok x)" "\<not> panics (Err e)"
  by (simp_all add: panics_def)

lemma panics_bind_outcome [simp]:
  "panics (bind_outcome r f) \<longleftrightarrow> panics r \<or> (\<exists>x. r = Ok x \<and> panics (f x))"
  by (cases r) auto

lemma of_sum_not_panic [simp]: "\<not> panics (of_sum r)"
  by (cases r) auto

lemma of_sum_eq_iff [outcome_iff]:
  "of_sum r = Ok x \<longleftrightarrow> r = Inr x"
  "of_sum r = Err e \<longleftrightarrow> r = Inl e"
  by (cases r; auto)+

section \<open>Lemmas on strings\<close>

lemma lower_char_not_upper: "\<not> is_upper (lower_char c)"
  by (simp add: lower_char_def is_upper_def)

lemma lower_char_idem [simp]: "lower_char (lower_char c) = lower_char c"
  using lower_char_not_upper [of c] by (simp add: lower_char_def [of "lower_char c"])

lemma length_ToLower [simp]: "length (ToLower s) = length s"
  by (simp add: ToLower_def)

lemma lower_char_lower_alnum [simp]: "is_lower_alnum c \<Longrightarrow> lower_char c = c"
  by (auto simp: lower_char_def is_lower_alnum_def is_upper_def is_lower_def is_digit_def)

lemma is_lower_alnum_is_alnum: "is_lower_alnum c \<Longrightarrow> is_alnum c"
  by (auto simp: is_lower_alnum_def is_alnum_def)

lemma is_alnum_lower_char: "is_alnum c \<Longrightarrow> is_lower_alnum (lower_char c)"
  by (auto simp: is_alnum_def is_lower_alnum_def lower_char_def is_upper_def is_lower_def is_digit_def)

lemma digit_char_is_digit: "d < 10 \<Longrightarrow> is_digit (digit_char d)"
  by (simp add: digit_char_def is_digit_def)

lemma nat_str_nonempty [simp]: "nat_str n \<noteq> []"
  by (subst nat_str.simps) simp

lemma nat_str_digits: "c \<in> set (nat_str n) \<Longrightarrow> is_digit c"
proof (induction n rule: nat_str.induct)
  case (1 n)
  then show ?case
    by (cases "n < 10") (auto simp: nat_str.simps [of n] digit_char_is_digit)
qed

lemma length_nat_str: "n < 10 ^ Suc k \<Longrightarrow> length (nat_str n) \<le> Suc k"
proof (induction k arbitrary: n)
  case 0
  then show ?case by (subst nat_str.simps) simp
next
  case (Suc k)
  show ?case
  proof (cases "n < 10")
    case True
    then show ?thesis by (subst nat_str.simps) simp
  next
    case False
    have "n div 10 < 10 ^ Suc k" using Suc.prems by (simp add: less_mult_imp_div_less)
    then have "length (nat_str (n div 10)) \<le> Suc k" by (rule Suc.IH)
    with False show ?thesis by (subst nat_str.simps) simp
  qed
qed

lemma Split_nonempty [simp]: "Split s c \<noteq> []"
  by (induction s) (auto split: list.splits)

lemma Split_no_sep: "c \<notin> set s \<Longrightarrow> Split s c = [s]"
  by (induction s) auto

lemma Split_pieces: "x \<in> set (Split s c) \<Longrightarrow> c \<notin> set x"
proof (induction s arbitrary: x)
  case (Cons y ys)
  then show ?case by (cases "Split ys c") (auto split: if_splits)
qed simp

lemma Join_Split: "Join (Split s c) [c] = s"
proof (induction s)
  case (Cons x xs)
  show ?case
  proof (cases "Split xs c")
    case (Cons y ys)
    then show ?thesis using Cons.IH by (cases ys) auto
  qed simp
qed simp

lemma HasSuffix_append [simp]: "HasSuffix (s @ p) p"
  by (simp add: HasSuffix_def)

section \<open>Lemmas on maps\<close>

lemma gget_maps_copy:
  assumes "distinct (map fst src)"
  shows "gget (maps_copy dst src) k = (case gget src k of None \<Rightarrow> gget dst k | Some v \<Rightarrow> Some v)"
  using assms
proof (induction src arbitrary: dst)
  case (Cons e src)
  obtain a b where e: "e = (a, b)" by (cases e)
  have "gget (maps_copy dst (e # src)) k = gget (maps_copy (gset a b dst) src) k"
    by (simp add: maps_copy_def e)
  also have "\<dots> = (case gget src k of None \<Rightarrow> gget (gset a b dst) k | Some v \<Rightarrow> Some v)"
    using Cons by simp
  also have "\<dots> = (case gget (e # src) k of None \<Rightarrow> gget dst k | Some v \<Rightarrow> Some v)"
  proof (cases "k = a")
    case True
    have "a \<notin> fst ` set src" using Cons.prems e by simp
    then have "gget src a = None" by (simp add: map_of_eq_None_iff)
    with True e show ?thesis by (simp add: update_conv)
  next
    case False
    then show ?thesis by (auto simp: e update_conv split: option.splits)
  qed
  finally show ?case .
qed (simp add: maps_copy_def)

lemma maps_copy_Nil [simp]: "maps_copy dst [] = dst"
  by (simp add: maps_copy_def)

lemma distinct_gset [simp]:
  "distinct (map fst m) \<Longrightarrow> distinct (map fst (gset k v m))"
  by (rule distinct_update)

lemma ptr_Deref_simps [simp]: "ptr_Deref None d = d" "ptr_Deref (Some x) d = x"
  by (simp_all add: ptr_Deref_def)

lemmas char_class_defs =
  is_digit_def is_lower_def is_upper_def is_alnum_def is_lower_alnum_def is_space_def
  lower_char_def upper_char_def

lemmas string_fun_defs [go_string_simps] =
  ToLower_def TrimSpace_def HasPrefix_def HasSuffix_def TrimPrefix_def TrimSuffix_def
  ReplaceAllChar_def digit_char_def int_str_def bool_str_def

lemmas char_class_simps [go_string_simps] = char_class_defs

end
