(* ===== verification/Kube_Types.thy ===== *)
theory Kube_Types
  imports Prelude
begin

text \<open>
  The Kubernetes API types the operator reads and writes, with the fields its code uses.
  A pointer or a map that the code compares with \<^verbatim>\<open>nil\<close> is an option. A timestamp is
  an option too: \<^const>\<open>None\<close> is the zero time of \<^verbatim>\<open>IsZero\<close>.
\<close>

section \<open>Metadata\<close>

record owner_ref =
  or_Name :: string
  or_Kind :: string
  or_UID :: string

record object_meta =
  om_Name :: string
  om_Namespace :: string
  om_UID :: string
  om_Generation :: int
  om_Labels :: "labels option"
  om_Annotations :: "labels option"
  om_Finalizers :: "string list"
  om_OwnerReferences :: "owner_ref list"
  om_CreationTimestamp :: "int option"
  om_DeletionTimestamp :: "int option"

definition empty_meta :: object_meta where
  "empty_meta = \<lparr>om_Name = [], om_Namespace = [], om_UID = [], om_Generation = 0, om_Labels = None,
     om_Annotations = None, om_Finalizers = [], om_OwnerReferences = [],
     om_CreationTimestamp = None, om_DeletionTimestamp = None\<rparr>"

text \<open>An object literal that names its object.\<close>

definition meta_named :: "string \<Rightarrow> string \<Rightarrow> object_meta" where
  "meta_named name namespace = empty_meta\<lparr>om_Name := name, om_Namespace := namespace\<rparr>"

record nsname =
  nn_Name :: string
  nn_Namespace :: string

definition key_of :: "object_meta \<Rightarrow> nsname" where
  "key_of m = \<lparr>nn_Name = om_Name m, nn_Namespace = om_Namespace m\<rparr>"

text \<open>
  Writing to a map that may be \<^verbatim>\<open>nil\<close>: the idiom
  \<^verbatim>\<open>if m == nil { m = make(map[string]string) }; m[k] = v\<close>.
\<close>

definition entries :: "('k, 'v) gomap option \<Rightarrow> ('k, 'v) gomap" where
  "entries m = (case m of None \<Rightarrow> [] | Some xs \<Rightarrow> xs)"

definition set_entry :: "'k \<Rightarrow> 'v \<Rightarrow> ('k, 'v) gomap option \<Rightarrow> ('k, 'v) gomap option" where
  "set_entry k v m = Some (gset k v (entries m))"

section \<open>Ports, services and ingresses\<close>

datatype int_or_string = IntVal int | StrVal string

text \<open>
  \<^verbatim>\<open>intstr.IntOrString.IntValue\<close> on the values the operator builds: the number of an
  integer, and for a string the integer it spells, 0 when it spells none.
\<close>

definition digits_value :: "string \<Rightarrow> int" where
  "digits_value s = foldl (\<lambda>n c. 10 * n + (int (code c) - 48)) 0 s"

fun IntValue :: "int_or_string \<Rightarrow> int" where
  "IntValue (IntVal i) = i"
| "IntValue (StrVal s) = (if s \<noteq> [] \<and> list_all is_digit s then digits_value s else 0)"

record service_port =
  sp_Name :: string
  sp_Port :: int
  sp_TargetPort :: int_or_string
  sp_NodePort :: int
  sp_AppProtocol :: "string option"
  sp_Protocol :: string

record service_spec =
  ss_Ports :: "service_port list"
  ss_Selector :: "labels option"
  ss_Type :: string
  ss_InternalTrafficPolicy :: "string option"

record service =
  svc_Meta :: object_meta
  svc_Spec :: service_spec

record ingress_path =
  ip_Path :: string
  ip_PathType :: string
  ip_ServiceName :: string
  ip_PortName :: string

record ingress_rule =
  ir_Host :: string
  ir_Paths :: "ingress_path list"

record ingress_tls =
  it_Hosts :: "string list"
  it_SecretName :: string

record ingress_spec =
  is_DefaultBackend :: "string option"
  is_TLS :: "ingress_tls list"
  is_Rules :: "ingress_rule list"
  is_IngressClassName :: "string option"

record ingress =
  ing_Meta :: object_meta
  ing_Spec :: ingress_spec

section \<open>Workloads\<close>

record container_port =
  cp_ContainerPort :: int
  cp_Name :: string
  cp_Protocol :: string

record volume_mount =
  vm_Name :: string
  vm_MountPath :: string
  vm_SubPath :: string

datatype env_source = SecretKeyRef string string | FieldRef string

record env_var =
  ev_Name :: string
  ev_Value :: string
  ev_ValueFrom :: "env_source option"

datatype env_from = ConfigMapRef string | SecretRef string

record security_context =
  sc_SeccompProfile :: string
  sc_AllowPrivilegeEscalation :: "bool option"
  sc_CapabilitiesDrop :: "string list"
  sc_RunAsNonRoot :: "bool option"

record probe =
  pr_Path :: string
  pr_Port :: int_or_string
  pr_InitialDelaySeconds :: int
  pr_PeriodSeconds :: int

record container =
  ct_Name :: string
  ct_Image :: string
  ct_Command :: "string list"
  ct_Ports :: "container_port list"
  ct_VolumeMounts :: "volume_mount list"
  ct_Env :: "env_var list"
  ct_EnvFrom :: "env_from list"
  ct_SecurityContext :: "security_context option"
  ct_LivenessProbe :: "probe option"
  ct_ReadinessProbe :: "probe option"
  ct_ImagePullPolicy :: string
  ct_Resources :: "string option"

record toleration =
  tol_Key :: string
  tol_Operator :: string
  tol_Value :: string
  tol_Effect :: string

record volume =
  vol_Name :: string
  vol_ConfigMap :: string

record pod_template =
  pt_Labels :: "labels option"
  pt_Annotations :: "labels option"
  pt_ServiceAccountName :: string
  pt_Containers :: "container list"
  pt_Volumes :: "volume list"
  pt_Tolerations :: "toleration list"

text \<open>
  The selector pointer and its label map: \<^const>\<open>None\<close> for a \<^verbatim>\<open>nil\<close> selector,
  \<^term>\<open>Some None\<close> for a selector whose label map is \<^verbatim>\<open>nil\<close>.
\<close>

record deployment =
  dep_Meta :: object_meta
  dep_Selector :: "labels option option"
  dep_Replicas :: "int option"
  dep_Template :: pod_template
  dep_StatusReplicas :: int
  dep_StatusReadyReplicas :: int

record config_map =
  cm_Meta :: object_meta
  cm_Data :: "labels option"

section \<open>Access control\<close>

record policy_rule =
  pol_APIGroups :: "string list"
  pol_Resources :: "string list"
  pol_Verbs :: "string list"

record service_account =
  sa_Meta :: object_meta

record cluster_role =
  cr_Meta :: object_meta
  cr_Rules :: "policy_rule list"

record role_subject =
  sub_Kind :: string
  sub_Name :: string
  sub_Namespace :: string

record cluster_role_binding =
  crb_Meta :: object_meta
  crb_RoleRef :: "string \<times> string \<times> string"
  crb_Subjects :: "role_subject list"

section \<open>Status conditions\<close>

record condition =
  cd_Type :: string
  cd_Status :: string
  cd_Reason :: string
  cd_Message :: string

section \<open>Lemmas\<close>

lemma entries_simps [simp]: "entries None = []" "entries (Some m) = m"
  by (simp_all add: entries_def)

lemma entries_set_entry [simp]: "entries (set_entry k v m) = gset k v (entries m)"
  by (simp add: set_entry_def)

lemma set_entry_not_None [simp]: "set_entry k v m \<noteq> None" "None \<noteq> set_entry k v m"
  by (simp_all add: set_entry_def)

text \<open>Reading a label back after a write, through the \<^verbatim>\<open>nil\<close> map idiom.\<close>

lemma gget_set_entry:
  "gget (entries (set_entry k v m)) k' = (if k' = k then Some v else gget (entries m) k')"
  by (simp add: update_conv)

lemma meta_named_simps [simp]:
  "om_Name (meta_named n ns) = n" "om_Namespace (meta_named n ns) = ns"
  "om_Labels (meta_named n ns) = None" "om_Annotations (meta_named n ns) = None"
  "om_DeletionTimestamp (meta_named n ns) = None" "om_CreationTimestamp (meta_named n ns) = None"
  "om_OwnerReferences (meta_named n ns) = []" "om_Finalizers (meta_named n ns) = []"
  by (simp_all add: meta_named_def empty_meta_def)

lemma key_of_simps [simp]:
  "nn_Name (key_of m) = om_Name m" "nn_Namespace (key_of m) = om_Namespace m"
  by (simp_all add: key_of_def)

end
