(* ===== verification/Reconcile.thy ===== *)
theory Reconcile
  imports Kube_Types
begin

text \<open>
  The reconcile loop shared by the controllers (\<^verbatim>\<open>internal/controller/reconcile_operation.go\<close>,
  \<^verbatim>\<open>common.go\<close>, \<^verbatim>\<open>adapter.go\<close>, \<^verbatim>\<open>controller.go\<close>) and the life cycle of a custom resource, which the
  adapters repeat line by line: deletion, status, finalizer.

  An operation runs on the custom resource the adapter points to and on a world \<^typ>\<open>'w\<close>; the calls of
  the Kubernetes client are functions on that world, so that every answer of the API server, and every failure, is
  possible. In the adapter theories the world is the list of the calls made so far.
\<close>

section \<open>Custom resources and library calls\<close>

text \<open>What the life cycle sees of a custom resource; each kind extends it with its spec.\<close>

record resource =
  rs_Meta :: object_meta
  rs_Conditions :: "condition list"

text \<open>
  The helpers of \<^verbatim>\<open>controllerutil\<close>, \<^verbatim>\<open>meta\<close> and \<^verbatim>\<open>apierrors\<close>. \<^verbatim>\<open>SetControllerReference\<close> sees the
  owner's metadata and kind and the metadata of the controlled object.
\<close>

record kube_lib =
  kl_ContainsFinalizer :: "object_meta \<Rightarrow> string \<Rightarrow> bool"
  kl_AddFinalizer :: "object_meta \<Rightarrow> string \<Rightarrow> object_meta \<times> bool"
  kl_SetStatusCondition :: "condition list \<Rightarrow> condition \<Rightarrow> condition list \<times> bool"
  kl_SetControllerReference :: "object_meta \<Rightarrow> string \<Rightarrow> object_meta \<Rightarrow> goerr + object_meta"
  kl_IsNotFound :: "goerr \<Rightarrow> bool"
  kl_IsConflict :: "goerr \<Rightarrow> bool"
  kl_ReasonConflict :: "goerr \<Rightarrow> bool"

text \<open>
  The documented behaviour of the first three: membership, insertion, and the replacement of the
  condition of the same type, whose result says whether anything changed.
\<close>

definition kube_lib_documented :: "kube_lib \<Rightarrow> bool" where
  "kube_lib_documented L \<longleftrightarrow>
     (\<forall>m f. kl_ContainsFinalizer L m f = (f \<in> set (om_Finalizers m))) \<and>
     (\<forall>m f. kl_AddFinalizer L m f =
        (if f \<in> set (om_Finalizers m) then (m, False)
         else (m\<lparr>om_Finalizers := om_Finalizers m @ [f]\<rparr>, True))) \<and>
     (\<forall>cs c. c \<in> set (fst (kl_SetStatusCondition L cs c)) \<and>
        (\<forall>d \<in> set (fst (kl_SetStatusCondition L cs c)). cd_Type d \<noteq> cd_Type c \<longrightarrow> d \<in> set cs) \<and>
        (snd (kl_SetStatusCondition L cs c) = False \<longrightarrow> fst (kl_SetStatusCondition L cs c) = cs))"

text \<open>
  The client calls of the life cycle. A successful update hands back the object as the server stored it.
\<close>

record ('cr, 'w) cr_client =
  cc_Get :: "nsname \<Rightarrow> 'w \<Rightarrow> (goerr + 'cr) \<times> 'w"
  cc_Update :: "'cr \<Rightarrow> 'w \<Rightarrow> (goerr + 'cr) \<times> 'w"
  cc_StatusUpdate :: "'cr \<Rightarrow> 'w \<Rightarrow> (goerr + 'cr) \<times> 'w"

section \<open>Operation results (reconcile\_operation.go)\<close>

record operation_result =
  RequeueDelay :: int
  RequeueRequest :: bool
  CancelRequest :: bool

definition RequeueOrCancel :: "operation_result \<Rightarrow> bool" where
  "RequeueOrCancel r \<longleftrightarrow> RequeueRequest r \<or> CancelRequest r"

definition ContinueOperationResult :: operation_result where
  "ContinueOperationResult = \<lparr>RequeueDelay = 0, RequeueRequest = False, CancelRequest = False\<rparr>"

definition StopOperationResult :: operation_result where
  "StopOperationResult = \<lparr>RequeueDelay = 0, RequeueRequest = False, CancelRequest = True\<rparr>"

text \<open>The pair a Go operation returns, or its panic.\<close>

datatype op_return = Returned operation_result "goerr option" | Panicked string

definition StopProcessing :: op_return where
  "StopProcessing = Returned StopOperationResult None"

definition Requeue :: op_return where
  "Requeue = Returned \<lparr>RequeueDelay = 0, RequeueRequest = True, CancelRequest = False\<rparr> None"

definition RequeueWithError :: "goerr \<Rightarrow> op_return" where
  "RequeueWithError errIn =
     Returned \<lparr>RequeueDelay = 0, RequeueRequest = True, CancelRequest = False\<rparr> (Some errIn)"

definition ContinueWithError :: "goerr \<Rightarrow> op_return" where
  "ContinueWithError errIn =
     Returned \<lparr>RequeueDelay = 0, RequeueRequest = False, CancelRequest = False\<rparr> (Some errIn)"

definition RequeueOnErrorOrStop :: "goerr option \<Rightarrow> op_return" where
  "RequeueOnErrorOrStop errIn =
     Returned \<lparr>RequeueDelay = 0, RequeueRequest = False, CancelRequest = True\<rparr> errIn"

definition RequeueOnErrorOrContinue :: "goerr \<Rightarrow> op_return" where
  "RequeueOnErrorOrContinue errIn =
     Returned \<lparr>RequeueDelay = 0, RequeueRequest = False, CancelRequest = False\<rparr> (Some errIn)"

definition RequeueAfter :: "int \<Rightarrow> goerr option \<Rightarrow> op_return" where
  "RequeueAfter delay errIn =
     Returned \<lparr>RequeueDelay = delay, RequeueRequest = True, CancelRequest = False\<rparr> errIn"

definition ContinueProcessing :: op_return where
  "ContinueProcessing = Returned ContinueOperationResult None"

section \<open>The handler\<close>

type_synonym ('cr, 'w) operation = "'cr \<times> 'w \<Rightarrow> op_return \<times> 'cr \<times> 'w"

record ctrl_result = res_RequeueAfter :: int

datatype reconcile_return = Done ctrl_result "goerr option" | Crashed string

text \<open>The loop of every \<^verbatim>\<open>ReconcileHandler\<close>.\<close>

fun run_operations :: "('cr, 'w) operation list \<Rightarrow> 'cr \<times> 'w \<Rightarrow> reconcile_return \<times> 'cr \<times> 'w" where
  "run_operations [] s = (Done \<lparr>res_RequeueAfter = 0\<rparr> None, s)"
| "run_operations (operation # ops) s =
     (case operation s of
        (Panicked m, s') \<Rightarrow> (Crashed m, s')
      | (Returned result err, s') \<Rightarrow>
          (if err \<noteq> None \<or> RequeueRequest result
           then (Done \<lparr>res_RequeueAfter = RequeueDelay result\<rparr> err, s')
           else if CancelRequest result then (Done \<lparr>res_RequeueAfter = 0\<rparr> None, s')
           else run_operations ops s'))"

text \<open>
  \<^verbatim>\<open>Reconcile\<close> of the hub, collector, observer and DAL controllers: it fetches the resource, ignores a
  missing one, and keeps of the handler's result only the error.
\<close>

definition Reconcile ::
  "kube_lib \<Rightarrow> ('cr, 'w) cr_client \<Rightarrow> ('cr, 'w) operation list \<Rightarrow> nsname \<Rightarrow> 'w
     \<Rightarrow> reconcile_return \<times> 'w" where
  "Reconcile L cl operations req w =
     (case cc_Get cl req w of
        (Inl err, w') \<Rightarrow>
          (Done \<lparr>res_RequeueAfter = 0\<rparr> (if kl_IsNotFound L err then None else Some err), w')
      | (Inr fetchedCR, w') \<Rightarrow>
          (case run_operations operations (fetchedCR, w') of
             (Done _ err, s) \<Rightarrow> (Done \<lparr>res_RequeueAfter = 0\<rparr> err, snd s)
           | (Crashed m, s) \<Rightarrow> (Crashed m, snd s)))"

section \<open>Constants (common.go)\<close>

definition typeAvailableHub :: string where "typeAvailableHub = ''Available''"
definition typeDegradedHub :: string where "typeDegradedHub = ''Degraded''"
definition hubFinalizer :: string where "hubFinalizer = ''mydecisive.ai/finalizer''"
definition LabelManagedByMdaiKey :: string where "LabelManagedByMdaiKey = ''app.kubernetes.io/managed-by''"
definition LabelManagedByMdaiValue :: string where "LabelManagedByMdaiValue = ''mdai-operator''"
definition LabelAppNameKey :: string where "LabelAppNameKey = ''app.kubernetes.io/name''"
definition LabelAppInstanceKey :: string where "LabelAppInstanceKey = ''app.kubernetes.io/instance''"

datatype object_state = ObjectModified | ObjectUnchanged

text \<open>Seconds, as every duration of the development.\<close>

definition requeueTime :: int where "requeueTime = 5"

section \<open>The life cycle of a custom resource\<close>

abbreviation cr_name :: "('a resource_scheme) \<Rightarrow> string" where
  "cr_name r \<equiv> om_Name (rs_Meta r)"

abbreviation cr_namespace :: "('a resource_scheme) \<Rightarrow> string" where
  "cr_namespace r \<equiv> om_Namespace (rs_Meta r)"

text \<open>The name of the finalizer is an argument: the replay adapter has its own.\<close>

definition ensureFinalizerInitialized ::
  "kube_lib \<Rightarrow> ('a resource_scheme, 'w) cr_client \<Rightarrow> string \<Rightarrow> ('a resource_scheme, 'w) operation" where
  "ensureFinalizerInitialized L cl fz = (\<lambda>(cr, w).
     if kl_ContainsFinalizer L (rs_Meta cr) fz then (ContinueProcessing, cr, w)
     else (case kl_AddFinalizer L (rs_Meta cr) fz of
             (m, ok) \<Rightarrow>
               (let cr1 = cr\<lparr>rs_Meta := m\<rparr>
                in if \<not> ok
                   then (RequeueWithError (ErrNew (''failed to add finalizer '' @ fz)), cr1, w)
                   else (case cc_Update cl cr1 w of
                           (Inl err, w') \<Rightarrow> (RequeueWithError err, cr1, w')
                         | (Inr cr2, w') \<Rightarrow> (StopProcessing, cr2, w')))))"

definition ensureStatusInitialized ::
  "kube_lib \<Rightarrow> ('a resource_scheme, 'w) cr_client \<Rightarrow> ('a resource_scheme, 'w) operation" where
  "ensureStatusInitialized L cl = (\<lambda>(cr, w).
     if rs_Conditions cr \<noteq> [] then (ContinueProcessing, cr, w)
     else (let cr1 = cr\<lparr>rs_Conditions := fst (kl_SetStatusCondition L (rs_Conditions cr)
                 \<lparr>cd_Type = typeAvailableHub, cd_Status = ''Unknown'', cd_Reason = ''Reconciling'',
                  cd_Message = ''Starting reconciliation''\<rparr>)\<rparr>
           in (case cc_StatusUpdate cl cr1 w of
                 (Inl err, w') \<Rightarrow> (RequeueWithError err, cr1, w')
               | (Inr cr2, w') \<Rightarrow> (StopProcessing, cr2, w'))))"

definition deleteFinalizer ::
  "('a resource_scheme, 'w) cr_client \<Rightarrow> string \<Rightarrow> 'a resource_scheme \<times> 'w
     \<Rightarrow> goerr option \<times> 'a resource_scheme \<times> 'w" where
  "deleteFinalizer cl finalizer = (\<lambda>(cr, w).
     let finalizers = om_Finalizers (rs_Meta cr)
     in if finalizer \<in> set finalizers
        then (let cr1 = cr\<lparr>rs_Meta := (rs_Meta cr)\<lparr>om_Finalizers := filter (\<lambda>f. f \<noteq> finalizer) finalizers\<rparr>\<rparr>
              in (case cc_Update cl cr1 w of
                    (Inl err, w') \<Rightarrow> (Some err, cr1, w')
                  | (Inr cr2, w') \<Rightarrow> (None, cr2, w')))
        else (None, cr, w))"

definition ensureFinalizerDeleted ::
  "('a resource_scheme, 'w) cr_client \<Rightarrow> string \<Rightarrow> 'a resource_scheme \<times> 'w
     \<Rightarrow> goerr option \<times> 'a resource_scheme \<times> 'w" where
  "ensureFinalizerDeleted cl fz = deleteFinalizer cl fz"

definition finalizing_condition :: "string \<Rightarrow> condition" where
  "finalizing_condition name =
     \<lparr>cd_Type = typeDegradedHub, cd_Status = ''True'', cd_Reason = ''Finalizing'',
      cd_Message = ''Finalizer operations for custom resource '' @ name @ '' name were successfully accomplished''\<rparr>"

type_synonym ('cr, 'w) finalize_op = "'cr \<times> 'w \<Rightarrow> object_state \<times> goerr option \<times> 'cr \<times> 'w"

text \<open>
  The part of \<^verbatim>\<open>finalize\<close> that all adapters share: the status condition, with a missing resource taken as
  finalized (\<^const>\<open>None\<close> when the finalizer is to be removed next).
\<close>

definition mark_finalizing ::
  "kube_lib \<Rightarrow> ('a resource_scheme, 'w) cr_client \<Rightarrow> 'a resource_scheme \<times> 'w
     \<Rightarrow> (object_state \<times> goerr option) option \<times> 'a resource_scheme \<times> 'w" where
  "mark_finalizing L cl = (\<lambda>(cr, w).
     case cc_Get cl (key_of (rs_Meta cr)) w of
       (Inl err, w') \<Rightarrow>
         (if kl_IsNotFound L err then (Some (ObjectModified, None), cr, w')
          else (Some (ObjectUnchanged, Some err), cr, w'))
     | (Inr cr1, w') \<Rightarrow>
         (case kl_SetStatusCondition L (rs_Conditions cr1) (finalizing_condition (cr_name cr1)) of
            (conds, changed) \<Rightarrow>
              (let cr2 = cr1\<lparr>rs_Conditions := conds\<rparr>
               in if changed
                  then (case cc_StatusUpdate cl cr2 w' of
                          (Inl err, w2) \<Rightarrow>
                            (if kl_IsNotFound L err then (Some (ObjectModified, None), cr2, w2)
                             else (Some (ObjectUnchanged, Some err), cr2, w2))
                        | (Inr cr3, w2) \<Rightarrow> (None, cr3, w2))
                  else (None, cr2, w'))))"

definition finalize ::
  "kube_lib \<Rightarrow> ('a resource_scheme, 'w) cr_client \<Rightarrow> string \<Rightarrow> ('a resource_scheme, 'w) finalize_op" where
  "finalize L cl fz = (\<lambda>(cr, w).
     if \<not> kl_ContainsFinalizer L (rs_Meta cr) fz then (ObjectModified, None, cr, w)
     else (case mark_finalizing L cl (cr, w) of
             (Some (st, err), s) \<Rightarrow> (st, err, s)
           | (None, s) \<Rightarrow>
               (case ensureFinalizerDeleted cl fz s of
                  (Some err, s') \<Rightarrow> (ObjectUnchanged, Some err, s')
                | (None, s') \<Rightarrow> (ObjectModified, None, s'))))"

definition ensureDeletionProcessed ::
  "('a resource_scheme, 'w) finalize_op \<Rightarrow> ('a resource_scheme, 'w) operation" where
  "ensureDeletionProcessed fin = (\<lambda>(cr, w).
     if om_DeletionTimestamp (rs_Meta cr) = None then (ContinueProcessing, cr, w)
     else (case fin (cr, w) of
             (crState, err, s) \<Rightarrow>
               (if crState = ObjectUnchanged \<or> err \<noteq> None then (RequeueAfter requeueTime err, s)
                else (StopProcessing, s))))"

definition ensureStatusSetToDone ::
  "kube_lib \<Rightarrow> ('a resource_scheme, 'w) cr_client \<Rightarrow> ('a resource_scheme, 'w) operation" where
  "ensureStatusSetToDone L cl = (\<lambda>(cr, w).
     case cc_Get cl (key_of (rs_Meta cr)) w of
       (Inl err, w') \<Rightarrow> (Requeue, cr, w')
     | (Inr cr1, w') \<Rightarrow>
         (let cr2 = cr1\<lparr>rs_Conditions := fst (kl_SetStatusCondition L (rs_Conditions cr1)
                 \<lparr>cd_Type = typeAvailableHub, cd_Status = ''True'', cd_Reason = ''Reconciling'',
                  cd_Message = ''reconciled successfully''\<rparr>)\<rparr>
          in (case cc_StatusUpdate cl cr2 w' of
                (Inl err, w2) \<Rightarrow> (if kl_ReasonConflict L err then (Requeue, cr2, w2) else (Requeue, cr2, w2))
              | (Inr cr3, w2) \<Rightarrow> (ContinueProcessing, cr3, w2))))"

text \<open>
  The operations of the observer and collector controllers in their order, over the adapter's \<^verbatim>\<open>finalize\<close> and
  \<^verbatim>\<open>ensureSynchronized\<close>.
\<close>

definition lifecycle_operations ::
  "kube_lib \<Rightarrow> ('a resource_scheme, 'w) cr_client \<Rightarrow> string \<Rightarrow> ('a resource_scheme, 'w) finalize_op
     \<Rightarrow> ('a resource_scheme, 'w) operation list \<Rightarrow> ('a resource_scheme, 'w) operation list" where
  "lifecycle_operations L cl fz fin sync =
     [ensureDeletionProcessed fin, ensureStatusInitialized L cl, ensureFinalizerInitialized L cl fz] @ sync @
     [ensureStatusSetToDone L cl]"

section \<open>Lemmas on the handler\<close>

lemmas op_return_defs =
  StopProcessing_def Requeue_def RequeueWithError_def ContinueWithError_def RequeueOnErrorOrStop_def
  RequeueOnErrorOrContinue_def RequeueAfter_def ContinueProcessing_def StopOperationResult_def
  ContinueOperationResult_def

text \<open>An operation that does not let the handler go on.\<close>

definition halts :: "op_return \<Rightarrow> bool" where
  "halts r \<longleftrightarrow> (case r of Panicked _ \<Rightarrow> True
                | Returned res err \<Rightarrow> err \<noteq> None \<or> RequeueRequest res \<or> CancelRequest res)"

lemma halts_simps [simp]:
  "halts (Panicked m)" "halts StopProcessing" "halts Requeue" "halts (RequeueWithError e)"
  "halts (ContinueWithError e)" "halts (RequeueOnErrorOrContinue e)" "halts (RequeueAfter d eo)"
  "\<not> halts ContinueProcessing"
  by (simp_all add: halts_def op_return_defs)

lemma run_operations_Cons:
  "run_operations (opn # ops) s =
     (if halts (fst (opn s))
      then (case fst (opn s) of
              Panicked m \<Rightarrow> Crashed m
            | Returned res err \<Rightarrow>
                if err \<noteq> None \<or> RequeueRequest res then Done \<lparr>res_RequeueAfter = RequeueDelay res\<rparr> err
                else Done \<lparr>res_RequeueAfter = 0\<rparr> None, snd (opn s))
      else run_operations ops (snd (opn s)))"
  by (auto simp: halts_def split: prod.splits op_return.splits)

declare run_operations.simps(2) [simp del]

lemma run_operations_keeps:
  assumes "\<And>opn s. opn \<in> set ops \<Longrightarrow> P (snd s) \<Longrightarrow> P (snd (snd (opn s)))" "P (snd s)"
  shows "P (snd (snd (run_operations ops s)))"
  using assms
proof (induction ops arbitrary: s)
  case (Cons opn ops)
  have "P (snd (snd (opn s)))" using Cons.prems by simp
  with Cons.IH [of "snd (opn s)"] Cons.prems(1) show ?case
    by (simp add: run_operations_Cons)
qed simp

lemma run_operations_halt:
  "halts (fst (opn s)) \<Longrightarrow> snd (run_operations (opn # ops) s) = snd (opn s)"
  by (simp add: run_operations_Cons)

section \<open>Lemmas on the life cycle\<close>

lemma deletion_halts:
  "om_DeletionTimestamp (rs_Meta cr) \<noteq> None \<Longrightarrow> halts (fst (ensureDeletionProcessed fin (cr, w)))"
  by (auto simp: ensureDeletionProcessed_def split: prod.splits)

lemma deletion_skipped:
  "om_DeletionTimestamp (rs_Meta cr) = None \<Longrightarrow>
     ensureDeletionProcessed fin (cr, w) = (ContinueProcessing, cr, w)"
  by (simp add: ensureDeletionProcessed_def)

lemma status_halts: "rs_Conditions cr = [] \<Longrightarrow> halts (fst (ensureStatusInitialized L cl (cr, w)))"
  by (auto simp: ensureStatusInitialized_def Let_def split: prod.splits sum.splits)

lemma status_skipped:
  "rs_Conditions cr \<noteq> [] \<Longrightarrow> ensureStatusInitialized L cl (cr, w) = (ContinueProcessing, cr, w)"
  by (simp add: ensureStatusInitialized_def)

lemma finalizer_halts:
  "\<not> kl_ContainsFinalizer L (rs_Meta cr) fz \<Longrightarrow>
     halts (fst (ensureFinalizerInitialized L cl fz (cr, w)))"
  by (auto simp: ensureFinalizerInitialized_def Let_def split: prod.splits sum.splits)

lemma finalizer_skipped:
  "kl_ContainsFinalizer L (rs_Meta cr) fz \<Longrightarrow>
     ensureFinalizerInitialized L cl fz (cr, w) = (ContinueProcessing, cr, w)"
  by (simp add: ensureFinalizerInitialized_def)

text \<open>A resource that the synchronisation may run on.\<close>

definition ready :: "kube_lib \<Rightarrow> string \<Rightarrow> 'a resource_scheme \<Rightarrow> bool" where
  "ready L fz cr \<longleftrightarrow> om_DeletionTimestamp (rs_Meta cr) = None \<and> rs_Conditions cr \<noteq> [] \<and>
     kl_ContainsFinalizer L (rs_Meta cr) fz"

lemma lifecycle_ready:
  assumes "ready L fz cr"
  shows "run_operations (lifecycle_operations L cl fz fin sync) (cr, w) =
    run_operations (sync @ [ensureStatusSetToDone L cl]) (cr, w)"
  using assms
  by (simp add: ready_def lifecycle_operations_def run_operations_Cons deletion_skipped status_skipped
      finalizer_skipped)

text \<open>
  What the handler relies on in an adapter: the client calls of the life cycle and the adapter's
  \<^verbatim>\<open>finalize\<close> keep a property of the world, whatever the API server answers.
\<close>

locale lifecycle_calls =
  fixes L :: kube_lib
    and cl :: "('a resource_scheme, 'w) cr_client"
    and fz :: string
    and fin :: "('a resource_scheme, 'w) finalize_op"
    and P :: "'w \<Rightarrow> bool"
  assumes get_keeps: "P w \<Longrightarrow> P (snd (cc_Get cl k w))"
    and update_keeps: "P w \<Longrightarrow> P (snd (cc_Update cl cr w))"
    and status_keeps: "P w \<Longrightarrow> P (snd (cc_StatusUpdate cl cr w))"
    and finalize_keeps: "P w \<Longrightarrow> P (snd (snd (snd (fin (cr, w)))))"
begin

lemma deletion_keeps: "P w \<Longrightarrow> P (snd (snd (ensureDeletionProcessed fin (cr, w))))"
  using finalize_keeps [of w cr] by (auto simp: ensureDeletionProcessed_def split: prod.splits)

lemma status_op_keeps: "P w \<Longrightarrow> P (snd (snd (ensureStatusInitialized L cl (cr, w))))"
proof -
  assume "P w"
  then have "P (snd (cc_StatusUpdate cl c w))" for c by (rule status_keeps)
  then show ?thesis using \<open>P w\<close>
    by (auto simp: ensureStatusInitialized_def Let_def split: prod.splits sum.splits) (metis snd_conv)+
qed

lemma finalizer_op_keeps: "P w \<Longrightarrow> P (snd (snd (ensureFinalizerInitialized L cl fz (cr, w))))"
proof -
  assume "P w"
  then have "P (snd (cc_Update cl c w))" for c by (rule update_keeps)
  then show ?thesis using \<open>P w\<close>
    by (auto simp: ensureFinalizerInitialized_def Let_def split: prod.splits sum.splits) (metis snd_conv)+
qed

text \<open>Unless the resource is ready, the synchronisation is not run.\<close>

lemma not_ready_keeps:
  assumes "\<not> ready L fz cr" "P w"
  shows "P (snd (snd (run_operations (lifecycle_operations L cl fz fin sync) (cr, w))))"
proof (cases "om_DeletionTimestamp (rs_Meta cr) = None")
  case False
  then show ?thesis
    using deletion_keeps [OF assms(2)]
    by (simp add: lifecycle_operations_def run_operations_halt deletion_halts)
next
  case alive: True
  show ?thesis
  proof (cases "rs_Conditions cr = []")
    case True
    then show ?thesis
      using status_op_keeps [OF assms(2)]
      by (simp add: lifecycle_operations_def run_operations_Cons [of "ensureDeletionProcessed fin"]
          deletion_skipped [OF alive] run_operations_halt status_halts)
  next
    case conds: False
    then have "\<not> kl_ContainsFinalizer L (rs_Meta cr) fz"
      using assms(1) alive by (simp add: ready_def)
    then show ?thesis
      using finalizer_op_keeps [OF assms(2)]
      by (simp add: lifecycle_operations_def run_operations_Cons [of "ensureDeletionProcessed fin"]
          run_operations_Cons [of "ensureStatusInitialized L cl"]
          deletion_skipped [OF alive] status_skipped [OF conds] run_operations_halt finalizer_halts)
  qed
qed

end

text \<open>\<^verbatim>\<open>finalize\<close> only makes client calls.\<close>

lemma deleteFinalizer_keeps:
  assumes "\<And>c w. P w \<Longrightarrow> P (snd (cc_Update cl c w))" "P (snd s)"
  shows "P (snd (snd (deleteFinalizer cl f s)))"
  using assms(1) [OF assms(2)] assms(2)
  by (auto simp: deleteFinalizer_def Let_def split: prod.splits sum.splits) (metis snd_conv)+

lemma mark_finalizing_keeps:
  assumes "\<And>k w. P w \<Longrightarrow> P (snd (cc_Get cl k w))" "\<And>c w. P w \<Longrightarrow> P (snd (cc_StatusUpdate cl c w))" "P (snd s)"
  shows "P (snd (snd (mark_finalizing L cl s)))"
proof -
  obtain cr w where s: "s = (cr, w)" by (cases s)
  obtain r w' where g: "cc_Get cl (key_of (rs_Meta cr)) w = (r, w')" by fastforce
  have P': "P w'" using assms(1) [of w "key_of (rs_Meta cr)"] assms(3) g s by simp
  have "P (snd (cc_StatusUpdate cl c w'))" for c using P' by (rule assms(2))
  with P' show ?thesis
    by (auto simp: s mark_finalizing_def g Let_def split: prod.splits sum.splits) (metis snd_conv)+
qed

lemma finalize_keeps_world:
  assumes "\<And>k w. P w \<Longrightarrow> P (snd (cc_Get cl k w))" "\<And>c w. P w \<Longrightarrow> P (snd (cc_StatusUpdate cl c w))"
    "\<And>c w. P w \<Longrightarrow> P (snd (cc_Update cl c w))" "P w"
  shows "P (snd (snd (snd (finalize L cl fz (cr, w)))))"
proof -
  obtain r s where m: "mark_finalizing L cl (cr, w) = (r, s)"
    by (cases "mark_finalizing L cl (cr, w)")
  have Ps: "P (snd s)" using mark_finalizing_keeps [of P cl "(cr, w)" L] assms m by simp
  have "P (snd (snd (ensureFinalizerDeleted cl fz s)))"
    unfolding ensureFinalizerDeleted_def using assms(3) Ps by (rule deleteFinalizer_keeps)
  with Ps show ?thesis using assms(4)
    by (auto simp: finalize_def m split: prod.splits option.splits)
qed

text \<open>When the finalizer is to be removed next, the resource was fetched and its status accepted.\<close>

lemma deleteFinalizer_None:
  assumes "fst (deleteFinalizer cl f (cr, w)) = None"
  shows "f \<notin> set (om_Finalizers (rs_Meta cr)) \<or>
    (\<exists>cr1 cr2 w'. cc_Update cl cr1 w = (Inr cr2, w') \<and>
       cr1 = cr\<lparr>rs_Meta := (rs_Meta cr)\<lparr>om_Finalizers := filter (\<lambda>g. g \<noteq> f) (om_Finalizers (rs_Meta cr))\<rparr>\<rparr>)"
  using assms by (auto simp: deleteFinalizer_def Let_def split: if_splits prod.splits sum.splits)

lemma mark_finalizing_Some:
  assumes "fst (mark_finalizing L cl (cr, w)) = Some (ObjectModified, err)"
  shows "err = None \<and> (\<exists>e k w' c w''. kl_IsNotFound L e \<and>
    (cc_Get cl k w = (Inl e, w') \<or> cc_StatusUpdate cl c w'' = (Inl e, w')))"
  using assms
  by (auto simp: mark_finalizing_def Let_def split: if_splits prod.splits sum.splits) blast+

section \<open>Properties\<close>

text \<open>Operations that all let the handler go on, and the copy and the world they end with.\<close>

fun passes :: "('cr, 'w) operation list \<Rightarrow> 'cr \<times> 'w \<Rightarrow> ('cr \<times> 'w) option" where
  "passes [] s = Some s"
| "passes (opn # ops) s = (case opn s of (r, s') \<Rightarrow> if halts r then None else passes ops s')"

lemma run_operations_passes: "passes ops s = Some s' \<Longrightarrow> run_operations (ops @ rest) s = run_operations rest s'"
  by (induction ops arbitrary: s) (auto simp: run_operations_Cons split: prod.splits if_splits)

text \<open>
  C35. A status that could not be written at the end of a reconciliation is not retried. When the resource is ready and its
  synchronisation went through, but the resource cannot be read again or the API server refuses the status update, the
  last operation asks for a requeue, and the reconcilers of the hub, collector and observer drop that request: they return without an
  error and without a delay, so nothing calls them again until the next event. The replay reconciler, which returns the
  result of its operations, and the DAL, which has a last operation of its own, are not meant here.
\<close>

theorem failed_status_update_not_retried:
  assumes "cc_Get cl req w = (Inr cr, w1)" "ready L fz cr" "passes sync (cr, w1) = Some (cr2, w2)"
    and "case cc_Get cl (key_of (rs_Meta cr2)) w2 of
      (Inl e, w3) \<Rightarrow> True
    | (Inr cr3, w3) \<Rightarrow> (\<forall>c. \<exists>e w4. cc_StatusUpdate cl c w3 = (Inl e, w4))"
  shows "fst (ensureStatusSetToDone L cl (cr2, w2)) = Requeue \<and>
    fst (Reconcile L cl (lifecycle_operations L cl fz fin sync) req w) = Done \<lparr>res_RequeueAfter = 0\<rparr> None"
proof -
  have "fst (ensureStatusSetToDone L cl (cr2, w2)) = Requeue"
    using assms(4) by (auto simp: ensureStatusSetToDone_def Let_def split: prod.splits sum.splits) (metis prod.inject sum.simps(4))+
  then show ?thesis
    by (auto simp: Reconcile_def assms(1) lifecycle_ready [OF assms(2)] run_operations_passes [OF assms(3)]
        run_operations_Cons op_return_defs split: prod.splits)
qed

definition sample_lib :: kube_lib where
  "sample_lib =
    \<lparr>kl_ContainsFinalizer = (\<lambda>m f. f \<in> set (om_Finalizers m)),
     kl_AddFinalizer = (\<lambda>m f. if f \<in> set (om_Finalizers m) then (m, False)
        else (m\<lparr>om_Finalizers := om_Finalizers m @ [f]\<rparr>, True)),
     kl_SetStatusCondition = (\<lambda>cs c. (filter (\<lambda>d. cd_Type d \<noteq> cd_Type c) cs @ [c], True)),
     kl_SetControllerReference = (\<lambda>om k m. Inr (m\<lparr>om_OwnerReferences :=
        [\<lparr>or_Name = om_Name om, or_Kind = k, or_UID = om_UID om\<rparr>]\<rparr>)),
     kl_IsNotFound = (\<lambda>e. e = ErrLib ''not found''),
     kl_IsConflict = (\<lambda>e. e = ErrLib ''conflict''),
     kl_ReasonConflict = (\<lambda>e. e = ErrLib ''conflict'')\<rparr>"

lemma sample_lib_documented: "kube_lib_documented sample_lib"
  by (auto simp: kube_lib_documented_def sample_lib_def)

definition sample_cr :: resource where
  "sample_cr = \<lparr>rs_Meta = (meta_named ''hub'' ''mdai'')\<lparr>om_Finalizers := [hubFinalizer, ''other'']\<rparr>,
     rs_Conditions = [\<lparr>cd_Type = ''Available'', cd_Status = ''Unknown'', cd_Reason = [], cd_Message = []\<rparr>]\<rparr>"

text \<open>A server with one stored resource, and one whose status updates conflict.\<close>

definition sample_client :: "(resource, resource) cr_client" where
  "sample_client = \<lparr>cc_Get = (\<lambda>k w. (Inr w, w)), cc_Update = (\<lambda>c w. (Inr c, c)),
     cc_StatusUpdate = (\<lambda>c w. (Inr c, c))\<rparr>"

definition conflicting_client :: "(resource, resource) cr_client" where
  "conflicting_client = sample_client\<lparr>cc_StatusUpdate := (\<lambda>c w. (Inl (ErrLib ''conflict''), w))\<rparr>"

lemma sample_ready: "ready sample_lib hubFinalizer sample_cr"
  by code_simp

theorem failed_status_update_not_retried_witness:
  "fst (Reconcile sample_lib conflicting_client
      (lifecycle_operations sample_lib conflicting_client hubFinalizer (finalize sample_lib conflicting_client hubFinalizer)
         [\<lambda>s. (ContinueProcessing, s)]) (key_of (rs_Meta sample_cr)) sample_cr) =
    Done \<lparr>res_RequeueAfter = 0\<rparr> None"
  using failed_status_update_not_retried [OF _ sample_ready, of conflicting_client "key_of (rs_Meta sample_cr)" sample_cr
      sample_cr "[\<lambda>s. (ContinueProcessing, s)]" sample_cr sample_cr]
  by (simp add: conflicting_client_def sample_client_def)

text \<open>
  \<^const>\<open>finalize\<close> reports success for a resource that carries the finalizer only when the API
  server said that the resource is gone, or accepted an update of the fetched resource in which
  exactly this finalizer is removed, or the fetched resource no longer had it.
\<close>

theorem finalize_success:
  assumes "kl_ContainsFinalizer L (rs_Meta cr) fz"
    and "finalize L cl fz (cr, w) = (ObjectModified, err, s)"
  shows "err = None \<and>
    ((\<exists>e k w' c w''. kl_IsNotFound L e \<and>
        (cc_Get cl k w = (Inl e, w') \<or> cc_StatusUpdate cl c w'' = (Inl e, w'))) \<or>
     (\<exists>cr1 w1. fz \<notin> set (om_Finalizers (rs_Meta cr1)) \<and>
        mark_finalizing L cl (cr, w) = (None, cr1, w1)) \<or>
     (\<exists>cr1 cr2 cr3 w1 w2. mark_finalizing L cl (cr, w) = (None, cr1, w1) \<and>
        cc_Update cl cr2 w1 = (Inr cr3, w2) \<and>
        cr2 = cr1\<lparr>rs_Meta := (rs_Meta cr1)
          \<lparr>om_Finalizers := filter (\<lambda>f. f \<noteq> fz) (om_Finalizers (rs_Meta cr1))\<rparr>\<rparr>))"
proof -
  obtain r cr1 w1 where m: "mark_finalizing L cl (cr, w) = (r, cr1, w1)"
    by (cases "mark_finalizing L cl (cr, w)") auto
  show ?thesis
  proof (cases r)
    case None
    with assms m have "fst (ensureFinalizerDeleted cl fz (cr1, w1)) = None" "err = None"
      by (auto simp: finalize_def split: prod.splits option.splits)
    with deleteFinalizer_None [of cl fz cr1 w1] m None show ?thesis
      unfolding ensureFinalizerDeleted_def by blast
  next
    case (Some x)
    with assms m have "fst (mark_finalizing L cl (cr, w)) = Some (ObjectModified, err)"
      by (auto simp: finalize_def split: prod.splits)
    from mark_finalizing_Some [OF this] show ?thesis by blast
  qed
qed

theorem finalize_success_witness:
  "fst (snd (finalize sample_lib sample_client hubFinalizer (sample_cr, sample_cr))) = None"
proof -
  have "kl_ContainsFinalizer sample_lib (rs_Meta sample_cr) hubFinalizer"
    by (simp add: sample_lib_def sample_cr_def)
  moreover have "fst (finalize sample_lib sample_client hubFinalizer (sample_cr, sample_cr)) = ObjectModified"
    by code_simp
  ultimately show ?thesis
    using finalize_success [of sample_lib sample_cr hubFinalizer sample_client sample_cr]
    by (cases "finalize sample_lib sample_client hubFinalizer (sample_cr, sample_cr)") auto
qed

end
