(* ===== verification/Api_Types.thy ===== *)
theory Api_Types
  imports Reconcile
begin

text \<open>
  The custom resources of \<^verbatim>\<open>api/v1\<close>. Each extends \<^typ>\<open>resource\<close> with its spec and the status
  fields its controller writes. String enumerations stay strings, as in the source; a pointer, and a slice that the
  code compares with \<^verbatim>\<open>nil\<close>, is an option.
\<close>

section \<open>Replay (mdaireplay\_types.go)\<close>

record replay_s3 =
  r3_S3Region :: string
  r3_S3Bucket :: string
  r3_FilePrefix :: string
  r3_S3Path :: string
  r3_S3Partition :: string

record replay_spec =
  rp_StartTime :: string
  rp_EndTime :: string
  rp_TelemetryType :: string
  rp_HubName :: string
  rp_StatusVariableRef :: string
  rp_OpAMPEndpoint :: string
  rp_IgnoreSendingQueue :: bool
  rp_AWSConfig :: "string option option"
  rp_S3 :: "replay_s3 option"
  rp_OtlpHttp :: "string option"
  rp_Image :: string

record mdai_replay = resource +
  rpl_Spec :: replay_spec

section \<open>Hub (mdaihub\_types.go)\<close>

record variable_transformer =
  tr_Type :: string
  tr_Join :: "string option"

record serializer =
  sz_Name :: string
  sz_Transformers :: "variable_transformer list"

record hub_variable =
  va_Key :: string
  va_Type :: string
  va_DataType :: string
  va_StorageType :: string
  va_VariableRefs :: "string list option"
  va_SerializeAs :: "serializer list option"

record prometheus_alert =
  al_Name :: string
  al_Expr :: int_or_string
  al_For :: "string option"
  al_KeepFiringFor :: "string option"
  al_Severity :: string

record set_action =
  sea_Set :: string
  sea_Value :: string

record scalar_action =
  sca_Scalar :: string
  sca_Value :: string

record map_action =
  maa_Map :: string
  maa_Key :: string
  maa_Value :: "string option"

datatype value_from = FromSecret string string | FromConfigMap string string

record string_or_from =
  sof_Value :: "string option"
  sof_ValueFrom :: "value_from option"

record call_webhook =
  cw_URL :: string_or_from
  cw_Method :: string
  cw_TemplateRef :: string
  cw_PayloadTemplate :: "string_or_from option"
  cw_TemplateValues :: labels
  cw_TemplateValuesFrom :: "(string, value_from) gomap"
  cw_Headers :: labels
  cw_HeadersFrom :: "(string, value_from) gomap"
  cw_Timeout :: "int option"

record hub_action =
  ac_AddToSet :: "set_action option"
  ac_RemoveFromSet :: "set_action option"
  ac_SetVariable :: "scalar_action option"
  ac_AddToMap :: "map_action option"
  ac_RemoveFromMap :: "map_action option"
  ac_CallWebhook :: "call_webhook option"
  ac_DeployReplay :: "replay_spec option"
  ac_CleanUpReplay :: "unit option"

record rule_when =
  wh_AlertName :: "string option"
  wh_Status :: "string option"
  wh_VariableUpdated :: "string option"
  wh_UpdateType :: "string option"

record automation_rule =
  ar_Name :: string
  ar_When :: rule_when
  ar_Then :: "hub_action list"

record mdai_hub = resource +
  hub_EvaluationInterval :: "string option option"
  hub_Variables :: "hub_variable list"
  hub_PrometheusAlerts :: "prometheus_alert list option"
  hub_Rules :: "automation_rule list option"

definition slice :: "'a list option \<Rightarrow> 'a list" where
  "slice xs = (case xs of None \<Rightarrow> [] | Some ys \<Rightarrow> ys)"

lemma slice_simps [simp]: "slice None = []" "slice (Some xs) = xs"
  by (simp_all add: slice_def)

definition VariableSourceTypeBuiltInValkey :: string where
  "VariableSourceTypeBuiltInValkey = ''mdai-valkey''"
definition VariableTypeManual :: string where "VariableTypeManual = ''manual''"
definition VariableTypeComputed :: string where "VariableTypeComputed = ''computed''"
definition VariableTypeMeta :: string where "VariableTypeMeta = ''meta''"
definition VariableDataTypeInt :: string where "VariableDataTypeInt = ''int''"
definition VariableDataTypeFloat :: string where "VariableDataTypeFloat = ''float''"
definition VariableDataTypeBoolean :: string where "VariableDataTypeBoolean = ''boolean''"
definition VariableDataTypeString :: string where "VariableDataTypeString = ''string''"
definition VariableDataTypeSet :: string where "VariableDataTypeSet = ''set''"
definition VariableDataTypeMap :: string where "VariableDataTypeMap = ''map''"
definition MetaVariableDataTypeHashSet :: string where "MetaVariableDataTypeHashSet = ''metaHashSet''"
definition MetaVariableDataTypePriorityList :: string where
  "MetaVariableDataTypePriorityList = ''metaPriorityList''"
definition TransformerTypeJoin :: string where "TransformerTypeJoin = ''join''"
definition TemplateRefSlack :: string where "TemplateRefSlack = ''slackAlertTemplate''"
definition TemplateRefJSON :: string where "TemplateRefJSON = ''jsonTemplate''"

lemmas hub_constants =
  VariableSourceTypeBuiltInValkey_def VariableTypeManual_def VariableTypeComputed_def
  VariableTypeMeta_def VariableDataTypeInt_def VariableDataTypeFloat_def VariableDataTypeBoolean_def
  VariableDataTypeString_def VariableDataTypeSet_def VariableDataTypeMap_def
  MetaVariableDataTypeHashSet_def MetaVariableDataTypePriorityList_def TransformerTypeJoin_def
  TemplateRefSlack_def TemplateRefJSON_def

section \<open>Collector (mdaicollector\_types.go)\<close>

definition AuditLogstream :: string where "AuditLogstream = ''audit''"
definition CollectorLogstream :: string where "CollectorLogstream = ''collector''"
definition HubLogstream :: string where "HubLogstream = ''hub''"
definition OtherLogstream :: string where "OtherLogstream = ''other''"

record logstream_config =
  ls_MinSeverity :: "string option"
  ls_Disabled :: bool

text \<open>The audit stream has the one switch \<^verbatim>\<open>Disabled\<close>.\<close>

record s3_logs =
  s3_AuditLogs :: "bool option"
  s3_CollectorLogs :: "logstream_config option"
  s3_HubLogs :: "logstream_config option"
  s3_OtherLogs :: "logstream_config option"
  s3_S3Region :: string
  s3_S3Bucket :: string

record otlp_logs =
  ot_AuditLogs :: "bool option"
  ot_CollectorLogs :: "logstream_config option"
  ot_HubLogs :: "logstream_config option"
  ot_OtherLogs :: "logstream_config option"
  ot_Endpoint :: string

record logs_config =
  lc_S3 :: "s3_logs option"
  lc_Otlp :: "otlp_logs option"

text \<open>\<^verbatim>\<open>AWSConfig\<close> points to a struct whose one field is a pointer to the name of the secret.\<close>

record mdai_collector = resource +
  mc_AWSConfig :: "string option option"
  mc_Logs :: "logs_config option"
  mc_Image :: string
  mc_Replicas :: int
  mc_Tolerations :: "toleration list"

section \<open>Observer (mdaiobserver\_types.go)\<close>

record observer_filter =
  ofi_ErrorMode :: "string option"
  ofi_LogRecord :: "string list option"

record observer =
  ob_Name :: string
  ob_LabelResourceAttributes :: "string list"
  ob_CountMetricName :: "string option"
  ob_BytesMetricName :: "string option"
  ob_Filter :: "observer_filter option"

record observer_resource =
  or_Image :: string
  or_Replicas :: int
  or_Resources :: "string option"
  or_GrpcReceiverMaxMsgSize :: "nat option"
  or_OwnLogsOtlpEndpoint :: "string option"
  or_Tolerations :: "toleration list"

record mdai_observer = resource +
  mo_Observers :: "observer list"
  mo_ObserverResource :: observer_resource

section \<open>DAL (mdaidal\_types.go)\<close>

record dal_image =
  di_Repository :: string
  di_Tag :: string
  di_PullPolicy :: string

record mdai_dal = resource +
  dal_Granularity :: string
  dal_UsePayloadTS :: bool
  dal_Marshaler :: string
  dal_Bucket :: string
  dal_Prefix :: string
  dal_Region :: string
  dal_SecretName :: string
  dal_AccessKeyField :: string
  dal_SecretKeyField :: string
  dal_ImageSpec :: "dal_image option"
  dal_ObservedGeneration :: int
  dal_Replicas :: int
  dal_ReadyReplicas :: int
  dal_Endpoint :: string
  dal_LastSyncedTime :: "int option"

definition ToK8s :: "string \<Rightarrow> string" where
  "ToK8s p = (if p = [] then ''IfNotPresent'' else p)"

end
