(* ===== verification/Naming.thy ===== *)
theory Naming
  imports Prelude
begin

text \<open>
  The package \<^verbatim>\<open>internal/naming\<close>: truncation of generated names, DNS-safe names, the
  names of the objects built for a collector, and service port names.
\<close>

section \<open>Truncation (triming.go)\<close>

text \<open>
  \<^verbatim>\<open>fmt.Sprintf\<close> for the formats the package uses: literal text and \<^verbatim>\<open>%s\<close> verbs. A value
  is a string or a value of another type with its rendering; a verb without a value
  prints \<^verbatim>\<open>%!s(MISSING)\<close>. Every caller passes as many values as the format has verbs.
\<close>

datatype fmt_seg = Lit string | Verb

datatype fmt_arg = ArgStr string | ArgOther string

fun arg_text :: "fmt_arg \<Rightarrow> string" where
  "arg_text (ArgStr s) = s"
| "arg_text (ArgOther s) = s"

fun Sprintf :: "fmt_seg list \<Rightarrow> fmt_arg list \<Rightarrow> string" where
  "Sprintf [] vs = []"
| "Sprintf (Lit s # f) vs = s @ Sprintf f vs"
| "Sprintf (Verb # f) [] = ''%!s(MISSING)'' @ Sprintf f []"
| "Sprintf (Verb # f) (v # vs) = arg_text v @ Sprintf f vs"

text \<open>\<^verbatim>\<open>[^A-Za-z0-9]+$\<close> and \<^verbatim>\<open>^[^A-Za-z0-9]+\<close>, replaced by the empty string.\<close>

definition regexpEndReplace :: "string \<Rightarrow> string" where
  "regexpEndReplace s = rev (dropWhile (\<lambda>c. \<not> is_alnum c) (rev s))"

definition regexpBeginReplace :: "string \<Rightarrow> string" where
  "regexpBeginReplace s = dropWhile (\<lambda>c. \<not> is_alnum c) s"

definition trimNonAlphaNumeric :: "string \<Rightarrow> string" where
  "trimNonAlphaNumeric text = (let newText = regexpEndReplace text in regexpBeginReplace newText)"

text \<open>The loop over the values, with the excess still to be removed.\<close>

fun truncate_values :: "nat \<Rightarrow> fmt_arg list \<Rightarrow> fmt_arg list" where
  "truncate_values excess [] = []"
| "truncate_values excess (v # vs) =
     (if excess = 0 then v # truncate_values excess vs
      else (case v of
              ArgStr s \<Rightarrow>
                (if length s > excess
                 then ArgStr (take (length s - excess) s) # truncate_values 0 vs
                 else ArgStr [] # truncate_values (excess - length s) vs)
            | ArgOther _ \<Rightarrow> v # truncate_values excess vs))"

definition Truncate :: "fmt_seg list \<Rightarrow> nat \<Rightarrow> fmt_arg list \<Rightarrow> string" where
  "Truncate format maxLen values =
     (let result = Sprintf format values;
          result = (if length result > maxLen
                    then Sprintf format (truncate_values (length result - maxLen) values)
                    else result)
      in if length result > maxLen then take maxLen result
         else trimNonAlphaNumeric result)"

section \<open>DNS names (dns.go)\<close>

text \<open>
  On ASCII text the byte index of \<^verbatim>\<open>range\<close> is the rune index, and the rune count is the
  length.
\<close>

fun dns_runes :: "nat \<Rightarrow> nat \<Rightarrow> string \<Rightarrow> string" where
  "dns_runes i n [] = []"
| "dns_runes i n (x # xs) =
     (if is_lower_alnum x then x
      else if i = 0 \<or> i = n - 1 then CHR ''a'' else CHR ''-'') # dns_runes (Suc i) n xs"

definition DNSName :: "string \<Rightarrow> string" where
  "DNSName name = dns_runes 0 (length name) (ToLower name)"

section \<open>Names of the objects of a collector (main.go)\<close>

text \<open>\<^verbatim>\<open>configHash[:8]\<close> panics when the hash is shorter than eight bytes.\<close>

definition ConfigMap :: "string \<Rightarrow> string \<Rightarrow> string outcome" where
  "ConfigMap otelcol configHash =
     (if length configHash < 8 then Panic ''slice bounds out of range''
      else Ok (DNSName (Truncate [Verb, Lit ''-collector-'', Verb] 63
                 [ArgStr otelcol, ArgStr (take 8 configHash)])))"

definition ConfigMapVolume :: string where
  "ConfigMapVolume = ''otc-internal''"

definition ConfigMapExtra :: "string \<Rightarrow> string" where
  "ConfigMapExtra extraConfigMapName =
     DNSName (Truncate [Lit ''configmap-'', Verb] 63 [ArgStr extraConfigMapName])"

definition OpenTelemetryCollectorName :: "string \<Rightarrow> string" where
  "OpenTelemetryCollectorName otelcolName = DNSName (Truncate [Verb] 63 [ArgStr otelcolName])"

text \<open>The functions of the form \<^verbatim>\<open>DNSName(Truncate("%s-suffix", 63, name))\<close>.\<close>

definition suffixed_name :: "string \<Rightarrow> string \<Rightarrow> string" where
  "suffixed_name suffix name = DNSName (Truncate [Verb, Lit suffix] 63 [ArgStr name])"

definition Service :: "string \<Rightarrow> string" where
  "Service otelcol = suffixed_name ''-collector'' otelcol"

definition HeadlessService :: "string \<Rightarrow> string" where
  "HeadlessService otelcol = suffixed_name ''-headless'' (Service otelcol)"

definition MonitoringService :: "string \<Rightarrow> string" where
  "MonitoringService otelcol = suffixed_name ''-monitoring'' (Service otelcol)"

definition ExtensionService :: "string \<Rightarrow> string" where
  "ExtensionService otelcol = suffixed_name ''-extension'' (Service otelcol)"

definition GrpcService :: "string \<Rightarrow> string" where
  "GrpcService otelcol = suffixed_name ''-grpc'' (Service otelcol)"

definition NonGrpcService :: "string \<Rightarrow> string" where
  "NonGrpcService otelcol = suffixed_name ''-non-grpc'' (Service otelcol)"

definition Ingress :: "string \<Rightarrow> string" where
  "Ingress otelcol = suffixed_name ''-ingress'' otelcol"

section \<open>Port names (port.go)\<close>

text \<open>The regular expression \<^verbatim>\<open>^(([A-Za-z0-9][-A-Za-z0-9_.]*)?[A-Za-z0-9])?$\<close>.\<close>

definition dns_label_inner :: "char \<Rightarrow> bool" where
  "dns_label_inner c \<longleftrightarrow> is_alnum c \<or> c = CHR ''-'' \<or> c = CHR ''_'' \<or> c = CHR ''.''"

definition dnsLabelValidation :: "string \<Rightarrow> bool" where
  "dnsLabelValidation s \<longleftrightarrow>
     s = [] \<or> (is_alnum (hd s) \<and> is_alnum (last s) \<and> list_all dns_label_inner s)"

definition PortName :: "string \<Rightarrow> int \<Rightarrow> string" where
  "PortName receiverName port =
     (if length receiverName > 15 then ''port-'' @ int_str port
      else let candidate = ReplaceAllChar receiverName (CHR ''/'') (CHR ''-'');
               candidate = ReplaceAllChar candidate (CHR ''_'') (CHR ''-'')
           in if \<not> dnsLabelValidation candidate then ''port-'' @ int_str port
              else candidate)"

section \<open>Truncation: lemmas\<close>

lemma length_trimNonAlphaNumeric: "length (trimNonAlphaNumeric s) \<le> length s"
proof -
  have "length (dropWhile (\<lambda>c. \<not> is_alnum c) (rev s)) \<le> length s"
    using length_dropWhile_le [of _ "rev s"] by simp
  moreover have "length (trimNonAlphaNumeric s) \<le> length (regexpEndReplace s)"
    by (simp add: trimNonAlphaNumeric_def regexpBeginReplace_def length_dropWhile_le)
  ultimately show ?thesis by (simp add: regexpEndReplace_def)
qed

lemma trim_ends_alnum:
  assumes "trimNonAlphaNumeric s \<noteq> []"
  shows "is_alnum (hd (trimNonAlphaNumeric s)) \<and> is_alnum (last (trimNonAlphaNumeric s))"
proof -
  let ?P = "\<lambda>c. \<not> is_alnum c" and ?e = "regexpEndReplace s"
  have t: "trimNonAlphaNumeric s = dropWhile ?P ?e"
    by (simp add: trimNonAlphaNumeric_def regexpBeginReplace_def)
  have e: "?e \<noteq> []" using assms t by auto
  then have "is_alnum (last ?e)"
    using hd_dropWhile [of ?P "rev s"] by (auto simp: regexpEndReplace_def last_rev)
  moreover have "last (dropWhile ?P ?e) = last ?e"
    using assms t e by (metis last_appendR takeWhile_dropWhile_id)
  ultimately show ?thesis using assms t hd_dropWhile [of ?P ?e] by auto
qed

lemma length_Truncate: "length (Truncate f n vs) \<le> n"
  unfolding Truncate_def Let_def
  by (auto intro: order_trans [OF length_trimNonAlphaNumeric])

text \<open>A one-verb format with a literal suffix keeps the suffix, and cuts the value only.\<close>

lemma Sprintf_suffixed [simp]: "Sprintf [Verb, Lit suf] [ArgStr s] = s @ suf"
  by simp

lemma truncate_suffixed:
  assumes "length suf < n"
  shows "Truncate [Verb, Lit suf] n [ArgStr s] = trimNonAlphaNumeric (take (n - length suf) s @ suf)"
  using assms by (auto simp: Truncate_def Let_def)

lemma regexpEndReplace_alnum_end:
  "t \<noteq> [] \<Longrightarrow> is_alnum (last t) \<Longrightarrow> regexpEndReplace (s @ t) = s @ t"
  by (cases t rule: rev_cases) (auto simp: regexpEndReplace_def)

text \<open>
  Trimming text that ends with an alphanumeric word preceded by a dash keeps the word,
  and keeps the dash when something alphanumeric comes before it.
\<close>

lemma trim_suffixed:
  assumes w: "w \<noteq> []" "is_alnum (hd w)" "is_alnum (last w)"
  shows "trimNonAlphaNumeric (s @ CHR ''-'' # w) =
    (if list_ex is_alnum s then dropWhile (\<lambda>c. \<not> is_alnum c) s @ CHR ''-'' # w else w)"
proof -
  have dash: "\<not> is_alnum (CHR ''-'')" by (simp add: char_class_defs)
  have "regexpEndReplace ((s @ [CHR ''-'']) @ w) = (s @ [CHR ''-'']) @ w"
    using w by (intro regexpEndReplace_alnum_end)
  then have t: "trimNonAlphaNumeric (s @ CHR ''-'' # w)
      = dropWhile (\<lambda>c. \<not> is_alnum c) (s @ CHR ''-'' # w)"
    by (simp add: trimNonAlphaNumeric_def regexpBeginReplace_def)
  show ?thesis
  proof (cases "list_ex is_alnum s")
    case True
    then show ?thesis using t by (auto simp: list_ex_iff dropWhile_append1)
  next
    case False
    then have "\<And>c. c \<in> set s \<Longrightarrow> \<not> is_alnum c" by (auto simp: list_ex_iff)
    then have "dropWhile (\<lambda>c. \<not> is_alnum c) (s @ CHR ''-'' # w) = w"
      using dash w by (cases w) (auto simp: dropWhile_append2)
    with False t show ?thesis by simp
  qed
qed

section \<open>DNS labels\<close>

text \<open>An RFC 1123 label: at most 63 characters, lower case alphanumeric or a dash, no dash at either end.\<close>

definition dns_label :: "string \<Rightarrow> bool" where
  "dns_label s \<longleftrightarrow>
     s \<noteq> [] \<and> length s \<le> 63 \<and> is_lower_alnum (hd s) \<and> is_lower_alnum (last s) \<and>
     list_all (\<lambda>c. is_lower_alnum c \<or> c = CHR ''-'') s"

lemma length_dns_runes [simp]: "length (dns_runes i n s) = length s"
  by (induction s arbitrary: i) auto

lemma length_DNSName [simp]: "length (DNSName s) = length s"
  by (simp add: DNSName_def)

lemma nth_dns_runes:
  "k < length s \<Longrightarrow> dns_runes i n s ! k =
     (if is_lower_alnum (s ! k) then s ! k
      else if i + k = 0 \<or> i + k = n - 1 then CHR ''a'' else CHR ''-'')"
proof (induction s arbitrary: i k)
  case (Cons x xs)
  then show ?case by (cases k) auto
qed simp

lemma nth_DNSName:
  "k < length s \<Longrightarrow> DNSName s ! k =
     (if is_lower_alnum (lower_char (s ! k)) then lower_char (s ! k)
      else if k = 0 \<or> k = length s - 1 then CHR ''a'' else CHR ''-'')"
  by (simp add: DNSName_def nth_dns_runes ToLower_def)

lemma a_is_lower_alnum: "is_lower_alnum (CHR ''a'')"
  by (simp add: char_class_defs)

lemma DNSName_chars: "list_all (\<lambda>c. is_lower_alnum c \<or> c = CHR ''-'') (DNSName s)"
  unfolding list_all_length by (simp add: nth_DNSName a_is_lower_alnum)

lemma DNSName_ends:
  assumes "s \<noteq> []"
  shows "is_lower_alnum (hd (DNSName s)) \<and> is_lower_alnum (last (DNSName s))"
proof -
  have "DNSName s \<noteq> []" using assms by (metis length_0_conv length_DNSName)
  then have "hd (DNSName s) = DNSName s ! 0" "last (DNSName s) = DNSName s ! (length s - 1)"
    by (simp_all add: hd_conv_nth last_conv_nth)
  then show ?thesis using assms by (simp add: nth_DNSName a_is_lower_alnum)
qed

lemma DNSName_dns_label:
  assumes "s \<noteq> []" "length s \<le> 63"
  shows "dns_label (DNSName s)"
  using assms DNSName_ends [OF assms(1)] DNSName_chars
  by (auto simp: dns_label_def simp flip: length_greater_0_conv)

text \<open>A DNS label is a fixed point of \<^const>\<open>DNSName\<close>.\<close>

lemma DNSName_id:
  assumes "dns_label s"
  shows "DNSName s = s"
proof (rule nth_equalityI)
  fix k assume k: "k < length (DNSName s)"
  have ne: "s \<noteq> []" using assms by (simp add: dns_label_def)
  have c: "is_lower_alnum (s ! k) \<or> s ! k = CHR ''-''"
    using assms k by (simp add: dns_label_def list_all_length)
  have ends: "is_lower_alnum (s ! 0)" "is_lower_alnum (s ! (length s - 1))"
    using assms ne by (simp_all add: dns_label_def hd_conv_nth last_conv_nth)
  show "DNSName s ! k = s ! k"
  proof (cases "is_lower_alnum (s ! k)")
    case True
    then show ?thesis using k by (simp add: nth_DNSName)
  next
    case False
    then have "s ! k = CHR ''-''" "k \<noteq> 0" "k \<noteq> length s - 1" using c ends by metis+
    then show ?thesis using k by (simp add: nth_DNSName char_class_defs)
  qed
qed simp

section \<open>The generated names are DNS labels\<close>

text \<open>What may follow the dash of a suffix.\<close>

definition name_word :: "string \<Rightarrow> bool" where
  "name_word w \<longleftrightarrow> dns_label w \<and> length w < 62"

lemma name_wordD:
  assumes "name_word w"
  shows "w \<noteq> []" "is_alnum (hd w)" "is_alnum (last w)" "length w < 62"
  using assms by (auto simp: name_word_def dns_label_def is_lower_alnum_is_alnum)

lemma suffixed_name_trim:
  assumes "name_word w"
  shows "suffixed_name (CHR ''-'' # w) s =
    DNSName (let p = take (62 - length w) s
             in if list_ex is_alnum p then dropWhile (\<lambda>c. \<not> is_alnum c) p @ CHR ''-'' # w else w)"
  using name_wordD [OF assms]
  by (simp add: suffixed_name_def truncate_suffixed trim_suffixed Let_def)

lemma suffixed_name_dns_label:
  assumes "name_word w"
  shows "dns_label (suffixed_name (CHR ''-'' # w) s)"
proof -
  let ?t = "Truncate [Verb, Lit (CHR ''-'' # w)] 63 [ArgStr s]"
  have "?t \<noteq> []" using name_wordD [OF assms] by (simp add: truncate_suffixed trim_suffixed)
  then show ?thesis
    unfolding suffixed_name_def using length_Truncate by (rule DNSName_dns_label)
qed

lemma dns_label_append_dash:
  assumes s: "dns_label s" and w: "name_word w" and k: "0 < k" "k \<le> 62 - length w"
  shows "dns_label (take k s @ CHR ''-'' # w)"
  using assms set_take_subset [of k s]
  by (auto simp: dns_label_def name_word_def list_all_iff hd_append)

text \<open>For a name that is already a label, only the end of the name is cut.\<close>

lemma suffixed_name_label:
  assumes s: "dns_label s" and w: "name_word w"
  shows "suffixed_name (CHR ''-'' # w) s = take (62 - length w) s @ CHR ''-'' # w"
proof -
  let ?p = "take (62 - length w) s"
  have k: "0 < 62 - length w" using name_wordD(4) [OF w] by simp
  have hd: "?p \<noteq> []" "is_alnum (hd ?p)"
    using s k by (auto simp: dns_label_def is_lower_alnum_is_alnum)
  then have "hd ?p \<in> set ?p" "dropWhile (\<lambda>c. \<not> is_alnum c) ?p = ?p"
    by (simp_all only: hd_in_set dropWhile_eq_self_iff simp_thms)
  then have "list_ex is_alnum ?p" "dropWhile (\<lambda>c. \<not> is_alnum c) ?p = ?p"
    using hd(2) by (auto simp only: list_ex_iff)
  then have "suffixed_name (CHR ''-'' # w) s = DNSName (?p @ CHR ''-'' # w)"
    by (simp add: suffixed_name_trim [OF w] Let_def)
  also have "\<dots> = ?p @ CHR ''-'' # w"
    by (rule DNSName_id, rule dns_label_append_dash) (use s w k in auto)
  finally show ?thesis .
qed

lemma name_words:
  "name_word ''collector''" "name_word ''headless''" "name_word ''monitoring''"
  "name_word ''extension''" "name_word ''grpc''" "name_word ''non-grpc''" "name_word ''ingress''"
  by (simp_all add: name_word_def dns_label_def char_class_defs)

lemma dns_label_Service: "dns_label (Service c)"
  unfolding Service_def using name_words(1) by (rule suffixed_name_dns_label)

lemma Service_suffix: "\<exists>p. Service c = p @ ''collector''"
proof -
  let ?p = "take 53 c"
  let ?q = "dropWhile (\<lambda>c. \<not> is_alnum c) ?p"
  have S: "Service c = DNSName (if list_ex is_alnum ?p then ?q @ ''-collector'' else ''collector'')"
    unfolding Service_def by (subst suffixed_name_trim [OF name_words(1)]) (simp add: Let_def)
  show ?thesis
  proof (cases "list_ex is_alnum ?p")
    case False
    have "DNSName ''collector'' = ''collector''"
      using name_words(1) by (intro DNSName_id) (simp add: name_word_def)
    then show ?thesis using S False by simp
  next
    case True
    let ?x = "?q @ ''-collector''" and ?w = "''collector''"
    let ?n = "Suc (length ?q)"
    have "drop ?n (DNSName ?x) = ?w"
    proof (rule nth_equalityI)
      fix k assume "k < length (drop ?n (DNSName ?x))"
      then have k: "k < length ?w" by simp
      have "is_lower_alnum (?w ! k)"
      proof -
        have "list_all is_lower_alnum ?w" by (simp add: char_class_defs)
        then show ?thesis using k by (simp only: list_all_length)
      qed
      then show "drop ?n (DNSName ?x) ! k = ?w ! k"
        using k by (simp add: nth_DNSName nth_append)
    qed simp
    then have "DNSName ?x = take ?n (DNSName ?x) @ ?w"
      using append_take_drop_id [of ?n "DNSName ?x"] by (simp only:)
    then show ?thesis using S True by (intro exI) (simp only: if_True)
  qed
qed

text \<open>
  C38. The names of the six services and of the ingress that are built for a collector are RFC 1123
  DNS labels, whatever the name of the collector: one to 63 lower case alphanumeric characters or
  dashes, with an alphanumeric character at both ends. The name of the collector itself, which gets
  no suffix, is not among them.
\<close>

theorem generated_names_are_dns_labels:
  "dns_label (Service c) \<and> dns_label (HeadlessService c) \<and> dns_label (MonitoringService c) \<and>
   dns_label (ExtensionService c) \<and> dns_label (GrpcService c) \<and> dns_label (NonGrpcService c) \<and>
   dns_label (Ingress c)"
  unfolding Service_def HeadlessService_def MonitoringService_def ExtensionService_def
    GrpcService_def NonGrpcService_def Ingress_def
  by (intro conjI suffixed_name_dns_label name_words)

text \<open>The two services built for one collector never share a name, although both are cut to 63 characters.\<close>

lemma grpc_names_differ: "GrpcService c \<noteq> NonGrpcService c"
proof
  assume eq: "GrpcService c = NonGrpcService c"
  let ?s = "Service c"
  obtain p where p: "?s = p @ ''collector''" using Service_suffix by blast
  have len: "length ?s \<le> 63" using dns_label_Service [of c] by (simp add: dns_label_def)
  have "take 58 ?s @ ''-grpc'' = take 54 ?s @ ''-non-grpc''"
    using eq suffixed_name_label [OF dns_label_Service name_words(5)]
      suffixed_name_label [OF dns_label_Service name_words(6)]
    by (simp add: GrpcService_def NonGrpcService_def)
  then have t: "take 58 ?s = take 54 ?s @ ''-non''" by simp
  have "take 58 ?s = take 54 ?s @ take 4 (drop 54 ?s)" by (simp flip: take_add)
  with t have "CHR ''-'' \<in> set (drop 54 ?s)" by (metis append_same_eq in_set_takeD list.set_intros(1) same_append_eq)
  moreover have "set (drop 54 ?s) \<subseteq> set ''collector''"
    using p len set_drop_subset [of "54 - length p" "''collector''"] by (simp add: drop_append)
  ultimately show False by auto
qed

section \<open>Port names\<close>

lemma nat_str_alnum: "list_all is_alnum (nat_str n)"
  using nat_str_digits by (auto simp: list_all_iff is_alnum_def)

lemma fallback_port_name:
  assumes "0 \<le> port" "port < 2 ^ 31"
  shows "length (''port-'' @ int_str port) \<le> 15" "dnsLabelValidation (''port-'' @ int_str port)"
    "CHR ''/'' \<notin> set (''port-'' @ int_str port)" "CHR ''_'' \<notin> set (''port-'' @ int_str port)"
proof -
  have i: "int_str port = nat_str (nat port)" using assms by (simp add: int_str_def)
  have "nat port < 10 ^ Suc 9" using assms by simp
  from length_nat_str [OF this] show "length (''port-'' @ int_str port) \<le> 15" by (simp add: i)
  have "list_all is_alnum (nat_str (nat port))" by (rule nat_str_alnum)
  then show "dnsLabelValidation (''port-'' @ int_str port)"
    by (auto simp: dnsLabelValidation_def i list_all_iff dns_label_inner_def char_class_defs
        simp del: nat_str.simps)
  show "CHR ''/'' \<notin> set (''port-'' @ int_str port)" "CHR ''_'' \<notin> set (''port-'' @ int_str port)"
    using nat_str_digits [of "CHR ''/''" "nat port"] nat_str_digits [of "CHR ''_''" "nat port"]
    by (auto simp: i is_digit_def)
qed

lemma ReplaceAllChar_id: "a \<notin> set s \<Longrightarrow> ReplaceAllChar s a b = s"
  unfolding ReplaceAllChar_def by (rule map_idI) auto

lemma PortName_id:
  assumes "length s \<le> 15" "CHR ''/'' \<notin> set s" "CHR ''_'' \<notin> set s" "dnsLabelValidation s"
  shows "PortName s port = s"
  using assms by (simp add: PortName_def ReplaceAllChar_id)

lemma PortName_cases:
  obtains "PortName r port = ''port-'' @ int_str port"
  | "length (PortName r port) \<le> 15" "dnsLabelValidation (PortName r port)"
    "CHR ''/'' \<notin> set (PortName r port)" "CHR ''_'' \<notin> set (PortName r port)"
  by (cases "length r > 15 \<or>
        \<not> dnsLabelValidation (ReplaceAllChar (ReplaceAllChar r (CHR ''/'') (CHR ''-'')) (CHR ''_'') (CHR ''-''))")
    (auto simp: PortName_def ReplaceAllChar_def Let_def)

text \<open>
  A port name has at most 15 characters and passes the label check of \<^verbatim>\<open>port.go\<close> for every
  receiver name and every port number an \<^verbatim>\<open>int32\<close> endpoint can have.
\<close>

theorem PortName_fits:
  assumes "0 \<le> port" "port < 2 ^ 31"
  shows "length (PortName r port) \<le> 15 \<and> dnsLabelValidation (PortName r port)"
  using fallback_port_name [OF assms] by (cases r port rule: PortName_cases) auto

theorem PortName_fits_witness:
  "length (PortName ''prometheus/federation'' 8888) \<le> 15 \<and>
   dnsLabelValidation (PortName ''prometheus/federation'' 8888)"
  by (rule PortName_fits) simp_all

text \<open>
  Naming a port is idempotent: the ingress, which applies \<^const>\<open>PortName\<close> to the name of a
  port that was already named by it, refers to the same port name.
\<close>

theorem PortName_idempotent:
  assumes "0 \<le> port" "port < 2 ^ 31"
  shows "PortName (PortName r port) port = PortName r port"
  using fallback_port_name [OF assms]
  by (cases r port rule: PortName_cases) (auto intro: PortName_id)

theorem PortName_idempotent_witness:
  "PortName (PortName ''otlp/2_grpc'' 4317) 4317 = PortName ''otlp/2_grpc'' 4317"
  by (rule PortName_idempotent) simp_all

end
