(* ===== verification/Components.thy ===== *)
theory Components
  imports Naming Kube_Types
begin

text \<open>
  The package \<^verbatim>\<open>internal/components\<close>: how the ports of an OpenTelemetry component are read
  off its configuration. Loggers are left out. The configuration is a value of an
  arbitrary type \<^typ>\<open>'c\<close> (Go's \<^verbatim>\<open>any\<close>); \<^verbatim>\<open>mapstructure.Decode\<close>, which turns it into a
  struct and back, is a parameter of the definitions that call it.
\<close>

section \<open>Component names and endpoints (component.go)\<close>

definition GrpcProtocol :: string where "GrpcProtocol = ''grpc''"
definition HttpProtocol :: string where "HttpProtocol = ''http''"
definition UnsetPort :: int where "UnsetPort = 0"
definition ErrPortNotFound :: goerr where "ErrPortNotFound = ErrNew ''port should not be empty''"

record port_url_paths =
  pu_Port :: service_port
  pu_UrlPaths :: "string list"

definition ComponentType :: "string \<Rightarrow> string" where
  "ComponentType name =
     (if CHR ''/'' \<in> set name then takeWhile (\<lambda>c. c \<noteq> CHR ''/'') name else name)"

text \<open>The leftmost match of \<^verbatim>\<open>:\d+\<close>, without its colon.\<close>

fun find_port :: "string \<Rightarrow> string option" where
  "find_port [] = None"
| "find_port (c # s) =
     (if c = CHR '':'' \<and> s \<noteq> [] \<and> is_digit (hd s) then Some (takeWhile is_digit s)
      else find_port s)"

text \<open>\<^verbatim>\<open>strconv.ParseInt(s, 10, 32)\<close> on a non-empty string of digits.\<close>

definition ParseInt32 :: "string \<Rightarrow> goerr + int" where
  "ParseInt32 s =
     (if digits_value s < 2 ^ 31 then Inr (digits_value s)
      else Inl (ErrLib (''strconv.ParseInt: parsing '' @ s @ '': value out of range'')))"

definition PortFromEndpoint :: "string \<Rightarrow> goerr + int" where
  "PortFromEndpoint endpoint =
     (case find_port endpoint of
        None \<Rightarrow> Inl ErrPortNotFound
      | Some portStr \<Rightarrow>
          (case ParseInt32 portStr of
             Inl e \<Rightarrow> Inl e
           | Inr port \<Rightarrow> if port = 0 then Inl ErrPortNotFound else Inr port))"

definition ConstructServicePort :: "service_port \<Rightarrow> int \<Rightarrow> service_port" where
  "ConstructServicePort current port =
     (let svc = \<lparr>sp_Name = sp_Name current, sp_Port = port, sp_TargetPort = IntVal 0,
                 sp_NodePort = sp_NodePort current, sp_AppProtocol = sp_AppProtocol current,
                 sp_Protocol = sp_Protocol current\<rparr>
      in if port > 0 \<and> IntValue (sp_TargetPort current) > 0
         then svc\<lparr>sp_TargetPort := IntVal port\<rparr> else svc)"

section \<open>Settings and builders (builder.go)\<close>

type_synonym 't port_parser = "string \<Rightarrow> service_port \<Rightarrow> 't \<Rightarrow> goerr + service_port list"
type_synonym 't rbac_gen = "'t \<Rightarrow> goerr + policy_rule list"
type_synonym 't probe_gen = "'t \<Rightarrow> goerr + probe option"
type_synonym 't env_var_gen = "'t \<Rightarrow> goerr + env_var list"
type_synonym ('c, 't) defaulter = "string \<Rightarrow> int \<Rightarrow> 't \<Rightarrow> goerr + 'c"

record ('c, 't) settings =
  st_protocol :: string
  st_appProtocol :: "string option"
  st_targetPort :: int_or_string
  st_nodePort :: int
  st_name :: string
  st_port :: int
  st_urlPaths :: "string list"
  st_defaultRecAddr :: string
  st_portParser :: "'t port_parser option"
  st_rbacGen :: "'t rbac_gen option"
  st_livenessGen :: "'t probe_gen option"
  st_readinessGen :: "'t probe_gen option"
  st_defaultsApplier :: "('c, 't) defaulter option"
  st_envVarGen :: "'t env_var_gen option"

definition NewEmptySettings :: "('c, 't) settings" where
  "NewEmptySettings = \<lparr>st_protocol = [], st_appProtocol = None, st_targetPort = IntVal 0,
     st_nodePort = 0, st_name = [], st_port = 0, st_urlPaths = [], st_defaultRecAddr = [],
     st_portParser = None, st_rbacGen = None, st_livenessGen = None, st_readinessGen = None,
     st_defaultsApplier = None, st_envVarGen = None\<rparr>"

type_synonym ('c, 't) builder = "(('c, 't) settings \<Rightarrow> ('c, 't) settings) list"

definition Apply :: "('c, 't) settings \<Rightarrow> ('c, 't) builder \<Rightarrow> ('c, 't) settings" where
  "Apply s opts = fold (\<lambda>opt. opt) opts s"

definition GetServicePort :: "('c, 't) settings \<Rightarrow> service_port" where
  "GetServicePort s = \<lparr>sp_Name = PortName (st_name s) (st_port s), sp_Port = st_port s,
     sp_TargetPort = st_targetPort s, sp_NodePort = st_nodePort s,
     sp_AppProtocol = st_appProtocol s, sp_Protocol = st_protocol s\<rparr>"

definition NewBuilder :: "('c, 't) builder" where "NewBuilder = []"

definition WithProtocol :: "string \<Rightarrow> ('c, 't) builder \<Rightarrow> ('c, 't) builder" where
  "WithProtocol protocol b = b @ [\<lambda>s. s\<lparr>st_protocol := protocol\<rparr>]"

definition WithAppProtocol :: "string option \<Rightarrow> ('c, 't) builder \<Rightarrow> ('c, 't) builder" where
  "WithAppProtocol appProtocol b = b @ [\<lambda>s. s\<lparr>st_appProtocol := appProtocol\<rparr>]"

definition WithDefaultRecAddress :: "string \<Rightarrow> ('c, 't) builder \<Rightarrow> ('c, 't) builder" where
  "WithDefaultRecAddress addr b = b @ [\<lambda>s. s\<lparr>st_defaultRecAddr := addr\<rparr>]"

definition WithTargetPort :: "int \<Rightarrow> ('c, 't) builder \<Rightarrow> ('c, 't) builder" where
  "WithTargetPort targetPort b = b @ [\<lambda>s. s\<lparr>st_targetPort := IntVal targetPort\<rparr>]"

definition WithNodePort :: "int \<Rightarrow> ('c, 't) builder \<Rightarrow> ('c, 't) builder" where
  "WithNodePort nodePort b = b @ [\<lambda>s. s\<lparr>st_nodePort := nodePort\<rparr>]"

definition WithName :: "string \<Rightarrow> ('c, 't) builder \<Rightarrow> ('c, 't) builder" where
  "WithName name b = b @ [\<lambda>s. s\<lparr>st_name := name\<rparr>]"

definition WithPort :: "int \<Rightarrow> ('c, 't) builder \<Rightarrow> ('c, 't) builder" where
  "WithPort port b = b @ [\<lambda>s. s\<lparr>st_port := port\<rparr>]"

definition WithPortParser :: "'t port_parser \<Rightarrow> ('c, 't) builder \<Rightarrow> ('c, 't) builder" where
  "WithPortParser p b = b @ [\<lambda>s. s\<lparr>st_portParser := Some p\<rparr>]"

definition WithRbacGen :: "'t rbac_gen \<Rightarrow> ('c, 't) builder \<Rightarrow> ('c, 't) builder" where
  "WithRbacGen g b = b @ [\<lambda>s. s\<lparr>st_rbacGen := Some g\<rparr>]"

definition WithLivenessGen :: "'t probe_gen \<Rightarrow> ('c, 't) builder \<Rightarrow> ('c, 't) builder" where
  "WithLivenessGen g b = b @ [\<lambda>s. s\<lparr>st_livenessGen := Some g\<rparr>]"

definition WithReadinessGen :: "'t probe_gen \<Rightarrow> ('c, 't) builder \<Rightarrow> ('c, 't) builder" where
  "WithReadinessGen g b = b @ [\<lambda>s. s\<lparr>st_readinessGen := Some g\<rparr>]"

definition WithEnvVarGen :: "'t env_var_gen \<Rightarrow> ('c, 't) builder \<Rightarrow> ('c, 't) builder" where
  "WithEnvVarGen g b = b @ [\<lambda>s. s\<lparr>st_envVarGen := Some g\<rparr>]"

definition WithDefaultsApplier :: "('c, 't) defaulter \<Rightarrow> ('c, 't) builder \<Rightarrow> ('c, 't) builder" where
  "WithDefaultsApplier d b = b @ [\<lambda>s. s\<lparr>st_defaultsApplier := Some d\<rparr>]"

definition WithUrlPaths :: "string list \<Rightarrow> ('c, 't) builder \<Rightarrow> ('c, 't) builder" where
  "WithUrlPaths urlPaths b = b @ [\<lambda>s. s\<lparr>st_urlPaths := urlPaths\<rparr>]"

text \<open>
  A generic parser keeps its name and its settings; its functions are copies of those of
  the settings. The settings pointer of a parser made by \<^verbatim>\<open>Build\<close> is never \<^verbatim>\<open>nil\<close>.
\<close>

record ('c, 't) generic_parser =
  gp_name :: string
  gp_settings :: "('c, 't) settings option"
  gp_portParser :: "'t port_parser option"
  gp_rbacGen :: "'t rbac_gen option"
  gp_envVarGen :: "'t env_var_gen option"
  gp_livenessGen :: "'t probe_gen option"
  gp_readinessGen :: "'t probe_gen option"
  gp_defaultsApplier :: "('c, 't) defaulter option"

definition Build :: "('c, 't) builder \<Rightarrow> goerr + ('c, 't) generic_parser" where
  "Build b =
     (let s = Apply NewEmptySettings b
      in if st_name s = [] then Inl (ErrNew ''invalid settings struct, no name specified'')
         else Inr \<lparr>gp_name = st_name s, gp_settings = Some s, gp_portParser = st_portParser s,
                   gp_rbacGen = st_rbacGen s, gp_envVarGen = st_envVarGen s,
                   gp_livenessGen = st_livenessGen s, gp_readinessGen = st_readinessGen s,
                   gp_defaultsApplier = st_defaultsApplier s\<rparr>)"

definition MustBuild :: "('c, 't) builder \<Rightarrow> ('c, 't) generic_parser outcome" where
  "MustBuild b = (case Build b of Inl e \<Rightarrow> Panic ''invalid settings struct, no name specified''
                                | Inr p \<Rightarrow> Ok p)"

section \<open>Generic parsers (generic\_parser.go)\<close>

definition GetDefaultConfig ::
  "('c \<Rightarrow> goerr + 't) \<Rightarrow> ('c, 't) generic_parser \<Rightarrow> 'c \<Rightarrow> goerr + 'c" where
  "GetDefaultConfig decode g config =
     (case (gp_settings g, gp_defaultsApplier g) of
        (Some s, Some applier) \<Rightarrow>
          (if st_defaultRecAddr s = [] \<or> st_port s = 0 then Inr config
           else (case decode config of
                   Inl e \<Rightarrow> Inl e
                 | Inr parsed \<Rightarrow> applier (st_defaultRecAddr s) (st_port s) parsed))
      | _ \<Rightarrow> Inr config)"

text \<open>The four methods that decode and call an optional generator, with the value for a missing one.\<close>

definition call_generator ::
  "('c \<Rightarrow> goerr + 't) \<Rightarrow> ('t \<Rightarrow> goerr + 'r) option \<Rightarrow> 'r \<Rightarrow> 'c \<Rightarrow> goerr + 'r" where
  "call_generator decode gen none config =
     (case gen of
        None \<Rightarrow> Inr none
      | Some g \<Rightarrow> (case decode config of Inl e \<Rightarrow> Inl e | Inr parsed \<Rightarrow> g parsed))"

definition GetLivenessProbe ::
  "('c \<Rightarrow> goerr + 't) \<Rightarrow> ('c, 't) generic_parser \<Rightarrow> 'c \<Rightarrow> goerr + probe option" where
  "GetLivenessProbe decode g config = call_generator decode (gp_livenessGen g) None config"

definition GetReadinessProbe ::
  "('c \<Rightarrow> goerr + 't) \<Rightarrow> ('c, 't) generic_parser \<Rightarrow> 'c \<Rightarrow> goerr + probe option" where
  "GetReadinessProbe decode g config = call_generator decode (gp_readinessGen g) None config"

definition GetRBACRules ::
  "('c \<Rightarrow> goerr + 't) \<Rightarrow> ('c, 't) generic_parser \<Rightarrow> 'c \<Rightarrow> goerr + policy_rule list" where
  "GetRBACRules decode g config = call_generator decode (gp_rbacGen g) [] config"

definition GetEnvironmentVariables ::
  "('c \<Rightarrow> goerr + 't) \<Rightarrow> ('c, 't) generic_parser \<Rightarrow> 'c \<Rightarrow> goerr + env_var list" where
  "GetEnvironmentVariables decode g config = call_generator decode (gp_envVarGen g) [] config"

definition Ports ::
  "('c \<Rightarrow> goerr + 't) \<Rightarrow> ('c, 't) generic_parser \<Rightarrow> string \<Rightarrow> 'c \<Rightarrow> service_port list outcome" where
  "Ports decode g name config =
     (case gp_portParser g of
        None \<Rightarrow> Ok []
      | Some portParser \<Rightarrow>
          (case decode config of
             Inl e \<Rightarrow> Err e
           | Inr parsed \<Rightarrow>
               (case gp_settings g of
                  None \<Rightarrow> Panic ''invalid memory address or nil pointer dereference''
                | Some s \<Rightarrow> of_sum (portParser name (GetServicePort s) parsed))))"

definition PortsWithUrlPaths ::
  "('c, 't) generic_parser \<Rightarrow> string \<Rightarrow> 'c \<Rightarrow> port_url_paths list outcome" where
  "PortsWithUrlPaths g name config = Ok []"

definition ParserType :: "('c, 't) generic_parser \<Rightarrow> string" where
  "ParserType g = ComponentType (gp_name g)"

definition ParserName :: "('c, 't) generic_parser \<Rightarrow> string" where
  "ParserName g = ''__'' @ gp_name g"

section \<open>One endpoint (single\_endpoint.go)\<close>

definition DefaultRecAddress :: string where "DefaultRecAddress = ''0.0.0.0''"

record single_endpoint_config =
  se_Endpoint :: string
  se_ListenAddress :: string

definition GetPortNum :: "single_endpoint_config \<Rightarrow> goerr + int" where
  "GetPortNum g =
     (if se_Endpoint g \<noteq> [] then PortFromEndpoint (se_Endpoint g)
      else if se_ListenAddress g \<noteq> [] then PortFromEndpoint (se_ListenAddress g)
      else Inl ErrPortNotFound)"

definition GetPortNumOrDefault :: "single_endpoint_config \<Rightarrow> int \<Rightarrow> int" where
  "GetPortNumOrDefault g p = (case GetPortNum g of Inl _ \<Rightarrow> p | Inr num \<Rightarrow> num)"

definition internalParseSingleEndpoint ::
  "string \<Rightarrow> bool \<Rightarrow> service_port \<Rightarrow> single_endpoint_config option \<Rightarrow> goerr + service_port list" where
  "internalParseSingleEndpoint name failSilently defaultPort singleEndpointConfig =
     (case singleEndpointConfig of
        None \<Rightarrow> Inr []
      | Some cfg \<Rightarrow>
          (case (GetPortNum cfg, sp_Port defaultPort = UnsetPort) of
             (Inl err, True) \<Rightarrow> if failSilently then Inr [] else Inl err
           | _ \<Rightarrow>
               (let port = GetPortNumOrDefault cfg (sp_Port defaultPort);
                    svcPort = defaultPort\<lparr>sp_Name := PortName name port\<rparr>
                in Inr [ConstructServicePort svcPort port])))"

definition ParseSingleEndpointSilent ::
  "string \<Rightarrow> service_port \<Rightarrow> single_endpoint_config option \<Rightarrow> goerr + service_port list" where
  "ParseSingleEndpointSilent name defaultPort cfg = internalParseSingleEndpoint name True defaultPort cfg"

definition ParseSingleEndpoint ::
  "string \<Rightarrow> service_port \<Rightarrow> single_endpoint_config option \<Rightarrow> goerr + service_port list" where
  "ParseSingleEndpoint name defaultPort cfg = internalParseSingleEndpoint name False defaultPort cfg"

text \<open>
  The endpoint \<^verbatim>\<open>AddressDefaulter\<close> writes. The result of \<^verbatim>\<open>strings.Split\<close> is never empty,
  so \<^verbatim>\<open>v[0]\<close> and \<^verbatim>\<open>v[len(v)-1]\<close> are in range.
\<close>

definition default_endpoint :: "string \<Rightarrow> int \<Rightarrow> string \<Rightarrow> string" where
  "default_endpoint defaultRecAddr port endpoint =
     (if endpoint = [] then defaultRecAddr @ '':'' @ int_str port
      else let v = Split endpoint (CHR '':'')
           in if length v < 2 \<or> hd v = [] then defaultRecAddr @ '':'' @ last v else endpoint)"

definition AddressDefaulter ::
  "(single_endpoint_config \<Rightarrow> goerr + 'c) \<Rightarrow> ('c, single_endpoint_config option) defaulter" where
  "AddressDefaulter encode defaultRecAddr port config =
     (let cfg = (case config of None \<Rightarrow> \<lparr>se_Endpoint = [], se_ListenAddress = []\<rparr> | Some c \<Rightarrow> c)
      in encode (cfg\<lparr>se_Endpoint := default_endpoint defaultRecAddr port (se_Endpoint cfg)\<rparr>))"

definition NewSinglePortParserBuilder ::
  "(single_endpoint_config \<Rightarrow> goerr + 'c) \<Rightarrow> string \<Rightarrow> int \<Rightarrow> ('c, single_endpoint_config option) builder" where
  "NewSinglePortParserBuilder encode name port =
     WithDefaultRecAddress DefaultRecAddress
       (WithDefaultsApplier (AddressDefaulter encode)
         (WithPortParser ParseSingleEndpoint (WithName name (WithPort port NewBuilder))))"

definition NewSilentSinglePortParserBuilder ::
  "(single_endpoint_config \<Rightarrow> goerr + 'c) \<Rightarrow> string \<Rightarrow> int \<Rightarrow> ('c, single_endpoint_config option) builder" where
  "NewSilentSinglePortParserBuilder encode name port =
     WithDefaultRecAddress DefaultRecAddress
       (WithDefaultsApplier (AddressDefaulter encode)
         (WithPortParser ParseSingleEndpointSilent (WithName name (WithPort port NewBuilder))))"

section \<open>One endpoint per protocol (multi\_endpoint.go)\<close>

type_synonym multi_protocol_config = "(string, single_endpoint_config option) gomap"

text \<open>
  The default ports are stored behind pointers and their names are overwritten by every
  call; the definitions below return the updated table.
\<close>

type_synonym port_mappings = "(string, service_port) gomap"

record multi_port_receiver =
  mp_name :: string
  mp_defaultRecAddr :: string
  mp_addrMappings :: "(string, string) gomap"
  mp_portMappings :: port_mappings
  mp_urlPathsMapping :: "(string, string list) gomap"

definition unknown_protocol :: "string \<Rightarrow> goerr" where
  "unknown_protocol protocol = ErrNew (''unknown protocol set: '' @ protocol)"

definition protocol_port :: "service_port \<Rightarrow> single_endpoint_config option \<Rightarrow> int" where
  "protocol_port defaultSvc ec =
     (case ec of None \<Rightarrow> sp_Port defaultSvc | Some c \<Rightarrow> GetPortNumOrDefault c (sp_Port defaultSvc))"

definition rename_port :: "string \<Rightarrow> string \<Rightarrow> int \<Rightarrow> service_port \<Rightarrow> service_port" where
  "rename_port name protocol port svc = svc\<lparr>sp_Name := PortName (name @ ''-'' @ protocol) port\<rparr>"

fun multi_ports_loop ::
  "string \<Rightarrow> multi_protocol_config \<Rightarrow> port_mappings \<Rightarrow> service_port list
     \<Rightarrow> (goerr + service_port list) \<times> port_mappings" where
  "multi_ports_loop name [] pm ports = (Inr ports, pm)"
| "multi_ports_loop name ((protocol, ec) # ps) pm ports =
     (case gget pm protocol of
        None \<Rightarrow> (Inl (unknown_protocol protocol), pm)
      | Some defaultSvc \<Rightarrow>
          (let port = protocol_port defaultSvc ec;
               svc = rename_port name protocol port defaultSvc
           in multi_ports_loop name ps (gset protocol svc pm) (ports @ [ConstructServicePort svc port])))"

definition multi_Ports ::
  "('c \<Rightarrow> goerr + multi_protocol_config) \<Rightarrow> multi_port_receiver \<Rightarrow> string \<Rightarrow> 'c
     \<Rightarrow> (goerr + service_port list) \<times> multi_port_receiver" where
  "multi_Ports decode m name config =
     (case decode config of
        Inl e \<Rightarrow> (Inl e, m)
      | Inr protocols \<Rightarrow>
          (let (r, pm) = multi_ports_loop name protocols (mp_portMappings m) []
           in (r, m\<lparr>mp_portMappings := pm\<rparr>)))"

text \<open>A missing entry of the URL path table is a \<^verbatim>\<open>nil\<close> pointer, and reading it panics.\<close>

fun multi_url_paths_loop ::
  "string \<Rightarrow> multi_protocol_config \<Rightarrow> (string, string list) gomap \<Rightarrow> port_mappings
     \<Rightarrow> port_url_paths list \<Rightarrow> port_url_paths list outcome \<times> port_mappings" where
  "multi_url_paths_loop name [] up pm acc = (Ok acc, pm)"
| "multi_url_paths_loop name ((protocol, ec) # ps) up pm acc =
     (case gget pm protocol of
        None \<Rightarrow> (Err (unknown_protocol protocol), pm)
      | Some defaultSvc \<Rightarrow>
          (let port = protocol_port defaultSvc ec;
               svc = rename_port name protocol port defaultSvc;
               pm' = gset protocol svc pm
           in (case gget up protocol of
                 None \<Rightarrow> (Panic ''invalid memory address or nil pointer dereference'', pm')
               | Some paths \<Rightarrow>
                   multi_url_paths_loop name ps up pm'
                     (acc @ [\<lparr>pu_Port = ConstructServicePort svc port, pu_UrlPaths = paths\<rparr>]))))"

definition multi_PortsWithUrlPaths ::
  "('c \<Rightarrow> goerr + multi_protocol_config) \<Rightarrow> multi_port_receiver \<Rightarrow> string \<Rightarrow> 'c
     \<Rightarrow> port_url_paths list outcome \<times> multi_port_receiver" where
  "multi_PortsWithUrlPaths decode m name config =
     (case decode config of
        Inl e \<Rightarrow> (Err e, m)
      | Inr protocols \<Rightarrow>
          (let (r, pm) = multi_url_paths_loop name protocols (mp_urlPathsMapping m) (mp_portMappings m) []
           in (r, m\<lparr>mp_portMappings := pm\<rparr>)))"

fun multi_defaults_loop ::
  "(single_endpoint_config \<Rightarrow> goerr + 'c) \<Rightarrow> multi_port_receiver \<Rightarrow> multi_protocol_config
     \<Rightarrow> (string, 'c) gomap \<Rightarrow> goerr + (string, 'c) gomap" where
  "multi_defaults_loop encode m [] acc = Inr acc"
| "multi_defaults_loop encode m ((protocol, ec) # ps) acc =
     (case gget (mp_portMappings m) protocol of
        None \<Rightarrow> Inl (unknown_protocol protocol)
      | Some defaultSvc \<Rightarrow>
          (let port = protocol_port defaultSvc ec;
               addr = (case gget (mp_addrMappings m) protocol of
                         None \<Rightarrow> mp_defaultRecAddr m | Some defaultAddr \<Rightarrow> defaultAddr)
           in (case AddressDefaulter encode addr port ec of
                 Inl e \<Rightarrow> Inl e
               | Inr conf \<Rightarrow> multi_defaults_loop encode m ps (gset protocol conf acc))))"

text \<open>
  The argument \<^term>\<open>wrap\<close> stands for the literal \<^verbatim>\<open>map[string]any{"protocols": defaultedConfig}\<close>.
\<close>

definition multi_GetDefaultConfig ::
  "('c \<Rightarrow> goerr + multi_protocol_config) \<Rightarrow> (single_endpoint_config \<Rightarrow> goerr + 'c)
     \<Rightarrow> ((string, 'c) gomap \<Rightarrow> 'c) \<Rightarrow> multi_port_receiver \<Rightarrow> 'c \<Rightarrow> goerr + 'c" where
  "multi_GetDefaultConfig decode encode wrap m config =
     (case decode config of
        Inl e \<Rightarrow> Inl e
      | Inr protocols \<Rightarrow>
          (case multi_defaults_loop encode m protocols [] of
             Inl e \<Rightarrow> Inl e
           | Inr defaultedConfig \<Rightarrow> Inr (wrap defaultedConfig)))"

definition multi_ParserType :: "multi_port_receiver \<Rightarrow> string" where
  "multi_ParserType m = ComponentType (mp_name m)"

definition multi_ParserName :: "multi_port_receiver \<Rightarrow> string" where
  "multi_ParserName m = ''__'' @ mp_name m"

text \<open>
  The builder of a multi-port receiver is a list of builders; the first one names the
  receiver. Their configuration type plays no role, since only the settings are read.
\<close>

type_synonym 'c multi_port_builder = "('c, multi_protocol_config) builder list"

definition NewMultiPortReceiverBuilder :: "string \<Rightarrow> 'c multi_port_builder" where
  "NewMultiPortReceiverBuilder name =
     [WithDefaultRecAddress DefaultRecAddress (WithName name NewBuilder)]"

definition NewProtocolBuilder :: "string \<Rightarrow> int \<Rightarrow> ('c, multi_protocol_config) builder" where
  "NewProtocolBuilder name port =
     WithDefaultRecAddress DefaultRecAddress (WithPort port (WithName name NewBuilder))"

definition AddPortMapping ::
  "('c, multi_protocol_config) builder \<Rightarrow> 'c multi_port_builder \<Rightarrow> 'c multi_port_builder" where
  "AddPortMapping b mp = mp @ [b]"

fun add_mappings ::
  "'c multi_port_builder \<Rightarrow> multi_port_receiver \<Rightarrow> goerr + multi_port_receiver" where
  "add_mappings [] m = Inr m"
| "add_mappings (bu # bs) m =
     (case Build bu of
        Inl e \<Rightarrow> Inl e
      | Inr built \<Rightarrow>
          (case gp_settings built of
             None \<Rightarrow> add_mappings bs m
           | Some s \<Rightarrow>
               add_mappings bs
                 (m\<lparr>mp_portMappings := gset (gp_name built) (GetServicePort s) (mp_portMappings m),
                    mp_addrMappings := gset (gp_name built) (st_defaultRecAddr s) (mp_addrMappings m),
                    mp_urlPathsMapping := gset (gp_name built) (st_urlPaths s) (mp_urlPathsMapping m)\<rparr>)))"

definition multi_Build :: "'c multi_port_builder \<Rightarrow> multi_port_receiver outcome" where
  "multi_Build mp =
     (case mp of
        [] \<Rightarrow> Err (ErrNew ''must provide at least one port mapping'')
      | b # bs \<Rightarrow>
          bind_outcome (MustBuild b) (\<lambda>mb.
            case gp_settings mb of
              None \<Rightarrow> Panic ''invalid memory address or nil pointer dereference''
            | Some s \<Rightarrow>
                of_sum (add_mappings bs
                  \<lparr>mp_name = gp_name mb, mp_defaultRecAddr = st_defaultRecAddr s,
                   mp_addrMappings = [], mp_portMappings = [], mp_urlPathsMapping = []\<rparr>)))"

definition multi_MustBuild :: "'c multi_port_builder \<Rightarrow> multi_port_receiver outcome" where
  "multi_MustBuild mp =
     (case multi_Build mp of Err e \<Rightarrow> Panic ''panic in MustBuild'' | r \<Rightarrow> r)"

section \<open>Reading a port back from an endpoint\<close>

lemma digits_value_append:
  "digits_value (s @ [c]) = 10 * digits_value s + (int (code c) - 48)"
  by (simp add: digits_value_def)

lemma digits_value_nonneg:
  assumes "list_all is_digit s"
  shows "0 \<le> digits_value s"
  using assms
proof (induction s rule: rev_induct)
  case (snoc c s)
  then show ?case by (simp add: digits_value_append is_digit_def)
qed (simp add: digits_value_def)

lemma digits_value_nat_str [simp]: "digits_value (nat_str n) = int n"
proof (induction n rule: nat_str.induct)
  case (1 n)
  show ?case
  proof (cases "n < 10")
    case True
    then show ?thesis
      by (simp add: nat_str.simps [of n] digits_value_def digit_char_def)
  next
    case False
    have "digits_value (nat_str n) = 10 * int (n div 10) + int (n mod 10)"
      using 1 False by (simp add: nat_str.simps [of n] digits_value_append digit_char_def)
    also have "\<dots> = int n" by presburger
    finally show ?thesis .
  qed
qed

lemma find_port_digits: "find_port s = Some d \<Longrightarrow> d \<noteq> [] \<and> list_all is_digit d"
proof (induction s)
  case (Cons c s)
  show ?case
  proof (cases "c = CHR '':'' \<and> s \<noteq> [] \<and> is_digit (hd s)")
    case True
    then have "d = takeWhile is_digit s" using Cons.prems by simp
    with True show ?thesis by (cases s) (auto simp: list_all_iff dest: set_takeWhileD)
  next
    case False
    then have "find_port s = Some d" using Cons.prems by (simp split: if_splits)
    then show ?thesis by (rule Cons.IH)
  qed
qed simp

text \<open>A text in which no colon stands before a digit, and what follows a port.\<close>

definition no_port_in :: "string \<Rightarrow> bool" where
  "no_port_in s \<longleftrightarrow> (\<forall>i. Suc i < length s \<longrightarrow> s ! i = CHR '':'' \<longrightarrow> \<not> is_digit (s ! Suc i))"

lemma no_port_in_Cons:
  "no_port_in (c # s) \<longleftrightarrow> no_port_in s \<and> (c = CHR '':'' \<longrightarrow> s \<noteq> [] \<longrightarrow> \<not> is_digit (hd s))" (is "?l \<longleftrightarrow> ?r")
proof
  assume l: ?l
  have "\<not> is_digit (s ! Suc i)" if "Suc i < length s" "s ! i = CHR '':''" for i
    using l [unfolded no_port_in_def, rule_format, of "Suc i"] that by simp
  moreover have "\<not> is_digit (hd s)" if "c = CHR '':''" "s \<noteq> []"
    using l [unfolded no_port_in_def, rule_format, of 0] that by (simp add: hd_conv_nth)
  ultimately show ?r by (simp add: no_port_in_def)
next
  assume r: ?r
  show ?l
    unfolding no_port_in_def
  proof (intro allI impI)
    fix i assume "Suc i < length (c # s)" "(c # s) ! i = CHR '':''"
    with r show "\<not> is_digit ((c # s) ! Suc i)" by (cases i) (auto simp: no_port_in_def hd_conv_nth)
  qed
qed

lemma find_port_none: "no_port_in s \<Longrightarrow> find_port s = None"
  by (induction s) (auto simp: no_port_in_Cons)

lemma find_port_append: "no_port_in prefix \<Longrightarrow> find_port (prefix @ CHR '':'' # s) = find_port (CHR '':'' # s)"
  by (induction prefix) (auto simp: no_port_in_Cons hd_append is_digit_def)

lemma find_port_nat_str [simp]:
  "rest = [] \<or> \<not> is_digit (hd rest) \<Longrightarrow> find_port (CHR '':'' # nat_str p @ rest) = Some (nat_str p)"
proof -
  assume rest: "rest = [] \<or> \<not> is_digit (hd rest)"
  have "takeWhile is_digit rest = []" using rest by (cases rest) auto
  then have "takeWhile is_digit (nat_str p @ rest) = nat_str p"
    using nat_str_digits [of _ p] by (simp add: takeWhile_append)
  moreover have "is_digit (hd (nat_str p @ rest))"
    using nat_str_digits [OF hd_in_set] by (simp add: hd_append)
  ultimately show ?thesis by simp
qed

lemma PortFromEndpoint_range:
  "PortFromEndpoint e = Inr p \<Longrightarrow> 1 \<le> p \<and> p < 2 ^ 31"
  using digits_value_nonneg find_port_digits [of e]
  by (force simp: PortFromEndpoint_def ParseInt32_def split: option.splits if_splits)

lemma PortFromEndpoint_written:
  assumes "no_port_in prefix" "rest = [] \<or> \<not> is_digit (hd rest)" "0 \<le> p"
  shows "PortFromEndpoint (prefix @ '':'' @ int_str p @ rest) =
    (if p = 0 then Inl ErrPortNotFound else if p < 2 ^ 31 then Inr p
     else Inl (ErrLib (''strconv.ParseInt: parsing '' @ int_str p @ '': value out of range'')))"
  using assms find_port_nat_str [OF assms(2), of "nat p"]
  by (simp add: PortFromEndpoint_def find_port_append int_str_def ParseInt32_def del: find_port.simps)

lemma GetPortNum_range: "GetPortNum c = Inr p \<Longrightarrow> 1 \<le> p \<and> p < 2 ^ 31"
  by (auto simp: GetPortNum_def split: if_splits dest: PortFromEndpoint_range)

lemma GetPortNumOrDefault_range:
  assumes "0 \<le> d" "d < 2 ^ 31"
  shows "0 \<le> GetPortNumOrDefault c d \<and> GetPortNumOrDefault c d < 2 ^ 31"
  using assms GetPortNum_range [of c]
  by (force simp: GetPortNumOrDefault_def split: sum.splits)

section \<open>The ports of a multi-port receiver\<close>

text \<open>
  The specification of the loop: the service port of one protocol, read off the table of
  default ports as it was before the loop.
\<close>

definition protocol_service ::
  "string \<Rightarrow> port_mappings \<Rightarrow> string \<times> single_endpoint_config option \<Rightarrow> service_port" where
  "protocol_service name pm e =
     (let svc = the (gget pm (fst e)); port = protocol_port svc (snd e)
      in ConstructServicePort (rename_port name (fst e) port svc) port)"

definition first_unknown :: "port_mappings \<Rightarrow> multi_protocol_config \<Rightarrow> string option" where
  "first_unknown pm protocols =
     map_option fst (List.find (\<lambda>e. gget pm (fst e) = None) protocols)"

text \<open>Two tables of default ports that differ in the stored names only.\<close>

definition same_ports :: "port_mappings \<Rightarrow> port_mappings \<Rightarrow> bool" where
  "same_ports pm pm' \<longleftrightarrow>
     (\<forall>k. map_option (sp_Name_update (\<lambda>_. [])) (gget pm k) =
          map_option (sp_Name_update (\<lambda>_. [])) (gget pm' k))"

lemma same_ports_refl [simp]: "same_ports pm pm"
  by (simp add: same_ports_def)

lemma same_ports_trans: "same_ports a b \<Longrightarrow> same_ports b c \<Longrightarrow> same_ports a c"
  by (simp add: same_ports_def)

lemma same_ports_sym: "same_ports a b \<Longrightarrow> same_ports b a"
  by (simp add: same_ports_def)

lemma same_ports_rename:
  "gget pm p = Some svc \<Longrightarrow> same_ports (gset p (rename_port name p port svc) pm) pm"
  by (simp add: same_ports_def rename_port_def update_conv)

lemma same_ports_None: "same_ports pm pm' \<Longrightarrow> gget pm k = None \<longleftrightarrow> gget pm' k = None"
  unfolding same_ports_def by (metis option.map_disc_iff)

lemma same_ports_service:
  assumes "same_ports pm pm'" "gget pm (fst e) \<noteq> None"
  shows "protocol_service name pm e = protocol_service name pm' e"
proof -
  obtain a b where ab: "gget pm (fst e) = Some a" "gget pm' (fst e) = Some b"
    using assms(2) same_ports_None [OF assms(1), of "fst e"]
    by (cases "gget pm (fst e)"; cases "gget pm' (fst e)") auto
  then have "a\<lparr>sp_Name := []\<rparr> = b\<lparr>sp_Name := []\<rparr>"
    using assms(1) unfolding same_ports_def by (metis option.map(2) option.inject)
  with ab show ?thesis
    by (cases a; cases b; cases "snd e")
      (simp_all add: protocol_service_def protocol_port_def rename_port_def
        ConstructServicePort_def Let_def)
qed

lemma same_ports_first_unknown:
  assumes "same_ports pm pm'"
  shows "first_unknown pm ps = first_unknown pm' ps"
  by (simp add: first_unknown_def same_ports_None [OF assms])

lemma same_ports_services:
  assumes "same_ports pm pm'" "first_unknown pm ps = None"
  shows "map (protocol_service name pm) ps = map (protocol_service name pm') ps"
proof (rule map_cong [OF refl])
  fix e assume "e \<in> set ps"
  with assms(2) have "gget pm (fst e) \<noteq> None"
    by (cases e) (auto simp: first_unknown_def find_None_iff)
  then show "protocol_service name pm e = protocol_service name pm' e"
    by (rule same_ports_service [OF assms(1)])
qed

lemma first_unknown_Cons:
  "first_unknown pm ((p, ec) # ps) =
     (if gget pm p = None then Some p else first_unknown pm ps)"
  by (simp add: first_unknown_def)

lemma multi_ports_loop_spec:
  "fst (multi_ports_loop name ps pm acc) =
     (case first_unknown pm ps of
        Some p \<Rightarrow> Inl (unknown_protocol p)
      | None \<Rightarrow> Inr (acc @ map (protocol_service name pm) ps))
   \<and> same_ports (snd (multi_ports_loop name ps pm acc)) pm"
proof (induction name ps pm acc rule: multi_ports_loop.induct)
  case (1 name pm ports)
  then show ?case by (simp add: first_unknown_def)
next
  case (2 name protocol ec ps pm ports)
  show ?case
  proof (cases "gget pm protocol")
    case (Some svc)
    define port where "port = protocol_port svc ec"
    define pm' where "pm' = gset protocol (rename_port name protocol port svc) pm"
    have same: "same_ports pm' pm"
      unfolding pm'_def using Some by (rule same_ports_rename)
    have head: "protocol_service name pm (protocol, ec) =
        ConstructServicePort (rename_port name protocol port svc) port"
      using Some by (simp add: protocol_service_def port_def Let_def)
    show ?thesis
      using 2 [OF Some port_def refl] same head Some same_ports_first_unknown [OF same]
        same_ports_services [OF same] same_ports_trans [OF _ same]
      by (auto simp: first_unknown_Cons pm'_def [symmetric] port_def [symmetric]
          split: option.splits)
  qed (simp add: first_unknown_Cons)
qed

text \<open>
  The loop over the URL paths constructs the same ports; when every protocol of the port table has an entry
  in the path table it never dereferences \<^verbatim>\<open>nil\<close>.
\<close>

lemma multi_url_paths_loop_spec:
  assumes "\<And>k. gget pm k \<noteq> None \<Longrightarrow> gget up k \<noteq> None"
  shows "fst (multi_url_paths_loop name ps up pm acc) =
     (case first_unknown pm ps of
        Some p \<Rightarrow> Err (unknown_protocol p)
      | None \<Rightarrow> Ok (acc @ map (\<lambda>e. \<lparr>pu_Port = protocol_service name pm e,
                                     pu_UrlPaths = the (gget up (fst e))\<rparr>) ps))
   \<and> same_ports (snd (multi_url_paths_loop name ps up pm acc)) pm"
  using assms
proof (induction name ps up pm acc rule: multi_url_paths_loop.induct)
  case (1 name up pm acc)
  then show ?case by (simp add: first_unknown_def)
next
  case (2 name protocol ec ps up pm acc)
  show ?case
  proof (cases "gget pm protocol")
    case (Some svc)
    define port where "port = protocol_port svc ec"
    define pm' where "pm' = gset protocol (rename_port name protocol port svc) pm"
    have same: "same_ports pm' pm"
      unfolding pm'_def using Some by (rule same_ports_rename)
    have head: "protocol_service name pm (protocol, ec) =
        ConstructServicePort (rename_port name protocol port svc) port"
      using Some by (simp add: protocol_service_def port_def Let_def)
    obtain paths where paths: "gget up protocol = Some paths"
      using 2(2) [of protocol] Some by auto
    have dom: "\<And>k. gget pm' k \<noteq> None \<Longrightarrow> gget up k \<noteq> None"
      by (rule 2(2)) (simp add: same_ports_None [OF same, symmetric])
    have tail: "first_unknown pm ps = None \<Longrightarrow>
        map (\<lambda>e. \<lparr>pu_Port = protocol_service name pm' e, pu_UrlPaths = the (gget up (fst e))\<rparr>) ps =
        map (\<lambda>e. \<lparr>pu_Port = protocol_service name pm e, pu_UrlPaths = the (gget up (fst e))\<rparr>) ps"
      using same_ports_services [OF same, of ps name] same_ports_first_unknown [OF same, of ps]
      by simp
    show ?thesis
      using 2(1) [OF Some port_def refl pm'_def paths dom] same head Some paths
        same_ports_first_unknown [OF same] tail same_ports_trans [OF _ same]
      by (auto simp: first_unknown_Cons pm'_def [symmetric] port_def [symmetric]
          split: option.splits)
  qed (simp add: first_unknown_Cons)
qed

text \<open>The three tables of a receiver have the same keys; \<^const>\<open>add_mappings\<close> keeps that.\<close>

definition tables_agree :: "multi_port_receiver \<Rightarrow> bool" where
  "tables_agree m \<longleftrightarrow>
     (\<forall>k. (gget (mp_portMappings m) k = None \<longleftrightarrow> gget (mp_urlPathsMapping m) k = None) \<and>
          (gget (mp_portMappings m) k = None \<longleftrightarrow> gget (mp_addrMappings m) k = None))"

lemma tables_agree_add:
  "tables_agree m \<Longrightarrow>
     tables_agree (m\<lparr>mp_portMappings := gset k sp (mp_portMappings m),
       mp_addrMappings := gset k addr (mp_addrMappings m),
       mp_urlPathsMapping := gset k paths (mp_urlPathsMapping m)\<rparr>)"
  by (auto simp: tables_agree_def update_conv)

lemma tables_agree_empty [simp]:
  "tables_agree \<lparr>mp_name = n, mp_defaultRecAddr = a, mp_addrMappings = [],
     mp_portMappings = [], mp_urlPathsMapping = []\<rparr>"
  by (simp add: tables_agree_def)

lemma add_mappings_tables_agree:
  "add_mappings bs m = Inr m' \<Longrightarrow> tables_agree m \<Longrightarrow> tables_agree m'"
proof (induction bs m rule: add_mappings.induct)
  case (2 bu bs m)
  show ?case
  proof (cases "Build bu")
    case (Inr built)
    show ?thesis
    proof (cases "gp_settings built")
      case (Some s)
      show ?thesis
        using 2(2) [OF Inr Some] 2(3) Inr Some tables_agree_add [OF 2(4)] by simp
    qed (use 2 Inr in simp)
  qed (use 2 in simp)
qed simp

lemma multi_Build_tables_agree:
  assumes "multi_Build mp = Ok m"
  shows "tables_agree m"
  using assms
  by (auto simp: multi_Build_def outcome_iff split: list.splits option.splits
      dest!: add_mappings_tables_agree)

lemma multi_Ports_eq:
  "fst (multi_Ports decode m name config) =
     (case decode config of
        Inl e \<Rightarrow> Inl e
      | Inr ps \<Rightarrow> (case first_unknown (mp_portMappings m) ps of
                     Some p \<Rightarrow> Inl (unknown_protocol p)
                   | None \<Rightarrow> Inr (map (protocol_service name (mp_portMappings m)) ps)))"
  using multi_ports_loop_spec [of name _ "mp_portMappings m" "[]"]
  by (auto simp: multi_Ports_def case_prod_beta Let_def split: sum.splits option.splits)

lemma multi_Ports_keeps:
  "same_ports (mp_portMappings (snd (multi_Ports decode m name config))) (mp_portMappings m)"
  using multi_ports_loop_spec [of name _ "mp_portMappings m" "[]"]
  by (auto simp: multi_Ports_def case_prod_beta Let_def split: sum.splits option.splits)

lemma multi_PortsWithUrlPaths_eq:
  assumes "tables_agree m"
  shows "fst (multi_PortsWithUrlPaths decode m name config) =
     (case decode config of
        Inl e \<Rightarrow> Err e
      | Inr ps \<Rightarrow> (case first_unknown (mp_portMappings m) ps of
                     Some p \<Rightarrow> Err (unknown_protocol p)
                   | None \<Rightarrow> Ok (map (\<lambda>e. \<lparr>pu_Port = protocol_service name (mp_portMappings m) e,
                       pu_UrlPaths = the (gget (mp_urlPathsMapping m) (fst e))\<rparr>) ps)))"
proof -
  have "gget (mp_urlPathsMapping m) k \<noteq> None" if "gget (mp_portMappings m) k \<noteq> None" for k
    using assms that by (simp add: tables_agree_def)
  from multi_url_paths_loop_spec [OF this, where acc = "[]" and name = name] show ?thesis
    by (auto simp: multi_PortsWithUrlPaths_def case_prod_beta Let_def
        split: sum.splits option.splits)
qed

section \<open>Properties\<close>

text \<open>
  C39. The port of an endpoint is the number after the first colon that stands before a digit, up to the next character
  that is not a digit: a number between 1 and \<^verbatim>\<open>2^31 - 1\<close> is read back, 0 counts as no port, and a larger number is
  an error. An endpoint with no such colon has no port. So a scheme before the host or a path behind the port does no harm, but of an
  IPv6 address that has a colon before a digit a part of the address is read as the port.
\<close>

theorem endpoint_port_roundtrip:
  assumes "\<forall>i. Suc i < length prefix \<longrightarrow> prefix ! i = CHR '':'' \<longrightarrow> \<not> is_digit (prefix ! Suc i)"
    and "rest = [] \<or> \<not> is_digit (hd rest)" "0 \<le> p"
  shows "PortFromEndpoint prefix = Inl ErrPortNotFound \<and>
    (1 \<le> p \<and> p < 2 ^ 31 \<longrightarrow> PortFromEndpoint (prefix @ '':'' @ int_str p @ rest) = Inr p) \<and>
    (p = 0 \<longrightarrow> PortFromEndpoint (prefix @ '':'' @ int_str p @ rest) = Inl ErrPortNotFound) \<and>
    (2 ^ 31 \<le> p \<longrightarrow> (\<exists>e. PortFromEndpoint (prefix @ '':'' @ int_str p @ rest) = Inl e))"
proof -
  have prefix: "no_port_in prefix" using assms(1) by (simp add: no_port_in_def)
  then have "PortFromEndpoint prefix = Inl ErrPortNotFound" by (simp add: PortFromEndpoint_def find_port_none)
  then show ?thesis using PortFromEndpoint_written [OF prefix assms(2,3)] by auto
qed

theorem endpoint_port_roundtrip_witness:
  "PortFromEndpoint (''http://localhost'' @ '':'' @ int_str 1234 @ ''/x'') = Inr 1234 \<and>
   PortFromEndpoint (''[:'' @ '':'' @ int_str 1 @ '']:4317'') = Inr 1"
proof
  have "no_port_in ''http://localhost''" "no_port_in ''[:''" by (simp_all add: no_port_in_Cons no_port_in_def [of "[]"] is_digit_def)
  then have p: "\<forall>i. Suc i < length ''http://localhost'' \<longrightarrow> ''http://localhost'' ! i = CHR '':'' \<longrightarrow> \<not> is_digit (''http://localhost'' ! Suc i)"
    "\<forall>i. Suc i < length ''[:'' \<longrightarrow> ''[:'' ! i = CHR '':'' \<longrightarrow> \<not> is_digit (''[:'' ! Suc i)"
    unfolding no_port_in_def by blast+
  show "PortFromEndpoint (''http://localhost'' @ '':'' @ int_str 1234 @ ''/x'') = Inr 1234"
    using endpoint_port_roundtrip [OF p(1), of "''/x''" 1234] by (simp add: is_digit_def)
  show "PortFromEndpoint (''[:'' @ '':'' @ int_str 1 @ '']:4317'') = Inr 1"
    using endpoint_port_roundtrip [OF p(2), of "'']:4317''" 1] by (simp add: is_digit_def)
qed

text \<open>
  C40. \<^const>\<open>multi_Ports\<close> on every configuration: a configuration that does not decode is an error,
  a protocol without a default port is an error naming the first one, and otherwise there is
  exactly one port per configured protocol, in the order of the configuration, computed from the
  table of defaults as it was before the call although the loop overwrites the stored names.
\<close>

theorem multi_Ports_functional:
  "fst (multi_Ports decode m name config) =
     (case decode config of
        Inl e \<Rightarrow> Inl e
      | Inr ps \<Rightarrow> (case first_unknown (mp_portMappings m) ps of
                     Some p \<Rightarrow> Inl (unknown_protocol p)
                   | None \<Rightarrow> Inr (map (protocol_service name (mp_portMappings m)) ps)))"
  by (rule multi_Ports_eq)

text \<open>
  The names that a call of \<^const>\<open>multi_Ports\<close> leaves in the receiver's table are never
  observable: any later call, for any name and configuration, answers as it would have on the
  receiver before the first call.
\<close>

theorem multi_Ports_repeatable:
  "fst (multi_Ports decode (snd (multi_Ports decode m name config)) name' config') =
   fst (multi_Ports decode m name' config')"
  using multi_Ports_keeps [of decode m name config] same_ports_first_unknown same_ports_services
  by (fastforce simp: multi_Ports_eq split: sum.splits option.splits)

text \<open>
  A receiver made by a multi-port builder never panics when its URL paths are asked for, and
  the ports it reports with them are the ports of \<^const>\<open>multi_Ports\<close>.
\<close>

theorem built_receiver_url_paths_safe:
  assumes "multi_Build mp = Ok m"
  shows "\<not> panics (fst (multi_PortsWithUrlPaths decode m name config)) \<and>
    (\<forall>pus. fst (multi_PortsWithUrlPaths decode m name config) = Ok pus
      \<longrightarrow> fst (multi_Ports decode m name config) = Inr (map pu_Port pus))"
  using multi_Build_tables_agree [OF assms]
  by (auto simp: multi_PortsWithUrlPaths_eq multi_Ports_eq o_def split: sum.splits option.splits)

theorem built_receiver_url_paths_safe_witness:
  "\<not> panics (fst (multi_PortsWithUrlPaths (\<lambda>c. Inr c)
        \<lparr>mp_name = ''otlp'', mp_defaultRecAddr = ''0.0.0.0'', mp_addrMappings = [(''grpc'', ''0.0.0.0'')],
         mp_portMappings = [(''grpc'', \<lparr>sp_Name = ''grpc'', sp_Port = 4317, sp_TargetPort = IntVal 4317,
           sp_NodePort = 0, sp_AppProtocol = Some ''grpc'', sp_Protocol = []\<rparr>)],
         mp_urlPathsMapping = [(''grpc'', [''/v1''])]\<rparr> ''otlp'' [(''grpc'', None)]))"
proof -
  have "multi_Build (AddPortMapping (WithUrlPaths [''/v1''] (WithTargetPort 4317
      (WithAppProtocol (Some ''grpc'') (NewProtocolBuilder ''grpc'' 4317))))
      (NewMultiPortReceiverBuilder ''otlp'' :: unit multi_port_builder)) =
    Ok \<lparr>mp_name = ''otlp'', mp_defaultRecAddr = ''0.0.0.0'', mp_addrMappings = [(''grpc'', ''0.0.0.0'')],
         mp_portMappings = [(''grpc'', \<lparr>sp_Name = ''grpc'', sp_Port = 4317, sp_TargetPort = IntVal 4317,
           sp_NodePort = 0, sp_AppProtocol = Some ''grpc'', sp_Protocol = []\<rparr>)],
         mp_urlPathsMapping = [(''grpc'', [''/v1''])]\<rparr>"
    by code_simp
  then show ?thesis by (rule built_receiver_url_paths_safe [THEN conjunct1])
qed

end
