(* ===== verification/Registry.thy ===== *)
theory Registry
  imports Components
begin

text \<open>
  The parsers the operator knows: \<^verbatim>\<open>internal/components/receivers\<close>, \<^verbatim>\<open>exporters\<close> and
  \<^verbatim>\<open>extensions\<close>, and the collection of URL paths over the receivers of a collector
  (\<^verbatim>\<open>api/v1/mdaiingress_config.go\<close>). Decoding and encoding by \<^verbatim>\<open>mapstructure\<close> is the parameter
  \<^verbatim>\<open>codec\<close>: one function per Go type the code decodes into.
\<close>

section \<open>Rules and environment of the Kubernetes receivers\<close>

record k8scluster_config = kc_Distribution :: string

definition get_list_watch :: "string list" where
  "get_list_watch = [''get'', ''list'', ''watch'']"

definition generatek8seventsRbacRules :: "unit \<Rightarrow> goerr + policy_rule list" where
  "generatek8seventsRbacRules _ = Inr
     [\<lparr>pol_APIGroups = [''''],
       pol_Resources = [''events'', ''namespaces'', ''namespaces/status'', ''nodes'', ''nodes/spec'',
         ''pods'', ''pods/status'', ''replicationcontrollers'', ''replicationcontrollers/status'',
         ''resourcequotas'', ''services''],
       pol_Verbs = get_list_watch\<rparr>,
      \<lparr>pol_APIGroups = [''apps''],
       pol_Resources = [''daemonsets'', ''deployments'', ''replicasets'', ''statefulsets''],
       pol_Verbs = get_list_watch\<rparr>,
      \<lparr>pol_APIGroups = [''extensions''],
       pol_Resources = [''daemonsets'', ''deployments'', ''replicasets''],
       pol_Verbs = get_list_watch\<rparr>,
      \<lparr>pol_APIGroups = [''batch''], pol_Resources = [''jobs'', ''cronjobs''],
       pol_Verbs = get_list_watch\<rparr>,
      \<lparr>pol_APIGroups = [''autoscaling''], pol_Resources = [''horizontalpodautoscalers''],
       pol_Verbs = get_list_watch\<rparr>]"

definition generatek8sclusterRbacRules :: "k8scluster_config \<Rightarrow> goerr + policy_rule list" where
  "generatek8sclusterRbacRules cfg =
     (let policyRules =
       [\<lparr>pol_APIGroups = [''''],
         pol_Resources = [''events'', ''namespaces'', ''namespaces/status'', ''nodes'', ''nodes/spec'',
           ''pods'', ''pods/status'', ''replicationcontrollers'', ''replicationcontrollers/status'',
           ''resourcequotas'', ''services''],
         pol_Verbs = get_list_watch\<rparr>,
        \<lparr>pol_APIGroups = [''apps''],
         pol_Resources = [''daemonsets'', ''deployments'', ''replicasets'', ''statefulsets''],
         pol_Verbs = get_list_watch\<rparr>,
        \<lparr>pol_APIGroups = [''extensions''],
         pol_Resources = [''daemonsets'', ''deployments'', ''replicasets''],
         pol_Verbs = get_list_watch\<rparr>,
        \<lparr>pol_APIGroups = [''batch''], pol_Resources = [''jobs'', ''cronjobs''],
         pol_Verbs = get_list_watch\<rparr>,
        \<lparr>pol_APIGroups = [''autoscaling''], pol_Resources = [''horizontalpodautoscalers''],
         pol_Verbs = get_list_watch\<rparr>]
      in Inr (if kc_Distribution cfg = ''openshift''
              then policyRules @ [\<lparr>pol_APIGroups = [''quota.openshift.io''],
                pol_Resources = [''clusterresourcequotas''], pol_Verbs = get_list_watch\<rparr>]
              else policyRules))"

record k8s_object =
  ko_Name :: string
  ko_Mode :: string
  ko_Group :: string

record k8sobjects_config = ko_Objects :: "k8s_object list"

definition object_permissions :: "k8s_object \<Rightarrow> string list" where
  "object_permissions obj =
     (if ko_Mode obj = ''pull'' \<and> (ko_Name obj \<noteq> ''events'' \<and> ko_Name obj \<noteq> ''events.k8s.io'')
      then [''list'', ''get'']
      else if ko_Mode obj = ''watch'' then [''list'', ''watch''] else [''list''])"

definition generatek8sobjectsRbacRules :: "k8sobjects_config \<Rightarrow> goerr + policy_rule list" where
  "generatek8sobjectsRbacRules config =
     Inr (map (\<lambda>obj. \<lparr>pol_APIGroups = [ko_Group obj], pol_Resources = [ko_Name obj],
                       pol_Verbs = object_permissions obj\<rparr>) (ko_Objects config))"

text \<open>The eight switches of the metrics block, in the order of the struct.\<close>

record kubelet_stats_config =
  ks_ExtraMetadataLabels :: "string list"
  ks_Metrics :: "bool list"
  ks_AuthType :: string

definition generateKubeletStatsEnvVars :: "kubelet_stats_config \<Rightarrow> goerr + env_var list" where
  "generateKubeletStatsEnvVars config =
     Inr [\<lparr>ev_Name = ''K8S_NODE_NAME'', ev_Value = [], ev_ValueFrom = Some (FieldRef ''spec.nodeName'')\<rparr>]"

definition nodes_rule :: "string \<Rightarrow> policy_rule" where
  "nodes_rule r = \<lparr>pol_APIGroups = [''''], pol_Resources = [r], pol_Verbs = [''get'']\<rparr>"

definition generateKubeletStatsRbacRules :: "kubelet_stats_config \<Rightarrow> goerr + policy_rule list" where
  "generateKubeletStatsRbacRules config =
     (let prs = [nodes_rule ''nodes/stats'']; nodesProxyPr = nodes_rule ''nodes/proxy''
      in if ks_ExtraMetadataLabels config \<noteq> [] then Inr (prs @ [nodesProxyPr])
         else if List.find (\<lambda>metric. metric) (ks_Metrics config) \<noteq> None then Inr (prs @ [nodesProxyPr])
         else Inr prs)"

section \<open>Extensions\<close>

definition defaultHealthcheckV1Path :: string where "defaultHealthcheckV1Path = ''/''"
definition defaultHealthcheckV1Port :: int where "defaultHealthcheckV1Port = 13133"

record healthcheck_config =
  hc_Single :: single_endpoint_config
  hc_Path :: string

text \<open>
  \<^verbatim>\<open>net.SplitHostPort\<close>, with \<^const>\<open>None\<close> for its errors: the text after the last colon is the
  port; a host in brackets may hold colons, any other may not; no other bracket is allowed.
\<close>

definition SplitHostPort :: "string \<Rightarrow> (string \<times> string) option" where
  "SplitHostPort s =
     (if CHR '':'' \<notin> set s then None
      else let p = rev (takeWhile (\<lambda>c. c \<noteq> CHR '':'') (rev s));
               before = take (length s - Suc (length p)) s
           in if hd s = CHR ''[''
              then let inner = takeWhile (\<lambda>c. c \<noteq> CHR '']'') (tl s)
                   in if CHR '']'' \<notin> set s then None
                      else if length before \<noteq> length inner + 2 then None
                      else if CHR ''['' \<in> set (tl s) \<or> CHR '']'' \<in> set (drop (length inner + 2) s) then None
                      else Some (inner, p)
              else if CHR '':'' \<in> set before then None
              else if CHR ''['' \<in> set s \<or> CHR '']'' \<in> set s then None
              else Some (before, p))"

definition healthCheckV1AddressDefaulter ::
  "(healthcheck_config \<Rightarrow> goerr + 'c) \<Rightarrow> ('c, healthcheck_config) defaulter" where
  "healthCheckV1AddressDefaulter encode defaultRecAddr port config =
     (let endpoint = se_Endpoint (hc_Single config);
          endpoint' = (if endpoint = [] then defaultRecAddr @ '':'' @ int_str port
                       else (case SplitHostPort endpoint of
                               Some (h, p) \<Rightarrow> if h = [] \<and> p \<noteq> [] then defaultRecAddr @ '':'' @ p else endpoint
                             | None \<Rightarrow> endpoint));
          path' = (if hc_Path config = [] then defaultHealthcheckV1Path else hc_Path config)
      in encode \<lparr>hc_Single = (hc_Single config)\<lparr>se_Endpoint := endpoint'\<rparr>, hc_Path = path'\<rparr>)"

definition healthCheckV1Probe :: "healthcheck_config \<Rightarrow> goerr + probe option" where
  "healthCheckV1Probe config =
     (let path = (if hc_Path config = [] then defaultHealthcheckV1Path else hc_Path config)
      in Inr (Some \<lparr>pr_Path = path,
            pr_Port = IntVal (GetPortNumOrDefault (hc_Single config) defaultHealthcheckV1Port),
            pr_InitialDelaySeconds = 0, pr_PeriodSeconds = 0\<rparr>))"

text \<open>The configuration of the Jaeger query extension is its HTTP endpoint.\<close>

record jaeger_query_config = jq_Endpoint :: string

definition jaeger_GetPortNum :: "jaeger_query_config \<Rightarrow> goerr + int" where
  "jaeger_GetPortNum g =
     (if jq_Endpoint g \<noteq> [] then PortFromEndpoint (jq_Endpoint g) else Inl ErrPortNotFound)"

definition jaeger_GetPortNumOrDefault :: "jaeger_query_config \<Rightarrow> int \<Rightarrow> int" where
  "jaeger_GetPortNumOrDefault g p = (case jaeger_GetPortNum g of Inl _ \<Rightarrow> p | Inr num \<Rightarrow> num)"

definition ParseJaegerQueryExtensionConfig :: "jaeger_query_config option port_parser" where
  "ParseJaegerQueryExtensionConfig name defaultPort config =
     (case config of
        None \<Rightarrow> Inr []
      | Some cfg \<Rightarrow>
          (case (jaeger_GetPortNum cfg, sp_Port defaultPort = UnsetPort) of
             (Inl err, True) \<Rightarrow> Inl err
           | _ \<Rightarrow>
               (let port = jaeger_GetPortNumOrDefault cfg (sp_Port defaultPort);
                    svcPort = defaultPort\<lparr>sp_Name := PortName name port\<rparr>
                in Inr [ConstructServicePort svcPort port])))"

definition endpointDefaulter ::
  "(jaeger_query_config \<Rightarrow> goerr + 'c) \<Rightarrow> ('c, jaeger_query_config option) defaulter" where
  "endpointDefaulter encode defaultRecAddr port config =
     (let cfg = (case config of None \<Rightarrow> \<lparr>jq_Endpoint = []\<rparr> | Some c \<Rightarrow> c)
      in encode \<lparr>jq_Endpoint = default_endpoint defaultRecAddr port (jq_Endpoint cfg)\<rparr>)"

definition NewJaegerQueryExtensionParserBuilder ::
  "(jaeger_query_config \<Rightarrow> goerr + 'c) \<Rightarrow> ('c, jaeger_query_config option) builder" where
  "NewJaegerQueryExtensionParserBuilder encode =
     WithTargetPort 16686 (WithDefaultRecAddress DefaultRecAddress
       (WithDefaultsApplier (endpointDefaulter encode)
         (WithPortParser ParseJaegerQueryExtensionConfig
           (WithName ''jaeger_query'' (WithPort 16686 NewBuilder)))))"

section \<open>Parsers of every configuration type\<close>

datatype 'c parser =
    SingleParser "('c, single_endpoint_config option) generic_parser"
  | MultiParser multi_port_receiver
  | KubeletStatsParser "('c, kubelet_stats_config) generic_parser"
  | K8sEventsParser "('c, unit) generic_parser"
  | K8sClusterParser "('c, k8scluster_config) generic_parser"
  | K8sObjectsParser "('c, k8sobjects_config) generic_parser"
  | HealthCheckParser "('c, healthcheck_config) generic_parser"
  | JaegerQueryParser "('c, jaeger_query_config option) generic_parser"
  | AnyParser "('c, 'c) generic_parser"

record 'c codec =
  dec_single :: "'c \<Rightarrow> goerr + single_endpoint_config option"
  dec_multi :: "'c \<Rightarrow> goerr + multi_protocol_config"
  dec_kubelet :: "'c \<Rightarrow> goerr + kubelet_stats_config"
  dec_events :: "'c \<Rightarrow> goerr + unit"
  dec_cluster :: "'c \<Rightarrow> goerr + k8scluster_config"
  dec_objects :: "'c \<Rightarrow> goerr + k8sobjects_config"
  dec_health :: "'c \<Rightarrow> goerr + healthcheck_config"
  dec_jaeger :: "'c \<Rightarrow> goerr + jaeger_query_config option"
  dec_any :: "'c \<Rightarrow> goerr + 'c"
  enc_single :: "single_endpoint_config \<Rightarrow> goerr + 'c"
  enc_health :: "healthcheck_config \<Rightarrow> goerr + 'c"
  enc_jaeger :: "jaeger_query_config \<Rightarrow> goerr + 'c"
  enc_protocols :: "(string, 'c) gomap \<Rightarrow> 'c"

fun parser_ParserType :: "'c parser \<Rightarrow> string" where
  "parser_ParserType (SingleParser g) = ParserType g"
| "parser_ParserType (MultiParser m) = multi_ParserType m"
| "parser_ParserType (KubeletStatsParser g) = ParserType g"
| "parser_ParserType (K8sEventsParser g) = ParserType g"
| "parser_ParserType (K8sClusterParser g) = ParserType g"
| "parser_ParserType (K8sObjectsParser g) = ParserType g"
| "parser_ParserType (HealthCheckParser g) = ParserType g"
| "parser_ParserType (JaegerQueryParser g) = ParserType g"
| "parser_ParserType (AnyParser g) = ParserType g"

text \<open>A method call on the interface value: only a multi-port receiver changes its own state.\<close>

fun parser_Ports ::
  "'c codec \<Rightarrow> 'c parser \<Rightarrow> string \<Rightarrow> 'c \<Rightarrow> service_port list outcome \<times> 'c parser" where
  "parser_Ports cd (SingleParser g) name config = (Ports (dec_single cd) g name config, SingleParser g)"
| "parser_Ports cd (MultiParser m) name config =
     (let (r, m') = multi_Ports (dec_multi cd) m name config in (of_sum r, MultiParser m'))"
| "parser_Ports cd (KubeletStatsParser g) name config =
     (Ports (dec_kubelet cd) g name config, KubeletStatsParser g)"
| "parser_Ports cd (K8sEventsParser g) name config = (Ports (dec_events cd) g name config, K8sEventsParser g)"
| "parser_Ports cd (K8sClusterParser g) name config =
     (Ports (dec_cluster cd) g name config, K8sClusterParser g)"
| "parser_Ports cd (K8sObjectsParser g) name config =
     (Ports (dec_objects cd) g name config, K8sObjectsParser g)"
| "parser_Ports cd (HealthCheckParser g) name config =
     (Ports (dec_health cd) g name config, HealthCheckParser g)"
| "parser_Ports cd (JaegerQueryParser g) name config =
     (Ports (dec_jaeger cd) g name config, JaegerQueryParser g)"
| "parser_Ports cd (AnyParser g) name config = (Ports (dec_any cd) g name config, AnyParser g)"

fun parser_PortsWithUrlPaths ::
  "'c codec \<Rightarrow> 'c parser \<Rightarrow> string \<Rightarrow> 'c \<Rightarrow> port_url_paths list outcome \<times> 'c parser" where
  "parser_PortsWithUrlPaths cd (MultiParser m) name config =
     (let (r, m') = multi_PortsWithUrlPaths (dec_multi cd) m name config in (r, MultiParser m'))"
| "parser_PortsWithUrlPaths cd (SingleParser g) name config =
     (PortsWithUrlPaths g name config, SingleParser g)"
| "parser_PortsWithUrlPaths cd (KubeletStatsParser g) name config =
     (PortsWithUrlPaths g name config, KubeletStatsParser g)"
| "parser_PortsWithUrlPaths cd (K8sEventsParser g) name config =
     (PortsWithUrlPaths g name config, K8sEventsParser g)"
| "parser_PortsWithUrlPaths cd (K8sClusterParser g) name config =
     (PortsWithUrlPaths g name config, K8sClusterParser g)"
| "parser_PortsWithUrlPaths cd (K8sObjectsParser g) name config =
     (PortsWithUrlPaths g name config, K8sObjectsParser g)"
| "parser_PortsWithUrlPaths cd (HealthCheckParser g) name config =
     (PortsWithUrlPaths g name config, HealthCheckParser g)"
| "parser_PortsWithUrlPaths cd (JaegerQueryParser g) name config =
     (PortsWithUrlPaths g name config, JaegerQueryParser g)"
| "parser_PortsWithUrlPaths cd (AnyParser g) name config =
     (PortsWithUrlPaths g name config, AnyParser g)"

section \<open>The table of receivers (receivers/helpers.go)\<close>

definition DefaultStatsdPort :: int where "DefaultStatsdPort = 8125"
definition DefaultOtlpGrpcPort :: int where "DefaultOtlpGrpcPort = 4317"
definition DefaultOtlpHttpPort :: int where "DefaultOtlpHttpPort = 4318"
definition DefaultSkyWalkingGrpcPort :: int where "DefaultSkyWalkingGrpcPort = 11800"
definition DefaultSkyWalkingHttpPort :: int where "DefaultSkyWalkingHttpPort = 12800"
definition DefaultJaegerGrpcPort :: int where "DefaultJaegerGrpcPort = 14250"
definition DefaultJaegerThriftHttpPort :: int where "DefaultJaegerThriftHttpPort = 14268"
definition DefaultJaegerThriftCompactPort :: int where "DefaultJaegerThriftCompactPort = 6831"
definition DefaultJaegerThriftBinaryPort :: int where "DefaultJaegerThriftBinaryPort = 6832"
definition DefaultLokiGrpcPort :: int where "DefaultLokiGrpcPort = 9095"
definition DefaultLokiHttpPort :: int where "DefaultLokiHttpPort = 3100"
definition DefaultAwsXrayPort :: int where "DefaultAwsXrayPort = 2000"
definition DefaultCarbonPort :: int where "DefaultCarbonPort = 2003"
definition DefaultCollectdPort :: int where "DefaultCollectdPort = 8081"
definition DefaultFluentForwardPort :: int where "DefaultFluentForwardPort = 8006"
definition DefaultInfluxDBPort :: int where "DefaultInfluxDBPort = 8086"
definition DefaultOpencensusPort :: int where "DefaultOpencensusPort = 55678"
definition DefaultSapmPort :: int where "DefaultSapmPort = 7276"
definition DefaultSignalFxPort :: int where "DefaultSignalFxPort = 9943"
definition DefaultSplunkHecPort :: int where "DefaultSplunkHecPort = 8088"
definition DefaultWaveFrontPort :: int where "DefaultWaveFrontPort = 2003"
definition DefaultZipkinPort :: int where "DefaultZipkinPort = 9411"
definition DefaultZipkinTargetPort :: int where "DefaultZipkinTargetPort = 3100"

definition NewScraperParser :: "string \<Rightarrow> ('c, 'c) generic_parser outcome" where
  "NewScraperParser name = MustBuild (WithPort UnsetPort (WithName name NewBuilder))"

fun sequence_outcome :: "'a outcome list \<Rightarrow> 'a list outcome" where
  "sequence_outcome [] = Ok []"
| "sequence_outcome (r # rs) =
     bind_outcome r (\<lambda>x. bind_outcome (sequence_outcome rs) (\<lambda>xs. Ok (x # xs)))"

definition otlp_builder :: "unit multi_port_builder" where
  "otlp_builder =
     AddPortMapping (WithTargetPort DefaultOtlpHttpPort (WithAppProtocol (Some HttpProtocol)
         (NewProtocolBuilder ''http'' DefaultOtlpHttpPort)))
       (AddPortMapping (WithUrlPaths
           [''/opentelemetry.proto.collector.logs.v1.LogsService'',
            ''/opentelemetry.proto.collector.traces.v1.TracesService'',
            ''/opentelemetry.proto.collector.metrics.v1.MetricsService'']
         (WithTargetPort DefaultOtlpGrpcPort (WithAppProtocol (Some GrpcProtocol)
           (NewProtocolBuilder ''grpc'' DefaultOtlpGrpcPort))))
       (NewMultiPortReceiverBuilder ''otlp''))"

definition skywalking_builder :: "unit multi_port_builder" where
  "skywalking_builder =
     AddPortMapping (WithAppProtocol (Some HttpProtocol) (WithTargetPort DefaultSkyWalkingHttpPort
         (NewProtocolBuilder HttpProtocol DefaultSkyWalkingHttpPort)))
       (AddPortMapping (WithUrlPaths
           [''/skywalking.v3/ManagementService'', ''/skywalking.v3/TraceSegmentReportService'',
            ''/skywalking.v3/JVMMetricReportService'']
         (WithAppProtocol (Some GrpcProtocol) (WithTargetPort DefaultSkyWalkingGrpcPort
           (NewProtocolBuilder GrpcProtocol DefaultSkyWalkingGrpcPort))))
       (NewMultiPortReceiverBuilder ''skywalking''))"

definition jaeger_builder :: "unit multi_port_builder" where
  "jaeger_builder =
     AddPortMapping (WithProtocol ''UDP'' (WithTargetPort DefaultJaegerThriftBinaryPort
         (NewProtocolBuilder ''thrift_binary'' DefaultJaegerThriftBinaryPort)))
       (AddPortMapping (WithProtocol ''UDP'' (WithTargetPort DefaultJaegerThriftCompactPort
         (NewProtocolBuilder ''thrift_compact'' DefaultJaegerThriftCompactPort)))
       (AddPortMapping (WithAppProtocol (Some HttpProtocol) (WithProtocol ''TCP''
         (WithTargetPort DefaultJaegerThriftHttpPort
         (NewProtocolBuilder ''thrift_http'' DefaultJaegerThriftHttpPort))))
       (AddPortMapping (WithUrlPaths
           [''/jaeger.api_v2/CollectorService'', ''/jaeger.api_v3/QueryService'']
         (WithAppProtocol (Some GrpcProtocol) (WithProtocol ''TCP''
           (WithTargetPort DefaultJaegerGrpcPort
             (NewProtocolBuilder GrpcProtocol DefaultJaegerGrpcPort)))))
       (NewMultiPortReceiverBuilder ''jaeger''))))"

definition loki_builder :: "unit multi_port_builder" where
  "loki_builder =
     AddPortMapping (WithAppProtocol (Some HttpProtocol) (WithTargetPort DefaultLokiHttpPort
         (NewProtocolBuilder HttpProtocol DefaultLokiHttpPort)))
       (AddPortMapping (WithUrlPaths [''/logproto.Pusher'']
         (WithAppProtocol (Some GrpcProtocol) (WithTargetPort DefaultLokiGrpcPort
           (NewProtocolBuilder GrpcProtocol DefaultLokiGrpcPort))))
       (NewMultiPortReceiverBuilder ''loki''))"

definition multi_entries :: "'c parser outcome list" where
  "multi_entries = map (\<lambda>b. map_outcome MultiParser (multi_MustBuild b))
    [otlp_builder, skywalking_builder, jaeger_builder, loki_builder]"

definition single_entries :: "'c codec \<Rightarrow> 'c parser outcome list" where
  "single_entries cd = map (\<lambda>b. map_outcome SingleParser (MustBuild b))
    [WithProtocol ''UDP'' (WithTargetPort DefaultAwsXrayPort
       (NewSinglePortParserBuilder (enc_single cd) ''awsxray'' DefaultAwsXrayPort)),
     WithTargetPort DefaultCarbonPort
       (NewSinglePortParserBuilder (enc_single cd) ''carbon'' DefaultCarbonPort),
     WithTargetPort DefaultCollectdPort
       (NewSinglePortParserBuilder (enc_single cd) ''collectd'' DefaultCollectdPort),
     WithTargetPort DefaultFluentForwardPort
       (NewSinglePortParserBuilder (enc_single cd) ''fluentforward'' DefaultFluentForwardPort),
     WithTargetPort DefaultInfluxDBPort
       (NewSinglePortParserBuilder (enc_single cd) ''influxdb'' DefaultInfluxDBPort),
     WithTargetPort DefaultOpencensusPort (WithAppProtocol None
       (NewSinglePortParserBuilder (enc_single cd) ''opencensus'' DefaultOpencensusPort)),
     WithTargetPort DefaultSapmPort
       (NewSinglePortParserBuilder (enc_single cd) ''sapm'' DefaultSapmPort),
     WithTargetPort DefaultSignalFxPort
       (NewSinglePortParserBuilder (enc_single cd) ''signalfx'' DefaultSignalFxPort),
     WithTargetPort DefaultSplunkHecPort
       (NewSinglePortParserBuilder (enc_single cd) ''splunk_hec'' DefaultSplunkHecPort),
     WithTargetPort DefaultStatsdPort (WithProtocol ''UDP''
       (NewSinglePortParserBuilder (enc_single cd) ''statsd'' DefaultStatsdPort)),
     WithProtocol ''TCP'' (NewSinglePortParserBuilder (enc_single cd) ''tcplog'' UnsetPort),
     WithProtocol ''UDP'' (NewSinglePortParserBuilder (enc_single cd) ''udplog'' UnsetPort),
     WithTargetPort DefaultWaveFrontPort
       (NewSinglePortParserBuilder (enc_single cd) ''wavefront'' DefaultWaveFrontPort),
     WithTargetPort DefaultZipkinTargetPort (WithProtocol ''TCP'' (WithAppProtocol (Some HttpProtocol)
       (NewSinglePortParserBuilder (enc_single cd) ''zipkin'' DefaultZipkinPort)))]"

definition k8s_entries :: "'c parser outcome list" where
  "k8s_entries =
    [map_outcome KubeletStatsParser (MustBuild (WithEnvVarGen generateKubeletStatsEnvVars
       (WithRbacGen generateKubeletStatsRbacRules (WithName ''kubeletstats'' NewBuilder)))),
     map_outcome K8sEventsParser (MustBuild (WithRbacGen generatek8seventsRbacRules
       (WithName ''k8s_events'' NewBuilder))),
     map_outcome K8sClusterParser (MustBuild (WithRbacGen generatek8sclusterRbacRules
       (WithName ''k8s_cluster'' NewBuilder))),
     map_outcome K8sObjectsParser (MustBuild (WithRbacGen generatek8sobjectsRbacRules
       (WithName ''k8sobjects'' NewBuilder)))]"

definition scraper_names :: "string list" where
  "scraper_names =
    [''prometheus'', ''sshcheck'', ''cloudfoundry'', ''vcenter'', ''oracledb'', ''snmp'',
     ''googlecloudpubsub'', ''chrony'', ''jmx'', ''podman_stats'', ''pulsar'', ''docker_stats'',
     ''aerospike'', ''zookeeper'', ''prometheus_simple'', ''saphana'', ''riak'', ''redis'',
     ''rabbitmq'', ''purefb'', ''postgresql'', ''nsxt'', ''nginx'', ''mysql'', ''memcached'',
     ''httpcheck'', ''haproxy'', ''flinkmetrics'', ''couchdb'', ''filelog'']"

definition componentParsers :: "'c codec \<Rightarrow> 'c parser list outcome" where
  "componentParsers cd = sequence_outcome
     (multi_entries @ single_entries cd @ k8s_entries @
      map (\<lambda>n. map_outcome AnyParser (NewScraperParser n)) scraper_names)"

type_synonym 'c registry = "(string, 'c parser) gomap"

definition Register :: "string \<Rightarrow> 'c parser \<Rightarrow> 'c registry \<Rightarrow> 'c registry" where
  "Register name p registry = gset name p registry"

definition init_receivers :: "'c codec \<Rightarrow> 'c registry outcome" where
  "init_receivers cd =
     map_outcome (\<lambda>ps. fold (\<lambda>p. Register (parser_ParserType p) p) ps []) (componentParsers cd)"

definition IsRegistered :: "'c registry \<Rightarrow> string \<Rightarrow> bool" where
  "IsRegistered registry name \<longleftrightarrow> gget registry (ComponentType name) \<noteq> None"

definition ReceiverFor :: "'c codec \<Rightarrow> 'c registry \<Rightarrow> string \<Rightarrow> 'c parser outcome" where
  "ReceiverFor cd registry name =
     (case gget registry (ComponentType name) of
        Some p \<Rightarrow> Ok p
      | None \<Rightarrow> map_outcome SingleParser (MustBuild
                  (NewSilentSinglePortParserBuilder (enc_single cd) (ComponentType name) UnsetPort)))"

section \<open>Exporters and extensions\<close>

definition exporters_registry :: "'c codec \<Rightarrow> 'c registry outcome" where
  "exporters_registry cd =
     map_outcome (\<lambda>p. [(''prometheus'', SingleParser p)])
       (MustBuild (NewSinglePortParserBuilder (enc_single cd) ''prometheus'' 8888))"

definition extensions_registry :: "'c codec \<Rightarrow> 'c registry outcome" where
  "extensions_registry cd =
     bind_outcome (MustBuild
       (WithPortParser (\<lambda>name defaultPort config.
            ParseSingleEndpointSilent name defaultPort (Some (hc_Single config)))
         (WithLivenessGen healthCheckV1Probe (WithReadinessGen healthCheckV1Probe
           (WithDefaultRecAddress DefaultRecAddress
             (WithDefaultsApplier (healthCheckV1AddressDefaulter (enc_health cd))
               (WithPort defaultHealthcheckV1Port (WithName ''health_check'' NewBuilder))))))))
       (\<lambda>h. bind_outcome (MustBuild (NewJaegerQueryExtensionParserBuilder (enc_jaeger cd)))
       (\<lambda>j. Ok [(''health_check'', HealthCheckParser h), (''jaeger_query'', JaegerQueryParser j)]))"

text \<open>\<^verbatim>\<open>ParserFor\<close> is the same function in both packages, over the table of its package.\<close>

definition ParserFor :: "'c registry \<Rightarrow> string \<Rightarrow> 'c parser outcome" where
  "ParserFor registry name =
     (case gget registry (ComponentType name) of
        Some p \<Rightarrow> Ok p
      | None \<Rightarrow> map_outcome AnyParser (MustBuild (WithName name NewBuilder)))"

section \<open>URL paths of the enabled components (api/v1/mdaiingress\_config.go)\<close>

datatype component_kind = KindReceiver | KindExporter | KindProcessor | KindExtension | KindOther int

text \<open>
  What the ingress code reads of the collector's configuration: the set of enabled components
  per kind (\<^verbatim>\<open>GetEnabledComponents\<close> of the OpenTelemetry operator, in iteration order) and the
  blocks of receivers and exporters. A component without a block is configured with \<^verbatim>\<open>nil\<close>.
\<close>

record 'v otel_config =
  oc_Enabled :: "component_kind \<Rightarrow> string list"
  oc_Receivers :: "(string, 'v) gomap"
  oc_Exporters :: "(string, 'v) gomap"

record 'v registries =
  rg_receivers :: "'v option registry"
  rg_exporters :: "'v option registry"

text \<open>One call of the retriever and of the method of the parser it returns.\<close>

definition query_parser ::
  "('c registry \<Rightarrow> string \<Rightarrow> 'c parser outcome) \<Rightarrow> 'c codec \<Rightarrow> 'c registry \<Rightarrow> string \<Rightarrow> 'c
     \<Rightarrow> port_url_paths list outcome \<times> 'c registry" where
  "query_parser retriever cd registry name config =
     (case retriever registry name of
        Ok p \<Rightarrow>
          (let (r, p') = parser_PortsWithUrlPaths cd p name config
           in (r, if IsRegistered registry name then gset (ComponentType name) p' registry else registry))
      | Err e \<Rightarrow> (Err e, registry)
      | Panic m \<Rightarrow> (Panic m, registry))"

fun components_loop ::
  "('r \<Rightarrow> string \<Rightarrow> 'v option \<Rightarrow> port_url_paths list outcome \<times> 'r) \<Rightarrow> (string, 'v) gomap
     \<Rightarrow> string list \<Rightarrow> (string, port_url_paths list) gomap \<Rightarrow> 'r
     \<Rightarrow> (string, port_url_paths list) gomap outcome \<times> 'r" where
  "components_loop query cfg [] acc reg = (Ok acc, reg)"
| "components_loop query cfg (componentName # ns) acc reg =
     (let (r, reg') = query reg componentName (gget cfg componentName)
      in (case r of
            Ok parsedPorts \<Rightarrow> components_loop query cfg ns (gset componentName parsedPorts acc) reg'
          | Err e \<Rightarrow> (Err e, reg')
          | Panic m \<Rightarrow> (Panic m, reg')))"

fun kinds_loop ::
  "'v option codec \<Rightarrow> 'v otel_config \<Rightarrow> component_kind list \<Rightarrow> (string, port_url_paths list) gomap
     \<Rightarrow> 'v registries \<Rightarrow> (string, port_url_paths list) gomap outcome \<times> 'v registries" where
  "kinds_loop cd oc [] acc rg = (Ok acc, rg)"
| "kinds_loop cd oc (kind # ks) acc rg =
     (case kind of
        KindReceiver \<Rightarrow>
          (let (r, reg) = components_loop (query_parser (ReceiverFor cd) cd) (oc_Receivers oc)
                            (oc_Enabled oc kind) acc (rg_receivers rg);
               rg' = rg\<lparr>rg_receivers := reg\<rparr>
           in (case r of Ok acc' \<Rightarrow> kinds_loop cd oc ks acc' rg' | _ \<Rightarrow> (r, rg')))
      | KindExporter \<Rightarrow>
          (let (r, reg) = components_loop (query_parser ParserFor cd) (oc_Exporters oc)
                            (oc_Enabled oc kind) acc (rg_exporters rg);
               rg' = rg\<lparr>rg_exporters := reg\<rparr>
           in (case r of Ok acc' \<Rightarrow> kinds_loop cd oc ks acc' rg' | _ \<Rightarrow> (r, rg')))
      | _ \<Rightarrow> kinds_loop cd oc ks acc rg)"

definition getPortsWithUrlPathsForComponentKinds ::
  "'v option codec \<Rightarrow> 'v otel_config \<Rightarrow> component_kind list \<Rightarrow> 'v registries
     \<Rightarrow> (string, port_url_paths list) gomap outcome \<times> 'v registries" where
  "getPortsWithUrlPathsForComponentKinds cd oc kinds rg = kinds_loop cd oc kinds [] rg"

definition GetReceiverPortsWithUrlPaths ::
  "'v option codec \<Rightarrow> 'v otel_config \<Rightarrow> 'v registries
     \<Rightarrow> (string, port_url_paths list) gomap outcome \<times> 'v registries" where
  "GetReceiverPortsWithUrlPaths cd oc rg =
     getPortsWithUrlPathsForComponentKinds cd oc [KindReceiver] rg"

section \<open>The contract of a table of parsers\<close>

text \<open>
  What the loop over the components relies on: a call keeps the table well formed, does not
  panic for a component with a type, and does not change what later calls answer.
\<close>

locale url_path_source =
  fixes query :: "'r \<Rightarrow> string \<Rightarrow> 'v option \<Rightarrow> port_url_paths list outcome \<times> 'r"
    and ok :: "'r \<Rightarrow> bool"
    and typed :: "string \<Rightarrow> bool"
  assumes query_ok: "ok r \<Longrightarrow> ok (snd (query r n c))"
    and query_safe: "ok r \<Longrightarrow> typed n \<Longrightarrow> \<not> panics (fst (query r n c))"
    and query_repeatable: "ok r \<Longrightarrow> fst (query (snd (query r n c)) n' c') = fst (query r n' c')"
begin

lemma loop_step:
  "components_loop query cfg (n # ns) acc r =
     (case fst (query r n (gget cfg n)) of
        Ok ps \<Rightarrow> components_loop query cfg ns (gset n ps acc) (snd (query r n (gget cfg n)))
      | Err e \<Rightarrow> (Err e, snd (query r n (gget cfg n)))
      | Panic m \<Rightarrow> (Panic m, snd (query r n (gget cfg n))))"
  by (simp add: case_prod_beta Let_def)

lemma loop_ok: "ok r \<Longrightarrow> ok (snd (components_loop query cfg ns acc r))"
proof (induction ns arbitrary: acc r)
  case (Cons n ns)
  then show ?case
    using query_ok [OF Cons.prems, of n "gget cfg n"]
    by (simp only: loop_step) (simp split: outcome.splits)
qed simp

lemma loop_safe:
  assumes "ok r" "\<forall>n \<in> set ns. typed n"
  shows "\<not> panics (fst (components_loop query cfg ns acc r))"
  using assms
proof (induction ns arbitrary: acc r)
  case (Cons n ns)
  have "ok (snd (query r n (gget cfg n)))" using Cons.prems(1) by (rule query_ok)
  moreover have "\<not> panics (fst (query r n (gget cfg n)))"
    using Cons.prems by (simp add: query_safe)
  ultimately show ?case
    using Cons by (simp only: loop_step) (auto split: outcome.splits)
qed simp

text \<open>A result of the loop has one entry per component, each the answer of the initial table.\<close>

lemma loop_entries:
  assumes "ok r" "fst (components_loop query cfg ns acc r) = Ok m"
  shows "(\<forall>n \<in> set ns. \<exists>ps. gget m n = Some ps \<and> fst (query r n (gget cfg n)) = Ok ps) \<and>
    (\<forall>k. k \<notin> set ns \<longrightarrow> gget m k = gget acc k)"
  using assms
proof (induction ns arbitrary: acc r)
  case (Cons n ns)
  define q where "q = query r n (gget cfg n)"
  have okq: "ok (snd q)" unfolding q_def using Cons.prems(1) by (rule query_ok)
  from Cons.prems(2) obtain ps where ps: "fst q = Ok ps"
    and rest: "fst (components_loop query cfg ns (gset n ps acc) (snd q)) = Ok m"
    by (simp only: loop_step q_def) (auto split: outcome.splits)
  have same: "fst (query (snd q) k c) = fst (query r k c)" for k c
    unfolding q_def using Cons.prems(1) by (rule query_repeatable)
  have IH: "\<forall>k \<in> set ns. \<exists>qs. gget m k = Some qs \<and> fst (query r k (gget cfg k)) = Ok qs"
      "\<forall>k. k \<notin> set ns \<longrightarrow> gget m k = gget (gset n ps acc) k"
    using Cons.IH [OF okq rest] by (simp_all add: same)
  have "\<exists>qs. gget m n = Some qs \<and> fst (query r n (gget cfg n)) = Ok qs"
  proof (cases "n \<in> set ns")
    case True
    with IH(1) show ?thesis by blast
  next
    case False
    with IH(2) ps show ?thesis by (simp add: q_def update_conv)
  qed
  then show ?case using IH by (simp add: update_conv)
qed simp

end

section \<open>Built parsers\<close>

definition parser_ok :: "'c parser \<Rightarrow> bool" where
  "parser_ok p \<longleftrightarrow> (case p of MultiParser m \<Rightarrow> tables_agree m | _ \<Rightarrow> True)"

definition registry_ok :: "'c registry \<Rightarrow> bool" where
  "registry_ok reg \<longleftrightarrow> (\<forall>k p. gget reg k = Some p \<longrightarrow> parser_ok p)"

lemma multi_PortsWithUrlPaths_keeps:
  assumes "tables_agree m"
  shows "same_ports (mp_portMappings (snd (multi_PortsWithUrlPaths decode m name config)))
      (mp_portMappings m) \<and>
    mp_urlPathsMapping (snd (multi_PortsWithUrlPaths decode m name config)) = mp_urlPathsMapping m \<and>
    mp_addrMappings (snd (multi_PortsWithUrlPaths decode m name config)) = mp_addrMappings m"
proof -
  have "gget (mp_urlPathsMapping m) k \<noteq> None" if "gget (mp_portMappings m) k \<noteq> None" for k
    using assms that by (simp add: tables_agree_def)
  from multi_url_paths_loop_spec [OF this, where acc = "[]" and name = name] show ?thesis
    by (auto simp: multi_PortsWithUrlPaths_def case_prod_beta Let_def split: sum.splits)
qed

lemma same_ports_url_paths:
  assumes "same_ports pm pm'" "first_unknown pm ps = None"
  shows "map (\<lambda>e. \<lparr>pu_Port = protocol_service name pm e, pu_UrlPaths = f e\<rparr>) ps =
    map (\<lambda>e. \<lparr>pu_Port = protocol_service name pm' e, pu_UrlPaths = f e\<rparr>) ps"
  using same_ports_services [OF assms, of name] by simp

lemma multi_PortsWithUrlPaths_repeatable:
  assumes "tables_agree m"
  shows "tables_agree (snd (multi_PortsWithUrlPaths decode m name config)) \<and>
    fst (multi_PortsWithUrlPaths decode (snd (multi_PortsWithUrlPaths decode m name config)) name' config') =
    fst (multi_PortsWithUrlPaths decode m name' config')"
proof -
  define m' where "m' = snd (multi_PortsWithUrlPaths decode m name config)"
  have k: "same_ports (mp_portMappings m') (mp_portMappings m)"
      "mp_urlPathsMapping m' = mp_urlPathsMapping m" "mp_addrMappings m' = mp_addrMappings m"
    using multi_PortsWithUrlPaths_keeps [OF assms, of decode name config]
    by (simp_all add: m'_def)
  have agree: "tables_agree m'"
    using assms same_ports_None [OF k(1)] unfolding tables_agree_def k(2,3) by blast
  have "fst (multi_PortsWithUrlPaths decode m' name' config') =
      fst (multi_PortsWithUrlPaths decode m name' config')"
    unfolding multi_PortsWithUrlPaths_eq [OF agree] multi_PortsWithUrlPaths_eq [OF assms] k(2)
    using same_ports_first_unknown [OF k(1)] same_ports_url_paths [OF k(1)]
    by (auto split: sum.splits option.splits)
  with agree show ?thesis by (simp add: m'_def)
qed

lemma parser_query_safe:
  "parser_ok p \<Longrightarrow> \<not> panics (fst (parser_PortsWithUrlPaths cd p name config))"
  by (cases p)
    (auto simp: parser_ok_def PortsWithUrlPaths_def case_prod_beta Let_def
      multi_PortsWithUrlPaths_eq split: sum.splits option.splits)

lemma parser_query_repeatable:
  assumes "parser_ok p"
  shows "parser_ok (snd (parser_PortsWithUrlPaths cd p name config)) \<and>
    fst (parser_PortsWithUrlPaths cd (snd (parser_PortsWithUrlPaths cd p name config)) name' config') =
    fst (parser_PortsWithUrlPaths cd p name' config')"
  using assms
  by (cases p)
    (auto simp: parser_ok_def PortsWithUrlPaths_def case_prod_beta Let_def
      multi_PortsWithUrlPaths_repeatable)

lemma Build_name:
  "Build b = Inr p \<Longrightarrow> gp_name p = st_name (Apply NewEmptySettings b) \<and> gp_name p \<noteq> []"
  by (auto simp: Build_def Let_def split: if_splits)

lemma MustBuild_named:
  "st_name (Apply NewEmptySettings b) = n \<Longrightarrow> n \<noteq> [] \<Longrightarrow>
     \<exists>p. MustBuild b = Ok p \<and> gp_name p = n"
  by (auto simp: MustBuild_def Build_def Let_def)

lemmas builder_defs =
  Apply_def NewEmptySettings_def NewBuilder_def WithProtocol_def WithAppProtocol_def
  WithDefaultRecAddress_def WithTargetPort_def WithNodePort_def WithName_def WithPort_def
  WithPortParser_def WithRbacGen_def WithLivenessGen_def WithReadinessGen_def WithEnvVarGen_def
  WithDefaultsApplier_def WithUrlPaths_def NewSinglePortParserBuilder_def
  NewSilentSinglePortParserBuilder_def NewProtocolBuilder_def

lemma ReceiverFor_returns:
  assumes "ComponentType name \<noteq> []"
  shows "\<exists>p. ReceiverFor cd reg name = Ok p"
proof (cases "gget reg (ComponentType name)")
  case None
  obtain p :: "('a, single_endpoint_config option) generic_parser" where
    "MustBuild (NewSilentSinglePortParserBuilder (enc_single cd) (ComponentType name) UnsetPort) = Ok p"
    using MustBuild_named [OF _ assms,
        of "NewSilentSinglePortParserBuilder (enc_single cd) (ComponentType name) UnsetPort"]
    by (auto simp: builder_defs)
  with None show ?thesis by (simp add: ReceiverFor_def)
qed (simp add: ReceiverFor_def)

lemma ReceiverFor_untyped: "gget reg [] = None \<Longrightarrow> ComponentType n = [] \<Longrightarrow> panics (ReceiverFor cd reg n)"
  by (simp add: ReceiverFor_def MustBuild_def Build_def Let_def builder_defs)

lemma ParserFor_returns:
  assumes "ComponentType name \<noteq> []"
  shows "\<exists>p. ParserFor reg name = Ok p"
proof (cases "gget reg (ComponentType name)")
  case None
  have "name \<noteq> []" using assms by (auto simp: ComponentType_def)
  then obtain p :: "('a, 'a) generic_parser" where "MustBuild (WithName name NewBuilder) = Ok p"
    using MustBuild_named [of "WithName name NewBuilder" name] by (auto simp: builder_defs)
  with None show ?thesis by (simp add: ParserFor_def)
qed (simp add: ParserFor_def)

lemma query_parser_fst:
  "fst (query_parser retr cd reg n c) =
     bind_outcome (retr reg n) (\<lambda>p. fst (parser_PortsWithUrlPaths cd p n c))"
  by (cases "retr reg n") (simp_all add: query_parser_def case_prod_beta Let_def)

lemma ReceiverFor_fallback_ok:
  "gget reg (ComponentType n) = None \<Longrightarrow> ReceiverFor cd reg n = Ok p \<Longrightarrow> parser_ok p"
  by (auto simp: ReceiverFor_def outcome_iff parser_ok_def)

lemma ParserFor_fallback_ok:
  "gget reg (ComponentType n) = None \<Longrightarrow> ParserFor reg n = Ok p \<Longrightarrow> parser_ok p"
  by (auto simp: ParserFor_def outcome_iff parser_ok_def)

text \<open>
  A retriever looks its table up by component type and falls back to a parser of its own, which does not
  depend on the table.
\<close>

locale parser_retriever =
  fixes retr :: "'v option registry \<Rightarrow> string \<Rightarrow> 'v option parser outcome"
  assumes retr_registered: "gget reg (ComponentType n) = Some p \<Longrightarrow> retr reg n = Ok p"
    and retr_fallback: "gget reg (ComponentType n) = None \<Longrightarrow> gget reg' (ComponentType n) = None
      \<Longrightarrow> retr reg n = retr reg' n"
    and retr_fallback_ok: "gget reg (ComponentType n) = None \<Longrightarrow> retr reg n = Ok p \<Longrightarrow> parser_ok p"
    and retr_returns: "ComponentType n \<noteq> [] \<Longrightarrow> \<exists>p. retr reg n = Ok p"
begin

lemma retr_ok: "registry_ok reg \<Longrightarrow> retr reg n = Ok p \<Longrightarrow> parser_ok p"
  using retr_registered [of reg n] retr_fallback_ok [of reg n]
  by (cases "gget reg (ComponentType n)") (auto simp: registry_ok_def)

text \<open>What one call does to the table: nothing, or an update of the entry of the component.\<close>

lemma query_update:
  assumes "registry_ok reg"
  shows "snd (query_parser retr cd reg n c) = reg \<or>
    (\<exists>p. gget reg (ComponentType n) = Some p \<and> parser_ok p \<and>
      snd (query_parser retr cd reg n c) =
        gset (ComponentType n) (snd (parser_PortsWithUrlPaths cd p n c)) reg)"
  using assms retr_registered [of reg n]
  by (cases "gget reg (ComponentType n)")
    (auto simp: query_parser_def IsRegistered_def registry_ok_def case_prod_beta Let_def
      split: outcome.splits)

lemma query_registry_ok:
  assumes "registry_ok reg"
  shows "registry_ok (snd (query_parser retr cd reg n c))"
  using query_update [OF assms, of cd n c] assms parser_query_repeatable [of _ cd n c]
  by (auto simp: registry_ok_def update_conv split: if_splits)

lemma query_same_answer:
  assumes "registry_ok reg"
  shows "fst (query_parser retr cd (snd (query_parser retr cd reg n c)) n' c') =
    fst (query_parser retr cd reg n' c')"
proof (cases "snd (query_parser retr cd reg n c) = reg")
  case False
  with query_update [OF assms, of cd n c] obtain p where
    p: "gget reg (ComponentType n) = Some p" "parser_ok p"
    and upd: "snd (query_parser retr cd reg n c) =
      gset (ComponentType n) (snd (parser_PortsWithUrlPaths cd p n c)) reg" by blast
  show ?thesis
  proof (cases "ComponentType n' = ComponentType n")
    case True
    then have "retr (gset (ComponentType n) (snd (parser_PortsWithUrlPaths cd p n c)) reg) n' =
        Ok (snd (parser_PortsWithUrlPaths cd p n c))" "retr reg n' = Ok p"
      using p by (simp_all add: retr_registered update_conv)
    then show ?thesis
      using parser_query_repeatable [OF p(2)] by (simp add: upd query_parser_fst)
  next
    case other: False
    then have "gget (gset (ComponentType n) (snd (parser_PortsWithUrlPaths cd p n c)) reg)
        (ComponentType n') = gget reg (ComponentType n')" by (simp add: update_conv)
    then have "retr (gset (ComponentType n) (snd (parser_PortsWithUrlPaths cd p n c)) reg) n' = retr reg n'"
      using retr_fallback [of reg n'] retr_registered
      by (cases "gget reg (ComponentType n')") metis+
    then show ?thesis by (simp add: upd query_parser_fst)
  qed
qed simp

lemma query_never_panics:
  assumes "registry_ok reg" "ComponentType n \<noteq> []"
  shows "\<not> panics (fst (query_parser retr cd reg n c))"
  using retr_returns [OF assms(2), of reg] retr_ok [OF assms(1)] parser_query_safe [of _ cd n c]
  by (auto simp: query_parser_fst)

end

sublocale parser_retriever \<subseteq> table: url_path_source
  "query_parser retr cd" registry_ok "\<lambda>n. ComponentType n \<noteq> []" for cd
  by unfold_locales (rule query_registry_ok query_never_panics query_same_answer; assumption)+

interpretation receivers: parser_retriever "ReceiverFor cd" for cd
  by unfold_locales
    (simp add: ReceiverFor_def, simp add: ReceiverFor_def,
      rule ReceiverFor_fallback_ok, assumption+, rule ReceiverFor_returns, assumption)

interpretation exporters: parser_retriever ParserFor
  by unfold_locales
    (simp add: ParserFor_def, simp add: ParserFor_def,
      rule ParserFor_fallback_ok, assumption+, rule ParserFor_returns, assumption)

section \<open>Building the table\<close>

definition builds :: "'c parser outcome \<Rightarrow> string \<Rightarrow> bool" where
  "builds r t \<longleftrightarrow> (\<exists>p. r = Ok p \<and> parser_ParserType p = t \<and> parser_ok p)"

lemma sequence_builds:
  "list_all2 builds rs ts \<Longrightarrow>
     \<exists>ps. sequence_outcome rs = Ok ps \<and> map parser_ParserType ps = ts \<and> list_all parser_ok ps"
proof (induction rs ts rule: list_all2_induct)
  case (Cons r rs t ts)
  then obtain p ps where "r = Ok p" "parser_ParserType p = t" "parser_ok p"
    "sequence_outcome rs = Ok ps" "map parser_ParserType ps = ts" "list_all parser_ok ps"
    by (auto simp: builds_def)
  then show ?case by (intro exI [of _ "p # ps"]) simp
qed simp

lemma builds_generic:
  assumes "st_name (Apply NewEmptySettings b) = n" "n \<noteq> []"
    and "\<And>g. parser_ParserType (C g) = ParserType g" "\<And>g. parser_ok (C g)"
  shows "builds (map_outcome C (MustBuild b)) (ComponentType n)"
  using MustBuild_named [OF assms(1,2)] assms(3,4)
  by (auto simp: builds_def ParserType_def)

lemma builds_multi:
  assumes "multi_MustBuild b = Ok m"
  shows "builds (map_outcome MultiParser (multi_MustBuild b)) (ComponentType (mp_name m))"
proof -
  have "multi_Build b = Ok m"
    using assms by (auto simp: multi_MustBuild_def split: outcome.splits)
  then show ?thesis
    using assms multi_Build_tables_agree
    by (auto simp: builds_def multi_ParserType_def parser_ok_def)
qed

definition receiver_types :: "string list" where
  "receiver_types = [''otlp'', ''skywalking'', ''jaeger'', ''loki'',
     ''awsxray'', ''carbon'', ''collectd'', ''fluentforward'', ''influxdb'', ''opencensus'',
     ''sapm'', ''signalfx'', ''splunk_hec'', ''statsd'', ''tcplog'', ''udplog'', ''wavefront'',
     ''zipkin'', ''kubeletstats'', ''k8s_events'', ''k8s_cluster'', ''k8sobjects''] @ scraper_names"

lemma builds_multi_named:
  assumes "map_outcome mp_name (multi_MustBuild b) = Ok n" "ComponentType n = t"
  shows "builds (map_outcome MultiParser (multi_MustBuild b)) t"
  using assms builds_multi [of b] by (auto simp: outcome_iff)

lemma multi_names:
  "map_outcome mp_name (multi_MustBuild otlp_builder) = Ok ''otlp''"
  "map_outcome mp_name (multi_MustBuild skywalking_builder) = Ok ''skywalking''"
  "map_outcome mp_name (multi_MustBuild jaeger_builder) = Ok ''jaeger''"
  "map_outcome mp_name (multi_MustBuild loki_builder) = Ok ''loki''"
  by code_simp+

lemma multi_entries_build:
  "list_all2 builds (multi_entries :: 'c parser outcome list)
     [''otlp'', ''skywalking'', ''jaeger'', ''loki'']"
  by (simp add: multi_entries_def builds_multi_named [OF multi_names(1)]
      builds_multi_named [OF multi_names(2)] builds_multi_named [OF multi_names(3)]
      builds_multi_named [OF multi_names(4)] ComponentType_def)

lemma builds_single:
  assumes "st_name (Apply NewEmptySettings b) = n" "n \<noteq> []" "ComponentType n = n"
  shows "builds (map_outcome SingleParser (MustBuild b)) n"
  using builds_generic [OF assms(1,2), of SingleParser] assms(3) by (simp add: parser_ok_def)

lemma single_entries_build:
  "list_all2 builds (single_entries cd)
     [''awsxray'', ''carbon'', ''collectd'', ''fluentforward'', ''influxdb'', ''opencensus'',
     ''sapm'', ''signalfx'', ''splunk_hec'', ''statsd'', ''tcplog'', ''udplog'', ''wavefront'',
     ''zipkin'']"
  unfolding single_entries_def list.map
  by (intro list_all2_Cons [THEN iffD2] conjI list.rel_intros(1) builds_single;
      simp add: builder_defs ComponentType_def)

lemma k8s_entries_build:
  "list_all2 builds (k8s_entries :: 'c parser outcome list)
     (map ComponentType [''kubeletstats'', ''k8s_events'', ''k8s_cluster'', ''k8sobjects''])"
  unfolding k8s_entries_def list.map
  by (intro list_all2_Cons [THEN iffD2] conjI list.rel_intros(1) builds_generic;
      simp add: builder_defs parser_ok_def)

lemma scraper_builds:
  assumes "n \<noteq> []"
  shows "builds (map_outcome AnyParser (NewScraperParser n)) (ComponentType n)"
  unfolding NewScraperParser_def
  by (rule builds_generic) (simp_all add: builder_defs parser_ok_def assms)

lemma scraper_entries_build:
  "list_all2 builds (map (\<lambda>n. map_outcome AnyParser (NewScraperParser n)) scraper_names)
     (map ComponentType scraper_names)"
  unfolding list_all2_map1 list_all2_map2
  by (rule list.rel_refl_strong, rule scraper_builds) (auto simp: scraper_names_def)

lemma receiver_types_plain: "map ComponentType receiver_types = receiver_types"
  by (simp add: receiver_types_def scraper_names_def ComponentType_def)

lemma distinct_receiver_types: "distinct receiver_types"
  by (simp add: receiver_types_def scraper_names_def)

lemma fold_Register:
  assumes "distinct (map parser_ParserType ps)"
  shows "gget (fold (\<lambda>p. Register (parser_ParserType p) p) ps reg) t =
    (case List.find (\<lambda>p. parser_ParserType p = t) ps of Some p \<Rightarrow> Some p | None \<Rightarrow> gget reg t)"
  using assms
proof (induction ps arbitrary: reg)
  case (Cons p ps)
  have "List.find (\<lambda>q. parser_ParserType q = parser_ParserType p) ps = None"
    using Cons.prems by (force simp: find_None_iff image_iff)
  with Cons show ?case
    by (auto simp: Register_def update_conv split: option.splits)
qed simp

lemma component_parsers_built:
  "\<exists>ps. componentParsers cd = Ok ps \<and> map parser_ParserType ps = receiver_types \<and> list_all parser_ok ps"
proof -
  have "list_all2 builds (multi_entries @ single_entries cd @ k8s_entries @
      map (\<lambda>n. map_outcome AnyParser (NewScraperParser n)) scraper_names) (map ComponentType receiver_types)"
    using list_all2_appendI [OF multi_entries_build list_all2_appendI [OF single_entries_build
        list_all2_appendI [OF k8s_entries_build scraper_entries_build]], of cd]
    by (simp add: receiver_types_def ComponentType_def)
  from sequence_builds [OF this] show ?thesis
    by (simp add: componentParsers_def receiver_types_plain)
qed

lemma init_receivers_spec:
  "\<exists>reg. init_receivers cd = Ok reg \<and> registry_ok reg \<and>
     (\<forall>t. gget reg t \<noteq> None \<longleftrightarrow> t \<in> set receiver_types)"
proof -
  obtain ps where ps: "componentParsers cd = Ok ps" "map parser_ParserType ps = receiver_types"
    "list_all parser_ok ps" using component_parsers_built [of cd] by blast
  define reg where "reg = fold (\<lambda>p. Register (parser_ParserType p) p) ps []"
  have get: "gget reg t = List.find (\<lambda>p. parser_ParserType p = t) ps" for t
    unfolding reg_def using fold_Register [of ps "[]" t] distinct_receiver_types ps(2)
    by (auto split: option.splits)
  have "registry_ok reg"
    using ps(3) by (auto simp: registry_ok_def get find_Some_iff list_all_length)
  moreover have "gget reg t \<noteq> None \<longleftrightarrow> t \<in> set receiver_types" for t
    by (auto simp: get find_None_iff ps(2) [symmetric])
  ultimately show ?thesis using ps(1) by (simp add: init_receivers_def reg_def)
qed

lemma GetReceiverPortsWithUrlPaths_loop:
  "GetReceiverPortsWithUrlPaths cd oc rg =
     map_prod id (\<lambda>reg. rg\<lparr>rg_receivers := reg\<rparr>)
       (components_loop (query_parser (ReceiverFor cd) cd) (oc_Receivers oc)
         (oc_Enabled oc KindReceiver) [] (rg_receivers rg))"
  by (auto simp: GetReceiverPortsWithUrlPaths_def getPortsWithUrlPathsForComponentKinds_def
      case_prod_beta Let_def map_prod_def split: outcome.splits)

section \<open>Properties\<close>

lemma untyped_not_registered: "[] \<notin> set receiver_types"
  by (simp add: receiver_types_def scraper_names_def)

text \<open>
  The package initialiser of the receivers does not panic, every entry of the table is well
  formed, no registration overwrites another, and the registered types are exactly those listed.
\<close>

theorem receivers_registered:
  "\<exists>reg. init_receivers cd = Ok reg \<and> registry_ok reg \<and> distinct receiver_types \<and>
     (\<forall>name. IsRegistered reg name \<longleftrightarrow> ComponentType name \<in> set receiver_types)"
  using init_receivers_spec [of cd] distinct_receiver_types by (auto simp: IsRegistered_def)

text \<open>
  C21. Collecting the URL paths of the enabled receivers over the initial table does not panic when
  every enabled receiver has a type before the slash of its name, and a result has exactly one entry
  per enabled receiver, each the ports the receiver's parser reports for its own configuration,
  whatever was asked before and in whatever order the receivers are visited. A name without a type,
  such as one that starts with a slash, makes the choice of the parser panic.
\<close>

theorem receiver_url_paths_collected:
  "\<exists>reg. init_receivers cd = Ok reg \<and>
     (\<forall>oc rg. (\<forall>n \<in> set (oc_Enabled oc KindReceiver). ComponentType n \<noteq> []) \<longrightarrow>
        rg_receivers rg = reg \<longrightarrow>
        \<not> panics (fst (GetReceiverPortsWithUrlPaths cd oc rg)) \<and>
        (\<forall>m. fst (GetReceiverPortsWithUrlPaths cd oc rg) = Ok m \<longrightarrow>
           (\<forall>n. if n \<in> set (oc_Enabled oc KindReceiver)
                then map_option Ok (gget m n) =
                  Some (fst (query_parser (ReceiverFor cd) cd reg n (gget (oc_Receivers oc) n)))
                else gget m n = None))) \<and>
     (\<forall>n. ComponentType n = [] \<longrightarrow> panics (ReceiverFor cd reg n))"
proof -
  obtain reg where reg: "init_receivers cd = Ok reg" "registry_ok reg" "\<forall>t. gget reg t \<noteq> None \<longleftrightarrow> t \<in> set receiver_types"
    using init_receivers_spec [of cd] by auto
  have none: "gget reg [] = None" using reg(3) untyped_not_registered by blast
  show ?thesis
    using receivers.table.loop_safe [OF reg(2), where cd = cd]
      receivers.table.loop_entries [OF reg(2), where cd = cd]
      ReceiverFor_untyped [OF none]
    by (intro exI [of _ reg]) (fastforce simp: GetReceiverPortsWithUrlPaths_loop reg(1))
qed

definition sample_codec :: "unit option codec" where
  "sample_codec = \<lparr>dec_single = (\<lambda>_. Inr None), dec_multi = (\<lambda>_. Inr [(''grpc'', None), (''http'', None)]),
     dec_kubelet = (\<lambda>_. Inr \<lparr>ks_ExtraMetadataLabels = [], ks_Metrics = [], ks_AuthType = []\<rparr>),
     dec_events = (\<lambda>_. Inr ()), dec_cluster = (\<lambda>_. Inr \<lparr>kc_Distribution = []\<rparr>),
     dec_objects = (\<lambda>_. Inr \<lparr>ko_Objects = []\<rparr>),
     dec_health = (\<lambda>_. Inr \<lparr>hc_Single = \<lparr>se_Endpoint = [], se_ListenAddress = []\<rparr>, hc_Path = []\<rparr>),
     dec_jaeger = (\<lambda>_. Inr None), dec_any = (\<lambda>c. Inr c), enc_single = (\<lambda>_. Inr None),
     enc_health = (\<lambda>_. Inr None), enc_jaeger = (\<lambda>_. Inr None), enc_protocols = (\<lambda>_. None)\<rparr>"

theorem receiver_url_paths_collected_witness:
  "\<exists>reg. init_receivers sample_codec = Ok reg \<and>
     \<not> panics (fst (GetReceiverPortsWithUrlPaths sample_codec
        \<lparr>oc_Enabled = (\<lambda>k. if k = KindReceiver then [''otlp'', ''otlp/2'', ''loki''] else []),
         oc_Receivers = [(''otlp'', ())], oc_Exporters = []\<rparr>
        \<lparr>rg_receivers = reg, rg_exporters = []\<rparr>))"
proof -
  obtain reg where "init_receivers sample_codec = Ok reg"
    "\<not> panics (fst (GetReceiverPortsWithUrlPaths sample_codec
        \<lparr>oc_Enabled = (\<lambda>k. if k = KindReceiver then [''otlp'', ''otlp/2'', ''loki''] else []),
         oc_Receivers = [(''otlp'', ())], oc_Exporters = []\<rparr>
        \<lparr>rg_receivers = reg, rg_exporters = []\<rparr>))"
    using receiver_url_paths_collected [of sample_codec] by (auto simp: ComponentType_def)
  then show ?thesis by blast
qed

definition read_only_rules :: "goerr + policy_rule list \<Rightarrow> bool" where
  "read_only_rules r =
     (case r of Inl _ \<Rightarrow> False
      | Inr rs \<Rightarrow> list_all (\<lambda>rule. list_all (\<lambda>v. v \<in> {''get'', ''list'', ''watch''}) (pol_Verbs rule)) rs)"

text \<open>
  The generators of access rules of the Kubernetes receivers never fail and only ever grant
  reading: every verb of every rule is get, list or watch.
\<close>

theorem receiver_rbac_read_only:
  "read_only_rules (generatek8seventsRbacRules u) \<and> read_only_rules (generatek8sclusterRbacRules kc) \<and>
   read_only_rules (generatek8sobjectsRbacRules ko) \<and> read_only_rules (generateKubeletStatsRbacRules ks)"
  by (auto simp: read_only_rules_def generatek8seventsRbacRules_def generatek8sclusterRbacRules_def
      generatek8sobjectsRbacRules_def generateKubeletStatsRbacRules_def get_list_watch_def
      nodes_rule_def object_permissions_def Let_def list_all_iff split: if_splits)

end
