(* ===== verification/Manifests.thy ===== *)
theory Manifests
  imports Registry "HOL-Library.List_Lexorder" "HOL-Library.Char_ord"
begin

text \<open>
  The objects generated for a collector behind an ingress: \<^verbatim>\<open>internal/manifests\<close> with its
  packages \<^verbatim>\<open>collector\<close> and \<^verbatim>\<open>manifestutils\<close>. The methods \<^verbatim>\<open>GetReceiverPorts\<close> and
  \<^verbatim>\<open>GetAllPorts\<close> of the OpenTelemetry operator, the compilation of label patterns and
  \<^verbatim>\<open>mergo.Merge\<close> are parameters.
\<close>

section \<open>The collector and the ingress resource\<close>

definition CloudProviderAws :: string where "CloudProviderAws = ''aws''"

record ingress_service =
  isv_Type :: string
  isv_Annotations :: labels

record mdai_ingress =
  mi_Meta :: object_meta
  mi_OtelCollector :: string
  mi_CloudType :: string
  mi_Annotations :: labels
  mi_IngressClassName :: "string option"
  mi_GrpcService :: "ingress_service option"
  mi_NonGrpcService :: "ingress_service option"
  mi_CollectorEndpoints :: labels

record 'v otelcol =
  ocl_Meta :: object_meta
  ocl_Image :: string
  ocl_Mode :: string
  ocl_Ports :: "service_port list"
  ocl_IngressType :: string
  ocl_IngressRuleType :: string
  ocl_IngressTLS :: "ingress_tls list"
  ocl_IngressClassName :: "string option"
  ocl_Config :: "'v otel_config"

text \<open>\<^verbatim>\<open>manifests.Params\<close> with its \<^verbatim>\<open>OtelMdaiIngressComb\<close>.\<close>

record 'v params =
  pa_Otelcol :: "'v otelcol"
  pa_MdaiIngress :: mdai_ingress

record 'v port_lib =
  pl_GetReceiverPorts :: "'v otel_config \<Rightarrow> goerr + service_port list"
  pl_GetAllPorts :: "'v otel_config \<Rightarrow> goerr + service_port list"

definition NewOtelIngressConfig :: "'v otelcol \<Rightarrow> mdai_ingress \<Rightarrow> 'v params" where
  "NewOtelIngressConfig otelcolConfig ingressConfig =
     \<lparr>pa_Otelcol = otelcolConfig, pa_MdaiIngress = ingressConfig\<rparr>"

section \<open>Labels (manifestutils/labels.go)\<close>

text \<open>
  The argument \<^term>\<open>compile\<close> stands for \<^verbatim>\<open>regexp.Compile\<close>; an invalid pattern gives a \<^verbatim>\<open>nil\<close>
  regexp, and matching with it panics.
\<close>

fun IsFilteredSet :: "(string \<Rightarrow> (string \<Rightarrow> bool) option) \<Rightarrow> string \<Rightarrow> string list \<Rightarrow> bool outcome" where
  "IsFilteredSet compile sourceSet [] = Ok False"
| "IsFilteredSet compile sourceSet (basePattern # ps) =
     (case compile basePattern of
        None \<Rightarrow> Panic ''invalid memory address or nil pointer dereference''
      | Some pattern \<Rightarrow> if pattern sourceSet then Ok True else IsFilteredSet compile sourceSet ps)"

fun copy_labels ::
  "(string \<Rightarrow> (string \<Rightarrow> bool) option) \<Rightarrow> string list \<Rightarrow> labels \<Rightarrow> labels \<Rightarrow> labels outcome" where
  "copy_labels compile filterLabels [] base = Ok base"
| "copy_labels compile filterLabels ((k, v) # ls) base =
     bind_outcome (IsFilteredSet compile k filterLabels) (\<lambda>filtered.
       copy_labels compile filterLabels ls (if filtered then base else gset k v base))"

definition version_label :: "string list \<Rightarrow> string" where
  "version_label version =
     fold (\<lambda>v l. if HasSuffix v ''@sha256'' then TrimSuffix v ''@sha256'' else l) version []"

definition Labels ::
  "(string \<Rightarrow> (string \<Rightarrow> bool) option) \<Rightarrow> object_meta \<Rightarrow> string \<Rightarrow> string \<Rightarrow> string list \<Rightarrow> labels outcome" where
  "Labels compile instance_meta name img filterLabels =
     bind_outcome
       (copy_labels compile filterLabels (entries (om_Labels instance_meta))
          [(''app.kubernetes.io/managed-by'', ''mdai-operator'')])
       (\<lambda>base.
         let version = Split img (CHR '':'');
             v = (if length version = 3 then version_label version
                  else if length version = 2 then Truncate [Verb] 63 [ArgStr (last version)]
                  else ''latest'');
             base' = gset ''app.kubernetes.io/version'' v base
         in Ok (if gget base' ''app.kubernetes.io/name'' = None
                then gset ''app.kubernetes.io/name'' name base' else base'))"

definition SelectorLabels :: "object_meta \<Rightarrow> string \<Rightarrow> labels" where
  "SelectorLabels instance_meta component =
     [(''app.kubernetes.io/managed-by'', ''opentelemetry-operator''),
      (''app.kubernetes.io/instance'',
         Truncate [Verb, Lit ''.'', Verb] 63
           [ArgStr (om_Namespace instance_meta), ArgStr (om_Name instance_meta)]),
      (''app.kubernetes.io/component'', component)]"

section \<open>Ports (collector/service.go, ingress.go)\<close>

record port_number_key =
  pk_Port :: int
  pk_Protocol :: string

definition newPortNumberKeyByPort :: "int \<Rightarrow> port_number_key" where
  "newPortNumberKeyByPort port = \<lparr>pk_Port = port, pk_Protocol = ''TCP''\<rparr>"

definition newPortNumberKey :: "int \<Rightarrow> string \<Rightarrow> port_number_key" where
  "newPortNumberKey port protocol =
     \<lparr>pk_Port = port, pk_Protocol = (if protocol = [] then ''TCP'' else protocol)\<rparr>"

text \<open>The sets \<^verbatim>\<open>map[K]bool\<close> only ever hold \<^verbatim>\<open>true\<close>.\<close>

definition filterPort ::
  "service_port \<Rightarrow> (port_number_key, bool) gomap \<Rightarrow> (string, bool) gomap \<Rightarrow> service_port option" where
  "filterPort candidate portNumbers portNames =
     (if gget portNumbers (newPortNumberKey (sp_Port candidate) (sp_Protocol candidate)) = Some True
      then None
      else if gget portNames (sp_Name candidate) = Some True
      then (let fallbackName = ''port-'' @ int_str (sp_Port candidate)
            in if gget portNames fallbackName = Some True then None
               else Some (candidate\<lparr>sp_Name := fallbackName\<rparr>))
      else Some candidate)"

definition extractPortNumbersAndNames ::
  "service_port list \<Rightarrow> (port_number_key, bool) gomap \<times> (string, bool) gomap" where
  "extractPortNumbersAndNames ports =
     fold (\<lambda>p (numbers, names).
       (gset (newPortNumberKey (sp_Port p) (sp_Protocol p)) True numbers, gset (sp_Name p) True names))
       ports ([], [])"

text \<open>\<^verbatim>\<open>toServicePorts\<close> takes the embedded service port of every port of the collector's spec.\<close>

definition toServicePorts :: "service_port list \<Rightarrow> service_port list" where
  "toServicePorts spec = fold (\<lambda>p ports. ports @ [p]) spec []"

text \<open>The block shared by \<^verbatim>\<open>servicePortsFromCfg\<close> and \<^verbatim>\<open>NonGrpcService\<close>.\<close>

definition merge_spec_ports :: "service_port list \<Rightarrow> service_port list \<Rightarrow> service_port list" where
  "merge_spec_ports specPorts ports =
     (if specPorts \<noteq> []
      then (let (portNumbers, portNames) = extractPortNumbersAndNames specPorts
            in toServicePorts specPorts @
               List.map_filter (\<lambda>inferred. filterPort inferred portNumbers portNames) ports)
      else ports)"

definition servicePortsFromCfg :: "'v port_lib \<Rightarrow> 'v otelcol \<Rightarrow> goerr + service_port list" where
  "servicePortsFromCfg pl otelcol =
     (case pl_GetReceiverPorts pl (ocl_Config otelcol) of
        Inl e \<Rightarrow> Inl e
      | Inr ports \<Rightarrow> Inr (merge_spec_ports (ocl_Ports otelcol) ports))"

text \<open>Deleting from a slice while walking it backwards.\<close>

fun remove_backwards :: "('a \<Rightarrow> bool) \<Rightarrow> nat \<Rightarrow> 'a list \<Rightarrow> 'a list" where
  "remove_backwards P 0 xs = xs"
| "remove_backwards P (Suc i) xs =
     remove_backwards P i (if P (xs ! i) then take i xs @ drop (Suc i) xs else xs)"

definition not_grpc :: "service_port \<Rightarrow> bool" where
  "not_grpc p \<longleftrightarrow>
     sp_AppProtocol p = None \<or> (sp_AppProtocol p \<noteq> None \<and> the (sp_AppProtocol p) \<noteq> ''grpc'')"

definition is_grpc :: "service_port \<Rightarrow> bool" where
  "is_grpc p \<longleftrightarrow> sp_AppProtocol p \<noteq> None \<and> the (sp_AppProtocol p) = ''grpc''"

section \<open>Services (collector/service\_aws.go)\<close>

definition ComponentOpenTelemetryCollector :: string where
  "ComponentOpenTelemetryCollector = ''opentelemetry-collector''"

text \<open>The annotations of a generated object: those of the collector overridden by its own.\<close>

definition merged_annotations :: "labels option \<Rightarrow> labels \<Rightarrow> labels" where
  "merged_annotations otelcolAnnotations own =
     (let a = (if entries otelcolAnnotations \<noteq> [] then maps_copy [] (entries otelcolAnnotations) else [])
      in if own \<noteq> [] then maps_copy a own else a)"

definition traffic_policy :: "string \<Rightarrow> string" where
  "traffic_policy mode = (if mode = ''daemonset'' then ''Local'' else ''Cluster'')"

definition service_type :: "ingress_service option \<Rightarrow> string" where
  "service_type svc =
     (case svc of
        None \<Rightarrow> ''ClusterIP''
      | Some s \<Rightarrow> if isv_Type s \<noteq> [] then isv_Type s else ''ClusterIP'')"

definition collector_service ::
  "'v otelcol \<Rightarrow> string \<Rightarrow> labels \<Rightarrow> labels \<Rightarrow> ingress_service option \<Rightarrow> service_port list \<Rightarrow> service" where
  "collector_service oc name lbls annotations svc ports =
     \<lparr>svc_Meta = (meta_named name (om_Namespace (ocl_Meta oc)))
        \<lparr>om_Labels := Some lbls, om_Annotations := Some annotations\<rparr>,
      svc_Spec = \<lparr>ss_Ports = ports,
        ss_Selector = Some (SelectorLabels (ocl_Meta oc) ComponentOpenTelemetryCollector),
        ss_Type = service_type svc,
        ss_InternalTrafficPolicy = Some (traffic_policy (ocl_Mode oc))\<rparr>\<rparr>"

definition nil_deref :: "'a outcome" where
  "nil_deref = Panic ''invalid memory address or nil pointer dereference''"

definition no_filter :: "string \<Rightarrow> (string \<Rightarrow> bool) option" where
  "no_filter p = None"

text \<open>
  Both functions read the annotations of the service block before they test it for \<^verbatim>\<open>nil\<close>. They filter no
  label, so no pattern is ever compiled.
\<close>

definition collector_GrpcService :: "'v port_lib \<Rightarrow> 'v params \<Rightarrow> service option outcome" where
  "collector_GrpcService pl params =
     (let oc = pa_Otelcol params; mi = pa_MdaiIngress params
      in if ocl_IngressType oc \<noteq> [] \<or> mi_CloudType mi \<noteq> CloudProviderAws then Ok None
         else let name = Naming.GrpcService (om_Name (ocl_Meta oc))
              in bind_outcome (Labels no_filter (ocl_Meta oc) name (ocl_Image oc) []) (\<lambda>lbls.
                (case mi_GrpcService mi of
                   None \<Rightarrow> nil_deref
                 | Some svc \<Rightarrow>
                     (let annotations = merged_annotations (om_Annotations (ocl_Meta oc)) (isv_Annotations svc)
                      in bind_outcome (of_sum (servicePortsFromCfg pl oc)) (\<lambda>ports0.
                         let ports = remove_backwards not_grpc (length ports0) ports0
                         in if ports = [] then Ok None
                            else Ok (Some (collector_service oc name lbls annotations
                                              (mi_GrpcService mi) ports)))))))"

definition collector_NonGrpcService :: "'v port_lib \<Rightarrow> 'v params \<Rightarrow> service option outcome" where
  "collector_NonGrpcService pl params =
     (let oc = pa_Otelcol params; mi = pa_MdaiIngress params
      in if ocl_IngressType oc \<noteq> [] \<or> mi_CloudType mi \<noteq> CloudProviderAws then Ok None
         else let name = Naming.NonGrpcService (om_Name (ocl_Meta oc))
              in bind_outcome (Labels no_filter (ocl_Meta oc) name (ocl_Image oc) []) (\<lambda>lbls.
                (case mi_NonGrpcService mi of
                   None \<Rightarrow> nil_deref
                 | Some svc \<Rightarrow>
                     (let annotations = merged_annotations (om_Annotations (ocl_Meta oc)) (isv_Annotations svc)
                      in bind_outcome (of_sum (pl_GetAllPorts pl (ocl_Config oc))) (\<lambda>inferred.
                         let ports0 = merge_spec_ports (ocl_Ports oc) inferred;
                             ports = remove_backwards is_grpc (length ports0) ports0
                         in if ports = [] then Ok None
                            else Ok (Some (collector_service oc name lbls annotations
                                              (mi_NonGrpcService mi) ports)))))))"

section \<open>The ingress (collector/ingress\_aws.go)\<close>

text \<open>
  Every rule of a component holds the one slice of paths made for the component, which is
  filled in by the time the loop ends; a rule is added for each port of the component.
\<close>

definition port_paths :: "string \<Rightarrow> port_url_paths \<Rightarrow> ingress_path list" where
  "port_paths otelcol pu =
     (let portName = PortName (sp_Name (pu_Port pu)) (sp_Port (pu_Port pu))
      in map (\<lambda>endpoint. \<lparr>ip_Path = endpoint, ip_PathType = ''Prefix'',
              ip_ServiceName = Naming.GrpcService otelcol, ip_PortName = portName\<rparr>) (pu_UrlPaths pu))"

definition component_rules ::
  "string \<Rightarrow> labels \<Rightarrow> string \<times> port_url_paths list \<Rightarrow> ingress_rule list" where
  "component_rules otelcol colEndpoints entry =
     (let paths = concat (map (port_paths otelcol) (snd entry))
      in concat (map (\<lambda>pu. case gget colEndpoints (fst entry) of
                             None \<Rightarrow> []
                           | Some host \<Rightarrow> [\<lparr>ir_Host = host, ir_Paths = paths\<rparr>]) (snd entry)))"

definition createPathIngressRulesUrlPaths ::
  "string \<Rightarrow> labels \<Rightarrow> (string, port_url_paths list) gomap \<Rightarrow> ingress_rule list" where
  "createPathIngressRulesUrlPaths otelcol colEndpoints compPortsUrlPaths =
     concat (map (component_rules otelcol colEndpoints) compPortsUrlPaths)"

text \<open>Keeping the gRPC ports of every component and dropping the components without any.\<close>

fun grpc_components ::
  "(string, port_url_paths list) gomap \<Rightarrow> (string, port_url_paths list) gomap" where
  "grpc_components [] = []"
| "grpc_components ((component, pes) # m) =
     (let pes' = remove_backwards (\<lambda>pe. not_grpc (pu_Port pe)) (length pes) pes
      in if pes' \<noteq> [] then (component, pes') # grpc_components m else grpc_components m)"

text \<open>\<^verbatim>\<open>sort.Slice\<close> by host name.\<close>

definition sort_rules :: "ingress_rule list \<Rightarrow> ingress_rule list" where
  "sort_rules rules = sort_key ir_Host rules"

definition servicePortsUrlPathsFromCfg ::
  "'v option codec \<Rightarrow> 'v params \<Rightarrow> 'v registries
     \<Rightarrow> (string, port_url_paths list) gomap outcome \<times> 'v registries" where
  "servicePortsUrlPathsFromCfg cd params rg =
     GetReceiverPortsWithUrlPaths cd (ocl_Config (pa_Otelcol params)) rg"

definition aws_ingress :: "'v params \<Rightarrow> labels \<Rightarrow> ingress_rule list \<Rightarrow> ingress" where
  "aws_ingress params annotations rules =
     (let oc = pa_Otelcol params
      in \<lparr>ing_Meta = (meta_named (Naming.Ingress (om_Name (ocl_Meta oc))) (om_Namespace (ocl_Meta oc)))
            \<lparr>om_Annotations := Some annotations, om_Labels := om_Labels (mi_Meta (pa_MdaiIngress params))\<rparr>,
          ing_Spec = \<lparr>is_DefaultBackend = None, is_TLS = ocl_IngressTLS oc, is_Rules = sort_rules rules,
            is_IngressClassName = ocl_IngressClassName oc\<rparr>\<rparr>)"

definition IngressAws ::
  "'v option codec \<Rightarrow> 'v params \<Rightarrow> 'v registries \<Rightarrow> ingress option outcome \<times> 'v registries" where
  "IngressAws cd params rg =
     (let oc = pa_Otelcol params; mi = pa_MdaiIngress params;
          annotations = merged_annotations (om_Annotations (ocl_Meta oc)) (mi_Annotations mi);
          (r, rg') = servicePortsUrlPathsFromCfg cd params rg
      in (bind_outcome r (\<lambda>compPortsEndpoints.
            if compPortsEndpoints = [] then Ok None
            else let grpc = grpc_components compPortsEndpoints
                 in if grpc = [] then Ok None
                    else if ocl_IngressRuleType oc = ''path'' \<or> ocl_IngressRuleType oc = []
                    then (if mi_CollectorEndpoints mi = []
                          then Err (ErrNew ''empty components to hostnames mapping'')
                          else let rules = createPathIngressRulesUrlPaths (om_Name (ocl_Meta oc))
                                             (mi_CollectorEndpoints mi) grpc
                               in if rules = [] then Ok None
                                  else Ok (Some (aws_ingress params annotations rules)))
                    else Ok None), rg'))"

definition collector_Ingress ::
  "'v option codec \<Rightarrow> 'v params \<Rightarrow> 'v registries \<Rightarrow> ingress option outcome \<times> 'v registries" where
  "collector_Ingress cd params rg =
     (if ocl_IngressType (pa_Otelcol params) = [] \<and>
         mi_CloudType (pa_MdaiIngress params) = CloudProviderAws
      then IngressAws cd params rg
      else (Ok None, rg))"

section \<open>Building and mutating objects (collector.go, builder.go, mutate.go)\<close>

datatype client_object = OService service | OIngress ingress | OOther string object_meta

text \<open>The factories in order; a \<^verbatim>\<open>nil\<close> object is skipped, the first error stops.\<close>

fun run_factories :: "client_object option outcome list \<Rightarrow> client_object list \<Rightarrow> client_object list outcome" where
  "run_factories [] acc = Ok acc"
| "run_factories (f # fs) acc =
     bind_outcome f (\<lambda>res. run_factories fs (case res of None \<Rightarrow> acc | Some ob \<Rightarrow> acc @ [ob]))"

definition collector_Build ::
  "'v option codec \<Rightarrow> 'v port_lib \<Rightarrow> 'v params \<Rightarrow> 'v registries
     \<Rightarrow> client_object list outcome \<times> 'v registries" where
  "collector_Build cd pl params rg =
     (let (ing, rg') = collector_Ingress cd params rg
      in (run_factories [map_outcome (map_option OIngress) ing,
                         map_outcome (map_option OService) (collector_GrpcService pl params),
                         map_outcome (map_option OService) (collector_NonGrpcService pl params)] [],
          rg'))"

fun object_meta_of :: "client_object \<Rightarrow> object_meta" where
  "object_meta_of (OService s) = svc_Meta s"
| "object_meta_of (OIngress i) = ing_Meta i"
| "object_meta_of (OOther t m) = m"

fun set_object_meta :: "object_meta \<Rightarrow> client_object \<Rightarrow> client_object" where
  "set_object_meta m (OService s) = OService (s\<lparr>svc_Meta := m\<rparr>)"
| "set_object_meta m (OIngress i) = OIngress (i\<lparr>ing_Meta := m\<rparr>)"
| "set_object_meta m (OOther t _) = OOther t m"

definition mutateIngress :: "ingress \<Rightarrow> ingress \<Rightarrow> ingress" where
  "mutateIngress existing desired =
     \<lparr>ing_Meta = (ing_Meta existing)\<lparr>om_Labels := om_Labels (ing_Meta desired),
        om_Annotations := om_Annotations (ing_Meta desired)\<rparr>,
      ing_Spec = (ing_Spec existing)\<lparr>is_DefaultBackend := is_DefaultBackend (ing_Spec desired),
        is_Rules := is_Rules (ing_Spec desired), is_TLS := is_TLS (ing_Spec desired)\<rparr>\<rparr>"

definition mutateService :: "service \<Rightarrow> service \<Rightarrow> service" where
  "mutateService existing desired =
     existing\<lparr>svc_Spec := (svc_Spec existing)\<lparr>ss_Ports := ss_Ports (svc_Spec desired),
        ss_Selector := ss_Selector (svc_Spec desired)\<rparr>\<rparr>"

type_synonym label_merge = "labels option \<Rightarrow> labels option \<Rightarrow> goerr + labels option"

text \<open>The existing object after the call, and the error the mutate function returns.\<close>

definition MutateFuncFor ::
  "label_merge \<Rightarrow> client_object \<Rightarrow> client_object \<Rightarrow> client_object \<times> goerr option" where
  "MutateFuncFor mergeWithOverride existing desired =
     (let em = object_meta_of existing; dm = object_meta_of desired
      in (case mergeWithOverride (om_Annotations em) (om_Annotations dm) of
            Inl e \<Rightarrow> (existing, Some e)
          | Inr annotations \<Rightarrow>
              (let em1 = em\<lparr>om_Annotations := annotations\<rparr>
               in (case mergeWithOverride (om_Labels em) (om_Labels dm) of
                     Inl e \<Rightarrow> (set_object_meta em1 existing, Some e)
                   | Inr lbls \<Rightarrow>
                       (let em2 = em1\<lparr>om_Labels := lbls\<rparr>;
                            em3 = (if om_OwnerReferences dm \<noteq> []
                                   then em2\<lparr>om_OwnerReferences := om_OwnerReferences dm\<rparr> else em2);
                            ex = set_object_meta em3 existing
                        in (case (ex, desired) of
                              (OService svc, OService wantSvc) \<Rightarrow> (OService (mutateService svc wantSvc), None)
                            | (OService svc, _) \<Rightarrow> (ex, Some (ErrNew ''cannot cast to Service''))
                            | (OIngress ing, OIngress wantIng) \<Rightarrow> (OIngress (mutateIngress ing wantIng), None)
                            | (OIngress ing, _) \<Rightarrow> (ex, Some (ErrNew ''cannot cast to Ingress''))
                            | (OOther t _, _) \<Rightarrow>
                                (ex, Some (ErrNew (''missing mutate implementation for resource type: '' @ t)))))))))"

fun hasImmutableLabelChange :: "labels \<Rightarrow> labels \<Rightarrow> goerr option" where
  "hasImmutableLabelChange [] desiredLabels = None"
| "hasImmutableLabelChange ((k, v) # ls) desiredLabels =
     (case gget desiredLabels k of
        None \<Rightarrow> Some (ErrNew ''Immutable field change attempted: Spec.Template.Metadata.Labels'')
      | Some vv \<Rightarrow> if vv \<noteq> v
                   then Some (ErrNew ''Immutable field change attempted: Spec.Template.Metadata.Labels'')
                   else hasImmutableLabelChange ls desiredLabels)"

section \<open>Lemmas on ports\<close>

lemma remove_backwards_take:
  assumes "i \<le> length xs"
  shows "remove_backwards P i xs = filter (\<lambda>x. \<not> P x) (take i xs) @ drop i xs"
  using assms
proof (induction i arbitrary: xs)
  case (Suc i)
  then have i: "i < length xs" by simp
  have "remove_backwards P (Suc i) xs =
      filter (\<lambda>x. \<not> P x) (take i xs) @ (if P (xs ! i) then [] else [xs ! i]) @ drop (Suc i) xs"
    using Suc.IH [of xs] Suc.IH [of "take i xs @ drop (Suc i) xs"] i
    by (simp add: Cons_nth_drop_Suc)
  then show ?case using i by (simp add: take_Suc_conv_app_nth)
qed simp

lemma remove_backwards_filter [simp]:
  "remove_backwards P (length xs) xs = filter (\<lambda>x. \<not> P x) xs"
  by (simp add: remove_backwards_take)

lemma not_grpc_iff: "not_grpc p \<longleftrightarrow> \<not> is_grpc p"
  by (auto simp: not_grpc_def is_grpc_def)

lemma toServicePorts_id [simp]: "toServicePorts ps = ps"
proof -
  have "fold (\<lambda>p ports. ports @ [p]) ps acc = acc @ ps" for acc :: "service_port list"
    by (induction ps arbitrary: acc) simp_all
  then show ?thesis by (simp add: toServicePorts_def)
qed

lemma extract_fold:
  "fold (\<lambda>p (numbers, names).
       (gset (newPortNumberKey (sp_Port p) (sp_Protocol p)) True numbers, gset (sp_Name p) True names))
     ports (nu, na) = (nu', na') \<Longrightarrow>
   (gget nu' k = Some True \<longleftrightarrow>
      gget nu k = Some True \<or> k \<in> (\<lambda>p. newPortNumberKey (sp_Port p) (sp_Protocol p)) ` set ports) \<and>
   (gget na' n = Some True \<longleftrightarrow> gget na n = Some True \<or> n \<in> sp_Name ` set ports)"
  by (induction ports arbitrary: nu na) (auto simp: update_conv split: if_splits)

lemma extractPortNumbersAndNames_iff:
  assumes "extractPortNumbersAndNames ports = (nu, na)"
  shows "gget nu k = Some True \<longleftrightarrow> k \<in> (\<lambda>p. newPortNumberKey (sp_Port p) (sp_Protocol p)) ` set ports"
    and "gget na n = Some True \<longleftrightarrow> n \<in> sp_Name ` set ports"
  using extract_fold [OF assms [unfolded extractPortNumbersAndNames_def]] by simp_all

definition port_key :: "service_port \<Rightarrow> port_number_key" where
  "port_key p = newPortNumberKey (sp_Port p) (sp_Protocol p)"

lemma filterPort_sound:
  assumes "filterPort c nu na = Some p"
  shows "gget nu (port_key p) \<noteq> Some True \<and> gget na (sp_Name p) \<noteq> Some True \<and>
    port_key p = port_key c \<and> sp_AppProtocol p = sp_AppProtocol c \<and>
    (sp_Name p = sp_Name c \<or> sp_Name p = ''port-'' @ int_str (sp_Port c))"
  using assms by (auto simp: filterPort_def port_key_def Let_def split: if_splits)

lemma merge_spec_ports_split:
  "\<exists>kept. merge_spec_ports spec inferred = spec @ kept \<and>
     (\<forall>p \<in> set kept. port_key p \<in> port_key ` set inferred \<and>
        port_key p \<notin> port_key ` set spec \<and> sp_Name p \<notin> sp_Name ` set spec)"
proof (cases "spec = []")
  case False
  obtain nu na where nn: "extractPortNumbersAndNames spec = (nu, na)" by fastforce
  note iff = extractPortNumbersAndNames_iff [OF nn, folded port_key_def]
  have "port_key p \<in> port_key ` set inferred \<and> port_key p \<notin> port_key ` set spec \<and>
      sp_Name p \<notin> sp_Name ` set spec"
    if p: "p \<in> set (List.map_filter (\<lambda>c. filterPort c nu na) inferred)" for p
  proof -
    from p obtain c where c: "c \<in> set inferred" "filterPort c nu na = Some p"
      by (auto simp: List.map_filter_def)
    from filterPort_sound [OF c(2)] c(1) show ?thesis by (simp add: iff) (metis image_eqI)
  qed
  with False nn show ?thesis by (simp add: merge_spec_ports_def)
qed (simp add: merge_spec_ports_def)

section \<open>Lemmas on labels and annotations\<close>

lemma copy_labels_no_filter:
  "copy_labels compile [] ls base = Ok (maps_copy base ls)"
  by (induction ls arbitrary: base) (auto simp: maps_copy_def)

lemma Labels_no_filter_Ok: "\<exists>ls. Labels no_filter m name img [] = Ok ls"
  by (simp add: Labels_def copy_labels_no_filter Let_def)

lemma Labels_no_filter_not_panic [simp]:
  "\<not> panics (Labels no_filter m name img [])" "Labels no_filter m name img [] \<noteq> Err e"
  using Labels_no_filter_Ok [of m name img] by auto

lemma gget_merged_annotations:
  assumes "distinct (map fst (entries a))" "distinct (map fst own)"
  shows "gget (merged_annotations a own) k =
    (case gget own k of None \<Rightarrow> gget (entries a) k | Some v \<Rightarrow> Some v)"
  using gget_maps_copy [OF assms(1), of "[]"] gget_maps_copy [OF assms(2)]
  by (auto simp: merged_annotations_def Let_def split: option.splits)

section \<open>Lemmas on the generated objects\<close>

lemma grpc_components_eq:
  "grpc_components m =
     filter (\<lambda>e. snd e \<noteq> []) (map (\<lambda>(c, pes). (c, filter (\<lambda>pe. is_grpc (pu_Port pe)) pes)) m)"
  by (induction m rule: grpc_components.induct) (simp_all add: not_grpc_iff Let_def)

lemma component_rules_eq:
  "component_rules otelcol eps (c, pes) =
     (case gget eps c of None \<Rightarrow> []
      | Some host \<Rightarrow> replicate (length pes)
          \<lparr>ir_Host = host, ir_Paths = concat (map (port_paths otelcol) pes)\<rparr>)"
  by (cases "gget eps c") (simp_all add: component_rules_def concat_map_singleton map_replicate_const)

lemma createPath_rules:
  "r \<in> set (createPathIngressRulesUrlPaths otelcol eps m) \<longleftrightarrow>
     (\<exists>c pes. (c, pes) \<in> set m \<and> pes \<noteq> [] \<and> gget eps c = Some (ir_Host r) \<and>
        r = \<lparr>ir_Host = ir_Host r, ir_Paths = concat (map (port_paths otelcol) pes)\<rparr>)"
  by (force simp: createPathIngressRulesUrlPaths_def component_rules_eq split: option.splits)

lemma port_paths_service: "ip \<in> set (port_paths otelcol pu) \<Longrightarrow>
    ip_ServiceName ip = Naming.GrpcService otelcol \<and> ip_PathType ip = ''Prefix'' \<and>
    ip_Path ip \<in> set (pu_UrlPaths pu)"
  by (auto simp: port_paths_def Let_def)

lemma set_sort_rules [simp]: "set (sort_rules rs) = set rs"
  by (simp add: sort_rules_def)

lemma sorted_sort_rules [simp]: "sorted (map ir_Host (sort_rules rs))"
  by (simp add: sort_rules_def)

text \<open>When the ingress of a collector is made, and what it is then.\<close>

lemma IngressAws_Some:
  assumes "fst (IngressAws cd params rg) = Ok (Some ing)"
  obtains m where "fst (servicePortsUrlPathsFromCfg cd params rg) = Ok m"
    and "ing = aws_ingress params
      (merged_annotations (om_Annotations (ocl_Meta (pa_Otelcol params))) (mi_Annotations (pa_MdaiIngress params)))
      (createPathIngressRulesUrlPaths (om_Name (ocl_Meta (pa_Otelcol params)))
         (mi_CollectorEndpoints (pa_MdaiIngress params)) (grpc_components m))"
    and "createPathIngressRulesUrlPaths (om_Name (ocl_Meta (pa_Otelcol params)))
         (mi_CollectorEndpoints (pa_MdaiIngress params)) (grpc_components m) \<noteq> []"
  using assms that
  by (auto simp: IngressAws_def case_prod_beta Let_def outcome_iff split: if_splits)

lemma GrpcService_Some:
  assumes "collector_GrpcService pl params = Ok (Some g)"
  obtains rp where "pl_GetReceiverPorts pl (ocl_Config (pa_Otelcol params)) = Inr rp"
    and "ss_Ports (svc_Spec g) = filter is_grpc (merge_spec_ports (ocl_Ports (pa_Otelcol params)) rp)"
    and "ss_Ports (svc_Spec g) \<noteq> []"
    and "om_Name (svc_Meta g) = Naming.GrpcService (om_Name (ocl_Meta (pa_Otelcol params)))"
    and "om_Namespace (svc_Meta g) = om_Namespace (ocl_Meta (pa_Otelcol params))"
    and "ss_Selector (svc_Spec g) =
      Some (SelectorLabels (ocl_Meta (pa_Otelcol params)) ComponentOpenTelemetryCollector)"
  using assms that
  by (auto simp: collector_GrpcService_def servicePortsFromCfg_def Let_def outcome_iff nil_deref_def
      not_grpc_iff collector_service_def split: if_splits option.splits sum.splits)

lemma NonGrpcService_Some:
  assumes "collector_NonGrpcService pl params = Ok (Some n)"
  obtains ap where "pl_GetAllPorts pl (ocl_Config (pa_Otelcol params)) = Inr ap"
    and "ss_Ports (svc_Spec n) =
      filter (\<lambda>p. \<not> is_grpc p) (merge_spec_ports (ocl_Ports (pa_Otelcol params)) ap)"
    and "ss_Ports (svc_Spec n) \<noteq> []"
    and "om_Name (svc_Meta n) = Naming.NonGrpcService (om_Name (ocl_Meta (pa_Otelcol params)))"
    and "om_Namespace (svc_Meta n) = om_Namespace (ocl_Meta (pa_Otelcol params))"
    and "ss_Selector (svc_Spec n) =
      Some (SelectorLabels (ocl_Meta (pa_Otelcol params)) ComponentOpenTelemetryCollector)"
  using assms that
  by (auto simp: collector_NonGrpcService_def Let_def outcome_iff nil_deref_def
      collector_service_def split: if_splits option.splits sum.splits)

lemma services_not_panic:
  assumes "mi_GrpcService (pa_MdaiIngress params) \<noteq> None" "mi_NonGrpcService (pa_MdaiIngress params) \<noteq> None"
  shows "\<not> panics (collector_GrpcService pl params)" "\<not> panics (collector_NonGrpcService pl params)"
  using assms
  by (auto simp: collector_GrpcService_def collector_NonGrpcService_def Let_def split: if_splits)

section \<open>Properties\<close>

text \<open>
  Merging the ports inferred from the receivers with the ports of the collector's spec keeps
  every spec port, in order and first, and no inferred port that is kept has the number and protocol or the
  name of a spec port.
\<close>

theorem spec_ports_win:
  "\<exists>kept. merge_spec_ports spec inferred = spec @ kept \<and>
     port_key ` set kept \<subseteq> port_key ` set inferred \<and>
     port_key ` set kept \<inter> port_key ` set spec = {} \<and>
     sp_Name ` set kept \<inter> sp_Name ` set spec = {}"
  using merge_spec_ports_split [of spec inferred] by (fastforce simp: image_iff)

text \<open>
  C27. When a collector gets both services, they select the same pods in the same namespace under
  different names, the one holds exactly the gRPC ports of the receivers and the other exactly the remaining
  ports, and no port is in both.
\<close>

theorem services_split_ports:
  assumes "collector_GrpcService pl params = Ok (Some g)"
    and "collector_NonGrpcService pl params = Ok (Some n)"
  shows "om_Name (svc_Meta g) \<noteq> om_Name (svc_Meta n) \<and>
    om_Namespace (svc_Meta g) = om_Namespace (svc_Meta n) \<and>
    ss_Selector (svc_Spec g) = ss_Selector (svc_Spec n) \<and>
    map_sum id (\<lambda>rp. filter is_grpc (merge_spec_ports (ocl_Ports (pa_Otelcol params)) rp))
      (pl_GetReceiverPorts pl (ocl_Config (pa_Otelcol params))) = Inr (ss_Ports (svc_Spec g)) \<and>
    map_sum id (\<lambda>ap. filter (\<lambda>p. \<not> is_grpc p) (merge_spec_ports (ocl_Ports (pa_Otelcol params)) ap))
      (pl_GetAllPorts pl (ocl_Config (pa_Otelcol params))) = Inr (ss_Ports (svc_Spec n)) \<and>
    set (ss_Ports (svc_Spec g)) \<inter> set (ss_Ports (svc_Spec n)) = {}"
proof -
  obtain rp where rp: "pl_GetReceiverPorts pl (ocl_Config (pa_Otelcol params)) = Inr rp"
    "ss_Ports (svc_Spec g) = filter is_grpc (merge_spec_ports (ocl_Ports (pa_Otelcol params)) rp)"
    "om_Name (svc_Meta g) = Naming.GrpcService (om_Name (ocl_Meta (pa_Otelcol params)))"
    "om_Namespace (svc_Meta g) = om_Namespace (ocl_Meta (pa_Otelcol params))"
    "ss_Selector (svc_Spec g) =
      Some (SelectorLabels (ocl_Meta (pa_Otelcol params)) ComponentOpenTelemetryCollector)"
    by (rule GrpcService_Some [OF assms(1)])
  obtain ap where ap: "pl_GetAllPorts pl (ocl_Config (pa_Otelcol params)) = Inr ap"
    "ss_Ports (svc_Spec n) =
      filter (\<lambda>p. \<not> is_grpc p) (merge_spec_ports (ocl_Ports (pa_Otelcol params)) ap)"
    "om_Name (svc_Meta n) = Naming.NonGrpcService (om_Name (ocl_Meta (pa_Otelcol params)))"
    "om_Namespace (svc_Meta n) = om_Namespace (ocl_Meta (pa_Otelcol params))"
    "ss_Selector (svc_Spec n) =
      Some (SelectorLabels (ocl_Meta (pa_Otelcol params)) ComponentOpenTelemetryCollector)"
    by (rule NonGrpcService_Some [OF assms(2)])
  show ?thesis by (auto simp: rp ap grpc_names_differ)
qed

definition sample_port :: "string \<Rightarrow> int \<Rightarrow> string option \<Rightarrow> service_port" where
  "sample_port name port app = \<lparr>sp_Name = name, sp_Port = port, sp_TargetPort = IntVal port,
     sp_NodePort = 0, sp_AppProtocol = app, sp_Protocol = []\<rparr>"

definition sample_params :: "unit params" where
  "sample_params =
    \<lparr>pa_Otelcol = \<lparr>ocl_Meta = meta_named ''gateway'' ''otel'', ocl_Image = ''otelcol:1.0'',
       ocl_Mode = ''deployment'', ocl_Ports = [], ocl_IngressType = [], ocl_IngressRuleType = [],
       ocl_IngressTLS = [], ocl_IngressClassName = None,
       ocl_Config = \<lparr>oc_Enabled = (\<lambda>k. if k = KindReceiver then [''otlp''] else []),
         oc_Receivers = [(''otlp'', ())], oc_Exporters = []\<rparr>\<rparr>,
     pa_MdaiIngress = \<lparr>mi_Meta = meta_named ''ing'' ''otel'', mi_OtelCollector = ''gateway'',
       mi_CloudType = ''aws'', mi_Annotations = [], mi_IngressClassName = None,
       mi_GrpcService = Some \<lparr>isv_Type = ''NodePort'', isv_Annotations = []\<rparr>,
       mi_NonGrpcService = Some \<lparr>isv_Type = [], isv_Annotations = []\<rparr>,
       mi_CollectorEndpoints = [(''otlp'', ''otlp.example.com'')]\<rparr>\<rparr>"

definition sample_port_lib :: "unit port_lib" where
  "sample_port_lib =
    \<lparr>pl_GetReceiverPorts = (\<lambda>_. Inr [sample_port ''otlp-grpc'' 4317 (Some ''grpc''),
                                      sample_port ''otlp-http'' 4318 (Some ''http'')]),
     pl_GetAllPorts = (\<lambda>_. Inr [sample_port ''otlp-grpc'' 4317 (Some ''grpc''),
                                 sample_port ''otlp-http'' 4318 (Some ''http'')])\<rparr>"

lemma sample_grpc_service: "\<exists>g. collector_GrpcService sample_port_lib sample_params = Ok (Some g)"
proof -
  have "map_outcome (map_option (\<lambda>g. map sp_Name (ss_Ports (svc_Spec g))))
      (collector_GrpcService sample_port_lib sample_params) = Ok (Some [''otlp-grpc''])"
    by code_simp
  then show ?thesis by (auto simp: outcome_iff eq_commute [of "Some _"])
qed

lemma sample_non_grpc_service: "\<exists>n. collector_NonGrpcService sample_port_lib sample_params = Ok (Some n)"
proof -
  have "map_outcome (map_option (\<lambda>n. map sp_Name (ss_Ports (svc_Spec n))))
      (collector_NonGrpcService sample_port_lib sample_params) = Ok (Some [''otlp-http''])"
    by code_simp
  then show ?thesis by (auto simp: outcome_iff eq_commute [of "Some _"])
qed

theorem services_split_ports_witness:
  "\<exists>g n. collector_GrpcService sample_port_lib sample_params = Ok (Some g) \<and>
     collector_NonGrpcService sample_port_lib sample_params = Ok (Some n) \<and>
     om_Name (svc_Meta g) \<noteq> om_Name (svc_Meta n) \<and>
     set (ss_Ports (svc_Spec g)) \<inter> set (ss_Ports (svc_Spec n)) = {}"
proof -
  obtain g n where gn: "collector_GrpcService sample_port_lib sample_params = Ok (Some g)"
    "collector_NonGrpcService sample_port_lib sample_params = Ok (Some n)"
    using sample_grpc_service sample_non_grpc_service by blast
  from services_split_ports [OF gn] gn show ?thesis by auto
qed

text \<open>
  C28. Every rule of a generated ingress is for a host the ingress resource maps one of the
  collector's receivers to, the rules are sorted by host, and every path of every rule leads to
  the gRPC service generated for the same collector in the same namespace.
\<close>

theorem ingress_routes_to_grpc_service:
  assumes "fst (collector_Ingress cd params rg) = Ok (Some ing)"
    and "collector_GrpcService pl params = Ok (Some g)"
  shows "is_Rules (ing_Spec ing) \<noteq> [] \<and> sorted (map ir_Host (is_Rules (ing_Spec ing))) \<and>
    om_Namespace (ing_Meta ing) = om_Namespace (svc_Meta g) \<and>
    (\<forall>r \<in> set (is_Rules (ing_Spec ing)).
       ir_Host r \<in> snd ` set (mi_CollectorEndpoints (pa_MdaiIngress params)) \<and>
       (\<forall>path \<in> set (ir_Paths r). ip_ServiceName path = om_Name (svc_Meta g)))"
proof -
  have "fst (IngressAws cd params rg) = Ok (Some ing)"
    using assms(1) by (auto simp: collector_Ingress_def split: if_splits)
  then obtain m where ing: "ing = aws_ingress params
      (merged_annotations (om_Annotations (ocl_Meta (pa_Otelcol params))) (mi_Annotations (pa_MdaiIngress params)))
      (createPathIngressRulesUrlPaths (om_Name (ocl_Meta (pa_Otelcol params)))
         (mi_CollectorEndpoints (pa_MdaiIngress params)) (grpc_components m))"
    and ne: "createPathIngressRulesUrlPaths (om_Name (ocl_Meta (pa_Otelcol params)))
         (mi_CollectorEndpoints (pa_MdaiIngress params)) (grpc_components m) \<noteq> []"
    by (rule IngressAws_Some)
  have g: "om_Name (svc_Meta g) = Naming.GrpcService (om_Name (ocl_Meta (pa_Otelcol params)))"
    "om_Namespace (svc_Meta g) = om_Namespace (ocl_Meta (pa_Otelcol params))"
    by (rule GrpcService_Some [OF assms(2)], assumption)+
  define rules where "rules = is_Rules (ing_Spec ing)"
  have rules: "set rules = set (createPathIngressRulesUrlPaths (om_Name (ocl_Meta (pa_Otelcol params)))
         (mi_CollectorEndpoints (pa_MdaiIngress params)) (grpc_components m))"
    "sorted (map ir_Host rules)"
    by (simp_all add: rules_def ing aws_ingress_def Let_def)
  have "ir_Host r \<in> snd ` set (mi_CollectorEndpoints (pa_MdaiIngress params)) \<and>
      (\<forall>path \<in> set (ir_Paths r). ip_ServiceName path = om_Name (svc_Meta g))" if "r \<in> set rules" for r
  proof -
    from that obtain c pes where "gget (mi_CollectorEndpoints (pa_MdaiIngress params)) c = Some (ir_Host r)"
      and paths: "r = \<lparr>ir_Host = ir_Host r,
        ir_Paths = concat (map (port_paths (om_Name (ocl_Meta (pa_Otelcol params)))) pes)\<rparr>"
      unfolding rules(1) createPath_rules by blast
    then have "ir_Host r \<in> snd ` set (mi_CollectorEndpoints (pa_MdaiIngress params))"
      by (auto dest!: map_of_SomeD intro: rev_image_eqI)
    moreover have "ir_Paths r = concat (map (port_paths (om_Name (ocl_Meta (pa_Otelcol params)))) pes)"
      by (subst paths) simp
    ultimately show ?thesis using port_paths_service by (auto simp: g(1))
  qed
  moreover have "rules \<noteq> []" using rules(1) ne by (metis set_empty)
  moreover have "om_Namespace (ing_Meta ing) = om_Namespace (svc_Meta g)"
    by (simp add: ing aws_ingress_def Let_def g(2))
  ultimately show ?thesis using rules(2) by (simp add: rules_def)
qed

definition sample_registries :: "unit registries" where
  "sample_registries = \<lparr>rg_receivers = [(''otlp'', MultiParser
        \<lparr>mp_name = ''otlp'', mp_defaultRecAddr = ''0.0.0.0'',
         mp_addrMappings = [(''grpc'', ''0.0.0.0''), (''http'', ''0.0.0.0'')],
         mp_portMappings = [(''grpc'', sample_port ''grpc'' 4317 (Some ''grpc'')),
                            (''http'', sample_port ''http'' 4318 (Some ''http''))],
         mp_urlPathsMapping = [(''grpc'', [''/v1'']), (''http'', [])]\<rparr>)],
     rg_exporters = []\<rparr>"

theorem ingress_routes_to_grpc_service_witness:
  "\<exists>ing g. fst (collector_Ingress sample_codec sample_params sample_registries) = Ok (Some ing) \<and>
     collector_GrpcService sample_port_lib sample_params = Ok (Some g) \<and>
     is_Rules (ing_Spec ing) \<noteq> [] \<and> om_Namespace (ing_Meta ing) = om_Namespace (svc_Meta g)"
proof -
  have "map_outcome (map_option (\<lambda>i. map ir_Host (is_Rules (ing_Spec i))))
      (fst (collector_Ingress sample_codec sample_params sample_registries)) = Ok (Some [''otlp.example.com''])"
    by code_simp
  then obtain ing where ing: "fst (collector_Ingress sample_codec sample_params sample_registries) = Ok (Some ing)"
    by (auto simp: outcome_iff eq_commute [of "Some _"])
  obtain g where g: "collector_GrpcService sample_port_lib sample_params = Ok (Some g)"
    using sample_grpc_service by blast
  from ingress_routes_to_grpc_service [OF ing g] ing g show ?thesis by auto
qed

text \<open>
  What the documentation of \<^verbatim>\<open>mergo.Merge\<close> with \<^verbatim>\<open>WithOverride\<close> says of two string maps: it does not
  fail, entries of the source that are not empty override, and all other keys are kept.
\<close>

definition merge_overrides :: "label_merge \<Rightarrow> bool" where
  "merge_overrides merge \<longleftrightarrow>
     (\<forall>d s. \<exists>r. merge d s = Inr r \<and>
        (\<forall>k. gget (entries s) k = None \<longrightarrow> gget (entries r) k = gget (entries d) k) \<and>
        (\<forall>k v. gget (entries s) k = Some v \<longrightarrow> v \<noteq> [] \<longrightarrow> gget (entries r) k = Some v))"

lemma merge_overridesE:
  assumes "merge_overrides merge"
  obtains r where "merge d s = Inr r"
    "\<And>k. gget (entries s) k = None \<Longrightarrow> gget (entries r) k = gget (entries d) k"
  using assms unfolding merge_overrides_def by metis

text \<open>
  Mutating an existing service towards the desired one gives it the desired ports and
  selector and keeps every annotation and label the desired one does not mention; its type and
  its traffic policy stay as they were.
\<close>

theorem mutate_service_towards_desired:
  assumes "merge_overrides merge"
  shows "\<exists>svc'. MutateFuncFor merge (OService svc) (OService wantSvc) = (OService svc', None) \<and>
      ss_Ports (svc_Spec svc') = ss_Ports (svc_Spec wantSvc) \<and>
      ss_Selector (svc_Spec svc') = ss_Selector (svc_Spec wantSvc) \<and>
      ss_Type (svc_Spec svc') = ss_Type (svc_Spec svc) \<and>
      ss_InternalTrafficPolicy (svc_Spec svc') = ss_InternalTrafficPolicy (svc_Spec svc) \<and>
      (\<forall>k. gget (entries (om_Annotations (svc_Meta wantSvc))) k = None \<longrightarrow>
         gget (entries (om_Annotations (svc_Meta svc'))) k = gget (entries (om_Annotations (svc_Meta svc))) k) \<and>
      (\<forall>k. gget (entries (om_Labels (svc_Meta wantSvc))) k = None \<longrightarrow>
         gget (entries (om_Labels (svc_Meta svc'))) k = gget (entries (om_Labels (svc_Meta svc))) k)"
proof -
  obtain a l where
    a: "merge (om_Annotations (svc_Meta svc)) (om_Annotations (svc_Meta wantSvc)) = Inr a"
      "\<And>k. gget (entries (om_Annotations (svc_Meta wantSvc))) k = None \<Longrightarrow>
         gget (entries a) k = gget (entries (om_Annotations (svc_Meta svc))) k"
    and l: "merge (om_Labels (svc_Meta svc)) (om_Labels (svc_Meta wantSvc)) = Inr l"
      "\<And>k. gget (entries (om_Labels (svc_Meta wantSvc))) k = None \<Longrightarrow>
         gget (entries l) k = gget (entries (om_Labels (svc_Meta svc))) k"
    using merge_overridesE [OF assms] by metis
  then show ?thesis
    by (simp add: MutateFuncFor_def mutateService_def Let_def)
qed

definition sample_merge :: label_merge where
  "sample_merge d s = Inr (Some (maps_copy (entries d) (rev (entries s))))"

lemma sample_merge_overrides: "merge_overrides sample_merge"
proof -
  have "gget (fold (\<lambda>(k, v). gset k v) (rev s) d) k =
      (case gget s k of None \<Rightarrow> gget d k | Some v \<Rightarrow> Some v)" for k and s d :: labels
    by (induction s) (auto simp: update_conv split: option.splits)
  then show ?thesis
    by (simp add: merge_overrides_def sample_merge_def maps_copy_def)
qed

theorem mutate_service_towards_desired_witness:
  "\<exists>s g. collector_GrpcService sample_port_lib sample_params = Ok (Some g) \<and>
     MutateFuncFor sample_merge (OService (g\<lparr>svc_Meta := meta_named ''old'' ''otel''\<rparr>)) (OService g) =
       (OService s, None) \<and> ss_Ports (svc_Spec s) = ss_Ports (svc_Spec g)"
proof -
  obtain g where "collector_GrpcService sample_port_lib sample_params = Ok (Some g)"
    using sample_grpc_service by blast
  with mutate_service_towards_desired [OF sample_merge_overrides,
      of "g\<lparr>svc_Meta := meta_named ''old'' ''otel''\<rparr>" g]
  show ?thesis by blast
qed

text \<open>
  Mutating an existing ingress towards the desired one gives it the desired rules, and the
  labels and annotations of the desired one only: those that were merged a moment before are
  overwritten, and those that only the existing ingress has are lost.
\<close>

theorem mutate_ingress_replaces_metadata:
  assumes "merge_overrides merge"
  shows "\<exists>ing'. MutateFuncFor merge (OIngress ing) (OIngress wantIng) = (OIngress ing', None) \<and>
      is_Rules (ing_Spec ing') = is_Rules (ing_Spec wantIng) \<and>
      is_TLS (ing_Spec ing') = is_TLS (ing_Spec wantIng) \<and>
      is_IngressClassName (ing_Spec ing') = is_IngressClassName (ing_Spec ing) \<and>
      om_Annotations (ing_Meta ing') = om_Annotations (ing_Meta wantIng) \<and>
      om_Labels (ing_Meta ing') = om_Labels (ing_Meta wantIng)"
proof -
  obtain a l where
    "merge (om_Annotations (ing_Meta ing)) (om_Annotations (ing_Meta wantIng)) = Inr a"
    "merge (om_Labels (ing_Meta ing)) (om_Labels (ing_Meta wantIng)) = Inr l"
    using merge_overridesE [OF assms] by metis
  then show ?thesis
    by (simp add: MutateFuncFor_def mutateIngress_def Let_def)
qed

theorem mutate_ingress_replaces_metadata_witness:
  "\<exists>ing'. MutateFuncFor sample_merge
       (OIngress \<lparr>ing_Meta = (meta_named ''i'' ''n'')\<lparr>om_Annotations := Some [(''own'', ''x'')]\<rparr>,
          ing_Spec = \<lparr>is_DefaultBackend = None, is_TLS = [], is_Rules = [], is_IngressClassName = None\<rparr>\<rparr>)
       (OIngress (aws_ingress sample_params [(''a'', ''b'')] [])) = (OIngress ing', None) \<and>
     om_Annotations (ing_Meta ing') = Some [(''a'', ''b'')]"
  using mutate_ingress_replaces_metadata [OF sample_merge_overrides,
      of "\<lparr>ing_Meta = (meta_named ''i'' ''n'')\<lparr>om_Annotations := Some [(''own'', ''x'')]\<rparr>,
          ing_Spec = \<lparr>is_DefaultBackend = None, is_TLS = [], is_Rules = [], is_IngressClassName = None\<rparr>\<rparr>"
         "aws_ingress sample_params [(''a'', ''b'')] []"]
  by (auto simp: aws_ingress_def Let_def)

end
