(* ===== verification/Resource_Webhooks.thy ===== *)
theory Resource_Webhooks
  imports Api_Types Manifests
begin

text \<open>
  The admission webhooks of replays, collectors, observers and ingresses
  (\<^verbatim>\<open>internal/webhook/v1\<close>). A webhook gets an object of any type: \<^term>\<open>Inl t\<close> stands for an object of another Go
  type, printed as \<^term>\<open>t\<close>. It returns the warnings and the error that rejects the request.
  \<^verbatim>\<open>time.Parse\<close> is the parameter \<^term>\<open>parseTime\<close>, from a layout and a text to the error it returns.
\<close>

type_synonym admission = "string list \<times> goerr option"

section \<open>Replay (mdaireplay\_webhook.go)\<close>

definition timeStrLayouts :: "string list" where
  "timeStrLayouts = [''2006-01-02T15:04:05Z07:00'', ''2006-01-02 15:04'', ''2006-01-02'']"

definition validTelemetryTypes :: "string list" where
  "validTelemetryTypes = [''logs'', ''metrics'', ''traces'']"

definition validPartitions :: "string list" where
  "validPartitions = [''minute'', ''hour'']"

text \<open>The \<^verbatim>\<open>%s\<close> rendering of a slice of strings.\<close>

definition slice_str :: "string list \<Rightarrow> string" where
  "slice_str xs = ''['' @ Join xs '' '' @ '']''"

fun time_layouts_loop :: "(string \<Rightarrow> string \<Rightarrow> goerr option) \<Rightarrow> string \<Rightarrow> string list \<Rightarrow> goerr list \<Rightarrow> goerr option" where
  "time_layouts_loop parseTime timeStr [] parseErrs =
     Some (ErrWrap (''invalid time format: '' @ timeStr @ '', expected one of '' @
       slice_str timeStrLayouts @ ''. Parser errors: '') (ErrJoin parseErrs))"
| "time_layouts_loop parseTime timeStr (layout # ls) parseErrs =
     (case parseTime layout timeStr of
        None \<Rightarrow> None
      | Some err \<Rightarrow> time_layouts_loop parseTime timeStr ls (err # parseErrs))"

definition validateTimeStr :: "(string \<Rightarrow> string \<Rightarrow> goerr option) \<Rightarrow> string \<Rightarrow> goerr option" where
  "validateTimeStr parseTime timeStr = time_layouts_loop parseTime timeStr timeStrLayouts []"

datatype validator_mode = ReplayCustomResourceValidatorMode | HubAutomationValidatorMode | OtherValidatorMode

definition validValidatorModes :: "validator_mode list" where
  "validValidatorModes = [ReplayCustomResourceValidatorMode, HubAutomationValidatorMode]"

definition validate_replay_times ::
  "(string \<Rightarrow> string \<Rightarrow> goerr option) \<Rightarrow> replay_spec \<Rightarrow> goerr option" where
  "validate_replay_times parseTime spec =
     (if rp_HubName spec = [] then Some (ErrNew ''hubName cannot be empty'')
      else case validateTimeStr parseTime (rp_StartTime spec) of
        Some err \<Rightarrow> Some (ErrWrap ''startTime is not in a supported format. Error: '' err)
      | None \<Rightarrow>
          (case validateTimeStr parseTime (rp_EndTime spec) of
             Some err \<Rightarrow> Some (ErrWrap ''endTime is not in a supported format. Error: '' err)
           | None \<Rightarrow>
               if rp_TelemetryType spec = [] \<or> rp_TelemetryType spec \<notin> set validTelemetryTypes
               then Some (ErrNew (''invalid telemetry type '' @ rp_TelemetryType spec @
                      '', expected one of '' @ slice_str validTelemetryTypes))
               else None))"

definition validate_replay_s3 :: "replay_spec \<Rightarrow> goerr option" where
  "validate_replay_s3 spec =
     (case rp_S3 spec of
        None \<Rightarrow> None
      | Some s3Config \<Rightarrow>
          (case rp_AWSConfig spec of
             None \<Rightarrow> Some (ErrNew ''source.awsConfig is not set, but is required for the s3 source'')
           | Some None \<Rightarrow>
               Some (ErrNew ''source.awsConfig.awsAccessKeySecret is not set, but is required for the s3 source'')
           | Some (Some _) \<Rightarrow>
               if r3_S3Partition s3Config = [] \<or> r3_S3Partition s3Config \<notin> set validPartitions
               then Some (ErrNew (''invalid s3 partition '' @ r3_S3Partition s3Config @
                      '', expected one of '' @ slice_str validPartitions))
               else None))"

definition validateReplaySpec ::
  "(string \<Rightarrow> string \<Rightarrow> goerr option) \<Rightarrow> replay_spec \<Rightarrow> validator_mode \<Rightarrow> admission" where
  "validateReplaySpec parseTime spec mode =
     ([], if mode \<notin> set validValidatorModes
          then Some (ErrNew ''tried to call validator with invalid validator mode (why/how are you calling this anyway?)'')
          else (case (if mode \<noteq> HubAutomationValidatorMode then validate_replay_times parseTime spec else None) of
                  Some err \<Rightarrow> Some err
                | None \<Rightarrow>
                    if rp_StatusVariableRef spec = [] then Some (ErrNew ''status variable ref cannot be empty'')
                    else if rp_OpAMPEndpoint spec = [] then Some (ErrNew ''opampEndpoint cannot be empty'')
                    else validate_replay_s3 spec))"

definition replay_ValidateCreate ::
  "(string \<Rightarrow> string \<Rightarrow> goerr option) \<Rightarrow> string + mdai_replay \<Rightarrow> admission" where
  "replay_ValidateCreate parseTime ob =
     (case ob of
        Inl t \<Rightarrow> ([], Some (ErrNew (''expected a MdaiReplay object but got '' @ t)))
      | Inr r \<Rightarrow>
          (case validateReplaySpec parseTime (rpl_Spec r) ReplayCustomResourceValidatorMode of
             (warnings, Some err) \<Rightarrow> (warnings, Some err)
           | (warnings, None) \<Rightarrow> ([], None)))"

definition replay_ValidateUpdate ::
  "(string \<Rightarrow> string \<Rightarrow> goerr option) \<Rightarrow> string + mdai_replay \<Rightarrow> admission" where
  "replay_ValidateUpdate parseTime newObj =
     (case newObj of
        Inl t \<Rightarrow> ([], Some (ErrNew (''expected a MdaiReplay object for the newObj but got '' @ t)))
      | Inr r \<Rightarrow> validateReplaySpec parseTime (rpl_Spec r) ReplayCustomResourceValidatorMode)"

definition replay_ValidateDelete :: "string + mdai_replay \<Rightarrow> admission" where
  "replay_ValidateDelete ob = ([], None)"

section \<open>Collector (mdaicollector\_webhook.go)\<close>

definition validNameRegex :: "string \<Rightarrow> bool" where
  "validNameRegex s \<longleftrightarrow> s \<noteq> [] \<and> is_lower_alnum (hd s) \<and> is_lower_alnum (last s) \<and>
     list_all (\<lambda>c. is_lower_alnum c \<or> c = CHR ''-'') s"

definition validSeverityLevels :: "string list" where
  "validSeverityLevels = [''debug'', ''info'', ''warn'', ''error'']"

definition ValidateName :: "string \<Rightarrow> bool" where
  "ValidateName name \<longleftrightarrow> \<not> (length name < 1 \<or> length name > 32) \<and> validNameRegex name"

definition invalidSeverityError :: "string \<Rightarrow> string \<Rightarrow> goerr" where
  "invalidSeverityError logstream severity =
     ErrNew (''s3 logs configuration for '' @ logstream @ '' logstream has an invalid minSeverity: '' @ severity @
       ''. Valid options are: '' @ slice_str validSeverityLevels)"

definition bad_severity :: "logstream_config option \<Rightarrow> string option" where
  "bad_severity c =
     (case c of
        None \<Rightarrow> None
      | Some l \<Rightarrow> (case ls_MinSeverity l of
                     None \<Rightarrow> None
                   | Some s \<Rightarrow> if s \<in> set validSeverityLevels then None else Some s))"

text \<open>The three checks of the log streams, in their order.\<close>

definition check_streams ::
  "logstream_config option \<Rightarrow> logstream_config option \<Rightarrow> logstream_config option \<Rightarrow> goerr option" where
  "check_streams c h x =
     (case bad_severity c of
        Some s \<Rightarrow> Some (invalidSeverityError ''collector logs'' s)
      | None \<Rightarrow>
          (case bad_severity h of
             Some s \<Rightarrow> Some (invalidSeverityError ''hub logs'' s)
           | None \<Rightarrow> (case bad_severity x of
                         Some s \<Rightarrow> Some (invalidSeverityError ''other logs'' s)
                       | None \<Rightarrow> None)))"

definition validateS3LogsConfig :: "s3_logs option \<Rightarrow> string option option \<Rightarrow> admission" where
  "validateS3LogsConfig s3LogsConfig awsConfig =
     (case s3LogsConfig of
        None \<Rightarrow> ([], None)
      | Some s3 \<Rightarrow>
          (case awsConfig of
             None \<Rightarrow> ([], Some (ErrNew ''got s3 logs configuration, but AWSConfig not specified; cannot write logs to s3 without access secret''))
           | Some secret \<Rightarrow>
               if s3_S3Bucket s3 = []
               then ([], Some (ErrNew ''s3 logs configuration given but s3Bucket not specified; cannot write logs to s3''))
               else if s3_S3Region s3 = []
               then ([], Some (ErrNew ''s3 logs configuration given but s3Region not specified; cannot write logs to s3''))
               else (if s3_AuditLogs s3 = Some True
                     then [''s3 audit logs disabled, hub audit events will not be recorded to s3!''] else [],
                     case check_streams (s3_CollectorLogs s3) (s3_HubLogs s3) (s3_OtherLogs s3) of
                       Some err \<Rightarrow> Some err
                     | None \<Rightarrow> (if secret = None
                                then Some (ErrNew ''got s3 logs configuration, but awsConfig.accessKeySecret not specified; cannot write logs to s3 without access secret'')
                                else None))))"

definition validateOtlpLogsConfig :: "logs_config \<Rightarrow> admission" where
  "validateOtlpLogsConfig logsConfig =
     (case lc_Otlp logsConfig of
        None \<Rightarrow> ([], None)
      | Some otlp \<Rightarrow>
          if ot_Endpoint otlp = []
          then ([], Some (ErrNew ''OTLP logs configuration present but endpoint field is empty. Cannot send logs over OTLP''))
          else (if ot_AuditLogs otlp = Some True
                then [''OTLP audit logs disabled, hub audit events will not be recorded to OTLP!''] else [],
                check_streams (ot_CollectorLogs otlp) (ot_HubLogs otlp) (ot_OtherLogs otlp)))"

definition collector_Validate :: "mdai_collector option \<Rightarrow> admission" where
  "collector_Validate mdaiCollector =
     (case mdaiCollector of
        None \<Rightarrow> ([], Some (ErrNew ''expected a MdaiCollector object but got nil''))
      | Some c \<Rightarrow>
          if \<not> ValidateName (cr_name c)
          then ([], Some (ErrNew (''MdaiCollector name '' @ cr_name c @ '' is not valid. Use a lowercase alphanumeric name no longer than 32 characters with dash separators'')))
          else (case mc_Logs c of
                  None \<Rightarrow> ([''logs configuration not present in MDAI Collector spec''], None)
                | Some logs \<Rightarrow>
                    (case validateS3LogsConfig (lc_S3 logs) (mc_AWSConfig c) of
                       (w1, Some err) \<Rightarrow> (w1, Some err)
                     | (w1, None) \<Rightarrow>
                         (case validateOtlpLogsConfig logs of (w2, err) \<Rightarrow> (w1 @ w2, err)))))"

definition collector_ValidateCreate :: "string + mdai_collector \<Rightarrow> admission" where
  "collector_ValidateCreate ob =
     (case ob of
        Inl t \<Rightarrow> ([], Some (ErrNew (''expected a MdaiCollector object but got '' @ t)))
      | Inr c \<Rightarrow> collector_Validate (Some c))"

definition collector_ValidateUpdate :: "string + mdai_collector \<Rightarrow> admission" where
  "collector_ValidateUpdate newObj =
     (case newObj of
        Inl t \<Rightarrow> ([], Some (ErrNew (''expected a MdaiCollector object for the newObj but got '' @ t)))
      | Inr c \<Rightarrow> collector_Validate (Some c))"

definition collector_ValidateDelete :: "string + mdai_collector \<Rightarrow> admission" where
  "collector_ValidateDelete ob =
     (case ob of
        Inl t \<Rightarrow> ([], Some (ErrNew (''expected a MdaiCollector object but got '' @ t)))
      | Inr c \<Rightarrow> collector_Validate (Some c))"

section \<open>Observer (mdaiobserver\_webhook.go)\<close>

fun observers_loop :: "observer list \<Rightarrow> string list \<Rightarrow> admission" where
  "observers_loop [] newWarnings = (newWarnings, None)"
| "observers_loop (obs # rest) newWarnings =
     (if ob_BytesMetricName obs = None \<and> ob_CountMetricName obs = None
      then (newWarnings, Some (ErrNew (''observer '' @ ob_Name obs @ '' must have either a bytesMetricName or countMetricName'')))
      else observers_loop rest
             (if ob_LabelResourceAttributes obs = []
              then newWarnings @ [''observer '' @ ob_Name obs @ '' does not define any labels to apply to counts'']
              else newWarnings))"

definition validateObserversAndObserverResources :: "mdai_observer \<Rightarrow> admission" where
  "validateObserversAndObserverResources mo =
     (let newWarnings = (if or_Resources (mo_ObserverResource mo) = None
                         then [''ObserverResource '' @ cr_name mo @ '' does not define resource requests/limits'']
                         else [])
      in if mo_Observers mo = [] then (newWarnings @ [''Observers are not specified''], None)
         else observers_loop (mo_Observers mo) newWarnings)"

definition observer_ValidateCreate :: "string + mdai_observer \<Rightarrow> admission" where
  "observer_ValidateCreate ob =
     (case ob of
        Inl t \<Rightarrow> ([], Some (ErrNew (''expected a MdaiObserver object but got '' @ t)))
      | Inr c \<Rightarrow> validateObserversAndObserverResources c)"

definition observer_ValidateUpdate :: "string + mdai_observer \<Rightarrow> admission" where
  "observer_ValidateUpdate newObj =
     (case newObj of
        Inl t \<Rightarrow> ([], Some (ErrNew (''expected a MdaiObserver object for the newObj but got '' @ t)))
      | Inr c \<Rightarrow> validateObserversAndObserverResources c)"

definition observer_ValidateDelete :: "string + mdai_observer \<Rightarrow> admission" where
  "observer_ValidateDelete ob =
     (case ob of
        Inl t \<Rightarrow> ([], Some (ErrNew (''expected a MdaiObserver object but got '' @ t)))
      | Inr c \<Rightarrow> ([], None))"

section \<open>Ingress (mdaiingress\_webhook.go)\<close>

definition default_service :: "string \<Rightarrow> ingress_service option \<Rightarrow> ingress_service option" where
  "default_service ty svc =
     (case svc of
        None \<Rightarrow> Some \<lparr>isv_Type = ty, isv_Annotations = []\<rparr>
      | Some s \<Rightarrow> if isv_Type s = [] then Some (s\<lparr>isv_Type := ty\<rparr>) else Some s)"

definition ingress_Default :: "string + mdai_ingress \<Rightarrow> goerr + mdai_ingress" where
  "ingress_Default ob =
     (case ob of
        Inl t \<Rightarrow> Inl (ErrNew (''expected an MdaiIngress object but got '' @ t))
      | Inr mi \<Rightarrow>
          Inr (mi\<lparr>mi_CloudType := (if mi_CloudType mi = [] then CloudProviderAws else mi_CloudType mi),
                  mi_GrpcService := default_service ''NodePort'' (mi_GrpcService mi),
                  mi_NonGrpcService := default_service ''LoadBalancer'' (mi_NonGrpcService mi)\<rparr>))"

text \<open>
  The client is \<^const>\<open>None\<close> when it is not initialised; otherwise it lists the ingresses of a namespace
  whose indexed collector reference is the given name.
\<close>

fun others_loop :: "mdai_ingress \<Rightarrow> mdai_ingress list \<Rightarrow> goerr option" where
  "others_loop mi [] = None"
| "others_loop mi (other # rest) =
     (if om_Name (mi_Meta other) = om_Name (mi_Meta mi) \<and>
         om_Namespace (mi_Meta other) = om_Namespace (mi_Meta mi)
      then others_loop mi rest
      else Some (ErrNew (''OtelCol reference is already used by MdaiIngress '' @
             om_Namespace (mi_Meta other) @ ''/'' @ om_Name (mi_Meta other))))"

definition ingress_Validate ::
  "(string \<Rightarrow> string \<Rightarrow> goerr + mdai_ingress list) option \<Rightarrow> mdai_ingress \<Rightarrow> admission" where
  "ingress_Validate cl mi =
     (case cl of
        None \<Rightarrow> ([], Some (ErrNew ''webhook client not initialized''))
      | Some listIngresses \<Rightarrow>
          (case listIngresses (om_Namespace (mi_Meta mi)) (mi_OtelCollector mi) of
             Inl err \<Rightarrow> ([], Some (ErrWrap ''Internal error occurred: '' err))
           | Inr items \<Rightarrow> ([], others_loop mi items)))"

definition ingress_ValidateCreate ::
  "(string \<Rightarrow> string \<Rightarrow> goerr + mdai_ingress list) option \<Rightarrow> string + mdai_ingress \<Rightarrow> admission" where
  "ingress_ValidateCreate cl ob =
     (case ob of
        Inl t \<Rightarrow> ([], Some (ErrNew (''expected an MdaiIngress, received '' @ t)))
      | Inr mi \<Rightarrow> ingress_Validate cl mi)"

definition ingress_ValidateUpdate ::
  "(string \<Rightarrow> string \<Rightarrow> goerr + mdai_ingress list) option \<Rightarrow> string + mdai_ingress \<Rightarrow> admission" where
  "ingress_ValidateUpdate cl newObj =
     (case newObj of
        Inl t \<Rightarrow> ([], Some (ErrNew (''expected an MdaiIngress, received '' @ t)))
      | Inr mi \<Rightarrow> ingress_Validate cl mi)"

definition ingress_ValidateDelete :: "string + mdai_ingress \<Rightarrow> admission" where
  "ingress_ValidateDelete ob = ([], None)"

section \<open>Lemmas\<close>

lemma observers_loop_accepts:
  "snd (observers_loop obs w) = None \<longleftrightarrow>
     list_all (\<lambda>ob. ob_BytesMetricName ob \<noteq> None \<or> ob_CountMetricName ob \<noteq> None) obs"
  by (induction obs w rule: observers_loop.induct) auto

lemma others_loop_accepts:
  "others_loop mi items = None \<longleftrightarrow> list_all (\<lambda>mi'. key_of (mi_Meta mi') = key_of (mi_Meta mi)) items"
  by (induction items) (auto simp: key_of_def)

lemma bad_severity_None:
  "bad_severity c = None \<longleftrightarrow>
     (\<forall>l s. c = Some l \<longrightarrow> ls_MinSeverity l = Some s \<longrightarrow> s \<in> set validSeverityLevels)"
  by (auto simp: bad_severity_def split: option.splits)

lemma check_streams_None:
  "check_streams c h x = None \<longleftrightarrow> bad_severity c = None \<and> bad_severity h = None \<and> bad_severity x = None"
  by (auto simp: check_streams_def split: option.splits)

lemma validateS3_accepts:
  "snd (validateS3LogsConfig s3c aws) = None \<longleftrightarrow>
     (\<forall>s3. s3c = Some s3 \<longrightarrow>
        (\<exists>secret. aws = Some (Some secret)) \<and> s3_S3Bucket s3 \<noteq> [] \<and> s3_S3Region s3 \<noteq> [] \<and>
        check_streams (s3_CollectorLogs s3) (s3_HubLogs s3) (s3_OtherLogs s3) = None)"
  by (auto simp: validateS3LogsConfig_def split: option.splits if_splits)

lemma validateOtlp_accepts:
  "snd (validateOtlpLogsConfig logs) = None \<longleftrightarrow>
     (\<forall>otlp. lc_Otlp logs = Some otlp \<longrightarrow> ot_Endpoint otlp \<noteq> [] \<and>
        check_streams (ot_CollectorLogs otlp) (ot_HubLogs otlp) (ot_OtherLogs otlp) = None)"
  by (auto simp: validateOtlpLogsConfig_def split: option.splits if_splits)

lemma collector_accepts:
  "snd (collector_Validate (Some c)) = None \<longleftrightarrow>
     ValidateName (cr_name c) \<and>
     (\<forall>logs. mc_Logs c = Some logs \<longrightarrow>
        snd (validateS3LogsConfig (lc_S3 logs) (mc_AWSConfig c)) = None \<and>
        snd (validateOtlpLogsConfig logs) = None)"
  by (auto simp: collector_Validate_def split: option.splits prod.splits if_splits)

lemma default_service_simps [simp]:
  "default_service ty svc \<noteq> None"
  "default_service ty (default_service ty svc) = default_service ty svc"
  by (auto simp: default_service_def split: option.splits)

section \<open>Properties\<close>

text \<open>
  A replay resource is accepted exactly when it names its hub, its two times parse in one of
  the supported layouts, its telemetry type is known, its status variable and OpAMP endpoint are set, and an S3 source
  comes with an access secret and a known partition. A missing source is accepted.
\<close>

theorem replay_accepted_iff:
  "snd (replay_ValidateCreate parseTime (Inr r)) = None \<longleftrightarrow>
     (let s = rpl_Spec r in
      rp_HubName s \<noteq> [] \<and>
      (\<exists>l \<in> set timeStrLayouts. parseTime l (rp_StartTime s) = None) \<and>
      (\<exists>l \<in> set timeStrLayouts. parseTime l (rp_EndTime s) = None) \<and>
      rp_TelemetryType s \<in> set validTelemetryTypes \<and>
      rp_StatusVariableRef s \<noteq> [] \<and> rp_OpAMPEndpoint s \<noteq> [] \<and>
      (rp_S3 s = None \<or> (\<exists>s3 secret. rp_S3 s = Some s3 \<and> rp_AWSConfig s = Some (Some secret) \<and>
          r3_S3Partition s3 \<in> set validPartitions)))"
proof -
  have loop: "time_layouts_loop parseTime t ls errs = None \<longleftrightarrow> (\<exists>l \<in> set ls. parseTime l t = None)" for t ls errs
    by (induction ls arbitrary: errs) (auto split: option.splits)
  have s3: "validate_replay_s3 s = None \<longleftrightarrow>
      (rp_S3 s = None \<or> (\<exists>s3 secret. rp_S3 s = Some s3 \<and> rp_AWSConfig s = Some (Some secret) \<and>
          r3_S3Partition s3 \<in> set validPartitions))" for s
    by (auto simp: validate_replay_s3_def validPartitions_def split: option.splits)
  have times: "validate_replay_times parseTime s = None \<longleftrightarrow>
      rp_HubName s \<noteq> [] \<and> validateTimeStr parseTime (rp_StartTime s) = None \<and>
      validateTimeStr parseTime (rp_EndTime s) = None \<and> rp_TelemetryType s \<in> set validTelemetryTypes" for s
    by (auto simp: validate_replay_times_def validTelemetryTypes_def split: option.splits)
  have "snd (replay_ValidateCreate parseTime (Inr r)) = None \<longleftrightarrow>
      snd (validateReplaySpec parseTime (rpl_Spec r) ReplayCustomResourceValidatorMode) = None"
    by (auto simp: replay_ValidateCreate_def split: prod.splits option.splits)
  also have "\<dots> \<longleftrightarrow> validate_replay_times parseTime (rpl_Spec r) = None \<and>
      rp_StatusVariableRef (rpl_Spec r) \<noteq> [] \<and> rp_OpAMPEndpoint (rpl_Spec r) \<noteq> [] \<and>
      validate_replay_s3 (rpl_Spec r) = None"
    by (simp add: validateReplaySpec_def validValidatorModes_def split: option.splits)
  finally show ?thesis
    unfolding s3 times Let_def validateTimeStr_def loop by blast
qed

text \<open>
  The ingress webhook accepts an ingress exactly when no other ingress of its namespace refers
  to the same collector, for every listing the index answers; a failed listing rejects.
\<close>

theorem ingress_reference_unique:
  "snd (ingress_ValidateCreate (Some listIngresses) (Inr mi)) = None \<longleftrightarrow>
     (\<exists>items. listIngresses (om_Namespace (mi_Meta mi)) (mi_OtelCollector mi) = Inr items \<and>
        list_all (\<lambda>mi'. key_of (mi_Meta mi') = key_of (mi_Meta mi)) items)"
  by (auto simp: ingress_ValidateCreate_def ingress_Validate_def others_loop_accepts split: sum.splits)

text \<open>
  C37. After the defaulting webhook, building the services of a collector never dereferences a
  missing service block, defaulting again changes nothing, and the cloud type and both service types are set.
\<close>

theorem defaulted_ingress_builds:
  "\<exists>mi'. ingress_Default (Inr mi) = Inr mi' \<and> ingress_Default (Inr mi') = Inr mi' \<and>
     \<not> panics (collector_GrpcService pl \<lparr>pa_Otelcol = oc, pa_MdaiIngress = mi'\<rparr>) \<and>
     \<not> panics (collector_NonGrpcService pl \<lparr>pa_Otelcol = oc, pa_MdaiIngress = mi'\<rparr>) \<and>
     mi_CloudType mi' \<noteq> [] \<and>
     service_type (mi_GrpcService mi') = isv_Type (the (mi_GrpcService mi')) \<and>
     service_type (mi_NonGrpcService mi') = isv_Type (the (mi_NonGrpcService mi'))"
proof -
  obtain mi' where mi': "ingress_Default (Inr mi) = Inr mi'" by (simp add: ingress_Default_def)
  then have some: "mi_GrpcService mi' \<noteq> None" "mi_NonGrpcService mi' \<noteq> None"
    by (auto simp: ingress_Default_def default_service_def split: option.splits)
  have "ingress_Default (Inr mi') = Inr mi'" "mi_CloudType mi' \<noteq> []"
    using mi' by (auto simp: ingress_Default_def CloudProviderAws_def split: if_splits)
  moreover have "service_type (mi_GrpcService mi') = isv_Type (the (mi_GrpcService mi'))"
      "service_type (mi_NonGrpcService mi') = isv_Type (the (mi_NonGrpcService mi'))"
    using mi' by (auto simp: ingress_Default_def default_service_def service_type_def split: option.splits if_splits)
  ultimately show ?thesis
    using mi' services_not_panic [of "\<lparr>pa_Otelcol = oc, pa_MdaiIngress = mi'\<rparr>" pl] some by simp
qed

end
