(* ===== verification/Hub_Webhook.thy ===== *)
theory Hub_Webhook
  imports Resource_Webhooks
begin

text \<open>
  The admission webhook of hubs (\<^verbatim>\<open>internal/webhook/v1/mdaihub_webhook.go\<close>). The parameters
  are collected in one record: the parser of PromQL, \<^verbatim>\<open>url.ParseRequestURI\<close> (scheme and host of
  the parsed URL), \<^verbatim>\<open>time.Parse\<close>, and the printers of field paths and of errors.
\<close>

section \<open>Field paths and errors\<close>

datatype path_elem = PName string | PIndex nat | PKey string

type_synonym path = "path_elem list"

datatype field_value = FVStr string | FVStrs "string list option" | FVReplay replay_spec

datatype field_error =
    FieldRequired path string
  | FieldInvalid path field_value string
  | FieldForbidden path string
  | FieldNotSupported path string "string list"
  | FieldDuplicate path string

definition Child :: "path \<Rightarrow> string \<Rightarrow> path" where "Child p n = p @ [PName n]"
definition Index :: "path \<Rightarrow> nat \<Rightarrow> path" where "Index p i = p @ [PIndex i]"
definition Key :: "path \<Rightarrow> string \<Rightarrow> path" where "Key p k = p @ [PKey k]"

record webhook_lib =
  wl_ParseExpr :: "string \<Rightarrow> goerr option"
  wl_ParseRequestURI :: "string \<Rightarrow> goerr + (string \<times> string)"
  wl_parseTime :: "string \<Rightarrow> string \<Rightarrow> goerr option"
  wl_pathString :: "path \<Rightarrow> string"
  wl_errString :: "goerr \<Rightarrow> string"

section \<open>Actions\<close>

definition allowedHTTP :: "string list" where
  "allowedHTTP = [''GET'', ''POST'', ''PUT'', ''PATCH'', ''DELETE'']"

definition forbiddenHeaders :: "string list" where
  "forbiddenHeaders = [''Host'', ''Content-Length'', ''Transfer-Encoding'']"

text \<open>
  \<^verbatim>\<open>textproto.CanonicalMIMEHeaderKey\<close>: the first letter and every letter after a hyphen in upper case, the
  others in lower case; a key with a byte that may not occur in a header name is left alone.
\<close>

definition header_char :: "char \<Rightarrow> bool" where
  "header_char c \<longleftrightarrow> is_alnum c \<or> c \<in> set ''!#$%&*+-.^_|~'' \<or> code c = 39 \<or> code c = 96"

fun canonical_chars :: "bool \<Rightarrow> string \<Rightarrow> string" where
  "canonical_chars upper [] = []"
| "canonical_chars upper (c # s) =
     (if upper then upper_char c else lower_char c) # canonical_chars (c = CHR ''-'') s"

definition CanonicalMIMEHeaderKey :: "string \<Rightarrow> string" where
  "CanonicalMIMEHeaderKey s = (if list_all header_char s then canonical_chars True s else s)"

definition hasKey :: "string set \<Rightarrow> string \<Rightarrow> bool" where
  "hasKey knownVarKeys key \<longleftrightarrow> key \<in> knownVarKeys"

definition validateVariableAction :: "path \<Rightarrow> string \<Rightarrow> string set \<Rightarrow> string \<Rightarrow> field_error list" where
  "validateVariableAction path variableKey knownVarKeys childPath =
     (if \<not> hasKey knownVarKeys variableKey
      then [FieldInvalid (Child path childPath) (FVStr variableKey) ''not defined in spec.variables'']
      else [])"

definition validateMapAction :: "webhook_lib \<Rightarrow> path \<Rightarrow> map_action \<Rightarrow> string set \<Rightarrow> field_error list" where
  "validateMapAction wl p a knownVarKeys =
     (if \<not> hasKey knownVarKeys (maa_Map a)
      then [FieldInvalid (Child p ''map'') (FVStr (maa_Map a)) ''not defined in spec.variables''] else []) @
     (if HasSuffix (wl_pathString wl p) ''.addToMap'' \<and>
         (maa_Value a = None \<or> TrimSpace (ptr_Deref (maa_Value a) []) = [])
      then [FieldRequired (Child p ''value'') ''required for addToMap''] else [])"

definition validateDeployReplayAction ::
  "webhook_lib \<Rightarrow> path \<Rightarrow> replay_spec \<Rightarrow> string set \<Rightarrow> field_error list" where
  "validateDeployReplayAction wl p spec knownVarKeys =
     (if rp_StatusVariableRef spec \<notin> knownVarKeys
      then [FieldInvalid (Child p ''replaySpec.statusVariableRef'') (FVStr (rp_StatusVariableRef spec))
              ''does not reference a known variable''] else []) @
     (case snd (validateReplaySpec (wl_parseTime wl) spec HubAutomationValidatorMode) of
        None \<Rightarrow> []
      | Some err \<Rightarrow> [FieldInvalid (Child p ''replaySpec'') (FVReplay spec)
          (''invalid replay spec with errors: '' @ wl_errString wl err)])"

definition validateCleanUpReplayAction :: "path \<Rightarrow> unit \<Rightarrow> string set \<Rightarrow> field_error list" where
  "validateCleanUpReplayAction p a knownVarKeys = []"

definition isValidURL :: "webhook_lib \<Rightarrow> string \<Rightarrow> bool" where
  "isValidURL wl s =
     (case wl_ParseRequestURI wl s of
        Inl _ \<Rightarrow> False
      | Inr (scheme, host) \<Rightarrow>
          if scheme \<noteq> ''http'' \<and> scheme \<noteq> ''https'' then False else host \<noteq> [])"

definition validate_url :: "webhook_lib \<Rightarrow> path \<Rightarrow> string_or_from \<Rightarrow> field_error list" where
  "validate_url wl callPath u =
     (case sof_Value u of
        None \<Rightarrow> []
      | Some v \<Rightarrow>
          (let endpoint = TrimSpace v
           in if endpoint = [] then [FieldRequired (Child callPath ''url'') ''required'']
              else if \<not> isValidURL wl endpoint
              then [FieldInvalid (Child callPath ''url'') (FVStr endpoint) ''must be an absolute http(s) URL'']
              else []))"

definition validateWebhookCall :: "webhook_lib \<Rightarrow> path \<Rightarrow> call_webhook \<Rightarrow> field_error list" where
  "validateWebhookCall wl callPath call =
     validate_url wl callPath (cw_URL call) @
     (if cw_Method call \<noteq> [] \<and> cw_Method call \<notin> set allowedHTTP
      then [FieldNotSupported (Child callPath ''method'') (cw_Method call) allowedHTTP] else []) @
     (if cw_PayloadTemplate call \<noteq> None \<and> cw_TemplateRef call = TemplateRefSlack
      then [FieldForbidden (Child callPath ''payloadTemplate'') ''must be empty when templateRef=slackAlertTemplate'']
      else []) @
     (if cw_PayloadTemplate call \<noteq> None \<and> cw_Method call \<noteq> [] \<and> cw_Method call \<noteq> ''POST''
      then [FieldInvalid (Child callPath ''method'') (FVStr (cw_Method call)) ''payloadTemplate requires POST'']
      else []) @
     (if cw_TemplateRef call = ''jsonTemplate'' \<and> cw_PayloadTemplate call = None
      then [FieldRequired (Child callPath ''payloadTemplate'') ''required when templateRef=jsonTemplate'']
      else []) @
     concat (map (\<lambda>(hk, _). let key = CanonicalMIMEHeaderKey hk
       in if key \<in> set forbiddenHeaders
          then [FieldForbidden (Key (Child callPath ''headers'') hk)
                  (''header '' @ [CHR 0x22] @ key @ [CHR 0x22] @ '' is managed by the client and cannot be set'')]
          else []) (cw_Headers call))"

text \<open>
  The table of \<^verbatim>\<open>validateAction\<close>: for every payload that is present, what its validation returns.
\<close>

definition action_table :: "webhook_lib \<Rightarrow> path \<Rightarrow> hub_action \<Rightarrow> string set \<Rightarrow> field_error list option list" where
  "action_table wl p a known =
     [map_option (\<lambda>x. validateVariableAction (Child p ''addToSet'') (sea_Set x) known ''set'') (ac_AddToSet a),
      map_option (\<lambda>x. validateVariableAction (Child p ''removeFromSet'') (sea_Set x) known ''set'') (ac_RemoveFromSet a),
      map_option (\<lambda>x. validateVariableAction (Child p ''setVariable'') (sca_Scalar x) known ''scalar'') (ac_SetVariable a),
      map_option (\<lambda>x. validateMapAction wl (Child p ''addToMap'') x known) (ac_AddToMap a),
      map_option (\<lambda>x. validateMapAction wl (Child p ''removeFromMap'') x known) (ac_RemoveFromMap a),
      map_option (\<lambda>x. validateWebhookCall wl (Child p ''callWebhook'') x) (ac_CallWebhook a),
      map_option (\<lambda>x. validateDeployReplayAction wl (Child p ''deployReplay'') x known) (ac_DeployReplay a),
      map_option (\<lambda>x. validateCleanUpReplayAction (Child p ''cleanUpReplay'') x known) (ac_CleanUpReplay a)]"

text \<open>The scan for the one payload that is present.\<close>

fun find_present :: "path \<Rightarrow> field_error list option list \<Rightarrow> field_error list option \<Rightarrow> field_error list" where
  "find_present p [] found =
     (case found of None \<Rightarrow> [FieldInvalid p (FVStr ''<action>'') ''at least one action must be specified'']
      | Some errs \<Rightarrow> errs)"
| "find_present p (None # as) found = find_present p as found"
| "find_present p (Some errs # as) found =
     (if found \<noteq> None then [FieldInvalid p (FVStr ''<action>'') ''only one action may be specified'']
      else find_present p as (Some errs))"

definition validateAction :: "webhook_lib \<Rightarrow> path \<Rightarrow> hub_action \<Rightarrow> string set \<Rightarrow> field_error list" where
  "validateAction wl actionPath action knownVarKeys =
     find_present actionPath (action_table wl actionPath action knownVarKeys) None"

section \<open>Rules\<close>

definition set_str :: "string option \<Rightarrow> bool" where
  "set_str s \<longleftrightarrow> TrimSpace (ptr_Deref s []) \<noteq> []"

definition validateWhen :: "path \<Rightarrow> rule_when \<Rightarrow> string set \<Rightarrow> string set \<Rightarrow> field_error list" where
  "validateWhen path w knownVarKeys knownAlertNames =
     (let hasAlertName = set_str (wh_AlertName w); hasStatus = set_str (wh_Status w);
          hasVariableUpdated = set_str (wh_VariableUpdated w); hasUpdateType = set_str (wh_UpdateType w)
      in (if hasStatus \<and> \<not> hasAlertName
          then [FieldInvalid path (FVStr ''<alert>'') ''alertName and status must be set together''] else []) @
         (if hasUpdateType \<and> \<not> hasVariableUpdated
          then [FieldInvalid (Child path ''updateType'') (FVStr (the (wh_UpdateType w)))
                  ''can only be set when variableUpdated is set''] else []) @
         (if hasVariableUpdated \<and> \<not> hasKey knownVarKeys (the (wh_VariableUpdated w))
          then [FieldInvalid (Child path ''variableUpdated'') (FVStr (the (wh_VariableUpdated w)))
                  ''not defined in spec.variables''] else []) @
         (if hasAlertName \<and> \<not> hasKey knownAlertNames (the (wh_AlertName w))
          then [FieldInvalid (Child path ''alertName'') (FVStr (the (wh_AlertName w)))
                  ''not defined in spec.prometheusAlerts''] else []))"

fun actions_loop :: "webhook_lib \<Rightarrow> path \<Rightarrow> nat \<Rightarrow> hub_action list \<Rightarrow> string set \<Rightarrow> field_error list" where
  "actions_loop wl thenPath j [] known = []"
| "actions_loop wl thenPath j (act # acts) known =
     validateAction wl (Index thenPath j) act known @ actions_loop wl thenPath (Suc j) acts known"

fun rules_loop :: "webhook_lib \<Rightarrow> nat \<Rightarrow> automation_rule list \<Rightarrow> string set \<Rightarrow> string set \<Rightarrow> field_error list" where
  "rules_loop wl i [] varKeys alertNames = []"
| "rules_loop wl i (rule # rules) varKeys alertNames =
     (let rulePath = Index (Child [PName ''spec''] ''rules'') i
      in validateWhen (Child rulePath ''when'') (ar_When rule) varKeys alertNames @
         (if ar_Then rule = []
          then [FieldRequired (Child rulePath ''then'') ''at least 1 action is required'']
          else actions_loop wl (Child rulePath ''then'') 0 (ar_Then rule) varKeys) @
         rules_loop wl (Suc i) rules varKeys alertNames)"

text \<open>The sets of known names leave out the empty name.\<close>

definition known_names :: "string list \<Rightarrow> string set" where
  "known_names ks = set (filter (\<lambda>k. k \<noteq> []) ks)"

definition validateAutomations :: "webhook_lib \<Rightarrow> mdai_hub \<Rightarrow> string list \<times> field_error list" where
  "validateAutomations wl hub =
     (if slice (hub_Rules hub) = []
      then ([''no `Rules` provided; MdaiHub will perform no actions''], [])
      else ([], rules_loop wl 0 (slice (hub_Rules hub)) (known_names (map va_Key (hub_Variables hub)))
                  (known_names (map al_Name (slice (hub_PrometheusAlerts hub))))))"

section \<open>Variables\<close>

text \<open>The checks of one serializer; the set of exported names is threaded through.\<close>

fun serializers_loop ::
  "path \<Rightarrow> string \<Rightarrow> nat \<Rightarrow> serializer list \<Rightarrow> string set \<Rightarrow> field_error list \<times> string set" where
  "serializers_loop varIndex dataType j [] exported = ([], exported)"
| "serializers_loop varIndex dataType j (sz # szs) exported =
     (let serializeIndex = Index (Child varIndex ''serializeAs'') j;
          dup = (if sz_Name sz \<in> exported
                 then [FieldDuplicate (Child serializeIndex ''name'') (sz_Name sz)] else []);
          errs = (if dataType \<in> {VariableDataTypeSet, MetaVariableDataTypePriorityList} then []
                  else if dataType \<in> {VariableDataTypeString, VariableDataTypeFloat, VariableDataTypeInt,
                         VariableDataTypeBoolean, VariableDataTypeMap, MetaVariableDataTypeHashSet}
                  then (if sz_Transformers sz \<noteq> []
                        then [FieldForbidden (Child serializeIndex ''transformers'')
                                (''transformers are not supported for variable type '' @ dataType)] else [])
                  else [FieldInvalid (Child varIndex ''dataType'') (FVStr dataType) ''unsupported variable type'']);
          (rest, exported') = serializers_loop varIndex dataType (Suc j) szs (insert (sz_Name sz) exported)
      in (dup @ errs @ rest, exported'))"

definition refs_errors :: "path \<Rightarrow> hub_variable \<Rightarrow> field_error list" where
  "refs_errors varIndex v =
     (let refs = slice (va_VariableRefs v)
      in if va_Type v = VariableTypeMeta
         then (if refs = [] then [FieldRequired (Child varIndex ''variableRefs'') ''required for meta variable''] else []) @
              (if va_DataType v = MetaVariableDataTypeHashSet \<and> length refs \<noteq> 2
               then [FieldInvalid (Child varIndex ''variableRefs'') (FVStrs (va_VariableRefs v))
                       ''Meta HashSet must have exactly 2 elements''] else [])
         else (if refs \<noteq> []
               then [FieldForbidden (Child varIndex ''variableRefs'') ''not supported for non-meta variables''] else []))"

fun variables_loop ::
  "nat \<Rightarrow> hub_variable list \<Rightarrow> string set \<Rightarrow> string set \<Rightarrow> field_error list" where
  "variables_loop i [] keys exported = []"
| "variables_loop i (v # vs) keys exported =
     (let varIndex = Index [PName ''spec'', PName ''variables''] i;
          storage = (if va_StorageType v \<noteq> VariableSourceTypeBuiltInValkey
                     then [FieldNotSupported (Child varIndex ''storageType'') (va_StorageType v)
                             [VariableSourceTypeBuiltInValkey]] else []);
          dup = (if va_Key v \<in> keys then [FieldDuplicate (Child varIndex ''key'') (va_Key v)] else []);
          (ser, exported') = (case va_SerializeAs v of
                                None \<Rightarrow> ([], exported)
                              | Some szs \<Rightarrow> serializers_loop varIndex (va_DataType v) 0 szs exported)
      in storage @ dup @ refs_errors varIndex v @ ser @
         variables_loop (Suc i) vs (insert (va_Key v) keys) exported')"

definition validateVariables :: "mdai_hub \<Rightarrow> string list \<times> field_error list" where
  "validateVariables hub =
     (if hub_Variables hub = [] then ([''variables are not specified''], [])
      else ([], variables_loop 0 (hub_Variables hub) {} {}))"

section \<open>The webhook\<close>

datatype rejection = RejectErr goerr | RejectInvalid string string "field_error list"

fun first_parse_error :: "webhook_lib \<Rightarrow> prometheus_alert list \<Rightarrow> goerr option" where
  "first_parse_error wl [] = None"
| "first_parse_error wl (e # es) =
     (case wl_ParseExpr wl (case al_Expr e of StrVal s \<Rightarrow> s | IntVal _ \<Rightarrow> []) of
        Some err \<Rightarrow> Some err
      | None \<Rightarrow> first_parse_error wl es)"

definition hub_Validate :: "webhook_lib \<Rightarrow> mdai_hub \<Rightarrow> string list \<times> rejection option" where
  "hub_Validate wl hub =
     (let (w1, errs1) = validateVariables hub;
          alerts = slice (hub_PrometheusAlerts hub);
          w2 = (if alerts = [] then w1 @ [''no `PrometheusAlerts` provided; MdaiHub will not setup alerts''] else w1)
      in case first_parse_error wl alerts of
           Some err \<Rightarrow> (w2, Some (RejectErr err))
         | None \<Rightarrow>
             (let (w3, errs3) = validateAutomations wl hub; allErrs = errs1 @ errs3
              in if allErrs = [] then (w2 @ w3, None)
                 else (w2 @ w3, Some (RejectInvalid ''MdaiHub'' (cr_name hub) allErrs))))"

text \<open>The last meta variable of a key wins, as in a Go map.\<close>

definition old_meta_refs :: "hub_variable list \<Rightarrow> (string, string list option) gomap" where
  "old_meta_refs oldVars =
     fold (\<lambda>v m. if va_Type v = VariableTypeMeta then gset (va_Key v) (va_VariableRefs v) m else m) oldVars []"

fun meta_refs_loop ::
  "(string, string list option) gomap \<Rightarrow> nat \<Rightarrow> hub_variable list \<Rightarrow> field_error list" where
  "meta_refs_loop old i [] = []"
| "meta_refs_loop old i (v # vs) =
     (if va_Type v \<noteq> VariableTypeMeta then []
      else (case gget old (va_Key v) of
              None \<Rightarrow> []
            | Some refs \<Rightarrow>
                if refs \<noteq> va_VariableRefs v
                then [FieldForbidden (Child (Index [PName ''spec'', PName ''variables''] i) ''variableRefs'')
                        ''meta variable references must not change; delete and recreate the variable to update references'']
                else [])) @ meta_refs_loop old (Suc i) vs"

definition validateMetaVarRefs :: "hub_variable list \<Rightarrow> hub_variable list \<Rightarrow> field_error list" where
  "validateMetaVarRefs oldVars newVars =
     (if oldVars = [] \<or> newVars = [] then [] else meta_refs_loop (old_meta_refs oldVars) 0 newVars)"

definition hub_ValidateCreate :: "webhook_lib \<Rightarrow> string + mdai_hub \<Rightarrow> string list \<times> rejection option" where
  "hub_ValidateCreate wl ob =
     (case ob of
        Inl t \<Rightarrow> ([], Some (RejectErr (ErrNew (''expected a MdaiHub object but got '' @ t))))
      | Inr hub \<Rightarrow> hub_Validate wl hub)"

definition hub_ValidateUpdate ::
  "webhook_lib \<Rightarrow> string + mdai_hub \<Rightarrow> string + mdai_hub \<Rightarrow> string list \<times> rejection option" where
  "hub_ValidateUpdate wl oldObj newObj =
     (case newObj of
        Inl t \<Rightarrow> ([], Some (RejectErr (ErrNew (''expected a MdaiHub object for the newObj but got '' @ t))))
      | Inr newHub \<Rightarrow>
          (case oldObj of
             Inl t \<Rightarrow> ([], Some (RejectErr (ErrNew ''expected a MdaiHub object for the oldObj but got *v1.MdaiHub'')))
           | Inr oldHub \<Rightarrow>
               (let errorList = validateMetaVarRefs (hub_Variables oldHub) (hub_Variables newHub)
                in if errorList \<noteq> [] then ([], Some (RejectInvalid ''MdaiHub'' (cr_name newHub) errorList))
                   else hub_Validate wl newHub)))"

definition hub_ValidateDelete :: "string + mdai_hub \<Rightarrow> string list \<times> rejection option" where
  "hub_ValidateDelete ob =
     (case ob of
        Inl t \<Rightarrow> ([], Some (RejectErr (ErrNew (''expected a MdaiHub object but got '' @ t))))
      | Inr hub \<Rightarrow> ([], None))"

definition hub_Default :: "string + mdai_hub \<Rightarrow> goerr + mdai_hub" where
  "hub_Default ob =
     (case ob of
        Inl t \<Rightarrow> Inl (ErrNew (''expected an MdaiHub object but got '' @ t))
      | Inr hub \<Rightarrow> Inr hub)"

section \<open>What the webhook accepts\<close>

text \<open>
  The contract of the webhook, stated without field paths and without the sets the loops thread through.
\<close>

definition exported_names :: "hub_variable list \<Rightarrow> string list" where
  "exported_names vs = concat (map (\<lambda>v. map sz_Name (slice (va_SerializeAs v))) vs)"

definition joinable :: "string \<Rightarrow> bool" where
  "joinable dt \<longleftrightarrow> dt \<in> {VariableDataTypeSet, MetaVariableDataTypePriorityList}"

definition plain_type :: "string \<Rightarrow> bool" where
  "plain_type dt \<longleftrightarrow> dt \<in> {VariableDataTypeString, VariableDataTypeFloat, VariableDataTypeInt,
     VariableDataTypeBoolean, VariableDataTypeMap, MetaVariableDataTypeHashSet}"

definition serializer_ok :: "string \<Rightarrow> serializer \<Rightarrow> bool" where
  "serializer_ok dt sz \<longleftrightarrow> joinable dt \<or> (plain_type dt \<and> sz_Transformers sz = [])"

definition refs_ok :: "hub_variable \<Rightarrow> bool" where
  "refs_ok v \<longleftrightarrow>
     (if va_Type v = VariableTypeMeta
      then slice (va_VariableRefs v) \<noteq> [] \<and>
           (va_DataType v = MetaVariableDataTypeHashSet \<longrightarrow> length (slice (va_VariableRefs v)) = 2)
      else slice (va_VariableRefs v) = [])"

definition variable_ok :: "hub_variable \<Rightarrow> bool" where
  "variable_ok v \<longleftrightarrow> va_StorageType v = VariableSourceTypeBuiltInValkey \<and> refs_ok v \<and>
     (\<forall>sz \<in> set (slice (va_SerializeAs v)). serializer_ok (va_DataType v) sz)"

definition variables_ok :: "hub_variable list \<Rightarrow> bool" where
  "variables_ok vs \<longleftrightarrow> distinct (map va_Key vs) \<and> distinct (exported_names vs) \<and> (\<forall>v \<in> set vs. variable_ok v)"

definition call_ok :: "webhook_lib \<Rightarrow> call_webhook \<Rightarrow> bool" where
  "call_ok wl c \<longleftrightarrow>
     (\<forall>u. sof_Value (cw_URL c) = Some u \<longrightarrow> TrimSpace u \<noteq> [] \<and> isValidURL wl (TrimSpace u)) \<and>
     (cw_Method c = [] \<or> cw_Method c \<in> set allowedHTTP) \<and>
     (cw_PayloadTemplate c \<noteq> None \<longrightarrow> cw_TemplateRef c \<noteq> TemplateRefSlack \<and> cw_Method c \<in> {[], ''POST''}) \<and>
     (cw_TemplateRef c = TemplateRefJSON \<longrightarrow> cw_PayloadTemplate c \<noteq> None) \<and>
     (\<forall>h \<in> set (cw_Headers c). CanonicalMIMEHeaderKey (fst h) \<notin> set forbiddenHeaders)"

definition present :: "hub_action \<Rightarrow> bool list" where
  "present a = [ac_AddToSet a \<noteq> None, ac_RemoveFromSet a \<noteq> None, ac_SetVariable a \<noteq> None, ac_AddToMap a \<noteq> None,
     ac_RemoveFromMap a \<noteq> None, ac_CallWebhook a \<noteq> None, ac_DeployReplay a \<noteq> None, ac_CleanUpReplay a \<noteq> None]"

definition action_ok :: "webhook_lib \<Rightarrow> string set \<Rightarrow> hub_action \<Rightarrow> bool" where
  "action_ok wl known a \<longleftrightarrow> count_list (present a) True = 1 \<and>
     (\<forall>x. ac_AddToSet a = Some x \<longrightarrow> sea_Set x \<in> known) \<and>
     (\<forall>x. ac_RemoveFromSet a = Some x \<longrightarrow> sea_Set x \<in> known) \<and>
     (\<forall>x. ac_SetVariable a = Some x \<longrightarrow> sca_Scalar x \<in> known) \<and>
     (\<forall>x. ac_AddToMap a = Some x \<longrightarrow> maa_Map x \<in> known \<and> set_str (maa_Value x)) \<and>
     (\<forall>x. ac_RemoveFromMap a = Some x \<longrightarrow> maa_Map x \<in> known) \<and>
     (\<forall>x. ac_CallWebhook a = Some x \<longrightarrow> call_ok wl x) \<and>
     (\<forall>x. ac_DeployReplay a = Some x \<longrightarrow> rp_StatusVariableRef x \<in> known \<and>
        snd (validateReplaySpec (wl_parseTime wl) x HubAutomationValidatorMode) = None)"

definition when_ok :: "string set \<Rightarrow> string set \<Rightarrow> rule_when \<Rightarrow> bool" where
  "when_ok vars alerts w \<longleftrightarrow>
     (set_str (wh_Status w) \<longrightarrow> set_str (wh_AlertName w)) \<and>
     (set_str (wh_UpdateType w) \<longrightarrow> set_str (wh_VariableUpdated w)) \<and>
     (set_str (wh_VariableUpdated w) \<longrightarrow> the (wh_VariableUpdated w) \<in> vars) \<and>
     (set_str (wh_AlertName w) \<longrightarrow> the (wh_AlertName w) \<in> alerts)"

definition rule_ok :: "webhook_lib \<Rightarrow> string set \<Rightarrow> string set \<Rightarrow> automation_rule \<Rightarrow> bool" where
  "rule_ok wl vars alerts r \<longleftrightarrow> when_ok vars alerts (ar_When r) \<and> ar_Then r \<noteq> [] \<and>
     (\<forall>a \<in> set (ar_Then r). action_ok wl vars a)"

definition hub_ok :: "webhook_lib \<Rightarrow> mdai_hub \<Rightarrow> bool" where
  "hub_ok wl hub \<longleftrightarrow> variables_ok (hub_Variables hub) \<and>
     (\<forall>al \<in> set (slice (hub_PrometheusAlerts hub)).
        wl_ParseExpr wl (case al_Expr al of StrVal s \<Rightarrow> s | IntVal _ \<Rightarrow> []) = None) \<and>
     (\<forall>r \<in> set (slice (hub_Rules hub)).
        rule_ok wl (known_names (map va_Key (hub_Variables hub)))
          (known_names (map al_Name (slice (hub_PrometheusAlerts hub)))) r)"

text \<open>\<^verbatim>\<open>field.Path.String\<close> prints a child after a dot.\<close>

definition prints_children :: "webhook_lib \<Rightarrow> bool" where
  "prints_children wl \<longleftrightarrow> (\<forall>p n. p \<noteq> [] \<longrightarrow> wl_pathString wl (p @ [PName n]) = wl_pathString wl p @ CHR ''.'' # n)"

section \<open>Lemmas\<close>

lemma serializers_loop_exported:
  "snd (serializers_loop p dt j szs ex) = ex \<union> set (map sz_Name szs)"
proof (induction szs arbitrary: j ex)
  case (Cons sz szs)
  obtain rest ex' where r: "serializers_loop p dt (Suc j) szs (insert (sz_Name sz) ex) = (rest, ex')"
    by fastforce
  then have "ex' = insert (sz_Name sz) ex \<union> set (map sz_Name szs)"
    using Cons.IH [of "Suc j" "insert (sz_Name sz) ex"] by simp
  then show ?case by (simp add: r Let_def)
qed simp

lemma serializers_loop_accepts:
  "fst (serializers_loop p dt j szs ex) = [] \<longleftrightarrow>
     distinct (map sz_Name szs) \<and> set (map sz_Name szs) \<inter> ex = {} \<and> (\<forall>sz \<in> set szs. serializer_ok dt sz)"
proof (induction szs arbitrary: j ex)
  case (Cons sz szs)
  obtain rest ex' where r: "serializers_loop p dt (Suc j) szs (insert (sz_Name sz) ex) = (rest, ex')"
    by fastforce
  have "rest = [] \<longleftrightarrow> distinct (map sz_Name szs) \<and> set (map sz_Name szs) \<inter> insert (sz_Name sz) ex = {} \<and>
      (\<forall>sz \<in> set szs. serializer_ok dt sz)"
    using Cons.IH [of "Suc j" "insert (sz_Name sz) ex"] r by simp
  then show ?case
    by (auto simp: r Let_def serializer_ok_def joinable_def plain_type_def)
qed simp

lemma refs_errors_accepts: "refs_errors p v = [] \<longleftrightarrow> refs_ok v"
  by (auto simp: refs_errors_def refs_ok_def Let_def)

lemma exported_names_Cons:
  "exported_names (v # vs) = map sz_Name (slice (va_SerializeAs v)) @ exported_names vs"
  by (simp add: exported_names_def)

lemma variables_loop_accepts:
  "variables_loop i vs keys ex = [] \<longleftrightarrow>
     variables_ok vs \<and> set (map va_Key vs) \<inter> keys = {} \<and> set (exported_names vs) \<inter> ex = {}"
proof (induction vs arbitrary: i keys ex)
  case Nil
  then show ?case by (simp add: variables_ok_def exported_names_def)
next
  case (Cons v vs)
  define p where "p = Index [PName ''spec'', PName ''variables''] i"
  define szs where "szs = slice (va_SerializeAs v)"
  obtain ser ex' where s: "(case va_SerializeAs v of None \<Rightarrow> ([], ex)
      | Some szs \<Rightarrow> serializers_loop p (va_DataType v) 0 szs ex) = (ser, ex')"
    by fastforce
  have ser: "ser = [] \<longleftrightarrow> distinct (map sz_Name szs) \<and> set (map sz_Name szs) \<inter> ex = {} \<and>
      (\<forall>sz \<in> set szs. serializer_ok (va_DataType v) sz)"
    using s serializers_loop_accepts [of p "va_DataType v" 0 szs ex]
    by (cases "va_SerializeAs v") (auto simp: szs_def)
  have ex': "ex' = ex \<union> set (map sz_Name szs)"
    using s serializers_loop_exported [of p "va_DataType v" 0 szs ex]
    by (cases "va_SerializeAs v") (auto simp: szs_def)
  have "variables_loop i (v # vs) keys ex = [] \<longleftrightarrow>
      va_StorageType v = VariableSourceTypeBuiltInValkey \<and> va_Key v \<notin> keys \<and> refs_ok v \<and> ser = [] \<and>
      variables_loop (Suc i) vs (insert (va_Key v) keys) ex' = []"
    using s [unfolded p_def] by (simp add: Let_def refs_errors_accepts)
  then show ?case
    by (auto simp: Cons.IH ser ex' variables_ok_def variable_ok_def exported_names_Cons szs_def)
qed

lemma find_present_Some:
  "find_present p xs (Some errs) = [] \<longleftrightarrow> errs = [] \<and> (\<forall>x \<in> set xs. x = None)"
proof (induction xs)
  case (Cons x xs)
  then show ?case by (cases x) auto
qed simp

lemma find_present_accepts:
  "find_present p xs None = [] \<longleftrightarrow>
     count_list (map (\<lambda>x. x \<noteq> None) xs) True = 1 \<and> (\<forall>x \<in> set xs. x \<in> {None, Some []})"
proof (induction xs)
  case (Cons x xs)
  have "count_list (map (\<lambda>x. x \<noteq> None) xs) True = 0 \<longleftrightarrow> (\<forall>x \<in> set xs. x = None)"
    by (auto simp: count_list_0_iff)
  then show ?case using Cons.IH by (cases x) (auto simp: find_present_Some)
qed simp

lemma validateWebhookCall_accepts: "validateWebhookCall wl p c = [] \<longleftrightarrow> call_ok wl c"
  by (auto simp: validateWebhookCall_def call_ok_def validate_url_def Let_def TemplateRefJSON_def
      split: option.splits if_splits)

lemma validateMapAction_accepts:
  assumes "prints_children wl" "p \<noteq> []"
  shows "validateMapAction wl (Child p ''addToMap'') x known = [] \<longleftrightarrow> maa_Map x \<in> known \<and> set_str (maa_Value x)"
    and "validateMapAction wl (Child p ''removeFromMap'') x known = [] \<longleftrightarrow> maa_Map x \<in> known"
proof -
  have s: "wl_pathString wl (Child p n) = wl_pathString wl p @ CHR ''.'' # n" for n
    using assms by (simp add: prints_children_def Child_def)
  have a: "HasSuffix (wl_pathString wl (Child p ''addToMap'')) ''.addToMap''"
    using HasSuffix_append [of "wl_pathString wl p" "''.addToMap''"] by (simp add: s)
  have r: "\<not> HasSuffix (wl_pathString wl (Child p ''removeFromMap'')) ''.addToMap''"
    by (simp add: s HasSuffix_def)
  show "validateMapAction wl (Child p ''addToMap'') x known = [] \<longleftrightarrow> maa_Map x \<in> known \<and> set_str (maa_Value x)"
    using a by (cases "maa_Value x") (auto simp: validateMapAction_def hasKey_def set_str_def TrimSpace_def)
  show "validateMapAction wl (Child p ''removeFromMap'') x known = [] \<longleftrightarrow> maa_Map x \<in> known"
    using r by (simp add: validateMapAction_def hasKey_def)
qed

lemma validateVariableAction_accepts: "validateVariableAction p k known c = [] \<longleftrightarrow> k \<in> known"
  by (simp add: validateVariableAction_def hasKey_def)

lemma validateDeployReplayAction_accepts:
  "validateDeployReplayAction wl p x known = [] \<longleftrightarrow> rp_StatusVariableRef x \<in> known \<and>
     snd (validateReplaySpec (wl_parseTime wl) x HubAutomationValidatorMode) = None"
  by (auto simp: validateDeployReplayAction_def split: option.splits)

lemma accepted_entry: "map_option f x \<in> {None, Some []} \<longleftrightarrow> (\<forall>y. x = Some y \<longrightarrow> f y = [])"
  by (cases x) auto

lemma validateAction_accepts:
  assumes "prints_children wl" "p \<noteq> []"
  shows "validateAction wl p a known = [] \<longleftrightarrow> action_ok wl known a"
proof -
  have "map (\<lambda>x. x \<noteq> None) (action_table wl p a known) = present a"
    by (simp add: action_table_def present_def)
  moreover have "(\<forall>x \<in> set (action_table wl p a known). x \<in> {None, Some []}) \<longleftrightarrow>
     (\<forall>x. ac_AddToSet a = Some x \<longrightarrow> sea_Set x \<in> known) \<and>
     (\<forall>x. ac_RemoveFromSet a = Some x \<longrightarrow> sea_Set x \<in> known) \<and>
     (\<forall>x. ac_SetVariable a = Some x \<longrightarrow> sca_Scalar x \<in> known) \<and>
     (\<forall>x. ac_AddToMap a = Some x \<longrightarrow> maa_Map x \<in> known \<and> set_str (maa_Value x)) \<and>
     (\<forall>x. ac_RemoveFromMap a = Some x \<longrightarrow> maa_Map x \<in> known) \<and>
     (\<forall>x. ac_CallWebhook a = Some x \<longrightarrow> call_ok wl x) \<and>
     (\<forall>x. ac_DeployReplay a = Some x \<longrightarrow> rp_StatusVariableRef x \<in> known \<and>
        snd (validateReplaySpec (wl_parseTime wl) x HubAutomationValidatorMode) = None)"
    unfolding action_table_def
    by (simp only: list.set ball_simps accepted_entry validateVariableAction_accepts
        validateMapAction_accepts [OF assms] validateWebhookCall_accepts validateDeployReplayAction_accepts
        validateCleanUpReplayAction_def simp_thms)
  ultimately show ?thesis by (simp only: validateAction_def find_present_accepts action_ok_def)
qed

lemma validateWhen_accepts: "validateWhen p w vars alerts = [] \<longleftrightarrow> when_ok vars alerts w"
  by (auto simp: validateWhen_def when_ok_def Let_def hasKey_def)

lemma actions_loop_accepts:
  assumes "prints_children wl"
  shows "actions_loop wl p j as known = [] \<longleftrightarrow> (\<forall>a \<in> set as. action_ok wl known a)"
  by (induction as arbitrary: j) (simp_all add: validateAction_accepts [OF assms] Index_def)

lemma rules_loop_accepts:
  assumes "prints_children wl"
  shows "rules_loop wl i rs vars alerts = [] \<longleftrightarrow> (\<forall>r \<in> set rs. rule_ok wl vars alerts r)"
  by (induction rs arbitrary: i)
    (simp_all add: Let_def validateWhen_accepts actions_loop_accepts [OF assms] rule_ok_def)

lemma first_parse_error_None:
  "first_parse_error wl als = None \<longleftrightarrow>
     (\<forall>al \<in> set als. wl_ParseExpr wl (case al_Expr al of StrVal s \<Rightarrow> s | IntVal _ \<Rightarrow> []) = None)"
  by (induction als) (auto split: option.splits)

lemma validateVariables_accepts: "snd (validateVariables hub) = [] \<longleftrightarrow> variables_ok (hub_Variables hub)"
  by (auto simp: validateVariables_def variables_loop_accepts) (simp add: variables_ok_def exported_names_def)

lemma hub_Validate_accepts:
  assumes "prints_children wl"
  shows "snd (hub_Validate wl hub) = None \<longleftrightarrow> hub_ok wl hub"
proof -
  have "snd (validateAutomations wl hub) = [] \<longleftrightarrow>
      (\<forall>r \<in> set (slice (hub_Rules hub)). rule_ok wl (known_names (map va_Key (hub_Variables hub)))
          (known_names (map al_Name (slice (hub_PrometheusAlerts hub)))) r)"
    by (simp add: validateAutomations_def rules_loop_accepts [OF assms])
  then show ?thesis
    unfolding hub_Validate_def hub_ok_def validateVariables_accepts [symmetric] first_parse_error_None [symmetric]
    by (auto simp: Let_def split: prod.splits option.splits)
qed

text \<open>Reading the map of the old meta variables.\<close>

lemma fold_meta_refs:
  assumes "distinct (map va_Key vs)"
  shows "gget (fold (\<lambda>v m. if va_Type v = VariableTypeMeta then gset (va_Key v) (va_VariableRefs v) m else m) vs m0) k =
    (case find (\<lambda>v. va_Key v = k \<and> va_Type v = VariableTypeMeta) vs of
       None \<Rightarrow> gget m0 k | Some v \<Rightarrow> Some (va_VariableRefs v))"
  using assms
proof (induction vs arbitrary: m0)
  case (Cons v vs)
  have "find (\<lambda>u. va_Key u = va_Key v \<and> va_Type u = VariableTypeMeta) vs = None"
    using Cons.prems by (auto simp: find_None_iff image_iff)
  then show ?case using Cons by (auto simp: update_conv split: option.splits)
qed simp

lemma old_meta_refs_lookup:
  assumes "distinct (map va_Key vs)" "v \<in> set vs" "va_Type v = VariableTypeMeta"
  shows "gget (old_meta_refs vs) (va_Key v) = Some (va_VariableRefs v)"
proof -
  have "find (\<lambda>u. va_Key u = va_Key v \<and> va_Type u = VariableTypeMeta) vs = Some v"
    using assms by (induction vs) auto
  then show ?thesis using fold_meta_refs [OF assms(1), of "[]" "va_Key v"] by (simp add: old_meta_refs_def)
qed

lemma meta_refs_loop_accepts:
  "meta_refs_loop old i vs = [] \<longleftrightarrow>
     (\<forall>v \<in> set vs. va_Type v = VariableTypeMeta \<longrightarrow> gget old (va_Key v) \<in> {None, Some (va_VariableRefs v)})"
  by (induction vs arbitrary: i) (auto split: option.splits)

section \<open>Properties\<close>

text \<open>
  C1. The webhook accepts exactly the hubs of \<^const>\<open>hub_ok\<close>: variable keys and exported names
  are unique, every variable is stored in the built-in Valkey and has the references its type asks for, transformers
  occur only where they are supported, every alert expression parses, and every rule has actions with exactly
  one payload each, naming variables and alerts that the hub defines.
\<close>

theorem hub_accepted_iff:
  assumes "prints_children wl"
  shows "snd (hub_ValidateCreate wl (Inr hub)) = None \<longleftrightarrow> hub_ok wl hub"
  using hub_Validate_accepts [OF assms] by (simp add: hub_ValidateCreate_def)

definition sample_webhook_lib :: webhook_lib where
  "sample_webhook_lib =
    \<lparr>wl_ParseExpr = (\<lambda>s. if s = [] then Some (ErrLib ''no expression found in input'') else None),
     wl_ParseRequestURI = (\<lambda>s. if HasPrefix s ''http://'' then Inr (''http'', drop 7 s)
        else Inl (ErrLib ''invalid URI for request'')),
     wl_parseTime = (\<lambda>layout s. if s = [] then Some (ErrLib ''cannot parse'') else None),
     wl_pathString = (\<lambda>p. concat (map (\<lambda>e. case e of PName n \<Rightarrow> CHR ''.'' # n | PIndex i \<Rightarrow> nat_str i
        | PKey k \<Rightarrow> CHR ''['' # k @ '']'') p)),
     wl_errString = (\<lambda>e. case e of ErrLib s \<Rightarrow> s | _ \<Rightarrow> [])\<rparr>"

lemma sample_prints_children: "prints_children sample_webhook_lib"
  by (simp add: prints_children_def sample_webhook_lib_def)

definition sample_variable :: hub_variable where
  "sample_variable = \<lparr>va_Key = ''service_list'', va_Type = ''computed'', va_DataType = ''set'',
     va_StorageType = ''mdai-valkey'', va_VariableRefs = None,
     va_SerializeAs = Some [\<lparr>sz_Name = ''SERVICE_LIST'',
       sz_Transformers = [\<lparr>tr_Type = ''join'', tr_Join = Some ''|''\<rparr>]\<rparr>]\<rparr>"

definition sample_meta_variable :: hub_variable where
  "sample_meta_variable = \<lparr>va_Key = ''lookup'', va_Type = ''meta'', va_DataType = ''metaHashSet'',
     va_StorageType = ''mdai-valkey'', va_VariableRefs = Some [''service_list'', ''severity''],
     va_SerializeAs = Some [\<lparr>sz_Name = ''LOOKUP'', sz_Transformers = []\<rparr>]\<rparr>"

definition sample_action :: hub_action where
  "sample_action = \<lparr>ac_AddToSet = Some \<lparr>sea_Set = ''service_list'', sea_Value = ''svc''\<rparr>, ac_RemoveFromSet = None,
     ac_SetVariable = None, ac_AddToMap = None, ac_RemoveFromMap = None, ac_CallWebhook = None,
     ac_DeployReplay = None, ac_CleanUpReplay = None\<rparr>"

definition sample_hub :: mdai_hub where
  "sample_hub = \<lparr>rs_Meta = meta_named ''hub'' ''mdai'', rs_Conditions = [],
     hub_EvaluationInterval = None, hub_Variables = [sample_variable, sample_meta_variable],
     hub_PrometheusAlerts = Some [\<lparr>al_Name = ''too_many'', al_Expr = StrVal ''x > 1'', al_For = None,
       al_KeepFiringFor = None, al_Severity = ''warning''\<rparr>],
     hub_Rules = Some [\<lparr>ar_Name = ''rule'', ar_When = \<lparr>wh_AlertName = Some ''too_many'', wh_Status = Some ''firing'',
       wh_VariableUpdated = None, wh_UpdateType = None\<rparr>, ar_Then = [sample_action]\<rparr>]\<rparr>"

theorem hub_accepted_iff_witness: "hub_ok sample_webhook_lib sample_hub"
proof -
  have "snd (hub_ValidateCreate sample_webhook_lib (Inr sample_hub)) = None" by code_simp
  then show ?thesis using hub_accepted_iff [OF sample_prints_children] by blast
qed

text \<open>
  C25. Once a hub with unique variable keys is stored, an update cannot change what one of its meta variables
  refers to: for a meta variable that both versions have, the accepted update has the same references.
\<close>

theorem update_keeps_meta_refs:
  assumes "snd (hub_ValidateUpdate wl (Inr old) (Inr new)) = None"
    and "distinct (map va_Key (hub_Variables old))"
    and "v \<in> set (hub_Variables old)" "va_Type v = VariableTypeMeta"
    and "u \<in> set (hub_Variables new)" "va_Type u = VariableTypeMeta" "va_Key u = va_Key v"
  shows "va_VariableRefs u = va_VariableRefs v"
proof -
  have "validateMetaVarRefs (hub_Variables old) (hub_Variables new) = []"
    using assms(1) by (auto simp: hub_ValidateUpdate_def Let_def split: if_splits)
  moreover have "hub_Variables old \<noteq> []" "hub_Variables new \<noteq> []" using assms(3,5) by auto
  ultimately have "gget (old_meta_refs (hub_Variables old)) (va_Key u) \<in> {None, Some (va_VariableRefs u)}"
    using assms(5,6) by (simp add: validateMetaVarRefs_def meta_refs_loop_accepts)
  then show ?thesis using old_meta_refs_lookup [OF assms(2-4)] assms(7) by simp
qed

definition sample_hub_update :: mdai_hub where
  "sample_hub_update = sample_hub\<lparr>hub_Variables := [sample_meta_variable\<lparr>va_SerializeAs := None\<rparr>, sample_variable]\<rparr>"

theorem update_keeps_meta_refs_witness:
  "va_VariableRefs (sample_meta_variable\<lparr>va_SerializeAs := None\<rparr>) = va_VariableRefs sample_meta_variable"
proof (rule update_keeps_meta_refs [of sample_webhook_lib sample_hub sample_hub_update])
  show "snd (hub_ValidateUpdate sample_webhook_lib (Inr sample_hub) (Inr sample_hub_update)) = None" by code_simp
  show "distinct (map va_Key (hub_Variables sample_hub))" by code_simp
  show "sample_meta_variable \<in> set (hub_Variables sample_hub)" by (simp add: sample_hub_def)
  show "sample_meta_variable\<lparr>va_SerializeAs := None\<rparr> \<in> set (hub_Variables sample_hub_update)"
    by (simp add: sample_hub_update_def)
qed (simp_all add: sample_meta_variable_def VariableTypeMeta_def)

end
