(* ===== verification/Event_Transformer.thy ===== *)
theory Event_Transformer
  imports Hub_Webhook
begin

text \<open>
  The translation of automation rules into the events of the event hub
  (\<^verbatim>\<open>internal/controller/event_config_transformer.go\<close>). The types of package \<^verbatim>\<open>eventing\<close> are
  the parts the operator fills in; \<^verbatim>\<open>json.Marshal\<close> is a parameter.
\<close>

section \<open>Events\<close>

datatype event_trigger = AlertTrigger string string | VariableTrigger string string

datatype command_type =
    CmdVarSetAdd | CmdVarSetRemove | CmdVarScalarUpdate | CmdVarMapAdd | CmdVarMapRemove
  | CmdWebhookCall | CmdDeployReplay | CmdCleanUpReplay

datatype payload =
    PaySet set_action | PayScalar scalar_action | PayMap map_action | PayCall call_webhook
  | PayDeploy replay_spec | PayCleanUp

record event_command =
  ec_Type :: command_type
  ec_Inputs :: string

record event_rule =
  er_Name :: string
  er_Trigger :: event_trigger
  er_Commands :: "event_command list"

section \<open>Triggers\<close>

definition transformWhenToTrigger :: "rule_when option \<Rightarrow> goerr + event_trigger" where
  "transformWhenToTrigger w =
     (case w of
        None \<Rightarrow> Inl (ErrNew ''when is required'')
      | Some wh \<Rightarrow>
          (let alertName = ptr_Deref (wh_AlertName wh) []; status = ptr_Deref (wh_Status wh) [];
               varUpdated = ptr_Deref (wh_VariableUpdated wh) []; updateType = ptr_Deref (wh_UpdateType wh) [];
               hasAlert = alertName \<noteq> []; hasVar = varUpdated \<noteq> []
           in if hasAlert \<and> hasVar
              then Inl (ErrNew ''when: specify exactly one of alertName or variableUpdated'')
              else if hasAlert then Inr (AlertTrigger alertName status)
              else if hasVar then Inr (VariableTrigger varUpdated updateType)
              else Inl (ErrNew ''when: specify either alertName or variableUpdated'')))"

section \<open>Commands\<close>

type_synonym marshal = "payload \<Rightarrow> goerr + string"

text \<open>The text of a command type, which occurs in an error message only.\<close>

type_synonym type_text = "command_type \<Rightarrow> string"

definition appendCmd ::
  "type_text \<Rightarrow> marshal \<Rightarrow> payload option \<Rightarrow> command_type \<Rightarrow> event_command list \<Rightarrow> goerr + event_command list" where
  "appendCmd tx mj p typ cmds =
     (case p of
        None \<Rightarrow> Inr cmds
      | Some x \<Rightarrow>
          (case mj x of
             Inl err \<Rightarrow> Inl (ErrWrap (''encode '' @ tx typ) err)
           | Inr b \<Rightarrow> Inr (cmds @ [\<lparr>ec_Type = typ, ec_Inputs = b\<rparr>])))"

text \<open>The eight calls of \<^verbatim>\<open>appendCmd\<close> for one action, in their order.\<close>

definition action_payloads :: "hub_action \<Rightarrow> (payload option \<times> command_type) list" where
  "action_payloads a =
     [(map_option PaySet (ac_AddToSet a), CmdVarSetAdd),
      (map_option PaySet (ac_RemoveFromSet a), CmdVarSetRemove),
      (map_option PayScalar (ac_SetVariable a), CmdVarScalarUpdate),
      (map_option PayMap (ac_AddToMap a), CmdVarMapAdd),
      (map_option PayMap (ac_RemoveFromMap a), CmdVarMapRemove),
      (map_option PayCall (ac_CallWebhook a), CmdWebhookCall),
      (map_option PayDeploy (ac_DeployReplay a), CmdDeployReplay),
      (map_option (\<lambda>_. PayCleanUp) (ac_CleanUpReplay a), CmdCleanUpReplay)]"

fun append_all ::
  "type_text \<Rightarrow> marshal \<Rightarrow> (payload option \<times> command_type) list \<Rightarrow> event_command list
     \<Rightarrow> goerr + event_command list" where
  "append_all tx mj [] cmds = Inr cmds"
| "append_all tx mj ((p, typ) # ps) cmds =
     (case appendCmd tx mj p typ cmds of
        Inl err \<Rightarrow> Inl err
      | Inr cmds' \<Rightarrow> append_all tx mj ps cmds')"

fun then_loop ::
  "type_text \<Rightarrow> marshal \<Rightarrow> nat \<Rightarrow> hub_action list \<Rightarrow> event_command list \<Rightarrow> goerr + event_command list" where
  "then_loop tx mj i [] cmds = Inr cmds"
| "then_loop tx mj i (action # actions) cmds =
     (let start = length cmds
      in case append_all tx mj (action_payloads action) cmds of
           Inl err \<Rightarrow> Inl err
         | Inr cmds' \<Rightarrow>
             (if length cmds' = start
              then Inl (ErrNew (''then['' @ nat_str i @ '']: at least one action must be specified''))
              else then_loop tx mj (Suc i) actions cmds'))"

definition transformThenToCommands ::
  "type_text \<Rightarrow> marshal \<Rightarrow> hub_action list \<Rightarrow> goerr + event_command list" where
  "transformThenToCommands tx mj actions = then_loop tx mj 0 actions []"

section \<open>Lemmas\<close>

text \<open>The commands of one action when its payloads can be encoded.\<close>

definition commands_of :: "(payload \<Rightarrow> string) \<Rightarrow> hub_action \<Rightarrow> event_command list" where
  "commands_of enc a =
     concat (map (\<lambda>(p, typ). case p of None \<Rightarrow> [] | Some x \<Rightarrow> [\<lparr>ec_Type = typ, ec_Inputs = enc x\<rparr>])
       (action_payloads a))"

lemma append_all_encodes:
  "append_all tx (\<lambda>p. Inr (enc p)) ps cmds =
     Inr (cmds @ concat (map (\<lambda>(p, typ). case p of None \<Rightarrow> [] | Some x \<Rightarrow> [\<lparr>ec_Type = typ, ec_Inputs = enc x\<rparr>]) ps))"
  by (induction ps arbitrary: cmds) (auto simp: appendCmd_def split: option.splits)

lemma then_loop_encodes:
  "then_loop tx (\<lambda>p. Inr (enc p)) i as cmds =
     (case find (\<lambda>j. commands_of enc (as ! j) = []) [0..<length as] of
        None \<Rightarrow> Inr (cmds @ concat (map (commands_of enc) as))
      | Some j \<Rightarrow> Inl (ErrNew (''then['' @ nat_str (i + j) @ '']: at least one action must be specified'')))"
proof (induction as arbitrary: i cmds)
  case (Cons a as)
  have upt: "[0..<length (a # as)] = 0 # map Suc [0..<length as]"
    by (simp add: upt_conv_Cons map_Suc_upt del: upt_Suc)
  have find_map: "find P (map Suc xs) = map_option Suc (find (\<lambda>j. P (Suc j)) xs)" for P xs
    by (induction xs) auto
  have "append_all tx (\<lambda>p. Inr (enc p)) (action_payloads a) cmds = Inr (cmds @ commands_of enc a)"
    by (simp only: append_all_encodes commands_of_def)
  then show ?case
    unfolding upt using Cons.IH [of "Suc i" "cmds @ commands_of enc a"]
    by (auto simp: Let_def find_map split: option.splits)
qed simp

lemma commands_of_length: "length (commands_of enc a) = count_list (present a) True"
  by (auto simp: commands_of_def action_payloads_def present_def split: option.splits)

lemma trigger_Inr:
  "transformWhenToTrigger (Some w) = Inr t \<Longrightarrow>
     (t = AlertTrigger (ptr_Deref (wh_AlertName w) []) (ptr_Deref (wh_Status w) []) \<and>
        ptr_Deref (wh_AlertName w) [] \<noteq> [] \<and> ptr_Deref (wh_VariableUpdated w) [] = []) \<or>
     (t = VariableTrigger (ptr_Deref (wh_VariableUpdated w) []) (ptr_Deref (wh_UpdateType w) []) \<and>
        ptr_Deref (wh_VariableUpdated w) [] \<noteq> [] \<and> ptr_Deref (wh_AlertName w) [] = [])"
  by (auto simp: transformWhenToTrigger_def Let_def split: if_splits)

section \<open>Properties\<close>

text \<open>
  What the actions of a rule become, when their payloads can be encoded: the commands of all actions in
  order, or an error that names the first action without a payload.
\<close>

theorem commands_in_order:
  "transformThenToCommands tx (\<lambda>p. Inr (enc p)) actions =
     (case find (\<lambda>j. commands_of enc (actions ! j) = []) [0..<length actions] of
        None \<Rightarrow> Inr (concat (map (commands_of enc) actions))
      | Some j \<Rightarrow> Inl (ErrNew (''then['' @ nat_str j @ '']: at least one action must be specified'')))"
  using then_loop_encodes [of tx enc 0 actions "[]"]
  unfolding transformThenToCommands_def append_Nil add_0 .

text \<open>
  C26. For a rule the webhook accepted, every action becomes exactly one command, in the order of the actions, and
  the trigger names an alert or a variable that the hub defines, except for a name of white space, which
  the webhook does not look up but the translation keeps.
\<close>

theorem accepted_rule_translates:
  assumes "rule_ok wl vars alerts r" "transformWhenToTrigger (Some (ar_When r)) = Inr t"
  shows "(\<exists>cs. transformThenToCommands tx (\<lambda>p. Inr (enc p)) (ar_Then r) = Inr cs \<and>
      map (\<lambda>c. [c]) cs = map (commands_of enc) (ar_Then r)) \<and>
    (case t of AlertTrigger n st \<Rightarrow> n \<in> alerts \<or> TrimSpace n = []
     | VariableTrigger n u \<Rightarrow> n \<in> vars \<or> TrimSpace n = [])"
proof (intro conjI)
  have one: "length (commands_of enc a) = Suc 0" if "a \<in> set (ar_Then r)" for a
    using assms(1) that by (simp add: commands_of_length rule_ok_def action_ok_def)
  define cs where "cs = map (\<lambda>a. hd (commands_of enc a)) (ar_Then r)"
  have cs: "map (\<lambda>c. [c]) cs = map (commands_of enc) (ar_Then r)"
    using one by (auto simp: cs_def length_Suc_conv dest!: one)
  have "find (\<lambda>j. commands_of enc (ar_Then r ! j) = []) [0..<length (ar_Then r)] = None"
    using one [OF nth_mem] by (auto simp: find_None_iff) (metis list.size(3) nat.distinct(1))
  then have "transformThenToCommands tx (\<lambda>p. Inr (enc p)) (ar_Then r) = Inr cs"
    using then_loop_encodes [of tx enc 0 "ar_Then r" "[]"] concat_map_singleton [of "\<lambda>c. c" cs]
    by (simp add: transformThenToCommands_def cs [symmetric])
  with cs show "\<exists>cs. transformThenToCommands tx (\<lambda>p. Inr (enc p)) (ar_Then r) = Inr cs \<and>
      map (\<lambda>c. [c]) cs = map (commands_of enc) (ar_Then r)"
    by auto
  have "when_ok vars alerts (ar_When r)" using assms(1) by (simp add: rule_ok_def)
  with trigger_Inr [OF assms(2)]
  show "case t of AlertTrigger n st \<Rightarrow> n \<in> alerts \<or> TrimSpace n = []
     | VariableTrigger n u \<Rightarrow> n \<in> vars \<or> TrimSpace n = []"
    by (auto simp: when_ok_def set_str_def ptr_Deref_def split: option.splits)
qed

theorem accepted_rule_translates_witness:
  "\<exists>cs. transformThenToCommands (\<lambda>_. []) (\<lambda>p. Inr ''{}'') [sample_action] = Inr cs \<and>
     map (\<lambda>c. [c]) cs = map (commands_of (\<lambda>p. ''{}'')) [sample_action]"
proof -
  define r where "r = \<lparr>ar_Name = ''rule'', ar_When = \<lparr>wh_AlertName = Some ''too_many'', wh_Status = Some ''firing'',
       wh_VariableUpdated = None, wh_UpdateType = None\<rparr>, ar_Then = [sample_action]\<rparr>"
  have "rule_ok sample_webhook_lib {''service_list''} {''too_many''} r"
    by (simp add: r_def rule_ok_def when_ok_def set_str_def TrimSpace_def is_space_def
        action_ok_def present_def sample_action_def)
  moreover have "transformWhenToTrigger (Some (ar_When r)) = Inr (AlertTrigger ''too_many'' ''firing'')"
    by (simp add: r_def transformWhenToTrigger_def)
  ultimately show ?thesis
    using accepted_rule_translates [of sample_webhook_lib "{''service_list''}" "{''too_many''}" r
        "AlertTrigger ''too_many'' ''firing''" "\<lambda>_. []" "\<lambda>p. ''{}''"]
    by (simp add: r_def)
qed

end
