(* ===== verification/Hub_Adapter.thy ===== *)
theory Hub_Adapter
  imports Event_Transformer
begin

text \<open>
  The hub adapter (\<^verbatim>\<open>internal/controller/hub_adapter.go\<close>) and the operations of its controller. The
  world an operation runs in is the list of the calls made so far, the newest first. The environment answers each
  call as a function of that history, so it may change its mind between two calls in every way. Logging and events are
  left out. What \<^verbatim>\<open>vars\<close>, \<^verbatim>\<open>audit\<close>, \<^verbatim>\<open>controllerutil\<close> and \<^verbatim>\<open>json\<close> do is part of the environment.
\<close>

section \<open>Prometheus rules and collectors\<close>

record prom_rule =
  pru_Alert :: string
  pru_Expr :: int_or_string
  pru_For :: "string option"
  pru_KeepFiringFor :: "string option"
  pru_Labels :: labels
  pru_Annotations :: labels

record rule_group =
  rg_Name :: string
  rg_Interval :: "string option"
  rg_Rules :: "prom_rule list"

record prometheus_rule =
  pr_Meta :: object_meta
  pr_Groups :: "rule_group list"

text \<open>What the adapter reads of an OpenTelemetry collector.\<close>

record otel_collector =
  oc_Meta :: object_meta

text \<open>\<^verbatim>\<open>variableSchemaConfigMapEntry\<close>.\<close>

record schema_entry =
  se_Type :: string
  se_DataType :: string
  se_StorageType :: string
  se_VariableRefs :: "string list option"
  se_SerializeAs :: "serializer list option"

section \<open>Calls and the environment\<close>

datatype cu_result = OperationResultNone | OperationResultCreated | OperationResultUpdated

text \<open>
  \<^verbatim>\<open>CreateOrUpdate\<close> of a ConfigMap is kept with the object as it is passed and with what the mutate
  function makes of it.
\<close>

datatype hub_call =
    GetHub nsname | UpdateHub mdai_hub | StatusUpdateHub mdai_hub
  | GetRule nsname | CreateRule prometheus_rule | UpdateRule prometheus_rule | DeleteRule nsname
  | CreateOrUpdateConfigMap config_map "goerr + config_map" | DeleteConfigMap nsname
  | ListCollectors string | UpdateCollector otel_collector
  | ValkeyGetSet string string | ValkeyGetString string string | ValkeyGetMap string string
  | ValkeyPriorityList string string "string list" | ValkeyHashSet string string string string
  | ValkeyDeleteKeys "string list" string | ValkeyAudit labels

type_synonym hub_history = "hub_call list"

record hub_env =
  he_GetHub :: "hub_history \<Rightarrow> nsname \<Rightarrow> goerr + mdai_hub"
  he_UpdateHub :: "hub_history \<Rightarrow> mdai_hub \<Rightarrow> goerr + mdai_hub"
  he_StatusUpdateHub :: "hub_history \<Rightarrow> mdai_hub \<Rightarrow> goerr + mdai_hub"
  he_GetRule :: "hub_history \<Rightarrow> nsname \<Rightarrow> goerr + prometheus_rule"
  he_CreateRule :: "hub_history \<Rightarrow> prometheus_rule \<Rightarrow> goerr + prometheus_rule"
  he_UpdateRule :: "hub_history \<Rightarrow> prometheus_rule \<Rightarrow> goerr + prometheus_rule"
  he_DeleteRule :: "hub_history \<Rightarrow> nsname \<Rightarrow> goerr option"
  he_CreateOrUpdate :: "hub_history \<Rightarrow> config_map \<Rightarrow> (config_map \<Rightarrow> goerr + config_map) \<Rightarrow> goerr + cu_result"
  he_DeleteConfigMap :: "hub_history \<Rightarrow> nsname \<Rightarrow> goerr option"
  he_ParseSelector :: "string \<Rightarrow> goerr option"
  he_ListCollectors :: "hub_history \<Rightarrow> string \<Rightarrow> goerr + otel_collector list"
  he_UpdateCollector :: "hub_history \<Rightarrow> otel_collector \<Rightarrow> goerr option"
  he_GetSetAsStringSlice :: "hub_history \<Rightarrow> string \<Rightarrow> string \<Rightarrow> goerr + string list"
  he_GetString :: "hub_history \<Rightarrow> string \<Rightarrow> string \<Rightarrow> goerr + string option"
  he_GetMapAsString :: "hub_history \<Rightarrow> string \<Rightarrow> string \<Rightarrow> goerr + string"
  he_GetOrCreateMetaPriorityList :: "hub_history \<Rightarrow> string \<Rightarrow> string \<Rightarrow> string list \<Rightarrow> goerr + string list option"
  he_GetOrCreateMetaHashSet :: "hub_history \<Rightarrow> string \<Rightarrow> string \<Rightarrow> string \<Rightarrow> string \<Rightarrow> goerr + string option"
  he_DeleteKeysWithPrefixUsingScan :: "hub_history \<Rightarrow> string list \<Rightarrow> string \<Rightarrow> goerr option"
  he_InsertAuditLogEventFromMap :: "hub_history \<Rightarrow> labels \<Rightarrow> goerr option"
  he_CreateRestartEvent :: "string \<Rightarrow> labels \<Rightarrow> labels"
  he_now :: "hub_history \<Rightarrow> string"
  he_releaseName :: string
  he_marshalRule :: "event_rule \<Rightarrow> goerr + string"
  he_marshalPayload :: marshal
  he_marshalSchema :: "schema_entry \<Rightarrow> goerr + string"
  he_commandText :: type_text
  he_lib :: kube_lib

text \<open>The calls on the hub itself.\<close>

definition hub_client :: "hub_env \<Rightarrow> (mdai_hub, hub_history) cr_client" where
  "hub_client E =
     \<lparr>cc_Get = (\<lambda>k h. (he_GetHub E h k, GetHub k # h)),
      cc_Update = (\<lambda>cr h. (he_UpdateHub E h cr, UpdateHub cr # h)),
      cc_StatusUpdate = (\<lambda>cr h. (he_StatusUpdateHub E h cr, StatusUpdateHub cr # h))\<rparr>"

section \<open>Constants\<close>

definition envConfigMapNamePostfix :: string where "envConfigMapNamePostfix = ''-variables''"
definition manualEnvConfigMapNamePostfix :: string where "manualEnvConfigMapNamePostfix = ''-manual-variables''"
definition variableSchemaConfigMapPostfix :: string where "variableSchemaConfigMapPostfix = ''-variables-schema''"
definition automationConfigMapNamePostfix :: string where "automationConfigMapNamePostfix = ''-automation''"
definition configMapTypeLabel :: string where "configMapTypeLabel = ''mydecisive.ai/configmap-type''"
definition LabelMdaiHubName :: string where "LabelMdaiHubName = ''mydecisive.ai/hub-name''"

section \<open>Prometheus rules\<close>

definition rule_name :: "mdai_hub \<Rightarrow> string" where
  "rule_name cr = ''mdai-'' @ cr_name cr @ ''-alert-rules''"

definition deletePrometheusRule :: "hub_env \<Rightarrow> mdai_hub \<Rightarrow> hub_history \<Rightarrow> goerr option \<times> hub_history" where
  "deletePrometheusRule E cr h =
     (let k = \<lparr>nn_Name = rule_name cr, nn_Namespace = cr_namespace cr\<rparr>; h' = DeleteRule k # h
      in case he_DeleteRule E h k of
           Some err \<Rightarrow> (if kl_IsNotFound (he_lib E) err then (None, h') else (Some err, h'))
         | None \<Rightarrow> (None, h'))"

definition composePrometheusRule :: "mdai_hub \<Rightarrow> prometheus_alert \<Rightarrow> prom_rule" where
  "composePrometheusRule cr a =
     \<lparr>pru_Alert = al_Name a, pru_Expr = al_Expr a, pru_For = al_For a, pru_KeepFiringFor = None,
      pru_Labels = [(''severity'', al_Severity a)],
      pru_Annotations = [(''alert_name'', al_Name a), (''hub_name'', cr_name cr),
        (''current_value'', ''{{ $value | printf '' @ [CHR 0x22] @ ''%.2f'' @ [CHR 0x22] @ '' }}''),
        (''expression'', case al_Expr a of StrVal s \<Rightarrow> s | IntVal _ \<Rightarrow> [])]\<rparr>"

definition new_prometheus_rule :: "hub_env \<Rightarrow> mdai_hub \<Rightarrow> prometheus_rule" where
  "new_prometheus_rule E cr =
     \<lparr>pr_Meta = (meta_named (rule_name cr) (cr_namespace cr))
        \<lparr>om_Labels := Some [(LabelManagedByMdaiKey, LabelManagedByMdaiValue),
           (''app.kubernetes.io/part-of'', ''kube-prometheus-stack''),
           (''app.kubernetes.io/instance'', he_releaseName E)]\<rparr>,
      pr_Groups = [\<lparr>rg_Name = ''mdai'', rg_Interval = None, rg_Rules = []\<rparr>]\<rparr>"

text \<open>
  The end of \<^verbatim>\<open>ensurePrometheusAlertsSynchronized\<close>: the first group gets the interval and the rules, and
  the object is updated. A failed update is only logged.
\<close>

definition write_alerts ::
  "hub_env \<Rightarrow> prometheus_alert list \<Rightarrow> prometheus_rule \<Rightarrow> (mdai_hub, hub_history) operation" where
  "write_alerts E evals prule = (\<lambda>(cr, h).
     case pr_Groups prule of
       [] \<Rightarrow> (Panicked ''index out of range [0] with length 0'', cr, h)
     | g # gs \<Rightarrow>
         (let g1 = (case hub_EvaluationInterval cr of
                      Some (Some i) \<Rightarrow> g\<lparr>rg_Interval := Some i\<rparr> | _ \<Rightarrow> g);
              g2 = g1\<lparr>rg_Rules := map (composePrometheusRule cr) evals\<rparr>;
              r = prule\<lparr>pr_Groups := g2 # gs\<rparr>
          in (case he_UpdateRule E h r of
                Inl err \<Rightarrow> (ContinueProcessing, cr, UpdateRule r # h)
              | Inr _ \<Rightarrow> (ContinueProcessing, cr, UpdateRule r # h))))"

definition ensurePrometheusAlertsSynchronized :: "hub_env \<Rightarrow> (mdai_hub, hub_history) operation" where
  "ensurePrometheusAlertsSynchronized E = (\<lambda>(cr, h).
     let k = \<lparr>nn_Name = rule_name cr, nn_Namespace = cr_namespace cr\<rparr>;
         got = he_GetRule E h k; h1 = GetRule k # h
     in case hub_PrometheusAlerts cr of
          None \<Rightarrow>
            (case got of
               Inl _ \<Rightarrow> (ContinueProcessing, cr, h1)
             | Inr _ \<Rightarrow> (ContinueProcessing, cr, snd (deletePrometheusRule E cr h1)))
        | Some evals \<Rightarrow>
            (case got of
               Inl err \<Rightarrow>
                 (if kl_IsNotFound (he_lib E) err
                  then (let r = new_prometheus_rule E cr
                        in case he_CreateRule E h1 r of
                             Inl createErr \<Rightarrow> (RequeueAfter requeueTime (Some err), cr, CreateRule r # h1)
                           | Inr created \<Rightarrow> write_alerts E evals created (cr, CreateRule r # h1))
                  else (RequeueAfter requeueTime (Some err), cr, h1))
             | Inr prule \<Rightarrow> write_alerts E evals prule (cr, h1)))"

section \<open>ConfigMaps\<close>

definition deleteEnvConfigMap ::
  "hub_env \<Rightarrow> mdai_hub \<Rightarrow> string \<Rightarrow> string \<Rightarrow> hub_history \<Rightarrow> goerr option \<times> hub_history" where
  "deleteEnvConfigMap E cr postfix namespace h =
     (let k = \<lparr>nn_Name = cr_name cr @ postfix, nn_Namespace = namespace\<rparr>; h' = DeleteConfigMap k # h
      in case he_DeleteConfigMap E h k of
           Some err \<Rightarrow> (if kl_IsNotFound (he_lib E) err then (None, h')
                        else (Some (ErrWrap ''failed to delete ConfigMap'' err), h'))
         | None \<Rightarrow> (None, h'))"

type_synonym cm_option = "config_map \<Rightarrow> goerr + config_map"

definition WithOwnerRef :: "hub_env \<Rightarrow> mdai_hub \<Rightarrow> cm_option" where
  "WithOwnerRef E owner cm =
     (case kl_SetControllerReference (he_lib E) (rs_Meta owner) ''MdaiHub'' (cm_Meta cm) of
        Inl err \<Rightarrow> Inl err
      | Inr m \<Rightarrow> Inr (cm\<lparr>cm_Meta := m\<rparr>))"

fun apply_options :: "cm_option list \<Rightarrow> config_map \<Rightarrow> goerr + config_map" where
  "apply_options [] cm = Inr cm"
| "apply_options (opt # opts) cm =
     (case opt cm of Inl err \<Rightarrow> Inl err | Inr cm' \<Rightarrow> apply_options opts cm')"

definition desired_config_map :: "mdai_hub \<Rightarrow> string \<Rightarrow> string \<Rightarrow> config_map" where
  "desired_config_map cr postfix namespace =
     \<lparr>cm_Meta = (meta_named (cr_name cr @ postfix) namespace)
        \<lparr>om_Labels := Some [(LabelManagedByMdaiKey, LabelManagedByMdaiValue), (LabelMdaiHubName, cr_name cr),
           (configMapTypeLabel, ''hub'' @ postfix)]\<rparr>,
      cm_Data = None\<rparr>"

definition createOrUpdateEnvConfigMap ::
  "hub_env \<Rightarrow> mdai_hub \<Rightarrow> labels \<Rightarrow> string \<Rightarrow> string \<Rightarrow> cm_option list \<Rightarrow> hub_history
     \<Rightarrow> (goerr + cu_result) \<times> hub_history" where
  "createOrUpdateEnvConfigMap E cr envMap postfix namespace opts h =
     (let desired = desired_config_map cr postfix namespace;
          mutate = (\<lambda>cm. apply_options opts (cm\<lparr>cm_Data := Some envMap\<rparr>));
          h' = CreateOrUpdateConfigMap desired (mutate desired) # h
      in case he_CreateOrUpdate E h desired mutate of
           Inl err \<Rightarrow> (Inl (ErrWrap ''failed to create or update ConfigMap'' err), h')
         | Inr r \<Rightarrow> (Inr r, h'))"

section \<open>Automations\<close>

fun automation_map :: "hub_env \<Rightarrow> automation_rule list \<Rightarrow> labels \<Rightarrow> goerr + labels" where
  "automation_map E [] m = Inr m"
| "automation_map E (rule # rules) m =
     (case transformWhenToTrigger (Some (ar_When rule)) of
        Inl err \<Rightarrow> Inl (ErrWrap ''failed to transform when to trigger'' err)
      | Inr trig \<Rightarrow>
          (case transformThenToCommands (he_commandText E) (he_marshalPayload E) (ar_Then rule) of
             Inl err \<Rightarrow> Inl (ErrWrap ''failed to transform then to command'' err)
           | Inr cmds \<Rightarrow>
               (case he_marshalRule E \<lparr>er_Name = ar_Name rule, er_Trigger = trig, er_Commands = cmds\<rparr> of
                  Inl err \<Rightarrow> Inl (ErrWrap ''failed to marshal automationRule workflow'' err)
                | Inr json \<Rightarrow> automation_map E rules (gset (ar_Name rule) json m))))"

definition ensureAutomationsSynchronized :: "hub_env \<Rightarrow> (mdai_hub, hub_history) operation" where
  "ensureAutomationsSynchronized E = (\<lambda>(cr, h).
     case hub_Rules cr of
       None \<Rightarrow>
         (case deleteEnvConfigMap E cr automationConfigMapNamePostfix (cr_namespace cr) h of
            (Some err, h') \<Rightarrow> (RequeueOnErrorOrContinue err, cr, h')
          | (None, h') \<Rightarrow> (ContinueProcessing, cr, h'))
     | Some rules \<Rightarrow>
         (case automation_map E rules [] of
            Inl err \<Rightarrow> (ContinueWithError err, cr, h)
          | Inr automationMap \<Rightarrow>
              (case createOrUpdateEnvConfigMap E cr automationMap automationConfigMapNamePostfix
                      (cr_namespace cr) [WithOwnerRef E cr] h of
                 (Inl err, h') \<Rightarrow> (RequeueOnErrorOrContinue err, cr, h')
               | (Inr _, h') \<Rightarrow> (ContinueProcessing, cr, h'))))"

section \<open>Variables\<close>

text \<open>Values the handlers write into the map of exported variables.\<close>

definition applySerializerToString :: "hub_variable \<Rightarrow> string \<Rightarrow> labels \<Rightarrow> labels" where
  "applySerializerToString v value envMap =
     (case va_SerializeAs v of
        None \<Rightarrow> envMap
      | Some szs \<Rightarrow> fold (\<lambda>sz m. gset (sz_Name sz) value m) szs envMap)"

text \<open>The transformers of one serializer; \<^verbatim>\<open>transformer.Join\<close> may be nil.\<close>

fun apply_transformers :: "string \<Rightarrow> string list \<Rightarrow> variable_transformer list \<Rightarrow> labels \<Rightarrow> labels outcome" where
  "apply_transformers name vals [] m = Ok m"
| "apply_transformers name vals (t # ts) m =
     (if tr_Type t = TransformerTypeJoin
      then (case tr_Join t of
              None \<Rightarrow> Panic ''nil pointer dereference''
            | Some delimiter \<Rightarrow> apply_transformers name vals ts (gset name (Join vals delimiter) m))
      else apply_transformers name vals ts m)"

fun set_serializers :: "string list \<Rightarrow> serializer list \<Rightarrow> labels \<Rightarrow> labels outcome" where
  "set_serializers vals [] m = Ok m"
| "set_serializers vals (sz # szs) m =
     (if gget m (sz_Name sz) \<noteq> None then set_serializers vals szs m
      else if sz_Transformers sz = [] then set_serializers vals szs m
      else bind_outcome (apply_transformers (sz_Name sz) vals (sz_Transformers sz) m)
             (\<lambda>m'. set_serializers vals szs m'))"

definition applySetTransformation :: "hub_variable \<Rightarrow> string list \<Rightarrow> labels \<Rightarrow> labels outcome" where
  "applySetTransformation v vals envMap =
     (case va_SerializeAs v of None \<Rightarrow> Ok envMap | Some szs \<Rightarrow> set_serializers vals szs envMap)"

definition handleComputedVariable ::
  "hub_env \<Rightarrow> mdai_hub \<Rightarrow> hub_variable \<Rightarrow> labels \<Rightarrow> hub_history \<Rightarrow> labels outcome \<times> hub_history" where
  "handleComputedVariable E cr v envMap h =
     (if va_DataType v = VariableDataTypeSet
      then (case he_GetSetAsStringSlice E h (va_Key v) (cr_name cr) of
              Inl err \<Rightarrow> (Err err, ValkeyGetSet (va_Key v) (cr_name cr) # h)
            | Inr vals \<Rightarrow> (applySetTransformation v vals envMap, ValkeyGetSet (va_Key v) (cr_name cr) # h))
      else if va_DataType v \<in> {VariableDataTypeString, VariableDataTypeInt, VariableDataTypeBoolean,
                VariableDataTypeFloat}
      then (case he_GetString E h (va_Key v) (cr_name cr) of
              Inl err \<Rightarrow> (Err err, ValkeyGetString (va_Key v) (cr_name cr) # h)
            | Inr None \<Rightarrow> (Ok envMap, ValkeyGetString (va_Key v) (cr_name cr) # h)
            | Inr (Some value) \<Rightarrow>
                (Ok (applySerializerToString v value envMap), ValkeyGetString (va_Key v) (cr_name cr) # h))
      else if va_DataType v = VariableDataTypeMap
      then (case he_GetMapAsString E h (va_Key v) (cr_name cr) of
              Inl err \<Rightarrow> (Err err, ValkeyGetMap (va_Key v) (cr_name cr) # h)
            | Inr value \<Rightarrow>
                (Ok (applySerializerToString v value envMap), ValkeyGetMap (va_Key v) (cr_name cr) # h))
      else (Ok envMap, h))"

definition handleMetaVariable ::
  "hub_env \<Rightarrow> mdai_hub \<Rightarrow> hub_variable \<Rightarrow> labels \<Rightarrow> hub_history \<Rightarrow> labels outcome \<times> hub_history" where
  "handleMetaVariable E cr v envMap h =
     (if va_DataType v = MetaVariableDataTypePriorityList
      then (let h' = ValkeyPriorityList (va_Key v) (cr_name cr) (slice (va_VariableRefs v)) # h
            in case he_GetOrCreateMetaPriorityList E h (va_Key v) (cr_name cr) (slice (va_VariableRefs v)) of
                 Inl err \<Rightarrow> (Err err, h')
               | Inr None \<Rightarrow> (Ok envMap, h')
               | Inr (Some vals) \<Rightarrow> (applySetTransformation v vals envMap, h'))
      else if va_DataType v = MetaVariableDataTypeHashSet
      then (case slice (va_VariableRefs v) of
              r0 # r1 # _ \<Rightarrow>
                (let h' = ValkeyHashSet (va_Key v) (cr_name cr) r0 r1 # h
                 in case he_GetOrCreateMetaHashSet E h (va_Key v) (cr_name cr) r0 r1 of
                      Inl err \<Rightarrow> (Err err, h')
                    | Inr None \<Rightarrow> (Ok envMap, h')
                    | Inr (Some value) \<Rightarrow> (Ok (applySerializerToString v value envMap), h'))
            | _ \<Rightarrow> (Panic ''index out of range'', h))
      else (Ok envMap, h))"

text \<open>The maps \<^verbatim>\<open>syncValkeyVariables\<close> fills: exported values, manual variables, Valkey keys to keep.\<close>

record sync_maps =
  sm_env :: labels
  sm_manual :: labels
  sm_keys :: "string list"

definition sync_variable ::
  "hub_env \<Rightarrow> mdai_hub \<Rightarrow> hub_variable \<Rightarrow> sync_maps \<Rightarrow> hub_history \<Rightarrow> sync_maps outcome \<times> hub_history" where
  "sync_variable E cr v m h =
     (if va_StorageType v \<noteq> VariableSourceTypeBuiltInValkey then (Ok m, h)
      else let m1 = m\<lparr>sm_keys := List.insert (va_Key v) (sm_keys m)\<rparr>;
               m2 = (if va_Type v = VariableTypeManual
                     then m1\<lparr>sm_manual := gset (va_Key v) (va_DataType v) (sm_manual m1)\<rparr> else m1);
               store = map_outcome (\<lambda>env. m2\<lparr>sm_env := env\<rparr>)
           in if va_Type v \<in> {VariableTypeManual, VariableTypeComputed}
              then (case handleComputedVariable E cr v (sm_env m2) h of (r, h') \<Rightarrow> (store r, h'))
              else if va_Type v = VariableTypeMeta
              then (case handleMetaVariable E cr v (sm_env m2) h of (r, h') \<Rightarrow> (store r, h'))
              else (Ok m2, h))"

fun syncValkeyVariables ::
  "hub_env \<Rightarrow> mdai_hub \<Rightarrow> hub_variable list \<Rightarrow> sync_maps \<Rightarrow> hub_history \<Rightarrow> sync_maps outcome \<times> hub_history" where
  "syncValkeyVariables E cr [] m h = (Ok m, h)"
| "syncValkeyVariables E cr (v # vs) m h =
     (case sync_variable E cr v m h of
        (Ok m', h') \<Rightarrow> syncValkeyVariables E cr vs m' h'
      | (Err err, h') \<Rightarrow> (Err err, h')
      | (Panic p, h') \<Rightarrow> (Panic p, h'))"

definition schema_entry_of :: "hub_variable \<Rightarrow> schema_entry" where
  "schema_entry_of v =
     \<lparr>se_Type = va_Type v, se_DataType = va_DataType v, se_StorageType = va_StorageType v,
      se_VariableRefs = (if slice (va_VariableRefs v) \<noteq> [] then Some (slice (va_VariableRefs v)) else None),
      se_SerializeAs = va_SerializeAs v\<rparr>"

fun schema_loop :: "hub_env \<Rightarrow> hub_variable list \<Rightarrow> labels \<Rightarrow> goerr + labels" where
  "schema_loop E [] m = Inr m"
| "schema_loop E (v # vs) m =
     (case he_marshalSchema E (schema_entry_of v) of
        Inl err \<Rightarrow> Inl (ErrWrap (''failed to marshal variable schema entry for key '' @ [CHR 0x22] @ va_Key v @ [CHR 0x22]) err)
      | Inr data \<Rightarrow> schema_loop E vs (gset (va_Key v) data m))"

definition buildVariableSchemaEnvMap :: "hub_env \<Rightarrow> hub_variable list \<Rightarrow> goerr + labels" where
  "buildVariableSchemaEnvMap E variables = schema_loop E variables []"

section \<open>Collectors\<close>

definition listOtelCollectorsWithLabel ::
  "hub_env \<Rightarrow> string \<Rightarrow> hub_history \<Rightarrow> (goerr + otel_collector list) \<times> hub_history" where
  "listOtelCollectorsWithLabel E labelSelector h =
     (case he_ParseSelector E labelSelector of
        Some err \<Rightarrow> (Inl (ErrWrap ''failed to parse label selector'' err), h)
      | None \<Rightarrow>
          (case he_ListCollectors E h labelSelector of
             Inl err \<Rightarrow> (Inl (ErrWrap ''failed to list OpenTelemetryCollectors'' err), ListCollectors labelSelector # h)
           | Inr items \<Rightarrow> (Inr items, ListCollectors labelSelector # h)))"

definition restartCollectorAndAudit ::
  "hub_env \<Rightarrow> mdai_hub \<Rightarrow> otel_collector \<Rightarrow> labels \<Rightarrow> hub_history \<Rightarrow> goerr option \<times> hub_history" where
  "restartCollectorAndAudit E cr collector envMap h =
     (let copied = collector\<lparr>oc_Meta := (oc_Meta collector)\<lparr>om_Annotations :=
             set_entry ''kubectl.kubernetes.io/restartedAt'' (he_now E h) (om_Annotations (oc_Meta collector))\<rparr>\<rparr>;
          h1 = UpdateCollector copied # h
      in case he_UpdateCollector E h copied of
           Some err \<Rightarrow> (if kl_IsConflict (he_lib E) err then (None, h1) else (Some err, h1))
         | None \<Rightarrow>
             (let restartEvent = he_CreateRestartEvent E (cr_name cr) envMap
              in (he_InsertAuditLogEventFromMap E h1 restartEvent, ValkeyAudit restartEvent # h1)))"

text \<open>The first loop of \<^verbatim>\<open>syncComputedConfigMapsAndRestart\<close> finds the namespaces to restart.\<close>

fun write_namespaces ::
  "hub_env \<Rightarrow> mdai_hub \<Rightarrow> labels \<Rightarrow> otel_collector list \<Rightarrow> string list \<Rightarrow> hub_history
     \<Rightarrow> (goerr + string list) \<times> hub_history" where
  "write_namespaces E cr envMap [] ns h = (Inr ns, h)"
| "write_namespaces E cr envMap (c # cs) ns h =
     (case createOrUpdateEnvConfigMap E cr envMap envConfigMapNamePostfix (om_Namespace (oc_Meta c)) [] h of
        (Inl err, h') \<Rightarrow> (Inl err, h')
      | (Inr r, h') \<Rightarrow>
          write_namespaces E cr envMap cs
            (if r = OperationResultCreated \<or> r = OperationResultUpdated
             then List.insert (om_Namespace (oc_Meta c)) ns else ns) h')"

fun restart_loop ::
  "hub_env \<Rightarrow> mdai_hub \<Rightarrow> labels \<Rightarrow> string list \<Rightarrow> otel_collector list \<Rightarrow> hub_history
     \<Rightarrow> goerr option \<times> hub_history" where
  "restart_loop E cr envMap ns [] h = (None, h)"
| "restart_loop E cr envMap ns (c # cs) h =
     (if om_Namespace (oc_Meta c) \<in> set ns
      then (case restartCollectorAndAudit E cr c envMap h of
              (Some err, h') \<Rightarrow> (Some err, h')
            | (None, h') \<Rightarrow> restart_loop E cr envMap ns cs h')
      else restart_loop E cr envMap ns cs h)"

definition syncComputedConfigMapsAndRestart ::
  "hub_env \<Rightarrow> mdai_hub \<Rightarrow> labels \<Rightarrow> hub_history \<Rightarrow> op_return \<times> hub_history" where
  "syncComputedConfigMapsAndRestart E cr envMap h =
     (case listOtelCollectorsWithLabel E (LabelMdaiHubName @ ''='' @ cr_name cr) h of
        (Inl err, h1) \<Rightarrow> (RequeueWithError err, h1)
      | (Inr collectors, h1) \<Rightarrow>
          (case write_namespaces E cr envMap collectors [] h1 of
             (Inl err, h2) \<Rightarrow> (RequeueWithError err, h2)
           | (Inr ns, h2) \<Rightarrow>
               (case restart_loop E cr envMap ns collectors h2 of
                  (Some err, h3) \<Rightarrow> (RequeueWithError err, h3)
                | (None, h3) \<Rightarrow> (ContinueProcessing, h3))))"

text \<open>The branch of \<^verbatim>\<open>ensureVariableSynchronized\<close> for a hub without variables.\<close>

definition remove_variable_maps :: "hub_env \<Rightarrow> (mdai_hub, hub_history) operation" where
  "remove_variable_maps E = (\<lambda>(cr, h).
     case deleteEnvConfigMap E cr variableSchemaConfigMapPostfix (cr_namespace cr) h of
       (Some err, h1) \<Rightarrow> (ContinueWithError err, cr, h1)
     | (None, h1) \<Rightarrow>
         (case deleteEnvConfigMap E cr manualEnvConfigMapNamePostfix (cr_namespace cr) h1 of
            (Some err, h2) \<Rightarrow> (ContinueWithError err, cr, h2)
          | (None, h2) \<Rightarrow> (ContinueProcessing, cr, h2)))"

text \<open>The ConfigMap of the manual variables: deleted when there are none.\<close>

definition sync_manual ::
  "hub_env \<Rightarrow> mdai_hub \<Rightarrow> labels \<Rightarrow> hub_history \<Rightarrow> goerr option \<times> hub_history" where
  "sync_manual E cr manualEnvMap h =
     (if manualEnvMap = [] then deleteEnvConfigMap E cr manualEnvConfigMapNamePostfix (cr_namespace cr) h
      else (case createOrUpdateEnvConfigMap E cr manualEnvMap manualEnvConfigMapNamePostfix (cr_namespace cr)
                   [WithOwnerRef E cr] h of
              (Inl err, h') \<Rightarrow> (Some err, h')
            | (Inr _, h') \<Rightarrow> (None, h')))"

definition ensureVariableSynchronized :: "hub_env \<Rightarrow> (mdai_hub, hub_history) operation" where
  "ensureVariableSynchronized E = (\<lambda>(cr, h).
     if hub_Variables cr = [] then remove_variable_maps E (cr, h)
     else (case buildVariableSchemaEnvMap E (hub_Variables cr) of
       Inl err \<Rightarrow> (ContinueWithError err, cr, h)
     | Inr schemaEnvMap \<Rightarrow>
     (case createOrUpdateEnvConfigMap E cr schemaEnvMap variableSchemaConfigMapPostfix (cr_namespace cr)
             [WithOwnerRef E cr] h of
       (Inl err, h1) \<Rightarrow> (ContinueWithError err, cr, h1)
     | (Inr _, h1) \<Rightarrow>
     (case syncValkeyVariables E cr (hub_Variables cr) \<lparr>sm_env = [], sm_manual = [], sm_keys = []\<rparr> h1 of
       (Err err, h2) \<Rightarrow> (RequeueWithError err, cr, h2)
     | (Panic p, h2) \<Rightarrow> (Panicked p, cr, h2)
     | (Ok m, h2) \<Rightarrow>
     (case he_DeleteKeysWithPrefixUsingScan E h2 (sm_keys m) (cr_name cr) of
       Some err \<Rightarrow> (RequeueOnErrorOrContinue err, cr, ValkeyDeleteKeys (sm_keys m) (cr_name cr) # h2)
     | None \<Rightarrow>
     (case sync_manual E cr (sm_manual m) (ValkeyDeleteKeys (sm_keys m) (cr_name cr) # h2) of
       (Some err, h3) \<Rightarrow> (ContinueWithError err, cr, h3)
     | (None, h3) \<Rightarrow>
         (case syncComputedConfigMapsAndRestart E cr (sm_env m) h3 of (r, h4) \<Rightarrow> (r, cr, h4))))))))"

section \<open>Finalization and the operations of the controller\<close>

definition hub_finalize :: "hub_env \<Rightarrow> (mdai_hub, hub_history) finalize_op" where
  "hub_finalize E = (\<lambda>(cr, h).
     if \<not> kl_ContainsFinalizer (he_lib E) (rs_Meta cr) hubFinalizer then (ObjectModified, None, cr, h)
     else (case deletePrometheusRule E cr h of
             (Some err, h1) \<Rightarrow> (ObjectUnchanged, Some err, cr, h1)
           | (None, h1) \<Rightarrow>
               (case mark_finalizing (he_lib E) (hub_client E) (cr, h1) of
                  (Some (st, err), s) \<Rightarrow> (st, err, s)
                | (None, s) \<Rightarrow>
                    (case ensureFinalizerDeleted (hub_client E) hubFinalizer s of
                       (Some err, s') \<Rightarrow> (ObjectUnchanged, Some err, s')
                     | (None, cr2, h2) \<Rightarrow>
                         (case he_DeleteKeysWithPrefixUsingScan E h2 [] (cr_name cr2) of
                            Some err \<Rightarrow> (ObjectUnchanged, Some err, cr2, ValkeyDeleteKeys [] (cr_name cr2) # h2)
                          | None \<Rightarrow> (ObjectModified, None, cr2, ValkeyDeleteKeys [] (cr_name cr2) # h2))))))"

definition hub_sync :: "hub_env \<Rightarrow> (mdai_hub, hub_history) operation list" where
  "hub_sync E = [ensurePrometheusAlertsSynchronized E, ensureAutomationsSynchronized E, ensureVariableSynchronized E]"

definition hub_operations :: "hub_env \<Rightarrow> (mdai_hub, hub_history) operation list" where
  "hub_operations E = lifecycle_operations (he_lib E) (hub_client E) hubFinalizer (hub_finalize E) (hub_sync E)"

definition hub_Reconcile :: "hub_env \<Rightarrow> nsname \<Rightarrow> hub_history \<Rightarrow> reconcile_return \<times> hub_history" where
  "hub_Reconcile E req h = Reconcile (he_lib E) (hub_client E) (hub_operations E) req h"

text \<open>
  \<^verbatim>\<open>ensureSynchronized\<close>, which the adapter has but the controller does not call: it goes on after an operation
  that asked for a requeue without an error.
\<close>

definition hub_ensureSynchronized :: "hub_env \<Rightarrow> (mdai_hub, hub_history) operation" where
  "hub_ensureSynchronized E = (\<lambda>s.
     case ensurePrometheusAlertsSynchronized E s of
       (Panicked m, s1) \<Rightarrow> (Panicked m, s1)
     | (Returned r (Some err), s1) \<Rightarrow> (Returned r (Some err), s1)
     | (Returned r None, s1) \<Rightarrow>
         (case ensureAutomationsSynchronized E s1 of
            (Panicked m, s2) \<Rightarrow> (Panicked m, s2)
          | (Returned r' (Some err), s2) \<Rightarrow> (Returned r' (Some err), s2)
          | (Returned r' None, s2) \<Rightarrow> ensureVariableSynchronized E s2))"

section \<open>The life cycle\<close>

text \<open>Calls that create or change what depends on the hub.\<close>

fun writes_dependent :: "hub_call \<Rightarrow> bool" where
  "writes_dependent (CreateRule _) = True"
| "writes_dependent (UpdateRule _) = True"
| "writes_dependent (CreateOrUpdateConfigMap _ _) = True"
| "writes_dependent (UpdateCollector _) = True"
| "writes_dependent (ValkeyPriorityList _ _ _) = True"
| "writes_dependent (ValkeyHashSet _ _ _ _) = True"
| "writes_dependent (ValkeyAudit _) = True"
| "writes_dependent _ = False"

lemma hub_client_simps [simp]:
  "cc_Get (hub_client E) k h = (he_GetHub E h k, GetHub k # h)"
  "cc_Update (hub_client E) cr h = (he_UpdateHub E h cr, UpdateHub cr # h)"
  "cc_StatusUpdate (hub_client E) cr h = (he_StatusUpdateHub E h cr, StatusUpdateHub cr # h)"
  by (simp_all add: hub_client_def)

lemma deletePrometheusRule_history:
  "snd (deletePrometheusRule E cr h) = DeleteRule \<lparr>nn_Name = rule_name cr, nn_Namespace = cr_namespace cr\<rparr> # h"
  by (auto simp: deletePrometheusRule_def Let_def split: option.splits)

text \<open>\<^verbatim>\<open>finalize\<close> keeps every property of the history that its own calls keep.\<close>

lemma hub_finalize_keeps:
  assumes P: "\<And>c h. P h \<Longrightarrow> \<not> writes_dependent c \<Longrightarrow> P (c # h)" and h: "P h"
  shows "P (snd (snd (snd (hub_finalize E (cr, h)))))"
proof -
  obtain d h1 where d: "deletePrometheusRule E cr h = (d, h1)" by fastforce
  have h1: "P h1" using deletePrometheusRule_history [of E cr h] d h P by simp
  obtain m cr2 h2 where m: "mark_finalizing (he_lib E) (hub_client E) (cr, h1) = (m, cr2, h2)"
    by (metis prod_cases3)
  have h2: "P h2"
    using mark_finalizing_keeps [of P "hub_client E" "(cr, h1)" "he_lib E"] P h1 m by simp
  obtain e cr3 h3 where e: "ensureFinalizerDeleted (hub_client E) hubFinalizer (cr2, h2) = (e, cr3, h3)"
    by (metis prod_cases3)
  have h3: "P h3"
    using deleteFinalizer_keeps [of P "hub_client E" "(cr2, h2)" hubFinalizer] P h2 e
    by (simp add: ensureFinalizerDeleted_def)
  have "P (ValkeyDeleteKeys [] (cr_name cr3) # h3)" using P [OF h3] by simp
  then show ?thesis using h h1 h2 h3
    by (auto simp: hub_finalize_def d m e split: option.splits prod.splits)
qed

interpretation hub_lifecycle: lifecycle_calls "he_lib E" "hub_client E" hubFinalizer "hub_finalize E"
  "\<lambda>h. \<forall>c \<in> set h. \<not> writes_dependent c" for E
  by unfold_locales (simp, simp, simp, rule hub_finalize_keeps, simp_all)

section \<open>Lemmas on variables\<close>

definition joins_present :: "hub_variable \<Rightarrow> bool" where
  "joins_present v \<longleftrightarrow> (\<forall>sz \<in> set (slice (va_SerializeAs v)). \<forall>t \<in> set (sz_Transformers sz).
     tr_Type t = TransformerTypeJoin \<longrightarrow> tr_Join t \<noteq> None)"

lemma apply_transformers_safe:
  "\<forall>t \<in> set ts. tr_Type t = TransformerTypeJoin \<longrightarrow> tr_Join t \<noteq> None \<Longrightarrow>
     \<not> panics (apply_transformers n vals ts m)"
  by (induction ts arbitrary: m) (auto split: option.splits)

lemma set_serializers_safe:
  "\<forall>sz \<in> set szs. \<forall>t \<in> set (sz_Transformers sz). tr_Type t = TransformerTypeJoin \<longrightarrow> tr_Join t \<noteq> None \<Longrightarrow>
     \<not> panics (set_serializers vals szs m)"
  by (induction szs arbitrary: m) (auto simp: apply_transformers_safe)

lemma applySetTransformation_safe: "joins_present v \<Longrightarrow> \<not> panics (applySetTransformation v vals m)"
  unfolding applySetTransformation_def joins_present_def
  by (cases "va_SerializeAs v") (simp_all add: set_serializers_safe)

lemma handleComputedVariable_safe:
  "joins_present v \<Longrightarrow> \<not> panics (fst (handleComputedVariable E cr v m h))"
  by (auto simp: handleComputedVariable_def applySetTransformation_safe split: sum.splits option.splits)

lemma handleMetaVariable_safe:
  assumes "joins_present v" "refs_ok v" "va_Type v = VariableTypeMeta"
  shows "\<not> panics (fst (handleMetaVariable E cr v m h))"
proof -
  have "\<exists>r0 r1. slice (va_VariableRefs v) = [r0, r1]" if "va_DataType v = MetaVariableDataTypeHashSet"
    using assms(2,3) that by (auto simp: refs_ok_def length_Suc_conv numeral_2_eq_2)
  then show ?thesis
    using applySetTransformation_safe [OF assms(1)]
    by (auto simp: handleMetaVariable_def Let_def split: sum.splits option.splits)
qed

lemma sync_variable_safe:
  assumes "joins_present v" "refs_ok v"
  shows "\<not> panics (fst (sync_variable E cr v m h))"
  using handleComputedVariable_safe [OF assms(1)] handleMetaVariable_safe [OF assms]
  by (auto simp: sync_variable_def Let_def split: prod.splits) (metis fst_conv)+

lemma syncValkeyVariables_safe:
  "\<forall>v \<in> set vs. joins_present v \<and> refs_ok v \<Longrightarrow> \<not> panics (fst (syncValkeyVariables E cr vs m h))"
proof (induction vs arbitrary: m h)
  case (Cons v vs)
  have "\<not> panics (fst (sync_variable E cr v m h))" using Cons.prems by (simp add: sync_variable_safe)
  then show ?case using Cons by (auto split: prod.splits outcome.splits)
qed simp

text \<open>The keys to keep.\<close>

abbreviation stored :: "hub_variable \<Rightarrow> bool" where
  "stored v \<equiv> va_StorageType v = VariableSourceTypeBuiltInValkey"

lemma sync_variable_keys:
  "sync_variable E cr v m h = (Ok m', h') \<Longrightarrow>
     set (sm_keys m') = set (sm_keys m) \<union> (if stored v then {va_Key v} else {})"
  by (auto simp: sync_variable_def Let_def outcome_iff split: if_splits prod.splits)

lemma syncValkeyVariables_keys:
  "syncValkeyVariables E cr vs m h = (Ok m', h') \<Longrightarrow>
     set (sm_keys m') = set (sm_keys m) \<union> va_Key ` {v \<in> set vs. stored v}"
proof (induction vs arbitrary: m h)
  case (Cons v vs)
  obtain m1 h1 where s: "sync_variable E cr v m h = (Ok m1, h1)" "syncValkeyVariables E cr vs m1 h1 = (Ok m', h')"
    using Cons.prems by (auto split: prod.splits outcome.splits)
  show ?case using Cons.IH [OF s(2)] sync_variable_keys [OF s(1)] by (auto split: if_splits)
qed simp

text \<open>What the handlers write into the map of exported variables.\<close>

abbreviation names_of :: "hub_variable \<Rightarrow> string set" where
  "names_of v \<equiv> sz_Name ` set (slice (va_SerializeAs v))"

lemma gget_fold_names:
  "gget (fold (\<lambda>sz m. gset (sz_Name sz) value m) szs m) n =
     (if n \<in> sz_Name ` set szs then Some value else gget m n)"
  by (induction szs arbitrary: m) (auto simp: update_conv)

lemma gget_applySerializerToString:
  "gget (applySerializerToString v value m) n = (if n \<in> names_of v then Some value else gget m n)"
  by (cases "va_SerializeAs v") (simp_all add: applySerializerToString_def gget_fold_names)

lemma apply_transformers_other:
  "apply_transformers name vals ts m = Ok m' \<Longrightarrow> n \<noteq> name \<Longrightarrow> gget m' n = gget m n"
  by (induction ts arbitrary: m) (auto simp: update_conv split: if_splits option.splits)

lemma set_serializers_other:
  "set_serializers vals szs m = Ok m' \<Longrightarrow> n \<notin> sz_Name ` set szs \<Longrightarrow> gget m' n = gget m n"
proof (induction szs arbitrary: m)
  case (Cons sz szs)
  then show ?case
    using apply_transformers_other [of "sz_Name sz" "vals" "sz_Transformers sz" m]
    by (auto simp: outcome_iff split: if_splits)
qed simp

lemma applySetTransformation_other:
  "applySetTransformation v vals m = Ok m' \<Longrightarrow> n \<notin> names_of v \<Longrightarrow> gget m' n = gget m n"
  by (cases "va_SerializeAs v") (auto simp: applySetTransformation_def dest: set_serializers_other)

lemma handleComputedVariable_other:
  "fst (handleComputedVariable E cr v m h) = Ok m' \<Longrightarrow> n \<notin> names_of v \<Longrightarrow> gget m' n = gget m n"
  by (auto simp: handleComputedVariable_def gget_applySerializerToString dest: applySetTransformation_other
      split: if_splits sum.splits option.splits)

lemma handleMetaVariable_other:
  "fst (handleMetaVariable E cr v m h) = Ok m' \<Longrightarrow> n \<notin> names_of v \<Longrightarrow> gget m' n = gget m n"
  by (auto simp: handleMetaVariable_def Let_def gget_applySerializerToString dest: applySetTransformation_other
      split: if_splits sum.splits option.splits list.splits)

lemma sync_variable_other:
  assumes "sync_variable E cr v m h = (Ok m', h')" "n \<notin> names_of v"
  shows "gget (sm_env m') n = gget (sm_env m) n"
  using assms handleComputedVariable_other [of E cr v "sm_env m" h _ n]
    handleMetaVariable_other [of E cr v "sm_env m" h _ n]
  by (auto simp: sync_variable_def Let_def outcome_iff split: if_splits prod.splits)

lemma syncValkeyVariables_other:
  "syncValkeyVariables E cr vs m h = (Ok m', h') \<Longrightarrow> n \<notin> set (exported_names vs) \<Longrightarrow>
     gget (sm_env m') n = gget (sm_env m) n"
proof (induction vs arbitrary: m h)
  case (Cons v vs)
  obtain m1 h1 where s: "sync_variable E cr v m h = (Ok m1, h1)" "syncValkeyVariables E cr vs m1 h1 = (Ok m', h')"
    using Cons.prems by (auto split: prod.splits outcome.splits)
  have "n \<notin> names_of v" "n \<notin> set (exported_names vs)" using Cons.prems(2) by (auto simp: exported_names_Cons)
  then show ?case using Cons.IH [OF s(2)] sync_variable_other [OF s(1)] by simp
qed simp

text \<open>Scalars: what one variable exports, and that the other variables leave it alone.\<close>

definition scalar :: "hub_variable \<Rightarrow> bool" where
  "scalar v \<longleftrightarrow> stored v \<and> va_Type v \<in> {VariableTypeManual, VariableTypeComputed} \<and>
     va_DataType v \<in> {VariableDataTypeString, VariableDataTypeInt, VariableDataTypeBoolean, VariableDataTypeFloat}"

lemma sync_variable_scalar:
  assumes "sync_variable E cr v m h = (Ok m', h')" "scalar v" "n \<in> names_of v"
  shows "(he_GetString E h (va_Key v) (cr_name cr) = Inr None \<and> gget (sm_env m') n = gget (sm_env m) n) \<or>
    (\<exists>value. he_GetString E h (va_Key v) (cr_name cr) = Inr (Some value) \<and> gget (sm_env m') n = Some value)"
proof -
  have "va_DataType v \<noteq> VariableDataTypeSet" using assms(2) by (auto simp: scalar_def hub_constants)
  then show ?thesis using assms
    by (auto simp: sync_variable_def scalar_def Let_def handleComputedVariable_def outcome_iff
        gget_applySerializerToString split: if_splits prod.splits sum.splits option.splits)
qed

lemma syncValkeyVariables_scalar:
  assumes "syncValkeyVariables E cr vs m h = (Ok m', h')" "distinct (exported_names vs)"
    "v \<in> set vs" "scalar v" "n \<in> names_of v" "gget (sm_env m) n = None"
  shows "\<exists>h1. (he_GetString E h1 (va_Key v) (cr_name cr) = Inr None \<and> gget (sm_env m') n = None) \<or>
    (\<exists>value. he_GetString E h1 (va_Key v) (cr_name cr) = Inr (Some value) \<and> gget (sm_env m') n = Some value)"
  using assms
proof (induction vs arbitrary: m h)
  case (Cons u vs)
  obtain m1 h1 where s: "sync_variable E cr u m h = (Ok m1, h1)" "syncValkeyVariables E cr vs m1 h1 = (Ok m', h')"
    using Cons.prems by (auto split: prod.splits outcome.splits)
  have d: "distinct (exported_names vs)" "names_of u \<inter> set (exported_names vs) = {}"
    using Cons.prems(2) by (auto simp: exported_names_Cons)
  show ?case
  proof (cases "u = v")
    case True
    then have "gget (sm_env m') n = gget (sm_env m1) n"
      using syncValkeyVariables_other [OF s(2), of n] d(2) Cons.prems(5) by blast
    then show ?thesis
      using sync_variable_scalar [OF s(1) [unfolded True] Cons.prems(4,5)] Cons.prems(6) by metis
  next
    case False
    then have v: "v \<in> set vs" using Cons.prems(3) by simp
    then have "n \<in> set (exported_names vs)" using Cons.prems(5) by (auto simp: exported_names_def)
    then have "gget (sm_env m1) n = None"
      using sync_variable_other [OF s(1), of n] d(2) Cons.prems(6) by auto
    then show ?thesis using Cons.IH [OF s(2) d(1) v Cons.prems(4,5)] by blast
  qed
qed simp

section \<open>Which calls an operation makes\<close>

fun is_delete_keys :: "hub_call \<Rightarrow> bool" where
  "is_delete_keys (ValkeyDeleteKeys _ _) = True"
| "is_delete_keys _ = False"

fun is_update_collector :: "hub_call \<Rightarrow> bool" where
  "is_update_collector (UpdateCollector _) = True"
| "is_update_collector _ = False"

fun is_update_rule :: "hub_call \<Rightarrow> bool" where
  "is_update_rule (UpdateRule _) = True"
| "is_update_rule _ = False"

abbreviation neutral :: "hub_call \<Rightarrow> bool" where
  "neutral c \<equiv> \<not> is_delete_keys c \<and> \<not> is_update_collector c"

lemma createOrUpdateEnvConfigMap_history:
  "\<exists>d m. snd (createOrUpdateEnvConfigMap E cr env postfix ns opts h) = CreateOrUpdateConfigMap d m # h"
  by (auto simp: createOrUpdateEnvConfigMap_def Let_def split: sum.splits)

lemma deleteEnvConfigMap_history: "\<exists>k. snd (deleteEnvConfigMap E cr postfix ns h) = DeleteConfigMap k # h"
  by (auto simp: deleteEnvConfigMap_def Let_def split: option.splits)

lemma sync_variable_calls:
  "c \<in> set (snd (sync_variable E cr v m h)) \<Longrightarrow> c \<in> set h \<or> neutral c"
  by (auto simp: sync_variable_def Let_def handleComputedVariable_def handleMetaVariable_def
      split: if_splits prod.splits sum.splits option.splits list.splits)

lemma syncValkeyVariables_calls:
  "c \<in> set (snd (syncValkeyVariables E cr vs m h)) \<Longrightarrow> c \<in> set h \<or> neutral c"
proof (induction vs arbitrary: m h)
  case (Cons v vs)
  obtain r h1 where s: "sync_variable E cr v m h = (r, h1)" by fastforce
  show ?case
    using Cons sync_variable_calls [of c E cr v m h] by (cases r) (auto simp: s)
qed simp

lemma write_namespaces_calls:
  "c \<in> set (snd (write_namespaces E cr env cs ns h)) \<Longrightarrow> c \<in> set h \<or> neutral c"
proof (induction cs arbitrary: ns h)
  case (Cons x cs)
  obtain r h1 where s: "createOrUpdateEnvConfigMap E cr env envConfigMapNamePostfix (om_Namespace (oc_Meta x)) [] h = (r, h1)"
    by fastforce
  have "\<exists>d m. h1 = CreateOrUpdateConfigMap d m # h"
    using createOrUpdateEnvConfigMap_history [of E cr env envConfigMapNamePostfix "om_Namespace (oc_Meta x)" "[]" h] s
    by simp
  then show ?case using Cons.prems by (cases r) (auto simp: s dest!: Cons.IH)
qed simp

text \<open>The namespaces to restart are those in which a ConfigMap was created or updated.\<close>

lemma write_namespaces_changed:
  assumes "write_namespaces E cr env cs ns h = (Inr ns', h')" "n \<in> set ns'" "n \<notin> set ns"
  shows "\<exists>h1 mu. he_CreateOrUpdate E h1 (desired_config_map cr envConfigMapNamePostfix n) mu
      \<in> {Inr OperationResultCreated, Inr OperationResultUpdated}"
  using assms
proof (induction cs arbitrary: ns h)
  case (Cons x cs)
  obtain r h1 where s: "createOrUpdateEnvConfigMap E cr env envConfigMapNamePostfix (om_Namespace (oc_Meta x)) [] h = (Inr r, h1)"
    using Cons.prems by (auto split: prod.splits sum.splits)
  then have r: "\<exists>mu. he_CreateOrUpdate E h (desired_config_map cr envConfigMapNamePostfix (om_Namespace (oc_Meta x))) mu = Inr r"
    by (auto simp: createOrUpdateEnvConfigMap_def Let_def split: sum.splits)
  show ?case
  proof (cases "n = om_Namespace (oc_Meta x) \<and> (r = OperationResultCreated \<or> r = OperationResultUpdated)")
    case True
    then show ?thesis using r by blast
  next
    case False
    then show ?thesis using Cons.IH [of _ h1] Cons.prems by (auto simp: s split: if_splits)
  qed
qed simp

lemma restart_loop_calls:
  "c \<in> set (snd (restart_loop E cr env ns cs h)) \<Longrightarrow> c \<in> set h \<or> (\<not> is_delete_keys c \<and> (\<forall>x. c = UpdateCollector x \<longrightarrow>
     (\<exists>y \<in> set cs. om_Name (oc_Meta x) = om_Name (oc_Meta y) \<and> om_Namespace (oc_Meta x) = om_Namespace (oc_Meta y) \<and>
        om_Namespace (oc_Meta y) \<in> set ns)))"
proof (induction cs arbitrary: h)
  case (Cons y cs)
  show ?case
  proof (cases "om_Namespace (oc_Meta y) \<in> set ns")
    case False
    then show ?thesis using Cons by auto
  next
    case True
    obtain r h1 where s: "restartCollectorAndAudit E cr y env h = (r, h1)" by fastforce
    have "\<exists>x ev. (h1 = UpdateCollector x # h \<or> h1 = ValkeyAudit ev # UpdateCollector x # h) \<and>
        om_Name (oc_Meta x) = om_Name (oc_Meta y) \<and> om_Namespace (oc_Meta x) = om_Namespace (oc_Meta y)"
      using s by (auto simp: restartCollectorAndAudit_def Let_def split: option.splits if_splits)
    then show ?thesis using Cons.IH [of h1] Cons.prems True by (cases r) (auto simp: s)
  qed
qed simp

lemma syncComputed_calls:
  assumes "c \<in> set (snd (syncComputedConfigMapsAndRestart E cr env h))"
  shows "c \<in> set h \<or> \<not> is_delete_keys c \<and> (\<forall>x. c = UpdateCollector x \<longrightarrow>
    (\<exists>h1 mu. he_CreateOrUpdate E h1 (desired_config_map cr envConfigMapNamePostfix (om_Namespace (oc_Meta x))) mu
      \<in> {Inr OperationResultCreated, Inr OperationResultUpdated}))"
proof -
  define sel where "sel = LabelMdaiHubName @ ''='' @ cr_name cr"
  obtain r h1 where l: "listOtelCollectorsWithLabel E sel h = (r, h1)" by fastforce
  have h1: "h1 = h \<or> h1 = ListCollectors sel # h"
    using l by (auto simp: listOtelCollectorsWithLabel_def split: option.splits sum.splits)
  show ?thesis
  proof (cases r)
    case (Inl e)
    then show ?thesis using assms l h1 by (auto simp: syncComputedConfigMapsAndRestart_def sel_def)
  next
    case (Inr cs)
    obtain w h2 where w: "write_namespaces E cr env cs [] h1 = (w, h2)" by fastforce
    note calls = write_namespaces_calls [of c E cr env cs "[]" h1, unfolded w snd_conv]
    show ?thesis
    proof (cases w)
      case (Inl e)
      then show ?thesis using assms l h1 w Inr calls by (auto simp: syncComputedConfigMapsAndRestart_def sel_def)
    next
      case ns: (Inr ns)
      have "c \<in> set (snd (restart_loop E cr env ns cs h2))"
        using assms l w Inr ns by (auto simp: syncComputedConfigMapsAndRestart_def sel_def split: prod.splits option.splits)
      from restart_loop_calls [OF this] show ?thesis
        using calls h1 write_namespaces_changed [OF w [unfolded ns]] by fastforce
    qed
  qed
qed

text \<open>
  Tied to the run: the calls before \<^term>\<open>h\<close> include a write of the ConfigMap of namespace \<^term>\<open>n\<close> that the API server
  answered, at that moment, with created or updated; and every restart in a history comes after such a write.
\<close>

definition map_written :: "hub_env \<Rightarrow> mdai_hub \<Rightarrow> string \<Rightarrow> hub_history \<Rightarrow> bool" where
  "map_written E cr n h \<longleftrightarrow> (\<exists>h1 h2 mutate. let cm = desired_config_map cr envConfigMapNamePostfix n in
     h = h1 @ CreateOrUpdateConfigMap cm (mutate cm) # h2 \<and>
     he_CreateOrUpdate E h2 cm mutate \<in> {Inr OperationResultCreated, Inr OperationResultUpdated})"

definition restarts_justified :: "hub_env \<Rightarrow> mdai_hub \<Rightarrow> hub_history \<Rightarrow> bool" where
  "restarts_justified E cr h \<longleftrightarrow>
     (\<forall>h1 c h2. h = h1 @ UpdateCollector c # h2 \<longrightarrow> map_written E cr (om_Namespace (oc_Meta c)) h2)"

lemma map_written_append: "map_written E cr n h \<Longrightarrow> map_written E cr n (xs @ h)"
  unfolding map_written_def Let_def by (metis append.assoc)

lemma map_written_Cons: "map_written E cr n h \<Longrightarrow> map_written E cr n (x # h)"
  using map_written_append [of E cr n h "[x]"] by simp

lemma restarts_justified_Cons:
  "restarts_justified E cr (x # h) \<longleftrightarrow>
     restarts_justified E cr h \<and> (\<forall>c. x = UpdateCollector c \<longrightarrow> map_written E cr (om_Namespace (oc_Meta c)) h)"
  unfolding restarts_justified_def by (auto simp: Cons_eq_append_conv)

lemma no_restarts_justified: "(\<And>c. UpdateCollector c \<notin> set h) \<Longrightarrow> restarts_justified E cr h"
  unfolding restarts_justified_def by fastforce

lemma write_namespaces_extends: "\<exists>xs. snd (write_namespaces E cr env cs ns h) = xs @ h"
proof (induction cs arbitrary: ns h)
  case (Cons x cs)
  obtain r h1 where s: "createOrUpdateEnvConfigMap E cr env envConfigMapNamePostfix (om_Namespace (oc_Meta x)) [] h = (r, h1)"
    by fastforce
  obtain d m where "h1 = CreateOrUpdateConfigMap d m # h"
    using createOrUpdateEnvConfigMap_history [of E cr env envConfigMapNamePostfix "om_Namespace (oc_Meta x)" "[]" h] s by auto
  then show ?case using Cons [of _ h1] by (cases r) (auto simp: s append_eq_Cons_conv, (metis append.assoc append_Cons append_Nil)+)
qed simp

lemma write_namespaces_written:
  assumes "write_namespaces E cr env cs ns h = (Inr ns', h')" "n \<in> set ns'" "n \<notin> set ns"
  shows "map_written E cr n h'"
  using assms
proof (induction cs arbitrary: ns h)
  case (Cons x cs)
  let ?cm = "desired_config_map cr envConfigMapNamePostfix (om_Namespace (oc_Meta x))"
  define mu where "mu = (\<lambda>cm. apply_options [] (cm\<lparr>cm_Data := Some env\<rparr>))"
  obtain r h1 where s: "createOrUpdateEnvConfigMap E cr env envConfigMapNamePostfix (om_Namespace (oc_Meta x)) [] h = (Inr r, h1)"
    using Cons.prems by (auto split: prod.splits sum.splits)
  then have r: "he_CreateOrUpdate E h ?cm mu = Inr r" "h1 = CreateOrUpdateConfigMap ?cm (mu ?cm) # h"
    by (auto simp: createOrUpdateEnvConfigMap_def mu_def Let_def split: sum.splits)
  show ?case
  proof (cases "n = om_Namespace (oc_Meta x) \<and> (r = OperationResultCreated \<or> r = OperationResultUpdated)")
    case True
    then have "map_written E cr n h1"
      unfolding map_written_def Let_def using r by (intro exI [of _ "[]"] exI [of _ h] exI [of _ mu]) auto
    moreover obtain xs where "h' = xs @ h1"
      using write_namespaces_extends [of E cr env cs _ h1] Cons.prems(1) by (auto simp: s split: if_splits) (metis snd_conv)+
    ultimately show ?thesis using map_written_append by blast
  next
    case False
    then show ?thesis using Cons.IH [of _ h1] Cons.prems by (auto simp: s split: if_splits)
  qed
qed simp

lemma restart_loop_justified:
  assumes "restarts_justified E cr h" "\<And>n. n \<in> set ns \<Longrightarrow> map_written E cr n h"
  shows "restarts_justified E cr (snd (restart_loop E cr env ns cs h))"
  using assms
proof (induction cs arbitrary: h)
  case (Cons y cs)
  show ?case
  proof (cases "om_Namespace (oc_Meta y) \<in> set ns")
    case False
    then show ?thesis using Cons by simp
  next
    case True
    obtain r h1 where s: "restartCollectorAndAudit E cr y env h = (r, h1)" by fastforce
    then obtain x ev where x: "h1 = UpdateCollector x # h \<or> h1 = ValkeyAudit ev # UpdateCollector x # h"
      "om_Namespace (oc_Meta x) = om_Namespace (oc_Meta y)"
      by (auto simp: restartCollectorAndAudit_def Let_def split: option.splits if_splits)
    then have "restarts_justified E cr h1" "\<And>n. n \<in> set ns \<Longrightarrow> map_written E cr n h1"
      using Cons.prems True by (auto simp: restarts_justified_Cons intro: map_written_Cons)
    then show ?thesis using Cons.IH [of h1] True by (cases r) (simp_all add: s)
  qed
qed simp

lemma syncComputed_justified:
  assumes "\<And>c. UpdateCollector c \<notin> set h"
  shows "restarts_justified E cr (snd (syncComputedConfigMapsAndRestart E cr env h))"
proof -
  define sel where "sel = LabelMdaiHubName @ ''='' @ cr_name cr"
  obtain r h1 where l: "listOtelCollectorsWithLabel E sel h = (r, h1)" by fastforce
  have h1: "h1 = h \<or> h1 = ListCollectors sel # h"
    using l by (auto simp: listOtelCollectorsWithLabel_def split: option.splits sum.splits)
  have none: "UpdateCollector c \<notin> set (snd (write_namespaces E cr env cs [] h1))" for c cs
    using write_namespaces_calls [of "UpdateCollector c" E cr env cs "[]" h1] h1 assms by auto
  show ?thesis
  proof (cases r)
    case (Inl e)
    then show ?thesis using l h1 assms by (auto simp: syncComputedConfigMapsAndRestart_def sel_def intro!: no_restarts_justified)
  next
    case (Inr cs)
    obtain w h2 where w: "write_namespaces E cr env cs [] h1 = (w, h2)" by fastforce
    have h2: "restarts_justified E cr h2" using none [of _ cs] w by (auto intro!: no_restarts_justified)
    show ?thesis
    proof (cases w)
      case (Inl e)
      then show ?thesis using l w Inr h2 by (simp add: syncComputedConfigMapsAndRestart_def sel_def)
    next
      case ns: (Inr ns)
      have "restarts_justified E cr (snd (restart_loop E cr env ns cs h2))"
        using restart_loop_justified [OF h2] write_namespaces_written [OF w [unfolded ns]] by simp
      then show ?thesis
        using l w Inr ns by (auto simp: syncComputedConfigMapsAndRestart_def sel_def split: prod.splits option.splits)
    qed
  qed
qed

lemma sync_manual_history:
  "\<exists>c. snd (sync_manual E cr m h) = c # h \<and> neutral c"
  using deleteEnvConfigMap_history [of E cr manualEnvConfigMapNamePostfix "cr_namespace cr" h]
    createOrUpdateEnvConfigMap_history [of E cr m manualEnvConfigMapNamePostfix "cr_namespace cr" "[WithOwnerRef E cr]" h]
  by (auto simp: sync_manual_def split: prod.splits sum.splits)

lemma remove_variable_maps_calls:
  "c \<in> set (snd (snd (remove_variable_maps E (cr, h)))) \<Longrightarrow> c \<in> set h \<or> neutral c"
  using deleteEnvConfigMap_history [of E cr variableSchemaConfigMapPostfix "cr_namespace cr" h]
    deleteEnvConfigMap_history [of E cr manualEnvConfigMapNamePostfix "cr_namespace cr"
      "snd (deleteEnvConfigMap E cr variableSchemaConfigMapPostfix (cr_namespace cr) h)"]
  by (auto simp: remove_variable_maps_def split: prod.splits option.splits)

text \<open>
  The run of \<^const>\<open>ensureVariableSynchronized\<close> on a hub with variables, step by step: the history it ends with is one of
  the histories of its steps.
\<close>

lemma ensureVariableSynchronized_cases:
  assumes "ensureVariableSynchronized E (cr, h) = (r, cr', h')" "hub_Variables cr \<noteq> []"
  obtains (stop) "set h' \<subseteq> set h \<union> {c. neutral c}"
  | (keys) m h1 h2 where "syncValkeyVariables E cr (hub_Variables cr) \<lparr>sm_env = [], sm_manual = [], sm_keys = []\<rparr> h1 = (Ok m, h2)"
      "set h2 \<subseteq> set h \<union> {c. neutral c}"
      "set h' \<subseteq> insert (ValkeyDeleteKeys (sm_keys m) (cr_name cr)) (set h2) \<union> {c. neutral c}"
  | (restart) m h1 h2 h3 where "syncValkeyVariables E cr (hub_Variables cr) \<lparr>sm_env = [], sm_manual = [], sm_keys = []\<rparr> h1 = (Ok m, h2)"
      "set h2 \<subseteq> set h \<union> {c. neutral c}"
      "set h3 \<subseteq> insert (ValkeyDeleteKeys (sm_keys m) (cr_name cr)) (set h2) \<union> {c. neutral c}"
      "h' = snd (syncComputedConfigMapsAndRestart E cr (sm_env m) h3)"
proof (cases "buildVariableSchemaEnvMap E (hub_Variables cr)")
  case (Inl e)
  then show ?thesis using assms stop by (simp add: ensureVariableSynchronized_def)
next
  case (Inr schema)
  define m0 where "m0 = \<lparr>sm_env = [], sm_manual = [], sm_keys = []\<rparr>"
  obtain u h1 where u: "createOrUpdateEnvConfigMap E cr schema variableSchemaConfigMapPostfix (cr_namespace cr)
      [WithOwnerRef E cr] h = (u, h1)" by fastforce
  obtain d x where h1: "h1 = CreateOrUpdateConfigMap d x # h"
    using createOrUpdateEnvConfigMap_history u by (metis snd_conv)
  obtain s h2 where s: "syncValkeyVariables E cr (hub_Variables cr) m0 h1 = (s, h2)" by fastforce
  have h2: "set h2 \<subseteq> set h \<union> {c. neutral c}"
  proof
    fix c assume "c \<in> set h2"
    then have "c \<in> set h1 \<or> neutral c"
      using syncValkeyVariables_calls [of c E cr "hub_Variables cr" m0 h1] s by simp
    then show "c \<in> set h \<union> {c. neutral c}" using h1 by auto
  qed
  show ?thesis
  proof (cases u)
    case (Inl e)
    then show ?thesis using assms Inr u h1 by (intro stop) (auto simp: ensureVariableSynchronized_def)
  next
    case (Inr _)
    note step = assms(1) [unfolded ensureVariableSynchronized_def]
    show ?thesis
    proof (cases s)
      case (Ok m)
      define h3 where "h3 = snd (sync_manual E cr (sm_manual m) (ValkeyDeleteKeys (sm_keys m) (cr_name cr) # h2))"
      have h3: "set h3 \<subseteq> insert (ValkeyDeleteKeys (sm_keys m) (cr_name cr)) (set h2) \<union>
          {c. neutral c}"
        using sync_manual_history [of E cr "sm_manual m" "ValkeyDeleteKeys (sm_keys m) (cr_name cr) # h2"]
        by (auto simp: h3_def)
      have "h' = ValkeyDeleteKeys (sm_keys m) (cr_name cr) # h2 \<or> h' = h3 \<or>
          h' = snd (syncComputedConfigMapsAndRestart E cr (sm_env m) h3)"
        using step assms(2) \<open>buildVariableSchemaEnvMap E _ = _\<close> u Inr s Ok
        by (auto simp: m0_def h3_def split: option.splits prod.splits)
      then show ?thesis
      proof (elim disjE)
        assume "h' = ValkeyDeleteKeys (sm_keys m) (cr_name cr) # h2"
        then show ?thesis by (intro keys [OF s [unfolded Ok m0_def] h2]) auto
      next
        assume "h' = h3"
        with h3 show ?thesis by (intro keys [OF s [unfolded Ok m0_def] h2]) simp
      qed (rule restart [OF s [unfolded Ok m0_def] h2 h3])
    next
      case (Err e)
      then show ?thesis using step assms(2) \<open>buildVariableSchemaEnvMap E _ = _\<close> u Inr s h2
        by (intro stop) (auto simp: m0_def)
    next
      case (Panic p)
      then show ?thesis using step assms(2) \<open>buildVariableSchemaEnvMap E _ = _\<close> u Inr s h2
        by (intro stop) (auto simp: m0_def)
    qed
  qed
qed

lemma not_neutral_among:
  "set h' \<subseteq> insert d (set h2) \<union> {c. neutral c} \<Longrightarrow> set h2 \<subseteq> set h \<union> {c. neutral c} \<Longrightarrow> c \<in> set h' \<Longrightarrow> \<not> neutral c \<Longrightarrow>
     c = d \<or> c \<in> set h"
  by blast

text \<open>A PrometheusRule that mirrors the alerts of a hub.\<close>

definition mirrors :: "mdai_hub \<Rightarrow> prometheus_alert list \<Rightarrow> prometheus_rule \<Rightarrow> bool" where
  "mirrors cr evals r \<longleftrightarrow> (\<exists>g gs. pr_Groups r = g # gs \<and>
     map (\<lambda>x. (pru_Alert x, pru_Expr x, pru_For x, gget (pru_Labels x) ''severity'')) (rg_Rules g) =
     map (\<lambda>a. (al_Name a, al_Expr a, al_For a, Some (al_Severity a))) evals \<and>
     (\<forall>x \<in> set (rg_Rules g). gget (pru_Annotations x) ''hub_name'' = Some (cr_name cr)))"

lemma write_alerts_updates:
  assumes "UpdateRule r \<in> set (snd (snd (write_alerts E evals prule (cr, h))))" "UpdateRule r \<notin> set h"
  shows "fst (write_alerts E evals prule (cr, h)) = ContinueProcessing \<and> mirrors cr evals r \<and>
    (\<forall>x \<in> set (rg_Rules (hd (pr_Groups r))). pru_KeepFiringFor x = None)"
proof (cases "pr_Groups prule")
  case (Cons g gs)
  then show ?thesis using assms
    by (auto simp: write_alerts_def mirrors_def Let_def composePrometheusRule_def split: sum.splits)
qed (use assms in \<open>simp add: write_alerts_def\<close>)

section \<open>Properties\<close>

text \<open>
  C9. A reconciliation of a hub that is being deleted, has no status condition yet or lacks the finalizer
  creates and changes nothing that depends on the hub: no rule, ConfigMap, collector, audit entry or meta variable,
  whatever the API server answers.
\<close>

theorem hub_not_ready_writes_nothing:
  assumes "he_GetHub E [] req = Inr cr" "\<not> ready (he_lib E) hubFinalizer cr"
  shows "\<forall>c \<in> set (snd (hub_Reconcile E req [])). \<not> writes_dependent c"
proof -
  have "\<forall>c \<in> set (snd (snd (run_operations (hub_operations E) (cr, [GetHub req])))). \<not> writes_dependent c"
    unfolding hub_operations_def using assms(2) by (rule hub_lifecycle.not_ready_keeps) simp
  then show ?thesis
    using assms(1) by (auto simp: hub_Reconcile_def Reconcile_def split: prod.splits reconcile_return.splits)
qed

definition sample_hub_env :: hub_env where
  "sample_hub_env =
    \<lparr>he_GetHub = (\<lambda>h k. Inr sample_hub), he_UpdateHub = (\<lambda>h cr. Inr cr), he_StatusUpdateHub = (\<lambda>h cr. Inr cr),
     he_GetRule = (\<lambda>h k. Inl (ErrLib ''not found'')), he_CreateRule = (\<lambda>h r. Inr r), he_UpdateRule = (\<lambda>h r. Inr r),
     he_DeleteRule = (\<lambda>h k. None), he_CreateOrUpdate = (\<lambda>h d mu. Inr OperationResultUpdated),
     he_DeleteConfigMap = (\<lambda>h k. None), he_ParseSelector = (\<lambda>s. None),
     he_ListCollectors = (\<lambda>h s. Inr [\<lparr>oc_Meta = meta_named ''gateway'' ''otel''\<rparr>]),
     he_UpdateCollector = (\<lambda>h c. None), he_GetSetAsStringSlice = (\<lambda>h k n. Inr [''a'', ''b'']),
     he_GetString = (\<lambda>h k n. Inr (Some ''v'')), he_GetMapAsString = (\<lambda>h k n. Inr ''{}''),
     he_GetOrCreateMetaPriorityList = (\<lambda>h k n r. Inr None), he_GetOrCreateMetaHashSet = (\<lambda>h k n r s. Inr (Some r)),
     he_DeleteKeysWithPrefixUsingScan = (\<lambda>h ks n. None), he_InsertAuditLogEventFromMap = (\<lambda>h m. None),
     he_CreateRestartEvent = (\<lambda>n m. m), he_now = (\<lambda>h. ''now''), he_releaseName = ''mdai'',
     he_marshalRule = (\<lambda>r. Inr ''{}''), he_marshalPayload = (\<lambda>p. Inr ''{}''), he_marshalSchema = (\<lambda>e. Inr ''{}''),
     he_commandText = (\<lambda>t. []), he_lib = sample_lib\<rparr>"

theorem hub_not_ready_writes_nothing_witness:
  "filter writes_dependent (snd (hub_Reconcile sample_hub_env (key_of (rs_Meta sample_hub)) [])) = []"
proof -
  have "\<not> ready (he_lib sample_hub_env) hubFinalizer sample_hub" by code_simp
  then have "\<forall>c \<in> set (snd (hub_Reconcile sample_hub_env (key_of (rs_Meta sample_hub)) [])). \<not> writes_dependent c"
    by (intro hub_not_ready_writes_nothing) (simp_all add: sample_hub_env_def)
  then show ?thesis by (simp add: filter_empty_conv)
qed

text \<open>
  C22. Synchronising the variables of a hub that the webhook accepts does not panic, provided that every \<^verbatim>\<open>join\<close>
  transformer has its delimiter, which the webhook does not ask for.
\<close>

theorem accepted_hub_variables_no_panic:
  assumes "hub_ok wl cr" "\<forall>v \<in> set (hub_Variables cr). joins_present v"
  shows "case fst (ensureVariableSynchronized E (cr, h)) of Panicked _ \<Rightarrow> False | _ \<Rightarrow> True"
proof -
  have "\<not> panics (fst (syncValkeyVariables E cr (hub_Variables cr) m h1))" for m h1
    using assms by (intro syncValkeyVariables_safe) (auto simp: hub_ok_def variables_ok_def variable_ok_def)
  then have "syncValkeyVariables E cr (hub_Variables cr) m h1 \<noteq> (Panic p, h2)" for m h1 p h2
    by (metis fst_conv panics_simps(1))
  then show ?thesis
    by (auto simp: ensureVariableSynchronized_def remove_variable_maps_def syncComputedConfigMapsAndRestart_def
        op_return_defs split: prod.splits sum.splits option.splits outcome.splits)
qed

theorem accepted_hub_variables_no_panic_witness:
  "case fst (ensureVariableSynchronized sample_hub_env (sample_hub, [])) of Panicked _ \<Rightarrow> False | _ \<Rightarrow> True"
proof (rule accepted_hub_variables_no_panic)
  have "snd (hub_Validate sample_webhook_lib sample_hub) = None" by code_simp
  then show "hub_ok sample_webhook_lib sample_hub" by (simp add: hub_Validate_accepts [OF sample_prints_children])
  show "\<forall>v \<in> set (hub_Variables sample_hub). joins_present v" by code_simp
qed

text \<open>
  C2. Synchronising the variables never deletes the Valkey entry of a variable of the hub: the keys to keep, in every
  deletion it makes, are exactly the keys of the variables kept in Valkey, and the prefix is the hub's name.
\<close>

theorem sync_keeps_variable_keys:
  "\<forall>ks n. ValkeyDeleteKeys ks n \<in> set (snd (snd (ensureVariableSynchronized E (cr, [])))) \<longrightarrow>
     n = cr_name cr \<and> set ks = va_Key ` {v \<in> set (hub_Variables cr). stored v}"
proof (intro allI impI)
  fix ks n assume c: "ValkeyDeleteKeys ks n \<in> set (snd (snd (ensureVariableSynchronized E (cr, []))))"
  obtain r cr' h' where run: "ensureVariableSynchronized E (cr, []) = (r, cr', h')" by (metis prod_cases3)
  have ne: "hub_Variables cr \<noteq> []"
    using c remove_variable_maps_calls [of "ValkeyDeleteKeys ks n" E cr "[]"]
    by (auto simp: ensureVariableSynchronized_def)
  have in_h': "ValkeyDeleteKeys ks n \<in> set h'" using c run by simp
  show "n = cr_name cr \<and> set ks = va_Key ` {v \<in> set (hub_Variables cr). stored v}"
    using run ne
  proof (cases rule: ensureVariableSynchronized_cases)
    case stop
    then show ?thesis using in_h' by auto
  next
    case (keys m h1 h2)
    then show ?thesis
      using not_neutral_among [OF keys(3,2) in_h'] syncValkeyVariables_keys [OF keys(1)] by auto
  next
    case (restart m h1 h2 h3)
    then have "ValkeyDeleteKeys ks n \<in> set h3"
      using in_h' syncComputed_calls [of "ValkeyDeleteKeys ks n" E cr "sm_env m" h3] by auto
    from not_neutral_among [OF restart(3,2) this] show ?thesis
      using syncValkeyVariables_keys [OF restart(1)] by auto
  qed
qed

theorem sync_keeps_variable_keys_witness:
  "\<exists>ks n. ValkeyDeleteKeys ks n \<in> set (snd (snd (ensureVariableSynchronized sample_hub_env (sample_hub, [])))) \<and>
     n = ''hub'' \<and> set ks = {''service_list'', ''lookup''}"
proof -
  have "\<exists>c \<in> set (snd (snd (ensureVariableSynchronized sample_hub_env (sample_hub, [])))). is_delete_keys c"
    by code_simp
  then obtain ks n where c: "ValkeyDeleteKeys ks n \<in> set (snd (snd (ensureVariableSynchronized sample_hub_env (sample_hub, []))))"
    by (metis is_delete_keys.elims(2))
  then have "n = cr_name sample_hub \<and> set ks = va_Key ` {v \<in> set (hub_Variables sample_hub). stored v}"
    using sync_keeps_variable_keys by blast
  moreover have "{v \<in> set (hub_Variables sample_hub). stored v} = {sample_variable, sample_meta_variable}"
    by (auto simp: sample_hub_def sample_variable_def sample_meta_variable_def hub_constants)
  ultimately show ?thesis using c by (auto simp: sample_hub_def sample_variable_def sample_meta_variable_def)
qed

text \<open>
  C24. A collector is restarted only after a write in the same synchronisation: before the call that restarts it, the run has
  written the ConfigMap of the collector's namespace, and the API server's answer to that very call was that the
  ConfigMap was created or updated.
\<close>

theorem restarts_only_changed_namespaces:
  assumes "snd (snd (ensureVariableSynchronized E (cr, []))) = later @ UpdateCollector c # earlier"
  shows "\<exists>h1 h2 mutate. let cm = desired_config_map cr envConfigMapNamePostfix (om_Namespace (oc_Meta c)) in
    earlier = h1 @ CreateOrUpdateConfigMap cm (mutate cm) # h2 \<and>
    he_CreateOrUpdate E h2 cm mutate \<in> {Inr OperationResultCreated, Inr OperationResultUpdated}"
proof -
  obtain r cr' h' where run: "ensureVariableSynchronized E (cr, []) = (r, cr', h')" by (metis prod_cases3)
  have in_h': "UpdateCollector c \<in> set h'" using assms run by simp
  have ne: "hub_Variables cr \<noteq> []"
    using in_h' run remove_variable_maps_calls [of "UpdateCollector c" E cr "[]"] by (auto simp: ensureVariableSynchronized_def)
  have "restarts_justified E cr h'"
    using run ne
  proof (cases rule: ensureVariableSynchronized_cases)
    case stop
    then show ?thesis by (auto intro!: no_restarts_justified)
  next
    case (keys m h1 h2)
    then show ?thesis using not_neutral_among [OF keys(3,2) in_h'] by simp
  next
    case (restart m h1 h2 h3)
    have "UpdateCollector x \<notin> set h3" for x using not_neutral_among [OF restart(3,2), of "UpdateCollector x"] by auto
    then show ?thesis using syncComputed_justified restart(4) by simp
  qed
  then have "map_written E cr (om_Namespace (oc_Meta c)) earlier" using assms run by (simp add: restarts_justified_def)
  then show ?thesis by (simp add: map_written_def)
qed

theorem restarts_only_changed_namespaces_witness:
  "\<exists>later c earlier h1 h2 cm mutate. snd (snd (ensureVariableSynchronized sample_hub_env (sample_hub, []))) =
      later @ UpdateCollector c # earlier \<and>
    cm = desired_config_map sample_hub envConfigMapNamePostfix (om_Namespace (oc_Meta c)) \<and>
    earlier = h1 @ CreateOrUpdateConfigMap cm (mutate cm) # h2 \<and>
    he_CreateOrUpdate sample_hub_env h2 cm mutate \<in> {Inr OperationResultCreated, Inr OperationResultUpdated}"
proof -
  have "\<exists>c \<in> set (snd (snd (ensureVariableSynchronized sample_hub_env (sample_hub, [])))). is_update_collector c"
    by code_simp
  then obtain c where "UpdateCollector c \<in> set (snd (snd (ensureVariableSynchronized sample_hub_env (sample_hub, []))))"
    by (metis is_update_collector.elims(2))
  then obtain later earlier where
    c: "snd (snd (ensureVariableSynchronized sample_hub_env (sample_hub, []))) = later @ UpdateCollector c # earlier"
    by (meson split_list)
  with restarts_only_changed_namespaces [OF c] show ?thesis unfolding Let_def by blast
qed

text \<open>
  C23. The exported values of a hub whose exported names are unique: a scalar variable that Valkey has a value
  for is exported under every name it is serialized as, one without a value is not exported, and no name is
  exported that no variable declares.
\<close>

theorem exported_values:
  assumes "syncValkeyVariables E cr (hub_Variables cr) \<lparr>sm_env = [], sm_manual = [], sm_keys = []\<rparr> h = (Ok m, h')"
    and "distinct (exported_names (hub_Variables cr))"
  shows "(\<forall>v \<in> set (hub_Variables cr). scalar v \<longrightarrow> (\<forall>n \<in> names_of v.
      \<exists>h1. he_GetString E h1 (va_Key v) (cr_name cr) = Inr (gget (sm_env m) n))) \<and>
    (\<forall>n. gget (sm_env m) n \<noteq> None \<longrightarrow> n \<in> set (exported_names (hub_Variables cr)))"
proof (intro conjI ballI impI allI)
  fix v n assume v: "v \<in> set (hub_Variables cr)" "scalar v" "n \<in> names_of v"
  show "\<exists>h1. he_GetString E h1 (va_Key v) (cr_name cr) = Inr (gget (sm_env m) n)"
    using syncValkeyVariables_scalar [OF assms v] by auto
next
  fix n assume "gget (sm_env m) n \<noteq> None"
  then show "n \<in> set (exported_names (hub_Variables cr))"
    using syncValkeyVariables_other [OF assms(1), of n] by (cases "n \<in> set (exported_names (hub_Variables cr))") auto
qed

definition sample_scalar :: hub_variable where
  "sample_scalar = \<lparr>va_Key = ''severity'', va_Type = ''manual'', va_DataType = ''string'',
     va_StorageType = ''mdai-valkey'', va_VariableRefs = None,
     va_SerializeAs = Some [\<lparr>sz_Name = ''SEVERITY'', sz_Transformers = []\<rparr>]\<rparr>"

definition sample_scalar_hub :: mdai_hub where
  "sample_scalar_hub = sample_hub\<lparr>hub_Variables := [sample_scalar, sample_variable]\<rparr>"

theorem exported_values_witness:
  "\<exists>m h'. syncValkeyVariables sample_hub_env sample_scalar_hub (hub_Variables sample_scalar_hub)
      \<lparr>sm_env = [], sm_manual = [], sm_keys = []\<rparr> [] = (Ok m, h') \<and> gget (sm_env m) ''SEVERITY'' = Some ''v''"
proof -
  define out where "out = syncValkeyVariables sample_hub_env sample_scalar_hub (hub_Variables sample_scalar_hub)
      \<lparr>sm_env = [], sm_manual = [], sm_keys = []\<rparr> []"
  have "(case fst out of Ok m \<Rightarrow> True | _ \<Rightarrow> False)" unfolding out_def by code_simp
  then obtain m h' where out: "out = (Ok m, h')" by (cases out) (auto split: outcome.splits)
  have "distinct (exported_names (hub_Variables sample_scalar_hub))" by code_simp
  from exported_values [OF out [unfolded out_def] this]
  have "\<exists>h1. he_GetString sample_hub_env h1 (va_Key sample_scalar) (cr_name sample_scalar_hub) =
      Inr (gget (sm_env m) ''SEVERITY'')"
    by (auto simp: sample_scalar_hub_def sample_scalar_def scalar_def hub_constants)
  then show ?thesis using out by (simp add: out_def sample_hub_env_def)
qed

text \<open>
  C31. When the finalization of a hub deletes the hub's Valkey entries, the finalizer is gone already. Either the call
  before is an update without the finalizer, and the API server accepted it, or the hub as it was read again did not have the
  finalizer, and no update was made. The outcome of the deletion is the outcome of the finalization: a deletion that fails is
  reported, but by then the API server no longer waits for the operator.
\<close>

theorem valkey_cleanup_after_finalizer:
  assumes "hub_finalize E (cr, []) = (st, err, cr', h')" "is_delete_keys (hd h')"
    and "kl_ContainsFinalizer (he_lib E) (rs_Meta cr) hubFinalizer"
  shows "\<exists>h. h' = ValkeyDeleteKeys [] (cr_name cr') # h \<and>
    ((\<exists>h1 c. h = UpdateHub c # h1 \<and> hubFinalizer \<notin> set (om_Finalizers (rs_Meta c)) \<and> he_UpdateHub E h1 c = Inr cr') \<or>
     hubFinalizer \<notin> set (om_Finalizers (rs_Meta cr')) \<and> (\<forall>c. UpdateHub c \<notin> set h)) \<and>
    err = he_DeleteKeysWithPrefixUsingScan E h [] (cr_name cr') \<and> (st = ObjectModified \<longleftrightarrow> err = None)"
proof -
  let ?P = "\<lambda>h. (\<forall>c \<in> set h. \<not> is_delete_keys c) \<and> h \<noteq> [] \<and> (\<forall>c. UpdateHub c \<notin> set h)"
  obtain d h1 where d: "deletePrometheusRule E cr [] = (d, h1)" by fastforce
  have h1: "?P h1" using deletePrometheusRule_history [of E cr "[]"] d by auto
  obtain m cr2 h2 where m: "mark_finalizing (he_lib E) (hub_client E) (cr, h1) = (m, cr2, h2)"
    by (metis prod_cases3)
  have h2: "?P h2" using mark_finalizing_keeps [of ?P "hub_client E" "(cr, h1)" "he_lib E"] h1 m by simp
  obtain e cr3 h3 where e: "ensureFinalizerDeleted (hub_client E) hubFinalizer (cr2, h2) = (e, cr3, h3)"
    by (metis prod_cases3)
  have h3: "(h3 = h2 \<and> cr3 = cr2 \<and> hubFinalizer \<notin> set (om_Finalizers (rs_Meta cr2))) \<or>
      (\<exists>c. h3 = UpdateHub c # h2 \<and> hubFinalizer \<notin> set (om_Finalizers (rs_Meta c)) \<and> (e = None \<longrightarrow> he_UpdateHub E h2 c = Inr cr3))"
    using e by (auto simp: ensureFinalizerDeleted_def deleteFinalizer_def Let_def split: if_splits sum.splits)
  have hd: "\<not> is_delete_keys (hd h1)" "\<not> is_delete_keys (hd h2)" "\<not> is_delete_keys (hd h3)"
    using h1 h2 h3 by auto
  have "e = None \<and> cr' = cr3 \<and> h' = ValkeyDeleteKeys [] (cr_name cr3) # h3 \<and>
      err = he_DeleteKeysWithPrefixUsingScan E h3 [] (cr_name cr3) \<and> (st = ObjectModified \<longleftrightarrow> err = None)"
    using assms hd by (auto simp: hub_finalize_def d m e split: option.splits prod.splits dest: sym [of "Some _"])
  then show ?thesis using h3 h2 by auto
qed

definition sample_deleted_hub :: mdai_hub where
  "sample_deleted_hub = sample_hub\<lparr>rs_Meta := (rs_Meta sample_hub)\<lparr>om_Finalizers := [hubFinalizer], om_DeletionTimestamp := Some 1\<rparr>\<rparr>"

definition sample_failing_env :: hub_env where
  "sample_failing_env = sample_hub_env\<lparr>he_GetHub := (\<lambda>h k. Inr sample_deleted_hub),
     he_DeleteKeysWithPrefixUsingScan := (\<lambda>h ks n. Some (ErrLib ''valkey down''))\<rparr>"

theorem valkey_cleanup_after_finalizer_witness:
  "\<exists>cr' h. hub_finalize sample_failing_env (sample_deleted_hub, []) =
      (ObjectUnchanged, Some (ErrLib ''valkey down''), cr', ValkeyDeleteKeys [] (cr_name cr') # h) \<and>
    ((\<exists>h1 c. h = UpdateHub c # h1 \<and> hubFinalizer \<notin> set (om_Finalizers (rs_Meta c)) \<and>
        he_UpdateHub sample_failing_env h1 c = Inr cr') \<or>
     hubFinalizer \<notin> set (om_Finalizers (rs_Meta cr')))"
proof -
  define out where "out = hub_finalize sample_failing_env (sample_deleted_hub, [])"
  have "fst out = ObjectUnchanged" "fst (snd out) = Some (ErrLib ''valkey down'')"
    "is_delete_keys (hd (snd (snd (snd out))))"
    unfolding out_def by code_simp+
  then obtain cr' h' where out: "out = (ObjectUnchanged, Some (ErrLib ''valkey down''), cr', h')" "is_delete_keys (hd h')"
    by (cases out) auto
  have "kl_ContainsFinalizer (he_lib sample_failing_env) (rs_Meta sample_deleted_hub) hubFinalizer" by code_simp
  from valkey_cleanup_after_finalizer [OF out(1) [unfolded out_def] out(2) this]
  show ?thesis using out(1) by (auto simp: out_def)
qed

text \<open>
  C36. The PrometheusRule written for a hub mirrors its alerts in order, except that \<^verbatim>\<open>keep_firing_for\<close> is
  dropped, and the operation reports success whether or not the update was accepted.
\<close>

theorem alert_rules_mirror_spec:
  "\<forall>r. UpdateRule r \<in> set (snd (snd (ensurePrometheusAlertsSynchronized E (cr, [])))) \<longrightarrow>
     fst (ensurePrometheusAlertsSynchronized E (cr, [])) = ContinueProcessing \<and>
     mirrors cr (slice (hub_PrometheusAlerts cr)) r \<and>
     (\<forall>x \<in> set (rg_Rules (hd (pr_Groups r))). pru_KeepFiringFor x = None)"
proof (intro allI impI)
  fix r assume c: "UpdateRule r \<in> set (snd (snd (ensurePrometheusAlertsSynchronized E (cr, []))))"
  have del: "UpdateRule r \<notin> set (snd (deletePrometheusRule E cr [GetRule k]))" for k
    by (simp add: deletePrometheusRule_history)
  have "\<exists>evals prule h. hub_PrometheusAlerts cr = Some evals \<and> (\<forall>c \<in> set h. c \<noteq> UpdateRule r) \<and>
      ensurePrometheusAlertsSynchronized E (cr, []) = write_alerts E evals prule (cr, h)"
    using c del
    by (auto simp: ensurePrometheusAlertsSynchronized_def Let_def split: option.splits sum.splits if_splits)
      (rule exI, rule exI, rule conjI [OF _ refl], simp)+
  then obtain evals prule h where w: "hub_PrometheusAlerts cr = Some evals" "UpdateRule r \<notin> set h"
      "ensurePrometheusAlertsSynchronized E (cr, []) = write_alerts E evals prule (cr, h)"
    by blast
  show "fst (ensurePrometheusAlertsSynchronized E (cr, [])) = ContinueProcessing \<and>
     mirrors cr (slice (hub_PrometheusAlerts cr)) r \<and>
     (\<forall>x \<in> set (rg_Rules (hd (pr_Groups r))). pru_KeepFiringFor x = None)"
    using write_alerts_updates [of r E evals prule cr h] c w by simp
qed

theorem alert_rules_mirror_spec_witness:
  "\<exists>r. UpdateRule r \<in> set (snd (snd (ensurePrometheusAlertsSynchronized sample_hub_env (sample_hub, [])))) \<and>
     mirrors sample_hub (slice (hub_PrometheusAlerts sample_hub)) r"
proof -
  have "\<exists>c \<in> set (snd (snd (ensurePrometheusAlertsSynchronized sample_hub_env (sample_hub, [])))). is_update_rule c"
    by code_simp
  then obtain r where "UpdateRule r \<in> set (snd (snd (ensurePrometheusAlertsSynchronized sample_hub_env (sample_hub, []))))"
    by (metis is_update_rule.elims(2))
  then show ?thesis using alert_rules_mirror_spec by blast
qed

end
