(* ===== verification/Ingress_Controller.thy ===== *)
theory Ingress_Controller
  imports Resource_Webhooks "HOL-Library.Multiset"
begin

text \<open>
  The ingress controller (\<^verbatim>\<open>internal/controller/mdaiingress_controller.go\<close>) and the generic reconciliation of a
  set of desired objects with pruning (\<^verbatim>\<open>internal/controller/common.go\<close>). As in the adapters the world is the list
  of the calls made so far, the newest first; a create-or-update is recorded with its answer, the object afterwards and
  the error. \<^verbatim>\<open>retry.RetryOnConflict\<close> around \<^verbatim>\<open>CreateOrUpdate\<close> is one call here.
\<close>

section \<open>Calls and the environment\<close>

datatype obj_kind = ServiceKind | IngressKind

datatype ig_call =
    IGetIngress nsname | IGetOtelcol nsname | IListIngresses string string
  | IListOwned obj_kind string string
  | ICreateOrUpdate client_object client_object "goerr option"
  | IDelete client_object

type_synonym ig_history = "ig_call list"

type_synonym owned_objects = "(string, client_object) gomap"

record 'v ig_env =
  ie_GetIngress :: "ig_history \<Rightarrow> nsname \<Rightarrow> goerr + mdai_ingress"
  ie_GetOtelcol :: "ig_history \<Rightarrow> nsname \<Rightarrow> goerr + 'v otelcol"
  ie_ListIngresses :: "ig_history \<Rightarrow> string \<Rightarrow> string \<Rightarrow> goerr + mdai_ingress list"
  ie_GVKForObject :: "obj_kind \<Rightarrow> goerr + string"
  ie_NewList :: "string \<Rightarrow> goerr + string \<times> bool"
  ie_List :: "ig_history \<Rightarrow> obj_kind \<Rightarrow> string \<Rightarrow> string \<Rightarrow> goerr + client_object list"
  ie_ExtractError :: "client_object list \<Rightarrow> goerr option"
  ie_CreateOrUpdate :: "ig_history \<Rightarrow> client_object \<Rightarrow> (client_object \<Rightarrow> client_object \<times> goerr option)
    \<Rightarrow> client_object \<times> goerr option"
  ie_Delete :: "ig_history \<Rightarrow> client_object \<Rightarrow> goerr option"
  ie_IsImmutableChange :: "goerr \<Rightarrow> bool"
  ie_range :: "owned_objects \<Rightarrow> owned_objects"
  ie_merge :: label_merge
  ie_ConfigDeepEqual :: "'v otel_config \<Rightarrow> 'v otel_config \<Rightarrow> bool"
  ie_zero_config :: "'v otel_config"
  ie_lib :: kube_lib

text \<open>A \<^verbatim>\<open>range\<close> loop over a map visits every entry once, in an order Go leaves open.\<close>

definition visits_all :: "(owned_objects \<Rightarrow> owned_objects) \<Rightarrow> bool" where
  "visits_all rng \<longleftrightarrow> (\<forall>m. mset (rng m) = mset m)"

abbreviation uid_of :: "client_object \<Rightarrow> string" where
  "uid_of ob \<equiv> om_UID (object_meta_of ob)"

section \<open>Generic reconciliation (common.go)\<close>

fun type_name :: "obj_kind \<Rightarrow> string" where
  "type_name ServiceKind = ''*v1.Service''"
| "type_name IngressKind = ''*v1.Ingress''"

text \<open>
  The function is generic in the type of the objects; the argument \<^term>\<open>isT\<close> is the type assertion. The loop stops at
  an object of another type, and the error it wraps there is \<^verbatim>\<open>nil\<close>.
\<close>

fun collect_typed :: "(client_object \<Rightarrow> bool) \<Rightarrow> obj_kind \<Rightarrow> client_object list \<Rightarrow> owned_objects \<Rightarrow> goerr + owned_objects" where
  "collect_typed isT l [] acc = Inr acc"
| "collect_typed isT l (ob # obs) acc =
     (if isT ob then collect_typed isT l obs (gset (uid_of ob) ob acc)
      else Inl (ErrNew (''error listing '' @ type_name l @ '': %!w(<nil>)'')))"

definition getList ::
  "'v ig_env \<Rightarrow> (client_object \<Rightarrow> bool) \<Rightarrow> obj_kind \<Rightarrow> string \<Rightarrow> string \<Rightarrow> ig_history \<Rightarrow> (goerr + owned_objects) \<times> ig_history" where
  "getList E isT l namespace owner h =
     (case ie_GVKForObject E l of
        Inl err \<Rightarrow> (Inl err, h)
      | Inr kind \<Rightarrow>
          (case ie_NewList E (kind @ ''List'') of
             Inl err \<Rightarrow> (Inl (ErrWrap (''unable to list objects of type '' @ kind @ ''List: '') err), h)
           | Inr (list, isObjectList) \<Rightarrow>
               if \<not> isObjectList then (Inl (ErrNew (''unable to cast '' @ list @ '' to ObjectList'')), h)
               else (case ie_List E h l namespace owner of
                       Inl err \<Rightarrow> (Inl (ErrWrap (''error listing '' @ type_name l @ '': '') err), IListOwned l namespace owner # h)
                     | Inr objs \<Rightarrow>
                         (case ie_ExtractError E objs of
                            Some err \<Rightarrow> (Inl (ErrWrap (''error listing '' @ type_name l @ '': '') err), IListOwned l namespace owner # h)
                          | None \<Rightarrow> (collect_typed isT l objs [], IListOwned l namespace owner # h)))))"

fun isNamespaceScoped :: "client_object \<Rightarrow> bool" where
  "isNamespaceScoped (OOther t m) \<longleftrightarrow> t \<noteq> ''ClusterRole'' \<and> t \<noteq> ''ClusterRoleBinding''"
| "isNamespaceScoped _ \<longleftrightarrow> True"

text \<open>The outcome of the loop over the desired objects: an early return, or the errors and what is left to prune.\<close>

datatype desired_result = Abort goerr | Collected "goerr list" owned_objects

definition own_object :: "'v ig_env \<Rightarrow> object_meta \<Rightarrow> client_object \<Rightarrow> goerr + client_object" where
  "own_object E owner desired =
     (if isNamespaceScoped desired
      then (case kl_SetControllerReference (ie_lib E) owner ''MdaiIngress'' (object_meta_of desired) of
              Inl err \<Rightarrow> Inl err
            | Inr m \<Rightarrow> Inr (set_object_meta m desired))
      else Inr desired)"

fun desired_loop ::
  "'v ig_env \<Rightarrow> object_meta \<Rightarrow> client_object list \<Rightarrow> goerr list \<Rightarrow> owned_objects \<Rightarrow> ig_history \<Rightarrow> desired_result \<times> ig_history" where
  "desired_loop E owner [] errs owned h = (Collected errs owned, h)"
| "desired_loop E owner (desired # rest) errs owned h =
     (case own_object E owner desired of
        Inl setErr \<Rightarrow> desired_loop E owner rest (errs @ [setErr]) owned h
      | Inr desired1 \<Rightarrow>
          (let (existing, crudErr) = ie_CreateOrUpdate E h desired1 (\<lambda>x. MutateFuncFor (ie_merge E) x desired1);
               h1 = ICreateOrUpdate desired1 existing crudErr # h
           in case crudErr of
                None \<Rightarrow> desired_loop E owner rest errs (gdelete (uid_of existing) owned) h1
              | Some err \<Rightarrow>
                  if ie_IsImmutableChange E err
                  then (case ie_Delete E h1 existing of
                          Some delErr \<Rightarrow> (Abort delErr, IDelete existing # h1)
                        | None \<Rightarrow> desired_loop E owner rest errs owned (IDelete existing # h1))
                  else desired_loop E owner rest (errs @ [err]) owned h1))"

fun delete_loop :: "'v ig_env \<Rightarrow> owned_objects \<Rightarrow> goerr list \<Rightarrow> ig_history \<Rightarrow> goerr list \<times> ig_history" where
  "delete_loop E [] errs h = (errs, h)"
| "delete_loop E ((u, ob) # obs) errs h =
     (case ie_Delete E h ob of
        None \<Rightarrow> delete_loop E obs errs (IDelete ob # h)
      | Some err \<Rightarrow> delete_loop E obs (errs @ [err]) (IDelete ob # h))"

definition deleteObjects :: "'v ig_env \<Rightarrow> owned_objects \<Rightarrow> ig_history \<Rightarrow> goerr option \<times> ig_history" where
  "deleteObjects E objects h =
     (case delete_loop E (ie_range E objects) [] h of
        (pruneErrs, h1) \<Rightarrow> (if pruneErrs = [] then None else Some (ErrJoin pruneErrs), h1))"

definition reconcileDesiredObjects ::
  "'v ig_env \<Rightarrow> object_meta \<Rightarrow> client_object list \<Rightarrow> owned_objects \<Rightarrow> ig_history \<Rightarrow> goerr option \<times> ig_history" where
  "reconcileDesiredObjects E owner desiredObjects ownedObjects h =
     (case desired_loop E owner desiredObjects [] ownedObjects h of
        (Abort delErr, h1) \<Rightarrow> (Some delErr, h1)
      | (Collected errs owned, h1) \<Rightarrow>
          if errs \<noteq> []
          then (Some (ErrWrap (''failed to create objects for '' @ om_Name owner @ '': '') (ErrJoin errs)), h1)
          else (case deleteObjects E owned h1 of
                  (Some err, h2) \<Rightarrow> (Some (ErrWrap (''failed to prune objects for '' @ om_Name owner @ '': '') err), h2)
                | (None, h2) \<Rightarrow> (None, h2)))"

section \<open>The controller (mdaiingress\_controller.go)\<close>

definition ErrIncorrectOtelcolRef :: goerr where "ErrIncorrectOtelcolRef = ErrNew ''incorrect Otelcol reference''"

text \<open>The index functions of the manager.\<close>

definition IndexerOtelCol :: "mdai_ingress option \<Rightarrow> string list" where
  "IndexerOtelCol ob =
     (case ob of None \<Rightarrow> [] | Some a \<Rightarrow> if mi_OtelCollector a \<noteq> [] then [mi_OtelCollector a] else [])"

fun service_owner_index :: "client_object \<Rightarrow> string list" where
  "service_owner_index (OService s) =
     (case om_OwnerReferences (svc_Meta s) of [] \<Rightarrow> [] | r # _ \<Rightarrow> [or_Name r])"
| "service_owner_index _ = []"

fun ingress_owner_index :: "client_object \<Rightarrow> string list" where
  "ingress_owner_index (OIngress i) = map or_Name (om_OwnerReferences (ing_Meta i))"
| "ingress_owner_index _ = []"

definition GetOwnedResourceTypes :: "obj_kind list" where
  "GetOwnedResourceTypes = [ServiceKind, IngressKind]"

text \<open>The objects are passed as \<^verbatim>\<open>client.Object\<close>, so the type assertion of \<^const>\<open>getList\<close> always succeeds here.\<close>

fun owned_loop ::
  "'v ig_env \<Rightarrow> string \<Rightarrow> string \<Rightarrow> obj_kind list \<Rightarrow> owned_objects \<Rightarrow> ig_history \<Rightarrow> (goerr + owned_objects) \<times> ig_history" where
  "owned_loop E namespace owner [] acc h = (Inr acc, h)"
| "owned_loop E namespace owner (k # ks) acc h =
     (case getList E (\<lambda>_. True) k namespace owner h of
        (Inl err, h1) \<Rightarrow> (Inl err, h1)
      | (Inr objs, h1) \<Rightarrow> owned_loop E namespace owner ks (maps_copy acc (ie_range E objs)) h1)"

definition findMdaiIngressOwnedObjects ::
  "'v ig_env \<Rightarrow> 'v params \<Rightarrow> ig_history \<Rightarrow> (goerr + owned_objects) \<times> ig_history" where
  "findMdaiIngressOwnedObjects E params h =
     (let m = mi_Meta (pa_MdaiIngress params)
      in owned_loop E (om_Namespace m) (om_Name m) GetOwnedResourceTypes [] h)"

text \<open>The zero value of the collector resource.\<close>

definition zero_otelcol :: "'v otel_config \<Rightarrow> 'v otelcol" where
  "zero_otelcol c = \<lparr>ocl_Meta = empty_meta, ocl_Image = [], ocl_Mode = [], ocl_Ports = [], ocl_IngressType = [],
     ocl_IngressRuleType = [], ocl_IngressTLS = [], ocl_IngressClassName = None, ocl_Config = c\<rparr>"

definition BuildCollector ::
  "'v option codec \<Rightarrow> 'v port_lib \<Rightarrow> 'v params \<Rightarrow> 'v registries \<Rightarrow> client_object list outcome \<times> 'v registries" where
  "BuildCollector cd pl params rg = collector_Build cd pl params rg"

definition ingress_Reconcile ::
  "'v ig_env \<Rightarrow> 'v option codec \<Rightarrow> 'v port_lib \<Rightarrow> nsname \<Rightarrow> 'v registries \<times> ig_history
     \<Rightarrow> reconcile_return \<times> 'v registries \<times> ig_history" where
  "ingress_Reconcile E cd pl req = (\<lambda>(rg, h).
     let done = (\<lambda>err. Done \<lparr>res_RequeueAfter = 0\<rparr> err); h1 = IGetIngress req # h
     in case ie_GetIngress E h req of
          Inl err \<Rightarrow> (done (if kl_IsNotFound (ie_lib E) err then None else Some err), rg, h1)
        | Inr mi \<Rightarrow>
            if mi_OtelCollector mi = [] then (done (Some ErrIncorrectOtelcolRef), rg, h1)
            else (let k = \<lparr>nn_Name = mi_OtelCollector mi, nn_Namespace = nn_Namespace req\<rparr>;
                      h2 = IGetOtelcol k # h1;
                      proceed = (\<lambda>otelcol.
                        let params = NewOtelIngressConfig otelcol mi
                        in case BuildCollector cd pl params rg of
                             (Panic m, rg1) \<Rightarrow> (Crashed m, rg1, h2)
                           | (Err buildErr, rg1) \<Rightarrow> (done (Some buildErr), rg1, h2)
                           | (Ok desiredObjects, rg1) \<Rightarrow>
                               (case findMdaiIngressOwnedObjects E params h2 of
                                  (Inl err, h3) \<Rightarrow> (done (Some err), rg1, h3)
                                | (Inr ownedObjects, h3) \<Rightarrow>
                                    (case reconcileDesiredObjects E (mi_Meta mi) desiredObjects ownedObjects h3 of
                                       (err, h4) \<Rightarrow> (done err, rg1, h4))))
                  in case ie_GetOtelcol E h1 k of
                       Inl err \<Rightarrow>
                         if \<not> kl_IsNotFound (ie_lib E) err then (done (Some err), rg, h2)
                         else proceed (zero_otelcol (ie_zero_config E))
                     | Inr otelcol \<Rightarrow> proceed otelcol))"

definition otelColExists :: "'v ig_env \<Rightarrow> string \<Rightarrow> string \<Rightarrow> ig_history \<Rightarrow> bool \<times> ig_history" where
  "otelColExists E name namespace h =
     (let k = \<lparr>nn_Name = name, nn_Namespace = namespace\<rparr>
      in (case ie_GetOtelcol E h k of Inl _ \<Rightarrow> False | Inr _ \<Rightarrow> True, IGetOtelcol k # h))"

definition findMdaiIngress :: "'v ig_env \<Rightarrow> string \<Rightarrow> string \<Rightarrow> ig_history \<Rightarrow> string option \<times> ig_history" where
  "findMdaiIngress E name namespace h =
     (case ie_ListIngresses E h namespace name of
        Inl _ \<Rightarrow> None
      | Inr [] \<Rightarrow> None
      | Inr (mi # _) \<Rightarrow> Some (om_Name (mi_Meta mi)), IListIngresses namespace name # h)"

definition requeueByCollectorRef ::
  "'v ig_env \<Rightarrow> object_meta option \<Rightarrow> ig_history \<Rightarrow> nsname list \<times> ig_history" where
  "requeueByCollectorRef E collector h =
     (case collector of
        None \<Rightarrow> ([], h)
      | Some m \<Rightarrow>
          (case findMdaiIngress E (om_Name m) (om_Namespace m) h of
             (None, h1) \<Rightarrow> ([], h1)
           | (Some n, h1) \<Rightarrow> ([\<lparr>nn_Name = n, nn_Namespace = om_Namespace m\<rparr>], h1)))"

text \<open>Events of the watched objects; \<^const>\<open>None\<close> is an object of another type.\<close>

datatype 'o watch_event = CreateEvent "'o option" | UpdateEvent "'o option" "'o option" | DeleteEvent "'o option" | GenericEvent "'o option"

text \<open>\<^verbatim>\<open>reflect.DeepEqual\<close> of the specs: maps are equal when their entries are.\<close>

definition service_DeepEqual :: "ingress_service option \<Rightarrow> ingress_service option \<Rightarrow> bool" where
  "service_DeepEqual a b \<longleftrightarrow>
     (case (a, b) of
        (None, None) \<Rightarrow> True
      | (Some x, Some y) \<Rightarrow> isv_Type x = isv_Type y \<and> set (isv_Annotations x) = set (isv_Annotations y)
      | _ \<Rightarrow> False)"

definition spec_DeepEqual :: "mdai_ingress \<Rightarrow> mdai_ingress \<Rightarrow> bool" where
  "spec_DeepEqual a b \<longleftrightarrow> mi_OtelCollector a = mi_OtelCollector b \<and> mi_CloudType a = mi_CloudType b \<and>
     set (mi_Annotations a) = set (mi_Annotations b) \<and> mi_IngressClassName a = mi_IngressClassName b \<and>
     service_DeepEqual (mi_GrpcService a) (mi_GrpcService b) \<and>
     service_DeepEqual (mi_NonGrpcService a) (mi_NonGrpcService b) \<and>
     set (mi_CollectorEndpoints a) = set (mi_CollectorEndpoints b)"

definition mdaiIngressPredicates ::
  "'v ig_env \<Rightarrow> mdai_ingress watch_event \<Rightarrow> ig_history \<Rightarrow> bool \<times> ig_history" where
  "mdaiIngressPredicates E e h =
     (case e of
        CreateEvent None \<Rightarrow> (False, h)
      | CreateEvent (Some cr) \<Rightarrow> otelColExists E (mi_OtelCollector cr) (om_Namespace (mi_Meta cr)) h
      | UpdateEvent old new \<Rightarrow>
          (case (new, old) of
             (Some newCr, Some oldCr) \<Rightarrow>
               if spec_DeepEqual oldCr newCr then (False, h)
               else (case otelColExists E (mi_OtelCollector newCr) (om_Namespace (mi_Meta newCr)) h of
                       (True, h1) \<Rightarrow> (True, h1)
                     | (False, h1) \<Rightarrow> otelColExists E (mi_OtelCollector oldCr) (om_Namespace (mi_Meta oldCr)) h1)
           | _ \<Rightarrow> (False, h))
      | DeleteEvent _ \<Rightarrow> (False, h)
      | GenericEvent _ \<Rightarrow> (False, h))"

definition otelcolPredicates :: "'v ig_env \<Rightarrow> 'v otelcol watch_event \<Rightarrow> bool" where
  "otelcolPredicates E e =
     (case e of
        UpdateEvent (Some oldCR) (Some newCR) \<Rightarrow> \<not> ie_ConfigDeepEqual E (ocl_Config oldCR) (ocl_Config newCR)
      | UpdateEvent _ _ \<Rightarrow> False
      | CreateEvent _ \<Rightarrow> True
      | DeleteEvent _ \<Rightarrow> True
      | GenericEvent _ \<Rightarrow> False)"

section \<open>What a reconciliation did\<close>

text \<open>Read off the calls: the objects that were applied, and those deleted to be created anew.\<close>

definition applied :: "string \<Rightarrow> ig_history \<Rightarrow> bool" where
  "applied u calls \<longleftrightarrow> (\<exists>d ex. ICreateOrUpdate d ex None \<in> set calls \<and> uid_of ex = u)"

definition replaced :: "'v ig_env \<Rightarrow> ig_history \<Rightarrow> client_object \<Rightarrow> bool" where
  "replaced E calls ob \<longleftrightarrow> (\<exists>d err. ICreateOrUpdate d ob (Some err) \<in> set calls \<and> ie_IsImmutableChange E err)"

definition none_failed :: "'v ig_env \<Rightarrow> ig_history \<Rightarrow> bool" where
  "none_failed E calls \<longleftrightarrow> (\<forall>d ex err. ICreateOrUpdate d ex (Some err) \<in> set calls \<longrightarrow> ie_IsImmutableChange E err)"

text \<open>One record of the calls of the loop, with what is left to prune.\<close>

definition loop_record ::
  "'v ig_env \<Rightarrow> goerr list \<Rightarrow> owned_objects \<Rightarrow> ig_history \<Rightarrow> desired_result \<Rightarrow> bool" where
  "loop_record E errs owned new r \<longleftrightarrow>
     (\<forall>ob. IDelete ob \<in> set new \<longrightarrow> replaced E new ob) \<and>
     (case r of Abort _ \<Rightarrow> True
      | Collected errs' owned' \<Rightarrow>
          (\<exists>es. errs' = errs @ es \<and> (es = [] \<longrightarrow> none_failed E new)) \<and>
          (\<forall>u ob. (u, ob) \<in> set owned' \<longleftrightarrow> (u, ob) \<in> set owned \<and> \<not> applied u new))"

lemma applied_append [simp]: "applied u (a @ b) \<longleftrightarrow> applied u a \<or> applied u b"
  by (auto simp: applied_def)

lemma none_failed_append [simp]: "none_failed E (a @ b) \<longleftrightarrow> none_failed E a \<and> none_failed E b"
  by (auto simp: none_failed_def)

lemma replaced_append [simp]: "replaced E (a @ b) ob \<longleftrightarrow> replaced E a ob \<or> replaced E b ob"
  by (auto simp: replaced_def)

lemma applied_simps [simp]:
  "\<not> applied u []" "applied u [ICreateOrUpdate d ex None] \<longleftrightarrow> uid_of ex = u"
  "\<not> applied u [ICreateOrUpdate d ex (Some err)]" "\<not> applied u [IDelete ob, ICreateOrUpdate d ex (Some err)]"
  by (auto simp: applied_def)

lemma none_failed_simps [simp]:
  "none_failed E []" "none_failed E [ICreateOrUpdate d ex None]"
  "none_failed E [ICreateOrUpdate d ex (Some err)] \<longleftrightarrow> ie_IsImmutableChange E err"
  "none_failed E [IDelete ob, ICreateOrUpdate d ex (Some err)] \<longleftrightarrow> ie_IsImmutableChange E err"
  by (auto simp: none_failed_def)

lemma replaced_simps [simp]:
  "replaced E [IDelete ob, ICreateOrUpdate d ex (Some err)] ob' \<longleftrightarrow> ie_IsImmutableChange E err \<and> ex = ob'"
  by (auto simp: replaced_def)

lemma set_gdelete: "(u, ob) \<in> set (gdelete k m) \<longleftrightarrow> (u, ob) \<in> set m \<and> u \<noteq> k"
  by (auto simp: AList.delete_eq)

text \<open>The record of the rest of the loop, extended by one turn.\<close>

lemma loop_record_step:
  assumes "loop_record E errs1 owned1 new r"
    and "\<And>ob. IDelete ob \<in> set turn \<Longrightarrow> replaced E turn ob"
    and "\<exists>es. errs1 = errs @ es \<and> (es = [] \<longrightarrow> none_failed E turn)"
    and "\<And>u ob. (u, ob) \<in> set owned1 \<longleftrightarrow> (u, ob) \<in> set owned \<and> \<not> applied u turn"
  shows "loop_record E errs owned (new @ turn) r"
  using assms unfolding loop_record_def by (cases r) (fastforce, auto)

lemma desired_loop_record:
  "desired_loop E owner ds errs owned h = (r, h') \<Longrightarrow> \<exists>new. h' = new @ h \<and> loop_record E errs owned new r"
proof (induction ds arbitrary: errs owned h)
  case Nil
  then show ?case by (auto simp: loop_record_def)
next
  case (Cons d ds)
  show ?case
  proof (cases "own_object E owner d")
    case (Inl e)
    with Cons.prems obtain new where "h' = new @ h" "loop_record E (errs @ [e]) owned new r"
      using Cons.IH [of "errs @ [e]" owned h] by auto
    then show ?thesis using loop_record_step [of E "errs @ [e]" owned new r "[]" errs owned] by auto
  next
    case (Inr d1)
    obtain ex ce where c: "ie_CreateOrUpdate E h d1 (\<lambda>x. MutateFuncFor (ie_merge E) x d1) = (ex, ce)" by fastforce
    let ?h1 = "ICreateOrUpdate d1 ex ce # h"
    show ?thesis
    proof (cases ce)
      case None
      with Cons.prems Inr c obtain new where "h' = new @ ?h1" "loop_record E errs (gdelete (uid_of ex) owned) new r"
        using Cons.IH [of errs "gdelete (uid_of ex) owned" ?h1] by (auto simp: Let_def)
      then show ?thesis
        using loop_record_step [of E errs "gdelete (uid_of ex) owned" new r "[ICreateOrUpdate d1 ex None]" errs owned] None
        by (intro exI [of _ "new @ [ICreateOrUpdate d1 ex None]"]) (auto simp: set_gdelete)
    next
      case (Some err)
      show ?thesis
      proof (cases "ie_IsImmutableChange E err")
        case False
        with Cons.prems Inr c Some obtain new where "h' = new @ ?h1" "loop_record E (errs @ [err]) owned new r"
          using Cons.IH [of "errs @ [err]" owned ?h1] by (auto simp: Let_def)
        then show ?thesis
          using loop_record_step [of E "errs @ [err]" owned new r "[ICreateOrUpdate d1 ex (Some err)]" errs owned] Some
          by (intro exI [of _ "new @ [ICreateOrUpdate d1 ex (Some err)]"]) auto
      next
        case imm: True
        let ?turn = "[IDelete ex, ICreateOrUpdate d1 ex (Some err)]"
        show ?thesis
        proof (cases "ie_Delete E ?h1 ex")
          case None
          with Cons.prems Inr c Some imm obtain new where "h' = new @ IDelete ex # ?h1" "loop_record E errs owned new r"
            using Cons.IH [of errs owned "IDelete ex # ?h1"] by (auto simp: Let_def)
          then show ?thesis
            using loop_record_step [of E errs owned new r ?turn errs owned] Some imm
            by (intro exI [of _ "new @ ?turn"]) auto
        next
          case (Some de)
          with Cons.prems Inr c \<open>ce = Some err\<close> imm have "h' = ?turn @ h" "r = Abort de" by (auto simp: Let_def)
          then show ?thesis using imm by (intro exI [of _ ?turn]) (auto simp: loop_record_def)
        qed
      qed
    qed
  qed
qed

lemma delete_loop_calls: "snd (delete_loop E obs errs h) = rev (map (IDelete \<circ> snd) obs) @ h"
  by (induction obs arbitrary: errs h) (auto split: option.splits)

lemma set_range: "visits_all rng \<Longrightarrow> set (rng m) = set m"
  unfolding visits_all_def by (metis set_mset_mset)

lemma deleteObjects_calls:
  assumes "visits_all (ie_range E)" "deleteObjects E owned h = (r, h')"
  shows "\<exists>dels. h' = dels @ h \<and> set dels = IDelete ` snd ` set owned"
proof -
  have "h' = snd (delete_loop E (ie_range E owned) [] h)"
    using assms(2) by (auto simp: deleteObjects_def split: prod.splits)
  then show ?thesis using set_range [OF assms(1), of owned]
    by (intro exI [of _ "rev (map (IDelete \<circ> snd) (ie_range E owned))"])
      (auto simp: delete_loop_calls image_image)
qed

lemma deletes_neutral:
  assumes "set dels = IDelete ` S"
  shows "\<not> applied u dels" "none_failed E dels" "\<not> replaced E dels ob"
  using assms by (auto simp: applied_def none_failed_def replaced_def)

lemma prune_calls:
  assumes "visits_all (ie_range E)" "reconcileDesiredObjects E owner ds owned h = (r, h')"
  shows "\<exists>new. h' = new @ h \<and>
    (\<forall>ob. IDelete ob \<in> set new \<longrightarrow>
       replaced E new ob \<or> (\<exists>u. (u, ob) \<in> set owned \<and> \<not> applied u new) \<and> none_failed E new) \<and>
    (r = None \<longrightarrow> (\<forall>u ob. (u, ob) \<in> set owned \<and> \<not> applied u new \<longrightarrow> IDelete ob \<in> set new))"
proof -
  obtain lr h1 where l: "desired_loop E owner ds [] owned h = (lr, h1)" by fastforce
  then obtain new where new: "h1 = new @ h" "loop_record E [] owned new lr" using desired_loop_record by blast
  show ?thesis
  proof (cases lr)
    case (Abort e)
    with assms(2) l new show ?thesis by (auto simp: reconcileDesiredObjects_def loop_record_def)
  next
    case (Collected errs left)
    show ?thesis
    proof (cases "errs = []")
      case False
      with assms(2) l new Collected show ?thesis by (auto simp: reconcileDesiredObjects_def loop_record_def)
    next
      case True
      obtain r' where d: "deleteObjects E left h1 = (r', h')"
        using assms(2) l Collected True by (auto simp: reconcileDesiredObjects_def split: prod.splits option.splits)
      obtain dels where dels: "h' = dels @ h1" "set dels = IDelete ` snd ` set left"
        using deleteObjects_calls [OF assms(1) d] by blast
      have neutral: "\<And>u. \<not> applied u dels" "none_failed E dels" "\<And>ob. \<not> replaced E dels ob"
        by (rule deletes_neutral [OF dels(2)])+
      have left: "\<And>u ob. (u, ob) \<in> set left \<longleftrightarrow> (u, ob) \<in> set owned \<and> \<not> applied u new"
        and nf: "none_failed E new" and rep: "\<And>ob. IDelete ob \<in> set new \<Longrightarrow> replaced E new ob"
        using new(2) Collected True by (auto simp: loop_record_def)
      show ?thesis
        using new(1) dels left nf rep neutral
        by (intro exI [of _ "dels @ new"]) (auto simp: image_iff, (metis snd_conv)+)
    qed
  qed
qed

text \<open>
  C10. Reconciling the desired objects of an ingress (in any iteration order): an object is deleted only because its
  update changed an immutable field, or because it is owned, was not applied in this run, and no create or update of the
  run failed otherwise; and a run that reports success has deleted every owned object it did not apply.
\<close>

theorem prune_exactly_unmanaged:
  assumes "visits_all (ie_range E)" "reconcileDesiredObjects E owner ds owned h = (r, h')"
  shows "\<exists>new. h' = new @ h \<and>
    (\<forall>ob. IDelete ob \<in> set new \<longrightarrow>
       replaced E new ob \<or> (\<exists>u. (u, ob) \<in> set owned \<and> \<not> applied u new) \<and> none_failed E new) \<and>
    (r = None \<longrightarrow> (\<forall>u ob. (u, ob) \<in> set owned \<and> \<not> applied u new \<longrightarrow> IDelete ob \<in> set new))"
  using prune_calls [OF assms] .

text \<open>A cluster that owns two services of which the desired objects only mention the first.\<close>

definition named_service :: "string \<Rightarrow> string \<Rightarrow> client_object" where
  "named_service n u = OService \<lparr>svc_Meta = (meta_named n ''otel'')\<lparr>om_UID := u\<rparr>,
     svc_Spec = \<lparr>ss_Ports = [], ss_Selector = None, ss_Type = [], ss_InternalTrafficPolicy = None\<rparr>\<rparr>"

definition sample_ig_env :: "unit ig_env" where
  "sample_ig_env = \<lparr>
     ie_GetIngress = (\<lambda>_ _. Inl (ErrNew ''not found'')), ie_GetOtelcol = (\<lambda>_ _. Inl (ErrNew ''not found'')),
     ie_ListIngresses = (\<lambda>_ _ _. Inr []), ie_GVKForObject = (\<lambda>_. Inr ''Service''), ie_NewList = (\<lambda>_. Inr ([], True)),
     ie_List = (\<lambda>_ _ _ _. Inr []), ie_ExtractError = (\<lambda>_. None),
     ie_CreateOrUpdate = (\<lambda>_ d _. (set_object_meta ((object_meta_of d)\<lparr>om_UID := ''u1''\<rparr>) d, None)),
     ie_Delete = (\<lambda>_ _. None), ie_IsImmutableChange = (\<lambda>_. False), ie_range = rev, ie_merge = sample_merge,
     ie_ConfigDeepEqual = (\<lambda>_ _. True),
     ie_zero_config = \<lparr>oc_Enabled = (\<lambda>_. []), oc_Receivers = [], oc_Exporters = []\<rparr>,
     ie_lib = sample_lib\<rparr>"

definition sample_owned :: owned_objects where
  "sample_owned = [(''u1'', named_service ''grpc'' ''u1''), (''u2'', named_service ''old'' ''u2'')]"

theorem prune_exactly_unmanaged_witness:
  "visits_all (ie_range sample_ig_env) \<and>
   (\<exists>r h'. reconcileDesiredObjects sample_ig_env (meta_named ''ing'' ''otel'') [named_service ''grpc'' []] sample_owned []
      = (r, h') \<and> r = None \<and> IDelete (named_service ''old'' ''u2'') \<in> set h' \<and>
      \<not> IDelete (named_service ''grpc'' ''u1'') \<in> set h')"
proof -
  have v: "visits_all (ie_range sample_ig_env)" by (simp add: visits_all_def sample_ig_env_def)
  obtain r h' where run: "reconcileDesiredObjects sample_ig_env (meta_named ''ing'' ''otel'')
    [named_service ''grpc'' []] sample_owned [] = (r, h')" by fastforce
  define d1 where "d1 = set_object_meta ((object_meta_of (named_service ''grpc'' []))\<lparr>om_OwnerReferences :=
    [\<lparr>or_Name = ''ing'', or_Kind = ''MdaiIngress'', or_UID = []\<rparr>]\<rparr>) (named_service ''grpc'' [])"
  define ex where "ex = set_object_meta ((object_meta_of d1)\<lparr>om_UID := ''u1''\<rparr>) d1"
  have run': "r = None" "h' = [IDelete (named_service ''old'' ''u2''), ICreateOrUpdate d1 ex None]" using run
    by (simp_all add: reconcileDesiredObjects_def sample_ig_env_def own_object_def named_service_def sample_owned_def
        sample_lib_def meta_named_def deleteObjects_def d1_def ex_def empty_meta_def AList.delete_eq)
  have "\<not> applied ''u2'' h'" unfolding run' by (simp add: applied_def ex_def d1_def named_service_def)
  moreover have "(''u2'', named_service ''old'' ''u2'') \<in> set sample_owned" by (simp add: sample_owned_def)
  ultimately have "IDelete (named_service ''old'' ''u2'') \<in> set h'"
    using prune_exactly_unmanaged [OF v run] run'(1) by auto
  moreover have "\<not> IDelete (named_service ''grpc'' ''u1'') \<in> set h'" unfolding run' by (simp add: named_service_def meta_named_def empty_meta_def)
  ultimately show ?thesis using v run run'(1) by blast
qed

end
