(* ===== verification/Hub_Controller.thy ===== *)
theory Hub_Controller
  imports Hub_Adapter Ingress_Controller "HOL-Library.Word"
begin

text \<open>
  What triggers the reconciliation of a hub (\<^verbatim>\<open>internal/controller/mdaihub_controller.go\<close>): the start-up of the
  controller with its environment variables, the subscription to changes of Valkey keys, the watch on labelled collectors
  and the predicates of the watched objects. The Valkey client, the retries of the \<^verbatim>\<open>backoff\<close> package, the label
  selector and the generation predicate of controller-runtime, and the registration with the manager are parameters.
\<close>

section \<open>Constants\<close>

definition VariableKeyPrefix :: string where "VariableKeyPrefix = ''variable/''"

text \<open>Durations are 64-bit numbers of nanoseconds.\<close>

type_synonym duration = "64 word"

definition Millisecond :: duration where "Millisecond = 1000000"

definition Hour :: duration where "Hour = 3600000000000"

definition DefaultValkeyAuditStreamExpiry :: duration where
  "DefaultValkeyAuditStreamExpiry = 30 * 24 * Hour"

section \<open>Start-up\<close>

text \<open>\<^verbatim>\<open>strconv.Atoi\<close>: an optional sign and decimal digits, in the range of a 64-bit integer.\<close>

definition Atoi :: "string \<Rightarrow> goerr + int" where
  "Atoi s =
     (let sign = (case s of c # _ \<Rightarrow> c = CHR ''-'' | [] \<Rightarrow> False);
          ds = (case s of c # r \<Rightarrow> if c = CHR ''-'' \<or> c = CHR ''+'' then r else s | [] \<Rightarrow> s);
          n = (if sign then - digits_value ds else digits_value ds)
      in if ds = [] \<or> \<not> list_all is_digit ds
         then Inl (ErrLib (''strconv.Atoi: parsing '' @ s @ '': invalid syntax''))
         else if - (2 ^ 63) \<le> n \<and> n < 2 ^ 63 then Inr n
         else Inl (ErrLib (''strconv.Atoi: parsing '' @ s @ '': value out of range'')))"

definition valkey_expiry :: "string \<Rightarrow> goerr + duration" where
  "valkey_expiry expiryMsStr =
     (if expiryMsStr = [] then Inr DefaultValkeyAuditStreamExpiry
      else (case Atoi expiryMsStr of
              Inl err \<Rightarrow> Inl err
            | Inr expiryMs \<Rightarrow> Inr (word_of_int expiryMs * Millisecond)))"

record 'c setup_env =
  su_Getenv :: "string \<Rightarrow> string"
  su_NewClient :: "nat \<Rightarrow> string \<Rightarrow> string \<Rightarrow> goerr + 'c"
  su_Retry :: "(nat \<Rightarrow> goerr + 'c) \<Rightarrow> goerr + 'c"
  su_LabelSelector :: "goerr option"
  su_Register :: "goerr option"

definition initializeValkey :: "'c setup_env \<Rightarrow> goerr + 'c" where
  "initializeValkey S =
     (let valkeyEndpoint = su_Getenv S ''VALKEY_ENDPOINT''; valkeyPassword = su_Getenv S ''VALKEY_PASSWORD''
      in if valkeyEndpoint = [] \<or> valkeyPassword = []
         then Inl (ErrNew ''VALKEY_ENDPOINT and VALKEY_PASSWORD environment variables must be set to enable ValKey client'')
         else (case su_Retry S (\<lambda>attempt. su_NewClient S attempt valkeyEndpoint valkeyPassword) of
                 Inl err \<Rightarrow> Inl (ErrWrap ''failed to initialize ValKey client after retries: '' err)
               | Inr client \<Rightarrow> Inr client))"

text \<open>The running controller: its client and the expiry that every adapter gets; it subscribes to Valkey.\<close>

record 'c hub_reconciler =
  hr_ValKeyClient :: 'c
  hr_ValkeyExpiry :: duration

definition hub_SetupWithManager :: "'c setup_env \<Rightarrow> goerr + 'c hub_reconciler" where
  "hub_SetupWithManager S =
     (case initializeValkey S of
        Inl err \<Rightarrow> Inl err
      | Inr client \<Rightarrow>
          (case valkey_expiry (su_Getenv S ''VALKEY_AUDIT_STREAM_EXPIRY_MS'') of
             Inl err \<Rightarrow> Inl err
           | Inr expiry \<Rightarrow>
               (case su_LabelSelector S of
                  Some err \<Rightarrow> Inl err
                | None \<Rightarrow>
                    (case su_Register S of
                       Some err \<Rightarrow> Inl err
                     | None \<Rightarrow> Inr \<lparr>hr_ValKeyClient = client, hr_ValkeyExpiry = expiry\<rparr>))))"

section \<open>Predicates\<close>

fun createPredicate :: "'o watch_event \<Rightarrow> bool" where
  "createPredicate (CreateEvent _) \<longleftrightarrow> True"
| "createPredicate (UpdateEvent _ _) \<longleftrightarrow> False"
| "createPredicate (DeleteEvent _) \<longleftrightarrow> False"
| "createPredicate (GenericEvent _) \<longleftrightarrow> False"

text \<open>The parameter is \<^verbatim>\<open>predicate.GenerationChangedPredicate\<close>, applied to the old and the new object.\<close>

fun mdaiResourcesPredicate :: "('o option \<Rightarrow> 'o option \<Rightarrow> bool) \<Rightarrow> 'o watch_event \<Rightarrow> bool" where
  "mdaiResourcesPredicate generationChanged (CreateEvent _) \<longleftrightarrow> False"
| "mdaiResourcesPredicate generationChanged (UpdateEvent old new) \<longleftrightarrow> generationChanged old new"
| "mdaiResourcesPredicate generationChanged (DeleteEvent _) \<longleftrightarrow> False"
| "mdaiResourcesPredicate generationChanged (GenericEvent _) \<longleftrightarrow> False"

text \<open>The watch on collectors: the label selector and the creation predicate.\<close>

definition combinedPredicate :: "('o watch_event \<Rightarrow> bool) \<Rightarrow> 'o watch_event \<Rightarrow> bool" where
  "combinedPredicate selectorPredicate e \<longleftrightarrow> selectorPredicate e \<and> createPredicate e"

section \<open>Requests\<close>

text \<open>The argument is the answer of the list of all hubs; the results are the namespace, whether a hub was found, the error.\<close>

definition findHubNamespace :: "goerr + mdai_hub list \<Rightarrow> string \<Rightarrow> string \<times> bool \<times> goerr option" where
  "findHubNamespace listed hubNameFromLabel =
     (case listed of
        Inl err \<Rightarrow> ([], False, Some err)
      | Inr hubs \<Rightarrow>
          (case find (\<lambda>hub. cr_name hub = hubNameFromLabel) hubs of
             None \<Rightarrow> ([], False, None)
           | Some targetHub \<Rightarrow> (cr_namespace targetHub, True, None)))"

definition requeueByLabels :: "goerr + mdai_hub list \<Rightarrow> 'v otelcol option \<Rightarrow> nsname list" where
  "requeueByLabels listed obj =
     (case obj of
        None \<Rightarrow> []
      | Some otelCollector \<Rightarrow>
          (case map_of (entries (om_Labels (ocl_Meta otelCollector))) LabelMdaiHubName of
             None \<Rightarrow> []
           | Some hubNameFromLabel \<Rightarrow>
               if hubNameFromLabel = [] then []
               else (case findHubNamespace listed hubNameFromLabel of
                       (hubNamespace, found, err) \<Rightarrow>
                         if \<not> found \<or> err \<noteq> None then []
                         else [\<lparr>nn_Name = hubNameFromLabel, nn_Namespace = hubNamespace\<rparr>])))"

definition keyspaceChannel :: string where "keyspaceChannel = ''__keyspace@0__:''"

text \<open>What the subscription asks for, and the events it sends to the controller for one message.\<close>

definition subscription_pattern :: string where
  "subscription_pattern = keyspaceChannel @ VariableKeyPrefix @ ''*''"

definition valkey_message :: "goerr + mdai_hub list \<Rightarrow> string \<Rightarrow> nsname list" where
  "valkey_message listed channel =
     (let key = TrimPrefix channel keyspaceChannel; parts = SplitN key (CHR ''/'') 3
      in if length parts \<noteq> 3 then []
         else (let hubName = parts ! 1
               in case findHubNamespace listed hubName of
                    (hubNamespace, found, err) \<Rightarrow>
                      if \<not> found then []
                      else if err \<noteq> None then []
                      else [\<lparr>nn_Name = hubName, nn_Namespace = hubNamespace\<rparr>]))"

section \<open>Lemmas\<close>

lemma find_Some_member: "find P xs = Some y \<Longrightarrow> y \<in> set xs \<and> P y"
  by (induction xs) (auto split: if_splits)

lemma find_unique:
  assumes "x \<in> set xs" "P x" "\<And>y. y \<in> set xs \<Longrightarrow> P y \<Longrightarrow> f y = f x"
  shows "\<exists>y. find P xs = Some y \<and> f y = f x"
proof (cases "find P xs")
  case None
  with assms(1,2) show ?thesis by (auto simp: find_None_iff)
next
  case (Some y)
  with find_Some_member [OF Some] assms(3) show ?thesis by auto
qed

lemma findHubNamespace_cases:
  obtains (found) hub hubs where "listed = Inr hubs" "hub \<in> set hubs" "cr_name hub = n"
      "findHubNamespace listed n = (cr_namespace hub, True, None)"
  | (missing) e where "findHubNamespace listed n = ([], False, e)"
proof (cases listed)
  case (Inl e)
  then show ?thesis by (auto simp: findHubNamespace_def intro: missing)
next
  case (Inr hubs)
  show ?thesis
  proof (cases "find (\<lambda>hub. cr_name hub = n) hubs")
    case None
    with Inr show ?thesis by (auto simp: findHubNamespace_def intro: missing)
  next
    case (Some hub)
    then show ?thesis using Inr find_Some_member [OF Some] found [of hubs hub] by (auto simp: findHubNamespace_def)
  qed
qed

text \<open>Splitting off a part that does not contain the separator.\<close>

lemma while_before_separator:
  assumes "c \<notin> set a"
  shows "takeWhile (\<lambda>x. x \<noteq> c) (a @ c # b) = a" "dropWhile (\<lambda>x. x \<noteq> c) (a @ c # b) = c # b"
  using assms by (induction a) auto

lemma SplitN_part:
  assumes "c \<notin> set a"
  shows "SplitN (a @ c # b) c (Suc (Suc n)) = a # SplitN b c (Suc n)"
  using while_before_separator [OF assms, of b] by simp

lemma TrimPrefix_append: "TrimPrefix (p @ s) p = s"
  by (simp add: TrimPrefix_def HasPrefix_def)

lemma variable_key_parts:
  assumes "CHR ''/'' \<notin> set n"
  shows "SplitN (VariableKeyPrefix @ n @ ''/'' @ key) (CHR ''/'') 3 = [''variable'', n, key]"
proof -
  have "SplitN (''variable'' @ CHR ''/'' # (n @ CHR ''/'' # key)) (CHR ''/'') (Suc (Suc (Suc 0)))
      = [''variable'', n, key]"
    using SplitN_part [of "CHR ''/''" "''variable''" "n @ CHR ''/'' # key" "Suc 0"] SplitN_part [OF assms, of key 0] by simp
  then show ?thesis by (simp add: VariableKeyPrefix_def numeral_3_eq_3)
qed

section \<open>Properties\<close>

text \<open>
  C19. Changing a variable of a hub in Valkey requeues that hub: for the key \<^verbatim>\<open>variable/<hub>/<key>\<close> of a listed hub
  whose name has no slash and is used in one namespace only, the subscription sends exactly one event, for that hub. And
  whatever the channel, an event is only sent for a hub that exists.
\<close>

theorem valkey_change_requeues_hub:
  assumes "hub \<in> set hubs" "CHR ''/'' \<notin> set (cr_name hub)"
    and "\<And>hub'. hub' \<in> set hubs \<Longrightarrow> cr_name hub' = cr_name hub \<Longrightarrow> cr_namespace hub' = cr_namespace hub"
  shows "valkey_message (Inr hubs) (keyspaceChannel @ VariableKeyPrefix @ cr_name hub @ ''/'' @ key) = [key_of (rs_Meta hub)] \<and>
    (\<forall>channel r. r \<in> set (valkey_message (Inr hubs) channel) \<longrightarrow> (\<exists>hub' \<in> set hubs. key_of (rs_Meta hub') = r))"
proof (intro conjI allI impI)
  obtain y where "find (\<lambda>h. cr_name h = cr_name hub) hubs = Some y" "cr_namespace y = cr_namespace hub"
    using find_unique [OF assms(1), of "\<lambda>h. cr_name h = cr_name hub" cr_namespace] assms(3) by auto
  then show "valkey_message (Inr hubs) (keyspaceChannel @ VariableKeyPrefix @ cr_name hub @ ''/'' @ key) = [key_of (rs_Meta hub)]"
    using variable_key_parts [OF assms(2), of key]
    by (simp add: valkey_message_def TrimPrefix_append findHubNamespace_def key_of_def)
next
  fix channel r assume r: "r \<in> set (valkey_message (Inr hubs) channel)"
  let ?n = "SplitN (TrimPrefix channel keyspaceChannel) (CHR ''/'') 3 ! 1"
  show "\<exists>hub' \<in> set hubs. key_of (rs_Meta hub') = r"
    by (rule findHubNamespace_cases [of "Inr hubs" ?n])
      (use r in \<open>auto simp: valkey_message_def Let_def key_of_def split: if_splits\<close>)
qed

definition watched_hub :: mdai_hub where
  "watched_hub = \<lparr>rs_Meta = meta_named ''hub'' ''mdai'', rs_Conditions = [], hub_EvaluationInterval = None,
     hub_Variables = [], hub_PrometheusAlerts = None, hub_Rules = None\<rparr>"

theorem valkey_change_requeues_hub_witness:
  "valkey_message (Inr [watched_hub]) ''__keyspace@0__:variable/hub/k/1'' = [\<lparr>nn_Name = ''hub'', nn_Namespace = ''mdai''\<rparr>]"
proof -
  have m: "watched_hub \<in> set [watched_hub]" "CHR ''/'' \<notin> set (cr_name watched_hub)"
    by (simp_all add: watched_hub_def meta_named_def)
  have "valkey_message (Inr [watched_hub]) (keyspaceChannel @ VariableKeyPrefix @ cr_name watched_hub @ ''/'' @ ''k/1'')
      = [key_of (rs_Meta watched_hub)]"
    using valkey_change_requeues_hub [OF m, of "''k/1''"] by simp
  then show ?thesis
    by (simp add: keyspaceChannel_def VariableKeyPrefix_def watched_hub_def meta_named_def key_of_def)
qed

text \<open>A custom expiry in milliseconds is exact below the range of a duration, and empty text means thirty days.\<close>

lemma valkey_expiry_exact:
  assumes "Atoi s = Inr n" "s \<noteq> []" "0 \<le> n" "n * 1000000 < 2 ^ 63"
  shows "\<exists>d. valkey_expiry s = Inr d \<and> sint d = n * 1000000"
proof -
  have "sint (word_of_int m :: duration) = m" if "- (2 ^ 63) \<le> m" "m < 2 ^ 63" for m
    using signed_take_bit_int_eq_self [of 63 m] that by (simp add: signed_of_int)
  from this [of "n * 1000000"] have "sint (word_of_int (n * 1000000) :: duration) = n * 1000000"
    using assms(3,4) by linarith
  then show ?thesis using assms by (simp add: valkey_expiry_def Millisecond_def wi_hom_mult [symmetric])
qed

lemma valkey_expiry_default: "valkey_expiry [] = Inr 2592000000000000"
  by (simp add: valkey_expiry_def DefaultValkeyAuditStreamExpiry_def Hour_def)

end
