(* ===== verification/Builders.thy ===== *)
theory Builders
  imports Kube_Types
begin

text \<open>
  The builders of \<^verbatim>\<open>internal/builder\<close>: containers, deployments, services, and the nested configuration
  maps of OpenTelemetry collectors. A builder mutates the object it holds and returns itself, so each of its methods is
  a function on the object and a chain of calls is their composition.
\<close>

section \<open>Containers (container.go)\<close>

definition Container :: "string \<Rightarrow> string \<Rightarrow> container" where
  "Container name img =
     \<lparr>ct_Name = name, ct_Image = img, ct_Command = [], ct_Ports = [], ct_VolumeMounts = [], ct_Env = [],
      ct_EnvFrom = [], ct_SecurityContext = None, ct_LivenessProbe = None, ct_ReadinessProbe = None,
      ct_ImagePullPolicy = [], ct_Resources = None\<rparr>"

definition WithCommand :: "string list \<Rightarrow> container \<Rightarrow> container" where
  "WithCommand cmd b = b\<lparr>ct_Command := cmd\<rparr>"

definition WithContainerPorts :: "container_port list \<Rightarrow> container \<Rightarrow> container" where
  "WithContainerPorts ports b = b\<lparr>ct_Ports := ports\<rparr>"

definition WithVolumeMounts :: "volume_mount list \<Rightarrow> container \<Rightarrow> container" where
  "WithVolumeMounts mounts b = b\<lparr>ct_VolumeMounts := ct_VolumeMounts b @ mounts\<rparr>"

definition WithEnv :: "env_var list \<Rightarrow> container \<Rightarrow> container" where
  "WithEnv env b = b\<lparr>ct_Env := ct_Env b @ env\<rparr>"

definition WithEnvFrom :: "env_from list \<Rightarrow> container \<Rightarrow> container" where
  "WithEnvFrom envFrom b = b\<lparr>ct_EnvFrom := ct_EnvFrom b @ envFrom\<rparr>"

definition WithSecurityContext :: "security_context option \<Rightarrow> container \<Rightarrow> container" where
  "WithSecurityContext sc b = b\<lparr>ct_SecurityContext := sc\<rparr>"

definition WithEnvFromConfigMap :: "string \<Rightarrow> container \<Rightarrow> container" where
  "WithEnvFromConfigMap configMapName b = b\<lparr>ct_EnvFrom := ct_EnvFrom b @ [ConfigMapRef configMapName]\<rparr>"

definition WithEnvFromSecret :: "string \<Rightarrow> container \<Rightarrow> container" where
  "WithEnvFromSecret secretName b = b\<lparr>ct_EnvFrom := ct_EnvFrom b @ [SecretRef secretName]\<rparr>"

definition WithAWSSecret :: "string option \<Rightarrow> container \<Rightarrow> container" where
  "WithAWSSecret secretName b =
     (case secretName of None \<Rightarrow> b | Some n \<Rightarrow> b\<lparr>ct_EnvFrom := ct_EnvFrom b @ [SecretRef n]\<rparr>)"

definition WithEnvFromSecretKey :: "string \<Rightarrow> string \<Rightarrow> string \<Rightarrow> container \<Rightarrow> container" where
  "WithEnvFromSecretKey envVarName secretName key b =
     (if secretName = [] \<or> key = [] \<or> envVarName = [] then b
      else b\<lparr>ct_Env := ct_Env b @
        [\<lparr>ev_Name = envVarName, ev_Value = [], ev_ValueFrom = Some (SecretKeyRef secretName key)\<rparr>]\<rparr>)"

definition WithLivenessProbe :: "probe option \<Rightarrow> container \<Rightarrow> container" where
  "WithLivenessProbe p b = b\<lparr>ct_LivenessProbe := p\<rparr>"

definition WithReadinessProbe :: "probe option \<Rightarrow> container \<Rightarrow> container" where
  "WithReadinessProbe p b = b\<lparr>ct_ReadinessProbe := p\<rparr>"

definition WithImagePullPolicy :: "string \<Rightarrow> container \<Rightarrow> container" where
  "WithImagePullPolicy pullPolicy b = b\<lparr>ct_ImagePullPolicy := pullPolicy\<rparr>"

section \<open>Deployments (deployment.go)\<close>

text \<open>The empty deployment that a controller names before it fetches it.\<close>

definition empty_template :: pod_template where
  "empty_template = \<lparr>pt_Labels = None, pt_Annotations = None, pt_ServiceAccountName = [], pt_Containers = [],
     pt_Volumes = [], pt_Tolerations = []\<rparr>"

definition deployment_named :: "object_meta \<Rightarrow> deployment" where
  "deployment_named m = \<lparr>dep_Meta = m, dep_Selector = None, dep_Replicas = None, dep_Template = empty_template,
     dep_StatusReplicas = 0, dep_StatusReadyReplicas = 0\<rparr>"

definition WithLabel :: "string \<Rightarrow> string \<Rightarrow> deployment \<Rightarrow> deployment" where
  "WithLabel key value d =
     d\<lparr>dep_Meta := (dep_Meta d)\<lparr>om_Labels := set_entry key value (om_Labels (dep_Meta d))\<rparr>\<rparr>"

definition WithSelectorLabel :: "string \<Rightarrow> string \<Rightarrow> deployment \<Rightarrow> deployment" where
  "WithSelectorLabel key value d =
     (let selector = (case dep_Selector d of None \<Rightarrow> None | Some m \<Rightarrow> m)
      in d\<lparr>dep_Selector := Some (set_entry key value selector)\<rparr>)"

definition WithTemplateLabel :: "string \<Rightarrow> string \<Rightarrow> deployment \<Rightarrow> deployment" where
  "WithTemplateLabel key value d =
     d\<lparr>dep_Template := (dep_Template d)\<lparr>pt_Labels := set_entry key value (pt_Labels (dep_Template d))\<rparr>\<rparr>"

definition WithTemplateAnnotation :: "string \<Rightarrow> string \<Rightarrow> deployment \<Rightarrow> deployment" where
  "WithTemplateAnnotation key value d =
     d\<lparr>dep_Template := (dep_Template d)\<lparr>pt_Annotations := set_entry key value (pt_Annotations (dep_Template d))\<rparr>\<rparr>"

definition WithReplicas :: "int \<Rightarrow> deployment \<Rightarrow> deployment" where
  "WithReplicas n d = d\<lparr>dep_Replicas := Some n\<rparr>"

definition WithServiceAccount :: "string \<Rightarrow> deployment \<Rightarrow> deployment" where
  "WithServiceAccount name d = d\<lparr>dep_Template := (dep_Template d)\<lparr>pt_ServiceAccountName := name\<rparr>\<rparr>"

definition WithContainers :: "container list \<Rightarrow> deployment \<Rightarrow> deployment" where
  "WithContainers cs d = d\<lparr>dep_Template := (dep_Template d)\<lparr>pt_Containers := cs\<rparr>\<rparr>"

definition WithVolumes :: "volume list \<Rightarrow> deployment \<Rightarrow> deployment" where
  "WithVolumes vs d = d\<lparr>dep_Template := (dep_Template d)\<lparr>pt_Volumes := vs\<rparr>\<rparr>"

fun valid_tolerations :: "toleration list \<Rightarrow> toleration list" where
  "valid_tolerations [] = []"
| "valid_tolerations (t # ts) =
     (if tol_Key t = [] \<and> tol_Operator t = [] then valid_tolerations ts
      else if tol_Key t = [] \<and> tol_Operator t \<noteq> ''Exists''
      then t\<lparr>tol_Operator := ''Exists''\<rparr> # valid_tolerations ts
      else t # valid_tolerations ts)"

definition WithTolerations :: "toleration list \<Rightarrow> deployment \<Rightarrow> deployment" where
  "WithTolerations tolerations d =
     d\<lparr>dep_Template := (dep_Template d)\<lparr>pt_Tolerations := valid_tolerations tolerations\<rparr>\<rparr>"

section \<open>Services (service.go)\<close>

definition service_named :: "object_meta \<Rightarrow> service" where
  "service_named m = \<lparr>svc_Meta = m,
     svc_Spec = \<lparr>ss_Ports = [], ss_Selector = None, ss_Type = [], ss_InternalTrafficPolicy = None\<rparr>\<rparr>"

definition WithServiceLabel :: "string \<Rightarrow> string \<Rightarrow> service \<Rightarrow> service" where
  "WithServiceLabel key value s =
     s\<lparr>svc_Meta := (svc_Meta s)\<lparr>om_Labels := set_entry key value (om_Labels (svc_Meta s))\<rparr>\<rparr>"

definition WithServiceSelectorLabel :: "string \<Rightarrow> string \<Rightarrow> service \<Rightarrow> service" where
  "WithServiceSelectorLabel key value s =
     s\<lparr>svc_Spec := (svc_Spec s)\<lparr>ss_Selector := set_entry key value (ss_Selector (svc_Spec s))\<rparr>\<rparr>"

definition WithPorts :: "service_port list \<Rightarrow> service \<Rightarrow> service" where
  "WithPorts ports s = s\<lparr>svc_Spec := (svc_Spec s)\<lparr>ss_Ports := ports\<rparr>\<rparr>"

definition WithType :: "string \<Rightarrow> service \<Rightarrow> service" where
  "WithType svcType s = s\<lparr>svc_Spec := (svc_Spec s)\<lparr>ss_Type := svcType\<rparr>\<rparr>"

section \<open>Configuration maps (otelconfig.go)\<close>

text \<open>
  The values of a \<^verbatim>\<open>map[string]any\<close>, by their dynamic Go type: a type assertion succeeds only on its own
  constructor. A failed \<^verbatim>\<open>Must\<close> call is a panic.
\<close>

datatype gval =
    GStr string | GInt int | GFloat string | GBool bool | GSlice "gval list" | GStrs "string list"
  | GMap "(string \<times> gval) list" | GBlock "(string \<times> gval) list" | GStruct "(string \<times> gval) list"

type_synonym block = "(string, gval) gomap"

fun as_map :: "gval \<Rightarrow> block option" where
  "as_map (GMap m) = Some m"
| "as_map _ = None"

fun as_slice :: "gval \<Rightarrow> gval list option" where
  "as_slice (GSlice xs) = Some xs"
| "as_slice _ = None"

fun as_string :: "gval \<Rightarrow> string option" where
  "as_string (GStr s) = Some s"
| "as_string _ = None"

fun as_int :: "gval \<Rightarrow> int option" where
  "as_int (GInt i) = Some i"
| "as_int _ = None"

fun as_float :: "gval \<Rightarrow> string option" where
  "as_float (GFloat f) = Some f"
| "as_float _ = None"

definition getAs :: "(gval \<Rightarrow> 'a option) \<Rightarrow> block \<Rightarrow> string \<Rightarrow> 'a option" where
  "getAs T m key = (case gget m key of None \<Rightarrow> None | Some v \<Rightarrow> T v)"

definition mustGetAs :: "(gval \<Rightarrow> 'a option) \<Rightarrow> block \<Rightarrow> string \<Rightarrow> 'a outcome" where
  "mustGetAs T m key =
     (case getAs T m key of None \<Rightarrow> Panic (''unexpected value at key '' @ key) | Some v \<Rightarrow> Ok v)"

definition GetMap :: "block \<Rightarrow> string \<Rightarrow> block option" where "GetMap = getAs as_map"
definition MustMap :: "block \<Rightarrow> string \<Rightarrow> block outcome" where "MustMap = mustGetAs as_map"
definition GetSlice :: "block \<Rightarrow> string \<Rightarrow> gval list option" where "GetSlice = getAs as_slice"
definition MustSlice :: "block \<Rightarrow> string \<Rightarrow> gval list outcome" where "MustSlice = mustGetAs as_slice"
definition GetString :: "block \<Rightarrow> string \<Rightarrow> string option" where "GetString = getAs as_string"
definition MustString :: "block \<Rightarrow> string \<Rightarrow> string outcome" where "MustString = mustGetAs as_string"
definition GetInt :: "block \<Rightarrow> string \<Rightarrow> int option" where "GetInt = getAs as_int"
definition MustInt :: "block \<Rightarrow> string \<Rightarrow> int outcome" where "MustInt = mustGetAs as_int"
definition GetFloat :: "block \<Rightarrow> string \<Rightarrow> string option" where "GetFloat = getAs as_float"
definition MustFloat :: "block \<Rightarrow> string \<Rightarrow> string outcome" where "MustFloat = mustGetAs as_float"

definition Set :: "string \<Rightarrow> gval \<Rightarrow> block \<Rightarrow> block" where
  "Set key v c = gset key v c"

definition YAML :: "(block \<Rightarrow> goerr + string) \<Rightarrow> block \<Rightarrow> goerr + string" where
  "YAML marshal c = marshal c"

text \<open>
  A map is a reference: what is written through \<^verbatim>\<open>c.MustMap(k1).MustMap(k2)\<close> is seen in \<^verbatim>\<open>c\<close>. An update of a
  nested map is therefore an update of the whole configuration along the path of keys.
\<close>

fun update_in :: "string list \<Rightarrow> (block \<Rightarrow> block outcome) \<Rightarrow> block \<Rightarrow> block outcome" where
  "update_in [] f c = f c"
| "update_in (k # ks) f c =
     bind_outcome (MustMap c k) (\<lambda>m. bind_outcome (update_in ks f m) (\<lambda>m'. Ok (gset k (GMap m') c)))"

definition set_in :: "string list \<Rightarrow> string \<Rightarrow> gval \<Rightarrow> block \<Rightarrow> block outcome" where
  "set_in path k v c = update_in path (\<lambda>m. Ok (Set k v m)) c"

fun get_in :: "string list \<Rightarrow> block \<Rightarrow> block option" where
  "get_in [] c = Some c"
| "get_in (k # ks) c = (case GetMap c k of None \<Rightarrow> None | Some m \<Rightarrow> get_in ks m)"

section \<open>What a collector requires of its configuration\<close>

text \<open>
  The OpenTelemetry collector refuses to start when a pipeline names a component that the configuration does not
  define: receivers and exporters of a pipeline may also be connectors.
\<close>

fun names_of :: "gval \<Rightarrow> string list" where
  "names_of (GStrs xs) = xs"
| "names_of (GSlice vs) = List.map_filter as_string vs"
| "names_of _ = []"

fun block_of :: "gval \<Rightarrow> block" where
  "block_of (GMap m) = m"
| "block_of (GBlock m) = m"
| "block_of (GStruct m) = m"
| "block_of _ = []"

definition field_names :: "gval \<Rightarrow> string \<Rightarrow> string list" where
  "field_names p k = (case gget (block_of p) k of None \<Rightarrow> [] | Some v \<Rightarrow> names_of v)"

definition defined_in :: "block \<Rightarrow> string \<Rightarrow> string list" where
  "defined_in c s = (case gget c s of None \<Rightarrow> [] | Some v \<Rightarrow> map fst (block_of v))"

definition pipelines_of :: "block \<Rightarrow> block option" where
  "pipelines_of c = get_in [''service'', ''pipelines''] c"

definition pipeline_closed :: "block \<Rightarrow> gval \<Rightarrow> bool" where
  "pipeline_closed c p \<longleftrightarrow>
     (\<forall>r \<in> set (field_names p ''receivers''). r \<in> set (defined_in c ''receivers'') \<or> r \<in> set (defined_in c ''connectors'')) \<and>
     (\<forall>r \<in> set (field_names p ''processors''). r \<in> set (defined_in c ''processors'')) \<and>
     (\<forall>r \<in> set (field_names p ''exporters''). r \<in> set (defined_in c ''exporters'') \<or> r \<in> set (defined_in c ''connectors''))"

definition config_closed :: "block \<Rightarrow> bool" where
  "config_closed c \<longleftrightarrow>
     (case pipelines_of c of None \<Rightarrow> False | Some ps \<Rightarrow> (\<forall>(n, p) \<in> set ps. pipeline_closed c p))"

section \<open>Lemmas on nested maps\<close>

lemma GetMap_gset [simp]:
  "GetMap (gset k (GMap m) c) k' = (if k' = k then Some m else GetMap c k')"
  by (simp add: GetMap_def getAs_def update_conv)

lemma MustMap_Ok: "MustMap c k = Ok m \<longleftrightarrow> GetMap c k = Some m"
  by (simp add: MustMap_def mustGetAs_def GetMap_def split: option.splits)

lemma keys_gset: "set (map fst (gset k v m)) = insert k (set (map fst m))"
  using update_keys [of k v m] by (auto split: if_splits)

text \<open>Writing succeeds exactly when the path leads to a map.\<close>

lemma set_in_some:
  assumes "get_in path c = Some m"
  obtains c' where "set_in path k v c = Ok c'" "get_in path c' = Some (gset k v m)"
  using assms
proof (induction path arbitrary: c thesis)
  case Nil
  then show ?case by (simp add: set_in_def Set_def)
next
  case (Cons s path)
  then obtain m1 where m1: "GetMap c s = Some m1" "get_in path m1 = Some m"
    by (auto split: option.splits)
  obtain c1 where "set_in path k v m1 = Ok c1" "get_in path c1 = Some (gset k v m)"
    using Cons.IH m1(2) by metis
  then show ?case
    using Cons.prems(1) [of "gset s (GMap c1) c"] m1(1)
    by (simp add: set_in_def MustMap_Ok [THEN iffD2])
qed

lemma set_in_Ok_iff: "(\<exists>c'. set_in path k v c = Ok c') \<longleftrightarrow> get_in path c \<noteq> None"
proof (induction path arbitrary: c)
  case (Cons s path)
  then show ?case
    by (auto simp: set_in_def MustMap_Ok outcome_iff split: option.splits)
qed (simp add: set_in_def)

text \<open>Two different keys below a common prefix: the paths part there.\<close>

lemma get_in_set_in_apart:
  assumes "a \<noteq> b"
  shows "set_in (pre @ a # p) k v c = Ok c' \<Longrightarrow> get_in (pre @ b # q) c' = get_in (pre @ b # q) c"
  using assms
proof (induction pre arbitrary: c c')
  case Nil
  then show ?case by (auto simp: set_in_def outcome_iff)
next
  case (Cons s pre)
  then obtain m m' where m: "GetMap c s = Some m" "set_in (pre @ a # p) k v m = Ok m'" "c' = gset s (GMap m') c"
    by (auto simp: set_in_def outcome_iff MustMap_Ok)
  with Cons.IH [OF m(2)] Cons.prems(2) show ?case by simp
qed

lemma get_in_set_in_sections:
  "a \<noteq> b \<Longrightarrow> set_in (a # p) k v c = Ok c' \<Longrightarrow> get_in (b # q) c' = get_in (b # q) c"
  using get_in_set_in_apart [of a b "[]"] by simp

lemma get_in_set_in_below:
  "a \<noteq> b \<Longrightarrow> set_in (s # a # p) k v c = Ok c' \<Longrightarrow> get_in (s # b # q) c' = get_in (s # b # q) c"
  using get_in_set_in_apart [of a b "[s]"] by simp

text \<open>The value of a key of a nested block, and what it is after a key was set in the same block or elsewhere.\<close>

definition lookup_in :: "string list \<Rightarrow> string \<Rightarrow> block \<Rightarrow> gval option" where
  "lookup_in path k c = (case get_in path c of None \<Rightarrow> None | Some m \<Rightarrow> gget m k)"

lemma lookup_set_in:
  assumes "set_in p k v c = Ok c'"
  shows "lookup_in p j c' = (if j = k then Some v else lookup_in p j c)"
proof -
  from assms obtain m where m: "get_in p c = Some m" using set_in_Ok_iff by blast
  with assms have "get_in p c' = Some (gset k v m)" by (metis set_in_some outcome.inject(1))
  with m show ?thesis by (simp add: lookup_in_def update_conv)
qed

lemma lookup_in_block: "lookup_in [s] k c = Some (GMap m) \<Longrightarrow> lookup_in [s, k] j c = gget m j"
  by (auto simp: lookup_in_def GetMap_def getAs_def split: option.splits)

lemma lookup_set_sections: "a \<noteq> b \<Longrightarrow> set_in (a # p) k v c = Ok c' \<Longrightarrow> lookup_in (b # q) j c' = lookup_in (b # q) j c"
  by (simp only: lookup_in_def get_in_set_in_sections)

lemma lookup_set_below: "a \<noteq> b \<Longrightarrow> set_in (s # a # p) k v c = Ok c' \<Longrightarrow> lookup_in (s # b # q) j c' = lookup_in (s # b # q) j c"
  by (simp only: lookup_in_def get_in_set_in_below)

lemma defined_in_GetMap: "GetMap c s = Some m \<Longrightarrow> defined_in c s = map fst m"
  by (auto simp: GetMap_def getAs_def defined_in_def split: option.splits elim!: as_map.elims)

lemma defined_in_gset [simp]: "defined_in (gset k v c) t = (if t = k then map fst (block_of v) else defined_in c t)"
  by (simp add: defined_in_def update_conv)

text \<open>A write below a section changes only this section, and loses none of its keys.\<close>

lemma set_in_section:
  assumes "set_in (s # p) k v c = Ok c'"
  obtains m m' where "GetMap c s = Some m" "c' = gset s (GMap m') c" "set (map fst m) \<subseteq> set (map fst m')"
proof (cases p)
  case Nil
  with assms obtain m where "GetMap c s = Some m" "c' = gset s (GMap (gset k v m)) c"
    by (auto simp: set_in_def Set_def outcome_iff MustMap_Ok)
  then show ?thesis by (rule that) (simp only: keys_gset, blast)
next
  case (Cons u q)
  with assms obtain m x where "GetMap c s = Some m" "c' = gset s (GMap (gset u (GMap x) m)) c"
    by (auto simp: set_in_def outcome_iff MustMap_Ok)
  then show ?thesis by (rule that) (simp only: keys_gset, blast)
qed

section \<open>Lemmas on closed configurations\<close>

lemma pipeline_closed_mono:
  assumes "pipeline_closed c p"
    and "\<And>s. set (defined_in c s) \<subseteq> set (defined_in c' s)"
  shows "pipeline_closed c' p"
  using assms unfolding pipeline_closed_def by blast

text \<open>
  What a sequence of writes keeps: nothing that was defined is lost, and the configuration stays closed. The two
  lemmas below are the two kinds of step: a write outside the pipelines, and a pipeline all of whose components are
  defined.
\<close>

definition grows :: "block \<Rightarrow> block \<Rightarrow> bool" where
  "grows c c' \<longleftrightarrow> (\<forall>s. set (defined_in c s) \<subseteq> set (defined_in c' s) \<and> (GetMap c s \<noteq> None \<longrightarrow> GetMap c' s \<noteq> None))"

lemma grows_refl [simp]: "grows c c"
  by (simp add: grows_def)

lemma grows_trans [trans]: "grows a b \<Longrightarrow> grows b c \<Longrightarrow> grows a c"
  unfolding grows_def by blast

lemma grows_GetMap: "grows c c' \<Longrightarrow> GetMap c s \<noteq> None \<Longrightarrow> GetMap c' s \<noteq> None"
  unfolding grows_def by blast

lemma grows_defined: "grows c c' \<Longrightarrow> set (defined_in c s) \<subseteq> set (defined_in c' s)"
  unfolding grows_def by blast

lemma grows_mem: "grows c c' \<Longrightarrow> x \<in> set (defined_in c s) \<Longrightarrow> x \<in> set (defined_in c' s)"
  using grows_defined by blast

lemma set_in_grows:
  assumes "set_in (s # p) k v c = Ok c'"
  shows "grows c c'"
proof -
  obtain m m' where m: "GetMap c s = Some m" "c' = gset s (GMap m') c" "set (map fst m) \<subseteq> set (map fst m')"
    by (rule set_in_section [OF assms])
  then show ?thesis by (simp add: grows_def defined_in_GetMap [OF m(1)])
qed

lemma config_closed_same_pipelines:
  assumes "config_closed c" "grows c c'" "pipelines_of c' = pipelines_of c"
  shows "config_closed c'"
  using assms(1,3) pipeline_closed_mono [OF _ grows_defined [OF assms(2)]] unfolding config_closed_def
  by (auto split: option.splits)

text \<open>A computation that returns, with a property of what it returns.\<close>

definition ok_with :: "'a outcome \<Rightarrow> ('a \<Rightarrow> bool) \<Rightarrow> bool" where
  "ok_with r Q \<longleftrightarrow> (\<exists>x. r = Ok x \<and> Q x)"

lemma ok_with_Ok [simp]: "ok_with (Ok x) Q \<longleftrightarrow> Q x"
  by (simp add: ok_with_def)

lemma ok_bind:
  assumes "ok_with r Q" "\<And>x. Q x \<Longrightarrow> ok_with (f x) R"
  shows "ok_with (bind_outcome r f) R"
  using assms by (auto simp: ok_with_def)

lemma ok_weaken: "ok_with r Q \<Longrightarrow> (\<And>x. Q x \<Longrightarrow> R x) \<Longrightarrow> ok_with r R"
  by (auto simp: ok_with_def)

lemma ok_MustMap: "GetMap c k = Some m \<Longrightarrow> ok_with (MustMap c k) (\<lambda>x. x = m)"
  by (simp add: ok_with_def MustMap_Ok)

lemma ok_set_section:
  assumes "GetMap c s \<noteq> None" "s \<noteq> ''service''"
  shows "ok_with (set_in [s] k v c) (\<lambda>c'. grows c c' \<and> k \<in> set (defined_in c' s) \<and> pipelines_of c' = pipelines_of c \<and>
    (\<forall>q. get_in (''service'' # q) c' = get_in (''service'' # q) c) \<and>
    (\<forall>t. t \<noteq> s \<longrightarrow> GetMap c' t = GetMap c t))"
proof -
  obtain m where m: "get_in [s] c = Some m" using assms(1) by auto
  obtain c' where c': "set_in [s] k v c = Ok c'" "get_in [s] c' = Some (gset k v m)"
    by (rule set_in_some [OF m])
  have m': "GetMap c' s = Some (gset k v m)" using c'(2) by (simp split: option.splits)
  then have "k \<in> set (defined_in c' s)" by (simp add: defined_in_GetMap keys_gset del: set_map)
  moreover have serv: "get_in (''service'' # q) c' = get_in (''service'' # q) c" for q
    by (rule get_in_set_in_sections [OF assms(2) c'(1)])
  moreover have "GetMap c' t = GetMap c t" if "t \<noteq> s" for t
    using get_in_set_in_sections [OF not_sym [OF that] c'(1), of "[]"] by (simp split: option.splits)
  moreover have "pipelines_of c' = pipelines_of c"
    using serv [of "[''pipelines'']"] by (simp only: pipelines_of_def)
  ultimately show ?thesis
    using c'(1) set_in_grows [OF c'(1)] by (auto simp: ok_with_def)
qed

lemma ok_set_pipeline:
  assumes "pipelines_of c = Some ps" "config_closed c" "pipeline_closed c p"
  shows "ok_with (set_in [''service'', ''pipelines''] k p c) (\<lambda>c'. grows c c' \<and> config_closed c' \<and>
    pipelines_of c' = Some (gset k p ps) \<and> (\<forall>t. t \<noteq> ''service'' \<longrightarrow> GetMap c' t = GetMap c t) \<and>
    get_in [''service'', ''telemetry''] c' = get_in [''service'', ''telemetry''] c)"
proof -
  obtain c' where c': "set_in [''service'', ''pipelines''] k p c = Ok c'" "pipelines_of c' = Some (gset k p ps)"
    using set_in_some assms(1) unfolding pipelines_of_def by metis
  have g: "grows c c'" by (rule set_in_grows [OF c'(1)])
  have "pipeline_closed c' x" if "(n, x) \<in> set (gset k p ps)" for n x
  proof -
    have "(n, x) \<in> set ps \<or> x = p" using that by (induction ps) (auto split: if_splits)
    then have "pipeline_closed c x" using assms by (auto simp: config_closed_def)
    then show ?thesis by (rule pipeline_closed_mono [OF _ grows_defined [OF g]])
  qed
  then have "config_closed c'" by (auto simp: config_closed_def c'(2))
  moreover have "GetMap c' t = GetMap c t" if "t \<noteq> ''service''" for t
    using get_in_set_in_sections [OF not_sym [OF that] c'(1), of "[]"] by (simp split: option.splits)
  moreover have "get_in [''service'', ''telemetry''] c' = get_in [''service'', ''telemetry''] c"
    by (rule get_in_set_in_below [OF _ c'(1)]) simp
  ultimately show ?thesis using c' g by (auto simp: ok_with_def)
qed

text \<open>Several writes outside the pipelines.\<close>

definition extends :: "block \<Rightarrow> block \<Rightarrow> bool" where
  "extends c c' \<longleftrightarrow> grows c c' \<and> pipelines_of c' = pipelines_of c \<and>
     get_in [''service'', ''telemetry''] c' = get_in [''service'', ''telemetry''] c"

lemma extends_trans: "extends a b \<Longrightarrow> extends b c \<Longrightarrow> extends a c"
  using grows_trans by (auto simp: extends_def)

lemma extends_mem: "extends c c' \<Longrightarrow> x \<in> set (defined_in c s) \<Longrightarrow> x \<in> set (defined_in c' s)"
  using grows_mem by (auto simp: extends_def)

lemma extends_GetMap: "extends c c' \<Longrightarrow> GetMap c s \<noteq> None \<Longrightarrow> GetMap c' s \<noteq> None"
  using grows_GetMap by (auto simp: extends_def)

lemma ok_extend:
  assumes "GetMap c s \<noteq> None" "s \<noteq> ''service''"
  shows "ok_with (set_in [s] k v c) (\<lambda>c'. extends c c' \<and> k \<in> set (defined_in c' s))"
  by (rule ok_weaken [OF ok_set_section [OF assms]]) (simp add: extends_def)

text \<open>Replacing a whole map, as a function does that got the map by reference and wrote to it.\<close>

definition put_in :: "string list \<Rightarrow> block \<Rightarrow> block \<Rightarrow> block outcome" where
  "put_in path m c = update_in path (\<lambda>_. Ok m) c"

end
