(* ===== verification/Workloads.thy ===== *)
theory Workloads
  imports Builders Api_Types
begin

text \<open>
  What the observer, collector, replay and DAL adapters share: the calls they make, the environment that answers
  them, and the life cycle operations instantiated on these calls. As for the hub, the world is the list of the calls
  made so far, the newest first, and every answer is a function of it.

  \<^verbatim>\<open>controllerutil.CreateOrUpdate\<close> gets the object and the mutate function of the source. Its answer is the
  object as it is afterwards, an error, or the panic of the mutate function. The call is recorded with the object as it
  was passed and with what the mutate function makes of it.
\<close>

section \<open>Calls and the environment\<close>

datatype 'cr wl_call =
    WGet nsname | WUpdate 'cr | WStatusUpdate 'cr
  | WConfigMap config_map "config_map outcome"
  | WService service "service outcome"
  | WDeployment deployment "deployment outcome"
  | WServiceAccount service_account "service_account outcome"
  | WClusterRole cluster_role "cluster_role outcome"
  | WRoleBinding cluster_role_binding "cluster_role_binding outcome"
  | WGetDeployment nsname | WGetService nsname
  | WHttpGet string

type_synonym 'cr wl_history = "'cr wl_call list"

type_synonym ('cr, 'ob) create_or_update = "'cr wl_history \<Rightarrow> 'ob \<Rightarrow> ('ob \<Rightarrow> 'ob outcome) \<Rightarrow> 'ob outcome"

record 'cr wl_env =
  we_Get :: "'cr wl_history \<Rightarrow> nsname \<Rightarrow> goerr + 'cr"
  we_Update :: "'cr wl_history \<Rightarrow> 'cr \<Rightarrow> goerr + 'cr"
  we_StatusUpdate :: "'cr wl_history \<Rightarrow> 'cr \<Rightarrow> goerr + 'cr"
  we_ConfigMap :: "('cr, config_map) create_or_update"
  we_Service :: "('cr, service) create_or_update"
  we_Deployment :: "('cr, deployment) create_or_update"
  we_ServiceAccount :: "('cr, service_account) create_or_update"
  we_ClusterRole :: "('cr, cluster_role) create_or_update"
  we_RoleBinding :: "('cr, cluster_role_binding) create_or_update"
  we_GetDeployment :: "'cr wl_history \<Rightarrow> nsname \<Rightarrow> goerr + deployment"
  we_GetService :: "'cr wl_history \<Rightarrow> nsname \<Rightarrow> goerr + service"
  we_IsAlreadyExists :: "goerr \<Rightarrow> bool"
  we_base :: "goerr + block"
  we_marshalYAML :: "block \<Rightarrow> goerr + string"
  we_marshalConfigMap :: "config_map \<Rightarrow> goerr + string"
  we_sha256 :: "string \<Rightarrow> string"
  we_now :: "'cr wl_history \<Rightarrow> int"
  we_lib :: kube_lib

text \<open>
  The field \<^const>\<open>we_base\<close> is the embedded YAML file of the adapter as \<^verbatim>\<open>yaml.Unmarshal\<close> reads it.
\<close>

definition wl_client :: "'cr wl_env \<Rightarrow> ('cr, 'cr wl_history) cr_client" where
  "wl_client E =
     \<lparr>cc_Get = (\<lambda>k h. (we_Get E h k, WGet k # h)),
      cc_Update = (\<lambda>cr h. (we_Update E h cr, WUpdate cr # h)),
      cc_StatusUpdate = (\<lambda>cr h. (we_StatusUpdate E h cr, WStatusUpdate cr # h))\<rparr>"

text \<open>\<^verbatim>\<open>json.Marshal\<close>, SHA-256 and the hexadecimal printer are parameters.\<close>

definition getConfigMapSHA :: "'cr wl_env \<Rightarrow> config_map \<Rightarrow> goerr + string" where
  "getConfigMapSHA E config =
     (case we_marshalConfigMap E config of Inl err \<Rightarrow> Inl err | Inr data \<Rightarrow> Inr (we_sha256 E data))"

section \<open>Create or update\<close>

definition cou_ConfigMap ::
  "'cr wl_env \<Rightarrow> config_map \<Rightarrow> (config_map \<Rightarrow> config_map outcome) \<Rightarrow> 'cr wl_history \<Rightarrow> config_map outcome \<times> 'cr wl_history" where
  "cou_ConfigMap E obj f h = (we_ConfigMap E h obj f, WConfigMap obj (f obj) # h)"

definition cou_Service ::
  "'cr wl_env \<Rightarrow> service \<Rightarrow> (service \<Rightarrow> service outcome) \<Rightarrow> 'cr wl_history \<Rightarrow> service outcome \<times> 'cr wl_history" where
  "cou_Service E obj f h = (we_Service E h obj f, WService obj (f obj) # h)"

definition cou_Deployment ::
  "'cr wl_env \<Rightarrow> deployment \<Rightarrow> (deployment \<Rightarrow> deployment outcome) \<Rightarrow> 'cr wl_history \<Rightarrow> deployment outcome \<times> 'cr wl_history" where
  "cou_Deployment E obj f h = (we_Deployment E h obj f, WDeployment obj (f obj) # h)"

definition cou_ServiceAccount ::
  "'cr wl_env \<Rightarrow> service_account \<Rightarrow> (service_account \<Rightarrow> service_account outcome) \<Rightarrow> 'cr wl_history
     \<Rightarrow> service_account outcome \<times> 'cr wl_history" where
  "cou_ServiceAccount E obj f h = (we_ServiceAccount E h obj f, WServiceAccount obj (f obj) # h)"

definition cou_ClusterRole ::
  "'cr wl_env \<Rightarrow> cluster_role \<Rightarrow> (cluster_role \<Rightarrow> cluster_role outcome) \<Rightarrow> 'cr wl_history
     \<Rightarrow> cluster_role outcome \<times> 'cr wl_history" where
  "cou_ClusterRole E obj f h = (we_ClusterRole E h obj f, WClusterRole obj (f obj) # h)"

definition cou_RoleBinding ::
  "'cr wl_env \<Rightarrow> cluster_role_binding \<Rightarrow> (cluster_role_binding \<Rightarrow> cluster_role_binding outcome) \<Rightarrow> 'cr wl_history
     \<Rightarrow> cluster_role_binding outcome \<times> 'cr wl_history" where
  "cou_RoleBinding E obj f h = (we_RoleBinding E h obj f, WRoleBinding obj (f obj) # h)"

section \<open>Constants\<close>

definition hubNameLabel :: string where "hubNameLabel = ''mydecisive.ai/hub-name''"
definition HubComponentLabel :: string where "HubComponentLabel = ''mydecisive.ai/hub-component''"
definition otlpGRPCPort :: int where "otlpGRPCPort = 4317"
definition otlpHTTPPort :: int where "otlpHTTPPort = 4318"
definition promHTTPPort :: int where "promHTTPPort = 8899"
definition otelMetricsPort :: int where "otelMetricsPort = 8888"
definition observerMetricsPort :: int where "observerMetricsPort = 8899"
definition otlpGRPCName :: string where "otlpGRPCName = ''otlp-grpc''"
definition otlpHTTPName :: string where "otlpHTTPName = ''otlp-http''"
definition promHTTPName :: string where "promHTTPName = ''prom-http''"
definition otelMetricsName :: string where "otelMetricsName = ''otel-metrics''"
definition observerMetricsName :: string where "observerMetricsName = ''observe-metrics''"

definition DefaultSecurityContext :: security_context where
  "DefaultSecurityContext = \<lparr>sc_SeccompProfile = ''RuntimeDefault'', sc_AllowPrivilegeEscalation = Some False,
     sc_CapabilitiesDrop = [''ALL''], sc_RunAsNonRoot = Some True\<rparr>"

section \<open>Helpers of the mutate functions\<close>

definition set_controller ::
  "kube_lib \<Rightarrow> object_meta \<Rightarrow> string \<Rightarrow> object_meta \<Rightarrow> object_meta outcome" where
  "set_controller L owner kind m = of_sum (kl_SetControllerReference L owner kind m)"

text \<open>\<^verbatim>\<open>cm.Data[key] = value\<close> panics on a nil map.\<close>

definition write_data :: "string \<Rightarrow> string \<Rightarrow> config_map \<Rightarrow> config_map outcome" where
  "write_data key value cm =
     (case cm_Data cm of
        None \<Rightarrow> Panic ''assignment to entry in nil map''
      | Some d \<Rightarrow> Ok (cm\<lparr>cm_Data := Some (gset key value d)\<rparr>))"

text \<open>Port records of the adapters.\<close>

definition tcp_port :: "string \<Rightarrow> int \<Rightarrow> int_or_string \<Rightarrow> service_port" where
  "tcp_port name port target = \<lparr>sp_Name = name, sp_Port = port, sp_TargetPort = target, sp_NodePort = 0,
     sp_AppProtocol = None, sp_Protocol = ''TCP''\<rparr>"

definition config_mount :: volume_mount where
  "config_mount = \<lparr>vm_Name = ''config-volume'', vm_MountPath = ''/conf/collector.yaml'', vm_SubPath = ''collector.yaml''\<rparr>"

definition config_volume :: "string \<Rightarrow> volume" where
  "config_volume name = \<lparr>vol_Name = ''config-volume'', vol_ConfigMap = name\<rparr>"

section \<open>Panics and errors of an operation\<close>

text \<open>An operation that calls a function returning \<^verbatim>\<open>(T, error)\<close>, with the code for its error.\<close>

definition on_result ::
  "'a outcome \<times> 'w \<Rightarrow> ('a \<Rightarrow> 'w \<Rightarrow> op_return \<times> 'cr \<times> 'w) \<Rightarrow> (goerr \<Rightarrow> op_return) \<Rightarrow> 'cr \<Rightarrow> op_return \<times> 'cr \<times> 'w" where
  "on_result r k onErr cr =
     (case r of
        (Ok x, h) \<Rightarrow> k x h
      | (Err err, h) \<Rightarrow> (onErr err, cr, h)
      | (Panic m, h) \<Rightarrow> (Panicked m, cr, h))"

text \<open>A step that only passes its error on.\<close>

definition seq_result ::
  "'a outcome \<times> 'w \<Rightarrow> ('a \<Rightarrow> 'w \<Rightarrow> 'b outcome \<times> 'w) \<Rightarrow> 'b outcome \<times> 'w" where
  "seq_result r k = (case r of (Ok x, h) \<Rightarrow> k x h | (Err err, h) \<Rightarrow> (Err err, h) | (Panic m, h) \<Rightarrow> (Panic m, h))"

text \<open>\<^verbatim>\<open>fmt.Errorf("text: %w", err)\<close> around the error of a call.\<close>

fun wrap_error :: "string \<Rightarrow> 'a outcome \<times> 'w \<Rightarrow> 'a outcome \<times> 'w" where
  "wrap_error msg (Err err, h) = (Err (ErrWrap msg err), h)"
| "wrap_error msg (Ok x, h) = (Ok x, h)"
| "wrap_error msg (Panic m, h) = (Panic m, h)"

section \<open>Lemmas\<close>

lemma wl_client_simps [simp]:
  "cc_Get (wl_client E) k h = (we_Get E h k, WGet k # h)"
  "cc_Update (wl_client E) cr h = (we_Update E h cr, WUpdate cr # h)"
  "cc_StatusUpdate (wl_client E) cr h = (we_StatusUpdate E h cr, WStatusUpdate cr # h)"
  by (simp_all add: wl_client_def)

text \<open>Calls that create or change what depends on the resource.\<close>

fun wl_writes :: "'cr wl_call \<Rightarrow> bool" where
  "wl_writes (WConfigMap _ _) = True"
| "wl_writes (WService _ _) = True"
| "wl_writes (WDeployment _ _) = True"
| "wl_writes (WServiceAccount _ _) = True"
| "wl_writes (WClusterRole _ _) = True"
| "wl_writes (WRoleBinding _ _) = True"
| "wl_writes _ = False"

text \<open>The life cycle of every workload adapter with the shared \<^verbatim>\<open>finalize\<close>.\<close>

interpretation workload_lifecycle: lifecycle_calls L "wl_client E" fz "finalize L (wl_client E) fz"
  "\<lambda>h. \<forall>c \<in> set h. \<not> wl_writes c" for L fz and E :: "('a resource_scheme) wl_env"
  by unfold_locales (simp, simp, simp, rule finalize_keeps_world, simp_all)

section \<open>What a service needs of the pods behind it\<close>

text \<open>
  A service reaches a deployment when its selector matches the labels of the pod template and every port it forwards
  to is a named port of a container. The deployment's own selector has to match the template too, or the API server
  refuses it.
\<close>

definition selects :: "labels option \<Rightarrow> labels option \<Rightarrow> bool" where
  "selects sel ls \<longleftrightarrow> list_all (\<lambda>(k, v). gget (entries ls) k = Some v) (entries sel)"

definition serves_port :: "deployment \<Rightarrow> service_port \<Rightarrow> bool" where
  "serves_port d p \<longleftrightarrow>
     (case sp_TargetPort p of
        StrVal n \<Rightarrow> list_ex (\<lambda>c. list_ex (\<lambda>cp. cp_Name cp = n \<and> cp_ContainerPort cp = sp_Port p) (ct_Ports c))
          (pt_Containers (dep_Template d))
      | IntVal i \<Rightarrow> list_ex (\<lambda>c. list_ex (\<lambda>cp. cp_ContainerPort cp = i) (ct_Ports c)) (pt_Containers (dep_Template d)))"

definition service_reaches :: "service \<Rightarrow> deployment \<Rightarrow> bool" where
  "service_reaches s d \<longleftrightarrow> ss_Selector (svc_Spec s) \<noteq> None \<and>
     selects (ss_Selector (svc_Spec s)) (pt_Labels (dep_Template d)) \<and>
     list_all (serves_port d) (ss_Ports (svc_Spec s))"

text \<open>
  The interface between an adapter's two mutate functions, on whatever deployment the cluster holds, and on a service
  that is new or has the selector keys of an earlier reconciliation: the deployment's pods carry the labels of the
  selector and have the container ports, and the service selects by these labels.
\<close>

locale exposed_workload =
  fixes dep :: "deployment \<Rightarrow> deployment outcome"
    and svc :: "service \<Rightarrow> service outcome"
    and sel :: labels
    and ports :: "service_port list"
  assumes pod_labels: "dep d = Ok d' \<Longrightarrow> selects (Some sel) (pt_Labels (dep_Template d'))"
    and pod_ports: "dep d = Ok d' \<Longrightarrow> list_all (serves_port d') ports"
    and svc_selector: "svc s = Ok s' \<Longrightarrow> entries (ss_Selector (svc_Spec s)) = [] \<or>
      map fst (entries (ss_Selector (svc_Spec s))) = map fst sel \<Longrightarrow> ss_Selector (svc_Spec s') = Some sel"
    and svc_ports: "svc s = Ok s' \<Longrightarrow> ss_Ports (svc_Spec s') = ports"
begin

lemma reaches:
  assumes "dep d = Ok d'" "svc s = Ok s'"
    and "entries (ss_Selector (svc_Spec s)) = [] \<or> map fst (entries (ss_Selector (svc_Spec s))) = map fst sel"
  shows "service_reaches s' d'"
  using pod_labels [OF assms(1)] pod_ports [OF assms(1)] svc_selector [OF assms(2,3)] svc_ports [OF assms(2)]
  by (simp add: service_reaches_def)

lemma keeps_selector:
  assumes "svc s = Ok s'"
    and "entries (ss_Selector (svc_Spec s)) = [] \<or> map fst (entries (ss_Selector (svc_Spec s))) = map fst sel"
  shows "map fst (entries (ss_Selector (svc_Spec s'))) = map fst sel"
  using svc_selector [OF assms] by simp

end

text \<open>A service whose selector the builder sets.\<close>

lemmas service_builder_defs =
  WithType_def WithPorts_def WithServiceSelectorLabel_def WithServiceLabel_def

lemmas deployment_builder_defs =
  WithVolumes_def WithContainers_def WithServiceAccount_def WithReplicas_def WithTolerations_def
  WithTemplateAnnotation_def WithTemplateLabel_def WithSelectorLabel_def WithLabel_def

lemmas container_builder_defs =
  Container_def WithSecurityContext_def WithAWSSecret_def WithEnvFrom_def WithVolumeMounts_def WithContainerPorts_def
  WithCommand_def WithEnv_def WithEnvFromConfigMap_def WithEnvFromSecretKey_def WithLivenessProbe_def
  WithReadinessProbe_def WithImagePullPolicy_def

lemma gset_single: "xs = [] \<or> map fst xs = [k] \<Longrightarrow> gset k v xs = [(k, v)]"
  by (cases xs) auto

lemma gset_double: "xs = [] \<or> map fst xs = [k, k'] \<Longrightarrow> k \<noteq> k' \<Longrightarrow> gset k' v' (gset k v xs) = [(k, v), (k', v')]"
  by (cases xs) auto

section \<open>A sample environment\<close>

text \<open>A cluster without any of the objects: every creation gets what the mutate function makes of the new object.\<close>

definition sample_wl_env :: "block \<Rightarrow> 'cr wl_env" where
  "sample_wl_env base =
    \<lparr>we_Get = (\<lambda>h k. Inl (ErrLib ''not found'')), we_Update = (\<lambda>h cr. Inr cr), we_StatusUpdate = (\<lambda>h cr. Inr cr),
     we_ConfigMap = (\<lambda>h x f. f x), we_Service = (\<lambda>h x f. f x), we_Deployment = (\<lambda>h x f. f x),
     we_ServiceAccount = (\<lambda>h x f. f x), we_ClusterRole = (\<lambda>h x f. f x), we_RoleBinding = (\<lambda>h x f. f x),
     we_GetDeployment = (\<lambda>h k. Inl (ErrLib ''not found'')), we_GetService = (\<lambda>h k. Inl (ErrLib ''not found'')),
     we_IsAlreadyExists = (\<lambda>e. e = ErrLib ''exists''), we_base = Inr base,
     we_marshalYAML = (\<lambda>c. Inr (concat (map fst c))), we_marshalConfigMap = (\<lambda>cm. Inr (om_Name (cm_Meta cm))),
     we_sha256 = (\<lambda>s. s), we_now = (\<lambda>h. 0), we_lib = sample_lib\<rparr>"

end
