(* ===== verification/Observer_Adapter.thy ===== *)
theory Observer_Adapter
  imports Workloads
begin

text \<open>
  The observer controller: \<^verbatim>\<open>internal/controller/mdaiobserver_adapter.go\<close>, \<^verbatim>\<open>observer.go\<close> and
  \<^verbatim>\<open>mdaiobserver_controller.go\<close>. The adapter writes a collector configuration into a ConfigMap, and a
  Deployment and a Service that run it.
\<close>

section \<open>The embedded configuration (config/observer\_base\_collector\_config.yaml)\<close>

text \<open>
  The file as \<^verbatim>\<open>yaml.Unmarshal\<close> reads it: numbers become \<^verbatim>\<open>float64\<close>, sequences \<^verbatim>\<open>[]any\<close>.
\<close>

definition baseObserverCollectorYAML :: block where
  "baseObserverCollectorYAML =
    [(''receivers'', GMap [(''otlp'', GMap [(''protocols'', GMap
        [(''grpc'', GMap [(''max_recv_msg_size_mib'', GFloat ''32''), (''endpoint'', GStr ''0.0.0.0:4317'')]),
         (''http'', GMap [(''endpoint'', GStr ''0.0.0.0:4318'')])])])]),
     (''processors'', GMap [(''batch'', GMap []), (''deltatocumulative'', GMap [])]),
     (''exporters'', GMap [(''prometheus'', GMap [(''endpoint'', GStr ''0.0.0.0:8899''),
        (''metric_expiration'', GStr ''180m''), (''resource_to_telemetry_conversion'', GMap [(''enabled'', GBool True)])])]),
     (''extensions'', GMap [(''cgroupruntime'', GMap [(''gomaxprocs'', GMap [(''enabled'', GBool True)]),
        (''gomemlimit'', GMap [(''enabled'', GBool True)])])]),
     (''connectors'', GMap []),
     (''service'', GMap [(''extensions'', GSlice [GStr ''cgroupruntime'']),
        (''telemetry'', GMap [(''resource'', GMap [(''mdai-logstream'', GStr ''hub'')]),
           (''logs'', GMap [(''processors'', GSlice [GMap [(''batch'', GMap [(''exporter'', GMap [(''otlp'', GMap
              [(''protocol'', GStr ''http/protobuf''),
               (''endpoint'', GStr ''http://hub-monitor-mdai-collector-service.mdai.svc.cluster.local:4318'')])])])]])]),
           (''metrics'', GMap [(''readers'', GSlice [GMap [(''pull'', GMap [(''exporter'', GMap [(''prometheus'', GMap
              [(''host'', GStr ''0.0.0.0''), (''port'', GFloat ''8888'')])])])]])])]),
        (''pipelines'', GMap [])])]"

section \<open>Configuration (observer.go)\<close>

definition observerDefaultImage :: string where
  "observerDefaultImage = ''public.ecr.aws/decisiveai/observer-collector:0.1''"
definition mdaiObserverHubComponent :: string where "mdaiObserverHubComponent = ''mdai-observer''"
definition mdaiObserverResourceBaseName :: string where "mdaiObserverResourceBaseName = ''mdai-observer''"

definition getScopedObserverResourceName :: "mdai_observer \<Rightarrow> string \<Rightarrow> string" where
  "getScopedObserverResourceName cr postfix =
     (if postfix \<noteq> [] then cr_name cr @ ''-'' @ mdaiObserverResourceBaseName @ ''-'' @ postfix
      else cr_name cr @ ''-'' @ mdaiObserverResourceBaseName)"

definition getObserverFilterProcessorConfig :: "observer_filter \<Rightarrow> block" where
  "getObserverFilterProcessorConfig f =
     (case ofi_ErrorMode f of None \<Rightarrow> [] | Some m \<Rightarrow> [(''error_mode'', GStr m)]) @
     (case ofi_LogRecord f of
        None \<Rightarrow> []
      | Some records \<Rightarrow> if records = [] then [] else [(''logs'', GMap [(''log_record'', GStrs records)])])"

text \<open>The component names of an observer.\<close>

definition groupByKey :: "observer \<Rightarrow> string" where "groupByKey obs = ''groupbyattrs/'' @ ob_Name obs"
definition dvKey :: "observer \<Rightarrow> string" where "dvKey obs = ''datavolume/'' @ ob_Name obs"
definition filterKey :: "observer \<Rightarrow> string" where "filterKey obs = ''filter/'' @ ob_Name obs"
definition logsKey :: "observer \<Rightarrow> string" where "logsKey obs = ''logs/'' @ ob_Name obs"
definition tracesKey :: "observer \<Rightarrow> string" where "tracesKey obs = ''traces/'' @ ob_Name obs"

text \<open>The body of the loop over the observers.\<close>

definition observer_dv_spec :: "observer \<Rightarrow> block" where
  "observer_dv_spec obs =
     [(''label_resource_attributes'', GStrs (ob_LabelResourceAttributes obs))] @
     (case ob_CountMetricName obs of None \<Rightarrow> [] | Some n \<Rightarrow> [(''count_metric_name'', GStr n)]) @
     (case ob_BytesMetricName obs of None \<Rightarrow> [] | Some n \<Rightarrow> [(''bytes_metric_name'', GStr n)])"

definition observer_pipeline :: "observer \<Rightarrow> gval" where
  "observer_pipeline obs =
     GMap [(''receivers'', GStrs [''otlp'']),
           (''processors'', GStrs ((case ob_Filter obs of None \<Rightarrow> [] | Some _ \<Rightarrow> [filterKey obs]) @
              [''batch'', groupByKey obs])),
           (''exporters'', GStrs [dvKey obs])]"

definition add_observer_components :: "observer \<Rightarrow> block \<Rightarrow> block outcome" where
  "add_observer_components obs config =
     bind_outcome (set_in [''processors''] (groupByKey obs)
        (GMap [(''keys'', GStrs (ob_LabelResourceAttributes obs))]) config) (\<lambda>c1.
     bind_outcome (set_in [''connectors''] (dvKey obs) (GMap (observer_dv_spec obs)) c1) (\<lambda>c2.
     case ob_Filter obs of
       None \<Rightarrow> Ok c2
     | Some f \<Rightarrow> set_in [''processors''] (filterKey obs) (GMap (getObserverFilterProcessorConfig f)) c2))"

definition add_observer :: "observer \<Rightarrow> block \<Rightarrow> block outcome" where
  "add_observer obs config =
     bind_outcome (add_observer_components obs config) (\<lambda>c3.
     bind_outcome (set_in [''service'', ''pipelines''] (logsKey obs) (observer_pipeline obs) c3) (\<lambda>c4.
     set_in [''service'', ''pipelines''] (tracesKey obs) (observer_pipeline obs) c4))"

fun add_observers :: "observer list \<Rightarrow> block \<Rightarrow> block outcome" where
  "add_observers [] config = Ok config"
| "add_observers (obs # rest) config = bind_outcome (add_observer obs config) (add_observers rest)"

definition own_logs_telemetry :: "string \<Rightarrow> gval" where
  "own_logs_telemetry endpoint =
     GMap [(''processors'', GSlice [GMap [(''batch'', GMap [(''exporter'', GMap [(''otlp'', GMap
       [(''protocol'', GStr ''http/protobuf''), (''endpoint'', GStr endpoint)])])])]])]"

definition observer_output_pipeline :: "observer list \<Rightarrow> gval" where
  "observer_output_pipeline observers =
     GMap [(''receivers'', GStrs (map (\<lambda>obs. dvKey obs) observers)),
           (''processors'', GStrs [''deltatocumulative'']), (''exporters'', GStrs [''prometheus''])]"

text \<open>The configuration before it is printed.\<close>

definition build_observer_config :: "observer list \<Rightarrow> observer_resource \<Rightarrow> block \<Rightarrow> block outcome" where
  "build_observer_config observers observerResource config =
     bind_outcome (case or_GrpcReceiverMaxMsgSize observerResource of
                     None \<Rightarrow> Ok config
                   | Some n \<Rightarrow> set_in [''receivers'', ''otlp'', ''protocols'', ''grpc''] ''max_recv_msg_size_mib''
                                (GInt (int n)) config) (\<lambda>c0.
     bind_outcome (MustMap c0 ''processors'') (\<lambda>_.
     bind_outcome (MustMap c0 ''connectors'') (\<lambda>_.
     bind_outcome (MustMap c0 ''service'') (\<lambda>service.
     bind_outcome (MustMap service ''pipelines'') (\<lambda>_.
     bind_outcome (MustMap service ''telemetry'') (\<lambda>_.
     bind_outcome (add_observers observers c0) (\<lambda>c1.
     bind_outcome (set_in [''service'', ''pipelines''] ''metrics/observeroutput'' (observer_output_pipeline observers) c1) (\<lambda>c2.
     case or_OwnLogsOtlpEndpoint observerResource of
       None \<Rightarrow> Ok c2
     | Some endpoint \<Rightarrow>
         (if endpoint \<noteq> [] then set_in [''service'', ''telemetry''] ''logs'' (own_logs_telemetry endpoint) c2
          else Ok c2)))))))))"

definition getObserverCollectorConfig ::
  "mdai_observer wl_env \<Rightarrow> observer list \<Rightarrow> observer_resource \<Rightarrow> string outcome" where
  "getObserverCollectorConfig E observers observerResource =
     (case we_base E of
        Inl err \<Rightarrow> Err (ErrWrap ''unmarshal base collector config: '' err)
      | Inr config \<Rightarrow> bind_outcome (build_observer_config observers observerResource config)
                       (\<lambda>c. of_sum (YAML (we_marshalYAML E) c)))"

section \<open>Service, ConfigMap and Deployment (observer.go)\<close>

definition observer_labels :: "mdai_observer \<Rightarrow> labels" where
  "observer_labels cr =
     [(''app'', getScopedObserverResourceName cr []), (hubNameLabel, cr_name cr),
      (HubComponentLabel, mdaiObserverHubComponent), (LabelManagedByMdaiKey, LabelManagedByMdaiValue)]"

definition observer_service_mutate :: "mdai_observer \<Rightarrow> service \<Rightarrow> service outcome" where
  "observer_service_mutate cr service =
     Ok (service\<lparr>
       svc_Meta := (svc_Meta service)\<lparr>om_Labels :=
         (case om_Labels (svc_Meta service) of None \<Rightarrow> Some (observer_labels cr) | Some m \<Rightarrow> Some m)\<rparr>,
       svc_Spec := \<lparr>
         ss_Ports = [tcp_port ''otlp-grpc'' otlpGRPCPort (StrVal ''otlp-grpc''),
                     tcp_port ''otlp-http'' otlpHTTPPort (StrVal ''otlp-http'')],
         ss_Selector = Some [(''app'', getScopedObserverResourceName cr [])],
         ss_Type = ''ClusterIP'', ss_InternalTrafficPolicy = None\<rparr>\<rparr>)"

definition createOrUpdateObserverResourceService ::
  "mdai_observer wl_env \<Rightarrow> mdai_observer \<Rightarrow> string \<Rightarrow> mdai_observer wl_history \<Rightarrow> service outcome \<times> mdai_observer wl_history" where
  "createOrUpdateObserverResourceService E cr namespace h =
     (let meta0 = meta_named (getScopedObserverResourceName cr ''service'') namespace
      in case set_controller (we_lib E) (rs_Meta cr) ''MdaiObserver'' meta0 of
           Err err \<Rightarrow> (Err err, h)
         | Panic m \<Rightarrow> (Panic m, h)
         | Ok meta1 \<Rightarrow>
             wrap_error ''failed to create or update observer-collector-service: ''
               (cou_Service E (service_named meta1) (observer_service_mutate cr) h))"

definition observer_config_map :: "mdai_observer \<Rightarrow> string \<Rightarrow> config_map" where
  "observer_config_map cr collectorYAML =
     \<lparr>cm_Meta = (meta_named (getScopedObserverResourceName cr ''config'') (cr_namespace cr))
        \<lparr>om_Labels := Some [(''app'', getScopedObserverResourceName cr []),
           (LabelManagedByMdaiKey, LabelManagedByMdaiValue), (HubComponentLabel, mdaiObserverHubComponent),
           (hubNameLabel, cr_name cr)]\<rparr>,
      cm_Data = Some [(''collector.yaml'', collectorYAML)]\<rparr>"

definition createOrUpdateObserverResourceConfigMap ::
  "mdai_observer wl_env \<Rightarrow> mdai_observer \<Rightarrow> observer_resource \<Rightarrow> observer list \<Rightarrow> mdai_observer wl_history
     \<Rightarrow> string outcome \<times> mdai_observer wl_history" where
  "createOrUpdateObserverResourceConfigMap E cr observerResource observers h =
     seq_result (wrap_error ''failed to build observer configuration: ''
                   (getObserverCollectorConfig E observers observerResource, h)) (\<lambda>collectorYAML h1.
       let desired = observer_config_map cr collectorYAML
       in seq_result (set_controller (we_lib E) (rs_Meta cr) ''MdaiObserver'' (cm_Meta desired), h1) (\<lambda>m h2.
          seq_result (cou_ConfigMap E (desired\<lparr>cm_Meta := m\<rparr>) (write_data ''collector.yaml'' collectorYAML) h2) (\<lambda>cm h3.
            (of_sum (getConfigMapSHA E cm), h3))))"

definition observer_container :: "string \<Rightarrow> observer_resource \<Rightarrow> container" where
  "observer_container name observerResource =
     \<lparr>ct_Name = name, ct_Image = or_Image observerResource,
      ct_Command = [''/mdai-observer-collector'', ''--config=/conf/collector.yaml''],
      ct_Ports = [\<lparr>cp_ContainerPort = otelMetricsPort, cp_Name = otelMetricsName, cp_Protocol = []\<rparr>,
                  \<lparr>cp_ContainerPort = observerMetricsPort, cp_Name = observerMetricsName, cp_Protocol = []\<rparr>,
                  \<lparr>cp_ContainerPort = otlpGRPCPort, cp_Name = otlpGRPCName, cp_Protocol = []\<rparr>,
                  \<lparr>cp_ContainerPort = otlpHTTPPort, cp_Name = otlpHTTPName, cp_Protocol = []\<rparr>],
      ct_VolumeMounts = [config_mount], ct_Env = [], ct_EnvFrom = [],
      ct_SecurityContext = Some DefaultSecurityContext, ct_LivenessProbe = None, ct_ReadinessProbe = None,
      ct_ImagePullPolicy = [], ct_Resources = or_Resources observerResource\<rparr>"

definition observer_annotations :: "string \<Rightarrow> labels option \<Rightarrow> labels option" where
  "observer_annotations hash m =
     set_entry ''mdai-collector-config/sha256'' hash
       (set_entry ''mdai_component_type'' ''mdai-observer''
         (set_entry ''prometheus.io/scrape'' ''true''
           (set_entry ''prometheus.io/port'' ''8899''
             (set_entry ''prometheus.io/path'' ''/metrics'' m))))"

definition observer_deployment_mutate ::
  "kube_lib \<Rightarrow> mdai_observer \<Rightarrow> string \<Rightarrow> observer_resource \<Rightarrow> deployment \<Rightarrow> deployment outcome" where
  "observer_deployment_mutate L cr hash observerResource deployment =
     (let name = getScopedObserverResourceName cr []
      in bind_outcome (set_controller L (rs_Meta cr) ''MdaiObserver'' (dep_Meta deployment)) (\<lambda>m.
         Ok (deployment\<lparr>
           dep_Meta := m\<lparr>om_Labels :=
             (case om_Labels m of
                None \<Rightarrow> Some [(''app'', name), (HubComponentLabel, mdaiObserverHubComponent),
                             (hubNameLabel, cr_name cr), (LabelManagedByMdaiKey, LabelManagedByMdaiValue)]
              | Some ls \<Rightarrow> Some ls)\<rparr>,
           dep_Replicas := Some (or_Replicas observerResource),
           dep_Selector := Some (set_entry ''app'' name
             (case dep_Selector deployment of None \<Rightarrow> None | Some ls \<Rightarrow> ls)),
           dep_Template := (dep_Template deployment)\<lparr>
             pt_Labels := set_entry ''app.kubernetes.io/component'' name
               (set_entry ''app'' name (pt_Labels (dep_Template deployment))),
             pt_Annotations := observer_annotations hash (pt_Annotations (dep_Template deployment)),
             pt_Containers := [observer_container name observerResource],
             pt_Volumes := [config_volume (getScopedObserverResourceName cr ''config'')],
             pt_Tolerations := or_Tolerations observerResource\<rparr>\<rparr>)))"

definition createOrUpdateObserverResourceDeployment ::
  "mdai_observer wl_env \<Rightarrow> mdai_observer \<Rightarrow> string \<Rightarrow> string \<Rightarrow> observer_resource \<Rightarrow> mdai_observer wl_history
     \<Rightarrow> deployment outcome \<times> mdai_observer wl_history" where
  "createOrUpdateObserverResourceDeployment E cr namespace hash observerResource h =
     cou_Deployment E (deployment_named (meta_named (getScopedObserverResourceName cr []) namespace))
       (observer_deployment_mutate (we_lib E) cr hash observerResource) h"

section \<open>The adapter (mdaiobserver\_adapter.go)\<close>

definition observer_ensureSynchronized ::
  "mdai_observer wl_env \<Rightarrow> (mdai_observer, mdai_observer wl_history) operation" where
  "observer_ensureSynchronized E = (\<lambda>(cr, h).
     let observers = mo_Observers cr; observerResource = mo_ObserverResource cr
     in if observers = [] then (ContinueProcessing, cr, h)
        else on_result (createOrUpdateObserverResourceConfigMap E cr observerResource observers h) (\<lambda>hash h1.
             on_result (createOrUpdateObserverResourceDeployment E cr (cr_namespace cr) hash observerResource h1) (\<lambda>_ h2.
             on_result (createOrUpdateObserverResourceService E cr (cr_namespace cr) h2)
               (\<lambda>_ h3. (ContinueProcessing, cr, h3)) RequeueWithError cr)
               (\<lambda>err. if kl_ReasonConflict (we_lib E) err then Requeue else RequeueWithError err) cr)
             RequeueWithError cr)"

definition observer_ensureFinalizerInitialized ::
  "mdai_observer wl_env \<Rightarrow> (mdai_observer, mdai_observer wl_history) operation" where
  "observer_ensureFinalizerInitialized E = ensureFinalizerInitialized (we_lib E) (wl_client E) hubFinalizer"

definition observer_ensureStatusInitialized ::
  "mdai_observer wl_env \<Rightarrow> (mdai_observer, mdai_observer wl_history) operation" where
  "observer_ensureStatusInitialized E = ensureStatusInitialized (we_lib E) (wl_client E)"

definition observer_finalize :: "mdai_observer wl_env \<Rightarrow> (mdai_observer, mdai_observer wl_history) finalize_op" where
  "observer_finalize E = finalize (we_lib E) (wl_client E) hubFinalizer"

definition observer_ensureDeletionProcessed ::
  "mdai_observer wl_env \<Rightarrow> (mdai_observer, mdai_observer wl_history) operation" where
  "observer_ensureDeletionProcessed E = ensureDeletionProcessed (observer_finalize E)"

definition observer_ensureStatusSetToDone ::
  "mdai_observer wl_env \<Rightarrow> (mdai_observer, mdai_observer wl_history) operation" where
  "observer_ensureStatusSetToDone E = ensureStatusSetToDone (we_lib E) (wl_client E)"

definition observer_operations :: "mdai_observer wl_env \<Rightarrow> (mdai_observer, mdai_observer wl_history) operation list" where
  "observer_operations E =
     [observer_ensureDeletionProcessed E, observer_ensureStatusInitialized E, observer_ensureFinalizerInitialized E,
      observer_ensureSynchronized E, observer_ensureStatusSetToDone E]"

definition observer_Reconcile ::
  "mdai_observer wl_env \<Rightarrow> nsname \<Rightarrow> mdai_observer wl_history \<Rightarrow> reconcile_return \<times> mdai_observer wl_history" where
  "observer_Reconcile E = Reconcile (we_lib E) (wl_client E) (observer_operations E)"

section \<open>Lemmas on the configuration\<close>

text \<open>What the loop relies on, and what each turn keeps.\<close>

definition observer_base_ok :: "block \<Rightarrow> bool" where
  "observer_base_ok c \<longleftrightarrow> config_closed c \<and> GetMap c ''processors'' \<noteq> None \<and> GetMap c ''connectors'' \<noteq> None \<and>
     ''otlp'' \<in> set (defined_in c ''receivers'') \<and> ''batch'' \<in> set (defined_in c ''processors'') \<and>
     ''deltatocumulative'' \<in> set (defined_in c ''processors'') \<and> ''prometheus'' \<in> set (defined_in c ''exporters'') \<and>
     get_in [''service'', ''telemetry''] c \<noteq> None"

lemma observer_base_okD:
  assumes "observer_base_ok c"
  obtains ps where "config_closed c" "pipelines_of c = Some ps" "GetMap c ''processors'' \<noteq> None"
    "GetMap c ''connectors'' \<noteq> None" "''otlp'' \<in> set (defined_in c ''receivers'')"
    "''batch'' \<in> set (defined_in c ''processors'')"
  using assms by (auto simp: observer_base_ok_def config_closed_def split: option.splits)

lemma observer_base_ok_step:
  assumes "observer_base_ok c" "grows c c'" "config_closed c'"
    "get_in [''service'', ''telemetry''] c' \<noteq> None"
  shows "observer_base_ok c'"
  using assms grows_GetMap [OF assms(2)] grows_mem [OF assms(2)] by (auto simp: observer_base_ok_def)

lemma observer_pipeline_fields [simp]:
  "field_names (observer_pipeline obs) ''receivers'' = [''otlp'']"
  "field_names (observer_pipeline obs) ''processors'' =
     (case ob_Filter obs of None \<Rightarrow> [] | Some _ \<Rightarrow> [filterKey obs]) @ [''batch'', groupByKey obs]"
  "field_names (observer_pipeline obs) ''exporters'' = [dvKey obs]"
  by (simp_all add: field_names_def observer_pipeline_def)

text \<open>One turn of the loop: the observer's components are defined before its pipelines name them.\<close>

lemma observer_base_ok_extends:
  assumes "observer_base_ok c" "extends c c'"
  shows "observer_base_ok c'"
proof (rule observer_base_ok_step [OF assms(1)])
  show "config_closed c'"
    using assms config_closed_same_pipelines unfolding extends_def observer_base_ok_def by blast
qed (use assms in \<open>auto simp: extends_def observer_base_ok_def\<close>)

lemma ok_add_observer_components:
  assumes "observer_base_ok c"
  shows "ok_with (add_observer_components obs c) (\<lambda>c3. extends c c3 \<and> pipeline_closed c3 (observer_pipeline obs) \<and>
    dvKey obs \<in> set (defined_in c3 ''connectors''))"
proof -
  let ?g = "groupByKey obs" and ?d = "dvKey obs" and ?f = "filterKey obs"
  note base = assms [unfolded observer_base_ok_def]
  have closed: "pipeline_closed c3 (observer_pipeline obs)"
    if "extends c c3" "?g \<in> set (defined_in c3 ''processors'')" "?d \<in> set (defined_in c3 ''connectors'')"
      "ob_Filter obs \<noteq> None \<Longrightarrow> ?f \<in> set (defined_in c3 ''processors'')" for c3
    using that(2-4) base extends_mem [OF that(1)] by (cases "ob_Filter obs") (auto simp: pipeline_closed_def)
  show ?thesis
    unfolding add_observer_components_def
  proof (rule ok_bind [OF ok_extend], goal_cases)
    case (3 c1)
    show ?case
    proof (rule ok_bind [OF ok_extend], goal_cases)
      case 1 then show ?case using 3 base extends_GetMap by blast
    next
      case (3 c2)
      with \<open>extends c c1 \<and> _\<close> have c2: "extends c c2" "?g \<in> set (defined_in c2 ''processors'')"
        "?d \<in> set (defined_in c2 ''connectors'')"
        using extends_trans extends_mem by blast+
      show ?case
      proof (cases "ob_Filter obs")
        case None
        then show ?thesis using c2 closed [OF c2] by simp
      next
        case (Some f)
        have "GetMap c2 ''processors'' \<noteq> None" using c2(1) base extends_GetMap by blast
        then have "ok_with (set_in [''processors''] ?f (GMap (getObserverFilterProcessorConfig f)) c2)
          (\<lambda>c3. extends c2 c3 \<and> ?f \<in> set (defined_in c3 ''processors''))"
          by (rule ok_extend) simp
        then show ?thesis
          unfolding Some option.simps
        proof (rule ok_weaken, goal_cases)
          case (1 c3)
          then have "extends c c3" using extends_trans [OF c2(1)] by simp
          then show ?case
            using closed [of c3] 1 extends_mem [OF conjunct1 [OF 1] c2(2)] extends_mem [OF conjunct1 [OF 1] c2(3)] by simp
        qed
      qed
    qed simp
  qed (use base in simp_all)
qed

lemma ok_add_observer:
  assumes "observer_base_ok c" "pipelines_of c = Some ps"
  shows "ok_with (add_observer obs c) (\<lambda>c'. grows c c' \<and> observer_base_ok c' \<and>
    dvKey obs \<in> set (defined_in c' ''connectors'') \<and>
    pipelines_of c' = Some (gset (tracesKey obs) (observer_pipeline obs)
      (gset (logsKey obs) (observer_pipeline obs) ps)))"
  unfolding add_observer_def
proof (rule ok_bind [OF ok_add_observer_components [OF assms(1)]], goal_cases)
  case (1 c3)
  then have c3: "observer_base_ok c3" "pipelines_of c3 = Some ps"
    using observer_base_ok_extends [OF assms(1)] assms(2) by (auto simp: extends_def)
  show ?case
  proof (rule ok_bind [OF ok_set_pipeline [OF c3(2)]], goal_cases)
    case 1 then show ?case using c3(1) by (simp add: observer_base_ok_def)
  next
    case 2 then show ?case using \<open>extends c c3 \<and> _\<close> by blast
  next
    case (3 c4)
    then have c4: "pipelines_of c4 = Some (gset (logsKey obs) (observer_pipeline obs) ps)" "config_closed c4"
      "pipeline_closed c4 (observer_pipeline obs)" "grows c c4"
      using \<open>extends c c3 \<and> _\<close> pipeline_closed_mono [OF _ grows_defined] grows_trans by (auto simp: extends_def)
    show ?case
    proof (rule ok_weaken [OF ok_set_pipeline [OF c4(1-3)]], goal_cases)
      case (1 c5)
      have "grows c c5" using c4(4) 1 grows_trans by blast
      moreover have "observer_base_ok c5"
        by (rule observer_base_ok_step [OF assms(1)])
          (use 1 3 \<open>extends c c3 \<and> _\<close> \<open>grows c c5\<close> assms(1) in \<open>auto simp: extends_def observer_base_ok_def\<close>)
      moreover have "dvKey obs \<in> set (defined_in c5 ''connectors'')"
        by (rule grows_mem [of c3 c5]) (use 1 3 grows_trans [of c3 c4 c5] \<open>extends c c3 \<and> _\<close> in simp_all)
      ultimately show ?case using 1 by blast
    qed
  qed
qed

definition observer_pipelines :: "observer list \<Rightarrow> block \<Rightarrow> block" where
  "observer_pipelines observers ps =
     fold (\<lambda>obs m. gset (tracesKey obs) (observer_pipeline obs) (gset (logsKey obs) (observer_pipeline obs) m)) observers ps"

lemma ok_add_observers:
  assumes "observer_base_ok c" "pipelines_of c = Some ps"
  shows "ok_with (add_observers observers c) (\<lambda>c'. observer_base_ok c' \<and> grows c c' \<and>
    dvKey ` set observers \<subseteq> set (defined_in c' ''connectors'') \<and>
    pipelines_of c' = Some (observer_pipelines observers ps))"
  using assms
proof (induction observers arbitrary: c ps)
  case (Cons obs rest)
  let ?ps = "gset (tracesKey obs) (observer_pipeline obs) (gset (logsKey obs) (observer_pipeline obs) ps)"
  show ?case
    unfolding add_observers.simps
  proof (rule ok_bind [OF ok_add_observer [OF Cons.prems]], goal_cases)
    case (1 c1)
    then have c1: "observer_base_ok c1" "pipelines_of c1 = Some ?ps" "grows c c1"
      "dvKey obs \<in> set (defined_in c1 ''connectors'')" by simp_all
    show ?case
    proof (rule ok_weaken [OF Cons.IH [OF c1(1,2)]], goal_cases)
      case (1 c2)
      then show ?case
        using grows_trans [OF c1(3)] grows_mem [OF _ c1(4)] by (simp add: observer_pipelines_def)
    qed
  qed
qed (simp add: observer_pipelines_def)

lemma gget_observer_pipelines:
  "gget (observer_pipelines observers ps) (logsKey obs) =
     (case find (\<lambda>o'. ob_Name o' = ob_Name obs) (rev observers) of
        None \<Rightarrow> gget ps (logsKey obs) | Some o' \<Rightarrow> Some (observer_pipeline o'))"
  "gget (observer_pipelines observers ps) (tracesKey obs) =
     (case find (\<lambda>o'. ob_Name o' = ob_Name obs) (rev observers) of
        None \<Rightarrow> gget ps (tracesKey obs) | Some o' \<Rightarrow> Some (observer_pipeline o'))"
  unfolding observer_pipelines_def
  by (induction observers rule: rev_induct) (auto simp: update_conv logsKey_def tracesKey_def split: option.splits)

lemma find_name:
  assumes "obs \<in> set observers"
  obtains o' where "find (\<lambda>o'. ob_Name o' = ob_Name obs) (rev observers) = Some o'" "o' \<in> set observers"
    "ob_Name o' = ob_Name obs"
proof (cases "find (\<lambda>o'. ob_Name o' = ob_Name obs) (rev observers)")
  case None
  then show ?thesis using assms by (auto simp: find_None_iff)
next
  case (Some x)
  then show ?thesis using that by (auto simp: find_Some_iff) (metis length_rev nth_mem set_rev)
qed

section \<open>The generated configuration\<close>

text \<open>
  What an observer configuration promises: every component that a pipeline names is defined; every observer has a logs
  and a traces pipeline, from the OTLP receiver to the data volume connector of that name; and the metrics pipeline
  reads all the data volume connectors.
\<close>

definition observes :: "observer list \<Rightarrow> block \<Rightarrow> bool" where
  "observes observers c \<longleftrightarrow> config_closed c \<and>
     (case pipelines_of c of
        None \<Rightarrow> False
      | Some ps \<Rightarrow>
          list_all (\<lambda>obs. list_ex (\<lambda>o'. ob_Name o' = ob_Name obs \<and>
            gget ps (logsKey obs) = Some (observer_pipeline o') \<and>
            gget ps (tracesKey obs) = Some (observer_pipeline o')) observers) observers \<and>
          gget ps ''metrics/observeroutput'' = Some (observer_output_pipeline observers))"

lemma observesI:
  assumes "config_closed c" "pipelines_of c = Some (gset ''metrics/observeroutput'' (observer_output_pipeline observers)
    (observer_pipelines observers ps))"
  shows "observes observers c"
proof -
  have "list_ex (\<lambda>o'. ob_Name o' = ob_Name obs \<and>
      gget (observer_pipelines observers ps) (logsKey obs) = Some (observer_pipeline o') \<and>
      gget (observer_pipelines observers ps) (tracesKey obs) = Some (observer_pipeline o')) observers"
    if "obs \<in> set observers" for obs
    by (rule find_name [OF that]) (auto simp: gget_observer_pipelines list_ex_iff)
  moreover have "logsKey obs \<noteq> ''metrics/observeroutput''" "tracesKey obs \<noteq> ''metrics/observeroutput''" for obs
    by (simp_all add: logsKey_def tracesKey_def)
  ultimately show ?thesis using assms by (simp add: observes_def list_all_iff update_conv)
qed

lemma ok_grpc_size:
  assumes "observer_base_ok c" "get_in [''receivers'', ''otlp'', ''protocols'', ''grpc''] c \<noteq> None"
  shows "ok_with (set_in [''receivers'', ''otlp'', ''protocols'', ''grpc''] k v c) (\<lambda>c'. observer_base_ok c' \<and>
    pipelines_of c' = pipelines_of c)"
proof -
  obtain c' where c': "set_in [''receivers'', ''otlp'', ''protocols'', ''grpc''] k v c = Ok c'"
    using set_in_Ok_iff assms(2) by blast
  have same: "get_in (''service'' # q) c' = get_in (''service'' # q) c" for q
    by (rule get_in_set_in_sections [OF _ c']) simp
  have ps: "pipelines_of c' = pipelines_of c" using same [of "[''pipelines'']"] by (simp only: pipelines_of_def)
  have "extends c c'"
    using set_in_grows [OF c'] same [of "[''telemetry'']"] ps by (simp only: extends_def)
  from observer_base_ok_extends [OF assms(1) this] ps c' show ?thesis by (simp add: ok_with_def)
qed

text \<open>The configuration is built from every base that has what the loop relies on.\<close>

lemma ok_output_pipeline:
  assumes "observer_base_ok c" "pipelines_of c = Some (observer_pipelines observers ps)"
    "dvKey ` set observers \<subseteq> set (defined_in c ''connectors'')"
  shows "ok_with (set_in [''service'', ''pipelines''] ''metrics/observeroutput'' (observer_output_pipeline observers) c)
    (\<lambda>c'. observes observers c' \<and> get_in [''service'', ''telemetry''] c' \<noteq> None)"
proof (rule ok_weaken [OF ok_set_pipeline [OF assms(2)]], goal_cases)
  case 1 show ?case using assms(1) by (simp add: observer_base_ok_def)
next
  case 2 show ?case
    using assms(1,3)
    by (auto simp: pipeline_closed_def observer_base_ok_def observer_output_pipeline_def field_names_def)
next
  case (3 c')
  then show ?case using assms(1) observesI by (simp add: observer_base_ok_def)
qed

lemma observes_telemetry:
  assumes "observes observers c" "get_in [''service'', ''telemetry''] c \<noteq> None"
  shows "ok_with (set_in [''service'', ''telemetry''] k v c) (observes observers)"
proof -
  obtain c' where c': "set_in [''service'', ''telemetry''] k v c = Ok c'"
    using set_in_Ok_iff assms(2) by blast
  have ps: "pipelines_of c' = pipelines_of c"
    unfolding pipelines_of_def by (rule get_in_set_in_below [OF _ c']) simp
  have "config_closed c'"
    using config_closed_same_pipelines [OF _ set_in_grows [OF c'] ps] assms(1) by (simp add: observes_def)
  with ps c' assms(1) show ?thesis by (simp add: observes_def ok_with_def)
qed

lemma observer_base_GetMap:
  assumes "observer_base_ok c"
  obtains sv where "GetMap c ''service'' = Some sv" "GetMap sv ''pipelines'' \<noteq> None" "GetMap sv ''telemetry'' \<noteq> None"
  using assms by (auto simp: observer_base_ok_def config_closed_def pipelines_of_def split: option.splits)

lemma ok_build_observer_config:
  assumes "observer_base_ok c" "get_in [''receivers'', ''otlp'', ''protocols'', ''grpc''] c \<noteq> None"
  shows "ok_with (build_observer_config observers res c) (observes observers)"
  unfolding build_observer_config_def
proof (rule ok_bind [where Q = observer_base_ok], goal_cases)
  case 1
  then show ?case
    using assms(1) ok_weaken [OF ok_grpc_size [OF assms]] by (auto split: option.splits)
next
  case (2 c0)
  then obtain sv ps where sv: "GetMap c0 ''service'' = Some sv" "GetMap sv ''pipelines'' = Some ps" "GetMap sv ''telemetry'' \<noteq> None"
    by (auto elim: observer_base_GetMap)
  have ps: "pipelines_of c0 = Some ps" using sv by (simp add: pipelines_of_def)
  obtain c1 where c1: "add_observers observers c0 = Ok c1" "observer_base_ok c1"
    "dvKey ` set observers \<subseteq> set (defined_in c1 ''connectors'')" "pipelines_of c1 = Some (observer_pipelines observers ps)"
    using ok_add_observers [OF 2 ps, of observers] by (auto simp: ok_with_def)
  obtain c2 where c2: "observes observers c2" "get_in [''service'', ''telemetry''] c2 \<noteq> None"
    "set_in [''service'', ''pipelines''] ''metrics/observeroutput'' (observer_output_pipeline observers) c1 = Ok c2"
    using ok_output_pipeline [OF c1(2,4,3)] by (auto simp: ok_with_def)
  have "GetMap c0 ''processors'' \<noteq> None" "GetMap c0 ''connectors'' \<noteq> None" using 2 by (simp_all add: observer_base_ok_def)
  then show ?case
    using sv c1(1) c2 observes_telemetry [OF c2(1,2)]
    by (auto simp: MustMap_Ok [THEN iffD2] split: option.splits)
qed

section \<open>What the configuration does with each observer\<close>

text \<open>
  The promise to one observer, in the terms of the collector: it is grouped by its resource attributes, filtered when it has a
  filter, and counted under its metric names, in a logs and a traces pipeline from the OTLP receiver to its data volume
  connector.
\<close>

definition observing_pipeline :: "observer \<Rightarrow> gval option \<Rightarrow> bool" where
  "observing_pipeline obs pipeline \<longleftrightarrow> (case pipeline of
     None \<Rightarrow> False
   | Some p \<Rightarrow> field_names p ''receivers'' = [''otlp''] \<and>
       field_names p ''processors'' = (if ob_Filter obs = None then [] else [''filter/'' @ ob_Name obs]) @
         [''batch'', ''groupbyattrs/'' @ ob_Name obs] \<and>
       field_names p ''exporters'' = [''datavolume/'' @ ob_Name obs])"

definition filtered_by :: "observer \<Rightarrow> block \<Rightarrow> bool" where
  "filtered_by obs c \<longleftrightarrow> (case ob_Filter obs of
     None \<Rightarrow> True
   | Some f \<Rightarrow>
       lookup_in [''processors'', ''filter/'' @ ob_Name obs] ''error_mode'' c = map_option GStr (ofi_ErrorMode f) \<and>
       lookup_in [''processors'', ''filter/'' @ ob_Name obs] ''logs'' c =
         (case ofi_LogRecord f of None \<Rightarrow> None | Some [] \<Rightarrow> None | Some rs \<Rightarrow> Some (GMap [(''log_record'', GStrs rs)])))"

definition observed :: "observer \<Rightarrow> block \<Rightarrow> bool" where
  "observed obs c \<longleftrightarrow>
     observing_pipeline obs (lookup_in [''service'', ''pipelines''] (''logs/'' @ ob_Name obs) c) \<and>
     observing_pipeline obs (lookup_in [''service'', ''pipelines''] (''traces/'' @ ob_Name obs) c) \<and>
     filtered_by obs c \<and>
     lookup_in [''processors'', ''groupbyattrs/'' @ ob_Name obs] ''keys'' c = Some (GStrs (ob_LabelResourceAttributes obs)) \<and>
     lookup_in [''connectors'', ''datavolume/'' @ ob_Name obs] ''label_resource_attributes'' c =
       Some (GStrs (ob_LabelResourceAttributes obs)) \<and>
     lookup_in [''connectors'', ''datavolume/'' @ ob_Name obs] ''count_metric_name'' c = map_option GStr (ob_CountMetricName obs) \<and>
     lookup_in [''connectors'', ''datavolume/'' @ ob_Name obs] ''bytes_metric_name'' c = map_option GStr (ob_BytesMetricName obs)"

definition volumes_exported :: "string list \<Rightarrow> gval option \<Rightarrow> bool" where
  "volumes_exported names pipeline \<longleftrightarrow> (case pipeline of
     None \<Rightarrow> False
   | Some p \<Rightarrow> field_names p ''receivers'' = map (\<lambda>n. ''datavolume/'' @ n) names \<and>
       field_names p ''processors'' = [''deltatocumulative''] \<and> field_names p ''exporters'' = [''prometheus''])"

lemmas key_defs = groupByKey_def dvKey_def filterKey_def logsKey_def tracesKey_def

text \<open>What one turn of the loop does to the entries, and that it leaves those of other names alone.\<close>

lemma add_observer_entries:
  assumes "add_observer obs c = Ok c'"
  shows "lookup_in [''processors''] j c' =
      (if ob_Filter obs \<noteq> None \<and> j = filterKey obs
       then Some (GMap (getObserverFilterProcessorConfig (the (ob_Filter obs))))
       else if j = groupByKey obs then Some (GMap [(''keys'', GStrs (ob_LabelResourceAttributes obs))])
       else lookup_in [''processors''] j c)"
    "lookup_in [''connectors''] j c' = (if j = dvKey obs then Some (GMap (observer_dv_spec obs)) else lookup_in [''connectors''] j c)"
    "lookup_in [''service'', ''pipelines''] j c' = (if j = tracesKey obs \<or> j = logsKey obs then Some (observer_pipeline obs)
       else lookup_in [''service'', ''pipelines''] j c)"
proof -
  obtain c1 c2 c3 c4 where
    c1: "set_in [''processors''] (groupByKey obs) (GMap [(''keys'', GStrs (ob_LabelResourceAttributes obs))]) c = Ok c1"
    and c2: "set_in [''connectors''] (dvKey obs) (GMap (observer_dv_spec obs)) c1 = Ok c2"
    and c3: "(case ob_Filter obs of None \<Rightarrow> Ok c2
      | Some f \<Rightarrow> set_in [''processors''] (filterKey obs) (GMap (getObserverFilterProcessorConfig f)) c2) = Ok c3"
    and c4: "set_in [''service'', ''pipelines''] (logsKey obs) (observer_pipeline obs) c3 = Ok c4"
    and c5: "set_in [''service'', ''pipelines''] (tracesKey obs) (observer_pipeline obs) c4 = Ok c'"
    using assms by (auto simp: add_observer_def add_observer_components_def outcome_iff)
  note same = lookup_set_in [OF c1] lookup_set_in [OF c2] lookup_set_in [OF c4] lookup_set_in [OF c5]
  note apart = lookup_set_sections [OF _ c1] lookup_set_sections [OF _ c2] lookup_set_sections [OF _ c4] lookup_set_sections [OF _ c5]
  have filter: "lookup_in [''processors''] j c3 = (if ob_Filter obs \<noteq> None \<and> j = filterKey obs
      then Some (GMap (getObserverFilterProcessorConfig (the (ob_Filter obs)))) else lookup_in [''processors''] j c2)" for j
    using c3 by (auto simp: lookup_set_in split: option.splits)
  have elsewhere: "lookup_in (b # q) j c3 = lookup_in (b # q) j c2" if "b \<noteq> ''processors''" for b q j
    using c3 that lookup_set_sections [of "''processors''" b] by (auto split: option.splits)
  show "lookup_in [''processors''] j c' =
      (if ob_Filter obs \<noteq> None \<and> j = filterKey obs
       then Some (GMap (getObserverFilterProcessorConfig (the (ob_Filter obs))))
       else if j = groupByKey obs then Some (GMap [(''keys'', GStrs (ob_LabelResourceAttributes obs))])
       else lookup_in [''processors''] j c)"
    "lookup_in [''connectors''] j c' = (if j = dvKey obs then Some (GMap (observer_dv_spec obs)) else lookup_in [''connectors''] j c)"
    "lookup_in [''service'', ''pipelines''] j c' = (if j = tracesKey obs \<or> j = logsKey obs then Some (observer_pipeline obs)
       else lookup_in [''service'', ''pipelines''] j c)"
    by (simp_all add: same apart filter elsewhere)
qed

definition observer_entries :: "observer \<Rightarrow> block \<Rightarrow> bool" where
  "observer_entries obs c \<longleftrightarrow>
     lookup_in [''service'', ''pipelines''] (logsKey obs) c = Some (observer_pipeline obs) \<and>
     lookup_in [''service'', ''pipelines''] (tracesKey obs) c = Some (observer_pipeline obs) \<and>
     lookup_in [''processors''] (groupByKey obs) c = Some (GMap [(''keys'', GStrs (ob_LabelResourceAttributes obs))]) \<and>
     lookup_in [''connectors''] (dvKey obs) c = Some (GMap (observer_dv_spec obs)) \<and>
     (\<forall>f. ob_Filter obs = Some f \<longrightarrow> lookup_in [''processors''] (filterKey obs) c = Some (GMap (getObserverFilterProcessorConfig f)))"

lemma add_observers_entries:
  "add_observers observers c = Ok c' \<Longrightarrow>
    (observer_entries obs c \<and> ob_Name obs \<notin> ob_Name ` set observers) \<or>
      (\<exists>xs ys. observers = xs @ obs # ys \<and> ob_Name obs \<notin> ob_Name ` set ys) \<Longrightarrow> observer_entries obs c'"
proof (induction observers arbitrary: c)
  case (Cons x rest)
  then obtain c1 where c1: "add_observer x c = Ok c1" "add_observers rest c1 = Ok c'" by (auto simp: outcome_iff)
  note entries = add_observer_entries [OF c1(1)]
  have new: "observer_entries x c1" by (simp add: observer_entries_def entries key_defs)
  have kept: "observer_entries obs c1" if "observer_entries obs c" "ob_Name obs \<noteq> ob_Name x"
    using that by (simp add: observer_entries_def entries key_defs)
  show ?case
    by (rule Cons.IH [OF c1(2)]) (use Cons.prems(2) new kept in \<open>auto simp: Cons_eq_append_conv\<close>)
qed auto

lemma entries_observed:
  assumes "observer_entries obs c"
  shows "observed obs c"
proof -
  have "filtered_by obs c"
    using assms lookup_in_block
    by (cases "ob_Filter obs")
      (auto simp: filtered_by_def observer_entries_def key_defs getObserverFilterProcessorConfig_def split: option.splits list.splits)
  with assms show ?thesis
    using lookup_in_block [of "''processors''" "groupByKey obs" c] lookup_in_block [of "''connectors''" "dvKey obs" c]
    by (auto simp: observed_def observing_pipeline_def observer_entries_def key_defs observer_dv_spec_def split: option.splits)
qed

text \<open>The steps after the loop leave the entries of the observers alone.\<close>

lemma build_observer_entries:
  assumes "build_observer_config observers res c = Ok c'"
  obtains c0 c1 where "add_observers observers c0 = Ok c1"
    "\<forall>j. lookup_in [''processors''] j c' = lookup_in [''processors''] j c1"
    "\<forall>j. lookup_in [''connectors''] j c' = lookup_in [''connectors''] j c1"
    "\<forall>j. lookup_in [''service'', ''pipelines''] j c' = (if j = ''metrics/observeroutput''
       then Some (observer_output_pipeline observers) else lookup_in [''service'', ''pipelines''] j c1)"
proof -
  from assms obtain c0 c1 c2 where c1: "add_observers observers c0 = Ok c1"
    and c2: "set_in [''service'', ''pipelines''] ''metrics/observeroutput'' (observer_output_pipeline observers) c1 = Ok c2"
    and own: "(case or_OwnLogsOtlpEndpoint res of None \<Rightarrow> Ok c2
      | Some endpoint \<Rightarrow> if endpoint \<noteq> [] then set_in [''service'', ''telemetry''] ''logs'' (own_logs_telemetry endpoint) c2
          else Ok c2) = Ok c'"
    by (auto simp: build_observer_config_def outcome_iff)
  have c': "c' = c2 \<or> (\<exists>v. set_in [''service'', ''telemetry''] ''logs'' v c2 = Ok c')"
    using own by (auto split: option.splits if_splits)
  have sections: "lookup_in [b] j c' = lookup_in [b] j c2" if "b \<noteq> ''service''" for b j
    using c' that lookup_set_sections [of "''service''" b] by metis
  have pipelines: "lookup_in [''service'', ''pipelines''] j c' = lookup_in [''service'', ''pipelines''] j c2" for j
    using c' lookup_set_below [of "''telemetry''" "''pipelines''"] by auto
  show ?thesis
    by (rule that [OF c1]) (simp_all add: sections pipelines lookup_set_in [OF c2] lookup_set_sections [OF _ c2])
qed

lemma build_observer_observed:
  assumes "build_observer_config observers res c = Ok c'"
  shows "observers = xs @ obs # ys \<Longrightarrow> ob_Name obs \<notin> ob_Name ` set ys \<Longrightarrow> observed obs c'"
    "volumes_exported (map ob_Name observers) (lookup_in [''service'', ''pipelines''] ''metrics/observeroutput'' c')"
proof -
  obtain c0 c1 where c1: "add_observers observers c0 = Ok c1"
    "\<forall>j. lookup_in [''processors''] j c' = lookup_in [''processors''] j c1"
    "\<forall>j. lookup_in [''connectors''] j c' = lookup_in [''connectors''] j c1"
    "\<forall>j. lookup_in [''service'', ''pipelines''] j c' = (if j = ''metrics/observeroutput''
       then Some (observer_output_pipeline observers) else lookup_in [''service'', ''pipelines''] j c1)"
    using assms by (rule build_observer_entries)
  { assume "observers = xs @ obs # ys" "ob_Name obs \<notin> ob_Name ` set ys"
    then have "observer_entries obs c1" using add_observers_entries [OF c1(1), of obs] by blast
    then have "observer_entries obs c'" by (simp add: observer_entries_def c1(2-4) key_defs)
    then show "observed obs c'" by (rule entries_observed) }
  show "volumes_exported (map ob_Name observers) (lookup_in [''service'', ''pipelines''] ''metrics/observeroutput'' c')"
    by (simp add: c1(4) volumes_exported_def observer_output_pipeline_def field_names_def dvKey_def comp_def)
qed

lemma baseObserverCollectorYAML_ok:
  "observer_base_ok baseObserverCollectorYAML"
  "get_in [''receivers'', ''otlp'', ''protocols'', ''grpc''] baseObserverCollectorYAML \<noteq> None"
  by code_simp+

interpretation observer_exposed: exposed_workload "observer_deployment_mutate L cr hash res" "observer_service_mutate cr"
  "[(''app'', getScopedObserverResourceName cr [])]"
  "[tcp_port ''otlp-grpc'' otlpGRPCPort (StrVal ''otlp-grpc''), tcp_port ''otlp-http'' otlpHTTPPort (StrVal ''otlp-http'')]"
  for L cr hash res
  by unfold_locales
    (auto simp: observer_deployment_mutate_def observer_service_mutate_def Let_def outcome_iff serves_port_def selects_def
      tcp_port_def observer_container_def otlpGRPCName_def otlpHTTPName_def update_conv)

section \<open>Properties\<close>

text \<open>
  C12. From the embedded configuration the observer adapter always builds a configuration, without a panic, whatever the
  observers and the settings of the resource. Every component that a pipeline names is defined. The last observer of each name is
  observed: its logs and traces pipelines lead from the OTLP receiver through its filter, when it has one, the batch
  processor and the grouping by its resource attributes to its data volume connector; the filter, grouping and connector
  hold what its spec says. The metrics pipeline reads the data volume connectors of all observers and exports to Prometheus.
\<close>

theorem observer_config_observes:
  assumes "we_base E = Inr baseObserverCollectorYAML"
  shows "\<exists>c. getObserverCollectorConfig E observers res = of_sum (we_marshalYAML E c) \<and> config_closed c \<and>
    (\<forall>xs obs ys. observers = xs @ obs # ys \<longrightarrow> ob_Name obs \<notin> ob_Name ` set ys \<longrightarrow> observed obs c) \<and>
    volumes_exported (map ob_Name observers) (lookup_in [''service'', ''pipelines''] ''metrics/observeroutput'' c)"
proof -
  obtain c where c: "build_observer_config observers res baseObserverCollectorYAML = Ok c" "config_closed c"
    using ok_build_observer_config [OF baseObserverCollectorYAML_ok, of observers res] by (auto simp: ok_with_def observes_def)
  then show ?thesis
    using assms build_observer_observed [OF c(1)] by (intro exI [of _ c]) (auto simp: getObserverCollectorConfig_def YAML_def)
qed

definition sample_observer :: "string \<Rightarrow> observer" where
  "sample_observer n = \<lparr>ob_Name = n, ob_LabelResourceAttributes = [''service.name''], ob_CountMetricName = Some ''items'',
     ob_BytesMetricName = None, ob_Filter = Some \<lparr>ofi_ErrorMode = Some ''ignore'', ofi_LogRecord = Some [''x'']\<rparr>\<rparr>"

definition sample_observer_resource :: observer_resource where
  "sample_observer_resource = \<lparr>or_Image = ''observer:1'', or_Replicas = 1, or_Resources = None,
     or_GrpcReceiverMaxMsgSize = Some 64, or_OwnLogsOtlpEndpoint = Some ''http://x:4318'', or_Tolerations = []\<rparr>"

theorem observer_config_observes_witness:
  "\<exists>c. getObserverCollectorConfig (sample_wl_env baseObserverCollectorYAML) [sample_observer ''a'', sample_observer ''b'']
     sample_observer_resource = Ok (concat (map fst c)) \<and> observed (sample_observer ''a'') c \<and> observed (sample_observer ''b'') c"
proof -
  let ?a = "sample_observer ''a''" and ?b = "sample_observer ''b''"
  obtain c where c: "getObserverCollectorConfig (sample_wl_env baseObserverCollectorYAML) [?a, ?b] sample_observer_resource =
      Ok (concat (map fst c))"
    "\<And>xs obs ys. [?a, ?b] = xs @ obs # ys \<Longrightarrow> ob_Name obs \<notin> ob_Name ` set ys \<Longrightarrow> observed obs c"
    using observer_config_observes [of "sample_wl_env baseObserverCollectorYAML" "[?a, ?b]" sample_observer_resource]
    by (auto simp: sample_wl_env_def)
  show ?thesis using c(1) c(2) [of "[]" ?a "[?b]"] c(2) [of "[?a]" ?b "[]"] by (auto simp: sample_observer_def)
qed

end
