(* ===== verification/Collector_Adapter.thy ===== *)
theory Collector_Adapter
  imports Workloads "HOL-Library.Multiset"
begin

text \<open>
  The collector controller: \<^verbatim>\<open>internal/controller/mdaicollector_adapter.go\<close> and
  \<^verbatim>\<open>mdaicollector_controller.go\<close>. The adapter routes the log streams of the platform to the sinks of the
  resource (S3, OTLP) and writes the ConfigMaps, the service account with its role, the Deployment and the Service of
  the collector.
\<close>

section \<open>The embedded configuration (config/mdai\_collector\_base\_config.yaml)\<close>

definition severity_filter :: "string \<Rightarrow> gval" where
  "severity_filter level = GMap [(''error_mode'', GStr ''ignore''), (''logs'', GMap [(''log_record'', GSlice
     [GStr (''severity_number < SEVERITY_NUMBER_'' @ level @ '' and attributes[\"mdai-logstream\"] != \"audit\"'')])])]"

definition upsert_stream :: "string \<Rightarrow> gval" where
  "upsert_stream stream = GMap [(''attributes'', GSlice [GMap [(''key'', GStr ''mdai-logstream''), (''value'', GStr stream),
     (''action'', GStr ''upsert'')]])]"

definition yaml_names :: "string list \<Rightarrow> gval" where
  "yaml_names xs = GSlice (map GStr xs)"

definition yaml_pipeline :: "string list \<Rightarrow> string list \<Rightarrow> string list \<Rightarrow> gval" where
  "yaml_pipeline rs ps es = GMap [(''receivers'', yaml_names rs), (''processors'', yaml_names ps), (''exporters'', yaml_names es)]"

definition yaml_route :: "string \<Rightarrow> string \<Rightarrow> string list \<Rightarrow> gval" where
  "yaml_route context stream ps = GMap [(''context'', GStr context),
     (''condition'', GStr (''attributes[\"mdai-logstream\"] == \"'' @ stream @ ''\"'')), (''pipelines'', yaml_names ps)]"

definition baseMdaiCollectorYAML :: block where
  "baseMdaiCollectorYAML =
    [(''receivers'', GMap
       [(''otlp'', GMap [(''protocols'', GMap [(''grpc'', GMap [(''endpoint'', GStr ''0.0.0.0:4317'')]),
          (''http'', GMap [(''endpoint'', GStr ''0.0.0.0:4318'')])])]),
        (''k8s_events'', GMap [(''namespaces'', yaml_names [''${env:K8S_NAMESPACE}''])])]),
     (''processors'', GMap
       [(''deltatocumulative'', GMap []),
        (''batch'', GMap [(''send_batch_size'', GFloat ''1000''), (''send_batch_max_size'', GFloat ''10000''), (''timeout'', GStr ''300s'')]),
        (''batch/audit'', GMap [(''send_batch_size'', GFloat ''1000''), (''send_batch_max_size'', GFloat ''10000''), (''timeout'', GStr ''10s'')]),
        (''filter/severity_min_debug'', severity_filter ''DEBUG''),
        (''filter/severity_min_info'', severity_filter ''INFO''),
        (''filter/severity_min_warn'', severity_filter ''WARN''),
        (''filter/severity_min_error'', severity_filter ''ERROR''),
        (''resource/k8slogstream'', upsert_stream ''hub''),
        (''resource/hub-to-audit'', upsert_stream ''audit'')]),
     (''exporters'', GMap
       [(''debug'', GMap []), (''debug/audit'', GMap []), (''debug/hub'', GMap []), (''debug/collector'', GMap []),
        (''debug/verbose'', GMap [(''verbosity'', GStr ''detailed'')]),
        (''prometheus'', GMap [(''endpoint'', GStr ''0.0.0.0:8899''), (''metric_expiration'', GStr ''180m''),
           (''resource_to_telemetry_conversion'', GMap [(''enabled'', GBool True)])])]),
     (''connectors'', GMap
       [(''routing/logstream'', GMap [(''default_pipelines'', yaml_names [''logs/debug_other'']),
           (''table'', GSlice [yaml_route ''log'' ''audit'' [''logs/debug_audit''],
              yaml_route ''resource'' ''collector'' [''logs/debug_collector''],
              yaml_route ''resource'' ''hub'' [''logs/debug_hub'']])]),
        (''count/severity_counts'', GMap [(''logs'', GMap
           [(''mdai_errors_by_component_total'', GMap [(''description'', GStr ''Error logs from MDAI components''),
              (''conditions'', yaml_names [''severity_number >= SEVERITY_NUMBER_ERROR''])]),
            (''mdai_warnings_by_component_total'', GMap [(''description'', GStr ''Warning logs from MDAI components''),
              (''conditions'', yaml_names [''severity_number >= SEVERITY_NUMBER_WARN and severity_number < SEVERITY_NUMBER_ERROR''])])])])]),
     (''extensions'', GMap [(''cgroupruntime'', GMap [(''gomaxprocs'', GMap [(''enabled'', GBool True)]),
        (''gomemlimit'', GMap [(''enabled'', GBool True)])])]),
     (''service'', GMap [(''pipelines'', GMap
       [(''logs/k8s_events'', yaml_pipeline [''k8s_events''] [''resource/k8slogstream''] [''routing/logstream'', ''count/severity_counts'']),
        (''logs/input'', yaml_pipeline [''otlp''] [] [''routing/logstream'', ''count/severity_counts'']),
        (''logs/debug_audit'', yaml_pipeline [''routing/logstream''] [''resource/hub-to-audit'', ''batch/audit''] [''debug/audit'']),
        (''logs/debug_hub'', yaml_pipeline [''routing/logstream''] [''batch''] [''debug/hub'']),
        (''logs/debug_collector'', yaml_pipeline [''routing/logstream''] [''batch''] [''debug/collector'']),
        (''logs/debug_other'', yaml_pipeline [''routing/logstream''] [''batch''] [''debug'']),
        (''metrics/log_counts'', yaml_pipeline [''count/severity_counts''] [''deltatocumulative''] [''prometheus''])])])]"

section \<open>Exporters, pipelines and the routing table\<close>

definition MdaiCollectorHubComponent :: string where "MdaiCollectorHubComponent = ''mdai-collector''"
definition mdaiCollectorResourceNameBase :: string where "mdaiCollectorResourceNameBase = ''mdai-collector''"
definition S3PartitionFormat :: string where "S3PartitionFormat = ''%Y/%m/%d/%H''"

definition severityFilterMap :: labels where
  "severityFilterMap =
     [(''debug'', ''filter/severity_min_debug''), (''info'', ''filter/severity_min_info''),
      (''warn'', ''filter/severity_min_warn''), (''error'', ''filter/severity_min_error'')]"

definition routingTableContextMap :: labels where
  "routingTableContextMap = [(CollectorLogstream, ''resource''), (HubLogstream, ''resource''), (AuditLogstream, ''log'')]"

definition routingTableConditionMap :: labels where
  "routingTableConditionMap =
     [(CollectorLogstream, ''attributes[\"mdai-logstream\"] == \"collector\"''),
      (HubLogstream, ''attributes[\"mdai-logstream\"] == \"hub\"''),
      (AuditLogstream, ''attributes[\"mdai-logstream\"] == \"audit\"'')]"

record routingConnectorTableEntry =
  re_Context :: string
  re_Condition :: string
  re_Pipelines :: "string list"

type_synonym routingTable = "(string, routingConnectorTableEntry) gomap"

definition entry_value :: "routingConnectorTableEntry \<Rightarrow> gval" where
  "entry_value e = GStruct [(''context'', GStr (re_Context e)), (''condition'', GStr (re_Condition e)),
     (''pipelines'', GStrs (re_Pipelines e))]"

definition addOrCreateRoutingTableEntryWithPipeline :: "string \<Rightarrow> string \<Rightarrow> routingTable \<Rightarrow> routingTable" where
  "addOrCreateRoutingTableEntryWithPipeline logstream pipelineName rt =
     (if logstream = OtherLogstream then rt
      else (case gget rt logstream of
              None \<Rightarrow> gset logstream \<lparr>re_Context = gget_str routingTableContextMap logstream,
                        re_Condition = gget_str routingTableConditionMap logstream, re_Pipelines = [pipelineName]\<rparr> rt
            | Some e \<Rightarrow> gset logstream (e\<lparr>re_Pipelines := re_Pipelines e @ [pipelineName]\<rparr>) rt))"

definition getOtlpExporterForLogstream :: "otlp_logs \<Rightarrow> string \<times> gval" where
  "getOtlpExporterForLogstream otlpLogsConfig =
     (''otlp'', GStruct [(''endpoint'', GStr (ot_Endpoint otlpLogsConfig)), (''tls'', GStruct [(''insecure'', GBool True)])])"

definition getS3ExporterForLogstream :: "string \<Rightarrow> string \<Rightarrow> s3_logs \<Rightarrow> string \<times> gval" where
  "getS3ExporterForLogstream hubName logstream s3LogsConfig =
     (''awss3/'' @ logstream,
      GStruct [(''s3uploader'', GStruct
        [(''region'', GStr (s3_S3Region s3LogsConfig)), (''s3_bucket'', GStr (s3_S3Bucket s3LogsConfig)),
         (''s3_prefix'', GStr (hubName @ ''-'' @ logstream @ ''-logs'')),
         (''s3_partition_format'', GStr S3PartitionFormat), (''file_prefix'', GStr (logstream @ ''-'')),
         (''disable_ssl'', GBool True)])])"

definition getPipelineWithExporterAndSeverityFilter ::
  "string \<Rightarrow> string \<Rightarrow> string option \<Rightarrow> string \<Rightarrow> gval" where
  "getPipelineWithExporterAndSeverityFilter receiverName exporterName minSeverity batchProcessor =
     GBlock [(''receivers'', GSlice [GStr receiverName]),
       (''processors'', GSlice (map GStr
          ((case minSeverity of
              None \<Rightarrow> []
            | Some s \<Rightarrow> if gget_str severityFilterMap s \<noteq> [] then [gget_str severityFilterMap s] else []) @
           (if batchProcessor \<noteq> [] then [batchProcessor] else [])))),
       (''exporters'', GSlice [GStr exporterName])]"

text \<open>
  The maps \<^verbatim>\<open>exporters\<close>, \<^verbatim>\<open>pipelines\<close> and \<^verbatim>\<open>routingTableMap\<close> are passed by reference and written to; here
  they are passed along and returned.
\<close>

record augmented =
  ag_exporters :: block
  ag_pipelines :: block
  ag_table :: routingTable

definition set_exporter :: "string \<times> gval \<Rightarrow> augmented \<Rightarrow> augmented" where
  "set_exporter e ag = ag\<lparr>ag_exporters := gset (fst e) (snd e) (ag_exporters ag)\<rparr>"

definition set_route :: "string \<Rightarrow> string \<Rightarrow> gval \<Rightarrow> augmented \<Rightarrow> augmented" where
  "set_route logstream pipelineName newPipeline ag =
     ag\<lparr>ag_pipelines := gset pipelineName newPipeline (ag_pipelines ag),
        ag_table := addOrCreateRoutingTableEntryWithPipeline logstream pipelineName (ag_table ag)\<rparr>"

definition min_severity :: "logstream_config option \<Rightarrow> string option" where
  "min_severity cfg = (case cfg of None \<Rightarrow> None | Some l \<Rightarrow> ls_MinSeverity l)"

definition addPipelineForLogstream ::
  "logstream_config option \<Rightarrow> string \<Rightarrow> string \<Rightarrow> augmented \<Rightarrow> string \<times> augmented" where
  "addPipelineForLogstream logstreamConfig logstream otlpExporterName ag =
     (let pipelineName = ''logs/otlp_'' @ logstream;
          newPipeline = getPipelineWithExporterAndSeverityFilter ''routing/logstream'' otlpExporterName
            (min_severity logstreamConfig) []
      in (pipelineName, set_route logstream pipelineName newPipeline ag))"

definition addS3ComponentsAndPipeline ::
  "string \<Rightarrow> string \<Rightarrow> s3_logs \<Rightarrow> string option \<Rightarrow> augmented \<Rightarrow> string \<times> augmented" where
  "addS3ComponentsAndPipeline crName logstream s3Config minSeverity ag =
     (let e = getS3ExporterForLogstream crName logstream s3Config;
          pipelineName = ''logs/s3_'' @ logstream;
          newPipeline = getPipelineWithExporterAndSeverityFilter ''routing/logstream'' (fst e) minSeverity ''batch''
      in (pipelineName, set_route logstream pipelineName newPipeline (set_exporter e ag)))"

definition audit_enabled :: "bool option \<Rightarrow> bool" where
  "audit_enabled cfg \<longleftrightarrow> (case cfg of None \<Rightarrow> True | Some disabled \<Rightarrow> \<not> disabled)"

definition stream_enabled :: "logstream_config option \<Rightarrow> bool" where
  "stream_enabled cfg \<longleftrightarrow> (case cfg of None \<Rightarrow> True | Some l \<Rightarrow> \<not> ls_Disabled l)"

definition augmentConfigForOtlpConfigAndGetOtherLogstreamPipelines ::
  "logs_config \<Rightarrow> augmented \<Rightarrow> string list \<times> augmented" where
  "augmentConfigForOtlpConfigAndGetOtherLogstreamPipelines logsConfig ag =
     (case lc_Otlp logsConfig of
        None \<Rightarrow> ([], ag)
      | Some otlpConfig \<Rightarrow>
          if ot_Endpoint otlpConfig = [] then ([], ag)
          else (let e = getOtlpExporterForLogstream otlpConfig;
                    ag0 = set_exporter e ag;
                    ag1 = (if audit_enabled (ot_AuditLogs otlpConfig)
                           then set_route AuditLogstream (''logs/otlp_'' @ AuditLogstream)
                             (getPipelineWithExporterAndSeverityFilter ''routing/logstream'' (fst e) None ''batch/audit'') ag0
                           else ag0);
                    ag2 = (if stream_enabled (ot_CollectorLogs otlpConfig)
                           then snd (addPipelineForLogstream (ot_CollectorLogs otlpConfig) CollectorLogstream (fst e) ag1) else ag1);
                    ag3 = (if stream_enabled (ot_HubLogs otlpConfig)
                           then snd (addPipelineForLogstream (ot_HubLogs otlpConfig) HubLogstream (fst e) ag2) else ag2)
                in if stream_enabled (ot_OtherLogs otlpConfig)
                   then (case addPipelineForLogstream (ot_OtherLogs otlpConfig) OtherLogstream (fst e) ag3 of
                           (pipelineName, ag4) \<Rightarrow> ([pipelineName], ag4))
                   else ([], ag3)))"

definition augmentPipelinesForS3ConfigAndGetOtherLogstreamPipelines ::
  "string \<Rightarrow> logs_config \<Rightarrow> string option \<Rightarrow> augmented \<Rightarrow> string list \<times> augmented" where
  "augmentPipelinesForS3ConfigAndGetOtherLogstreamPipelines crName logsConfig awsAccessKeySecret ag =
     (if awsAccessKeySecret = None then ([], ag)
      else (case lc_S3 logsConfig of
              None \<Rightarrow> ([], ag)
            | Some s3Config \<Rightarrow>
                (let ag1 = (if audit_enabled (s3_AuditLogs s3Config)
                            then snd (addS3ComponentsAndPipeline crName AuditLogstream s3Config None ag) else ag);
                     ag2 = (if stream_enabled (s3_CollectorLogs s3Config)
                            then snd (addS3ComponentsAndPipeline crName CollectorLogstream s3Config
                              (min_severity (s3_CollectorLogs s3Config))
                              (set_exporter (getS3ExporterForLogstream crName CollectorLogstream s3Config) ag1)) else ag1);
                     ag3 = (if stream_enabled (s3_HubLogs s3Config)
                            then snd (addS3ComponentsAndPipeline crName HubLogstream s3Config
                              (min_severity (s3_HubLogs s3Config)) ag2) else ag2)
                 in if stream_enabled (s3_OtherLogs s3Config)
                    then (case addS3ComponentsAndPipeline crName OtherLogstream s3Config
                                 (min_severity (s3_OtherLogs s3Config)) ag3 of
                            (pipelineName, ag4) \<Rightarrow> ([pipelineName], ag4))
                    else ([], ag3))))"

section \<open>The configuration\<close>

text \<open>
  The loop over \<^verbatim>\<open>routingTableMap\<close> visits the entries in an order that Go leaves open: the argument \<^term>\<open>rng\<close>
  is that order.
\<close>

type_synonym range_fun = "routingTable \<Rightarrow> routingTable"

definition range_order :: "range_fun \<Rightarrow> bool" where
  "range_order rng \<longleftrightarrow> (\<forall>m. mset (rng m) = mset m)"

definition route_logs ::
  "range_fun \<Rightarrow> string \<Rightarrow> logs_config \<Rightarrow> string option \<Rightarrow> block \<Rightarrow> block outcome" where
  "route_logs rng crName logsConfig awsAccessKeySecret config =
     bind_outcome (MustMap config ''exporters'') (\<lambda>exporters.
     bind_outcome (MustMap config ''service'') (\<lambda>serviceBlock.
     bind_outcome (MustMap serviceBlock ''pipelines'') (\<lambda>pipelines.
     bind_outcome (MustMap config ''connectors'') (\<lambda>connectors.
       let ag0 = \<lparr>ag_exporters = exporters, ag_pipelines = pipelines, ag_table = []\<rparr>;
           (otlpOther, ag1) = augmentConfigForOtlpConfigAndGetOtherLogstreamPipelines logsConfig ag0;
           (s3Other, ag2) = augmentPipelinesForS3ConfigAndGetOtherLogstreamPipelines crName logsConfig awsAccessKeySecret ag1;
           other = otlpOther @ s3Other
       in bind_outcome (MustMap connectors ''routing/logstream'') (\<lambda>logstreamRouter.
            let newRoutingTable = map (\<lambda>(_, e). entry_value e) (rng (ag_table ag2));
                router1 = Set ''table'' (GSlice newRoutingTable) logstreamRouter;
                router2 = (if other \<noteq> [] then Set ''default_pipelines'' (GStrs other) router1 else router1)
            in bind_outcome (put_in [''exporters''] (ag_exporters ag2) config) (\<lambda>c1.
               bind_outcome (put_in [''service'', ''pipelines''] (ag_pipelines ag2) c1) (\<lambda>c2.
               put_in [''connectors'', ''routing/logstream''] router2 c2)))))))"

definition getMdaiCollectorConfig ::
  "mdai_collector wl_env \<Rightarrow> range_fun \<Rightarrow> mdai_collector \<Rightarrow> logs_config option \<Rightarrow> string option \<Rightarrow> string outcome" where
  "getMdaiCollectorConfig E rng cr logsConfig awsAccessKeySecret =
     (case we_base E of
        Inl err \<Rightarrow> Err err
      | Inr config \<Rightarrow>
          bind_outcome (case logsConfig of
                          None \<Rightarrow> Ok config
                        | Some l \<Rightarrow> route_logs rng (cr_name cr) l awsAccessKeySecret config)
            (\<lambda>c. of_sum (we_marshalYAML E c)))"

section \<open>The objects of a collector\<close>

definition getScopedMdaiCollectorResourceName :: "mdai_collector \<Rightarrow> string \<Rightarrow> string" where
  "getScopedMdaiCollectorResourceName cr postfix =
     (if postfix \<noteq> [] then cr_name cr @ ''-'' @ mdaiCollectorResourceNameBase @ ''-'' @ postfix
      else cr_name cr @ ''-'' @ mdaiCollectorResourceNameBase)"

type_synonym collector_history = "mdai_collector wl_history"

text \<open>The metadata literal of the workload objects.\<close>

definition collector_meta :: "string \<Rightarrow> string \<Rightarrow> object_meta" where
  "collector_meta name namespace = (meta_named name namespace)\<lparr>om_Labels :=
     Some [(LabelManagedByMdaiKey, LabelManagedByMdaiValue), (HubComponentLabel, MdaiCollectorHubComponent)]\<rparr>"

definition collector_config_meta :: "mdai_collector \<Rightarrow> string \<Rightarrow> string \<Rightarrow> object_meta" where
  "collector_config_meta cr name namespace = (meta_named name namespace)\<lparr>om_Labels :=
     Some [(''app'', ''mdai-collector''), (hubNameLabel, cr_name cr),
       (LabelManagedByMdaiKey, LabelManagedByMdaiValue), (HubComponentLabel, MdaiCollectorHubComponent)]\<rparr>"

definition createOrUpdateMdaiCollectorConfigMap ::
  "mdai_collector wl_env \<Rightarrow> range_fun \<Rightarrow> mdai_collector \<Rightarrow> string \<Rightarrow> logs_config option \<Rightarrow> string option \<Rightarrow> collector_history
     \<Rightarrow> (string \<times> string) outcome \<times> collector_history" where
  "createOrUpdateMdaiCollectorConfigMap E rng cr namespace logsConfig awsAccessKeySecret h =
     (let name = getScopedMdaiCollectorResourceName cr ''config''
      in seq_result (wrap_error ''failed to build mdai-collector configuration: ''
                       (getMdaiCollectorConfig E rng cr logsConfig awsAccessKeySecret, h)) (\<lambda>collectorYAML h1.
         seq_result (set_controller (we_lib E) (rs_Meta cr) ''MdaiCollector'' (collector_config_meta cr name namespace), h1) (\<lambda>m h2.
         seq_result (cou_ConfigMap E \<lparr>cm_Meta = m, cm_Data = Some [(''collector.yaml'', collectorYAML)]\<rparr>
                       (write_data ''collector.yaml'' collectorYAML) h2) (\<lambda>cm h3.
           (bind_outcome (of_sum (getConfigMapSHA E cm)) (\<lambda>sha. Ok (name, sha)), h3)))))"

definition createOrUpdateMdaiCollectorEnvVarConfigMap ::
  "mdai_collector wl_env \<Rightarrow> mdai_collector \<Rightarrow> string \<Rightarrow> collector_history \<Rightarrow> string outcome \<times> collector_history" where
  "createOrUpdateMdaiCollectorEnvVarConfigMap E cr namespace h =
     (let name = getScopedMdaiCollectorResourceName cr ''env'';
          data = [(''LOG_SEVERITY'', ''SEVERITY_NUMBER_WARN''), (''K8S_NAMESPACE'', namespace)]
      in seq_result (set_controller (we_lib E) (rs_Meta cr) ''MdaiCollector'' (collector_config_meta cr name namespace), h) (\<lambda>m h1.
         seq_result (cou_ConfigMap E \<lparr>cm_Meta = m, cm_Data = Some data\<rparr> (\<lambda>cm. Ok (cm\<lparr>cm_Data := Some data\<rparr>)) h1) (\<lambda>_ h2.
           (Ok name, h2))))"

record CollectorDeploymentParams =
  cdp_Namespace :: string
  cdp_CollectorConfigMapName :: string
  cdp_CollectorEnvConfigName :: string
  cdp_ServiceAccountName :: string
  cdp_AwsAccessKeySecret :: "string option"
  cdp_Hash :: string
  cdp_Image :: string
  cdp_Tolerations :: "toleration list"
  cdp_Replicas :: int

definition collector_container :: "string \<Rightarrow> CollectorDeploymentParams \<Rightarrow> container" where
  "collector_container name params =
     WithSecurityContext (Some DefaultSecurityContext)
       (WithAWSSecret (cdp_AwsAccessKeySecret params)
         (WithEnvFrom [ConfigMapRef (cdp_CollectorConfigMapName params)]
           (WithVolumeMounts [config_mount]
             (WithContainerPorts
               [\<lparr>cp_ContainerPort = otlpGRPCPort, cp_Name = otlpGRPCName, cp_Protocol = []\<rparr>,
                \<lparr>cp_ContainerPort = otlpHTTPPort, cp_Name = otlpHTTPName, cp_Protocol = []\<rparr>,
                \<lparr>cp_ContainerPort = promHTTPPort, cp_Name = promHTTPName, cp_Protocol = []\<rparr>]
               (WithCommand [''/mdai-collector'', ''--config=/conf/collector.yaml'']
                 (Container name (cdp_Image params)))))))"

definition collector_deployment_mutate ::
  "kube_lib \<Rightarrow> mdai_collector \<Rightarrow> CollectorDeploymentParams \<Rightarrow> deployment \<Rightarrow> deployment outcome" where
  "collector_deployment_mutate L cr params deployment =
     (let name = getScopedMdaiCollectorResourceName cr []
      in bind_outcome (set_controller L (rs_Meta cr) ''MdaiCollector'' (dep_Meta deployment)) (\<lambda>m.
         Ok (WithVolumes [config_volume (cdp_CollectorConfigMapName params)]
              (WithContainers [collector_container name params]
                (WithServiceAccount (cdp_ServiceAccountName params)
                  (WithReplicas (cdp_Replicas params)
                    (WithTolerations (cdp_Tolerations params)
                      (WithTemplateAnnotation ''mdai-collector-config/sha256'' (cdp_Hash params)
                        (WithTemplateLabel ''app.kubernetes.io/component'' name
                          (WithTemplateLabel ''app'' name
                            (WithSelectorLabel ''app'' name
                              (WithLabel hubNameLabel (cr_name cr)
                                (WithLabel ''app'' name (deployment\<lparr>dep_Meta := m\<rparr>))))))))))))))"

definition createOrUpdateMdaiCollectorDeployment ::
  "mdai_collector wl_env \<Rightarrow> mdai_collector \<Rightarrow> CollectorDeploymentParams \<Rightarrow> collector_history \<Rightarrow> string outcome \<times> collector_history" where
  "createOrUpdateMdaiCollectorDeployment E cr params h =
     (let name = getScopedMdaiCollectorResourceName cr []
      in seq_result (cou_Deployment E (deployment_named (collector_meta name (cdp_Namespace params)))
                       (collector_deployment_mutate (we_lib E) cr params) h) (\<lambda>_ h1. (Ok name, h1)))"

definition collector_service_mutate ::
  "kube_lib \<Rightarrow> mdai_collector \<Rightarrow> string \<Rightarrow> service \<Rightarrow> service outcome" where
  "collector_service_mutate L cr appName service =
     bind_outcome (set_controller L (rs_Meta cr) ''MdaiCollector'' (svc_Meta service)) (\<lambda>m.
       Ok (WithType ''ClusterIP''
            (WithPorts [tcp_port ''otlp-grpc'' otlpGRPCPort (StrVal ''otlp-grpc''),
                        tcp_port ''otlp-http'' otlpHTTPPort (StrVal ''otlp-http'')]
              (WithServiceSelectorLabel ''app'' appName
                (WithServiceLabel hubNameLabel (cr_name cr)
                  (WithServiceLabel ''app'' appName (service\<lparr>svc_Meta := m\<rparr>)))))))"

definition createOrUpdateMdaiCollectorService ::
  "mdai_collector wl_env \<Rightarrow> mdai_collector \<Rightarrow> string \<Rightarrow> string \<Rightarrow> collector_history \<Rightarrow> string outcome \<times> collector_history" where
  "createOrUpdateMdaiCollectorService E cr namespace appName h =
     (let name = getScopedMdaiCollectorResourceName cr ''service''
      in seq_result (set_controller (we_lib E) (rs_Meta cr) ''MdaiCollector'' (collector_meta name namespace), h) (\<lambda>m h1.
         seq_result (wrap_error ''failed to create or update mdai-collector-service: ''
                       (cou_Service E (service_named m) (collector_service_mutate (we_lib E) cr appName) h1)) (\<lambda>_ h2.
           (Ok name, h2))))"

definition createOrUpdateMdaiCollectorServiceAccount ::
  "mdai_collector wl_env \<Rightarrow> mdai_collector \<Rightarrow> string \<Rightarrow> collector_history \<Rightarrow> string outcome \<times> collector_history" where
  "createOrUpdateMdaiCollectorServiceAccount E cr namespace h =
     (let name = getScopedMdaiCollectorResourceName cr ''sa''
      in seq_result (set_controller (we_lib E) (rs_Meta cr) ''MdaiCollector'' (collector_meta name namespace), h) (\<lambda>m h1.
         seq_result (cou_ServiceAccount E \<lparr>sa_Meta = m\<rparr> Ok h1) (\<lambda>_ h2. (Ok name, h2))))"

definition collector_rules :: "policy_rule list" where
  "collector_rules =
     [\<lparr>pol_APIGroups = [[]],
       pol_Resources = [''events'', ''namespaces'', ''namespaces/status'', ''nodes'', ''nodes/spec'', ''pods'', ''pods/status'',
         ''replicationcontrollers'', ''replicationcontrollers/status'', ''resourcequotas'', ''services''],
       pol_Verbs = [''get'', ''list'', ''watch'']\<rparr>,
      \<lparr>pol_APIGroups = [''apps''], pol_Resources = [''daemonsets'', ''deployments'', ''replicasets'', ''statefulsets''],
       pol_Verbs = [''get'', ''list'', ''watch'']\<rparr>,
      \<lparr>pol_APIGroups = [''extensions''], pol_Resources = [''daemonsets'', ''deployments'', ''replicasets''],
       pol_Verbs = [''get'', ''list'', ''watch'']\<rparr>,
      \<lparr>pol_APIGroups = [''batch''], pol_Resources = [''jobs'', ''cronjobs''], pol_Verbs = [''get'', ''list'', ''watch'']\<rparr>,
      \<lparr>pol_APIGroups = [''autoscaling''], pol_Resources = [''horizontalpodautoscalers''],
       pol_Verbs = [''get'', ''list'', ''watch'']\<rparr>]"

definition createOrUpdateMdaiCollectorRole ::
  "mdai_collector wl_env \<Rightarrow> mdai_collector \<Rightarrow> collector_history \<Rightarrow> string outcome \<times> collector_history" where
  "createOrUpdateMdaiCollectorRole E cr h =
     (let name = getScopedMdaiCollectorResourceName cr ''role''
      in seq_result (cou_ClusterRole E \<lparr>cr_Meta = collector_meta name [], cr_Rules = []\<rparr>
                       (\<lambda>r. Ok (r\<lparr>cr_Rules := collector_rules\<rparr>)) h) (\<lambda>_ h1. (Ok name, h1)))"

definition createOrUpdateMdaiCollectorRoleBinding ::
  "mdai_collector wl_env \<Rightarrow> mdai_collector \<Rightarrow> string \<Rightarrow> string \<Rightarrow> string \<Rightarrow> collector_history
     \<Rightarrow> cluster_role_binding outcome \<times> collector_history" where
  "createOrUpdateMdaiCollectorRoleBinding E cr namespace roleName serviceAccountName h =
     (let name = getScopedMdaiCollectorResourceName cr ''rb''
      in cou_RoleBinding E \<lparr>crb_Meta = collector_meta name [], crb_RoleRef = ([], [], []), crb_Subjects = []\<rparr>
           (\<lambda>b. Ok (b\<lparr>crb_RoleRef := (''rbac.authorization.k8s.io'', ''ClusterRole'', roleName),
              crb_Subjects := [\<lparr>sub_Kind = ''ServiceAccount'', sub_Name = serviceAccountName, sub_Namespace = namespace\<rparr>]\<rparr>)) h)"

section \<open>The adapter\<close>

definition collector_ensureSynchronized ::
  "mdai_collector wl_env \<Rightarrow> range_fun \<Rightarrow> (mdai_collector, collector_history) operation" where
  "collector_ensureSynchronized E rng = (\<lambda>(cr, h).
     let namespace = cr_namespace cr;
         awsAccessKeySecret = (case mc_AWSConfig cr of None \<Rightarrow> None | Some secret \<Rightarrow> secret);
         fail = RequeueOnErrorOrContinue
     in on_result (createOrUpdateMdaiCollectorConfigMap E rng cr namespace (mc_Logs cr) awsAccessKeySecret h) (\<lambda>(configName, hash) h1.
        on_result (createOrUpdateMdaiCollectorEnvVarConfigMap E cr namespace h1) (\<lambda>envName h2.
        on_result (createOrUpdateMdaiCollectorServiceAccount E cr namespace h2) (\<lambda>saName h3.
        on_result (createOrUpdateMdaiCollectorRole E cr h3) (\<lambda>roleName h4.
        on_result (createOrUpdateMdaiCollectorRoleBinding E cr namespace roleName saName h4) (\<lambda>_ h5.
        on_result (createOrUpdateMdaiCollectorDeployment E cr
            \<lparr>cdp_Namespace = namespace, cdp_CollectorConfigMapName = configName, cdp_CollectorEnvConfigName = envName,
             cdp_ServiceAccountName = saName, cdp_AwsAccessKeySecret = awsAccessKeySecret, cdp_Hash = hash,
             cdp_Image = mc_Image cr, cdp_Tolerations = mc_Tolerations cr, cdp_Replicas = mc_Replicas cr\<rparr> h5) (\<lambda>deploymentName h6.
        on_result (createOrUpdateMdaiCollectorService E cr namespace deploymentName h6)
          (\<lambda>_ h7. (ContinueProcessing, cr, h7)) fail cr)
          (\<lambda>err. if kl_ReasonConflict (we_lib E) err then Requeue else fail err) cr)
          fail cr) fail cr) fail cr) fail cr) fail cr)"

definition collector_ensureFinalizerInitialized ::
  "mdai_collector wl_env \<Rightarrow> (mdai_collector, collector_history) operation" where
  "collector_ensureFinalizerInitialized E = ensureFinalizerInitialized (we_lib E) (wl_client E) hubFinalizer"

definition collector_ensureStatusInitialized ::
  "mdai_collector wl_env \<Rightarrow> (mdai_collector, collector_history) operation" where
  "collector_ensureStatusInitialized E = ensureStatusInitialized (we_lib E) (wl_client E)"

definition collector_finalize :: "mdai_collector wl_env \<Rightarrow> (mdai_collector, collector_history) finalize_op" where
  "collector_finalize E = finalize (we_lib E) (wl_client E) hubFinalizer"

definition collector_ensureDeletionProcessed ::
  "mdai_collector wl_env \<Rightarrow> (mdai_collector, collector_history) operation" where
  "collector_ensureDeletionProcessed E = ensureDeletionProcessed (collector_finalize E)"

definition collector_ensureStatusSetToDone ::
  "mdai_collector wl_env \<Rightarrow> (mdai_collector, collector_history) operation" where
  "collector_ensureStatusSetToDone E = ensureStatusSetToDone (we_lib E) (wl_client E)"

definition collector_operations ::
  "mdai_collector wl_env \<Rightarrow> range_fun \<Rightarrow> (mdai_collector, collector_history) operation list" where
  "collector_operations E rng =
     [collector_ensureDeletionProcessed E, collector_ensureStatusInitialized E, collector_ensureFinalizerInitialized E,
      collector_ensureSynchronized E rng, collector_ensureStatusSetToDone E]"

definition collector_Reconcile ::
  "mdai_collector wl_env \<Rightarrow> range_fun \<Rightarrow> nsname \<Rightarrow> collector_history \<Rightarrow> reconcile_return \<times> collector_history" where
  "collector_Reconcile E rng = Reconcile (we_lib E) (wl_client E) (collector_operations E rng)"

lemma range_order_set: "range_order rng \<Longrightarrow> set (rng m) = set m"
  by (metis range_order_def set_mset_mset)

lemma entry_value_fields: "field_names (entry_value e) ''pipelines'' = re_Pipelines e"
  by (simp add: entry_value_def field_names_def)

section \<open>What the sinks of a resource are\<close>

text \<open>
  The abstract routing: the pipelines a stream is sent to, OTLP before S3.
\<close>

definition otlp_sink :: "logs_config \<Rightarrow> string \<Rightarrow> bool" where
  "otlp_sink l s \<longleftrightarrow> (case lc_Otlp l of None \<Rightarrow> False | Some o' \<Rightarrow> ot_Endpoint o' \<noteq> [] \<and>
     (if s = AuditLogstream then audit_enabled (ot_AuditLogs o')
      else if s = CollectorLogstream then stream_enabled (ot_CollectorLogs o')
      else if s = HubLogstream then stream_enabled (ot_HubLogs o')
      else s = OtherLogstream \<and> stream_enabled (ot_OtherLogs o')))"

definition s3_sink :: "logs_config \<Rightarrow> string option \<Rightarrow> string \<Rightarrow> bool" where
  "s3_sink l secret s \<longleftrightarrow> secret \<noteq> None \<and> (case lc_S3 l of None \<Rightarrow> False | Some o' \<Rightarrow>
     (if s = AuditLogstream then audit_enabled (s3_AuditLogs o')
      else if s = CollectorLogstream then stream_enabled (s3_CollectorLogs o')
      else if s = HubLogstream then stream_enabled (s3_HubLogs o')
      else s = OtherLogstream \<and> stream_enabled (s3_OtherLogs o')))"

definition sinks :: "logs_config \<Rightarrow> string option \<Rightarrow> string \<Rightarrow> string list" where
  "sinks l secret s =
     (if otlp_sink l s then [''logs/otlp_'' @ s] else []) @ (if s3_sink l secret s then [''logs/s3_'' @ s] else [])"

definition routed_streams :: "string list" where
  "routed_streams = [AuditLogstream, CollectorLogstream, HubLogstream]"

definition spec_entry :: "string \<Rightarrow> string list \<Rightarrow> routingConnectorTableEntry" where
  "spec_entry s ps = \<lparr>re_Context = gget_str routingTableContextMap s, re_Condition = gget_str routingTableConditionMap s,
     re_Pipelines = ps\<rparr>"

section \<open>Lemmas on the routing table\<close>

lemmas logstream_defs = AuditLogstream_def CollectorLogstream_def HubLogstream_def OtherLogstream_def

lemma logstream_distinct [simp]:
  "AuditLogstream \<noteq> OtherLogstream" "CollectorLogstream \<noteq> OtherLogstream" "HubLogstream \<noteq> OtherLogstream"
  "OtherLogstream \<noteq> AuditLogstream" "OtherLogstream \<noteq> CollectorLogstream" "OtherLogstream \<noteq> HubLogstream"
  "AuditLogstream \<noteq> CollectorLogstream" "AuditLogstream \<noteq> HubLogstream" "CollectorLogstream \<noteq> HubLogstream"
  "CollectorLogstream \<noteq> AuditLogstream" "HubLogstream \<noteq> AuditLogstream" "HubLogstream \<noteq> CollectorLogstream"
  by (simp_all add: logstream_defs)

text \<open>The table as a function from streams to pipelines, and the effect of one addition on it.\<close>

definition table_for :: "routingTable \<Rightarrow> (string \<Rightarrow> string list) \<Rightarrow> bool" where
  "table_for rt f \<longleftrightarrow> distinct (map fst rt) \<and>
     (\<forall>s. gget rt s = (if s \<noteq> OtherLogstream \<and> f s \<noteq> [] then Some (spec_entry s (f s)) else None))"

lemma table_for_empty: "table_for [] (\<lambda>_. [])"
  by (simp add: table_for_def)

lemma table_for_mem:
  assumes "table_for rt f" "(s, e) \<in> set rt"
  shows "e = spec_entry s (f s)"
proof -
  have "map_of rt s = Some e" using assms by (intro map_of_is_SomeI) (simp_all add: table_for_def)
  then show ?thesis using assms(1) by (simp add: table_for_def del: map_of_eq_Some_iff split: if_splits)
qed

lemma table_for_add:
  assumes "table_for rt f"
  shows "table_for (addOrCreateRoutingTableEntryWithPipeline s p rt) (f(s := f s @ [p]))"
  using assms
  by (auto simp: table_for_def addOrCreateRoutingTableEntryWithPipeline_def update_conv spec_entry_def split: option.splits)

section \<open>Lemmas on the augmentation\<close>

text \<open>What a pipeline of a sink uses: the router, processors of the embedded configuration, and an exporter.\<close>

definition sink_processors :: "string list" where
  "sink_processors = map snd severityFilterMap @ [''batch'', ''batch/audit'']"

definition sink_pipeline :: "block \<Rightarrow> gval \<Rightarrow> bool" where
  "sink_pipeline exps p \<longleftrightarrow> field_names p ''receivers'' = [''routing/logstream''] \<and>
     set (field_names p ''processors'') \<subseteq> set sink_processors \<and> set (field_names p ''exporters'') \<subseteq> fst ` set exps"

lemma map_filter_GStr [simp]: "List.map_filter as_string (map GStr xs) = xs"
  by (induction xs) (simp_all add: List.map_filter_simps)

lemma severityFilterMap_range: "gget_str severityFilterMap s \<noteq> [] \<Longrightarrow> gget_str severityFilterMap s \<in> set sink_processors"
  by (auto simp: gget_str_def severityFilterMap_def sink_processors_def split: if_splits)

lemma getPipeline_sink:
  assumes "b = [] \<or> b = ''batch'' \<or> b = ''batch/audit''" "e \<in> fst ` set exps"
  shows "sink_pipeline exps (getPipelineWithExporterAndSeverityFilter ''routing/logstream'' e sev b)"
proof -
  have "set (if b \<noteq> [] then [b] else []) \<subseteq> set sink_processors" using assms(1) by (auto simp: sink_processors_def)
  then show ?thesis
    using assms(2) severityFilterMap_range
    by (auto simp: sink_pipeline_def getPipelineWithExporterAndSeverityFilter_def field_names_def List.map_filter_simps
        split: option.splits)
qed

lemma sink_pipeline_mono: "sink_pipeline exps p \<Longrightarrow> fst ` set exps \<subseteq> fst ` set exps' \<Longrightarrow> sink_pipeline exps' p"
  by (auto simp: sink_pipeline_def)

definition augment_inv :: "block \<Rightarrow> block \<Rightarrow> augmented \<Rightarrow> (string \<Rightarrow> string list) \<Rightarrow> bool" where
  "augment_inv E0 P0 ag f \<longleftrightarrow> table_for (ag_table ag) f \<and> fst ` set E0 \<subseteq> fst ` set (ag_exporters ag) \<and>
     (\<forall>n p. (n, p) \<in> set (ag_pipelines ag) \<longrightarrow> (n, p) \<in> set P0 \<or> sink_pipeline (ag_exporters ag) p) \<and>
     (\<forall>s n. n \<in> set (f s) \<longrightarrow> (\<exists>p. gget (ag_pipelines ag) n = Some p \<and> field_names p ''receivers'' = [''routing/logstream''])) \<and>
     (\<forall>n. (\<forall>s. n \<notin> set (f s)) \<longrightarrow> gget (ag_pipelines ag) n = gget P0 n)"

lemma fst_set_gset [simp]: "fst ` set (gset k v m) = insert k (fst ` set m)"
  using keys_gset [of k v m] by simp

lemma set_gset: "(n, x) \<in> set (gset k v m) \<Longrightarrow> (n, x) \<in> set m \<or> (n = k \<and> x = v)"
  by (induction m) (auto split: if_splits)

lemma augment_inv_start: "augment_inv E0 P0 \<lparr>ag_exporters = E0, ag_pipelines = P0, ag_table = []\<rparr> (\<lambda>_. [])"
  by (auto simp: augment_inv_def table_for_empty)

lemma augment_inv_exporter:
  assumes "augment_inv E0 P0 ag f"
  shows "augment_inv E0 P0 (set_exporter e ag) f"
proof -
  have "\<forall>p. sink_pipeline (ag_exporters ag) p \<longrightarrow> sink_pipeline (gset (fst e) (snd e) (ag_exporters ag)) p"
    by (intro allI impI, erule sink_pipeline_mono) (simp add: subset_insertI)
  with assms show ?thesis unfolding augment_inv_def by (simp add: set_exporter_def) blast
qed

lemma augment_inv_route:
  assumes "augment_inv E0 P0 ag f" "sink_pipeline (ag_exporters ag) p"
  shows "augment_inv E0 P0 (set_route s n p ag) (f(s := f s @ [n]))"
proof -
  let ?ps = "gset n p (ag_pipelines ag)"
  have old: "(m, x) \<in> set P0 \<or> sink_pipeline (ag_exporters ag) x" if "(m, x) \<in> set ?ps" for m x
    using set_gset [OF that] assms by (auto simp: augment_inv_def)
  have "\<exists>q. gget ?ps m = Some q \<and> field_names q ''receivers'' = [''routing/logstream'']"
    if "m \<in> set ((f(s := f s @ [n])) t)" for m t
  proof (cases "m = n")
    case True
    then show ?thesis using assms(2) by (simp add: update_conv sink_pipeline_def)
  next
    case False
    then have "m \<in> set (f t)" using that by (auto split: if_splits)
    then show ?thesis using assms(1) False unfolding augment_inv_def by (simp add: update_conv)
  qed
  moreover have "gget ?ps m = gget P0 m" if "\<forall>t. m \<notin> set ((f(s := f s @ [n])) t)" for m
  proof -
    have "m \<noteq> n" "\<forall>t. m \<notin> set (f t)" using that by (auto split: if_splits)
    then show ?thesis using assms(1) by (simp add: augment_inv_def update_conv)
  qed
  moreover have "table_for (ag_table (set_route s n p ag)) (f(s := f s @ [n]))"
    using assms(1) table_for_add by (simp add: augment_inv_def set_route_def)
  ultimately show ?thesis
    using assms(1) old unfolding augment_inv_def by (simp add: set_route_def)
qed

text \<open>The effect of one conditional step, and of the four of a sink, on the abstract routing.\<close>

definition add_sink :: "(string \<Rightarrow> bool) \<Rightarrow> string \<Rightarrow> string \<Rightarrow> (string \<Rightarrow> string list) \<Rightarrow> string \<Rightarrow> string list" where
  "add_sink on pre s f = (if on s then f(s := f s @ [pre @ s]) else f)"

definition add_sinks :: "(string \<Rightarrow> bool) \<Rightarrow> string \<Rightarrow> (string \<Rightarrow> string list) \<Rightarrow> string \<Rightarrow> string list" where
  "add_sinks on pre f s = f s @ (if on s then [pre @ s] else [])"

lemma add_sinks_steps:
  assumes "\<And>s. on s \<Longrightarrow> s \<in> {AuditLogstream, CollectorLogstream, HubLogstream, OtherLogstream}"
  shows "add_sink on pre OtherLogstream (add_sink on pre HubLogstream (add_sink on pre CollectorLogstream
    (add_sink on pre AuditLogstream f))) = add_sinks on pre f"
  using assms by (auto simp: add_sink_def add_sinks_def fun_eq_iff)

lemma augment_inv_otlp:
  assumes "augment_inv E0 P0 ag f" "e \<in> fst ` set (ag_exporters ag)" "b = on s"
  shows "augment_inv E0 P0 (if b then snd (addPipelineForLogstream cfg s e ag) else ag) (add_sink on ''logs/otlp_'' s f)"
    "e \<in> fst ` set (ag_exporters (if b then snd (addPipelineForLogstream cfg s e ag) else ag))"
  using assms(1,2) augment_inv_route [OF assms(1) getPipeline_sink [OF _ assms(2)]]
  by (simp_all add: assms(3) addPipelineForLogstream_def add_sink_def Let_def) (simp add: set_route_def)

lemma augment_inv_s3:
  assumes "augment_inv E0 P0 ag f" "b = on s"
  shows "augment_inv E0 P0 (if b then snd (addS3ComponentsAndPipeline n s cfg sev ag) else ag) (add_sink on ''logs/s3_'' s f)"
  using assms(1) augment_inv_route [OF augment_inv_exporter [OF assms(1)] getPipeline_sink]
  by (simp add: assms(2) addS3ComponentsAndPipeline_def add_sink_def Let_def) (simp add: set_exporter_def)

lemma otlp_sink_streams: "otlp_sink l s \<Longrightarrow> s \<in> {AuditLogstream, CollectorLogstream, HubLogstream, OtherLogstream}"
  by (auto simp: otlp_sink_def split: option.splits if_splits)

lemma s3_sink_streams: "s3_sink l k s \<Longrightarrow> s \<in> {AuditLogstream, CollectorLogstream, HubLogstream, OtherLogstream}"
  by (auto simp: s3_sink_def split: option.splits if_splits)

lemma snd_if_pair: "(if b then case r of (n, a) \<Rightarrow> ([n], a) else ([], a0)) = (if b then [fst r] else [], if b then snd r else a0)"
  by (cases r) simp

lemma add_sinks_none: "(\<And>s. \<not> on s) \<Longrightarrow> add_sinks on pre f = f"
  by (simp add: add_sinks_def fun_eq_iff)

lemma augment_otlp_other:
  "fst (augmentConfigForOtlpConfigAndGetOtherLogstreamPipelines l ag) =
     (if otlp_sink l OtherLogstream then [''logs/otlp_'' @ OtherLogstream] else [])"
  by (auto simp: augmentConfigForOtlpConfigAndGetOtherLogstreamPipelines_def otlp_sink_def Let_def
      addPipelineForLogstream_def split: option.splits)

lemma augment_s3_other:
  "fst (augmentPipelinesForS3ConfigAndGetOtherLogstreamPipelines n l k ag) =
     (if s3_sink l k OtherLogstream then [''logs/s3_'' @ OtherLogstream] else [])"
  by (auto simp: augmentPipelinesForS3ConfigAndGetOtherLogstreamPipelines_def s3_sink_def Let_def
      addS3ComponentsAndPipeline_def split: option.splits)

lemma augment_otlp:
  assumes "augment_inv E0 P0 ag f"
  shows "augment_inv E0 P0 (snd (augmentConfigForOtlpConfigAndGetOtherLogstreamPipelines l ag))
    (add_sinks (otlp_sink l) ''logs/otlp_'' f)"
proof (cases "\<exists>c. lc_Otlp l = Some c \<and> ot_Endpoint c \<noteq> []")
  case False
  then have "\<not> otlp_sink l s" for s by (auto simp: otlp_sink_def split: option.splits)
  then show ?thesis using assms False
    by (auto simp: add_sinks_none augmentConfigForOtlpConfigAndGetOtherLogstreamPipelines_def split: option.splits)
next
  case True
  then obtain c where c: "lc_Otlp l = Some c" "ot_Endpoint c \<noteq> []" by blast
  let ?e = "getOtlpExporterForLogstream c" and ?on = "otlp_sink l" and ?pre = "''logs/otlp_''"
  have on: "audit_enabled (ot_AuditLogs c) = ?on AuditLogstream"
    "stream_enabled (ot_CollectorLogs c) = ?on CollectorLogstream"
    "stream_enabled (ot_HubLogs c) = ?on HubLogstream" "stream_enabled (ot_OtherLogs c) = ?on OtherLogstream"
    using c by (simp_all add: otlp_sink_def)
  define ag0 where "ag0 = set_exporter ?e ag"
  define ag1 where "ag1 = (if audit_enabled (ot_AuditLogs c)
    then set_route AuditLogstream (''logs/otlp_'' @ AuditLogstream)
      (getPipelineWithExporterAndSeverityFilter ''routing/logstream'' (fst ?e) None ''batch/audit'') ag0 else ag0)"
  have e0: "fst ?e \<in> fst ` set (ag_exporters ag0)" by (simp add: ag0_def set_exporter_def)
  have i0: "augment_inv E0 P0 ag0 f" unfolding ag0_def by (rule augment_inv_exporter [OF assms])
  have e1: "fst ?e \<in> fst ` set (ag_exporters ag1)" using e0 by (simp add: ag1_def set_route_def)
  have i1: "augment_inv E0 P0 ag1 (add_sink ?on ?pre AuditLogstream f)"
    using i0 augment_inv_route [OF i0 getPipeline_sink [OF _ e0]] by (simp add: ag1_def add_sink_def on)
  note s2 = augment_inv_otlp [where on = "otlp_sink l", OF i1 e1 on(2), of "ot_CollectorLogs c"]
  note s3 = augment_inv_otlp [where on = "otlp_sink l", OF s2 on(3), of "ot_HubLogs c"]
  note s4 = augment_inv_otlp(1) [where on = "otlp_sink l", OF s3 on(4), of "ot_OtherLogs c"]
  have "snd (augmentConfigForOtlpConfigAndGetOtherLogstreamPipelines l ag) =
    (let ag2 = (if stream_enabled (ot_CollectorLogs c)
           then snd (addPipelineForLogstream (ot_CollectorLogs c) CollectorLogstream (fst ?e) ag1) else ag1);
         ag3 = (if stream_enabled (ot_HubLogs c)
           then snd (addPipelineForLogstream (ot_HubLogs c) HubLogstream (fst ?e) ag2) else ag2)
     in if stream_enabled (ot_OtherLogs c)
        then snd (addPipelineForLogstream (ot_OtherLogs c) OtherLogstream (fst ?e) ag3) else ag3)"
    by (simp only: augmentConfigForOtlpConfigAndGetOtherLogstreamPipelines_def c(1) option.simps if_not_P [OF c(2)] Let_def
        snd_if_pair snd_conv ag0_def [symmetric] ag1_def [symmetric])
  then show ?thesis
    using s4 add_sinks_steps [OF otlp_sink_streams] by (simp only: Let_def)
qed

lemma augment_s3:
  assumes "augment_inv E0 P0 ag f"
  shows "augment_inv E0 P0 (snd (augmentPipelinesForS3ConfigAndGetOtherLogstreamPipelines n l k ag))
    (add_sinks (s3_sink l k) ''logs/s3_'' f)"
proof (cases "k \<noteq> None \<and> (\<exists>c. lc_S3 l = Some c)")
  case False
  then have "\<not> s3_sink l k s" for s by (auto simp: s3_sink_def split: option.splits)
  then show ?thesis using assms False
    by (auto simp: add_sinks_none augmentPipelinesForS3ConfigAndGetOtherLogstreamPipelines_def split: option.splits)
next
  case True
  then obtain c where c: "lc_S3 l = Some c" "k \<noteq> None" by blast
  let ?on = "s3_sink l k" and ?e = "getS3ExporterForLogstream n CollectorLogstream c"
  have on: "audit_enabled (s3_AuditLogs c) = ?on AuditLogstream"
    "stream_enabled (s3_CollectorLogs c) = ?on CollectorLogstream"
    "stream_enabled (s3_HubLogs c) = ?on HubLogstream" "stream_enabled (s3_OtherLogs c) = ?on OtherLogstream"
    using c by (simp_all add: s3_sink_def)
  define ag1 where "ag1 = (if audit_enabled (s3_AuditLogs c)
    then snd (addS3ComponentsAndPipeline n AuditLogstream c None ag) else ag)"
  define ag2 where "ag2 = (if stream_enabled (s3_CollectorLogs c)
    then snd (addS3ComponentsAndPipeline n CollectorLogstream c (min_severity (s3_CollectorLogs c)) (set_exporter ?e ag1)) else ag1)"
  have i1: "augment_inv E0 P0 ag1 (add_sink ?on ''logs/s3_'' AuditLogstream f)"
    unfolding ag1_def by (rule augment_inv_s3 [where on = "s3_sink l k", OF assms on(1)])
  have "augment_inv E0 P0 ag2 (add_sink ?on ''logs/s3_'' CollectorLogstream (add_sink ?on ''logs/s3_'' AuditLogstream f))"
    using i1 augment_inv_s3 [where on = "s3_sink l k", OF augment_inv_exporter [OF i1] on(2)]
    by (cases "stream_enabled (s3_CollectorLogs c)") (simp_all add: ag2_def add_sink_def on)
  note s3 = augment_inv_s3 [where on = "s3_sink l k", OF this on(3), of n c "min_severity (s3_HubLogs c)"]
  note s4 = augment_inv_s3 [where on = "s3_sink l k", OF s3 on(4), of n c "min_severity (s3_OtherLogs c)"]
  have "snd (augmentPipelinesForS3ConfigAndGetOtherLogstreamPipelines n l k ag) =
    (let ag3 = (if stream_enabled (s3_HubLogs c)
           then snd (addS3ComponentsAndPipeline n HubLogstream c (min_severity (s3_HubLogs c)) ag2) else ag2)
     in if stream_enabled (s3_OtherLogs c)
        then snd (addS3ComponentsAndPipeline n OtherLogstream c (min_severity (s3_OtherLogs c)) ag3) else ag3)"
    by (simp only: augmentPipelinesForS3ConfigAndGetOtherLogstreamPipelines_def c(1) option.simps if_not_P [OF c(2)] Let_def
        snd_if_pair snd_conv ag1_def [symmetric] ag2_def [symmetric])
  then show ?thesis
    using s4 add_sinks_steps [OF s3_sink_streams] by (simp only: Let_def)
qed

section \<open>The routed configuration\<close>

lemma sinks_add: "add_sinks (s3_sink l k) ''logs/s3_'' (add_sinks (otlp_sink l) ''logs/otlp_'' (\<lambda>_. [])) = sinks l k"
  by (simp add: add_sinks_def sinks_def fun_eq_iff)

lemma sinks_streams: "sinks l k s \<noteq> [] \<Longrightarrow> s \<in> set routed_streams \<or> s = OtherLogstream"
  using otlp_sink_streams s3_sink_streams by (auto simp: sinks_def routed_streams_def split: if_splits)

text \<open>The table as a multiset, so that the order of the loop does not matter.\<close>

lemma table_entries:
  assumes "table_for rt f" "\<And>s. f s \<noteq> [] \<Longrightarrow> s \<in> set routed_streams \<or> s = OtherLogstream"
  shows "mset rt = mset (map (\<lambda>s. (s, spec_entry s (f s))) (filter (\<lambda>s. f s \<noteq> []) routed_streams))"
    (is "_ = mset ?spec")
proof -
  have d: "distinct (map fst rt)" and g: "\<And>s. gget rt s = (if s \<noteq> OtherLogstream \<and> f s \<noteq> [] then Some (spec_entry s (f s)) else None)"
    using assms(1) by (auto simp: table_for_def)
  have "OtherLogstream \<notin> set routed_streams" by (simp add: routed_streams_def)
  then have "(s, e) \<in> set rt \<longleftrightarrow> (s, e) \<in> set ?spec" for s e
    unfolding map_of_eq_Some_iff [OF d, symmetric] g using assms(2) [of s] by auto
  then have "set rt = set ?spec" by (simp add: set_eq_iff split_paired_all)
  moreover have "distinct ?spec" by (auto simp: distinct_map routed_streams_def inj_on_def)
  moreover have "distinct rt" using d by (simp add: distinct_map)
  ultimately show ?thesis by (simp only: set_eq_iff_mset_eq_distinct)
qed

definition router_of :: "block \<Rightarrow> block" where
  "router_of c = (case get_in [''connectors'', ''routing/logstream''] c of None \<Rightarrow> [] | Some r \<Rightarrow> r)"

definition table_of :: "block \<Rightarrow> gval list" where
  "table_of c = (case gget (router_of c) ''table'' of Some v \<Rightarrow> (case as_slice v of None \<Rightarrow> [] | Some vs \<Rightarrow> vs) | None \<Rightarrow> [])"

definition default_of :: "block \<Rightarrow> string list" where
  "default_of c = (case gget (router_of c) ''default_pipelines'' of Some v \<Rightarrow> names_of v | None \<Rightarrow> [])"

text \<open>Every pipeline that the router names exists and reads from the router.\<close>

definition reads_router :: "block \<Rightarrow> string \<Rightarrow> bool" where
  "reads_router ps n \<longleftrightarrow>
     (case gget ps n of None \<Rightarrow> False | Some p \<Rightarrow> field_names p ''receivers'' = [''routing/logstream''])"

definition router_closed :: "block \<Rightarrow> bool" where
  "router_closed c \<longleftrightarrow> (case pipelines_of c of
      None \<Rightarrow> False
    | Some ps \<Rightarrow>
        list_all (reads_router ps) (default_of c @ concat (map (\<lambda>e. field_names e ''pipelines'') (table_of c))))"

text \<open>What the adapter needs of its base configuration, and the parts it looks up there.\<close>

definition collector_base_ok :: "block \<Rightarrow> bool" where
  "collector_base_ok c \<longleftrightarrow> config_closed c \<and> GetMap c ''exporters'' \<noteq> None \<and>
     get_in [''connectors'', ''routing/logstream''] c \<noteq> None \<and>
     set sink_processors \<subseteq> set (defined_in c ''processors'')"

lemma GetMap_key:
  assumes "GetMap c k = Some m"
  shows "k \<in> fst ` set c"
proof -
  obtain v where "gget c k = Some v" using assms by (auto simp: GetMap_def getAs_def split: option.splits)
  from map_of_SomeD [OF this] show ?thesis by force
qed

lemma augment_inv_reads:
  assumes "augment_inv E0 P0 ag f" "m \<in> set (f s)"
  shows "reads_router (ag_pipelines ag) m"
proof -
  have "\<forall>s n. n \<in> set (f s) \<longrightarrow> (\<exists>p. gget (ag_pipelines ag) n = Some p \<and> field_names p ''receivers'' = [''routing/logstream''])"
    using assms(1) unfolding augment_inv_def by (elim conjE)
  with assms(2) obtain p where "gget (ag_pipelines ag) m = Some p" "field_names p ''receivers'' = [''routing/logstream'']"
    by blast
  then show ?thesis by (simp add: reads_router_def)
qed

lemma sink_pipeline_closed:
  assumes "sink_pipeline exps p" "GetMap c ''exporters'' = Some exps" "''routing/logstream'' \<in> set (defined_in c ''connectors'')"
    "set sink_processors \<subseteq> set (defined_in c ''processors'')"
  shows "pipeline_closed c p"
  using assms by (auto simp: sink_pipeline_def pipeline_closed_def defined_in_GetMap [OF assms(2)])

lemma bind_outcome_assoc: "bind_outcome (bind_outcome r f) g = bind_outcome r (\<lambda>x. bind_outcome (f x) g)"
  by (cases r) simp_all

lemma put_in_simps:
  "put_in [k] m c = bind_outcome (MustMap c k) (\<lambda>_. Ok (gset k (GMap m) c))"
  "put_in [k, k'] m c = bind_outcome (MustMap c k) (\<lambda>a. bind_outcome (MustMap a k') (\<lambda>_. Ok (gset k (GMap (gset k' (GMap m) a)) c)))"
  by (simp_all add: put_in_def bind_outcome_assoc)

definition routed_config ::
  "range_fun \<Rightarrow> logs_config \<Rightarrow> string option \<Rightarrow> block \<Rightarrow> augmented \<Rightarrow> block \<Rightarrow> bool" where
  "routed_config rng l k c ag c' \<longleftrightarrow> table_of c' = map (\<lambda>(_, e). entry_value e) (rng (ag_table ag)) \<and>
     default_of c' = (if sinks l k OtherLogstream = [] then default_of c else sinks l k OtherLogstream) \<and>
     pipelines_of c' = Some (ag_pipelines ag) \<and> GetMap c' ''exporters'' = Some (ag_exporters ag) \<and>
     defined_in c' ''receivers'' = defined_in c ''receivers'' \<and> defined_in c' ''processors'' = defined_in c ''processors'' \<and>
     set (defined_in c' ''connectors'') = set (defined_in c ''connectors'')"

lemma ok_route_logs:
  assumes "collector_base_ok c" "GetMap c ''exporters'' = Some E0" "pipelines_of c = Some P0"
  shows "\<exists>ag. augment_inv E0 P0 ag (sinks l k) \<and> ok_with (route_logs rng n l k c) (routed_config rng l k c ag)"
proof -
  obtain sv where sv: "GetMap c ''service'' = Some sv" "GetMap sv ''pipelines'' = Some P0"
    using assms(3) by (auto simp: pipelines_of_def split: option.splits)
  obtain cn r where cn: "GetMap c ''connectors'' = Some cn" "GetMap cn ''routing/logstream'' = Some r"
    using assms(1) by (auto simp: collector_base_ok_def split: option.splits)
  have mem: "''routing/logstream'' \<in> fst ` set cn" by (rule GetMap_key [OF cn(2)])
  let ?ag0 = "\<lparr>ag_exporters = E0, ag_pipelines = P0, ag_table = []\<rparr>"
  obtain o1 ag1 where a1: "augmentConfigForOtlpConfigAndGetOtherLogstreamPipelines l ?ag0 = (o1, ag1)" by fastforce
  obtain o2 ag2 where a2: "augmentPipelinesForS3ConfigAndGetOtherLogstreamPipelines n l k ag1 = (o2, ag2)" by fastforce
  have i1: "augment_inv E0 P0 ag1 (add_sinks (otlp_sink l) ''logs/otlp_'' (\<lambda>_. []))"
    using augment_otlp [OF augment_inv_start, of E0 P0 l] a1 by simp
  have i2: "augment_inv E0 P0 ag2 (sinks l k)"
    using augment_s3 [OF i1, of n l k] a2 by (simp add: sinks_add)
  have other: "o1 @ o2 = sinks l k OtherLogstream"
    using augment_otlp_other [of l ?ag0] augment_s3_other [of n l k ag1] a1 a2 by (simp add: sinks_def)
  have "ok_with (route_logs rng n l k c) (routed_config rng l k c ag2)"
    unfolding route_logs_def put_in_simps
    using assms(2) sv cn mem
    by (auto simp del: append_is_Nil_conv simp: MustMap_Ok [THEN iffD2] a1 a2 other Let_def routed_config_def table_of_def default_of_def router_of_def
        pipelines_of_def Set_def update_conv defined_in_GetMap [OF cn(1)])
  with i2 show ?thesis by blast
qed

lemma routed_config_closed:
  assumes "collector_base_ok c" "GetMap c ''exporters'' = Some E0" "pipelines_of c = Some P0"
    and "augment_inv E0 P0 ag f" "routed_config rng l k c ag c'"
  shows "config_closed c'"
proof -
  have same: "defined_in c' ''receivers'' = defined_in c ''receivers''" "defined_in c' ''processors'' = defined_in c ''processors''"
    "set (defined_in c' ''connectors'') = set (defined_in c ''connectors'')"
    using assms(5) by (simp_all add: routed_config_def)
  have "set (defined_in c ''exporters'') \<subseteq> set (defined_in c' ''exporters'')"
    using assms(2,4,5) by (auto simp: routed_config_def augment_inv_def defined_in_GetMap)
  then have grow: "pipeline_closed c p \<Longrightarrow> pipeline_closed c' p" for p
    using same by (auto simp: pipeline_closed_def)
  have router: "''routing/logstream'' \<in> set (defined_in c' ''connectors'')"
    using assms(1) unfolding same(3)
    by (auto simp: collector_base_ok_def defined_in_GetMap GetMap_key split: option.splits)
  have "pipeline_closed c' p" if "(n, p) \<in> set (ag_pipelines ag)" for n p
  proof (cases "(n, p) \<in> set P0")
    case True
    then show ?thesis using assms(1,3) grow by (auto simp: collector_base_ok_def config_closed_def)
  next
    case False
    then have "sink_pipeline (ag_exporters ag) p" using that assms(4) by (auto simp: augment_inv_def)
    then show ?thesis
      by (rule sink_pipeline_closed) (use assms(1,5) router same(2) in \<open>simp_all add: routed_config_def collector_base_ok_def\<close>)
  qed
  then show ?thesis using assms(5) by (auto simp: config_closed_def routed_config_def)
qed

lemma baseMdaiCollectorYAML_ok: "collector_base_ok baseMdaiCollectorYAML"
  by code_simp

lemma base_default: "default_of baseMdaiCollectorYAML = [''logs/debug_other'']"
  by code_simp

lemma route_base:
  obtains ag c where "route_logs rng n l k baseMdaiCollectorYAML = Ok c" "routed_config rng l k baseMdaiCollectorYAML ag c"
    "config_closed c" "table_for (ag_table ag) (sinks l k)"
    "\<forall>m. m = ''logs/debug_other'' \<or> (\<exists>s. m \<in> set (sinks l k s)) \<longrightarrow> reads_router (ag_pipelines ag) m"
proof -
  obtain E0 where E0: "GetMap baseMdaiCollectorYAML ''exporters'' = Some E0"
    using baseMdaiCollectorYAML_ok by (auto simp: collector_base_ok_def)
  obtain P0 where P0: "pipelines_of baseMdaiCollectorYAML = Some P0"
    using baseMdaiCollectorYAML_ok by (auto simp: collector_base_ok_def config_closed_def split: option.splits)
  obtain ag c where ag: "augment_inv E0 P0 ag (sinks l k)" "route_logs rng n l k baseMdaiCollectorYAML = Ok c"
    "routed_config rng l k baseMdaiCollectorYAML ag c"
    using ok_route_logs [OF baseMdaiCollectorYAML_ok E0 P0, of l k rng n] by (auto simp: ok_with_def)
  have "\<forall>s. ''logs/debug_other'' \<notin> set (sinks l k s)" by (simp add: sinks_def)
  then have "gget (ag_pipelines ag) ''logs/debug_other'' = gget P0 ''logs/debug_other''"
    using ag(1) unfolding augment_inv_def by blast
  moreover have "case pipelines_of baseMdaiCollectorYAML of None \<Rightarrow> False | Some ps \<Rightarrow> reads_router ps ''logs/debug_other''"
    by code_simp
  ultimately have "reads_router (ag_pipelines ag) ''logs/debug_other''"
    using P0 by (simp add: reads_router_def)
  moreover have "reads_router (ag_pipelines ag) m" if "m \<in> set (sinks l k s)" for s m
    by (rule augment_inv_reads [OF ag(1) that])
  ultimately have "\<forall>m. m = ''logs/debug_other'' \<or> (\<exists>s. m \<in> set (sinks l k s)) \<longrightarrow> reads_router (ag_pipelines ag) m"
    by blast
  then show thesis
    by (rule that [OF ag(2,3) routed_config_closed [OF baseMdaiCollectorYAML_ok E0 P0 ag(1,3)], rotated])
      (use ag(1) in \<open>simp add: augment_inv_def\<close>)
qed

interpretation collector_exposed: exposed_workload "collector_deployment_mutate L cr params"
  "collector_service_mutate L cr (getScopedMdaiCollectorResourceName cr [])"
  "[(''app'', getScopedMdaiCollectorResourceName cr [])]"
  "[tcp_port ''otlp-grpc'' otlpGRPCPort (StrVal ''otlp-grpc''), tcp_port ''otlp-http'' otlpHTTPPort (StrVal ''otlp-http'')]"
  for L cr params
  by unfold_locales
    (auto simp: collector_deployment_mutate_def collector_service_mutate_def Let_def outcome_iff deployment_builder_defs
      service_builder_defs container_builder_defs serves_port_def selects_def tcp_port_def collector_container_def
      otlpGRPCName_def otlpHTTPName_def update_conv set_entry_def gset_single split: option.splits)

section \<open>Properties\<close>

text \<open>
  C3. From the embedded configuration the collector adapter always builds a configuration without a panic, whatever the
  sinks of the resource: every component that a pipeline names is defined, and every pipeline that the log router names
  exists and reads from the router.
\<close>

theorem collector_config_sound:
  assumes "we_base E = Inr baseMdaiCollectorYAML" "range_order rng"
  shows "\<exists>c. getMdaiCollectorConfig E rng cr logs secret = of_sum (we_marshalYAML E c) \<and> config_closed c \<and> router_closed c"
proof (cases logs)
  case None
  have "router_closed baseMdaiCollectorYAML" by code_simp
  then show ?thesis
    using assms(1) None baseMdaiCollectorYAML_ok by (auto simp: getMdaiCollectorConfig_def collector_base_ok_def)
next
  case (Some l)
  obtain ag c where c: "route_logs rng (cr_name cr) l secret baseMdaiCollectorYAML = Ok c"
    "routed_config rng l secret baseMdaiCollectorYAML ag c" "config_closed c" "table_for (ag_table ag) (sinks l secret)"
    and pipes: "\<forall>m. m = ''logs/debug_other'' \<or> (\<exists>s. m \<in> set (sinks l secret s)) \<longrightarrow> reads_router (ag_pipelines ag) m"
    by (rule route_base [of rng "cr_name cr" l secret])
  have table: "set (table_of c) = (\<lambda>(s, e). entry_value e) ` set (ag_table ag)"
    using c(2) range_order_set [OF assms(2)] by (simp add: routed_config_def)
  have "m \<in> set (sinks l secret s)" if "(s, e) \<in> set (ag_table ag)" "m \<in> set (re_Pipelines e)" for s e m
    using that(2) table_for_mem [OF c(4) that(1)] by (simp add: spec_entry_def)
  then have tab: "\<exists>s. m \<in> set (sinks l secret s)" if "e \<in> set (table_of c)" "m \<in> set (field_names e ''pipelines'')" for e m
    using that unfolding table by (force simp: entry_value_fields)
  have dflt: "m = ''logs/debug_other'' \<or> (\<exists>s. m \<in> set (sinks l secret s))" if "m \<in> set (default_of c)" for m
    using that c(2) by (auto simp: routed_config_def base_default split: if_splits)
  have "reads_router (ag_pipelines ag) m"
    if "m \<in> set (default_of c @ concat (map (\<lambda>e. field_names e ''pipelines'') (table_of c)))" for m
  proof -
    have "m = ''logs/debug_other'' \<or> (\<exists>s. m \<in> set (sinks l secret s))" using that tab dflt by auto
    then show ?thesis using pipes by blast
  qed
  then have "router_closed c"
    using c(2) by (simp add: router_closed_def routed_config_def list_all_iff)
  then show ?thesis
    using c(1,3) assms(1) Some by (auto simp: getMdaiCollectorConfig_def)
qed

text \<open>
  C4. The routing of a generated configuration refines the abstract one: the table of the log router has, in some order,
  exactly one entry per stream that has a sink, with the stream's context and condition and the pipelines of its sinks,
  OTLP before S3; all other records go to the sinks of the remaining stream or, when it has none, to the debug pipeline.
  When no sink is usable (logs are configured, but without an endpoint and without a secret) the table is empty.
\<close>

theorem collector_routing_refines:
  assumes "range_order rng"
  shows "\<exists>c. route_logs rng n l secret baseMdaiCollectorYAML = Ok c \<and>
    mset (table_of c) = mset (map (\<lambda>s. entry_value (spec_entry s (sinks l secret s)))
      (filter (\<lambda>s. sinks l secret s \<noteq> []) routed_streams)) \<and>
    default_of c = (if sinks l secret OtherLogstream = [] then [''logs/debug_other''] else sinks l secret OtherLogstream)"
proof -
  obtain ag c where c: "route_logs rng n l secret baseMdaiCollectorYAML = Ok c"
    "routed_config rng l secret baseMdaiCollectorYAML ag c" "table_for (ag_table ag) (sinks l secret)"
    by (rule route_base [of rng n l secret])
  have "mset (table_of c) = image_mset (\<lambda>(_, e). entry_value e) (mset (ag_table ag))"
    using c(2) assms by (simp add: routed_config_def range_order_def)
  also have "\<dots> = mset (map (\<lambda>s. entry_value (spec_entry s (sinks l secret s)))
      (filter (\<lambda>s. sinks l secret s \<noteq> []) routed_streams))"
    by (subst table_entries [OF c(3) sinks_streams]) (simp_all add: multiset.map_comp comp_def)
  finally show ?thesis using c(1,2) by (auto simp: routed_config_def base_default)
qed

definition sample_logs :: logs_config where
  "sample_logs = \<lparr>lc_S3 = Some \<lparr>s3_AuditLogs = None, s3_CollectorLogs = None, s3_HubLogs = Some \<lparr>ls_MinSeverity = Some ''warn'', ls_Disabled = False\<rparr>,
       s3_OtherLogs = Some \<lparr>ls_MinSeverity = None, ls_Disabled = True\<rparr>, s3_S3Region = ''us-east-1'', s3_S3Bucket = ''b''\<rparr>,
     lc_Otlp = Some \<lparr>ot_AuditLogs = Some True, ot_CollectorLogs = None, ot_HubLogs = None, ot_OtherLogs = None, ot_Endpoint = ''http://o:4317''\<rparr>\<rparr>"

lemma range_order_rev: "range_order rev"
  by (simp add: range_order_def)

definition sample_collector :: mdai_collector where
  "sample_collector = \<lparr>rs_Meta = meta_named ''c'' ''mdai'', rs_Conditions = [], mc_AWSConfig = Some (Some ''aws''),
     mc_Logs = Some sample_logs, mc_Image = ''collector:1'', mc_Replicas = 1, mc_Tolerations = []\<rparr>"

theorem collector_config_sound_witness:
  "\<exists>c. getMdaiCollectorConfig (sample_wl_env baseMdaiCollectorYAML) rev sample_collector (Some sample_logs) (Some ''aws'') =
     Ok (concat (map fst c)) \<and> config_closed c \<and> router_closed c"
  using collector_config_sound [OF _ range_order_rev, of "sample_wl_env baseMdaiCollectorYAML" sample_collector "Some sample_logs" "Some ''aws''"]
  by (auto simp: sample_wl_env_def)

theorem collector_routing_refines_witness:
  "\<exists>c. route_logs rev ''c'' sample_logs (Some ''aws'') baseMdaiCollectorYAML = Ok c \<and>
     mset (table_of c) = {#entry_value (spec_entry AuditLogstream [''logs/s3_audit'']),
       entry_value (spec_entry CollectorLogstream [''logs/otlp_collector'', ''logs/s3_collector'']),
       entry_value (spec_entry HubLogstream [''logs/otlp_hub'', ''logs/s3_hub''])#} \<and>
     default_of c = [''logs/otlp_other'']"
proof -
  have s: "sinks sample_logs (Some ''aws'') AuditLogstream = [''logs/s3_audit'']"
    "sinks sample_logs (Some ''aws'') CollectorLogstream = [''logs/otlp_collector'', ''logs/s3_collector'']"
    "sinks sample_logs (Some ''aws'') HubLogstream = [''logs/otlp_hub'', ''logs/s3_hub'']"
    "sinks sample_logs (Some ''aws'') OtherLogstream = [''logs/otlp_other'']"
    by code_simp+
  show ?thesis
    using collector_routing_refines [OF range_order_rev, of "''c''" sample_logs "Some ''aws''"]
    by (simp add: s routed_streams_def)
qed

end
