(* ===== verification/Replay_Adapter.thy ===== *)
theory Replay_Adapter
  imports Workloads Complex_Main
begin

text \<open>
  The replay controller: \<^verbatim>\<open>internal/controller/mdaireplay_adapter.go\<close> and \<^verbatim>\<open>mdaireplay_controller.go\<close>.
  A replay runs a collector that reads recorded telemetry from S3 and sends it to a destination. Its deletion waits for
  the collector's sending queue, which the finalizer reads from the collector's metrics endpoint.
\<close>

section \<open>The embedded configuration (config/replay\_collector\_base\_config.yaml)\<close>

definition baseReplayCollectorYaml :: block where
  "baseReplayCollectorYaml =
    [(''receivers'', GMap [(''awss3'', GMap [(''notifications'', GMap [(''opampextension'', GStr ''opamp'')]),
        (''s3downloader'', GMap [])])]),
     (''processors'', GMap [(''attributes'', GMap [(''actions'', GSlice [])])]),
     (''exporters'', GMap []),
     (''extensions'', GMap [(''opamp'', GMap [(''agent_description'', GMap [(''include_resource_attributes'', GBool True),
        (''non_identifying_attributes'', GMap [])]),
        (''server'', GMap [(''http'', GMap [(''tls'', GMap [(''insecure'', GBool True)])])])])]),
     (''service'', GMap [(''telemetry'', GMap [(''metrics'', GMap [(''readers'', GSlice [GMap [(''pull'', GMap
          [(''exporter'', GMap [(''prometheus'', GMap [(''host'', GStr ''0.0.0.0''), (''port'', GFloat ''8888'')])])])]])])]),
        (''extensions'', GSlice [GStr ''opamp'']), (''pipelines'', GMap [])])]"

section \<open>Constants and metrics\<close>

definition mdaiReplayFinalizerName :: string where "mdaiReplayFinalizerName = ''mydecisive.ai/replay_finalizer''"
definition replayNameKey :: string where "replayNameKey = ''replay_name''"
definition replayerDefaultImage :: string where "replayerDefaultImage = ''otel/opentelemetry-collector-contrib:0.136.0''"
definition replayCollectorHubComponent :: string where "replayCollectorHubComponent = ''mdai-replay''"

text \<open>A \<^verbatim>\<open>float64\<close>, as far as the comparison with 0 sees it.\<close>

datatype float64 = Finite rat | PosInf | NegInf | NaN

fun positive :: "float64 \<Rightarrow> bool" where
  "positive (Finite r) \<longleftrightarrow> 0 < r"
| "positive PosInf \<longleftrightarrow> True"
| "positive NegInf \<longleftrightarrow> False"
| "positive NaN \<longleftrightarrow> False"

record metric =
  me_Gauge :: "float64 option"
  me_Counter :: "float64 option"

text \<open>
  The HTTP client and the parser of the Prometheus text format are parameters; the function for the address of the
  metrics is a field of the adapter.
\<close>

record replay_http =
  rh_NewRequest :: "string \<Rightarrow> goerr option"
  rh_Do :: "mdai_replay wl_history \<Rightarrow> string \<Rightarrow> goerr + string"
  rh_TextToMetricFamilies :: "string \<Rightarrow> goerr + (string, metric list) gomap"
  rh_metricsURLBuilder :: "string \<Rightarrow> string \<Rightarrow> string"

fun first_value :: "metric list \<Rightarrow> float64 option" where
  "first_value [] = None"
| "first_value (m # ms) =
     (case me_Gauge m of
        Some v \<Rightarrow> Some v
      | None \<Rightarrow> (case me_Counter m of Some v \<Rightarrow> Some v | None \<Rightarrow> first_value ms))"

definition extractMetricValueFromResponse :: "replay_http \<Rightarrow> string \<Rightarrow> string \<Rightarrow> goerr + float64" where
  "extractMetricValueFromResponse R body metricName =
     (case rh_TextToMetricFamilies R body of
        Inl err \<Rightarrow> Inl err
      | Inr metricFamilies \<Rightarrow>
          (case gget metricFamilies metricName of
             None \<Rightarrow> Inl (ErrNew (''metric '' @ metricName @ '' not found''))
           | Some ms \<Rightarrow>
               (case first_value ms of
                  Some v \<Rightarrow> Inr v
                | None \<Rightarrow> Inl (ErrNew (''found metrics with name '' @ metricName @ '' but need gauge or counter'')))))"

definition getMetricValue ::
  "replay_http \<Rightarrow> string \<Rightarrow> string \<Rightarrow> mdai_replay wl_history \<Rightarrow> (goerr + float64) \<times> mdai_replay wl_history" where
  "getMetricValue R metricsUrl metricName h =
     (case rh_NewRequest R metricsUrl of
        Some err \<Rightarrow> (Inl err, h)
      | None \<Rightarrow>
          (case rh_Do R h metricsUrl of
             Inl err \<Rightarrow> (Inl err, WHttpGet metricsUrl # h)
           | Inr body \<Rightarrow> (extractMetricValueFromResponse R body metricName, WHttpGet metricsUrl # h)))"

definition defaultMetricsURLBuilder :: "string \<Rightarrow> string \<Rightarrow> string" where
  "defaultMetricsURLBuilder serviceName namespace =
     ''http://'' @ serviceName @ ''.'' @ namespace @ ''.svc.cluster.local:8888/metrics''"

text \<open>The constructor of the adapter replaces a missing function by the default one.\<close>

definition with_metrics_url :: "(string \<Rightarrow> string \<Rightarrow> string) option \<Rightarrow> replay_http \<Rightarrow> replay_http" where
  "with_metrics_url metricsURLBuilder R =
     R\<lparr>rh_metricsURLBuilder := (case metricsURLBuilder of None \<Rightarrow> defaultMetricsURLBuilder | Some b \<Rightarrow> b)\<rparr>"

definition getReplayerResourceName :: "mdai_replay \<Rightarrow> string \<Rightarrow> string" where
  "getReplayerResourceName cr suffix =
     ''replay-'' @ cr_name cr @ ''-'' @ rp_HubName (rpl_Spec cr) @ ''-'' @ suffix"

section \<open>Configuration\<close>

definition replay_id_action :: "string \<Rightarrow> gval" where
  "replay_id_action replayId =
     GStruct [(''key'', GStr replayNameKey), (''action'', GStr ''upsert''), (''value'', GStr replayId)]"

definition add_replay_action :: "string \<Rightarrow> block \<Rightarrow> block outcome" where
  "add_replay_action replayId config =
     update_in [''processors'', ''attributes''] (\<lambda>attrProcessor.
       bind_outcome (MustSlice attrProcessor ''actions'') (\<lambda>actions.
         Ok (Set ''actions'' (GSlice (actions @ [replay_id_action replayId])) attrProcessor))) config"

definition replay_pipeline :: gval where
  "replay_pipeline = GMap [(''receivers'', GStrs [''awss3'']), (''processors'', GStrs [''attributes'']),
     (''exporters'', GStrs [''otlphttp''])]"

text \<open>
  \<^verbatim>\<open>config.Set("exporters", exporters)\<close> stores the map back under its own name, now as a value of the type
  \<^verbatim>\<open>ConfigBlock\<close>.
\<close>

definition add_replay_exporter :: "replay_spec \<Rightarrow> block \<Rightarrow> block outcome" where
  "add_replay_exporter spec config =
     (case rp_OtlpHttp spec of
        None \<Rightarrow> Ok config
      | Some otlpEndpoint \<Rightarrow>
          if otlpEndpoint = [] then Ok config
          else bind_outcome (MustMap config ''exporters'') (\<lambda>exporters.
            let config1 = Set ''exporters'' (GBlock (Set ''otlphttp'' (GMap [(''endpoint'', GStr otlpEndpoint)]) exporters)) config
            in if rp_TelemetryType spec = [] then Err (ErrNew ''telemetry type is missing in replay spec'')
               else bind_outcome (MustMap config1 ''service'') (\<lambda>serviceBlock.
                 case GetMap serviceBlock ''pipelines'' of
                   None \<Rightarrow> Err (ErrNew ''pipelines is not a map[string]any'')
                 | Some pipelines \<Rightarrow>
                     set_in [''service'', ''pipelines''] (rp_TelemetryType spec @ ''/replay'') replay_pipeline config1)))"

definition set_s3_receiver :: "replay_spec \<Rightarrow> block \<Rightarrow> block outcome" where
  "set_s3_receiver spec config =
     update_in [''receivers'', ''awss3''] (\<lambda>s3ReceiverConfig.
       bind_outcome (MustMap s3ReceiverConfig ''s3downloader'') (\<lambda>downloader.
         let receiver1 = Set ''endtime'' (GStr (rp_EndTime spec)) (Set ''starttime'' (GStr (rp_StartTime spec)) s3ReceiverConfig)
         in case rp_S3 spec of
              None \<Rightarrow> Panic ''nil pointer dereference''
            | Some s3 \<Rightarrow>
                Ok (Set ''s3downloader'' (GMap
                  (Set ''s3_partition'' (GStr (r3_S3Partition s3))
                    (Set ''s3_prefix'' (GStr (r3_S3Path s3))
                      (Set ''s3_bucket'' (GStr (r3_S3Bucket s3))
                        (Set ''region'' (GStr (r3_S3Region s3))
                          (Set ''file_prefix'' (GStr (r3_FilePrefix s3)) downloader)))))) receiver1))) config"

definition set_opamp :: "string \<Rightarrow> string \<Rightarrow> replay_spec \<Rightarrow> block \<Rightarrow> block outcome" where
  "set_opamp replayId hubName spec config =
     update_in [''extensions'', ''opamp''] (\<lambda>opampExtension.
       bind_outcome (MustMap opampExtension ''agent_description'') (\<lambda>agentDescription.
       bind_outcome (MustMap agentDescription ''non_identifying_attributes'') (\<lambda>attributes.
         let attributes1 = Set ''replay_status_variable'' (GStr (rp_StatusVariableRef spec))
               (Set ''hub_name'' (GStr hubName) (Set ''replay_id'' (GStr replayId) attributes));
             opamp1 = Set ''agent_description''
               (GMap (Set ''non_identifying_attributes'' (GBlock attributes1) agentDescription)) opampExtension
         in bind_outcome (MustMap opamp1 ''server'') (\<lambda>opampServer.
            bind_outcome (set_in [''http''] ''endpoint'' (GStr (rp_OpAMPEndpoint spec)) opampServer) (\<lambda>server1.
              Ok (Set ''server'' (GBlock server1) opamp1)))))) config"

definition augmentCollectorConfigPerSpec :: "string \<Rightarrow> string \<Rightarrow> block \<Rightarrow> replay_spec \<Rightarrow> block outcome" where
  "augmentCollectorConfigPerSpec replayId hubName config spec =
     bind_outcome (add_replay_action replayId config) (\<lambda>c1.
     bind_outcome (add_replay_exporter spec c1) (\<lambda>c2.
     bind_outcome (set_s3_receiver spec c2) (\<lambda>c3.
     set_opamp replayId hubName spec c3)))"

definition getReplayCollectorConfigYAML ::
  "mdai_replay wl_env \<Rightarrow> mdai_replay \<Rightarrow> string \<Rightarrow> string \<Rightarrow> string outcome" where
  "getReplayCollectorConfigYAML E cr replayId hubName =
     (case we_base E of
        Inl err \<Rightarrow> Err (ErrWrap ''unmarshal base collector config: '' err)
      | Inr config \<Rightarrow>
          (case augmentCollectorConfigPerSpec replayId hubName config (rpl_Spec cr) of
             Err err \<Rightarrow> Err (ErrWrap ''failed to build replay config with error: '' err)
           | Panic m \<Rightarrow> Panic m
           | Ok c \<Rightarrow> of_sum (YAML (we_marshalYAML E) c)))"

section \<open>The objects of a replay\<close>

type_synonym replay_history = "mdai_replay wl_history"

definition replay_config_meta :: "mdai_replay \<Rightarrow> object_meta" where
  "replay_config_meta cr = (meta_named (getReplayerResourceName cr ''collector-config'') (cr_namespace cr))\<lparr>om_Labels :=
     Some [(''app'', getReplayerResourceName cr ''collector''), (LabelManagedByMdaiKey, LabelManagedByMdaiValue),
       (HubComponentLabel, ''mdai-observer''), (hubNameLabel, rp_HubName (rpl_Spec cr))]\<rparr>"

definition createOrUpdateReplayerConfigMap ::
  "mdai_replay wl_env \<Rightarrow> mdai_replay \<Rightarrow> replay_history \<Rightarrow> string outcome \<times> replay_history" where
  "createOrUpdateReplayerConfigMap E cr h =
     seq_result (wrap_error ''failed to build replay configuration: ''
                   (getReplayCollectorConfigYAML E cr (cr_name cr) (rp_HubName (rpl_Spec cr)), h)) (\<lambda>collectorYAML h1.
     seq_result (set_controller (we_lib E) (rs_Meta cr) ''MdaiReplay'' (replay_config_meta cr), h1) (\<lambda>m h2.
     seq_result (cou_ConfigMap E \<lparr>cm_Meta = m, cm_Data = Some [(''collector.yaml'', collectorYAML)]\<rparr>
                   (write_data ''collector.yaml'' collectorYAML) h2) (\<lambda>cm h3.
       (of_sum (getConfigMapSHA E cm), h3))))"

definition replay_container :: "mdai_replay \<Rightarrow> string \<Rightarrow> string \<Rightarrow> container" where
  "replay_container cr name img =
     (let container = WithEnvFrom [ConfigMapRef (getReplayerResourceName cr ''collector-config'')]
            (WithVolumeMounts [config_mount]
              (WithContainerPorts [\<lparr>cp_ContainerPort = otelMetricsPort, cp_Name = ''otelcol-metrics'', cp_Protocol = []\<rparr>]
                (WithCommand [''/otelcol-contrib'', ''--config=/conf/collector.yaml''] (Container name img))))
      in case rp_AWSConfig (rpl_Spec cr) of
           None \<Rightarrow> container
         | Some secret \<Rightarrow> (if secret \<noteq> None then WithAWSSecret secret container else container))"

definition augmentDeploymentWithValues ::
  "mdai_replay \<Rightarrow> string \<Rightarrow> string \<Rightarrow> string \<Rightarrow> deployment \<Rightarrow> deployment" where
  "augmentDeploymentWithValues cr name img configHash deployment =
     WithVolumes [config_volume (getReplayerResourceName cr ''collector-config'')]
       (WithContainers [replay_container cr name img]
         (WithReplicas 1
           (WithTemplateAnnotation ''replay-collector-config/sha256'' configHash
             (WithTemplateLabel ''app.kubernetes.io/component'' name
               (WithTemplateLabel ''app'' name
                 (WithSelectorLabel ''app'' name
                   (WithLabel HubComponentLabel replayCollectorHubComponent
                     (WithLabel LabelManagedByMdaiKey LabelManagedByMdaiValue
                       (WithLabel hubNameLabel (cr_name cr)
                         (WithLabel ''app'' name deployment))))))))))"

definition replay_deployment_mutate ::
  "kube_lib \<Rightarrow> mdai_replay \<Rightarrow> string \<Rightarrow> deployment \<Rightarrow> deployment outcome" where
  "replay_deployment_mutate L cr configHash deployment =
     bind_outcome (set_controller L (rs_Meta cr) ''MdaiReplay'' (dep_Meta deployment)) (\<lambda>m.
       let img = (if rp_Image (rpl_Spec cr) \<noteq> [] then rp_Image (rpl_Spec cr) else replayerDefaultImage)
       in Ok (augmentDeploymentWithValues cr (getReplayerResourceName cr ''collector'') img configHash
                (deployment\<lparr>dep_Meta := m\<rparr>)))"

definition createOrUpdateReplayerDeployment ::
  "mdai_replay wl_env \<Rightarrow> mdai_replay \<Rightarrow> string \<Rightarrow> replay_history \<Rightarrow> deployment outcome \<times> replay_history" where
  "createOrUpdateReplayerDeployment E cr configHash h =
     cou_Deployment E (deployment_named (meta_named (getReplayerResourceName cr ''collector'') (cr_namespace cr)))
       (replay_deployment_mutate (we_lib E) cr configHash) h"

definition replay_service_mutate :: "mdai_replay \<Rightarrow> service \<Rightarrow> service outcome" where
  "replay_service_mutate cr service =
     (let appLabel = getReplayerResourceName cr ''collector''
      in Ok (WithType ''ClusterIP''
          (WithPorts [tcp_port ''otelcol-metrics'' otelMetricsPort (StrVal ''otelcol-metrics'')]
            (WithServiceSelectorLabel ''app'' appLabel
              (WithServiceLabel LabelManagedByMdaiKey LabelManagedByMdaiValue
                (WithServiceLabel HubComponentLabel replayCollectorHubComponent
                  (WithServiceLabel hubNameLabel (cr_name cr)
                    (WithServiceLabel ''app'' appLabel service))))))))"

definition createOrUpdateReplayerService ::
  "mdai_replay wl_env \<Rightarrow> mdai_replay \<Rightarrow> replay_history \<Rightarrow> service outcome \<times> replay_history" where
  "createOrUpdateReplayerService E cr h =
     (let name = getReplayerResourceName cr ''service''
      in seq_result (set_controller (we_lib E) (rs_Meta cr) ''MdaiReplay'' (meta_named name (cr_namespace cr)), h) (\<lambda>m h1.
         wrap_error (''failed to create or update '' @ name @ '': '')
           (cou_Service E (service_named m) (replay_service_mutate cr) h1)))"

section \<open>The adapter\<close>

definition replay_ensureSynchronized :: "mdai_replay wl_env \<Rightarrow> (mdai_replay, replay_history) operation" where
  "replay_ensureSynchronized E = (\<lambda>(cr, h).
     on_result (createOrUpdateReplayerConfigMap E cr h) (\<lambda>hash h1.
     on_result (createOrUpdateReplayerDeployment E cr hash h1) (\<lambda>_ h2.
     on_result (createOrUpdateReplayerService E cr h2)
       (\<lambda>_ h3. (ContinueProcessing, cr, h3)) RequeueWithError cr)
       (\<lambda>err. if kl_ReasonConflict (we_lib E) err then Requeue else RequeueWithError err) cr)
       RequeueWithError cr)"

text \<open>The question to the sending queue: \<^const>\<open>None\<close> when finalization may go on.\<close>

definition check_sending_queue ::
  "replay_http \<Rightarrow> mdai_replay \<Rightarrow> replay_history \<Rightarrow> (object_state \<times> goerr option) option \<times> replay_history" where
  "check_sending_queue R cr h =
     (if rp_IgnoreSendingQueue (rpl_Spec cr) then (None, h)
      else (let metricsUrl = rh_metricsURLBuilder R (getReplayerResourceName cr ''service'') (cr_namespace cr)
            in case getMetricValue R metricsUrl ''otelcol_exporter_queue_size'' h of
                 (Inl err, h1) \<Rightarrow> (Some (ObjectUnchanged, Some err), h1)
               | (Inr sendingQueueSize, h1) \<Rightarrow>
                   (if positive sendingQueueSize then (Some (ObjectUnchanged, None), h1) else (None, h1))))"

definition replay_finalize ::
  "mdai_replay wl_env \<Rightarrow> replay_http \<Rightarrow> (mdai_replay, replay_history) finalize_op" where
  "replay_finalize E R = (\<lambda>(cr, h).
     if \<not> kl_ContainsFinalizer (we_lib E) (rs_Meta cr) mdaiReplayFinalizerName then (ObjectModified, None, cr, h)
     else (case check_sending_queue R cr h of
             (Some (st, err), h1) \<Rightarrow> (st, err, cr, h1)
           | (None, h1) \<Rightarrow>
               (case mark_finalizing (we_lib E) (wl_client E) (cr, h1) of
                  (Some (st, err), s) \<Rightarrow> (st, err, s)
                | (None, s) \<Rightarrow>
                    (case ensureFinalizerDeleted (wl_client E) mdaiReplayFinalizerName s of
                       (Some err, s') \<Rightarrow> (ObjectUnchanged, Some err, s')
                     | (None, s') \<Rightarrow> (ObjectModified, None, s')))))"

definition replay_ensureDeletionProcessed ::
  "mdai_replay wl_env \<Rightarrow> replay_http \<Rightarrow> (mdai_replay, replay_history) operation" where
  "replay_ensureDeletionProcessed E R = ensureDeletionProcessed (replay_finalize E R)"

definition replay_ensureFinalizerInitialized :: "mdai_replay wl_env \<Rightarrow> (mdai_replay, replay_history) operation" where
  "replay_ensureFinalizerInitialized E = ensureFinalizerInitialized (we_lib E) (wl_client E) mdaiReplayFinalizerName"

definition replay_ensureStatusInitialized :: "mdai_replay wl_env \<Rightarrow> (mdai_replay, replay_history) operation" where
  "replay_ensureStatusInitialized E = ensureStatusInitialized (we_lib E) (wl_client E)"

definition replay_ensureStatusSetToDone :: "mdai_replay wl_env \<Rightarrow> (mdai_replay, replay_history) operation" where
  "replay_ensureStatusSetToDone E = ensureStatusSetToDone (we_lib E) (wl_client E)"

definition replay_operations ::
  "mdai_replay wl_env \<Rightarrow> replay_http \<Rightarrow> (mdai_replay, replay_history) operation list" where
  "replay_operations E R =
     [replay_ensureDeletionProcessed E R, replay_ensureStatusInitialized E, replay_ensureFinalizerInitialized E,
      replay_ensureSynchronized E, replay_ensureStatusSetToDone E]"

text \<open>Unlike the other controllers, this one returns the result of the handler.\<close>

definition replay_Reconcile ::
  "mdai_replay wl_env \<Rightarrow> replay_http \<Rightarrow> nsname \<Rightarrow> replay_history \<Rightarrow> reconcile_return \<times> replay_history" where
  "replay_Reconcile E R req h =
     (case we_Get E h req of
        Inl err \<Rightarrow> (Done \<lparr>res_RequeueAfter = 0\<rparr> (if kl_IsNotFound (we_lib E) err then None else Some err), WGet req # h)
      | Inr fetchedCR \<Rightarrow>
          (case run_operations (replay_operations E (with_metrics_url None R)) (fetchedCR, WGet req # h) of
             (Done result err, s) \<Rightarrow> (Done result err, snd s)
           | (Crashed m, s) \<Rightarrow> (Crashed m, snd s)))"

section \<open>Lemmas\<close>

text \<open>A replay that has a destination.\<close>

definition sends :: "replay_spec \<Rightarrow> bool" where
  "sends spec \<longleftrightarrow> (case rp_OtlpHttp spec of None \<Rightarrow> False | Some e \<Rightarrow> e \<noteq> [])"

lemmas replay_config_defs =
  augmentCollectorConfigPerSpec_def add_replay_action_def add_replay_exporter_def set_s3_receiver_def set_opamp_def
  MustMap_def MustSlice_def mustGetAs_def getAs_def GetMap_def Set_def set_in_def Let_def

lemmas config_view_defs =
  config_closed_def pipelines_of_def pipeline_closed_def field_names_def defined_in_def GetMap_def getAs_def replay_pipeline_def

interpretation replay_exposed: exposed_workload "replay_deployment_mutate L cr hash" "replay_service_mutate cr"
  "[(''app'', getReplayerResourceName cr ''collector'')]"
  "[tcp_port ''otelcol-metrics'' otelMetricsPort (StrVal ''otelcol-metrics'')]"
  for L cr hash
  by unfold_locales
    (auto simp: replay_deployment_mutate_def replay_service_mutate_def augmentDeploymentWithValues_def Let_def outcome_iff
      deployment_builder_defs service_builder_defs container_builder_defs serves_port_def selects_def tcp_port_def
      replay_container_def update_conv set_entry_def gset_single split: option.splits)

lemma with_metrics_url [simp]:
  "getMetricValue (with_metrics_url b R) = getMetricValue R" "rh_metricsURLBuilder (with_metrics_url None R) = defaultMetricsURLBuilder"
  by (auto intro!: ext simp: with_metrics_url_def getMetricValue_def extractMetricValueFromResponse_def split: option.splits sum.splits)

text \<open>The life cycle of a replay, with its own \<^verbatim>\<open>finalize\<close>.\<close>

lemma check_sending_queue_history:
  "snd (check_sending_queue R cr h) = h \<or> (\<exists>u. snd (check_sending_queue R cr h) = WHttpGet u # h)"
  by (auto simp: check_sending_queue_def getMetricValue_def Let_def split: option.splits sum.splits)

interpretation replay_lifecycle: lifecycle_calls "we_lib E" "wl_client E" mdaiReplayFinalizerName "replay_finalize E R"
  "\<lambda>h. list_all (\<lambda>c. \<not> wl_writes c) h" for E R
proof (unfold_locales, goal_cases)
  case (4 h cr)
  let ?P = "\<lambda>h. list_all (\<lambda>c. \<not> wl_writes c) h"
  obtain r h1 where q: "check_sending_queue R cr h = (r, h1)" by fastforce
  have h1: "?P h1" using check_sending_queue_history [of R cr h] 4 q by auto
  obtain m s where m: "mark_finalizing (we_lib E) (wl_client E) (cr, h1) = (m, s)"
    by (cases "mark_finalizing (we_lib E) (wl_client E) (cr, h1)")
  have s: "?P (snd s)" using mark_finalizing_keeps [of ?P "wl_client E" "(cr, h1)" "we_lib E"] h1 m by simp
  have "?P (snd (snd (ensureFinalizerDeleted (wl_client E) mdaiReplayFinalizerName s)))"
    unfolding ensureFinalizerDeleted_def by (rule deleteFinalizer_keeps) (simp_all add: s)
  with 4 h1 s show ?case
    by (auto simp: replay_finalize_def q m split: option.splits prod.splits)
qed simp_all

text \<open>After the queue is drained, the first call re-reads the resource.\<close>

lemma drained_history:
  "\<exists>h2. snd (snd (mark_finalizing L (wl_client E) (cr, h))) = h2 @ WGet (key_of (rs_Meta cr)) # h"
  by (auto simp: mark_finalizing_def Let_def split: sum.splits prod.splits)

lemma delete_history: "\<exists>h2. snd (snd (deleteFinalizer (wl_client E) f s)) = h2 @ snd s"
  by (cases s) (auto simp: deleteFinalizer_def Let_def split: sum.splits)

lemma drained_finalize:
  assumes "kl_ContainsFinalizer (we_lib E) (rs_Meta cr) mdaiReplayFinalizerName" "check_sending_queue R cr h = (None, h1)"
  shows "\<exists>h2. snd (snd (snd (replay_finalize E R (cr, h)))) = h2 @ WGet (key_of (rs_Meta cr)) # h1"
proof -
  obtain m s where m: "mark_finalizing (we_lib E) (wl_client E) (cr, h1) = (m, s)"
    by (cases "mark_finalizing (we_lib E) (wl_client E) (cr, h1)")
  obtain h2 where h2: "snd s = h2 @ WGet (key_of (rs_Meta cr)) # h1"
    using drained_history [of "we_lib E" E cr h1] m by auto
  obtain h3 where "snd (snd (deleteFinalizer (wl_client E) mdaiReplayFinalizerName s)) = h3 @ snd s"
    using delete_history by blast
  with h2 m assms show ?thesis
    by (auto simp: replay_finalize_def ensureFinalizerDeleted_def split: option.splits prod.splits)
qed

text \<open>The configuration on every branch.\<close>

lemma replay_config_cases:
  "case augmentCollectorConfigPerSpec replayId hubName baseReplayCollectorYaml spec of
     Err e \<Rightarrow> sends spec \<and> rp_TelemetryType spec = []
   | Panic m \<Rightarrow> \<not> (sends spec \<and> rp_TelemetryType spec = []) \<and> rp_S3 spec = None
   | Ok c \<Rightarrow> \<not> (sends spec \<and> rp_TelemetryType spec = []) \<and> rp_S3 spec \<noteq> None \<and> config_closed c \<and>
       pipelines_of c = Some (if sends spec then [(rp_TelemetryType spec @ ''/replay'', replay_pipeline)] else [])"
  by (auto simp: replay_config_defs baseReplayCollectorYaml_def sends_def config_view_defs split: option.splits)

text \<open>The entry at a path, as it is printed: a \<^verbatim>\<open>ConfigBlock\<close> and a map alike.\<close>

fun entry_at :: "string list \<Rightarrow> block \<Rightarrow> gval option" where
  "entry_at [] c = Some (GMap c)"
| "entry_at [k] c = gget c k"
| "entry_at (k # ks) c = (case gget c k of None \<Rightarrow> None | Some v \<Rightarrow> entry_at ks (block_of v))"

text \<open>A configuration that reads what the replay asks for from S3, and reports to the OpAMP server of the hub.\<close>

definition replays_source :: "string \<Rightarrow> string \<Rightarrow> replay_spec \<Rightarrow> block \<Rightarrow> bool" where
  "replays_source replayId hubName spec c \<longleftrightarrow> (case rp_S3 spec of
     None \<Rightarrow> False
   | Some s3 \<Rightarrow>
       entry_at [''receivers'', ''awss3'', ''starttime''] c = Some (GStr (rp_StartTime spec)) \<and>
       entry_at [''receivers'', ''awss3'', ''endtime''] c = Some (GStr (rp_EndTime spec)) \<and>
       entry_at [''receivers'', ''awss3'', ''s3downloader'', ''region''] c = Some (GStr (r3_S3Region s3)) \<and>
       entry_at [''receivers'', ''awss3'', ''s3downloader'', ''s3_bucket''] c = Some (GStr (r3_S3Bucket s3)) \<and>
       entry_at [''receivers'', ''awss3'', ''s3downloader'', ''s3_prefix''] c = Some (GStr (r3_S3Path s3)) \<and>
       entry_at [''receivers'', ''awss3'', ''s3downloader'', ''file_prefix''] c = Some (GStr (r3_FilePrefix s3)) \<and>
       entry_at [''receivers'', ''awss3'', ''s3downloader'', ''s3_partition''] c = Some (GStr (r3_S3Partition s3)) \<and>
       entry_at [''extensions'', ''opamp'', ''server'', ''http'', ''endpoint''] c = Some (GStr (rp_OpAMPEndpoint spec)) \<and>
       entry_at [''extensions'', ''opamp'', ''agent_description'', ''non_identifying_attributes'', ''hub_name''] c =
         Some (GStr hubName) \<and>
       entry_at [''extensions'', ''opamp'', ''agent_description'', ''non_identifying_attributes'', ''replay_id''] c =
         Some (GStr replayId))"

text \<open>One pipeline from S3 to the destination, or none when there is no destination.\<close>

definition replays_to :: "replay_spec \<Rightarrow> block \<Rightarrow> bool" where
  "replays_to spec c \<longleftrightarrow>
     (if sends spec
      then entry_at [''exporters'', ''otlphttp'', ''endpoint''] c = map_option GStr (rp_OtlpHttp spec) \<and>
        pipelines_of c = Some [(rp_TelemetryType spec @ ''/replay'', GMap [(''receivers'', GStrs [''awss3'']),
          (''processors'', GStrs [''attributes'']), (''exporters'', GStrs [''otlphttp''])])]
      else pipelines_of c = Some [])"

lemma replay_config_contents:
  assumes "augmentCollectorConfigPerSpec replayId hubName baseReplayCollectorYaml spec = Ok c"
  shows "replays_source replayId hubName spec c \<and> replays_to spec c"
proof -
  note view = replays_source_def replays_to_def sends_def pipelines_of_def GetMap_def getAs_def
  obtain s3 where s3: "rp_S3 spec = Some s3"
    using assms by (cases "rp_S3 spec") (simp_all add: replay_config_defs baseReplayCollectorYaml_def split: option.splits if_splits)
  show ?thesis
  proof (cases "sends spec")
    case True
    then obtain e where e: "rp_OtlpHttp spec = Some e" "e \<noteq> []" by (auto simp: sends_def split: option.splits)
    then have "rp_TelemetryType spec \<noteq> []"
      using assms by (auto simp: replay_config_defs baseReplayCollectorYaml_def)
    with e s3 assms show ?thesis
      by (simp add: replay_config_defs baseReplayCollectorYaml_def replay_pipeline_def) (auto simp: view)
  next
    case False
    then have "rp_OtlpHttp spec = None \<or> rp_OtlpHttp spec = Some []" by (auto simp: sends_def split: option.splits)
    with s3 assms show ?thesis
      by (elim disjE; simp add: replay_config_defs baseReplayCollectorYaml_def) (auto simp: view)
  qed
qed

section \<open>Properties\<close>

text \<open>
  C29. The configuration of a replay, built from the embedded one, on every branch. It is an error exactly when a
  destination is given without a telemetry type. It panics exactly when there is no S3 source, which the webhook accepts, and it
  is not that error. Otherwise there is a configuration in which every component a pipeline names is defined, which reads
  the time span, bucket and prefixes of the spec and reports to its OpAMP server, and which has one pipeline from S3 to the
  destination, or no pipeline when the replay has no destination.
\<close>

theorem replay_config_branches:
  "case augmentCollectorConfigPerSpec replayId hubName baseReplayCollectorYaml spec of
     Err e \<Rightarrow> sends spec \<and> rp_TelemetryType spec = []
   | Panic m \<Rightarrow> \<not> (sends spec \<and> rp_TelemetryType spec = []) \<and> rp_S3 spec = None
   | Ok c \<Rightarrow> \<not> (sends spec \<and> rp_TelemetryType spec = []) \<and> rp_S3 spec \<noteq> None \<and> config_closed c \<and>
       replays_source replayId hubName spec c \<and> replays_to spec c"
  using replay_config_cases [where replayId = replayId and hubName = hubName and spec = spec]
    replay_config_contents [of replayId hubName spec]
  by (auto split: outcome.splits)

text \<open>The deletion of a replay ends its reconciliation, with what the finalization answers.\<close>

lemma deleted_replay_run:
  assumes "we_Get E h req = Inr cr" "om_DeletionTimestamp (rs_Meta cr) \<noteq> None"
    and "replay_finalize E (with_metrics_url None R) (cr, WGet req # h) = (st, err, s)"
  shows "snd (replay_Reconcile E R req h) = snd s"
    "st = ObjectUnchanged \<Longrightarrow> fst (replay_Reconcile E R req h) = Done \<lparr>res_RequeueAfter = 5\<rparr> err"
proof -
  let ?op = "replay_ensureDeletionProcessed E (with_metrics_url None R)" and ?s = "(cr, WGet req # h)"
  have halt: "halts (fst (?op ?s))"
    unfolding replay_ensureDeletionProcessed_def by (rule deletion_halts) (rule assms(2))
  have op: "?op ?s = (if st = ObjectUnchanged \<or> err \<noteq> None then (RequeueAfter requeueTime err, s) else (StopProcessing, s))"
    using assms(2,3) by (cases "om_DeletionTimestamp (rs_Meta cr)")
      (simp_all add: replay_ensureDeletionProcessed_def ensureDeletionProcessed_def)
  have run: "run_operations (replay_operations E (with_metrics_url None R)) ?s =
    (case fst (?op ?s) of Panicked m \<Rightarrow> Crashed m
      | Returned res err \<Rightarrow> if err \<noteq> None \<or> RequeueRequest res then Done \<lparr>res_RequeueAfter = RequeueDelay res\<rparr> err
          else Done \<lparr>res_RequeueAfter = 0\<rparr> None, snd (?op ?s))"
    using halt by (simp only: replay_operations_def run_operations_Cons if_True)
  show "snd (replay_Reconcile E R req h) = snd s"
    by (simp add: replay_Reconcile_def assms(1) run op split: op_return.splits)
  show "fst (replay_Reconcile E R req h) = Done \<lparr>res_RequeueAfter = 5\<rparr> err" if "st = ObjectUnchanged"
    using that by (simp add: replay_Reconcile_def assms(1) run op RequeueAfter_def requeueTime_def)
qed

text \<open>
  C17. A replay that is being deleted and still has its finalizer waits for its sending queue, unless its spec says to
  ignore the queue. Otherwise the first thing it does is to ask the metrics endpoint for the size of the queue. While
  the size is positive nothing else is called, so the finalizer stays, and the result asks for another call after five seconds. When the
  size cannot be read nothing else is called either, and the error is returned, so that it is the work queue's back-off that
  brings the replay back. Only when the size is not positive, or at once when the queue is to be ignored, does it
  go on to finalize, reading the resource again first.
\<close>

theorem replay_waits_for_queue:
  assumes "we_Get E h req = Inr cr" "om_DeletionTimestamp (rs_Meta cr) \<noteq> None"
    "kl_ContainsFinalizer (we_lib E) (rs_Meta cr) mdaiReplayFinalizerName"
    and "getMetricValue R (defaultMetricsURLBuilder (getReplayerResourceName cr ''service'') (cr_namespace cr))
      ''otelcol_exporter_queue_size'' (WGet req # h) = (queue, h1)"
  shows "if rp_IgnoreSendingQueue (rpl_Spec cr)
    then \<exists>h2. snd (replay_Reconcile E R req h) = h2 @ [WGet (key_of (rs_Meta cr)), WGet req] @ h
    else case queue of
      Inl err \<Rightarrow> replay_Reconcile E R req h = (Done \<lparr>res_RequeueAfter = 5\<rparr> (Some err), h1)
    | Inr sz \<Rightarrow>
        (if positive sz then replay_Reconcile E R req h = (Done \<lparr>res_RequeueAfter = 5\<rparr> None, h1)
         else (\<exists>h2. snd (replay_Reconcile E R req h) = h2 @ WGet (key_of (rs_Meta cr)) # h1))"
proof -
  let ?R = "with_metrics_url None R" and ?s = "(cr, WGet req # h)"
  note run = deleted_replay_run [OF assms(1,2), of R]
  have stays: "replay_Reconcile E R req h = (Done \<lparr>res_RequeueAfter = 5\<rparr> err, h1)"
    if "check_sending_queue ?R cr (WGet req # h) = (Some (ObjectUnchanged, err), h1)" for err
  proof -
    have "replay_finalize E ?R ?s = (ObjectUnchanged, err, cr, h1)" using that assms(3) by (simp add: replay_finalize_def)
    from run [OF this] show ?thesis by (simp add: prod_eq_iff)
  qed
  have goes_on: "\<exists>h2. snd (replay_Reconcile E R req h) = h2 @ WGet (key_of (rs_Meta cr)) # h'"
    if "check_sending_queue ?R cr (WGet req # h) = (None, h')" for h'
    using drained_finalize [OF assms(3) that] run(1) by (metis prod.collapse)
  show ?thesis
    using assms(4) stays goes_on [of h1] goes_on [of "WGet req # h"]
    by (auto simp: check_sending_queue_def Let_def split: sum.splits)
qed

definition sample_replay :: mdai_replay where
  "sample_replay = \<lparr>rs_Meta = (meta_named ''r'' ''mdai'')\<lparr>om_Finalizers := [mdaiReplayFinalizerName], om_DeletionTimestamp := Some 1\<rparr>,
     rs_Conditions = [], rpl_Spec = \<lparr>rp_StartTime = [], rp_EndTime = [], rp_TelemetryType = ''logs'', rp_HubName = ''hub'',
       rp_StatusVariableRef = ''v'', rp_OpAMPEndpoint = ''o'', rp_IgnoreSendingQueue = False, rp_AWSConfig = None, rp_S3 = None,
       rp_OtlpHttp = None, rp_Image = []\<rparr>\<rparr>"

definition sample_replay_env :: "mdai_replay wl_env" where
  "sample_replay_env = (sample_wl_env baseReplayCollectorYaml)\<lparr>we_Get := (\<lambda>h k. Inr sample_replay)\<rparr>"

definition sample_http :: "rat \<Rightarrow> replay_http" where
  "sample_http sz = \<lparr>rh_NewRequest = (\<lambda>u. None), rh_Do = (\<lambda>h u. Inr ''metrics''),
     rh_TextToMetricFamilies = (\<lambda>b. Inr [(''otelcol_exporter_queue_size'', [\<lparr>me_Gauge = Some (Finite sz), me_Counter = None\<rparr>])]),
     rh_metricsURLBuilder = defaultMetricsURLBuilder\<rparr>"

lemma sample_queue:
  "getMetricValue (sample_http sz) u ''otelcol_exporter_queue_size'' h = (Inr (Finite sz), WHttpGet u # h)"
  by (simp add: getMetricValue_def sample_http_def extractMetricValueFromResponse_def)

theorem replay_waits_for_queue_witness:
  "fst (replay_Reconcile sample_replay_env (sample_http 3) (key_of (rs_Meta sample_replay)) []) =
     Done \<lparr>res_RequeueAfter = 5\<rparr> None"
  using replay_waits_for_queue [of sample_replay_env "[]" "key_of (rs_Meta sample_replay)" sample_replay "sample_http 3",
      OF _ _ _ sample_queue]
  by (simp add: sample_replay_env_def sample_wl_env_def sample_replay_def sample_lib_def)

end
