(* ===== verification/Dal_Adapter.thy ===== *)
theory Dal_Adapter
  imports Workloads
begin

text \<open>
  The DAL controller: \<^verbatim>\<open>internal/controller/mdaidal_adapter.go\<close> and \<^verbatim>\<open>mdaidal_controller.go\<close>. Besides its
  ConfigMap, Service and Deployment the adapter reports in the status what the deployment and the service look like.
\<close>

section \<open>Definitions\<close>

definition MdaiDalHubComponent :: string where "MdaiDalHubComponent = ''mdai-dal''"
definition MdaiDalConfigMapName :: string where "MdaiDalConfigMapName = ''mdai-dal-config''"

type_synonym dal_history = "mdai_dal wl_history"

definition dal_configMapName :: "mdai_dal \<Rightarrow> string" where
  "dal_configMapName cr = cr_name cr @ ''-'' @ MdaiDalConfigMapName"

definition imageRef :: "dal_image \<Rightarrow> string" where
  "imageRef i =
     (if di_Repository i = [] then []
      else if di_Tag i = [] then di_Repository i
      else di_Repository i @ '':'' @ di_Tag i)"

definition dal_config_data :: "mdai_dal \<Rightarrow> labels" where
  "dal_config_data cr =
     [(''MDAI_DAL_S3_BUCKET'', dal_Bucket cr), (''MDAI_DAL_AWS_REGION'', dal_Region cr),
      (''MDAI_DAL_S3_PREFIX'', dal_Prefix cr), (''MDAI_DAL_GRANULARITY'', dal_Granularity cr),
      (''MDAI_DAL_USE_PAYLOAD_TS'', bool_str (dal_UsePayloadTS cr)), (''MDAI_DAL_MARSHALER'', dal_Marshaler cr)]"

definition dal_config_mutate :: "kube_lib \<Rightarrow> mdai_dal \<Rightarrow> config_map \<Rightarrow> config_map outcome" where
  "dal_config_mutate L cr configMap =
     bind_outcome (set_controller L (rs_Meta cr) ''MdaiDal'' (cm_Meta configMap)) (\<lambda>m.
       Ok \<lparr>cm_Meta = m\<lparr>om_Labels :=
             set_entry HubComponentLabel MdaiDalHubComponent
               (set_entry LabelManagedByMdaiKey LabelManagedByMdaiValue
                 (set_entry LabelAppInstanceKey (cr_name cr)
                   (set_entry LabelAppNameKey MdaiDalHubComponent (om_Labels m))))\<rparr>,
           cm_Data = Some (dal_config_data cr)\<rparr>)"

definition dal_createOrUpdateConfigMap ::
  "mdai_dal wl_env \<Rightarrow> mdai_dal \<Rightarrow> dal_history \<Rightarrow> unit outcome \<times> dal_history" where
  "dal_createOrUpdateConfigMap E cr h =
     seq_result (cou_ConfigMap E \<lparr>cm_Meta = meta_named (dal_configMapName cr) (cr_namespace cr), cm_Data = None\<rparr>
                   (dal_config_mutate (we_lib E) cr) h) (\<lambda>_ h1. (Ok (), h1))"

definition dal_ports :: "service_port list" where
  "dal_ports = [tcp_port otlpGRPCName otlpGRPCPort (IntVal otlpGRPCPort), tcp_port otlpHTTPName otlpHTTPPort (IntVal otlpHTTPPort)]"

definition dal_service_mutate :: "kube_lib \<Rightarrow> mdai_dal \<Rightarrow> service \<Rightarrow> service outcome" where
  "dal_service_mutate L cr service =
     bind_outcome (set_controller L (rs_Meta cr) ''MdaiDal'' (svc_Meta service)) (\<lambda>m.
       let service1 = WithPorts dal_ports
             (WithServiceSelectorLabel LabelAppInstanceKey (cr_name cr)
               (WithServiceSelectorLabel LabelAppNameKey MdaiDalHubComponent
                 (WithServiceLabel HubComponentLabel MdaiDalHubComponent
                   (WithServiceLabel LabelManagedByMdaiKey LabelManagedByMdaiValue
                     (WithServiceLabel LabelAppInstanceKey (cr_name cr)
                       (WithServiceLabel LabelAppNameKey MdaiDalHubComponent (service\<lparr>svc_Meta := m\<rparr>)))))))
       in Ok (if om_CreationTimestamp (svc_Meta service1) = None then WithType ''ClusterIP'' service1 else service1))"

text \<open>An object that already exists when it is created is left alone.\<close>

fun skip_existing :: "'cr wl_env \<Rightarrow> string \<Rightarrow> 'ob outcome \<times> 'w \<Rightarrow> unit outcome \<times> 'w" where
  "skip_existing E msg (Ok x, h) = (Ok (), h)"
| "skip_existing E msg (Err err, h) = (if we_IsAlreadyExists E err then Ok () else Err (ErrWrap msg err), h)"
| "skip_existing E msg (Panic m, h) = (Panic m, h)"

definition dal_createOrUpdateService ::
  "mdai_dal wl_env \<Rightarrow> mdai_dal \<Rightarrow> dal_history \<Rightarrow> unit outcome \<times> dal_history" where
  "dal_createOrUpdateService E cr h =
     skip_existing E ''failed to create or update mdai dal service: ''
       (cou_Service E (service_named (meta_named (cr_name cr) (cr_namespace cr))) (dal_service_mutate (we_lib E) cr) h)"

definition dal_probe :: "int \<Rightarrow> int \<Rightarrow> probe" where
  "dal_probe delay period = \<lparr>pr_Path = ''/healthz'', pr_Port = IntVal otlpHTTPPort, pr_InitialDelaySeconds = delay,
     pr_PeriodSeconds = period\<rparr>"

definition dal_container :: "mdai_dal \<Rightarrow> dal_image \<Rightarrow> container" where
  "dal_container cr img =
     WithReadinessProbe (Some (dal_probe 3 5))
       (WithLivenessProbe (Some (dal_probe 10 10))
         (WithSecurityContext (Some DefaultSecurityContext)
           (WithEnvFromConfigMap (dal_configMapName cr)
             (WithEnvFromSecretKey ''AWS_SECRET_ACCESS_KEY'' (dal_SecretName cr) (dal_SecretKeyField cr)
               (WithEnvFromSecretKey ''AWS_ACCESS_KEY_ID'' (dal_SecretName cr) (dal_AccessKeyField cr)
                 (WithContainerPorts
                   [\<lparr>cp_ContainerPort = otlpGRPCPort, cp_Name = otlpGRPCName, cp_Protocol = ''TCP''\<rparr>,
                    \<lparr>cp_ContainerPort = otlpHTTPPort, cp_Name = otlpHTTPName, cp_Protocol = ''TCP''\<rparr>]
                   (WithImagePullPolicy (ToK8s (di_PullPolicy img))
                     (Container (cr_name cr) (imageRef img)))))))))"

definition dal_deployment_mutate :: "kube_lib \<Rightarrow> mdai_dal \<Rightarrow> dal_image \<Rightarrow> deployment \<Rightarrow> deployment outcome" where
  "dal_deployment_mutate L cr img deployment =
     bind_outcome (set_controller L (rs_Meta cr) ''MdaiDal'' (dep_Meta deployment)) (\<lambda>m.
       let deployment0 = deployment\<lparr>dep_Meta := m\<rparr>;
           deployment1 = (if om_CreationTimestamp m = None
             then WithSelectorLabel LabelAppInstanceKey (cr_name cr)
                    (WithSelectorLabel LabelManagedByMdaiKey LabelManagedByMdaiValue
                      (WithSelectorLabel LabelAppNameKey MdaiDalHubComponent deployment0))
             else deployment0)
       in Ok (WithContainers [dal_container cr img]
           (WithTemplateLabel LabelManagedByMdaiKey LabelManagedByMdaiValue
             (WithTemplateLabel LabelAppInstanceKey (cr_name cr)
               (WithTemplateLabel LabelAppNameKey MdaiDalHubComponent
                 (WithLabel HubComponentLabel MdaiDalHubComponent
                   (WithLabel LabelManagedByMdaiKey LabelManagedByMdaiValue
                     (WithLabel LabelAppInstanceKey (cr_name cr)
                       (WithLabel LabelAppNameKey MdaiDalHubComponent
                         (WithReplicas 1 deployment1))))))))))"

text \<open>\<^verbatim>\<open>*c.dalCR.Spec.ImageSpec\<close> is read without a test for \<^verbatim>\<open>nil\<close>.\<close>

definition dal_createOrUpdateDeployment ::
  "mdai_dal wl_env \<Rightarrow> mdai_dal \<Rightarrow> dal_history \<Rightarrow> unit outcome \<times> dal_history" where
  "dal_createOrUpdateDeployment E cr h =
     (case dal_ImageSpec cr of
        None \<Rightarrow> (Panic ''nil pointer dereference'', h)
      | Some img \<Rightarrow>
          skip_existing E ''failed to create or update mdai dal deployment: ''
            (cou_Deployment E (deployment_named (meta_named (cr_name cr) (cr_namespace cr)))
              (dal_deployment_mutate (we_lib E) cr img) h))"

section \<open>The adapter\<close>

definition dal_ensureSynchronized :: "mdai_dal wl_env \<Rightarrow> (mdai_dal, dal_history) operation" where
  "dal_ensureSynchronized E = (\<lambda>(cr, h).
     on_result (dal_createOrUpdateConfigMap E cr h) (\<lambda>_ h1.
     on_result (dal_createOrUpdateService E cr h1) (\<lambda>_ h2.
     on_result (dal_createOrUpdateDeployment E cr h2)
       (\<lambda>_ h3. (ContinueProcessing, cr, h3)) RequeueOnErrorOrContinue cr)
       RequeueOnErrorOrContinue cr) RequeueOnErrorOrContinue cr)"

definition dal_status :: "mdai_dal wl_env \<Rightarrow> mdai_dal \<Rightarrow> deployment \<Rightarrow> service \<Rightarrow> dal_history \<Rightarrow> mdai_dal" where
  "dal_status E cr d s h =
     cr\<lparr>dal_ObservedGeneration := om_Generation (rs_Meta cr),
        dal_Replicas := dep_StatusReplicas d,
        dal_ReadyReplicas := dep_StatusReadyReplicas d,
        dal_Endpoint := om_Name (svc_Meta s) @ ''.'' @ om_Namespace (svc_Meta s) @ ''.svc.cluster.local:'' @ int_str otlpHTTPPort,
        dal_LastSyncedTime := Some (we_now E h),
        rs_Conditions := fst (kl_SetStatusCondition (we_lib E) (rs_Conditions cr)
          \<lparr>cd_Type = typeAvailableHub, cd_Status = ''True'', cd_Reason = ''Reconciling'',
           cd_Message = ''reconciled successfully''\<rparr>)\<rparr>"

definition dal_ensureStatusSetToDone :: "mdai_dal wl_env \<Rightarrow> (mdai_dal, dal_history) operation" where
  "dal_ensureStatusSetToDone E = (\<lambda>(cr, h).
     let h1 = WGet (key_of (rs_Meta cr)) # h
     in case we_Get E h (key_of (rs_Meta cr)) of
          Inl err \<Rightarrow> (Requeue, cr, h1)
        | Inr cr1 \<Rightarrow>
            (let k = key_of (rs_Meta cr1); h2 = WGetDeployment k # h1
             in case we_GetDeployment E h1 k of
                  Inl err \<Rightarrow> (Requeue, cr1, h2)
                | Inr deployment \<Rightarrow>
                    (let h3 = WGetService k # h2
                     in case we_GetService E h2 k of
                          Inl err \<Rightarrow> (Requeue, cr1, h3)
                        | Inr service \<Rightarrow>
                            (let cr2 = dal_status E cr1 deployment service h3
                             in case we_StatusUpdate E h3 cr2 of
                                  Inl err \<Rightarrow> (Requeue, cr2, WStatusUpdate cr2 # h3)
                                | Inr cr3 \<Rightarrow> (ContinueProcessing, cr3, WStatusUpdate cr2 # h3)))))"

definition dal_ensureFinalizerInitialized :: "mdai_dal wl_env \<Rightarrow> (mdai_dal, dal_history) operation" where
  "dal_ensureFinalizerInitialized E = ensureFinalizerInitialized (we_lib E) (wl_client E) hubFinalizer"

definition dal_ensureStatusInitialized :: "mdai_dal wl_env \<Rightarrow> (mdai_dal, dal_history) operation" where
  "dal_ensureStatusInitialized E = ensureStatusInitialized (we_lib E) (wl_client E)"

definition dal_finalize :: "mdai_dal wl_env \<Rightarrow> (mdai_dal, dal_history) finalize_op" where
  "dal_finalize E = finalize (we_lib E) (wl_client E) hubFinalizer"

definition dal_ensureDeletionProcessed :: "mdai_dal wl_env \<Rightarrow> (mdai_dal, dal_history) operation" where
  "dal_ensureDeletionProcessed E = ensureDeletionProcessed (dal_finalize E)"

definition dal_operations :: "mdai_dal wl_env \<Rightarrow> (mdai_dal, dal_history) operation list" where
  "dal_operations E =
     [dal_ensureDeletionProcessed E, dal_ensureStatusInitialized E, dal_ensureFinalizerInitialized E,
      dal_ensureSynchronized E, dal_ensureStatusSetToDone E]"

definition dal_Reconcile ::
  "mdai_dal wl_env \<Rightarrow> nsname \<Rightarrow> dal_history \<Rightarrow> reconcile_return \<times> dal_history" where
  "dal_Reconcile E = Reconcile (we_lib E) (wl_client E) (dal_operations E)"

section \<open>Lemmas\<close>

lemma dal_labels_distinct [simp]:
  "LabelAppNameKey \<noteq> LabelAppInstanceKey" "LabelAppInstanceKey \<noteq> LabelAppNameKey"
  "LabelManagedByMdaiKey \<noteq> LabelAppNameKey" "LabelManagedByMdaiKey \<noteq> LabelAppInstanceKey"
  "LabelAppNameKey \<noteq> LabelManagedByMdaiKey" "LabelAppInstanceKey \<noteq> LabelManagedByMdaiKey"
  by (simp_all add: LabelAppNameKey_def LabelAppInstanceKey_def LabelManagedByMdaiKey_def)

interpretation dal_exposed: exposed_workload "dal_deployment_mutate L cr img" "dal_service_mutate L cr"
  "[(LabelAppNameKey, MdaiDalHubComponent), (LabelAppInstanceKey, cr_name cr)]" dal_ports for L cr img
  by unfold_locales
    (auto simp: dal_deployment_mutate_def dal_service_mutate_def Let_def outcome_iff deployment_builder_defs
      service_builder_defs container_builder_defs serves_port_def selects_def dal_ports_def tcp_port_def dal_container_def
      update_conv set_entry_def gset_double)

lemma skip_existing_Panic: "fst (skip_existing E msg (r, h)) = Panic m \<longleftrightarrow> r = Panic m"
  by (cases r) auto

section \<open>Properties\<close>

text \<open>
  C30. The DAL controller reports a resource as available only for a deployment and a service that exist: a status update
  sent at the end of a reconciliation follows a successful read of both, and carries the generation of the resource as
  it was read, the replica counts of that deployment and the address of that service.
\<close>

theorem dal_reports_existing_objects:
  assumes "snd (snd (dal_ensureStatusSetToDone E (cr, h))) = h'" "WStatusUpdate u \<in> set h'" "WStatusUpdate u \<notin> set h"
  shows "\<exists>cr1 d s h1 h2 h3. we_Get E h (key_of (rs_Meta cr)) = Inr cr1 \<and> h1 = WGet (key_of (rs_Meta cr)) # h \<and>
    we_GetDeployment E h1 (key_of (rs_Meta cr1)) = Inr d \<and> h2 = WGetDeployment (key_of (rs_Meta cr1)) # h1 \<and>
    we_GetService E h2 (key_of (rs_Meta cr1)) = Inr s \<and> h3 = WGetService (key_of (rs_Meta cr1)) # h2 \<and>
    h' = WStatusUpdate u # h3 \<and>
    dal_ObservedGeneration u = om_Generation (rs_Meta cr1) \<and> dal_Replicas u = dep_StatusReplicas d \<and>
    dal_ReadyReplicas u = dep_StatusReadyReplicas d \<and>
    dal_Endpoint u = om_Name (svc_Meta s) @ ''.'' @ om_Namespace (svc_Meta s) @ ''.svc.cluster.local:'' @ int_str 4318 \<and>
    dal_ImageSpec u = dal_ImageSpec cr1"
proof -
  obtain cr1 where cr1: "we_Get E h (key_of (rs_Meta cr)) = Inr cr1"
    using assms by (cases "we_Get E h (key_of (rs_Meta cr))") (auto simp: dal_ensureStatusSetToDone_def)
  let ?k = "key_of (rs_Meta cr1)" and ?h1 = "WGet (key_of (rs_Meta cr)) # h"
  obtain d where d: "we_GetDeployment E ?h1 ?k = Inr d"
    using assms by (cases "we_GetDeployment E ?h1 ?k") (auto simp: dal_ensureStatusSetToDone_def Let_def cr1)
  let ?h2 = "WGetDeployment ?k # ?h1"
  obtain s where s: "we_GetService E ?h2 ?k = Inr s"
    using assms by (cases "we_GetService E ?h2 ?k") (auto simp: dal_ensureStatusSetToDone_def Let_def cr1 d)
  let ?h3 = "WGetService ?k # ?h2"
  have h': "h' = WStatusUpdate (dal_status E cr1 d s ?h3) # ?h3"
    using assms(1) by (auto simp: dal_ensureStatusSetToDone_def Let_def cr1 d s split: sum.splits)
  with assms(2,3) have "u = dal_status E cr1 d s ?h3" by auto
  then show ?thesis
    using cr1 d s h' by (intro exI conjI) (auto simp: dal_status_def otlpHTTPPort_def)
qed

definition sample_dal :: mdai_dal where
  "sample_dal = \<lparr>rs_Meta = (meta_named ''dal'' ''mdai'')\<lparr>om_Generation := 7\<rparr>, rs_Conditions = [], dal_Granularity = ''hourly'',
     dal_UsePayloadTS = False, dal_Marshaler = ''json'', dal_Bucket = ''b'', dal_Prefix = [], dal_Region = ''us-east-1'',
     dal_SecretName = ''aws'', dal_AccessKeyField = ''A'', dal_SecretKeyField = ''S'', dal_ImageSpec = None,
     dal_ObservedGeneration = 0, dal_Replicas = 0, dal_ReadyReplicas = 0, dal_Endpoint = [], dal_LastSyncedTime = None\<rparr>"

definition sample_dal_env :: "mdai_dal wl_env" where
  "sample_dal_env = (sample_wl_env [])\<lparr>we_Get := (\<lambda>h k. Inr sample_dal),
     we_GetDeployment := (\<lambda>h k. Inr ((deployment_named (meta_named ''dal'' ''mdai''))\<lparr>dep_StatusReplicas := 1\<rparr>)),
     we_GetService := (\<lambda>h k. Inr (service_named (meta_named ''dal'' ''mdai'')))\<rparr>"

lemma sample_dal_env_answers:
  "we_Get sample_dal_env h k = Inr sample_dal" "we_StatusUpdate sample_dal_env h c = Inr c"
  "we_GetDeployment sample_dal_env h k = Inr ((deployment_named (meta_named ''dal'' ''mdai''))\<lparr>dep_StatusReplicas := 1\<rparr>)"
  "we_GetService sample_dal_env h k = Inr (service_named (meta_named ''dal'' ''mdai''))"
  by (simp_all add: sample_dal_env_def sample_wl_env_def)

theorem dal_reports_existing_objects_witness:
  "\<exists>u h3. snd (snd (dal_ensureStatusSetToDone sample_dal_env (sample_dal, []))) = WStatusUpdate u # h3 \<and>
     dal_ObservedGeneration u = 7 \<and> dal_Replicas u = 1"
proof -
  obtain v h3 where v: "snd (snd (dal_ensureStatusSetToDone sample_dal_env (sample_dal, []))) = WStatusUpdate v # h3"
    by (simp add: dal_ensureStatusSetToDone_def sample_dal_env_answers Let_def)
  then have "WStatusUpdate v \<in> set (WStatusUpdate v # h3)" "WStatusUpdate v \<notin> set []" by simp_all
  from dal_reports_existing_objects [OF v this]
  have "dal_ObservedGeneration v = om_Generation (rs_Meta sample_dal)" "dal_Replicas v = 1"
    by (auto simp: sample_dal_env_answers)
  moreover have "om_Generation (rs_Meta sample_dal) = 7" by (simp add: sample_dal_def)
  ultimately show ?thesis using v by simp
qed

end
