(* ===== verification/Main_Program.thy ===== *)
theory Main_Program
  imports "HOL-Library.Sublist" Hub_Controller Observer_Adapter Collector_Adapter Replay_Adapter Dal_Adapter
begin

text \<open>
  The programme (\<^verbatim>\<open>cmd/main.go\<close>, \<^verbatim>\<open>cmd/otel.go\<close>): its flags, the order of the set-up, the options of the
  manager with the filter of its cache, the telemetry set-up and the logger that mirrors to telemetry. Every step of the
  set-up is a call whose answer is a parameter. The filter of the cache is what the adapters' objects have to satisfy to be
  found again.
\<close>

section \<open>Environment and flags\<close>

definition otelSdkDisabledEnvVar :: string where "otelSdkDisabledEnvVar = ''OTEL_SDK_DISABLED''"

definition otelSdkEnabled :: "(string \<Rightarrow> string) \<Rightarrow> bool" where
  "otelSdkEnabled getenv \<longleftrightarrow> getenv otelSdkDisabledEnvVar \<noteq> ''true''"

record flags =
  fl_metricsAddr :: string
  fl_metricsCertPath :: string
  fl_metricsCertName :: string
  fl_metricsCertKey :: string
  fl_webhookCertPath :: string
  fl_webhookCertName :: string
  fl_webhookCertKey :: string
  fl_enableLeaderElection :: bool
  fl_probeAddr :: string
  fl_secureMetrics :: bool
  fl_enableHTTP2 :: bool


section \<open>Options of the manager\<close>

text \<open>The functions on the TLS configuration: \<^verbatim>\<open>disableHTTP2\<close> and the certificate of a watcher.\<close>

datatype tls_opt = DisableHTTP2 | CertificateOf string

record tls_config =
  tc_NextProtos :: "string list"
  tc_Certificate :: "string option"

fun apply_tls_opt :: "tls_opt \<Rightarrow> tls_config \<Rightarrow> tls_config" where
  "apply_tls_opt DisableHTTP2 c = c\<lparr>tc_NextProtos := [''http/1.1'']\<rparr>"
| "apply_tls_opt (CertificateOf w) c = c\<lparr>tc_Certificate := Some w\<rparr>"

record manager_options =
  mo_MetricsBindAddress :: string
  mo_SecureServing :: bool
  mo_MetricsAuthFilter :: bool
  mo_MetricsTLSOpts :: "tls_opt list"
  mo_WebhookTLSOpts :: "tls_opt list"
  mo_HealthProbeBindAddress :: string
  mo_Cache :: "(string \<times> labels) list"
  mo_LeaderElection :: bool
  mo_LeaderElectionID :: string

definition cacheOptions :: "(string \<times> labels) list" where
  "cacheOptions = map (\<lambda>kind. (kind, [(LabelManagedByMdaiKey, LabelManagedByMdaiValue)]))
     [''ConfigMap'', ''Service'', ''Deployment'']"

definition tlsOpts :: "flags \<Rightarrow> tls_opt list" where
  "tlsOpts f = (if \<not> fl_enableHTTP2 f then [DisableHTTP2] else [])"

definition manager_options_of :: "flags \<Rightarrow> manager_options" where
  "manager_options_of f =
     \<lparr>mo_MetricsBindAddress = fl_metricsAddr f, mo_SecureServing = fl_secureMetrics f,
      mo_MetricsAuthFilter = fl_secureMetrics f,
      mo_MetricsTLSOpts = tlsOpts f @ (if fl_metricsCertPath f \<noteq> [] then [CertificateOf ''metrics''] else []),
      mo_WebhookTLSOpts = tlsOpts f @ (if fl_webhookCertPath f \<noteq> [] then [CertificateOf ''webhook''] else []),
      mo_HealthProbeBindAddress = fl_probeAddr f, mo_Cache = cacheOptions,
      mo_LeaderElection = fl_enableLeaderElection f, mo_LeaderElectionID = ''ec755d87.mydecisive.ai''\<rparr>"

section \<open>Set-up\<close>








section \<open>Telemetry (otel.go)\<close>

definition errors_Join :: "(goerr option) list \<Rightarrow> goerr option" where
  "errors_Join es = (case List.map_filter id es of [] \<Rightarrow> None | errs \<Rightarrow> Some (ErrJoin errs))"

text \<open>
  The functions registered for shutdown are given by their answers. The shutdown joins the errors of all of them and
  empties the list, so that each runs once.
\<close>

definition shutdown :: "(goerr option) list \<Rightarrow> goerr option \<times> (goerr option) list" where
  "shutdown shutdownFuncs = (fold (\<lambda>fn err. errors_Join [err, fn]) shutdownFuncs None, [])"

text \<open>The arguments are the answers of the calls; the result are the registered functions.\<close>

definition setupOTelSDK ::
  "bool \<Rightarrow> goerr option \<Rightarrow> goerr option \<Rightarrow> goerr option \<Rightarrow> goerr option \<Rightarrow> (goerr option) list outcome" where
  "setupOTelSDK enabled resourceNew resourceMerge newLoggerProvider providerShutdown =
     (if \<not> enabled then Ok []
      else if resourceNew \<noteq> None \<or> resourceMerge \<noteq> None then Panic ''panic(err)''
      else (case newLoggerProvider of
              Some err \<Rightarrow> (case errors_Join [Some err, fst (shutdown [])] of Some e \<Rightarrow> Err e | None \<Rightarrow> Ok [])
            | None \<Rightarrow> Ok [providerShutdown]))"

section \<open>The programme\<close>


section \<open>The mirroring log sink\<close>

text \<open>The operations of a log sink, and the sink that mirrors what the main sink gets to the telemetry sink.\<close>

record 's log_sink =
  si_Init :: "string \<Rightarrow> 's \<Rightarrow> 's"
  si_Enabled :: "int \<Rightarrow> 's \<Rightarrow> bool"
  si_Info :: "int \<Rightarrow> string \<Rightarrow> string list \<Rightarrow> 's \<Rightarrow> 's"
  si_Error :: "goerr option \<Rightarrow> string \<Rightarrow> string list \<Rightarrow> 's \<Rightarrow> 's"
  si_WithValues :: "string list \<Rightarrow> 's \<Rightarrow> 's"
  si_WithName :: "string \<Rightarrow> 's \<Rightarrow> 's"

definition mirror :: "('s \<Rightarrow> 's) \<Rightarrow> ('t \<Rightarrow> 't) \<Rightarrow> 's \<times> 't option \<Rightarrow> 's \<times> 't option" where
  "mirror f g = (\<lambda>(mainSink, otelSink). (f mainSink, map_option g otelSink))"

definition otelMirrorSink :: "'s log_sink \<Rightarrow> 't log_sink \<Rightarrow> ('s \<times> 't option) log_sink" where
  "otelMirrorSink m t = \<lparr>
     si_Init = (\<lambda>info. mirror (si_Init m info) (si_Init t info)),
     si_Enabled = (\<lambda>level (mainSink, otelSink). si_Enabled m level mainSink),
     si_Info = (\<lambda>level msg kv. mirror (si_Info m level msg kv) (si_Info t level msg kv)),
     si_Error = (\<lambda>err msg kv. mirror (si_Error m err msg kv) (si_Error t err msg kv)),
     si_WithValues = (\<lambda>kv. mirror (si_WithValues m kv) (si_WithValues t kv)),
     si_WithName = (\<lambda>name. mirror (si_WithName m name) (si_WithName t name))\<rparr>"

section \<open>The cache\<close>

text \<open>
  The client of the manager reads through a cache: an object of a filtered kind is only found when it has the labels of
  the filter.
\<close>

definition cached :: "string \<Rightarrow> object_meta \<Rightarrow> bool" where
  "cached kind m \<longleftrightarrow> selects (map_of cacheOptions kind) (om_Labels m)"

text \<open>What a recorded write makes of a new object.\<close>

fun call_cached :: "'cr wl_call \<Rightarrow> bool" where
  "call_cached (WConfigMap _ (Ok x)) \<longleftrightarrow> cached ''ConfigMap'' (cm_Meta x)"
| "call_cached (WService _ (Ok x)) \<longleftrightarrow> cached ''Service'' (svc_Meta x)"
| "call_cached (WDeployment _ (Ok x)) \<longleftrightarrow> cached ''Deployment'' (dep_Meta x)"
| "call_cached _ \<longleftrightarrow> True"

text \<open>\<^verbatim>\<open>SetControllerReference\<close> sets the owner and leaves the labels alone.\<close>

definition keeps_labels :: "kube_lib \<Rightarrow> bool" where
  "keeps_labels L \<longleftrightarrow> (\<forall>owner kind m m'. kl_SetControllerReference L owner kind m = Inr m' \<longrightarrow> om_Labels m' = om_Labels m)"

section \<open>Lemmas on the start-up\<close>





section \<open>Lemmas on the cache\<close>

lemma cached_iff:
  "kind \<in> {''ConfigMap'', ''Service'', ''Deployment''} \<Longrightarrow>
     cached kind m \<longleftrightarrow> gget (entries (om_Labels m)) LabelManagedByMdaiKey = Some LabelManagedByMdaiValue"
  by (auto simp: cached_def cacheOptions_def selects_def)

lemma seq_result_keeps:
  assumes "list_all P (snd r)" "\<And>x h. r = (Ok x, h) \<Longrightarrow> list_all P h \<Longrightarrow> list_all P (snd (k x h))"
  shows "list_all P (snd (seq_result r k))"
  using assms by (auto simp: seq_result_def split: prod.splits outcome.splits)

lemma on_result_keeps:
  assumes "list_all P (snd r)" "\<And>x h. r = (Ok x, h) \<Longrightarrow> list_all P h \<Longrightarrow> list_all P (snd (snd (k x h)))"
  shows "list_all P (snd (snd (on_result r k onErr cr)))"
  using assms by (auto simp: on_result_def split: prod.splits outcome.splits)

lemma wrap_error_simps [simp]:
  "snd (wrap_error msg r) = snd r" "wrap_error msg r = (Ok x, h) \<longleftrightarrow> r = (Ok x, h)"
  by (cases "(msg, r)" rule: wrap_error.cases; auto)+

lemma skip_existing_snd [simp]: "snd (skip_existing E msg r) = snd r"
  by (cases "(E, msg, r)" rule: skip_existing.cases; auto)

lemma set_controller_labels:
  assumes "keeps_labels L" "set_controller L owner kind m = Ok m'"
  shows "om_Labels m' = om_Labels m"
  using assms by (cases "kl_SetControllerReference L owner kind m") (auto simp: keeps_labels_def set_controller_def)

lemma managed_label_distinct [simp]:
  "LabelManagedByMdaiKey \<noteq> ''app''" "LabelManagedByMdaiKey \<noteq> hubNameLabel" "LabelManagedByMdaiKey \<noteq> HubComponentLabel"
  "''app'' \<noteq> LabelManagedByMdaiKey" "hubNameLabel \<noteq> LabelManagedByMdaiKey" "HubComponentLabel \<noteq> LabelManagedByMdaiKey"
  by (simp_all add: LabelManagedByMdaiKey_def hubNameLabel_def HubComponentLabel_def)

abbreviation managed :: "object_meta \<Rightarrow> bool" where
  "managed m \<equiv> gget (entries (om_Labels m)) LabelManagedByMdaiKey = Some LabelManagedByMdaiValue"

lemma call_cached_iff:
  "call_cached (WConfigMap obj r) \<longleftrightarrow> (\<forall>x. r = Ok x \<longrightarrow> managed (cm_Meta x))"
  "call_cached (WService obj' r') \<longleftrightarrow> (\<forall>x. r' = Ok x \<longrightarrow> managed (svc_Meta x))"
  "call_cached (WDeployment obj'' r'') \<longleftrightarrow> (\<forall>x. r'' = Ok x \<longrightarrow> managed (dep_Meta x))"
  subgoal by (cases r) (simp_all add: cached_iff)
  subgoal by (cases r') (simp_all add: cached_iff)
  subgoal by (cases r'') (simp_all add: cached_iff)
  done

lemma cou_keeps:
  "\<lbrakk>\<And>x. f obj = Ok x \<Longrightarrow> managed (cm_Meta x); list_all call_cached h\<rbrakk> \<Longrightarrow> list_all call_cached (snd (cou_ConfigMap E obj f h))"
  "\<lbrakk>\<And>x. g obj' = Ok x \<Longrightarrow> managed (svc_Meta x); list_all call_cached h\<rbrakk> \<Longrightarrow> list_all call_cached (snd (cou_Service E obj' g h))"
  "\<lbrakk>\<And>x. k obj'' = Ok x \<Longrightarrow> managed (dep_Meta x); list_all call_cached h\<rbrakk> \<Longrightarrow> list_all call_cached (snd (cou_Deployment E obj'' k h))"
  "list_all call_cached h \<Longrightarrow> list_all call_cached (snd (cou_ServiceAccount E sa sf h))"
  "list_all call_cached h \<Longrightarrow> list_all call_cached (snd (cou_ClusterRole E ro rf h))"
  "list_all call_cached h \<Longrightarrow> list_all call_cached (snd (cou_RoleBinding E rb bf h))"
  by (simp_all add: cou_ConfigMap_def cou_Service_def cou_Deployment_def cou_ServiceAccount_def cou_ClusterRole_def
      cou_RoleBinding_def call_cached_iff del: call_cached.simps(1-3))

lemma write_data_meta: "write_data k v cm = Ok cm' \<Longrightarrow> cm_Meta cm' = cm_Meta cm"
  by (auto simp: write_data_def split: option.splits)

lemmas meta_of_new = deployment_named_def service_named_def meta_named_def empty_meta_def

lemmas labels_set = service_builder_defs deployment_builder_defs set_entry_def update_conv

text \<open>What the mutate functions make of the labels of a new object, or of one that has the label already.\<close>

lemma observer_deployment_managed:
  assumes "observer_deployment_mutate L cr hash res d = Ok d'" "keeps_labels L" "om_Labels (dep_Meta d) = None \<or> managed (dep_Meta d)"
  shows "managed (dep_Meta d')"
  using assms(1,3) set_controller_labels [OF assms(2)]
  by (auto simp: observer_deployment_mutate_def Let_def outcome_iff split: option.splits)

lemma observer_service_managed:
  assumes "observer_service_mutate cr s = Ok s'" "om_Labels (svc_Meta s) = None \<or> managed (svc_Meta s)"
  shows "managed (svc_Meta s')"
  using assms by (auto simp: observer_service_mutate_def observer_labels_def split: option.splits)

lemma collector_deployment_managed:
  assumes "collector_deployment_mutate L cr params d = Ok d'" "keeps_labels L" "managed (dep_Meta d)"
  shows "managed (dep_Meta d')"
  using assms(1,3) set_controller_labels [OF assms(2)]
  by (auto simp: collector_deployment_mutate_def Let_def outcome_iff labels_set)

lemma collector_service_managed:
  assumes "collector_service_mutate L cr app s = Ok s'" "keeps_labels L" "managed (svc_Meta s)"
  shows "managed (svc_Meta s')"
  using assms(1,3) set_controller_labels [OF assms(2)]
  by (auto simp: collector_service_mutate_def Let_def outcome_iff labels_set)

lemma replay_labels_managed:
  "replay_deployment_mutate L cr hash d = Ok d' \<Longrightarrow> managed (dep_Meta d')"
  "replay_service_mutate cr s = Ok s' \<Longrightarrow> managed (svc_Meta s')"
  by (auto simp: replay_deployment_mutate_def augmentDeploymentWithValues_def replay_service_mutate_def Let_def outcome_iff labels_set)

lemma dal_labels_managed:
  "dal_config_mutate L cr c = Ok c' \<Longrightarrow> managed (cm_Meta c')"
  "dal_deployment_mutate L cr img d = Ok d' \<Longrightarrow> managed (dep_Meta d')"
  "dal_service_mutate L cr s = Ok s' \<Longrightarrow> managed (svc_Meta s')"
  by (auto simp: dal_config_mutate_def dal_deployment_mutate_def dal_service_mutate_def Let_def outcome_iff labels_set)

text \<open>The calls of each synchronisation.\<close>

lemma observer_sync_cached:
  assumes L: "keeps_labels (we_lib E)" and h: "list_all call_cached h"
  shows "list_all call_cached (snd (snd (observer_ensureSynchronized E (cr, h))))"
proof -
  have config: "list_all call_cached (snd (createOrUpdateObserverResourceConfigMap E cr res obs h))" for res obs
    unfolding createOrUpdateObserverResourceConfigMap_def Let_def
    by (intro seq_result_keeps cou_keeps(1))
      (auto simp: h observer_config_map_def dest!: write_data_meta set_controller_labels [OF L])
  have dep: "list_all call_cached h1 \<Longrightarrow>
      list_all call_cached (snd (createOrUpdateObserverResourceDeployment E cr ns hash res h1))" for ns hash res h1
    unfolding createOrUpdateObserverResourceDeployment_def
    by (intro cou_keeps(3)) (simp_all add: observer_deployment_managed L meta_of_new)
  have svc: "list_all call_cached h1 \<Longrightarrow>
      list_all call_cached (snd (createOrUpdateObserverResourceService E cr ns h1))" for ns h1
    unfolding createOrUpdateObserverResourceService_def Let_def
    by (auto simp: service_named_def meta_named_def empty_meta_def split: outcome.splits
        intro!: cou_keeps(2) elim!: observer_service_managed dest!: set_controller_labels [OF L])
  show ?thesis
    unfolding observer_ensureSynchronized_def Let_def split
    by (simp add: h) (intro impI on_result_keeps config dep svc; simp)
qed

lemma collector_sync_cached:
  assumes L: "keeps_labels (we_lib E)" and h: "list_all call_cached h"
  shows "list_all call_cached (snd (snd (collector_ensureSynchronized E rng (cr, h))))"
proof -
  note lab = set_controller_labels [OF L]
  have config: "list_all call_cached (snd (createOrUpdateMdaiCollectorConfigMap E rng cr ns logs secret h))" for ns logs secret
    unfolding createOrUpdateMdaiCollectorConfigMap_def Let_def
    by (intro seq_result_keeps cou_keeps(1)) (auto simp: h collector_config_meta_def dest!: write_data_meta lab)
  have env: "list_all call_cached h1 \<Longrightarrow> list_all call_cached (snd (createOrUpdateMdaiCollectorEnvVarConfigMap E cr ns h1))" for ns h1
    unfolding createOrUpdateMdaiCollectorEnvVarConfigMap_def Let_def
    by (intro seq_result_keeps cou_keeps(1)) (auto simp: collector_config_meta_def dest!: lab)
  have sa: "list_all call_cached h1 \<Longrightarrow> list_all call_cached (snd (createOrUpdateMdaiCollectorServiceAccount E cr ns h1))" for ns h1
    unfolding createOrUpdateMdaiCollectorServiceAccount_def Let_def by (intro seq_result_keeps cou_keeps(4)) simp_all
  have role: "list_all call_cached h1 \<Longrightarrow> list_all call_cached (snd (createOrUpdateMdaiCollectorRole E cr h1))" for h1
    unfolding createOrUpdateMdaiCollectorRole_def Let_def by (intro seq_result_keeps cou_keeps(5)) simp_all
  have binding: "list_all call_cached h1 \<Longrightarrow>
      list_all call_cached (snd (createOrUpdateMdaiCollectorRoleBinding E cr ns rn sn h1))" for ns rn sn h1
    unfolding createOrUpdateMdaiCollectorRoleBinding_def Let_def by (rule cou_keeps(6))
  have dep: "list_all call_cached h1 \<Longrightarrow> list_all call_cached (snd (createOrUpdateMdaiCollectorDeployment E cr params h1))" for params h1
    unfolding createOrUpdateMdaiCollectorDeployment_def Let_def
    by (intro seq_result_keeps cou_keeps(3))
      (simp_all add: collector_deployment_managed L deployment_named_def collector_meta_def)
  have svc: "list_all call_cached h1 \<Longrightarrow> list_all call_cached (snd (createOrUpdateMdaiCollectorService E cr ns app h1))" for ns app h1
    unfolding createOrUpdateMdaiCollectorService_def Let_def
    by (intro seq_result_keeps) (auto simp: service_named_def collector_meta_def L dest!: lab
        intro!: cou_keeps(2) elim!: collector_service_managed)
  show ?thesis
    unfolding collector_ensureSynchronized_def Let_def split
    by (intro on_result_keeps config env sa role binding dep svc; auto intro!: on_result_keeps env sa role binding dep svc)
qed

lemma replay_sync_cached:
  assumes L: "keeps_labels (we_lib E)" and h: "list_all call_cached h"
  shows "list_all call_cached (snd (snd (replay_ensureSynchronized E (cr, h))))"
proof -
  have config: "list_all call_cached (snd (createOrUpdateReplayerConfigMap E cr h))"
    unfolding createOrUpdateReplayerConfigMap_def
    by (intro seq_result_keeps cou_keeps(1))
      (auto simp: h replay_config_meta_def dest!: write_data_meta set_controller_labels [OF L])
  have dep: "list_all call_cached h1 \<Longrightarrow> list_all call_cached (snd (createOrUpdateReplayerDeployment E cr hash h1))" for hash h1
    unfolding createOrUpdateReplayerDeployment_def by (intro cou_keeps(3) replay_labels_managed(1))
  have svc: "list_all call_cached h1 \<Longrightarrow> list_all call_cached (snd (createOrUpdateReplayerService E cr h1))" for h1
    unfolding createOrUpdateReplayerService_def Let_def
    by (intro seq_result_keeps) (auto intro!: cou_keeps(2) replay_labels_managed(2))
  show ?thesis
    unfolding replay_ensureSynchronized_def split by (intro on_result_keeps config dep svc; simp)
qed

lemma dal_sync_cached:
  assumes h: "list_all call_cached h"
  shows "list_all call_cached (snd (snd (dal_ensureSynchronized E (cr, h))))"
proof -
  have config: "list_all call_cached (snd (dal_createOrUpdateConfigMap E cr h))"
    unfolding dal_createOrUpdateConfigMap_def
    by (intro seq_result_keeps cou_keeps(1) dal_labels_managed(1)) (auto simp: h)
  have svc: "list_all call_cached h1 \<Longrightarrow> list_all call_cached (snd (dal_createOrUpdateService E cr h1))" for h1
    unfolding dal_createOrUpdateService_def skip_existing_snd by (intro cou_keeps(2) dal_labels_managed(3))
  have dep: "list_all call_cached h1 \<Longrightarrow> list_all call_cached (snd (dal_createOrUpdateDeployment E cr h1))" for h1
    unfolding dal_createOrUpdateDeployment_def
    by (auto split: option.splits intro!: cou_keeps(3) dal_labels_managed(2))
  show ?thesis
    unfolding dal_ensureSynchronized_def split by (intro on_result_keeps config dep svc; simp)
qed

text \<open>The labels of the services generated for an ingress: the labels of the collector resource win.\<close>

lemma copy_labels_unfiltered: "copy_labels compile [] ls base = Ok (maps_copy base ls)"
  by (induction ls arbitrary: base) (auto simp: maps_copy_def)

lemma Labels_managed:
  assumes "Labels compile m name img [] = Ok ls" "distinct (map fst (entries (om_Labels m)))"
  shows "gget ls LabelManagedByMdaiKey =
    (case gget (entries (om_Labels m)) LabelManagedByMdaiKey of None \<Rightarrow> Some LabelManagedByMdaiValue | Some v \<Rightarrow> Some v)"
  using assms(1)
  by (auto simp: Labels_def copy_labels_unfiltered Let_def gget_maps_copy [OF assms(2)] LabelManagedByMdaiKey_def
      LabelManagedByMdaiValue_def update_conv split: if_splits option.splits)

lemma GrpcService_labels:
  assumes "collector_GrpcService pl params = Ok (Some g)"
  shows "\<exists>name ls. Labels no_filter (ocl_Meta (pa_Otelcol params)) name (ocl_Image (pa_Otelcol params)) [] = Ok ls \<and>
    om_Labels (svc_Meta g) = Some ls"
  using assms by (auto simp: collector_GrpcService_def Let_def outcome_iff nil_deref_def collector_service_def
      split: if_splits option.splits)

lemma NonGrpcService_labels:
  assumes "collector_NonGrpcService pl params = Ok (Some g)"
  shows "\<exists>name ls. Labels no_filter (ocl_Meta (pa_Otelcol params)) name (ocl_Image (pa_Otelcol params)) [] = Ok ls \<and>
    om_Labels (svc_Meta g) = Some ls"
  using assms by (auto simp: collector_NonGrpcService_def Let_def outcome_iff nil_deref_def collector_service_def
      split: if_splits option.splits)

section \<open>Properties\<close>

text \<open>
  C15. The operator finds the objects it creates again: every ConfigMap, service and deployment that the synchronisation of
  an observer, collector, replay or DAL creates has the label by which the cache of the manager filters these kinds.
\<close>

theorem created_objects_cached:
  assumes "keeps_labels (we_lib E1)" "keeps_labels (we_lib E2)" "keeps_labels (we_lib E3)"
  shows "list_all call_cached (snd (snd (observer_ensureSynchronized E1 (ocr, [])))) \<and>
    list_all call_cached (snd (snd (collector_ensureSynchronized E2 rng (ccr, [])))) \<and>
    list_all call_cached (snd (snd (replay_ensureSynchronized E3 (rcr, [])))) \<and>
    list_all call_cached (snd (snd (dal_ensureSynchronized E4 (dcr, []))))"
  by (simp add: observer_sync_cached collector_sync_cached replay_sync_cached dal_sync_cached assms)

theorem created_objects_cached_witness:
  "keeps_labels sample_lib \<and>
   list_all call_cached (snd (snd (replay_ensureSynchronized sample_replay_env (sample_replay, [])))) \<and>
   list_all call_cached (snd (snd (collector_ensureSynchronized (sample_wl_env baseMdaiCollectorYAML) rev (sample_collector, []))))"
proof -
  have "keeps_labels sample_lib" by (simp add: keeps_labels_def sample_lib_def)
  then have "keeps_labels (we_lib (sample_wl_env c))" "keeps_labels (we_lib sample_replay_env)" for c
    by (simp_all add: sample_wl_env_def sample_replay_env_def)
  from created_objects_cached [OF this(1) [of "[]"] this(1) [of baseMdaiCollectorYAML] this(2),
      of undefined rev sample_collector sample_replay undefined undefined] \<open>keeps_labels sample_lib\<close>
  show ?thesis by (elim conjE) (intro conjI)
qed

text \<open>
  A service generated for an ingress is found again in the cache of the manager exactly when the collector resource has
  no label \<^verbatim>\<open>app.kubernetes.io/managed-by\<close> of its own, or has it with the operator's value: the labels of the collector
  override the one the operator sets, as with a collector installed by Helm.
\<close>

theorem ingress_services_cached_iff:
  assumes "collector_GrpcService pl params = Ok (Some g) \<or> collector_NonGrpcService pl params = Ok (Some g)"
    and "distinct (map fst (entries (om_Labels (ocl_Meta (pa_Otelcol params)))))"
  shows "cached ''Service'' (svc_Meta g) \<longleftrightarrow>
    (case gget (entries (om_Labels (ocl_Meta (pa_Otelcol params)))) ''app.kubernetes.io/managed-by'' of
       None \<Rightarrow> True | Some v \<Rightarrow> v = ''mdai-operator'')"
proof -
  obtain name ls where "Labels no_filter (ocl_Meta (pa_Otelcol params)) name (ocl_Image (pa_Otelcol params)) [] = Ok ls"
    "om_Labels (svc_Meta g) = Some ls"
    using assms(1) GrpcService_labels [of pl params g] NonGrpcService_labels [of pl params g] by blast
  with Labels_managed [OF _ assms(2)] show ?thesis
    by (simp add: cached_iff LabelManagedByMdaiKey_def LabelManagedByMdaiValue_def split: option.splits)
qed

text \<open>A collector that Helm installed.\<close>

definition helm_params :: "unit params" where
  "helm_params = sample_params\<lparr>pa_Otelcol := (pa_Otelcol sample_params)
     \<lparr>ocl_Meta := (meta_named ''gateway'' ''otel'')\<lparr>om_Labels := Some [(''app.kubernetes.io/managed-by'', ''Helm'')]\<rparr>\<rparr>\<rparr>"

lemma helm_grpc_service: "\<exists>g. collector_GrpcService sample_port_lib helm_params = Ok (Some g)"
proof -
  have "map_outcome (map_option (\<lambda>g. map sp_Name (ss_Ports (svc_Spec g))))
      (collector_GrpcService sample_port_lib helm_params) = Ok (Some [''otlp-grpc''])"
    by code_simp
  then show ?thesis by (auto simp: outcome_iff eq_commute [of "Some _"])
qed

theorem ingress_services_cached_iff_witness:
  "\<exists>g n. collector_GrpcService sample_port_lib helm_params = Ok (Some g) \<and> \<not> cached ''Service'' (svc_Meta g) \<and>
     collector_NonGrpcService sample_port_lib sample_params = Ok (Some n) \<and> cached ''Service'' (svc_Meta n)"
proof -
  obtain g n where gn: "collector_GrpcService sample_port_lib helm_params = Ok (Some g)"
    "collector_NonGrpcService sample_port_lib sample_params = Ok (Some n)"
    using helm_grpc_service sample_non_grpc_service by blast
  have helm: "entries (om_Labels (ocl_Meta (pa_Otelcol helm_params))) = [(''app.kubernetes.io/managed-by'', ''Helm'')]"
    by (simp add: helm_params_def)
  have plain: "entries (om_Labels (ocl_Meta (pa_Otelcol sample_params))) = []"
    by (simp add: sample_params_def meta_named_def empty_meta_def)
  have "\<not> cached ''Service'' (svc_Meta g)"
    using ingress_services_cached_iff [of sample_port_lib helm_params g] gn(1) helm by simp
  moreover have "cached ''Service'' (svc_Meta n)"
    using ingress_services_cached_iff [of sample_port_lib sample_params n] gn(2) plain by simp
  ultimately show ?thesis using gn by blast
qed





section \<open>The mirroring logger\<close>

text \<open>The main sink gets the same calls as without the mirror, and answers whether a level is enabled.\<close>

lemma mirror_main: "fst (mirror f g s) = f (fst s)"
  by (simp add: mirror_def split: prod.splits)

lemma otelMirrorSink_refines_main:
  "fst (si_Info (otelMirrorSink m t) level msg kv s) = si_Info m level msg kv (fst s)"
  "fst (si_Error (otelMirrorSink m t) err msg kv s) = si_Error m err msg kv (fst s)"
  "fst (si_WithValues (otelMirrorSink m t) kv s) = si_WithValues m kv (fst s)"
  "fst (si_WithName (otelMirrorSink m t) name s) = si_WithName m name (fst s)"
  "fst (si_Init (otelMirrorSink m t) info s) = si_Init m info (fst s)"
  "si_Enabled (otelMirrorSink m t) level s = si_Enabled m level (fst s)"
  by (simp_all add: otelMirrorSink_def mirror_main split: prod.splits)

text \<open>HTTP/2 is off on both servers unless the flag asks for it.\<close>

lemma http2_disabled:
  assumes "\<not> fl_enableHTTP2 f"
  shows "tc_NextProtos (fold apply_tls_opt (mo_WebhookTLSOpts (manager_options_of f)) c) = [''http/1.1'']"
    and "tc_NextProtos (fold apply_tls_opt (mo_MetricsTLSOpts (manager_options_of f)) c) = [''http/1.1'']"
  using assms by (simp_all add: manager_options_of_def tlsOpts_def)

end
