(* ===== verification/Convergence.thy ===== *)
theory Convergence
  imports Observer_Adapter
begin

text \<open>
  How a new custom resource becomes available. An API server that accepts the writes of the operator is an interface: a
  read gives what is stored, an update of the resource stores its metadata and spec, an update of the status its
  conditions. The history of calls of the adapters has such a server.
\<close>

section \<open>An API server that accepts writes\<close>

definition same_object :: "'a resource_scheme \<Rightarrow> 'a resource_scheme \<Rightarrow> bool" where
  "same_object a b \<longleftrightarrow> key_of (rs_Meta a) = key_of (rs_Meta b) \<and> resource.more a = resource.more b"

text \<open>An operation that goes on and leaves the stored resource alone.\<close>

definition passes ::
  "('w \<Rightarrow> 'a resource_scheme) \<Rightarrow> 'a resource_scheme \<Rightarrow> ('a resource_scheme, 'w) operation \<Rightarrow> bool" where
  "passes stored cr0 opn \<longleftrightarrow> (\<forall>cr w. same_object cr cr0 \<longrightarrow>
     (\<exists>cr' w'. opn (cr, w) = (ContinueProcessing, cr', w') \<and> same_object cr' cr0 \<and> stored w' = stored w))"

locale accepting_server =
  fixes cl :: "('a resource_scheme, 'w) cr_client"
    and stored :: "'w \<Rightarrow> 'a resource_scheme"
  assumes get_stored: "\<exists>w'. cc_Get cl (key_of (rs_Meta (stored w))) w = (Inr (stored w), w') \<and> stored w' = stored w"
    and update_stores: "same_object cr (stored w) \<Longrightarrow>
      \<exists>w'. cc_Update cl cr w = (Inr (stored w'), w') \<and> same_object (stored w') cr \<and>
        rs_Conditions (stored w') = rs_Conditions (stored w) \<and>
        om_Finalizers (rs_Meta (stored w')) = om_Finalizers (rs_Meta cr) \<and>
        om_DeletionTimestamp (rs_Meta (stored w')) = om_DeletionTimestamp (rs_Meta (stored w))"
    and status_stores: "same_object cr (stored w) \<Longrightarrow>
      \<exists>w'. cc_StatusUpdate cl cr w = (Inr (stored w'), w') \<and> same_object (stored w') (stored w) \<and>
        rs_Conditions (stored w') = rs_Conditions cr \<and>
        om_Finalizers (rs_Meta (stored w')) = om_Finalizers (rs_Meta (stored w)) \<and>
        om_DeletionTimestamp (rs_Meta (stored w')) = om_DeletionTimestamp (rs_Meta (stored w))"
begin

lemma run_passes:
  assumes "\<And>opn. opn \<in> set ops \<Longrightarrow> passes stored cr0 opn" "same_object cr cr0"
  shows "\<exists>cr' w'. run_operations (ops @ rest) (cr, w) = run_operations rest (cr', w') \<and> same_object cr' cr0 \<and>
    stored w' = stored w"
  using assms
proof (induction ops arbitrary: cr w)
  case (Cons opn ops)
  from Cons.prems obtain cr1 w1 where
    "opn (cr, w) = (ContinueProcessing, cr1, w1)" "same_object cr1 cr0" "stored w1 = stored w"
    unfolding passes_def by (meson list.set_intros(1))
  with Cons.IH [of cr1 w1] Cons.prems(1) show ?case by (auto simp: run_operations_Cons)
qed auto

end

section \<open>Three reconciliations\<close>

abbreviation lifecycle_Reconcile where
  "lifecycle_Reconcile L cl fz fin sync \<equiv> Reconcile L cl (lifecycle_operations L cl fz fin sync)"

fun reconcile_times :: "nat \<Rightarrow> ('w \<Rightarrow> reconcile_return \<times> 'w) \<Rightarrow> 'w \<Rightarrow> reconcile_return list \<times> 'w" where
  "reconcile_times 0 f w = ([], w)"
| "reconcile_times (Suc n) f w =
     (case f w of (r, w1) \<Rightarrow> case reconcile_times n f w1 of (rs, w2) \<Rightarrow> (r # rs, w2))"

definition available :: "'a resource_scheme \<Rightarrow> bool" where
  "available cr \<longleftrightarrow> list_ex (\<lambda>c. cd_Type c = typeAvailableHub \<and> cd_Status c = ''True'') (rs_Conditions cr)"

abbreviation quiet :: reconcile_return where
  "quiet \<equiv> Done \<lparr>res_RequeueAfter = 0\<rparr> None"

context accepting_server
begin

text \<open>The status is initialised first, then the finalizer is added, then the resource is synchronised.\<close>

lemma first_reconciliation:
  assumes "rs_Conditions (stored w) = []" "om_DeletionTimestamp (rs_Meta (stored w)) = None"
  shows "\<exists>w'. lifecycle_Reconcile L cl fz fin sync (key_of (rs_Meta (stored w))) w = (quiet, w') \<and>
    same_object (stored w') (stored w) \<and>
    rs_Conditions (stored w') = fst (kl_SetStatusCondition L [] \<lparr>cd_Type = typeAvailableHub, cd_Status = ''Unknown'',
      cd_Reason = ''Reconciling'', cd_Message = ''Starting reconciliation''\<rparr>) \<and>
    om_Finalizers (rs_Meta (stored w')) = om_Finalizers (rs_Meta (stored w)) \<and>
    om_DeletionTimestamp (rs_Meta (stored w')) = None"
proof -
  obtain w1 where w1: "cc_Get cl (key_of (rs_Meta (stored w))) w = (Inr (stored w), w1)" "stored w1 = stored w"
    using get_stored by blast
  define cr1 where "cr1 = (stored w)\<lparr>rs_Conditions := fst (kl_SetStatusCondition L [] \<lparr>cd_Type = typeAvailableHub,
    cd_Status = ''Unknown'', cd_Reason = ''Reconciling'', cd_Message = ''Starting reconciliation''\<rparr>)\<rparr>"
  have "same_object cr1 (stored w1)" by (simp add: cr1_def w1 same_object_def)
  from status_stores [OF this] obtain w2 where "cc_StatusUpdate cl cr1 w1 = (Inr (stored w2), w2)"
    "same_object (stored w2) (stored w)" "rs_Conditions (stored w2) = rs_Conditions cr1"
    "om_Finalizers (rs_Meta (stored w2)) = om_Finalizers (rs_Meta (stored w))"
    "om_DeletionTimestamp (rs_Meta (stored w2)) = None" using assms(2) by (auto simp: w1(2))
  then show ?thesis using assms w1
    by (intro exI [of _ w2]) (simp add: Reconcile_def lifecycle_operations_def run_operations_Cons deletion_skipped
        ensureStatusInitialized_def cr1_def op_return_defs halts_def)
qed

lemma second_reconciliation:
  assumes "rs_Conditions (stored w) \<noteq> []" "om_DeletionTimestamp (rs_Meta (stored w)) = None"
    and L: "kube_lib_documented L" and fz: "fz \<notin> set (om_Finalizers (rs_Meta (stored w)))"
  shows "\<exists>w'. lifecycle_Reconcile L cl fz fin sync (key_of (rs_Meta (stored w))) w = (quiet, w') \<and>
    same_object (stored w') (stored w) \<and> rs_Conditions (stored w') = rs_Conditions (stored w) \<and>
    om_Finalizers (rs_Meta (stored w')) = om_Finalizers (rs_Meta (stored w)) @ [fz] \<and>
    om_DeletionTimestamp (rs_Meta (stored w')) = None"
proof -
  obtain w1 where w1: "cc_Get cl (key_of (rs_Meta (stored w))) w = (Inr (stored w), w1)" "stored w1 = stored w"
    using get_stored by blast
  have lib: "\<not> kl_ContainsFinalizer L (rs_Meta (stored w)) fz" "kl_AddFinalizer L (rs_Meta (stored w)) fz =
      ((rs_Meta (stored w))\<lparr>om_Finalizers := om_Finalizers (rs_Meta (stored w)) @ [fz]\<rparr>, True)"
    using L fz by (simp_all add: kube_lib_documented_def)
  define cr1 where "cr1 = (stored w)\<lparr>rs_Meta := (rs_Meta (stored w))
    \<lparr>om_Finalizers := om_Finalizers (rs_Meta (stored w)) @ [fz]\<rparr>\<rparr>"
  have same: "same_object cr1 (stored w)" by (simp add: cr1_def same_object_def key_of_def)
  with update_stores [of cr1 w1] obtain w2 where "cc_Update cl cr1 w1 = (Inr (stored w2), w2)"
    "same_object (stored w2) cr1" "rs_Conditions (stored w2) = rs_Conditions (stored w)"
    "om_Finalizers (rs_Meta (stored w2)) = om_Finalizers (rs_Meta (stored w)) @ [fz]"
    "om_DeletionTimestamp (rs_Meta (stored w2)) = None" using assms(2) w1(2) by (auto simp: cr1_def)
  moreover from this have "lifecycle_Reconcile L cl fz fin sync (key_of (rs_Meta (stored w))) w = (quiet, w2)"
    using assms(1,2) w1 lib
    by (simp add: Reconcile_def lifecycle_operations_def run_operations_Cons deletion_skipped status_skipped
        ensureFinalizerInitialized_def cr1_def op_return_defs halts_def)
  ultimately show ?thesis using same by (auto simp: same_object_def)
qed

lemma ready_reconciliation:
  assumes "ready L fz (stored w)" and L: "kube_lib_documented L"
    and "\<And>opn. opn \<in> set sync \<Longrightarrow> passes stored (stored w) opn"
  shows "\<exists>w'. lifecycle_Reconcile L cl fz fin sync (key_of (rs_Meta (stored w))) w = (quiet, w') \<and>
    available (stored w') \<and> om_Finalizers (rs_Meta (stored w')) = om_Finalizers (rs_Meta (stored w))"
proof -
  obtain w1 where w1: "cc_Get cl (key_of (rs_Meta (stored w))) w = (Inr (stored w), w1)" "stored w1 = stored w"
    using get_stored by blast
  have "same_object (stored w) (stored w)" by (simp add: same_object_def)
  from run_passes [OF assms(3) this] obtain cr' w2 where
    run: "run_operations (sync @ [ensureStatusSetToDone L cl]) (stored w, w1) =
      run_operations [ensureStatusSetToDone L cl] (cr', w2)" and "same_object cr' (stored w)" "stored w2 = stored w"
    using w1(2) by metis
  then have key: "key_of (rs_Meta cr') = key_of (rs_Meta (stored w2))" by (simp add: same_object_def)
  obtain w3 where w3: "cc_Get cl (key_of (rs_Meta cr')) w2 = (Inr (stored w2), w3)" "stored w3 = stored w2"
    unfolding key using get_stored by blast
  define c where "c = \<lparr>cd_Type = typeAvailableHub, cd_Status = ''True'', cd_Reason = ''Reconciling'',
    cd_Message = ''reconciled successfully''\<rparr>"
  define cr2 where "cr2 = (stored w)\<lparr>rs_Conditions := fst (kl_SetStatusCondition L (rs_Conditions (stored w)) c)\<rparr>"
  have "same_object cr2 (stored w3)" using w3 \<open>stored w2 = stored w\<close> by (simp add: same_object_def cr2_def)
  from status_stores [OF this] obtain w4 where w4: "cc_StatusUpdate cl cr2 w3 = (Inr (stored w4), w4)"
    "rs_Conditions (stored w4) = rs_Conditions cr2" "om_Finalizers (rs_Meta (stored w4)) = om_Finalizers (rs_Meta (stored w))"
    using w3 \<open>stored w2 = stored w\<close> by auto
  have "c \<in> set (rs_Conditions cr2)" using L by (simp add: cr2_def kube_lib_documented_def)
  then have "available (stored w4)" unfolding available_def w4(2) list_ex_iff by (intro bexI [of _ c]) (simp_all add: c_def)
  moreover have "ensureStatusSetToDone L cl (cr', w2) = (ContinueProcessing, stored w4, w4)"
    using w3 w4(1) \<open>stored w2 = stored w\<close> by (simp add: ensureStatusSetToDone_def cr2_def c_def)
  then have "lifecycle_Reconcile L cl fz fin sync (key_of (rs_Meta (stored w))) w = (quiet, w4)"
    by (simp add: Reconcile_def w1(1) lifecycle_ready [OF assms(1)] run run_operations_Cons)
  ultimately show ?thesis using w4(3) by blast
qed

lemma three_reconciliations:
  assumes L: "kube_lib_documented L"
    and fresh: "rs_Conditions (stored w) = []" "om_DeletionTimestamp (rs_Meta (stored w)) = None"
      "fz \<notin> set (om_Finalizers (rs_Meta (stored w)))"
    and sync: "\<And>opn. opn \<in> set sync \<Longrightarrow> passes stored (stored w) opn"
  shows "\<exists>w'. reconcile_times 3 (lifecycle_Reconcile L cl fz fin sync (key_of (rs_Meta (stored w)))) w =
    ([quiet, quiet, quiet], w') \<and> available (stored w') \<and> fz \<in> set (om_Finalizers (rs_Meta (stored w')))"
proof -
  let ?R = "\<lambda>w0. lifecycle_Reconcile L cl fz fin sync (key_of (rs_Meta (stored w0)))"
  obtain w1 where w1: "?R w w = (quiet, w1)" "same_object (stored w1) (stored w)" "rs_Conditions (stored w1) \<noteq> []"
    "om_Finalizers (rs_Meta (stored w1)) = om_Finalizers (rs_Meta (stored w))"
    "om_DeletionTimestamp (rs_Meta (stored w1)) = None"
    using first_reconciliation [OF fresh(1,2), of L fz fin sync] L
    by (auto simp: kube_lib_documented_def) (metis empty_iff list.set(1))
  obtain w2 where w2: "?R w1 w1 = (quiet, w2)" "same_object (stored w2) (stored w1)"
    "rs_Conditions (stored w2) = rs_Conditions (stored w1)"
    "om_Finalizers (rs_Meta (stored w2)) = om_Finalizers (rs_Meta (stored w1)) @ [fz]"
    "om_DeletionTimestamp (rs_Meta (stored w2)) = None"
    using second_reconciliation [OF w1(3,5) L, of fz fin sync] fresh(3) w1(4) by auto
  have same: "same_object (stored w2) (stored w)" using w1(2) w2(2) by (simp add: same_object_def)
  have "ready L fz (stored w2)" using w1(3) w2(3,4,5) L by (simp add: ready_def kube_lib_documented_def)
  moreover have "passes stored (stored w2) opn" if "opn \<in> set sync" for opn
    using sync [OF that] same by (simp add: passes_def same_object_def)
  ultimately obtain w3 where w3: "?R w2 w2 = (quiet, w3)" "available (stored w3)"
    "om_Finalizers (rs_Meta (stored w3)) = om_Finalizers (rs_Meta (stored w2))"
    using ready_reconciliation [OF _ L, of fz w2 sync fin] by auto
  from w1(2) same have "key_of (rs_Meta (stored w1)) = key_of (rs_Meta (stored w))"
    "key_of (rs_Meta (stored w2)) = key_of (rs_Meta (stored w))" by (simp_all add: same_object_def)
  with w1(1) w2(1,4) w3 show ?thesis by (simp add: numeral_3_eq_3)
qed

end

section \<open>The history as a server\<close>

text \<open>What the server stores after the calls of a history, starting from a resource.\<close>

fun stored_in :: "'a resource_scheme \<Rightarrow> 'a resource_scheme wl_history \<Rightarrow> 'a resource_scheme" where
  "stored_in cr0 [] = cr0"
| "stored_in cr0 (WUpdate cr # h) = cr\<lparr>rs_Meta := (rs_Meta cr)
     \<lparr>om_DeletionTimestamp := om_DeletionTimestamp (rs_Meta (stored_in cr0 h))\<rparr>,
     rs_Conditions := rs_Conditions (stored_in cr0 h)\<rparr>"
| "stored_in cr0 (WStatusUpdate cr # h) = (stored_in cr0 h)\<lparr>rs_Conditions := rs_Conditions cr\<rparr>"
| "stored_in cr0 (_ # h) = stored_in cr0 h"

definition serving :: "'a resource_scheme \<Rightarrow> 'a resource_scheme wl_env \<Rightarrow> 'a resource_scheme wl_env" where
  "serving cr0 E = E\<lparr>we_Get := (\<lambda>h k. Inr (stored_in cr0 h)),
     we_Update := (\<lambda>h cr. Inr (stored_in cr0 (WUpdate cr # h))),
     we_StatusUpdate := (\<lambda>h cr. Inr (stored_in cr0 (WStatusUpdate cr # h)))\<rparr>"

lemma serving_simps [simp]:
  "we_Get (serving cr0 E) h k = Inr (stored_in cr0 h)"
  "we_Update (serving cr0 E) h cr = Inr (stored_in cr0 (WUpdate cr # h))"
  "we_StatusUpdate (serving cr0 E) h cr = Inr (stored_in cr0 (WStatusUpdate cr # h))"
  "we_lib (serving cr0 E) = we_lib E"
  by (simp_all add: serving_def)

interpretation history_server: accepting_server "wl_client (serving cr0 E)" "stored_in cr0" for cr0 E
  by unfold_locales (simp_all add: same_object_def key_of_def)

section \<open>Properties\<close>

text \<open>
  C5. A new resource becomes available: with an API server that accepts the writes of the operator and a synchronisation
  that succeeds, three reconciliations of a resource without status and finalizer all end without error, and then the
  resource has the finalizer and is reported as available.
\<close>

theorem fresh_resource_becomes_available:
  assumes srv: "accepting_server cl stored" and L: "kube_lib_documented L"
    and fresh: "rs_Conditions (stored w) = []" "om_DeletionTimestamp (rs_Meta (stored w)) = None"
      "fz \<notin> set (om_Finalizers (rs_Meta (stored w)))"
    and sync: "\<And>opn. opn \<in> set sync \<Longrightarrow> passes stored (stored w) opn"
  shows "\<exists>w'. reconcile_times 3 (Reconcile L cl (lifecycle_operations L cl fz fin sync) (key_of (rs_Meta (stored w)))) w =
    ([quiet, quiet, quiet], w') \<and> available (stored w') \<and> fz \<in> set (om_Finalizers (rs_Meta (stored w')))"
  by (rule accepting_server.three_reconciliations [OF srv L fresh sync])

text \<open>An observer without observers, which the observer controller brings to the end.\<close>

definition new_observer :: mdai_observer where
  "new_observer = \<lparr>rs_Meta = meta_named ''obs'' ''mdai'', rs_Conditions = [], mo_Observers = [],
     mo_ObserverResource = sample_observer_resource\<rparr>"

definition new_observer_env :: "mdai_observer wl_env" where
  "new_observer_env = serving new_observer (sample_wl_env [])"

lemma observer_lifecycle:
  "observer_operations E = lifecycle_operations (we_lib E) (wl_client E) hubFinalizer (observer_finalize E)
     [observer_ensureSynchronized E]"
  by (simp add: observer_operations_def lifecycle_operations_def observer_ensureDeletionProcessed_def
      observer_ensureStatusInitialized_def observer_ensureFinalizerInitialized_def observer_ensureStatusSetToDone_def)

theorem fresh_resource_becomes_available_witness:
  "\<exists>h'. reconcile_times 3 (observer_Reconcile new_observer_env (key_of (rs_Meta new_observer))) [] =
     ([quiet, quiet, quiet], h') \<and> available (stored_in new_observer h')"
proof -
  have L: "we_lib new_observer_env = sample_lib" by (simp add: new_observer_env_def sample_wl_env_def)
  have "mo_Observers cr = []" if "same_object cr new_observer" for cr :: mdai_observer
    using that by (cases cr) (simp add: same_object_def new_observer_def)
  then have "passes (stored_in new_observer) new_observer (observer_ensureSynchronized new_observer_env)"
    by (simp add: passes_def observer_ensureSynchronized_def)
  with fresh_resource_becomes_available [OF history_server.accepting_server_axioms sample_lib_documented,
    of new_observer "[]" hubFinalizer "[observer_ensureSynchronized new_observer_env]" "sample_wl_env []"
    "observer_finalize new_observer_env"]
  show ?thesis
    by (simp add: observer_Reconcile_def observer_lifecycle L) (auto simp: new_observer_env_def new_observer_def meta_named_def empty_meta_def)
qed

end
