(* ===== verification/Interleaving.thy ===== *)
theory Interleaving
  imports Convergence Collector_Adapter Replay_Adapter Dal_Adapter
begin

text \<open>
  A resource under concurrent change. The operator reads a copy of the resource from its cache and then works off the
  operations of its controller on that copy. Between any two operations users and other controllers may change the stored
  resource in any way (create, edit, mark as deleted, remove it, put the operator's finalizer on or take it off), the API server
  may refuse or accept every write, and the operator may be killed. The cache may lag behind: a copy is any version that the server
  has stored so far. The work queue of controller-runtime runs one reconciliation of a resource at a time, so there is at
  most one copy. The life cycle is a step relation, its reachable states an inductive predicate, and what is shown of them is
  shown by rule induction.
\<close>

section \<open>The system\<close>

text \<open>The stored resource has the operator's finalizer.\<close>

definition held :: "('w \<Rightarrow> 'a resource_scheme option) \<Rightarrow> string \<Rightarrow> 'w \<Rightarrow> bool" where
  "held stored fz w \<longleftrightarrow> (case stored w of None \<Rightarrow> False | Some r \<Rightarrow> fz \<in> set (om_Finalizers (rs_Meta r)))"

text \<open>
  The world of the operator's calls, the versions of the resource that were stored up to now and, while it reconciles, the
  operator's copy with the operations still to run. The last component of a run is for the statements only: the run began
  with the version that was stored, and nobody else has taken the finalizer off the stored resource since.
\<close>

type_synonym ('cr, 'w) running = "'cr \<times> ('cr, 'w) operation list \<times> bool"

type_synonym ('cr, 'w) system = "'w \<times> 'cr set \<times> ('cr, 'w) running option"

definition seen :: "('w \<Rightarrow> 'cr option) \<Rightarrow> 'w \<Rightarrow> 'cr set \<Rightarrow> 'cr set" where
  "seen stored w vs = vs \<union> set_option (stored w)"

fun interfered :: "bool \<Rightarrow> ('cr, 'w) running option \<Rightarrow> ('cr, 'w) running option" where
  "interfered still_held (Some (cr, ops, intact)) = Some (cr, ops, intact \<and> still_held)"
| "interfered still_held None = None"

inductive system_step ::
  "('w \<Rightarrow> 'a resource_scheme option) \<Rightarrow> string \<Rightarrow> ('a resource_scheme, 'w) operation list
     \<Rightarrow> ('a resource_scheme, 'w) system \<Rightarrow> ('a resource_scheme, 'w) system \<Rightarrow> bool"
  for stored fz operations where
  others: "system_step stored fz operations (w, vs, c) (w', seen stored w' vs, interfered (held stored fz w') c)"
| begin_run: "cr \<in> vs \<Longrightarrow> stored w' = stored w \<Longrightarrow>
    system_step stored fz operations (w, vs, None) (w', vs, Some (cr, operations, stored w = Some cr))"
| operate: "opn (cr, w) = (r, cr', w') \<Longrightarrow> \<not> halts r \<Longrightarrow>
    system_step stored fz operations (w, vs, Some (cr, opn # ops, intact)) (w', seen stored w' vs, Some (cr', ops, intact))"
| stop: "opn (cr, w) = (r, cr', w') \<Longrightarrow> halts r \<Longrightarrow>
    system_step stored fz operations (w, vs, Some (cr, opn # ops, intact)) (w', seen stored w' vs, None)"
| finish: "system_step stored fz operations (w, vs, Some (cr, [], intact)) (w, vs, None)"
| crash: "system_step stored fz operations (w, vs, Some c) (w, vs, None)"

inductive reachable ::
  "('w \<Rightarrow> 'a resource_scheme option) \<Rightarrow> string \<Rightarrow> ('a resource_scheme, 'w) operation list
     \<Rightarrow> 'w \<Rightarrow> ('a resource_scheme, 'w) system \<Rightarrow> bool"
  for stored fz operations w0 where
  start: "reachable stored fz operations w0 (w0, seen stored w0 {}, None)"
| step: "reachable stored fz operations w0 s \<Longrightarrow> system_step stored fz operations s s' \<Longrightarrow>
    reachable stored fz operations w0 s'"

text \<open>
  One uninterrupted reconciliation is a run of the system: the handler of \<^const>\<open>run_operations\<close> is what the steps do
  when nobody interferes.
\<close>

lemma run_is_reachable:
  assumes "reachable stored fz operations w0 (w, vs, Some (cr, ops, intact))"
  shows "\<exists>w' vs' c. reachable stored fz operations w0 (w', vs', None) \<and> snd (run_operations ops (cr, w)) = (c, w')"
  using assms
proof (induction ops arbitrary: cr w vs)
  case Nil
  then show ?case by (auto intro: reachable.step [OF _ finish])
next
  case (Cons opn ops)
  obtain r cr' w' where o: "opn (cr, w) = (r, cr', w')" by (metis prod_cases3)
  show ?case
  proof (cases "halts r")
    case True
    with o Cons.prems show ?thesis by (auto simp: run_operations_Cons intro: reachable.step [OF _ stop])
  next
    case False
    with o Cons.prems have "reachable stored fz operations w0 (w', seen stored w' vs, Some (cr', ops, intact))"
      by (auto intro: reachable.step [OF _ operate])
    from Cons.IH [OF this] o False show ?thesis by (simp add: run_operations_Cons)
  qed
qed

text \<open>The stored resource is always one of the versions.\<close>

lemma stored_seen: "reachable stored fz operations w0 (w, vs, c) \<Longrightarrow> set_option (stored w) \<subseteq> vs"
  by (induction "(w, vs, c)" arbitrary: w vs c rule: reachable.induct) (auto simp: seen_def elim!: system_step.cases)

section \<open>The interface of the synchronisation\<close>

text \<open>The operations of a controller, with the one that reports at the end; the DAL has its own.\<close>

definition staged_operations ::
  "kube_lib \<Rightarrow> ('a resource_scheme, 'w) cr_client \<Rightarrow> string \<Rightarrow> ('a resource_scheme, 'w) finalize_op
     \<Rightarrow> ('a resource_scheme, 'w) operation list \<Rightarrow> ('a resource_scheme, 'w) operation \<Rightarrow> ('a resource_scheme, 'w) operation list" where
  "staged_operations L cl fz fin sync report =
     [ensureDeletionProcessed fin, ensureStatusInitialized L cl, ensureFinalizerInitialized L cl fz] @ sync @ [report]"

lemma lifecycle_staged: "lifecycle_operations L cl fz fin sync = staged_operations L cl fz fin sync (ensureStatusSetToDone L cl)"
  by (simp add: lifecycle_operations_def staged_operations_def)

lemma dal_staged:
  "dal_operations E = staged_operations (we_lib E) (wl_client E) hubFinalizer (dal_finalize E) [dal_ensureSynchronized E]
     (dal_ensureStatusSetToDone E)"
  by (simp add: dal_operations_def staged_operations_def dal_ensureDeletionProcessed_def dal_ensureStatusInitialized_def
      dal_ensureFinalizerInitialized_def)

text \<open>
  All that the invariant needs: the synchronisation writes other objects than the resource, and leaves the metadata of the
  operator's copy alone.
\<close>

locale writes_elsewhere =
  fixes stored :: "'w \<Rightarrow> 'a resource_scheme option"
    and sync :: "('a resource_scheme, 'w) operation list"
  assumes sync_elsewhere: "opn \<in> set sync \<Longrightarrow> opn (cr, w) = (r, cr', w') \<Longrightarrow>
      stored w' = stored w \<and> rs_Meta cr' = rs_Meta cr"
begin

text \<open>
  What holds of a run between two operations, by the position in the list of operations: up to the end of the
  synchronisation the copy has the metadata of a stored version; it is not marked as deleted after the first operation and
  has the finalizer after the third; and what an intact run sees on its copy is on the stored resource too.
\<close>

definition copy_ok :: "string \<Rightarrow> nat \<Rightarrow> 'w \<Rightarrow> 'a resource_scheme set \<Rightarrow> 'a resource_scheme \<Rightarrow> bool \<Rightarrow> bool" where
  "copy_ok fz k w vs cr intact \<longleftrightarrow> rs_Meta cr \<in> rs_Meta ` vs \<and>
     (1 \<le> k \<longrightarrow> om_DeletionTimestamp (rs_Meta cr) = None) \<and> (3 \<le> k \<longrightarrow> fz \<in> set (om_Finalizers (rs_Meta cr))) \<and>
     (intact \<longrightarrow> fz \<in> set (om_Finalizers (rs_Meta cr)) \<longrightarrow> held stored fz w)"

definition stage_ok :: "kube_lib \<Rightarrow> ('a resource_scheme, 'w) cr_client \<Rightarrow> string \<Rightarrow> ('a resource_scheme, 'w) finalize_op
     \<Rightarrow> ('a resource_scheme, 'w) operation \<Rightarrow> ('a resource_scheme, 'w) system \<Rightarrow> bool" where
  "stage_ok L cl fz fin report s \<longleftrightarrow> (case s of (w, vs, None) \<Rightarrow> True | (w, vs, Some (cr, ops, intact)) \<Rightarrow>
     \<exists>k. ops = drop k (staged_operations L cl fz fin sync report) \<and>
       (k \<le> 3 + length sync \<longrightarrow> copy_ok fz k w vs cr intact))"

lemma stage_intro:
  "ops = drop k (staged_operations L cl fz fin sync report) \<Longrightarrow> (k \<le> 3 + length sync \<Longrightarrow> copy_ok fz k w vs cr intact) \<Longrightarrow>
    stage_ok L cl fz fin report (w, vs, Some (cr, ops, intact))"
  by (auto simp: stage_ok_def)

lemma copy_ok_next:
  assumes "copy_ok fz k w vs cr intact" "stored w' = stored w" "rs_Meta cr' = rs_Meta cr" "vs \<subseteq> vs'"
    "om_DeletionTimestamp (rs_Meta cr) = None" "3 \<le> Suc k \<Longrightarrow> fz \<in> set (om_Finalizers (rs_Meta cr))"
  shows "copy_ok fz (Suc k) w' vs' cr' intact"
  using assms by (auto simp: copy_ok_def held_def)

lemma stage_operation:
  assumes "k < length (staged_operations L cl fz fin sync report)" "opn = staged_operations L cl fz fin sync report ! k"
  obtains "k = 0" "opn = ensureDeletionProcessed fin" | "k = 1" "opn = ensureStatusInitialized L cl"
    | "k = 2" "opn = ensureFinalizerInitialized L cl fz" | "3 \<le> k" "opn \<in> set sync" | "k = 3 + length sync"
proof (cases "k < 3")
  case True
  then have "k = 0 \<or> k = 1 \<or> k = 2" by arith
  with assms(2) that(1-3) show ?thesis by (auto simp: staged_operations_def)
next
  case False
  then have k: "k = 3 + (k - 3)" by simp
  then have "opn = (sync @ [report]) ! (k - 3)"
    using assms(2) by (metis (no_types, lifting) staged_operations_def length_Cons list.size(3) nth_append_length_plus
        numeral_3_eq_3)
  moreover have "k - 3 < length sync \<or> k = 3 + length sync" using assms(1) k by (auto simp: staged_operations_def)
  ultimately show ?thesis using that(4,5) False by (auto simp: nth_append)
qed

lemma operate_keeps_stage:
  assumes L: "kube_lib_documented L" and ok: "stage_ok L cl fz fin report (w, vs, Some (cr, opn # ops, intact))"
    and run: "opn (cr, w) = (r, cr', w')" "\<not> halts r" and vs: "vs \<subseteq> vs'"
  shows "stage_ok L cl fz fin report (w', vs', Some (cr', ops, intact))"
proof -
  let ?ops = "staged_operations L cl fz fin sync report"
  from ok obtain k where k: "opn # ops = drop k ?ops" and c: "k \<le> 3 + length sync \<Longrightarrow> copy_ok fz k w vs cr intact"
    by (auto simp: stage_ok_def)
  then have lt: "k < length ?ops" by (metis drop_all list.distinct(1) not_le_imp_less)
  with k have at: "opn = ?ops ! k" and ops: "ops = drop (Suc k) ?ops" by (metis Cons_nth_drop_Suc list.inject)+
  from lt at show ?thesis
  proof (cases rule: stage_operation)
    case 1
    then have "om_DeletionTimestamp (rs_Meta cr) = None" using run deletion_halts [of cr fin w] by (metis fst_conv)
    with 1 run(1) c vs show ?thesis by (auto intro!: stage_intro [OF ops] copy_ok_next simp: deletion_skipped)
  next
    case 2
    then have "rs_Conditions cr \<noteq> []" using run status_halts [of cr L cl w] by (metis fst_conv)
    then have "cr' = cr" "w' = w" using 2(2) run(1) by (simp_all add: status_skipped)
    with 2 c vs show ?thesis
      by (intro stage_intro [OF ops] copy_ok_next [of fz k w vs cr]) (simp_all add: copy_ok_def)
  next
    case 3
    then have "kl_ContainsFinalizer L (rs_Meta cr) fz" using run finalizer_halts [of L cr fz cl w] by (metis fst_conv)
    then have "fz \<in> set (om_Finalizers (rs_Meta cr))" "w' = w" "cr' = cr"
      using L 3(2) run(1) by (simp_all add: kube_lib_documented_def finalizer_skipped)
    with 3 c vs show ?thesis
      by (intro stage_intro [OF ops] copy_ok_next [of fz k w vs cr]) (simp_all add: copy_ok_def)
  next
    case 4
    then have "stored w' = stored w" "rs_Meta cr' = rs_Meta cr" using run(1) sync_elsewhere by metis+
    with 4 c vs show ?thesis
      by (intro stage_intro [OF ops] copy_ok_next [of fz k w vs cr]) (simp_all add: copy_ok_def)
  next
    case 5
    then show ?thesis by (auto intro!: stage_intro [OF ops])
  qed
qed

lemma others_keep_stage:
  assumes "stage_ok L cl fz fin report (w, vs, c)"
  shows "stage_ok L cl fz fin report (w', seen stored w' vs, interfered (held stored fz w') c)"
  using assms by (cases "(held stored fz w', c)" rule: interfered.cases) (auto simp: stage_ok_def copy_ok_def seen_def)

lemma begin_keeps_stage:
  assumes "cr \<in> vs" "stored w' = stored w"
  shows "stage_ok L cl fz fin report (w', vs, Some (cr, staged_operations L cl fz fin sync report, stored w = Some cr))"
  using assms by (intro stage_intro [of _ 0]) (auto simp: copy_ok_def held_def)

lemma step_keeps_stage:
  assumes "system_step stored fz (staged_operations L cl fz fin sync report) s s'" "kube_lib_documented L"
    "stage_ok L cl fz fin report s"
  shows "stage_ok L cl fz fin report s'"
  using assms
proof (cases rule: system_step.cases)
  case (operate opn cr w r cr' w' vs ops intact)
  then show ?thesis using operate_keeps_stage [OF assms(2)] assms(3) by (auto simp: seen_def)
qed (auto intro: others_keep_stage begin_keeps_stage, auto simp: stage_ok_def)

lemma reachable_stage:
  assumes "reachable stored fz (staged_operations L cl fz fin sync report) w0 s" "kube_lib_documented L"
  shows "stage_ok L cl fz fin report s"
  using assms by (induction rule: reachable.induct) (auto simp: stage_ok_def [of _ _ _ _ _ "(_, _, None)"] intro: step_keeps_stage)

lemma synchronising:
  assumes "reachable stored fz (staged_operations L cl fz fin sync report) w0
      (w, vs, Some (cr, drop i sync @ [report], intact))" "i < length sync" and L: "kube_lib_documented L"
  shows "rs_Meta cr \<in> rs_Meta ` vs \<and> fz \<in> set (om_Finalizers (rs_Meta cr)) \<and> om_DeletionTimestamp (rs_Meta cr) = None \<and>
    (intact \<longrightarrow> held stored fz w)"
proof -
  let ?ops = "staged_operations L cl fz fin sync report"
  from reachable_stage [OF assms(1) L] obtain k where k: "drop i sync @ [report] = drop k ?ops"
    and c: "k \<le> 3 + length sync \<Longrightarrow> copy_ok fz k w vs cr intact" by (auto simp: stage_ok_def)
  from k have "length sync - i + 1 = length sync + 4 - k"
    by (auto simp: staged_operations_def dest!: arg_cong [where f = length])
  with assms(2) c show ?thesis by (auto simp: copy_ok_def)
qed

end

section \<open>The synchronisations write elsewhere\<close>

text \<open>A property of the world is kept along the steps of an operation when each call keeps it.\<close>

named_theorems world_intros \<open>rules for what the calls of an operation keep of the world\<close>

lemma on_result_world [world_intros]:
  "P (snd r) \<Longrightarrow> (\<And>x h. P h \<Longrightarrow> P (snd (snd (k x h)))) \<Longrightarrow> P (snd (snd (on_result r k onErr cr)))"
  by (auto simp: on_result_def split: prod.splits outcome.splits)

lemma seq_result_world [world_intros]:
  "P (snd r) \<Longrightarrow> (\<And>x h. P h \<Longrightarrow> P (snd (k x h))) \<Longrightarrow> P (snd (seq_result r k))"
  by (auto simp: seq_result_def split: prod.splits outcome.splits)

lemma wrap_error_world [simp]: "snd (wrap_error msg r) = snd r"
  by (cases "(msg, r)" rule: wrap_error.cases) simp_all

lemmas cou_defs =
  cou_ConfigMap_def cou_Service_def cou_Deployment_def cou_ServiceAccount_def cou_ClusterRole_def cou_RoleBinding_def

abbreviation stored_is :: "'a resource_scheme \<Rightarrow> 'a resource_scheme \<Rightarrow> 'a resource_scheme wl_history \<Rightarrow> bool" where
  "stored_is cr0 s h \<equiv> stored_in cr0 h = s"

lemma observer_stored: "stored_in cr0 (snd (snd (observer_ensureSynchronized E (cr, h)))) = stored_in cr0 h"
proof -
  let ?P = "stored_is cr0 (stored_in cr0 h)"
  have "?P (snd (createOrUpdateObserverResourceConfigMap E cr res obs h'))" if "?P h'" for res obs h'
    using that unfolding createOrUpdateObserverResourceConfigMap_def Let_def
    by (intro world_intros [where P = ?P]) (simp_all add: cou_defs)
  moreover have "?P (snd (createOrUpdateObserverResourceService E cr ns h'))" if "?P h'" for ns h'
    using that by (simp add: createOrUpdateObserverResourceService_def cou_defs Let_def split: outcome.splits)
  ultimately show ?thesis unfolding observer_ensureSynchronized_def Let_def
    by (auto simp: createOrUpdateObserverResourceDeployment_def cou_defs intro!: world_intros [where P = ?P])
qed

lemma collector_stored: "stored_in cr0 (snd (snd (collector_ensureSynchronized E rng (cr, h)))) = stored_in cr0 h"
proof -
  let ?P = "stored_is cr0 (stored_in cr0 h)"
  have "?P (snd (createOrUpdateMdaiCollectorConfigMap E rng cr ns logs key h'))" if "?P h'" for ns logs key h'
    using that unfolding createOrUpdateMdaiCollectorConfigMap_def Let_def
    by (intro world_intros [where P = ?P]) (simp_all add: cou_defs)
  moreover have "?P (snd (createOrUpdateMdaiCollectorEnvVarConfigMap E cr ns h'))" if "?P h'" for ns h'
    using that unfolding createOrUpdateMdaiCollectorEnvVarConfigMap_def Let_def
    by (intro world_intros [where P = ?P]) (simp_all add: cou_defs)
  moreover have "?P (snd (createOrUpdateMdaiCollectorServiceAccount E cr ns h'))" if "?P h'" for ns h'
    using that unfolding createOrUpdateMdaiCollectorServiceAccount_def Let_def
    by (intro world_intros [where P = ?P]) (simp_all add: cou_defs)
  moreover have "?P (snd (createOrUpdateMdaiCollectorService E cr ns app h'))" if "?P h'" for ns app h'
    using that unfolding createOrUpdateMdaiCollectorService_def Let_def
    by (intro world_intros [where P = ?P]) (simp_all add: cou_defs)
  moreover have "?P (snd (createOrUpdateMdaiCollectorRole E cr h'))" if "?P h'" for h'
    using that unfolding createOrUpdateMdaiCollectorRole_def Let_def
    by (intro world_intros [where P = ?P]) (simp_all add: cou_defs)
  moreover have "?P (snd (createOrUpdateMdaiCollectorDeployment E cr params h'))" if "?P h'" for params h'
    using that unfolding createOrUpdateMdaiCollectorDeployment_def Let_def
    by (intro world_intros [where P = ?P]) (simp_all add: cou_defs)
  moreover have "?P (snd (createOrUpdateMdaiCollectorRoleBinding E cr ns role sa h'))" if "?P h'" for ns role sa h'
    using that by (simp add: createOrUpdateMdaiCollectorRoleBinding_def cou_defs Let_def)
  ultimately show ?thesis unfolding collector_ensureSynchronized_def Let_def
    by (auto intro!: world_intros [where P = ?P])
qed

lemma replay_stored: "stored_in cr0 (snd (snd (replay_ensureSynchronized E (cr, h)))) = stored_in cr0 h"
proof -
  let ?P = "stored_is cr0 (stored_in cr0 h)"
  have "?P (snd (createOrUpdateReplayerConfigMap E cr h'))" if "?P h'" for h'
    using that unfolding createOrUpdateReplayerConfigMap_def Let_def
    by (intro world_intros [where P = ?P]) (simp_all add: cou_defs)
  moreover have "?P (snd (createOrUpdateReplayerService E cr h'))" if "?P h'" for h'
    using that unfolding createOrUpdateReplayerService_def Let_def
    by (intro world_intros [where P = ?P]) (simp_all add: cou_defs)
  moreover have "?P (snd (createOrUpdateReplayerDeployment E cr hash h'))" if "?P h'" for hash h'
    using that by (simp add: createOrUpdateReplayerDeployment_def cou_defs)
  ultimately show ?thesis unfolding replay_ensureSynchronized_def prod.case
    by (intro world_intros [where P = ?P]) simp_all
qed

lemma dal_stored: "stored_in cr0 (snd (snd (dal_ensureSynchronized E (cr, h)))) = stored_in cr0 h"
proof -
  let ?P = "stored_is cr0 (stored_in cr0 h)"
  have skip: "snd (skip_existing E' msg r) = snd r" for E' :: "mdai_dal wl_env" and msg and r :: "'b outcome \<times> dal_history"
    by (cases "(E', msg, r)" rule: skip_existing.cases) simp_all
  have "?P (snd (dal_createOrUpdateConfigMap E cr h'))" if "?P h'" for h'
    using that unfolding dal_createOrUpdateConfigMap_def by (auto simp: skip cou_defs intro!: world_intros [where P = ?P])
  moreover have "?P (snd (dal_createOrUpdateService E cr h'))" if "?P h'" for h'
    using that by (simp add: dal_createOrUpdateService_def skip cou_defs)
  moreover have "?P (snd (dal_createOrUpdateDeployment E cr h'))" if "?P h'" for h'
    using that by (simp add: dal_createOrUpdateDeployment_def skip cou_defs split: option.splits)
  ultimately show ?thesis unfolding dal_ensureSynchronized_def prod.case
    by (intro world_intros [where P = ?P]) simp_all
qed

text \<open>The copy itself is handed through unchanged.\<close>

lemma on_result_copy: "(\<And>x h. fst (snd (k x h)) = cr) \<Longrightarrow> fst (snd (on_result r k onErr cr)) = cr"
  by (auto simp: on_result_def split: prod.splits outcome.splits)

lemma synchronisations_copy:
  "fst (snd (observer_ensureSynchronized E1 (cr1, h1))) = cr1"
  "fst (snd (collector_ensureSynchronized E2 rng (cr2, h2))) = cr2"
  "fst (snd (replay_ensureSynchronized E3 (cr3, h3))) = cr3"
  "fst (snd (dal_ensureSynchronized E4 (cr4, h4))) = cr4"
  unfolding observer_ensureSynchronized_def collector_ensureSynchronized_def replay_ensureSynchronized_def
    dal_ensureSynchronized_def Let_def prod.case
  by (auto intro!: on_result_copy)

interpretation observer_writes: writes_elsewhere "\<lambda>h. Some (stored_in cr0 h)" "[observer_ensureSynchronized E]" for cr0 E
proof
  fix opn cr h r cr' h'
  assume "opn \<in> set [observer_ensureSynchronized E]" "opn (cr, h) = (r, cr', h')"
  then show "Some (stored_in cr0 h') = Some (stored_in cr0 h) \<and> rs_Meta cr' = rs_Meta cr"
    using observer_stored [of cr0 E cr h] synchronisations_copy(1) [of E cr h] by simp
qed

interpretation collector_writes: writes_elsewhere "\<lambda>h. Some (stored_in cr0 h)" "[collector_ensureSynchronized E rng]"
  for cr0 E rng
proof
  fix opn cr h r cr' h'
  assume "opn \<in> set [collector_ensureSynchronized E rng]" "opn (cr, h) = (r, cr', h')"
  then show "Some (stored_in cr0 h') = Some (stored_in cr0 h) \<and> rs_Meta cr' = rs_Meta cr"
    using collector_stored [of cr0 E rng cr h] synchronisations_copy(2) [of E rng cr h] by simp
qed

interpretation replay_writes: writes_elsewhere "\<lambda>h. Some (stored_in cr0 h)" "[replay_ensureSynchronized E]" for cr0 E
proof
  fix opn cr h r cr' h'
  assume "opn \<in> set [replay_ensureSynchronized E]" "opn (cr, h) = (r, cr', h')"
  then show "Some (stored_in cr0 h') = Some (stored_in cr0 h) \<and> rs_Meta cr' = rs_Meta cr"
    using replay_stored [of cr0 E cr h] synchronisations_copy(3) [of E cr h] by simp
qed

interpretation dal_writes: writes_elsewhere "\<lambda>h. Some (stored_in cr0 h)" "[dal_ensureSynchronized E]" for cr0 E
proof
  fix opn cr h r cr' h'
  assume "opn \<in> set [dal_ensureSynchronized E]" "opn (cr, h) = (r, cr', h')"
  then show "Some (stored_in cr0 h') = Some (stored_in cr0 h) \<and> rs_Meta cr' = rs_Meta cr"
    using dal_stored [of cr0 E cr h] synchronisations_copy(4) [of E cr h] by simp
qed

text \<open>The DAL controller, whose last operation is its own, synchronises under the finalizer too.\<close>

theorem dal_synchronises_held:
  assumes "kube_lib_documented (we_lib E)"
    "reachable (\<lambda>h. Some (stored_in cr0 h)) hubFinalizer (dal_operations E) w0
      (w, vs, Some (cr, [dal_ensureSynchronized E, dal_ensureStatusSetToDone E], intact))"
  shows "rs_Meta cr \<in> rs_Meta ` vs \<and> hubFinalizer \<in> set (om_Finalizers (rs_Meta cr)) \<and>
    om_DeletionTimestamp (rs_Meta cr) = None \<and> (intact \<longrightarrow> held (\<lambda>h. Some (stored_in cr0 h)) hubFinalizer w)"
  by (rule dal_writes.synchronising [where i = 0 and cl = "wl_client E" and fin = "dal_finalize E"
      and report = "dal_ensureStatusSetToDone E"]) (use assms in \<open>simp_all add: dal_staged\<close>)

section \<open>Properties\<close>

text \<open>
  C7. Users and other controllers may do anything to the stored resource between two operations of its controller, also
  take the operator's finalizer off; writes may be refused, the operator may be restarted, and its cache may hand it any
  version that was ever stored. In every reachable state whose next operation is one of the synchronisation, the copy
  that the operator works on has the metadata of a version that the API server stored, with the operator's finalizer and without
  a deletion mark. When the run began with the version then stored and nobody else has taken the finalizer off since, the stored
  resource still exists and carries the finalizer at that moment: no operation of the operator itself takes it off before
  the objects of the resource are written.
\<close>

theorem dependents_only_under_finalizer:
  assumes "writes_elsewhere stored sync" "kube_lib_documented L"
    and "reachable stored fz (lifecycle_operations L cl fz fin sync) w0
      (w, vs, Some (cr, drop i sync @ [ensureStatusSetToDone L cl], intact))" "i < length sync"
  shows "rs_Meta cr \<in> rs_Meta ` vs \<and> fz \<in> set (om_Finalizers (rs_Meta cr)) \<and> om_DeletionTimestamp (rs_Meta cr) = None \<and>
    (intact \<longrightarrow> held stored fz w)"
  using writes_elsewhere.synchronising [OF assms(1) _ assms(4,2)] assms(3) by (simp add: lifecycle_staged)

text \<open>An observer that was edited by a user before the operator came to it.\<close>

definition ready_observer :: mdai_observer where
  "ready_observer = \<lparr>rs_Meta = (meta_named ''obs'' ''mdai'')\<lparr>om_Finalizers := [hubFinalizer]\<rparr>,
     rs_Conditions = [finalizing_condition ''obs''], mo_Observers = [], mo_ObserverResource = sample_observer_resource\<rparr>"

abbreviation edited_observer :: mdai_observer where
  "edited_observer \<equiv> ready_observer\<lparr>mo_Observers := [sample_observer ''a'']\<rparr>"

abbreviation edit_env :: "mdai_observer wl_env" where
  "edit_env \<equiv> serving ready_observer (sample_wl_env [])"

lemma edited_reaches_sync:
  "reachable (\<lambda>h. Some (stored_in ready_observer h)) hubFinalizer
     (lifecycle_operations sample_lib (wl_client edit_env) hubFinalizer (observer_finalize edit_env)
        [observer_ensureSynchronized edit_env]) []
     ([WUpdate edited_observer], {ready_observer, edited_observer}, Some (edited_observer,
       [observer_ensureSynchronized edit_env, ensureStatusSetToDone sample_lib (wl_client edit_env)], True))"
  (is "?R (?h, ?vs, Some (?cr, ?sync, True))")
proof -
  let ?cl = "wl_client edit_env" and ?stored = "\<lambda>h. Some (stored_in ready_observer h)"
  have e: "stored_in ready_observer ?h = ?cr" by (simp add: ready_observer_def)
  have "?R (?h, seen ?stored ?h (seen ?stored [] {}), interfered (held ?stored hubFinalizer ?h) None)"
    by (rule reachable.step [OF start others])
  then have "?R (?h, ?vs, None)" using e by (simp add: seen_def insert_commute)
  then have "?R (?h, ?vs, Some (?cr, lifecycle_operations sample_lib ?cl hubFinalizer (observer_finalize edit_env)
        [observer_ensureSynchronized edit_env], ?stored ?h = Some ?cr))" by (rule reachable.step [OF _ begin_run]) simp_all
  then have "?R (?h, ?vs, Some (?cr, ensureDeletionProcessed (observer_finalize edit_env) #
      ensureStatusInitialized sample_lib ?cl # ensureFinalizerInitialized sample_lib ?cl hubFinalizer # ?sync, True))"
    using e by (simp add: lifecycle_operations_def)
  moreover have keep: "seen ?stored ?h ?vs = ?vs" using e by (auto simp: seen_def)
  moreover have "ensureDeletionProcessed (observer_finalize edit_env) (?cr, ?h) = (ContinueProcessing, ?cr, ?h)"
    by (simp add: deletion_skipped ready_observer_def meta_named_def empty_meta_def)
  ultimately have "?R (?h, ?vs, Some (?cr, ensureStatusInitialized sample_lib ?cl #
      ensureFinalizerInitialized sample_lib ?cl hubFinalizer # ?sync, True))"
    using reachable.step [OF _ operate [of _ ?cr ?h ContinueProcessing ?cr ?h]] by fastforce
  moreover have "ensureStatusInitialized sample_lib ?cl (?cr, ?h) = (ContinueProcessing, ?cr, ?h)"
    by (simp add: status_skipped ready_observer_def)
  ultimately have "?R (?h, ?vs, Some (?cr, ensureFinalizerInitialized sample_lib ?cl hubFinalizer # ?sync, True))"
    using keep reachable.step [OF _ operate [of _ ?cr ?h ContinueProcessing ?cr ?h]] by fastforce
  moreover have "ensureFinalizerInitialized sample_lib ?cl hubFinalizer (?cr, ?h) = (ContinueProcessing, ?cr, ?h)"
    by (simp add: finalizer_skipped ready_observer_def sample_lib_def)
  ultimately show ?thesis
    using keep reachable.step [OF _ operate [of _ ?cr ?h ContinueProcessing ?cr ?h]] by fastforce
qed

theorem dependents_only_under_finalizer_witness:
  "held (\<lambda>h. Some (stored_in ready_observer h)) hubFinalizer [WUpdate edited_observer]"
  using dependents_only_under_finalizer [OF observer_writes.writes_elsewhere_axioms sample_lib_documented _, where i = 0,
      simplified, OF edited_reaches_sync]
  by simp

end
