(* ===== verification/Hub_Interleaving.thy ===== *)
theory Hub_Interleaving
  imports Interleaving Hub_Adapter
begin

text \<open>
  The hub controller on an API server. The history of the hub adapter has calls of its own, so the stored hub is read
  off it here; with that the hub is an instance of the servers of \<^verbatim>\<open>Convergence\<close> and \<^verbatim>\<open>Interleaving\<close>: a new hub
  becomes available, and rules, ConfigMaps, collectors and variables are only touched under the finalizer.
\<close>

section \<open>The stored hub\<close>

fun hub_stored_in :: "mdai_hub \<Rightarrow> hub_history \<Rightarrow> mdai_hub" where
  "hub_stored_in cr0 [] = cr0"
| "hub_stored_in cr0 (UpdateHub cr # h) = cr\<lparr>rs_Meta := (rs_Meta cr)
     \<lparr>om_DeletionTimestamp := om_DeletionTimestamp (rs_Meta (hub_stored_in cr0 h))\<rparr>,
     rs_Conditions := rs_Conditions (hub_stored_in cr0 h)\<rparr>"
| "hub_stored_in cr0 (StatusUpdateHub cr # h) = (hub_stored_in cr0 h)\<lparr>rs_Conditions := rs_Conditions cr\<rparr>"
| "hub_stored_in cr0 (_ # h) = hub_stored_in cr0 h"

definition hub_serving :: "mdai_hub \<Rightarrow> hub_env \<Rightarrow> hub_env" where
  "hub_serving cr0 E = E\<lparr>he_GetHub := (\<lambda>h k. Inr (hub_stored_in cr0 h)),
     he_UpdateHub := (\<lambda>h cr. Inr (hub_stored_in cr0 (UpdateHub cr # h))),
     he_StatusUpdateHub := (\<lambda>h cr. Inr (hub_stored_in cr0 (StatusUpdateHub cr # h)))\<rparr>"

lemma hub_serving_simps [simp]:
  "he_GetHub (hub_serving cr0 E) h k = Inr (hub_stored_in cr0 h)"
  "he_UpdateHub (hub_serving cr0 E) h cr = Inr (hub_stored_in cr0 (UpdateHub cr # h))"
  "he_StatusUpdateHub (hub_serving cr0 E) h cr = Inr (hub_stored_in cr0 (StatusUpdateHub cr # h))"
  "he_lib (hub_serving cr0 E) = he_lib E"
  by (simp_all add: hub_serving_def)

interpretation hub_server: accepting_server "hub_client (hub_serving cr0 E)" "hub_stored_in cr0" for cr0 E
  by unfold_locales (simp_all add: same_object_def key_of_def)

section \<open>The synchronisation writes elsewhere\<close>

lemma write_alerts_stored [simp]: "hub_stored_in cr0 (snd (snd (write_alerts E evals p (cr, h)))) = hub_stored_in cr0 h"
  by (simp add: write_alerts_def Let_def split: list.splits sum.splits)

lemma deletePrometheusRule_stored [simp]: "hub_stored_in cr0 (snd (deletePrometheusRule E cr h)) = hub_stored_in cr0 h"
  by (simp add: deletePrometheusRule_def Let_def split: option.splits)

lemma alerts_stored: "hub_stored_in cr0 (snd (snd (ensurePrometheusAlertsSynchronized E (cr, h)))) = hub_stored_in cr0 h"
  by (simp add: ensurePrometheusAlertsSynchronized_def Let_def split: option.splits sum.splits)

lemma config_maps_stored [simp]:
  "hub_stored_in cr0 (snd (createOrUpdateEnvConfigMap E cr env postfix ns opts h)) = hub_stored_in cr0 h"
  "hub_stored_in cr0 (snd (deleteEnvConfigMap E cr postfix ns h)) = hub_stored_in cr0 h"
  using createOrUpdateEnvConfigMap_history [of E cr env postfix ns opts h] deleteEnvConfigMap_history [of E cr postfix ns h]
  by auto

lemma automations_stored: "hub_stored_in cr0 (snd (snd (ensureAutomationsSynchronized E (cr, h)))) = hub_stored_in cr0 h"
  by (simp add: ensureAutomationsSynchronized_def split_beta split: option.splits sum.splits)

lemma computed_variable_stored [simp]: "hub_stored_in cr0 (snd (handleComputedVariable E cr v env h)) = hub_stored_in cr0 h"
  by (auto simp: handleComputedVariable_def split: sum.splits option.splits)

lemma meta_variable_stored [simp]: "hub_stored_in cr0 (snd (handleMetaVariable E cr v env h)) = hub_stored_in cr0 h"
  by (auto simp: handleMetaVariable_def Let_def split: sum.splits option.splits list.splits)

lemma sync_variable_stored [simp]: "hub_stored_in cr0 (snd (sync_variable E cr v m h)) = hub_stored_in cr0 h"
  by (simp add: sync_variable_def Let_def split_beta)

lemma syncValkeyVariables_stored [simp]: "hub_stored_in cr0 (snd (syncValkeyVariables E cr vs m h)) = hub_stored_in cr0 h"
  by (induction vs arbitrary: m h) (simp_all add: split_beta split: outcome.splits)

lemma write_namespaces_stored [simp]: "hub_stored_in cr0 (snd (write_namespaces E cr env cs ns h)) = hub_stored_in cr0 h"
  by (induction cs arbitrary: ns h) (simp_all add: split_beta split: sum.splits)

lemma restart_stored [simp]: "hub_stored_in cr0 (snd (restartCollectorAndAudit E cr c env h)) = hub_stored_in cr0 h"
  by (simp add: restartCollectorAndAudit_def Let_def split: option.splits)

lemma restart_loop_stored [simp]: "hub_stored_in cr0 (snd (restart_loop E cr env ns cs h)) = hub_stored_in cr0 h"
  by (induction cs arbitrary: h) (simp_all add: split_beta split: option.splits)

lemma list_collectors_stored [simp]: "hub_stored_in cr0 (snd (listOtelCollectorsWithLabel E s h)) = hub_stored_in cr0 h"
  by (simp add: listOtelCollectorsWithLabel_def split: option.splits sum.splits)

lemma computed_stored [simp]: "hub_stored_in cr0 (snd (syncComputedConfigMapsAndRestart E cr env h)) = hub_stored_in cr0 h"
  by (simp add: syncComputedConfigMapsAndRestart_def split_beta split: option.splits sum.splits)

lemma manual_stored [simp]: "hub_stored_in cr0 (snd (sync_manual E cr m h)) = hub_stored_in cr0 h"
  by (simp add: sync_manual_def split_beta split: sum.splits)

lemma variables_stored: "hub_stored_in cr0 (snd (snd (ensureVariableSynchronized E (cr, h)))) = hub_stored_in cr0 h"
  by (simp add: ensureVariableSynchronized_def remove_variable_maps_def split_beta
      split: sum.splits option.splits outcome.splits)

lemma hub_sync_stored:
  assumes "opn \<in> set (hub_sync E)"
  shows "hub_stored_in cr0 (snd (snd (opn (cr, h)))) = hub_stored_in cr0 h"
  using assms alerts_stored automations_stored variables_stored by (auto simp: hub_sync_def)

text \<open>The copy is only replaced by one with the same metadata.\<close>

lemma hub_sync_meta:
  assumes "opn \<in> set (hub_sync E)"
  shows "rs_Meta (fst (snd (opn (cr, h)))) = rs_Meta cr"
  using assms by (auto simp: hub_sync_def ensurePrometheusAlertsSynchronized_def write_alerts_def
      ensureAutomationsSynchronized_def ensureVariableSynchronized_def remove_variable_maps_def Let_def split_beta
      split: sum.splits option.splits outcome.splits list.splits)

interpretation hub_writes: writes_elsewhere "\<lambda>h. Some (hub_stored_in cr0 h)" "hub_sync E" for cr0 E
proof
  fix opn cr h r cr' h'
  assume o: "opn \<in> set (hub_sync E)" "opn (cr, h) = (r, cr', h')"
  show "Some (hub_stored_in cr0 h') = Some (hub_stored_in cr0 h) \<and> rs_Meta cr' = rs_Meta cr"
    using hub_sync_stored [OF o(1), of cr0 cr h] hub_sync_meta [OF o(1), of cr h] o(2) by simp
qed

end
