(* ===== verification/Hub_Convergence.thy ===== *)
theory Hub_Convergence
  imports Hub_Interleaving
begin

text \<open>
  From admission to availability. The webhook, the schema of the resource, the translation of rules and the hub's
  operations fit together: a hub that is let in is synchronised without an error as long as the services the operator
  calls answer. What the admission does not ask for appears as a hypothesis, and one such gap is shown to block a hub.
\<close>

section \<open>The schema of a trigger\<close>

text \<open>The validation rule of the schema for \<^verbatim>\<open>When\<close>: exactly one of the two variants is given.\<close>

definition when_schema :: "rule_when \<Rightarrow> bool" where
  "when_schema w \<longleftrightarrow> (wh_AlertName w \<noteq> None) \<noteq> (wh_VariableUpdated w \<noteq> None)"

text \<open>The name of the given variant, which neither the schema nor the webhook requires to be non-empty.\<close>

definition trigger_named :: "rule_when \<Rightarrow> bool" where
  "trigger_named w \<longleftrightarrow> ptr_Deref (wh_AlertName w) [] \<noteq> [] \<or> ptr_Deref (wh_VariableUpdated w) [] \<noteq> []"

lemma trigger_translates:
  assumes "when_schema w"
  shows "(\<exists>t. transformWhenToTrigger (Some w) = Inr t) \<longleftrightarrow> trigger_named w"
  using assms by (auto simp: when_schema_def trigger_named_def transformWhenToTrigger_def Let_def ptr_Deref_def
      split: option.splits)

section \<open>Services that answer\<close>

text \<open>
  The API server: reads succeed or find nothing, writes are accepted, and a Prometheus rule keeps its group. A call of
  \<^verbatim>\<open>CreateOrUpdate\<close> may fail with its mutate function.
\<close>

definition api_answers :: "hub_env \<Rightarrow> bool" where
  "api_answers E \<longleftrightarrow>
     (\<forall>h k err. he_GetRule E h k = Inl err \<longrightarrow> kl_IsNotFound (he_lib E) err) \<and>
     (\<forall>h k r. he_GetRule E h k = Inr r \<longrightarrow> pr_Groups r \<noteq> []) \<and>
     (\<forall>h r. pr_Groups r \<noteq> [] \<longrightarrow> (\<exists>r'. he_CreateRule E h r = Inr r' \<and> pr_Groups r' \<noteq> [])) \<and>
     (\<forall>h d mu. (\<forall>cm. \<exists>cm'. mu cm = Inr cm') \<longrightarrow> (\<exists>u. he_CreateOrUpdate E h d mu = Inr u)) \<and>
     (\<forall>ow k m. \<exists>m'. kl_SetControllerReference (he_lib E) ow k m = Inr m') \<and>
     (\<forall>h k err. he_DeleteConfigMap E h k = Some err \<longrightarrow> kl_IsNotFound (he_lib E) err) \<and>
     (\<forall>s. he_ParseSelector E s = None) \<and>
     (\<forall>h s. \<exists>cs. he_ListCollectors E h s = Inr cs) \<and>
     (\<forall>h c err. he_UpdateCollector E h c = Some err \<longrightarrow> kl_IsConflict (he_lib E) err)"

definition valkey_answers :: "hub_env \<Rightarrow> bool" where
  "valkey_answers E \<longleftrightarrow>
     (\<forall>h k n. \<exists>x. he_GetSetAsStringSlice E h k n = Inr x) \<and>
     (\<forall>h k n. \<exists>x. he_GetString E h k n = Inr x) \<and>
     (\<forall>h k n. \<exists>x. he_GetMapAsString E h k n = Inr x) \<and>
     (\<forall>h k n rs. \<exists>x. he_GetOrCreateMetaPriorityList E h k n rs = Inr x) \<and>
     (\<forall>h k n r s. \<exists>x. he_GetOrCreateMetaHashSet E h k n r s = Inr x) \<and>
     (\<forall>h ks n. he_DeleteKeysWithPrefixUsingScan E h ks n = None) \<and>
     (\<forall>h m. he_InsertAuditLogEventFromMap E h m = None)"

definition encodes :: "hub_env \<Rightarrow> bool" where
  "encodes E \<longleftrightarrow> (\<forall>r. \<exists>s. he_marshalRule E r = Inr s) \<and> (\<forall>p. \<exists>s. he_marshalPayload E p = Inr s) \<and>
     (\<forall>e. \<exists>s. he_marshalSchema E e = Inr s)"

lemma serving_answers [simp]:
  "api_answers (hub_serving cr0 E) = api_answers E" "valkey_answers (hub_serving cr0 E) = valkey_answers E"
  "encodes (hub_serving cr0 E) = encodes E"
  by (simp_all add: api_answers_def valkey_answers_def encodes_def hub_serving_def)

lemma api_answersD:
  assumes "api_answers E"
  shows "pr_Groups r \<noteq> [] \<Longrightarrow> \<exists>r'. he_CreateRule E h r = Inr r' \<and> pr_Groups r' \<noteq> []"
    and "(\<And>cm. \<exists>cm'. mu cm = Inr cm') \<Longrightarrow> \<exists>u. he_CreateOrUpdate E h d mu = Inr u"
    and "\<exists>m'. kl_SetControllerReference (he_lib E) ow k m = Inr m'"
    and "\<exists>cs. he_ListCollectors E h s = Inr cs"
  using assms by (simp_all add: api_answers_def)

section \<open>Each operation goes on\<close>

abbreviation goes_on :: "(mdai_hub, hub_history) operation \<Rightarrow> mdai_hub \<Rightarrow> hub_history \<Rightarrow> bool" where
  "goes_on opn cr h \<equiv> fst (opn (cr, h)) = ContinueProcessing \<and> fst (snd (opn (cr, h))) = cr"

lemma write_alerts_on: "pr_Groups p \<noteq> [] \<Longrightarrow> goes_on (write_alerts E evals p) cr h"
  by (auto simp: write_alerts_def Let_def split: list.splits sum.splits)

lemma alerts_on:
  assumes "api_answers E"
  shows "goes_on (ensurePrometheusAlertsSynchronized E) cr h"
proof -
  define k where "k = \<lparr>nn_Name = rule_name cr, nn_Namespace = cr_namespace cr\<rparr>"
  obtain r where r: "he_CreateRule E (GetRule k # h) (new_prometheus_rule E cr) = Inr r" "pr_Groups r \<noteq> []"
    using api_answersD(1) [OF assms, of "new_prometheus_rule E cr"] by (auto simp: new_prometheus_rule_def)
  have "he_GetRule E h k = Inl err \<Longrightarrow> kl_IsNotFound (he_lib E) err" "he_GetRule E h k = Inr p \<Longrightarrow> pr_Groups p \<noteq> []" for err p
    using assms by (auto simp: api_answers_def)
  then show ?thesis using r write_alerts_on
    by (auto simp: ensurePrometheusAlertsSynchronized_def Let_def k_def [symmetric] split: option.splits sum.splits)
qed

lemma create_map_on:
  assumes "api_answers E" "opts = [] \<or> opts = [WithOwnerRef E cr]"
  shows "\<exists>u. fst (createOrUpdateEnvConfigMap E cr env postfix ns opts h) = Inr u"
proof -
  have "\<exists>cm'. apply_options opts (cm\<lparr>cm_Data := Some env\<rparr>) = Inr cm'" for cm
  proof -
    obtain m' where "kl_SetControllerReference (he_lib E) (rs_Meta cr) ''MdaiHub'' (cm_Meta cm) = Inr m'"
      using api_answersD(3) [OF assms(1)] by blast
    then show ?thesis using assms(2) by (auto simp: WithOwnerRef_def)
  qed
  then have "\<exists>u. he_CreateOrUpdate E h (desired_config_map cr postfix ns)
      (\<lambda>cm. apply_options opts (cm\<lparr>cm_Data := Some env\<rparr>)) = Inr u"
    by (rule api_answersD(2) [OF assms(1)])
  then show ?thesis by (auto simp: createOrUpdateEnvConfigMap_def Let_def)
qed

lemma delete_map_on: "api_answers E \<Longrightarrow> fst (deleteEnvConfigMap E cr postfix ns h) = None"
  by (auto simp: deleteEnvConfigMap_def api_answers_def Let_def split: option.splits)

lemma payloads_encoded:
  assumes "encodes E"
  obtains enc where "he_marshalPayload E = (\<lambda>p. Inr (enc p))"
proof -
  have "he_marshalPayload E p = Inr (projr (he_marshalPayload E p))" for p
    using assms unfolding encodes_def by (metis sum.sel(2))
  then have "he_marshalPayload E = (\<lambda>p. Inr (projr (he_marshalPayload E p)))" by (rule ext)
  then show ?thesis by (rule that)
qed

text \<open>The translation of an accepted rule.\<close>

lemma commands_on:
  assumes "encodes E" "rule_ok wl vars alerts r"
  shows "\<exists>cs. transformThenToCommands (he_commandText E) (he_marshalPayload E) (ar_Then r) = Inr cs"
proof -
  obtain enc where enc: "he_marshalPayload E = (\<lambda>p. Inr (enc p))" using assms(1) by (rule payloads_encoded)
  have "commands_of enc a \<noteq> []" if "a \<in> set (ar_Then r)" for a
    using assms(2) that commands_of_length [of enc a] by (auto simp: rule_ok_def action_ok_def)
  then have "find (\<lambda>j. commands_of enc (ar_Then r ! j) = []) [0..<length (ar_Then r)] = None"
    by (auto simp: find_None_iff)
  then show ?thesis by (simp add: enc transformThenToCommands_def then_loop_encodes)
qed

lemma automation_map_on:
  assumes "encodes E" "\<forall>r \<in> set rs. rule_ok wl vars alerts r \<and> when_schema (ar_When r) \<and> trigger_named (ar_When r)"
  shows "\<exists>m'. automation_map E rs m = Inr m'"
  using assms(2)
proof (induction rs arbitrary: m)
  case (Cons r rs)
  obtain t where t: "transformWhenToTrigger (Some (ar_When r)) = Inr t" using Cons.prems trigger_translates by auto
  obtain cs where cs: "transformThenToCommands (he_commandText E) (he_marshalPayload E) (ar_Then r) = Inr cs"
    using commands_on [OF assms(1), of wl vars alerts r] Cons.prems by auto
  obtain j where "he_marshalRule E \<lparr>er_Name = ar_Name r, er_Trigger = t, er_Commands = cs\<rparr> = Inr j"
    using assms(1) unfolding encodes_def by blast
  with t cs Cons show ?case by simp
qed simp

lemma automations_on:
  assumes "api_answers E" "encodes E"
    "\<forall>r \<in> set (slice (hub_Rules cr)). rule_ok wl vars alerts r \<and> when_schema (ar_When r) \<and> trigger_named (ar_When r)"
  shows "goes_on (ensureAutomationsSynchronized E) cr h"
proof (cases "hub_Rules cr")
  case None
  then show ?thesis using delete_map_on [OF assms(1)]
    by (simp add: ensureAutomationsSynchronized_def split_beta)
next
  case (Some rs)
  then obtain m where "automation_map E rs [] = Inr m"
    using automation_map_on [OF assms(2), of rs wl vars alerts "[]"] assms(3) by auto
  moreover obtain u where "fst (createOrUpdateEnvConfigMap E cr m automationConfigMapNamePostfix (cr_namespace cr)
      [WithOwnerRef E cr] h) = Inr u" using create_map_on [OF assms(1)] by blast
  ultimately show ?thesis using Some by (simp add: ensureAutomationsSynchronized_def split_beta)
qed

text \<open>Variables.\<close>

definition fails :: "'a outcome \<Rightarrow> bool" where
  "fails r \<longleftrightarrow> (case r of Ok _ \<Rightarrow> False | _ \<Rightarrow> True)"

lemma fails_iff [simp]: "\<not> fails (Ok x)" "fails (Err e)" "fails (Panic p)" "fails (map_outcome f r) = fails r"
  by (cases r; simp add: fails_def)+

lemma not_fails: "\<not> fails r \<Longrightarrow> \<exists>x. r = Ok x"
  by (cases r) simp_all

lemma apply_transformers_on:
  "\<forall>t \<in> set ts. tr_Type t = TransformerTypeJoin \<longrightarrow> tr_Join t \<noteq> None \<Longrightarrow> \<exists>m'. apply_transformers n vals ts m = Ok m'"
  by (induction ts arbitrary: m) auto

lemma set_serializers_on:
  "\<forall>sz \<in> set szs. \<forall>t \<in> set (sz_Transformers sz). tr_Type t = TransformerTypeJoin \<longrightarrow> tr_Join t \<noteq> None \<Longrightarrow>
     \<not> fails (set_serializers vals szs m)"
proof (induction szs arbitrary: m)
  case (Cons sz szs)
  obtain m' where "apply_transformers (sz_Name sz) vals (sz_Transformers sz) m = Ok m'"
    using apply_transformers_on [of "sz_Transformers sz" "sz_Name sz" vals m] Cons.prems by auto
  then show ?case using Cons by simp
qed simp

lemma applySetTransformation_on: "joins_present v \<Longrightarrow> \<not> fails (applySetTransformation v vals m)"
  by (cases "va_SerializeAs v") (simp_all add: applySetTransformation_def joins_present_def set_serializers_on)

lemma valkey_reads:
  assumes "valkey_answers E"
  shows "he_GetSetAsStringSlice E h k n \<noteq> Inl e" "he_GetString E h k n \<noteq> Inl e" "he_GetMapAsString E h k n \<noteq> Inl e"
    "he_GetOrCreateMetaPriorityList E h k n rs \<noteq> Inl e" "he_GetOrCreateMetaHashSet E h k n r s \<noteq> Inl e"
  using assms unfolding valkey_answers_def by (metis Inl_Inr_False)+

lemma handleComputedVariable_on:
  assumes "valkey_answers E" "joins_present v"
  shows "\<not> fails (fst (handleComputedVariable E cr v env h))"
  using valkey_reads [OF assms(1)] applySetTransformation_on [OF assms(2)]
  by (simp add: handleComputedVariable_def split: sum.splits option.splits)

lemma handleMetaVariable_on:
  assumes "valkey_answers E" "joins_present v" "refs_ok v" "va_Type v = VariableTypeMeta"
  shows "\<not> fails (fst (handleMetaVariable E cr v env h))"
proof -
  have "\<exists>r0 r1. slice (va_VariableRefs v) = [r0, r1]" if "va_DataType v = MetaVariableDataTypeHashSet"
    using assms(3,4) that by (auto simp: refs_ok_def length_Suc_conv numeral_2_eq_2)
  then show ?thesis using valkey_reads [OF assms(1)] applySetTransformation_on [OF assms(2)]
    by (auto simp: handleMetaVariable_def Let_def split: sum.splits option.splits)
qed

lemma sync_variable_on:
  assumes "valkey_answers E" "joins_present v" "refs_ok v"
  shows "\<not> fails (fst (sync_variable E cr v m h))"
  using handleComputedVariable_on [OF assms(1,2)] handleMetaVariable_on [OF assms]
  by (simp add: sync_variable_def Let_def split_beta)

lemma syncValkeyVariables_on:
  assumes "valkey_answers E" "\<forall>v \<in> set vs. joins_present v \<and> refs_ok v"
  shows "\<not> fails (fst (syncValkeyVariables E cr vs m h))"
  using assms(2)
proof (induction vs arbitrary: m h)
  case (Cons v vs)
  obtain m1 where "fst (sync_variable E cr v m h) = Ok m1" 
    using not_fails [OF sync_variable_on [OF assms(1), of v cr m h]] Cons.prems by auto
  then show ?case using Cons.IH [of m1] Cons.prems by (simp add: split_beta)
qed simp

lemma write_namespaces_on:
  assumes "api_answers E"
  shows "\<exists>ns'. fst (write_namespaces E cr env cs ns h) = Inr ns'"
proof (induction cs arbitrary: ns h)
  case (Cons c cs)
  obtain u where "fst (createOrUpdateEnvConfigMap E cr env envConfigMapNamePostfix (om_Namespace (oc_Meta c)) [] h) = Inr u"
    using create_map_on [OF assms] by blast
  then show ?case using Cons.IH by (simp add: split_beta)
qed simp

lemma restart_loop_on:
  assumes "api_answers E" "valkey_answers E"
  shows "fst (restart_loop E cr env ns cs h) = None"
proof (induction cs arbitrary: h)
  case (Cons c cs)
  have "fst (restartCollectorAndAudit E cr c env h) = None"
    using assms by (auto simp: restartCollectorAndAudit_def api_answers_def valkey_answers_def Let_def split: option.splits)
  then show ?case using Cons.IH by (simp add: split_beta)
qed simp

lemma computed_on:
  assumes "api_answers E" "valkey_answers E"
  shows "fst (syncComputedConfigMapsAndRestart E cr env h) = ContinueProcessing"
proof -
  let ?l = "listOtelCollectorsWithLabel E (LabelMdaiHubName @ ''='' @ cr_name cr) h"
  obtain cs where cs: "he_ListCollectors E h (LabelMdaiHubName @ ''='' @ cr_name cr) = Inr cs"
    using api_answersD(4) [OF assms(1)] by blast
  then have l: "fst ?l = Inr cs" using assms(1) by (simp add: listOtelCollectorsWithLabel_def api_answers_def)
  obtain ns where "fst (write_namespaces E cr env cs [] (snd ?l)) = Inr ns" using write_namespaces_on [OF assms(1)] by blast
  with l restart_loop_on [OF assms] show ?thesis by (simp add: syncComputedConfigMapsAndRestart_def split_beta)
qed

lemma schema_on: "encodes E \<Longrightarrow> \<exists>m'. schema_loop E vs m = Inr m'"
proof (induction vs arbitrary: m)
  case (Cons v vs)
  obtain s where "he_marshalSchema E (schema_entry_of v) = Inr s" using Cons.prems unfolding encodes_def by blast
  then show ?case using Cons by simp
qed simp

lemma variables_on:
  assumes E: "api_answers E" "valkey_answers E" "encodes E"
    and vs: "\<forall>v \<in> set (hub_Variables cr). joins_present v \<and> refs_ok v"
  shows "goes_on (ensureVariableSynchronized E) cr h"
proof (cases "hub_Variables cr = []")
  case True
  then show ?thesis using delete_map_on [OF E(1)]
    by (simp add: ensureVariableSynchronized_def remove_variable_maps_def split_beta)
next
  case False
  obtain m where m: "buildVariableSchemaEnvMap E (hub_Variables cr) = Inr m"
    using schema_on [OF E(3)] unfolding buildVariableSchemaEnvMap_def by blast
  let ?c = "createOrUpdateEnvConfigMap E cr m variableSchemaConfigMapPostfix (cr_namespace cr) [WithOwnerRef E cr] h"
  let ?m0 = "\<lparr>sm_env = [], sm_manual = [], sm_keys = []\<rparr>"
  obtain u where u: "fst ?c = Inr u" using create_map_on [OF E(1)] by blast
  obtain sm where sm: "fst (syncValkeyVariables E cr (hub_Variables cr) ?m0 (snd ?c)) = Ok sm"
    using not_fails [OF syncValkeyVariables_on [OF E(2) vs]] by blast
  have del: "he_DeleteKeysWithPrefixUsingScan E h' ks n = None" for h' ks n using E(2) by (simp add: valkey_answers_def)
  have manual: "fst (sync_manual E cr mm h') = None" for mm h'
  proof -
    obtain v where "fst (createOrUpdateEnvConfigMap E cr mm manualEnvConfigMapNamePostfix (cr_namespace cr)
        [WithOwnerRef E cr] h') = Inr v" using create_map_on [OF E(1)] by blast
    then show ?thesis using delete_map_on [OF E(1)] by (simp add: sync_manual_def split_beta)
  qed
  show ?thesis using False m u sm del manual computed_on [OF E(1,2)]
    by (simp add: ensureVariableSynchronized_def split_beta)
qed

section \<open>Properties\<close>

lemma same_hub:
  assumes "same_object a (b :: mdai_hub)"
  shows "hub_Variables a = hub_Variables b" "hub_Rules a = hub_Rules b"
  using assms by (cases a; cases b; simp add: same_object_def)+

text \<open>
  C6. A hub that the webhook and the schema let in becomes available: when the API server, Valkey and the encoders answer,
  three reconciliations of the new hub end without an error, and then the hub has the finalizer and is reported as available.
  Two things the admission does not ask for have to be right: every \<^verbatim>\<open>join\<close> transformer has its delimiter, and the
  trigger of a rule has a name that is not empty.
\<close>

theorem accepted_hub_becomes_available:
  assumes accepted: "prints_children wl" "snd (hub_ValidateCreate wl (Inr hub)) = None"
      "\<forall>r \<in> set (slice (hub_Rules hub)). when_schema (ar_When r)"
    and gaps: "\<forall>v \<in> set (hub_Variables hub). joins_present v"
      "\<forall>r \<in> set (slice (hub_Rules hub)). trigger_named (ar_When r)"
    and E: "kube_lib_documented (he_lib E)" "api_answers E" "valkey_answers E" "encodes E"
    and fresh: "rs_Conditions hub = []" "om_DeletionTimestamp (rs_Meta hub) = None" "hubFinalizer \<notin> set (om_Finalizers (rs_Meta hub))"
  shows "\<exists>h. reconcile_times 3 (hub_Reconcile (hub_serving hub E) (key_of (rs_Meta hub))) [] = ([quiet, quiet, quiet], h) \<and>
    available (hub_stored_in hub h) \<and> hubFinalizer \<in> set (om_Finalizers (rs_Meta (hub_stored_in hub h)))"
proof -
  let ?E = "hub_serving hub E"
  have ok: "hub_ok wl hub" using accepted(2) hub_Validate_accepts [OF accepted(1)] by (simp add: hub_ValidateCreate_def)
  have "goes_on opn cr h" if "opn \<in> set (hub_sync ?E)" "same_object cr hub" for opn cr h
  proof -
    have "goes_on (ensurePrometheusAlertsSynchronized ?E) cr h" by (rule alerts_on) (simp add: E)
    moreover have "goes_on (ensureAutomationsSynchronized ?E) cr h"
      by (rule automations_on) (use E ok accepted(3) gaps(2) same_hub [OF that(2)] in \<open>auto simp: hub_ok_def\<close>)
    moreover have "goes_on (ensureVariableSynchronized ?E) cr h"
      by (rule variables_on) (use E ok gaps(1) same_hub [OF that(2)] in \<open>auto simp: hub_ok_def variables_ok_def variable_ok_def\<close>)
    ultimately show ?thesis using that(1) by (auto simp: hub_sync_def)
  qed
  then have "passes (hub_stored_in hub) hub opn" if "opn \<in> set (hub_sync ?E)" for opn
    unfolding passes_def using that hub_sync_stored [OF that] by (metis prod.collapse)
  then show ?thesis using hub_server.three_reconciliations [of "he_lib E" hub "[]" hubFinalizer "hub_sync ?E" E "hub_finalize ?E"] E(1) fresh
    by (simp add: hub_Reconcile_def [abs_def] hub_operations_def)
qed

lemma sample_answers: "api_answers sample_hub_env" "valkey_answers sample_hub_env" "encodes sample_hub_env"
  by (simp_all add: api_answers_def valkey_answers_def encodes_def sample_hub_env_def sample_lib_def)

theorem accepted_hub_becomes_available_witness:
  "\<exists>h. reconcile_times 3 (hub_Reconcile (hub_serving sample_hub sample_hub_env) (key_of (rs_Meta sample_hub))) [] =
     ([quiet, quiet, quiet], h) \<and> available (hub_stored_in sample_hub h) \<and>
     hubFinalizer \<in> set (om_Finalizers (rs_Meta (hub_stored_in sample_hub h)))"
proof (rule accepted_hub_becomes_available [OF sample_prints_children])
  show "snd (hub_ValidateCreate sample_webhook_lib (Inr sample_hub)) = None" by code_simp
  show "\<forall>r \<in> set (slice (hub_Rules sample_hub)). when_schema (ar_When r)" by code_simp
  show "\<forall>v \<in> set (hub_Variables sample_hub). joins_present v" by code_simp
  show "\<forall>r \<in> set (slice (hub_Rules sample_hub)). trigger_named (ar_When r)" by code_simp
  show "kube_lib_documented (he_lib sample_hub_env)" using sample_lib_documented by (simp add: sample_hub_env_def)
qed (simp_all add: sample_answers, code_simp+)

section \<open>A rule that blocks its hub\<close>

lemma unnamed_trigger_fails:
  assumes "r \<in> set rs" "\<not> trigger_named (ar_When r)"
  shows "\<exists>err. automation_map E rs m = Inl err"
  using assms(1)
proof (induction rs arbitrary: m)
  case (Cons x rs)
  have "\<exists>err. transformWhenToTrigger (Some (ar_When r)) = Inl err"
    using assms(2) by (simp add: transformWhenToTrigger_def trigger_named_def Let_def)
  with Cons show ?case by (auto split: sum.splits)
qed simp

lemma alerts_keep_copy: "fst (snd (ensurePrometheusAlertsSynchronized E (cr, h))) = cr"
  by (auto simp: ensurePrometheusAlertsSynchronized_def write_alerts_def Let_def split: option.splits sum.splits list.splits)

lemma unnamed_trigger_stops:
  assumes "r \<in> set (slice (hub_Rules cr))" "\<not> trigger_named (ar_When r)"
  shows "\<exists>err. ensureAutomationsSynchronized E (cr, h) = (ContinueWithError err, cr, h)"
proof (cases "hub_Rules cr")
  case (Some rs)
  then show ?thesis using unnamed_trigger_fails [of r rs E "[]"] assms by (auto simp: ensureAutomationsSynchronized_def)
qed (use assms in simp)

text \<open>The operation for the alerts goes on, returns an error, or panics over a rule object without groups.\<close>

lemma alerts_outcome:
  "fst (ensurePrometheusAlertsSynchronized E (cr, h)) = ContinueProcessing \<or>
   (\<exists>err. fst (ensurePrometheusAlertsSynchronized E (cr, h)) = RequeueAfter requeueTime (Some err)) \<or>
   (\<exists>m. fst (ensurePrometheusAlertsSynchronized E (cr, h)) = Panicked m)"
  by (auto simp: ensurePrometheusAlertsSynchronized_def write_alerts_def Let_def split: option.splits sum.splits list.splits)

text \<open>
  C34. A rule whose trigger has the empty name, which the schema and the webhook let in, blocks its hub while the hub is
  not being deleted. Whatever the services answer, the two operations behind the one for the rules, for the
  variables and for the final status, never run. On a hub that has its status and finalizer every reconciliation ends with an error,
  unless the operation for the alerts before it panics.
\<close>

theorem unnamed_trigger_blocks_variables:
  assumes "om_DeletionTimestamp (rs_Meta cr) = None" "r \<in> set (slice (hub_Rules cr))" "\<not> trigger_named (ar_When r)"
  shows "run_operations (hub_operations E) (cr, h) = run_operations (take 5 (hub_operations E)) (cr, h) \<and>
    drop 5 (hub_operations E) = [ensureVariableSynchronized E, ensureStatusSetToDone (he_lib E) (hub_client E)] \<and>
    (ready (he_lib E) hubFinalizer cr \<longrightarrow>
      (case fst (run_operations (hub_operations E) (cr, h)) of
         Done d err \<Rightarrow> err \<noteq> None
       | Crashed m \<Rightarrow> fst (ensurePrometheusAlertsSynchronized E (cr, h)) = Panicked m))"
proof -
  obtain e where e: "\<And>h. ensureAutomationsSynchronized E (cr, h) = (ContinueWithError (e h), cr, h)"
    using unnamed_trigger_stops [OF assms(2,3)] by metis
  obtain a h1 where a: "ensurePrometheusAlertsSynchronized E (cr, h) = (a, cr, h1)"
    using alerts_keep_copy [of E cr h] by (metis prod.collapse)
  note skip = deletion_skipped [OF assms(1)] and split = status_halts status_skipped finalizer_halts finalizer_skipped
  have ops: "hub_operations E = [ensureDeletionProcessed (hub_finalize E), ensureStatusInitialized (he_lib E) (hub_client E),
      ensureFinalizerInitialized (he_lib E) (hub_client E) hubFinalizer, ensurePrometheusAlertsSynchronized E,
      ensureAutomationsSynchronized E, ensureVariableSynchronized E, ensureStatusSetToDone (he_lib E) (hub_client E)]"
    by (simp add: hub_operations_def lifecycle_operations_def hub_sync_def)
  have same: "run_operations (hub_operations E) (cr, h) = run_operations (take 5 (hub_operations E)) (cr, h)"
    by (cases "rs_Conditions cr = []"; cases "kl_ContainsFinalizer (he_lib E) (rs_Meta cr) hubFinalizer")
      (simp_all add: ops run_operations_Cons skip split a e)
  have "case fst (run_operations (hub_operations E) (cr, h)) of Done d err \<Rightarrow> err \<noteq> None
      | Crashed m \<Rightarrow> fst (ensurePrometheusAlertsSynchronized E (cr, h)) = Panicked m"
    if "ready (he_lib E) hubFinalizer cr"
    using that alerts_outcome [of E cr h]
    by (auto simp: ready_def ops run_operations_Cons skip split a e op_return_defs halts_def)
  moreover have "drop 5 (hub_operations E) = [ensureVariableSynchronized E, ensureStatusSetToDone (he_lib E) (hub_client E)]"
    by (simp add: ops)
  ultimately show ?thesis using same by blast
qed

text \<open>Such a hub passes the admission.\<close>

definition unnamed_rule_hub :: mdai_hub where
  "unnamed_rule_hub = sample_hub\<lparr>rs_Meta := (rs_Meta sample_hub)\<lparr>om_Finalizers := [hubFinalizer]\<rparr>,
     rs_Conditions := [finalizing_condition ''hub''],
     hub_Rules := Some [\<lparr>ar_Name = ''rule'', ar_When = \<lparr>wh_AlertName = Some [], wh_Status = None,
       wh_VariableUpdated = None, wh_UpdateType = None\<rparr>, ar_Then = [sample_action]\<rparr>]\<rparr>"

theorem unnamed_trigger_blocks_variables_witness:
  "snd (hub_ValidateCreate sample_webhook_lib (Inr unnamed_rule_hub)) = None \<and>
   list_all (\<lambda>r. when_schema (ar_When r)) (slice (hub_Rules unnamed_rule_hub)) \<and>
   (\<exists>d err. fst (run_operations (hub_operations sample_hub_env) (unnamed_rule_hub, [])) = Done d (Some err))"
proof (intro conjI)
  show "snd (hub_ValidateCreate sample_webhook_lib (Inr unnamed_rule_hub)) = None" by code_simp
  show "list_all (\<lambda>r. when_schema (ar_When r)) (slice (hub_Rules unnamed_rule_hub))" by code_simp
  let ?r = "hd (slice (hub_Rules unnamed_rule_hub))"
  have "om_DeletionTimestamp (rs_Meta unnamed_rule_hub) = None" "\<not> trigger_named (ar_When ?r)"
    "ready (he_lib sample_hub_env) hubFinalizer unnamed_rule_hub" by code_simp+
  moreover have "?r \<in> set (slice (hub_Rules unnamed_rule_hub))" by (simp add: unnamed_rule_hub_def)
  moreover have "fst (ensurePrometheusAlertsSynchronized sample_hub_env (unnamed_rule_hub, [])) \<noteq> Panicked m" for m
    using alerts_on [OF sample_answers(1), of unnamed_rule_hub "[]"] by (simp add: op_return_defs)
  ultimately show "\<exists>d err. fst (run_operations (hub_operations sample_hub_env) (unnamed_rule_hub, [])) = Done d (Some err)"
    using unnamed_trigger_blocks_variables [of unnamed_rule_hub ?r sample_hub_env "[]"]
    by (auto split: reconcile_return.splits)
qed

end
