(* ===== verification/Stability.thy ===== *)
theory Stability
  imports Observer_Adapter Collector_Adapter Replay_Adapter Dal_Adapter
begin

text \<open>
  What the workload adapters write stays as it is. Every write goes through \<^verbatim>\<open>CreateOrUpdate\<close> with a mutate function,
  and an object is written when the mutate function changes it. The mutate functions leave an object alone that they have made,
  also after the API server has put its identity, generation and creation time on it. They do not leave alone what the
  server fills in inside the containers: three of the four deployments say nothing of the protocol of their container ports.
\<close>

section \<open>The library and the server\<close>

text \<open>
  \<^verbatim>\<open>SetControllerReference\<close> changes the owner references only, and leaves an object alone that has them.
\<close>

definition owner_documented :: "kube_lib \<Rightarrow> bool" where
  "owner_documented L \<longleftrightarrow> (\<forall>owner k m m'. kl_SetControllerReference L owner k m = Inr m' \<longrightarrow>
     m' = m\<lparr>om_OwnerReferences := om_OwnerReferences m'\<rparr> \<and>
     (\<forall>m2. om_Namespace m2 = om_Namespace m \<longrightarrow> om_OwnerReferences m2 = om_OwnerReferences m' \<longrightarrow>
        kl_SetControllerReference L owner k m2 = Inr m2))"

text \<open>What the API server fills in when it creates an object.\<close>

record stamp_data =
  st_UID :: string
  st_Generation :: int
  st_CreationTimestamp :: int

definition stamp_meta :: "stamp_data \<Rightarrow> object_meta \<Rightarrow> object_meta" where
  "stamp_meta s m = m\<lparr>om_UID := st_UID s, om_Generation := st_Generation s, om_CreationTimestamp := Some (st_CreationTimestamp s)\<rparr>"

definition stamp_deployment :: "stamp_data \<Rightarrow> deployment \<Rightarrow> deployment" where
  "stamp_deployment s d = d\<lparr>dep_Meta := stamp_meta s (dep_Meta d)\<rparr>"

definition stamp_service :: "stamp_data \<Rightarrow> service \<Rightarrow> service" where
  "stamp_service s x = x\<lparr>svc_Meta := stamp_meta s (svc_Meta x)\<rparr>"

definition stamp_config_map :: "stamp_data \<Rightarrow> config_map \<Rightarrow> config_map" where
  "stamp_config_map s x = x\<lparr>cm_Meta := stamp_meta s (cm_Meta x)\<rparr>"

text \<open>The protocol that the API server fills in for a container port that has none.\<close>

definition default_protocols :: "deployment \<Rightarrow> deployment" where
  "default_protocols d = d\<lparr>dep_Template := (dep_Template d)\<lparr>pt_Containers := map (\<lambda>c. c\<lparr>ct_Ports :=
     map (\<lambda>p. if cp_Protocol p = [] then p\<lparr>cp_Protocol := ''TCP''\<rparr> else p) (ct_Ports c)\<rparr>) (pt_Containers (dep_Template d))\<rparr>\<rparr>"

text \<open>What a mutate function has made, it leaves alone, with or without the stamp of the server.\<close>

definition leaves_alone :: "(stamp_data \<Rightarrow> 'ob \<Rightarrow> 'ob) \<Rightarrow> ('ob \<Rightarrow> 'ob outcome) \<Rightarrow> bool" where
  "leaves_alone stamp f \<longleftrightarrow> (\<forall>x y s. f x = Ok y \<longrightarrow> f y = Ok y \<and> f (stamp s y) = Ok (stamp s y))"

section \<open>Mutate functions that settle\<close>

locale settling_mutate =
  fixes f :: "'ob \<Rightarrow> 'ob outcome" and stamp :: "stamp_data \<Rightarrow> 'ob \<Rightarrow> 'ob"
  assumes again: "f x = Ok y \<Longrightarrow> f y = Ok y"
    and stamped: "f x = Ok y \<Longrightarrow> f (stamp s y) = Ok (stamp s y)"
begin

lemma leaves: "leaves_alone stamp f"
  unfolding leaves_alone_def using again stamped by blast

end

section \<open>Labels and owners\<close>

lemma gset_same: "gget m k = Some v \<Longrightarrow> gset k v m = m"
  by (induction m) (auto split: if_splits)

lemma set_entry_same: "m \<noteq> None \<Longrightarrow> gget (entries m) k = Some v \<Longrightarrow> set_entry k v m = m"
  by (auto simp: set_entry_def gset_same)

lemma set_entry_kept:
  "gget (entries (set_entry a u m)) k = Some v \<Longrightarrow> set_entry k v (set_entry a u m) = set_entry a u m"
  by (rule set_entry_same) simp_all

text \<open>The owner is set on the first call, and no later one changes it, whatever else of the metadata changes.\<close>

lemma set_controller_again:
  assumes "owner_documented L" "set_controller L owner k m = Ok m'"
  shows "\<exists>refs. m' = m\<lparr>om_OwnerReferences := refs\<rparr> \<and>
    (\<forall>m2. om_Namespace m2 = om_Namespace m \<longrightarrow> om_OwnerReferences m2 = refs \<longrightarrow> set_controller L owner k m2 = Ok m2)"
proof -
  have "kl_SetControllerReference L owner k m = Inr m'"
    using assms(2) by (cases "kl_SetControllerReference L owner k m") (simp_all add: set_controller_def)
  then have "m' = m\<lparr>om_OwnerReferences := om_OwnerReferences m'\<rparr>"
    "\<forall>m2. om_Namespace m2 = om_Namespace m \<longrightarrow> om_OwnerReferences m2 = om_OwnerReferences m' \<longrightarrow>
        kl_SetControllerReference L owner k m2 = Inr m2"
    using assms(1) unfolding owner_documented_def by blast+
  then show ?thesis by (intro exI [of _ "om_OwnerReferences m'"]) (simp add: set_controller_def)
qed

text \<open>Writing the same labels again, for the numbers of labels that occur.\<close>

lemma set_entries_again:
  "set_entry a v (set_entry a v m) = set_entry a v m"
  "distinct [a, b] \<Longrightarrow> set_entry a v (set_entry b w (set_entry a v (set_entry b w m))) = set_entry a v (set_entry b w m)"
  by (simp_all add: set_entry_same update_conv)

lemma set_three_again:
  assumes "distinct [a, b, c]"
  shows "set_entry a v (set_entry b w (set_entry c x (set_entry a v (set_entry b w (set_entry c x m))))) =
     set_entry a v (set_entry b w (set_entry c x m))"
proof -
  let ?M = "set_entry a v (set_entry b w (set_entry c x m))"
  have "set_entry c x ?M = ?M" "set_entry b w ?M = ?M" "set_entry a v ?M = ?M"
    using assms by (auto intro!: set_entry_kept simp: update_conv)
  then show ?thesis by (simp only:)
qed

lemma set_four_again:
  assumes "distinct [a, b, c, d]"
  shows "set_entry a v (set_entry b w (set_entry c x (set_entry d y (set_entry a v (set_entry b w (set_entry c x (set_entry d y m))))))) =
     set_entry a v (set_entry b w (set_entry c x (set_entry d y m)))"
proof -
  let ?M = "set_entry a v (set_entry b w (set_entry c x (set_entry d y m)))"
  have "set_entry d y ?M = ?M" "set_entry c x ?M = ?M" "set_entry b w ?M = ?M" "set_entry a v ?M = ?M"
    using assms by (auto intro!: set_entry_kept simp: update_conv)
  then show ?thesis by (simp only:)
qed

lemmas label_names =
  hubNameLabel_def HubComponentLabel_def LabelManagedByMdaiKey_def LabelAppNameKey_def LabelAppInstanceKey_def

text \<open>
  The form of most mutate functions: the owner is set, then a function works on the object that leaves the owner and the
  namespace alone and does nothing on its own results.
\<close>

lemma owned_mutate_settles:
  fixes meta :: "'ob \<Rightarrow> object_meta"
  assumes L: "owner_documented L"
    and f: "\<And>x. f x = bind_outcome (set_controller L owner k (meta x)) (\<lambda>m. Ok (g (put m x)))"
    and lens: "\<And>m x. meta (put m x) = m" "\<And>x. put (meta x) x = x" "\<And>s x. meta (stamp s x) = stamp_meta s (meta x)"
    and g: "\<And>x. om_Namespace (meta (g x)) = om_Namespace (meta x)"
      "\<And>x. om_OwnerReferences (meta (g x)) = om_OwnerReferences (meta x)"
      "\<And>x. g (g x) = g x" "\<And>s x. g (stamp s (g x)) = stamp s (g x)"
  shows "settling_mutate f stamp"
proof
  fix x y s
  assume "f x = Ok y"
  then obtain m where m: "set_controller L owner k (meta x) = Ok m" and y: "y = g (put m x)" by (auto simp: f outcome_iff)
  from set_controller_again [OF L m] obtain refs where r: "m = (meta x)\<lparr>om_OwnerReferences := refs\<rparr>"
    "\<And>m2. om_Namespace m2 = om_Namespace (meta x) \<Longrightarrow> om_OwnerReferences m2 = refs \<Longrightarrow> set_controller L owner k m2 = Ok m2" by auto
  have "set_controller L owner k (meta y) = Ok (meta y)" by (rule r(2)) (simp_all add: y g(1,2) lens r(1))
  then show "f y = Ok y" by (simp add: f lens) (simp add: y g)
  have "set_controller L owner k (meta (stamp s y)) = Ok (meta (stamp s y))"
    by (rule r(2)) (simp_all add: y g(1,2) lens r(1) stamp_meta_def)
  then show "f (stamp s y) = Ok (stamp s y)" by (simp add: f lens(2)) (simp add: y g)
qed

lemmas settle_simps =
  set_entries_again set_three_again set_four_again label_names stamp_deployment_def stamp_service_def stamp_config_map_def stamp_meta_def

lemmas owned_deployment_settles =
  owned_mutate_settles [where meta = dep_Meta and put = "\<lambda>m d. d\<lparr>dep_Meta := m\<rparr>" and stamp = stamp_deployment]

lemmas owned_service_settles =
  owned_mutate_settles [where meta = svc_Meta and put = "\<lambda>m x. x\<lparr>svc_Meta := m\<rparr>" and stamp = stamp_service]

lemmas owned_config_map_settles =
  owned_mutate_settles [where meta = cm_Meta and put = "\<lambda>m x. x\<lparr>cm_Meta := m\<rparr>" and stamp = stamp_config_map]

lemma collector_deployment_settles:
  "owner_documented L \<Longrightarrow> settling_mutate (collector_deployment_mutate L cr params) stamp_deployment"
  by (rule owned_deployment_settles [OF _ collector_deployment_mutate_def [unfolded Let_def]])
    (simp_all add: deployment_builder_defs settle_simps)

lemma collector_service_settles:
  "owner_documented L \<Longrightarrow> settling_mutate (collector_service_mutate L cr app) stamp_service"
  by (rule owned_service_settles [OF _ collector_service_mutate_def])
    (simp_all add: service_builder_defs settle_simps)

lemma replay_deployment_settles:
  "owner_documented L \<Longrightarrow> settling_mutate (replay_deployment_mutate L cr hash) stamp_deployment"
  by (rule owned_deployment_settles [OF _ replay_deployment_mutate_def [unfolded Let_def augmentDeploymentWithValues_def]])
    (simp_all add: deployment_builder_defs settle_simps)

text \<open>The steps of the DAL deployment and ConfigMap and of the observer deployment after the owner is set.\<close>

definition dal_deployment_steps :: "mdai_dal \<Rightarrow> dal_image \<Rightarrow> deployment \<Rightarrow> deployment" where
  "dal_deployment_steps cr img d =
     (let d1 = (if om_CreationTimestamp (dep_Meta d) = None
           then WithSelectorLabel LabelAppInstanceKey (cr_name cr)
                  (WithSelectorLabel LabelManagedByMdaiKey LabelManagedByMdaiValue
                    (WithSelectorLabel LabelAppNameKey MdaiDalHubComponent d))
           else d)
      in WithContainers [dal_container cr img]
           (WithTemplateLabel LabelManagedByMdaiKey LabelManagedByMdaiValue
             (WithTemplateLabel LabelAppInstanceKey (cr_name cr)
               (WithTemplateLabel LabelAppNameKey MdaiDalHubComponent
                 (WithLabel HubComponentLabel MdaiDalHubComponent
                   (WithLabel LabelManagedByMdaiKey LabelManagedByMdaiValue
                     (WithLabel LabelAppInstanceKey (cr_name cr)
                       (WithLabel LabelAppNameKey MdaiDalHubComponent (WithReplicas 1 d1)))))))))"

lemma dal_deployment_settles:
  "owner_documented L \<Longrightarrow> settling_mutate (dal_deployment_mutate L cr img) stamp_deployment"
  by (rule owned_deployment_settles [where g = "dal_deployment_steps cr img"])
    (simp_all add: dal_deployment_mutate_def dal_deployment_steps_def Let_def deployment_builder_defs settle_simps)

definition observer_deployment_steps :: "mdai_observer \<Rightarrow> string \<Rightarrow> observer_resource \<Rightarrow> deployment \<Rightarrow> deployment" where
  "observer_deployment_steps cr hash res d =
     (let name = getScopedObserverResourceName cr []
      in d\<lparr>dep_Meta := (dep_Meta d)\<lparr>om_Labels :=
             (case om_Labels (dep_Meta d) of
                None \<Rightarrow> Some [(''app'', name), (HubComponentLabel, mdaiObserverHubComponent),
                             (hubNameLabel, cr_name cr), (LabelManagedByMdaiKey, LabelManagedByMdaiValue)]
              | Some ls \<Rightarrow> Some ls)\<rparr>,
           dep_Replicas := Some (or_Replicas res),
           dep_Selector := Some (set_entry ''app'' name (case dep_Selector d of None \<Rightarrow> None | Some ls \<Rightarrow> ls)),
           dep_Template := (dep_Template d)\<lparr>
             pt_Labels := set_entry ''app.kubernetes.io/component'' name (set_entry ''app'' name (pt_Labels (dep_Template d))),
             pt_Annotations := observer_annotations hash (pt_Annotations (dep_Template d)),
             pt_Containers := [observer_container name res],
             pt_Volumes := [config_volume (getScopedObserverResourceName cr ''config'')],
             pt_Tolerations := or_Tolerations res\<rparr>\<rparr>)"

lemma observer_annotations_again: "observer_annotations hash (observer_annotations hash m) = observer_annotations hash m"
  (is "_ = ?M")
proof -
  have "set_entry ''mdai-collector-config/sha256'' hash ?M = ?M" "set_entry ''mdai_component_type'' ''mdai-observer'' ?M = ?M"
    "set_entry ''prometheus.io/scrape'' ''true'' ?M = ?M" "set_entry ''prometheus.io/port'' ''8899'' ?M = ?M"
    "set_entry ''prometheus.io/path'' ''/metrics'' ?M = ?M"
    by (rule set_entry_same; simp add: observer_annotations_def update_conv)+
  then show ?thesis by (simp only: observer_annotations_def [of _ ?M])
qed

lemma observer_deployment_settles:
  "owner_documented L \<Longrightarrow> settling_mutate (observer_deployment_mutate L cr hash res) stamp_deployment"
  by (rule owned_deployment_settles [where g = "observer_deployment_steps cr hash res"])
    (simp_all add: observer_deployment_mutate_def observer_deployment_steps_def Let_def settle_simps observer_annotations_again
       split: option.splits)

lemma dal_config_settles: "owner_documented L \<Longrightarrow> settling_mutate (dal_config_mutate L cr) stamp_config_map"
  by (rule owned_config_map_settles [where g = "\<lambda>x. \<lparr>cm_Meta = (cm_Meta x)\<lparr>om_Labels :=
             set_entry HubComponentLabel MdaiDalHubComponent
               (set_entry LabelManagedByMdaiKey LabelManagedByMdaiValue
                 (set_entry LabelAppInstanceKey (cr_name cr)
                   (set_entry LabelAppNameKey MdaiDalHubComponent (om_Labels (cm_Meta x)))))\<rparr>,
           cm_Data = Some (dal_config_data cr)\<rparr>"])
    (simp_all add: dal_config_mutate_def settle_simps)

lemma dal_service_settles: "owner_documented L \<Longrightarrow> settling_mutate (dal_service_mutate L cr) stamp_service"
  by (rule owned_service_settles [OF _ dal_service_mutate_def [unfolded Let_def]])
    (simp_all add: service_builder_defs settle_simps)

interpretation replay_service_settles: settling_mutate "replay_service_mutate cr" stamp_service for cr
  by unfold_locales (auto simp: replay_service_mutate_def service_builder_defs settle_simps Let_def)

interpretation observer_service_settles: settling_mutate "observer_service_mutate cr" stamp_service for cr
  by unfold_locales (auto simp: observer_service_mutate_def settle_simps split: option.splits)

interpretation data_settles: settling_mutate "write_data key v" stamp_config_map for key v
  by unfold_locales (auto simp: write_data_def settle_simps gset_same split: option.splits)

text \<open>The containers of a deployment are replaced as a whole, so what the server filled in there has no effect.\<close>

lemma containers_replaced:
  "observer_deployment_mutate L ocr hash ores (default_protocols d) = observer_deployment_mutate L ocr hash ores d"
  "collector_deployment_mutate L ccr params (default_protocols d) = collector_deployment_mutate L ccr params d"
  "replay_deployment_mutate L rcr hash (default_protocols d) = replay_deployment_mutate L rcr hash d"
  by (simp_all add: observer_deployment_mutate_def collector_deployment_mutate_def replay_deployment_mutate_def
      default_protocols_def augmentDeploymentWithValues_def Let_def deployment_builder_defs)

lemma protocols_filled_in:
  "observer_deployment_mutate L ocr hash ores d = Ok d1 \<Longrightarrow> default_protocols d1 \<noteq> d1"
  "collector_deployment_mutate L ccr params d = Ok d1 \<Longrightarrow> default_protocols d1 \<noteq> d1"
  "replay_deployment_mutate L rcr hash d = Ok d1 \<Longrightarrow> default_protocols d1 \<noteq> d1"
  by (auto simp: observer_deployment_mutate_def collector_deployment_mutate_def replay_deployment_mutate_def
      default_protocols_def augmentDeploymentWithValues_def observer_container_def collector_container_def replay_container_def
      Let_def deployment_builder_defs container_builder_defs outcome_iff split: option.splits if_splits
      dest!: arg_cong [where f = "\<lambda>d. map ct_Ports (pt_Containers (dep_Template d))"])

lemma dal_protocols_given: "dal_deployment_mutate L dcr img d = Ok d1 \<Longrightarrow> default_protocols d1 = d1"
  by (auto simp: dal_deployment_mutate_def default_protocols_def dal_container_def Let_def deployment_builder_defs
      container_builder_defs outcome_iff)

section \<open>Properties\<close>

text \<open>
  C8. A deployment, service or ConfigMap that a mutate function of an observer, collector, replay or DAL has made is left
  alone by the same function, also after the API server has stamped it with its identity, generation and creation time: no
  label, annotation, selector, port or owner is added twice or changes back and forth. What the server fills in inside the
  containers is a different matter: the observer, collector and replay functions take the default protocol of the
  container ports off again, so each of their reconciliations has a difference to write, while the DAL names the protocol itself.
\<close>

theorem mutations_keep_own_objects:
  assumes "owner_documented L"
  shows "leaves_alone stamp_deployment (observer_deployment_mutate L ocr hash ores) \<and>
    leaves_alone stamp_service (observer_service_mutate ocr) \<and>
    leaves_alone stamp_deployment (collector_deployment_mutate L ccr params) \<and>
    leaves_alone stamp_service (collector_service_mutate L ccr app) \<and>
    leaves_alone stamp_deployment (replay_deployment_mutate L rcr hash) \<and>
    leaves_alone stamp_service (replay_service_mutate rcr) \<and>
    leaves_alone stamp_deployment (dal_deployment_mutate L dcr img) \<and>
    leaves_alone stamp_service (dal_service_mutate L dcr) \<and>
    leaves_alone stamp_config_map (dal_config_mutate L dcr) \<and> leaves_alone stamp_config_map (write_data key yaml) \<and>
    (observer_deployment_mutate L ocr hash ores d = Ok d1 \<longrightarrow>
       default_protocols d1 \<noteq> d1 \<and> observer_deployment_mutate L ocr hash ores (default_protocols d1) = Ok d1) \<and>
    (collector_deployment_mutate L ccr params d = Ok d2 \<longrightarrow>
       default_protocols d2 \<noteq> d2 \<and> collector_deployment_mutate L ccr params (default_protocols d2) = Ok d2) \<and>
    (replay_deployment_mutate L rcr hash d = Ok d3 \<longrightarrow>
       default_protocols d3 \<noteq> d3 \<and> replay_deployment_mutate L rcr hash (default_protocols d3) = Ok d3) \<and>
    (dal_deployment_mutate L dcr img d = Ok d4 \<longrightarrow> default_protocols d4 = d4)"
proof (intro conjI)
  show "leaves_alone stamp_deployment (observer_deployment_mutate L ocr hash ores)"
    "leaves_alone stamp_deployment (collector_deployment_mutate L ccr params)"
    "leaves_alone stamp_deployment (replay_deployment_mutate L rcr hash)"
    "leaves_alone stamp_deployment (dal_deployment_mutate L dcr img)"
    "leaves_alone stamp_service (collector_service_mutate L ccr app)" "leaves_alone stamp_service (dal_service_mutate L dcr)"
    "leaves_alone stamp_config_map (dal_config_mutate L dcr)"
    using assms by (auto intro!: settling_mutate.leaves observer_deployment_settles collector_deployment_settles
        replay_deployment_settles dal_deployment_settles collector_service_settles dal_service_settles dal_config_settles)
qed (use assms in \<open>auto simp: containers_replaced protocols_filled_in dal_protocols_given
    intro: observer_service_settles.leaves replay_service_settles.leaves data_settles.leaves
      settling_mutate.again [OF observer_deployment_settles] settling_mutate.again [OF collector_deployment_settles]
      settling_mutate.again [OF replay_deployment_settles]\<close>)

lemma sample_owner_documented: "owner_documented sample_lib"
  by (auto simp: owner_documented_def sample_lib_def)

theorem mutations_keep_own_objects_witness:
  "\<exists>d s s'. replay_deployment_mutate sample_lib sample_replay ''h'' (deployment_named (meta_named ''d'' ''mdai'')) = Ok d \<and>
     default_protocols d \<noteq> d \<and> replay_deployment_mutate sample_lib sample_replay ''h'' (default_protocols d) = Ok d \<and>
     dal_service_mutate sample_lib sample_dal (service_named (meta_named ''dal'' ''mdai'')) = Ok s \<and>
     s' = stamp_service \<lparr>st_UID = ''u'', st_Generation = 1, st_CreationTimestamp = 5\<rparr> s \<and>
     dal_service_mutate sample_lib sample_dal s' = Ok s'"
proof -
  obtain d where d: "replay_deployment_mutate sample_lib sample_replay ''h'' (deployment_named (meta_named ''d'' ''mdai'')) = Ok d"
    by (simp add: replay_deployment_mutate_def set_controller_def sample_lib_def Let_def)
  obtain s where s: "dal_service_mutate sample_lib sample_dal (service_named (meta_named ''dal'' ''mdai'')) = Ok s"
    by (auto simp: dal_service_mutate_def set_controller_def sample_lib_def Let_def)
  note ok = mutations_keep_own_objects [OF sample_owner_documented]
  have "leaves_alone stamp_service (dal_service_mutate sample_lib sample_dal)" using ok by blast
  with s have "dal_service_mutate sample_lib sample_dal (stamp_service st s) = Ok (stamp_service st s)" for st
    unfolding leaves_alone_def by blast
  moreover have "default_protocols d \<noteq> d \<and> replay_deployment_mutate sample_lib sample_replay ''h'' (default_protocols d) = Ok d"
    using ok d by blast
  ultimately show ?thesis using d s by blast
qed

end
