(* ===== verification/Config_Shape.thy ===== *)
theory Config_Shape
  imports Observer_Adapter Collector_Adapter Replay_Adapter
begin

text \<open>
  The shape of the generated collector configurations. A Go map has each key once; in the model a map is a list of
  entries, and that it stands for a map at every level of a configuration is a property of the operations that build it. A
  mapping with a key twice is no YAML, so this is what makes the printed configuration readable again.
\<close>

section \<open>Well-formed values\<close>

fun wf_gval :: "gval \<Rightarrow> bool" where
  "wf_gval (GSlice xs) = list_all (\<lambda>x. wf_gval x) xs"
| "wf_gval (GMap m) = (distinct (map fst m) \<and> list_all (\<lambda>p. wf_gval (snd p)) m)"
| "wf_gval (GBlock m) = (distinct (map fst m) \<and> list_all (\<lambda>p. wf_gval (snd p)) m)"
| "wf_gval (GStruct m) = (distinct (map fst m) \<and> list_all (\<lambda>p. wf_gval (snd p)) m)"
| "wf_gval _ = True"

definition wf_block :: "block \<Rightarrow> bool" where
  "wf_block m \<longleftrightarrow> distinct (map fst m) \<and> list_all (\<lambda>p. wf_gval (snd p)) m"

lemma wf_gval_maps [simp]:
  "wf_gval (GMap m) \<longleftrightarrow> wf_block m" "wf_gval (GBlock m) \<longleftrightarrow> wf_block m" "wf_gval (GStruct m) \<longleftrightarrow> wf_block m"
  by (simp_all add: wf_block_def)

declare wf_gval.simps(2-4) [simp del]

named_theorems wf_intros \<open>operations that keep configurations well formed\<close>

lemma wf_gset [wf_intros]: "wf_block m \<Longrightarrow> wf_gval v \<Longrightarrow> wf_block (gset k v m)"
proof -
  have "list_all (\<lambda>p. wf_gval (snd p)) m \<Longrightarrow> wf_gval v \<Longrightarrow> list_all (\<lambda>p. wf_gval (snd p)) (gset k v m)"
    by (induction m) auto
  then show "wf_block m \<Longrightarrow> wf_gval v \<Longrightarrow> wf_block (gset k v m)" by (simp add: wf_block_def distinct_update)
qed

lemma wf_Set [wf_intros]: "wf_block m \<Longrightarrow> wf_gval v \<Longrightarrow> wf_block (Set k v m)"
  by (simp add: Set_def wf_gset)

lemma wf_gget: "wf_block m \<Longrightarrow> gget m k = Some v \<Longrightarrow> wf_gval v"
  by (auto simp: wf_block_def list_all_iff dest: map_of_SomeD)

lemma wf_MustMap: "wf_block c \<Longrightarrow> MustMap c k = Ok m \<Longrightarrow> wf_block m"
  using wf_gget [of c k "GMap m"]
  by (auto simp: MustMap_Ok GetMap_def getAs_def split: option.splits elim!: as_map.elims)

lemma wf_MustSlice: "wf_block c \<Longrightarrow> MustSlice c k = Ok xs \<Longrightarrow> list_all wf_gval xs"
  using wf_gget [of c k "GSlice xs"]
  by (auto simp: MustSlice_def mustGetAs_def getAs_def split: option.splits elim!: as_slice.elims)

lemma wf_update_in:
  assumes f: "\<And>m m'. wf_block m \<Longrightarrow> f m = Ok m' \<Longrightarrow> wf_block m'"
  shows "update_in path f c = Ok c' \<Longrightarrow> wf_block c \<Longrightarrow> wf_block c'"
proof (induction path arbitrary: c c')
  case (Cons k ks)
  from Cons.prems(1) obtain m m' where m: "MustMap c k = Ok m" "update_in ks f m = Ok m'" "c' = gset k (GMap m') c"
    by (auto simp: outcome_iff)
  have "wf_block m'" using Cons.IH [OF m(2) wf_MustMap [OF Cons.prems(2) m(1)]] .
  then show ?case using Cons.prems(2) m(3) by (simp add: wf_gset)
qed (use f in simp)

lemma wf_set_in: "set_in path k v c = Ok c' \<Longrightarrow> wf_block c \<Longrightarrow> wf_gval v \<Longrightarrow> wf_block c'"
  unfolding set_in_def by (rule wf_update_in) (auto intro: wf_Set)

lemma wf_put_in: "put_in path m c = Ok c' \<Longrightarrow> wf_block c \<Longrightarrow> wf_block m \<Longrightarrow> wf_block c'"
  unfolding put_in_def by (rule wf_update_in) auto

lemma wf_literal [simp]: "wf_block []"
  "wf_block ((k, v) # m) \<longleftrightarrow> k \<notin> fst ` set m \<and> wf_gval v \<and> wf_block m"
  by (auto simp: wf_block_def)

lemma wf_append_literal: "wf_block (m @ n) \<longleftrightarrow> wf_block m \<and> wf_block n \<and> fst ` set m \<inter> fst ` set n = {}"
  by (auto simp: wf_block_def)

section \<open>The observer configuration\<close>

lemma wf_add_observer:
  assumes "add_observer obs c = Ok c'" "wf_block c"
  shows "wf_block c'"
proof -
  have v: "wf_gval (observer_pipeline obs)" "wf_block (observer_dv_spec obs)"
    "wf_gval (GMap [(''keys'', GStrs (ob_LabelResourceAttributes obs))])"
    by (auto simp: observer_pipeline_def observer_dv_spec_def wf_append_literal split: option.splits)
  have filter: "wf_block (getObserverFilterProcessorConfig f)" for f
    by (auto simp: getObserverFilterProcessorConfig_def wf_append_literal split: option.splits)
  have "wf_block d" if "add_observer_components obs c = Ok d" for d
    using that assms(2) v filter
    by (auto simp: add_observer_components_def outcome_iff split: option.splits dest!: wf_set_in)
  then show ?thesis using assms(1) v by (auto simp: add_observer_def outcome_iff dest!: wf_set_in)
qed

lemma wf_add_observers: "add_observers observers c = Ok c' \<Longrightarrow> wf_block c \<Longrightarrow> wf_block c'"
  by (induction observers arbitrary: c) (auto simp: outcome_iff dest: wf_add_observer)

lemma wf_build_observer_config:
  assumes "build_observer_config observers res c = Ok c'" "wf_block c"
  shows "wf_block c'"
proof -
  obtain c0 c1 c2 where s: "(case or_GrpcReceiverMaxMsgSize res of None \<Rightarrow> Ok c
      | Some n \<Rightarrow> set_in [''receivers'', ''otlp'', ''protocols'', ''grpc''] ''max_recv_msg_size_mib'' (GInt (int n)) c) = Ok c0"
    "add_observers observers c0 = Ok c1"
    "set_in [''service'', ''pipelines''] ''metrics/observeroutput'' (observer_output_pipeline observers) c1 = Ok c2"
    "(case or_OwnLogsOtlpEndpoint res of None \<Rightarrow> Ok c2 | Some endpoint \<Rightarrow>
       if endpoint \<noteq> [] then set_in [''service'', ''telemetry''] ''logs'' (own_logs_telemetry endpoint) c2 else Ok c2) = Ok c'"
    using assms(1) by (auto simp: build_observer_config_def outcome_iff)
  have "wf_block c0" using s(1) assms(2) by (auto split: option.splits dest!: wf_set_in)
  with s(2) have "wf_block c1" by (rule wf_add_observers)
  with s(3) have "wf_block c2" by (rule wf_set_in) (simp add: observer_output_pipeline_def)
  with s(4) show ?thesis by (auto simp: own_logs_telemetry_def split: option.splits if_splits dest!: wf_set_in)
qed

section \<open>The collector configuration\<close>

definition wf_augmented :: "augmented \<Rightarrow> bool" where
  "wf_augmented ag \<longleftrightarrow> wf_block (ag_exporters ag) \<and> wf_block (ag_pipelines ag)"

lemma wf_exporters: "wf_gval (snd (getOtlpExporterForLogstream cfg))" "wf_gval (snd (getS3ExporterForLogstream hub ls s3))"
  by (simp_all add: getOtlpExporterForLogstream_def getS3ExporterForLogstream_def)

lemma wf_log_pipeline: "wf_gval (getPipelineWithExporterAndSeverityFilter r e sev b)"
  by (auto simp: getPipelineWithExporterAndSeverityFilter_def list_all_iff)

lemma wf_set_exporter: "wf_augmented ag \<Longrightarrow> wf_gval (snd e) \<Longrightarrow> wf_augmented (set_exporter e ag)"
  by (simp add: wf_augmented_def set_exporter_def wf_gset)

lemma wf_set_route: "wf_augmented ag \<Longrightarrow> wf_gval p \<Longrightarrow> wf_augmented (set_route ls n p ag)"
  by (simp add: wf_augmented_def set_route_def wf_gset)

lemma wf_addPipelineForLogstream: "wf_augmented ag \<Longrightarrow> wf_augmented (snd (addPipelineForLogstream cfg ls e ag))"
  by (simp add: addPipelineForLogstream_def Let_def wf_set_route wf_log_pipeline)

lemma wf_addS3ComponentsAndPipeline: "wf_augmented ag \<Longrightarrow> wf_augmented (snd (addS3ComponentsAndPipeline n ls s3 sev ag))"
  by (simp add: addS3ComponentsAndPipeline_def Let_def wf_set_route wf_set_exporter wf_exporters wf_log_pipeline)

lemmas wf_augmented_rules =
  wf_set_exporter wf_set_route wf_addPipelineForLogstream wf_addS3ComponentsAndPipeline wf_exporters wf_log_pipeline

lemma wf_otlp: "wf_augmented ag \<Longrightarrow> wf_augmented (snd (augmentConfigForOtlpConfigAndGetOtherLogstreamPipelines l ag))"
  by (simp add: augmentConfigForOtlpConfigAndGetOtherLogstreamPipelines_def Let_def case_prod_beta' wf_augmented_rules
      split: option.splits)

lemma wf_s3: "wf_augmented ag \<Longrightarrow> wf_augmented (snd (augmentPipelinesForS3ConfigAndGetOtherLogstreamPipelines n l key ag))"
  by (simp add: augmentPipelinesForS3ConfigAndGetOtherLogstreamPipelines_def Let_def case_prod_beta' wf_augmented_rules
      split: option.splits)

lemma wf_route_logs:
  assumes "route_logs rng n l key c = Ok c'" "wf_block c"
  shows "wf_block c'"
proof -
  obtain ex sv ps cn router where maps: "MustMap c ''exporters'' = Ok ex" "MustMap c ''service'' = Ok sv"
    "MustMap sv ''pipelines'' = Ok ps" "MustMap c ''connectors'' = Ok cn" "MustMap cn ''routing/logstream'' = Ok router"
    using assms(1) by (auto simp: route_logs_def outcome_iff Let_def case_prod_beta')
  have wf: "wf_block ex" "wf_block ps" "wf_block router" using maps assms(2) wf_MustMap by blast+
  obtain o1 a1 where a1: "augmentConfigForOtlpConfigAndGetOtherLogstreamPipelines l
      \<lparr>ag_exporters = ex, ag_pipelines = ps, ag_table = []\<rparr> = (o1, a1)" by fastforce
  obtain o2 a2 where a2: "augmentPipelinesForS3ConfigAndGetOtherLogstreamPipelines n l key a1 = (o2, a2)" by fastforce
  let ?table = "GSlice (map (\<lambda>(_, e). entry_value e) (rng (ag_table a2)))"
  let ?r = "if o1 = [] \<longrightarrow> o2 \<noteq> [] then Set ''default_pipelines'' (GStrs (o1 @ o2)) (Set ''table'' ?table router)
    else Set ''table'' ?table router"
  have "wf_augmented a1" using wf_otlp [of "\<lparr>ag_exporters = ex, ag_pipelines = ps, ag_table = []\<rparr>" l] wf a1
    by (simp add: wf_augmented_def)
  then have "wf_augmented a2" using wf_s3 [of a1 n l key] a2 by simp
  moreover have "wf_gval ?table" by (auto simp: list_all_iff entry_value_def)
  then have "wf_block ?r" using wf(3) by (simp add: wf_Set)
  moreover obtain c1 c2 where "put_in [''exporters''] (ag_exporters a2) c = Ok c1"
    "put_in [''service'', ''pipelines''] (ag_pipelines a2) c1 = Ok c2" "put_in [''connectors'', ''routing/logstream''] ?r c2 = Ok c'"
    using assms(1) by (auto simp: route_logs_def outcome_iff Let_def maps a1 a2)
  ultimately show ?thesis using assms(2) by (metis wf_put_in wf_augmented_def)
qed

section \<open>The replay configuration\<close>

lemma wf_add_replay_action: "add_replay_action i c = Ok c' \<Longrightarrow> wf_block c \<Longrightarrow> wf_block c'"
  unfolding add_replay_action_def
  by (erule wf_update_in [rotated], assumption) (auto simp: outcome_iff replay_id_action_def intro!: wf_Set dest: wf_MustSlice)

lemma wf_add_replay_exporter: "add_replay_exporter spec c = Ok c' \<Longrightarrow> wf_block c \<Longrightarrow> wf_block c'"
  by (auto simp: add_replay_exporter_def outcome_iff Let_def replay_pipeline_def split: option.splits if_splits
      dest!: wf_set_in intro!: wf_Set elim!: wf_MustMap [rotated])

lemma wf_set_s3_receiver: "set_s3_receiver spec c = Ok c' \<Longrightarrow> wf_block c \<Longrightarrow> wf_block c'"
  unfolding set_s3_receiver_def
  by (erule wf_update_in [rotated], assumption) (auto simp: outcome_iff Let_def split: option.splits intro!: wf_Set elim!: wf_MustMap [rotated])

lemma wf_set_opamp: "set_opamp i hub spec c = Ok c' \<Longrightarrow> wf_block c \<Longrightarrow> wf_block c'"
  unfolding set_opamp_def
  by (erule wf_update_in [rotated], assumption) (auto simp: outcome_iff Let_def intro!: wf_Set dest!: wf_set_in elim!: wf_MustMap [rotated])

lemma wf_augmentCollectorConfigPerSpec:
  "augmentCollectorConfigPerSpec i hub c spec = Ok c' \<Longrightarrow> wf_block c \<Longrightarrow> wf_block c'"
  by (auto simp: augmentCollectorConfigPerSpec_def outcome_iff
      dest: wf_add_replay_action wf_add_replay_exporter wf_set_s3_receiver wf_set_opamp)

lemma wf_bases: "wf_block baseObserverCollectorYAML" "wf_block baseMdaiCollectorYAML" "wf_block baseReplayCollectorYaml"
  by (simp_all add: baseObserverCollectorYAML_def baseMdaiCollectorYAML_def baseReplayCollectorYaml_def yaml_route_def
      yaml_names_def yaml_pipeline_def severity_filter_def upsert_stream_def list_all_iff)

section \<open>Properties\<close>

text \<open>
  The blocks of the model stand for Go maps, whose keys are unique. The list representation keeps to that: built from
  the embedded base file, the configuration of an observer, of a collector and of a replay has each key once in every
  map at every depth, so looking a key up and printing the map mean what they mean in the code.
\<close>

theorem generated_configs_are_maps:
  "(\<exists>c. build_observer_config observers res baseObserverCollectorYAML = Ok c \<and> wf_block c) \<and>
   (\<exists>c. route_logs rng n l key baseMdaiCollectorYAML = Ok c \<and> wf_block c) \<and>
   (case augmentCollectorConfigPerSpec i hub baseReplayCollectorYaml spec of Ok c \<Rightarrow> wf_block c | _ \<Rightarrow> True)"
proof (intro conjI)
  show "\<exists>c. build_observer_config observers res baseObserverCollectorYAML = Ok c \<and> wf_block c"
    using ok_build_observer_config [OF baseObserverCollectorYAML_ok, of observers res] wf_build_observer_config wf_bases(1)
    by (auto simp: ok_with_def)
  obtain c where "route_logs rng n l key baseMdaiCollectorYAML = Ok c" by (rule route_base)
  then show "\<exists>c. route_logs rng n l key baseMdaiCollectorYAML = Ok c \<and> wf_block c" using wf_route_logs wf_bases(2) by blast
qed (use wf_augmentCollectorConfigPerSpec wf_bases(3) in \<open>auto split: outcome.splits\<close>)

end
