(* ===== verification/Deep_Copy.thy ===== *)
theory Deep_Copy
  imports Prelude
begin

text \<open>
  Values with sharing, for the generated \<^verbatim>\<open>DeepCopy\<close> methods. Elsewhere in the development a value is what it
  denotes; here it is what Go stores: a pointer, slice or map is an address of the heap, and two values that share an address
  see each other's changes. The heap only grows: an allocation returns the address after the last.
\<close>

section \<open>Values and the heap\<close>

datatype scalar = SStr string | SInt int | SBool bool

datatype gv =
    VScalar scalar
  | VPtr "nat option"
  | VSlice "(nat \<times> nat \<times> nat) option"
  | VMap "nat option"
  | VStruct "(string \<times> gv) list"

text \<open>
  A slice is an array with an offset and a length. A cell is a variable, an array or the entries of a map; the entries are
  visited in the order of the list, which no program can observe.
\<close>

datatype cell = CVal gv | CArr "gv list" | CMap "(string \<times> gv) list"

type_synonym gheap = "cell list"

definition alloc :: "cell \<Rightarrow> gheap \<Rightarrow> nat \<times> gheap" where
  "alloc c h = (length h, h @ [c])"

definition cell_at :: "gheap \<Rightarrow> nat \<Rightarrow> cell option" where
  "cell_at h a = (if a < length h then Some (h ! a) else None)"

definition val_at :: "gheap \<Rightarrow> nat \<Rightarrow> gv" where
  "val_at h a = (case cell_at h a of Some (CVal v) \<Rightarrow> v | _ \<Rightarrow> VPtr None)"

definition arr_at :: "gheap \<Rightarrow> nat \<Rightarrow> gv list" where
  "arr_at h a = (case cell_at h a of Some (CArr vs) \<Rightarrow> vs | _ \<Rightarrow> [])"

definition map_at :: "gheap \<Rightarrow> nat \<Rightarrow> (string \<times> gv) list" where
  "map_at h a = (case cell_at h a of Some (CMap m) \<Rightarrow> m | _ \<Rightarrow> [])"

definition elems :: "gheap \<Rightarrow> nat \<times> nat \<times> nat \<Rightarrow> gv list" where
  "elems h s = (case s of (a, off, n) \<Rightarrow> take n (drop off (arr_at h a)))"

definition is_var :: "gheap \<Rightarrow> nat \<Rightarrow> bool" where
  "is_var h a = (case cell_at h a of Some (CVal _) \<Rightarrow> True | _ \<Rightarrow> False)"

definition is_slice :: "gheap \<Rightarrow> nat \<times> nat \<times> nat \<Rightarrow> bool" where
  "is_slice h s = (case cell_at h (fst s) of Some (CArr vs) \<Rightarrow> fst (snd s) + snd (snd s) \<le> length vs | _ \<Rightarrow> False)"

definition is_map :: "gheap \<Rightarrow> nat \<Rightarrow> bool" where
  "is_map h a = (case cell_at h a of Some (CMap m) \<Rightarrow> distinct (map fst m) | _ \<Rightarrow> False)"

text \<open>Fields of a structure.\<close>

definition struct_fields :: "gv \<Rightarrow> (string \<times> gv) list" where
  "struct_fields v = (case v of VStruct fs \<Rightarrow> fs | _ \<Rightarrow> [])"

definition field :: "gv \<Rightarrow> string \<Rightarrow> gv" where
  "field v n = (case map_of (struct_fields v) n of Some x \<Rightarrow> x | None \<Rightarrow> VPtr None)"

definition set_field :: "string \<Rightarrow> gv \<Rightarrow> gv \<Rightarrow> gv" where
  "set_field n y v = VStruct (map (\<lambda>(m, x). (m, if m = n then y else x)) (struct_fields v))"

section \<open>Layouts\<close>

text \<open>The layout of a Go type, a struct with its fields in their order.\<close>

datatype gty = TScalar | TPtr gty | TSlice gty | TMap gty | TStruct "(string \<times> gty) list"

text \<open>A value of a layout, all of it in the heap.\<close>

fun wt :: "gty \<Rightarrow> gheap \<Rightarrow> gv \<Rightarrow> bool" and wt_fields :: "(string \<times> gty) list \<Rightarrow> gheap \<Rightarrow> gv \<Rightarrow> bool" where
  "wt TScalar h v = (case v of VScalar _ \<Rightarrow> True | _ \<Rightarrow> False)"
| "wt (TPtr T) h v = (case v of VPtr None \<Rightarrow> True | VPtr (Some a) \<Rightarrow> is_var h a \<and> wt T h (val_at h a) | _ \<Rightarrow> False)"
| "wt (TSlice T) h v =
     (case v of VSlice None \<Rightarrow> True | VSlice (Some s) \<Rightarrow> is_slice h s \<and> list_all (\<lambda>x. wt T h x) (elems h s) | _ \<Rightarrow> False)"
| "wt (TMap T) h v =
     (case v of VMap None \<Rightarrow> True | VMap (Some a) \<Rightarrow> is_map h a \<and> list_all (\<lambda>x. wt T h x) (map snd (map_at h a)) | _ \<Rightarrow> False)"
| "wt (TStruct fs) h v = (case v of VStruct xs \<Rightarrow> map fst xs = map fst fs \<and> wt_fields fs h v | _ \<Rightarrow> False)"
| "wt_fields [] h v = True"
| "wt_fields ((n, T) # fs) h v = (wt T h (field v n) \<and> wt_fields fs h v)"

text \<open>What a value denotes: the tree of its scalars, without addresses.\<close>

datatype gtree = GNil | GScalar scalar | GPtr gtree | GSlice "gtree list" | GMap "(string \<times> gtree) list"
  | GStruct "(string \<times> gtree) list"

fun denotes :: "gty \<Rightarrow> gheap \<Rightarrow> gv \<Rightarrow> gtree"
  and denotes_fields :: "(string \<times> gty) list \<Rightarrow> gheap \<Rightarrow> gv \<Rightarrow> (string \<times> gtree) list" where
  "denotes TScalar h v = (case v of VScalar s \<Rightarrow> GScalar s | _ \<Rightarrow> GNil)"
| "denotes (TPtr T) h v = (case v of VPtr (Some a) \<Rightarrow> GPtr (denotes T h (val_at h a)) | _ \<Rightarrow> GNil)"
| "denotes (TSlice T) h v = (case v of VSlice (Some s) \<Rightarrow> GSlice (map (\<lambda>x. denotes T h x) (elems h s)) | _ \<Rightarrow> GNil)"
| "denotes (TMap T) h v =
     (case v of VMap (Some a) \<Rightarrow> GMap (map (\<lambda>p. (fst p, denotes T h (snd p))) (map_at h a)) | _ \<Rightarrow> GNil)"
| "denotes (TStruct fs) h v = GStruct (denotes_fields fs h v)"
| "denotes_fields [] h v = []"
| "denotes_fields ((n, T) # fs) h v = (n, denotes T h (field v n)) # denotes_fields fs h v"

text \<open>The addresses a value leads to.\<close>

fun reach :: "gty \<Rightarrow> gheap \<Rightarrow> gv \<Rightarrow> nat list" and reach_fields :: "(string \<times> gty) list \<Rightarrow> gheap \<Rightarrow> gv \<Rightarrow> nat list" where
  "reach TScalar h v = []"
| "reach (TPtr T) h v = (case v of VPtr (Some a) \<Rightarrow> a # reach T h (val_at h a) | _ \<Rightarrow> [])"
| "reach (TSlice T) h v = (case v of VSlice (Some s) \<Rightarrow> fst s # concat (map (\<lambda>x. reach T h x) (elems h s)) | _ \<Rightarrow> [])"
| "reach (TMap T) h v = (case v of VMap (Some a) \<Rightarrow> a # concat (map (\<lambda>x. reach T h x) (map snd (map_at h a))) | _ \<Rightarrow> [])"
| "reach (TStruct fs) h v = reach_fields fs h v"
| "reach_fields [] h v = []"
| "reach_fields ((n, T) # fs) h v = reach T h (field v n) @ reach_fields fs h v"

text \<open>A layout without pointers, slices and maps: assignment copies all of it.\<close>

fun flat :: "gty \<Rightarrow> bool" and flat_fields :: "(string \<times> gty) list \<Rightarrow> bool" where
  "flat TScalar = True"
| "flat (TPtr T) = False"
| "flat (TSlice T) = False"
| "flat (TMap T) = False"
| "flat (TStruct fs) = flat_fields fs"
| "flat_fields [] = True"
| "flat_fields ((n, T) # fs) = (flat T \<and> flat_fields fs)"

section \<open>Copying\<close>

text \<open>A function that reads the value of \<^verbatim>\<open>*in\<close> and gives the value of \<^verbatim>\<open>*out\<close>.\<close>

type_synonym copier = "gv \<Rightarrow> gheap \<Rightarrow> gv \<times> gheap"

text \<open>\<^verbatim>\<open>*out = *in\<close>.\<close>

definition assign :: copier where
  "assign v h = (v, h)"

text \<open>\<^verbatim>\<open>if in != nil { *out = new(T); ... }\<close> with the code that fills the new variable.\<close>

definition new_with :: "copier \<Rightarrow> copier" where
  "new_with f v h =
     (case v of
        VPtr (Some a) \<Rightarrow> (case f (val_at h a) h of (y, h1) \<Rightarrow> case alloc (CVal y) h1 of (b, h2) \<Rightarrow> (VPtr (Some b), h2))
      | _ \<Rightarrow> (v, h))"

text \<open>\<^verbatim>\<open>if in != nil { *out = make([]T, len(*in)); for i := range *in { ... } }\<close>.\<close>

fun copy_all :: "copier \<Rightarrow> gv list \<Rightarrow> gheap \<Rightarrow> gv list \<times> gheap" where
  "copy_all f [] h = ([], h)"
| "copy_all f (x # xs) h = (case f x h of (y, h1) \<Rightarrow> case copy_all f xs h1 of (ys, h2) \<Rightarrow> (y # ys, h2))"

definition make_each :: "copier \<Rightarrow> copier" where
  "make_each f v h =
     (case v of
        VSlice (Some s) \<Rightarrow>
          (case copy_all f (elems h s) h of (ys, h1) \<Rightarrow> case alloc (CArr ys) h1 of (b, h2) \<Rightarrow> (VSlice (Some (b, 0, length ys)), h2))
      | _ \<Rightarrow> (v, h))"

text \<open>\<^verbatim>\<open>if in != nil { *out = make(map[string]T, len(*in)); for key, val := range *in { (*out)[key] = ... } }\<close>.\<close>

definition make_map :: "copier \<Rightarrow> copier" where
  "make_map f v h =
     (case v of
        VMap (Some a) \<Rightarrow>
          (case copy_all f (map snd (map_at h a)) h of (ys, h1) \<Rightarrow>
           case alloc (CMap (zip (map fst (map_at h a)) ys)) h1 of (b, h2) \<Rightarrow> (VMap (Some b), h2))
      | _ \<Rightarrow> (v, h))"

text \<open>\<^verbatim>\<open>*val.DeepCopy()\<close> on a loop variable: its address is taken, the copy is dereferenced.\<close>

definition deref_copy :: "copier \<Rightarrow> copier" where
  "deref_copy g x h =
     (case alloc (CVal x) h of (a, h1) \<Rightarrow>
      case g (VPtr (Some a)) h1 of (p, h2) \<Rightarrow> (case p of VPtr (Some b) \<Rightarrow> val_at h2 b | _ \<Rightarrow> x, h2))"

text \<open>A struct: \<^verbatim>\<open>*out = *in\<close>, then the statements for the single fields.\<close>

fun fields_into :: "(string \<times> copier) list \<Rightarrow> gv \<Rightarrow> gv \<Rightarrow> gheap \<Rightarrow> gv \<times> gheap" where
  "fields_into [] v out h = (out, h)"
| "fields_into ((n, f) # cs) v out h = (case f (field v n) h of (y, h1) \<Rightarrow> fields_into cs v (set_field n y out) h1)"

definition struct_into :: "(string \<times> copier) list \<Rightarrow> copier" where
  "struct_into cs v h = fields_into cs v v h"

text \<open>
  \<^verbatim>\<open>DeepCopyObject\<close>: the copy as an interface, which is nil (\<^const>\<open>None\<close>) when there is none.
\<close>

definition deep_copy_object :: "copier \<Rightarrow> gv \<Rightarrow> gheap \<Rightarrow> gv option \<times> gheap" where
  "deep_copy_object g v h = (case g v h of (c, h') \<Rightarrow> (if c \<noteq> VPtr None then Some c else None, h'))"

section \<open>Lemmas on the heap\<close>

definition heap_extends :: "gheap \<Rightarrow> gheap \<Rightarrow> bool" where
  "heap_extends h h' \<longleftrightarrow> take (length h) h' = h"

lemma heap_extends_iff: "heap_extends h h' \<longleftrightarrow> (\<exists>k. h' = h @ k)"
  unfolding heap_extends_def by (metis append_eq_conv_conj)

lemma heap_extends_refl [simp]: "heap_extends h h" by (simp add: heap_extends_def)

lemma heap_extends_snoc [simp]: "heap_extends h (h @ k)" by (simp add: heap_extends_def)

lemma heap_extends_trans: "heap_extends h h1 \<Longrightarrow> heap_extends h1 h2 \<Longrightarrow> heap_extends h h2"
  by (auto simp: heap_extends_iff)

lemma heap_extends_length: "heap_extends h h' \<Longrightarrow> length h \<le> length h'"
  by (auto simp: heap_extends_iff)

lemma cell_at_heap_extends: "heap_extends h h' \<Longrightarrow> a < length h \<Longrightarrow> cell_at h' a = cell_at h a"
  by (auto simp: cell_at_def nth_append heap_extends_iff)

lemma cell_at_last [simp]: "cell_at (h @ [c]) (length h) = Some c"
  by (simp add: cell_at_def)

lemma cell_at_Some: "cell_at h a = Some c \<Longrightarrow> a < length h"
  by (simp add: cell_at_def split: if_splits)

lemma wt_fields_iff: "wt_fields fs h v \<longleftrightarrow> (\<forall>(n, T) \<in> set fs. wt T h (field v n))"
  by (induction fs) auto

lemma denotes_fields_map: "denotes_fields fs h v = map (\<lambda>(n, T). (n, denotes T h (field v n))) fs"
  by (induction fs) auto

lemma reach_fields_set: "set (reach_fields fs h v) = (\<Union>(n, T) \<in> set fs. set (reach T h (field v n)))"
  by (induction fs) auto

text \<open>The shapes of a value.\<close>

lemma wt_PtrE:
  assumes "wt (TPtr T) h v"
  obtains "v = VPtr None" | a where "v = VPtr (Some a)" "is_var h a" "wt T h (val_at h a)"
  using assms by (auto split: gv.splits option.splits)

lemma wt_SliceE:
  assumes "wt (TSlice T) h v"
  obtains "v = VSlice None" | s where "v = VSlice (Some s)" "is_slice h s" "\<forall>x \<in> set (elems h s). wt T h x"
  using assms by (auto simp: list_all_iff split: gv.splits option.splits)

lemma wt_MapE:
  assumes "wt (TMap T) h v"
  obtains "v = VMap None" | a where "v = VMap (Some a)" "is_map h a" "\<forall>x \<in> set (map snd (map_at h a)). wt T h x"
  using assms by (auto simp: list_all_iff split: gv.splits option.splits)

lemma is_cell_bound: "is_var h a \<Longrightarrow> a < length h" "is_slice h s \<Longrightarrow> fst s < length h" "is_map h a \<Longrightarrow> a < length h"
  by (auto simp: is_var_def is_slice_def is_map_def dest: cell_at_Some split: option.splits)

text \<open>Only the cells a value leads to matter for it.\<close>

lemma frame_and_fields:
  "(\<forall>a \<in> set (reach T h v). cell_at h' a = cell_at h a) \<Longrightarrow>
     denotes T h' v = denotes T h v \<and> reach T h' v = reach T h v \<and> (wt T h v \<longrightarrow> wt T h' v)"
  "(\<forall>a \<in> set (reach_fields fs h v). cell_at h' a = cell_at h a) \<Longrightarrow>
     denotes_fields fs h' v = denotes_fields fs h v \<and> reach_fields fs h' v = reach_fields fs h v \<and>
     (wt_fields fs h v \<longrightarrow> wt_fields fs h' v)"
proof (induction T h v and fs h v rule: reach_reach_fields.induct)
  case (2 T h v)
  then show ?case by (auto simp: val_at_def is_var_def split: gv.splits option.splits)
next
  case (3 T h v)
  show ?case
  proof (cases "\<exists>s. v = VSlice (Some s)")
    case True
    then obtain s where v: "v = VSlice (Some s)" by auto
    have same: "elems h' s = elems h s" "is_slice h' s = is_slice h s"
      using 3 v by (auto simp: elems_def arr_at_def is_slice_def split: prod.splits)
    have "\<forall>x \<in> set (elems h s). denotes T h' x = denotes T h x \<and> reach T h' x = reach T h x \<and>
        (wt T h x \<longrightarrow> wt T h' x)" using 3 v by auto
    with same v show ?thesis by (auto simp: list_all_iff cong: map_cong)
  qed (auto split: gv.splits option.splits)
next
  case (4 T h v)
  show ?case
  proof (cases "\<exists>a. v = VMap (Some a)")
    case True
    then obtain a where v: "v = VMap (Some a)" by auto
    have same: "map_at h' a = map_at h a" "is_map h' a = is_map h a" using 4 v by (auto simp: map_at_def is_map_def)
    have "\<forall>x \<in> set (map snd (map_at h a)). denotes T h' x = denotes T h x \<and> reach T h' x = reach T h x \<and>
        (wt T h x \<longrightarrow> wt T h' x)" using 4 v by auto
    with same v show ?thesis by (auto simp: list_all_iff cong: map_cong)
  qed (auto split: gv.splits option.splits)
qed (auto split: gv.splits)

lemmas frame = frame_and_fields(1) [THEN conjunct1] frame_and_fields(1) [THEN conjunct2, THEN conjunct1]
  frame_and_fields(1) [THEN conjunct2, THEN conjunct2, rule_format]

lemma wt_reach_bound:
  "wt T h v \<Longrightarrow> \<forall>a \<in> set (reach T h v). a < length h"
  "wt_fields fs h v \<Longrightarrow> \<forall>a \<in> set (reach_fields fs h v). a < length h"
  by (induction T h v and fs h v rule: reach_reach_fields.induct)
    (auto simp: list_all_iff split: gv.splits option.splits dest: is_cell_bound)

text \<open>A value stays what it is while the heap grows.\<close>

lemma wt_extends: "heap_extends h h' \<Longrightarrow> wt T h v \<Longrightarrow> wt T h' v"
  and denotes_extends: "heap_extends h h' \<Longrightarrow> wt T h v \<Longrightarrow> denotes T h' v = denotes T h v"
  and reach_extends: "heap_extends h h' \<Longrightarrow> wt T h v \<Longrightarrow> reach T h' v = reach T h v"
  using frame [of T h v h'] wt_reach_bound(1) [of T h v] by (auto simp: cell_at_heap_extends)

lemmas grows = wt_extends denotes_extends reach_extends

lemma flat_reach: "flat T \<Longrightarrow> reach T h v = []" "flat_fields fs \<Longrightarrow> reach_fields fs h v = []"
  by (induction T h v and fs h v rule: reach_reach_fields.induct) auto

lemma flat_wt: "flat T \<Longrightarrow> wt T h v \<Longrightarrow> wt T h' v" and flat_denotes: "flat T \<Longrightarrow> denotes T h v = denotes T h' v"
  using frame [of T h v h'] flat_reach(1) [of T h v] by auto

section \<open>Deep copies\<close>

text \<open>
  The result of copying a value: the heap has only grown, and the copy is a value of the same layout that denotes the same
  tree and leads to new addresses only.
\<close>

definition copies :: "gty \<Rightarrow> gv \<Rightarrow> gheap \<Rightarrow> gv \<times> gheap \<Rightarrow> bool" where
  "copies T v h r \<longleftrightarrow> (case r of (v', h') \<Rightarrow> heap_extends h h' \<and> wt T h' v' \<and> denotes T h' v' = denotes T h v \<and>
     list_all (\<lambda>a. length h \<le> a) (reach T h' v'))"

lemma copies_iff: "copies T v h (v', h') \<longleftrightarrow> heap_extends h h' \<and> wt T h' v' \<and> denotes T h' v' = denotes T h v \<and>
    (\<forall>a \<in> set (reach T h' v'). length h \<le> a)"
  by (simp add: copies_def list_all_iff)

text \<open>A copy made in a larger heap, and kept while the heap grows further, is a copy.\<close>

lemma copies_grows:
  assumes "heap_extends h h1" "wt T h v" "copies T v h1 (y, h2)" "heap_extends h2 h3"
  shows "copies T v h (y, h3)"
  using assms heap_extends_length [OF assms(1)] by (auto simp: copies_iff grows intro: heap_extends_trans order_trans)

text \<open>What a copying method promises for every value of its layout.\<close>

locale deep_copier =
  fixes T :: gty and f :: copier
  assumes copy: "wt T h v \<Longrightarrow> copies T v h (f v h)"
begin

text \<open>Copying a list of values one after the other.\<close>

lemma copy_all_copies:
  assumes "copy_all f xs h = (ys, h')" "\<forall>x \<in> set xs. wt T h x"
  shows "heap_extends h h' \<and> list_all2 (\<lambda>x y. copies T x h (y, h')) xs ys"
  using assms
proof (induction xs arbitrary: h ys)
  case (Cons x xs)
  obtain y h1 where y: "f x h = (y, h1)" by fastforce
  obtain zs where zs: "copy_all f xs h1 = (zs, h')" "ys = y # zs" using Cons.prems(1) y by (auto split: prod.splits)
  have x: "wt T h x" using Cons.prems(2) by simp
  with copy [OF x] y have c: "copies T x h (y, h1)" by simp
  then have e: "heap_extends h h1" by (simp add: copies_iff)
  have old: "\<forall>x \<in> set xs. wt T h1 x" using Cons.prems(2) e by (simp add: grows)
  from Cons.IH [OF zs(1) old] have r: "heap_extends h1 h'" "list_all2 (\<lambda>x y. copies T x h1 (y, h')) xs zs" by auto
  have "list_all2 (\<lambda>x y. copies T x h (y, h')) xs zs"
    using r(2) Cons.prems(2) e by (auto simp: list_all2_conv_all_nth intro: copies_grows [OF e _ _ heap_extends_refl])
  moreover have "copies T x h (y, h')" using copies_grows [OF heap_extends_refl x c r(1)] .
  ultimately show ?case using zs(2) heap_extends_trans [OF e r(1)] by simp
qed simp

text \<open>
  Whoever has only the copy, and may write to every cell it leads to, cannot change what the original denotes.
\<close>

lemma original_isolated:
  assumes "wt T h v" "f v h = (v', h')" "\<forall>a. a \<notin> set (reach T h' v') \<longrightarrow> cell_at h'' a = cell_at h' a"
  shows "denotes T h'' v = denotes T h v"
proof -
  from copy [OF assms(1)] assms(2) have k: "heap_extends h h'" "\<forall>a \<in> set (reach T h' v'). length h \<le> a"
    by (simp_all add: copies_iff)
  have "cell_at h'' a = cell_at h a" if "a \<in> set (reach T h v)" for a
  proof -
    have "a < length h" using wt_reach_bound(1) [OF assms(1)] that by blast
    then show ?thesis using assms(3) k by (metis cell_at_heap_extends not_le)
  qed
  then show ?thesis by (intro frame(1)) simp
qed

end

section \<open>The building blocks\<close>

named_theorems copier_intros \<open>the building blocks of the generated methods are deep copies\<close>

lemma assign_copier [copier_intros]: "flat T \<Longrightarrow> deep_copier T assign"
  by unfold_locales (simp add: assign_def flat_reach copies_iff)

lemma new_with_copier [copier_intros]:
  assumes "deep_copier T f"
  shows "deep_copier (TPtr T) (new_with f)"
proof
  fix h v
  assume "wt (TPtr T) h v"
  then show "copies (TPtr T) v h (new_with f v h)"
  proof (cases rule: wt_PtrE)
    case (2 a)
    obtain y h1 where y: "f (val_at h a) h = (y, h1)" by fastforce
    with deep_copier.copy [OF assms 2(3)] have "copies T (val_at h a) h (y, h1 @ [CVal y])"
      by (auto intro: copies_grows [OF heap_extends_refl 2(3)])
    moreover from this have "length h \<le> length h1" using deep_copier.copy [OF assms 2(3)] y
      by (simp add: copies_iff heap_extends_length)
    ultimately show ?thesis using 2(1) y by (simp add: new_with_def alloc_def is_var_def val_at_def [of "_ @ [_]"] copies_iff)
  qed (simp add: new_with_def copies_iff)
qed

text \<open>The elements of a copied list, and where they are.\<close>

lemma copied_elements:
  assumes "list_all2 (\<lambda>x y. copies T x h (y, h')) xs ys" "heap_extends h h'" "heap_extends h' h''"
  shows "map (denotes T h'') ys = map (denotes T h) xs" "\<forall>y \<in> set ys. wt T h'' y"
    "\<forall>y \<in> set ys. \<forall>a \<in> set (reach T h'' y). length h \<le> a" "length ys = length xs"
proof -
  have "\<exists>x. copies T x h (y, h')" if "y \<in> set ys" for y
    using that assms(1) by (auto simp: list_all2_conv_all_nth in_set_conv_nth)
  then have "\<forall>y \<in> set ys. wt T h' y \<and> (\<forall>a \<in> set (reach T h' y). length h \<le> a)" by (auto simp: copies_iff)
  moreover have "map (denotes T h') ys = map (denotes T h) xs"
    using assms(1) by (auto simp: list_all2_conv_all_nth copies_iff intro!: nth_equalityI)
  ultimately show "map (denotes T h'') ys = map (denotes T h) xs" "\<forall>y \<in> set ys. wt T h'' y"
    "\<forall>y \<in> set ys. \<forall>a \<in> set (reach T h'' y). length h \<le> a"
    using assms(3) by (simp_all add: grows cong: map_cong)
qed (use assms(1) in \<open>simp add: list_all2_lengthD\<close>)

lemma make_each_copier [copier_intros]:
  assumes "deep_copier T f"
  shows "deep_copier (TSlice T) (make_each f)"
proof
  fix h v
  assume "wt (TSlice T) h v"
  then show "copies (TSlice T) v h (make_each f v h)"
  proof (cases rule: wt_SliceE)
    case (2 s)
    obtain ys h1 where ys: "copy_all f (elems h s) h = (ys, h1)" by fastforce
    let ?h2 = "h1 @ [CArr ys]"
    from deep_copier.copy_all_copies [OF assms ys 2(3)] have all: "heap_extends h h1"
      "list_all2 (\<lambda>x y. copies T x h (y, h1)) (elems h s) ys" by auto
    note c = copied_elements [OF all(2,1) heap_extends_snoc [of h1 "[CArr ys]"]]
    have "elems ?h2 (length h1, 0, length ys) = ys" "is_slice ?h2 (length h1, 0, length ys)"
      by (simp_all add: elems_def arr_at_def is_slice_def)
    then show ?thesis using 2(1) ys c heap_extends_length [OF all(1)] heap_extends_trans [OF all(1) heap_extends_snoc [of h1 "[CArr ys]"]]
      by (simp add: make_each_def alloc_def copies_iff list_all_iff)
  qed (simp add: make_each_def copies_iff)
qed

lemma make_map_copier [copier_intros]:
  assumes "deep_copier T f"
  shows "deep_copier (TMap T) (make_map f)"
proof
  fix h v
  assume "wt (TMap T) h v"
  then show "copies (TMap T) v h (make_map f v h)"
  proof (cases rule: wt_MapE)
    case (2 a)
    obtain ys h1 where ys: "copy_all f (map snd (map_at h a)) h = (ys, h1)" by fastforce
    let ?m = "zip (map fst (map_at h a)) ys"
    let ?h2 = "h1 @ [CMap ?m]"
    from deep_copier.copy_all_copies [OF assms ys 2(3)] have all: "heap_extends h h1"
      "list_all2 (\<lambda>x y. copies T x h (y, h1)) (map snd (map_at h a)) ys" by auto
    note c = copied_elements [OF all(2,1) heap_extends_snoc [of h1 "[CMap ?m]"]]
    have len: "length ys = length (map_at h a)" using c(4) by simp
    then have snd: "map snd ?m = ys" and fst: "map fst ?m = map fst (map_at h a)" by simp_all
    have keys: "distinct (map fst (map_at h a))" using 2(2) by (simp add: is_map_def map_at_def split: option.splits cell.splits)
    have m: "map_at ?h2 (length h1) = ?m" "is_map ?h2 (length h1)" using keys fst by (simp_all add: map_at_def is_map_def)
    have "map (\<lambda>p. (fst p, denotes T ?h2 (snd p))) ?m = map (\<lambda>p. (fst p, denotes T h (snd p))) (map_at h a)"
      using c(1) len by (auto simp: list_eq_iff_nth_eq)
    then show ?thesis
      using 2(1) ys c(2,3) m snd heap_extends_length [OF all(1)] heap_extends_trans [OF all(1) heap_extends_snoc [of h1 "[CMap ?m]"]]
      by (simp add: make_map_def alloc_def copies_iff list_all_iff)
  qed (simp add: make_map_def copies_iff)
qed

lemma deref_copy_copier [copier_intros]:
  assumes "deep_copier (TPtr T) g"
  shows "deep_copier T (deref_copy g)"
proof
  fix h x
  assume x: "wt T h x"
  let ?h1 = "h @ [CVal x]" and ?p = "VPtr (Some (length h))"
  obtain p h2 where g: "g ?p ?h1 = (p, h2)" by fastforce
  have "wt (TPtr T) ?h1 ?p" using wt_extends [OF heap_extends_snoc x] by (simp add: is_var_def val_at_def)
  from deep_copier.copy [OF assms this] g have c: "copies (TPtr T) ?p ?h1 (p, h2)" by simp
  moreover have "denotes (TPtr T) ?h1 ?p = GPtr (denotes T h x)" using denotes_extends [OF heap_extends_snoc x] by (simp add: val_at_def)
  ultimately obtain b where b: "p = VPtr (Some b)" "denotes T h2 (val_at h2 b) = denotes T h x"
    by (auto simp: copies_iff split: gv.splits option.splits)
  then have "copies T x h (val_at h2 b, h2)" using c
    by (auto simp: copies_iff intro: heap_extends_trans [OF heap_extends_snoc [of h "[CVal x]"]])
  then show "copies T x h (deref_copy g x h)" using g b(1) by (simp add: deref_copy_def alloc_def)
qed

text \<open>A struct, field by field.\<close>

lemma field_set_field:
  "n \<in> fst ` set (struct_fields out) \<Longrightarrow> field (set_field n y out) m = (if m = n then y else field out m)"
proof -
  assume "n \<in> fst ` set (struct_fields out)"
  moreover have "map_of (map (\<lambda>(m, x). (m, if m = n then y else x)) xs) m =
      (if m = n then (if n \<in> set (map fst xs) then Some y else None) else map_of xs m)" for xs
    by (induction xs) (auto simp del: set_map)
  ultimately show ?thesis by (simp add: field_def set_field_def struct_fields_def)
qed

lemma keys_set_field [simp]: "map fst (struct_fields (set_field n y out)) = map fst (struct_fields out)"
  by (simp add: set_field_def struct_fields_def case_prod_beta' comp_def)

lemma fields_into_copies:
  assumes "fields_into cs v out h = (out', h')" "distinct (map fst cs)"
    and "\<forall>(n, f) \<in> set cs. n \<in> fst ` set (struct_fields out) \<and> wt (ty n) h (field v n) \<and> deep_copier (ty n) f"
  shows "heap_extends h h' \<and> map fst (struct_fields out') = map fst (struct_fields out) \<and> (\<exists>xs. out' = VStruct xs \<or> out' = out) \<and>
    (\<forall>n \<in> fst ` set cs. copies (ty n) (field v n) h (field out' n, h')) \<and>
    (\<forall>n. n \<notin> fst ` set cs \<longrightarrow> field out' n = field out n)"
  using assms
proof (induction cs arbitrary: out h)
  case (Cons c cs)
  obtain n f where c: "c = (n, f)" by fastforce
  obtain y h1 where y: "f (field v n) h = (y, h1)" by fastforce
  let ?out = "set_field n y out"
  have n: "n \<in> fst ` set (struct_fields out)" "wt (ty n) h (field v n)" "deep_copier (ty n) f" "n \<notin> fst ` set cs"
    using Cons.prems(2,3) c by auto
  have cp: "copies (ty n) (field v n) h (y, h1)" using deep_copier.copy [OF n(3,2)] y by simp
  then have e: "heap_extends h h1" by (simp add: copies_iff)
  have rest: "fields_into cs v ?out h1 = (out', h')" using Cons.prems(1) c y by simp
  have keys: "fst ` set (struct_fields ?out) = fst ` set (struct_fields out)" by (metis keys_set_field set_map)
  have "\<forall>(n, f) \<in> set cs. n \<in> fst ` set (struct_fields ?out) \<and> wt (ty n) h1 (field v n) \<and> deep_copier (ty n) f"
    using Cons.prems(3) e keys by (auto simp: grows)
  from Cons.IH [OF rest _ this] Cons.prems(2) have IH: "heap_extends h1 h'"
    "map fst (struct_fields out') = map fst (struct_fields ?out)" "\<exists>xs. out' = VStruct xs \<or> out' = ?out"
    "\<forall>m \<in> fst ` set cs. copies (ty m) (field v m) h1 (field out' m, h')"
    "\<forall>m. m \<notin> fst ` set cs \<longrightarrow> field out' m = field ?out m" by auto
  have "copies (ty m) (field v m) h (field out' m, h')" if "m \<in> fst ` set cs" for m
  proof -
    have "wt (ty m) h (field v m)" using that Cons.prems(3) by auto
    with that IH(4) show ?thesis by (blast intro: copies_grows [OF e _ _ heap_extends_refl])
  qed
  moreover have "copies (ty n) (field v n) h (field out' n, h')"
    using copies_grows [OF heap_extends_refl n(2) cp IH(1)] IH(5) n(1,4) by (simp add: field_set_field)
  moreover have "field out' m = field out m" if "m \<notin> fst ` set (c # cs)" for m
    using that IH(5) c n(1) by (simp add: field_set_field)
  moreover have "\<exists>xs. out' = VStruct xs" using IH(3) by (auto simp: set_field_def)
  ultimately show ?case using IH(2) heap_extends_trans [OF e IH(1)] c by auto
qed simp

text \<open>
  What makes the statements of a method complete for a struct: every field is copied by a method for its layout or is
  copied by the assignment, and no field is copied twice.
\<close>

definition complete_for :: "(string \<times> gty) list \<Rightarrow> (string \<times> copier) list \<Rightarrow> bool" where
  "complete_for fs cs \<longleftrightarrow> distinct (map fst fs) \<and> distinct (map fst cs) \<and> list_all (\<lambda>c. fst c \<in> set (map fst fs)) cs \<and>
     list_all (\<lambda>(n, T). case map_of cs n of Some f \<Rightarrow> deep_copier T f | None \<Rightarrow> flat T) fs"

lemma struct_into_copier:
  assumes "complete_for fs cs"
  shows "deep_copier (TStruct fs) (struct_into cs)"
proof
  fix h v
  assume "wt (TStruct fs) h v"
  then obtain xs where v: "v = VStruct xs" "map fst xs = map fst fs" and fields: "\<And>n T. (n, T) \<in> set fs \<Longrightarrow> wt T h (field v n)"
    by (auto simp: wt_fields_iff split: gv.splits)
  define ty where "ty n = the (map_of fs n)" for n
  have ty: "ty n = T" if "(n, T) \<in> set fs" for n T using that assms by (simp add: ty_def complete_for_def)
  obtain out' h' where r: "fields_into cs v v h = (out', h')" by fastforce
  have "n \<in> fst ` set (struct_fields v) \<and> wt (ty n) h (field v n) \<and> deep_copier (ty n) f" if c: "(n, f) \<in> set cs" for n f
  proof -
    obtain T where T: "(n, T) \<in> set fs" using c assms by (fastforce simp: complete_for_def list_all_iff)
    moreover have "map_of cs n = Some f" using c assms by (simp add: complete_for_def)
    ultimately have "deep_copier T f" using assms by (auto simp: complete_for_def list_all_iff)
    with T fields ty v show ?thesis by (simp add: struct_fields_def) (metis fst_conv image_eqI set_map v(2))
  qed
  then have "\<forall>(n, f) \<in> set cs. n \<in> fst ` set (struct_fields v) \<and> wt (ty n) h (field v n) \<and> deep_copier (ty n) f" by auto
  from fields_into_copies [OF r _ this] assms have R: "heap_extends h h'" "map fst (struct_fields out') = map fst fs"
    "\<exists>xs. out' = VStruct xs"
    "\<forall>n \<in> fst ` set cs. copies (ty n) (field v n) h (field out' n, h')"
    "\<forall>n. n \<notin> fst ` set cs \<longrightarrow> field out' n = field v n"
    using v by (auto simp: complete_for_def struct_fields_def)
  have "copies T (field v n) h (field out' n, h')" if "(n, T) \<in> set fs" for n T
  proof (cases "n \<in> fst ` set cs")
    case True
    with R(4) ty [OF that] show ?thesis by blast
  next
    case False
    then have "map_of cs n = None" by (simp add: map_of_eq_None_iff)
    then have "flat T" using that assms by (auto simp: complete_for_def list_all_iff)
    with False R(1,5) fields [OF that] show ?thesis by (simp add: copies_iff grows flat_reach)
  qed
  then show "copies (TStruct fs) v h (struct_into cs v h)" using R(1-3) r
    by (auto simp: struct_into_def copies_iff wt_fields_iff denotes_fields_map reach_fields_set struct_fields_def)
qed

end
