(* ===== verification/Api_Deep_Copies.thy ===== *)
theory Api_Deep_Copies
  imports Deep_Copy
begin

text \<open>
  The types of \<^verbatim>\<open>api/v1\<close> and the methods \<^verbatim>\<open>DeepCopyInto\<close>, \<^verbatim>\<open>DeepCopy\<close> and
  \<^verbatim>\<open>DeepCopyObject\<close> that controller-gen wrote for them (\<^verbatim>\<open>zz\_generated.deepcopy.go\<close>). A
  layout is the struct declaration of the type, a method the statements of the generated one in their order. The types of
  other modules are a parameter: a layout with its two copying methods.
\<close>

section \<open>Types of other modules\<close>

record external =
  ext_layout :: gty
  ext_DeepCopyInto :: copier
  ext_DeepCopy :: copier

type_synonym external_types = "string \<Rightarrow> external"

text \<open>
  What the API modules document of their types: both methods make deep copies, and the types that are strings, numbers or
  structs of such have no references. The generated code copies the latter by assignment.
\<close>

definition plain_types :: "string list" where
  "plain_types = [''corev1.ServiceType'', ''intstr.IntOrString'', ''metav1.Duration'', ''metav1.TypeMeta'', ''monitoringv1.Duration'', ''monitoringv1.NonEmptyDuration'']"

definition external_documented :: "external_types \<Rightarrow> bool" where
  "external_documented X \<longleftrightarrow>
     (\<forall>n. deep_copier (ext_layout (X n)) (ext_DeepCopyInto (X n)) \<and> deep_copier (TPtr (ext_layout (X n))) (ext_DeepCopy (X n))) \<and>
     list_all (\<lambda>n. flat (ext_layout (X n))) plain_types"

section \<open>The types and their methods\<close>

definition AWSConfig_layout :: "gty" where
  "AWSConfig_layout = TStruct [(''AWSAccessKeySecret'', TPtr TScalar)]"

definition AWSConfig_DeepCopyInto :: "copier" where
  "AWSConfig_DeepCopyInto = struct_into [(''AWSAccessKeySecret'', new_with assign)]"

definition AWSConfig_DeepCopy :: "copier" where
  "AWSConfig_DeepCopy = new_with AWSConfig_DeepCopyInto"

definition AuditLogstreamConfig_layout :: "gty" where
  "AuditLogstreamConfig_layout = TStruct [(''Disabled'', TScalar)]"

definition AuditLogstreamConfig_DeepCopyInto :: "copier" where
  "AuditLogstreamConfig_DeepCopyInto = struct_into []"

definition AuditLogstreamConfig_DeepCopy :: "copier" where
  "AuditLogstreamConfig_DeepCopy = new_with AuditLogstreamConfig_DeepCopyInto"

definition LogstreamConfig_layout :: "gty" where
  "LogstreamConfig_layout = TStruct [(''MinSeverity'', TPtr TScalar), (''Disabled'', TScalar)]"

definition LogstreamConfig_DeepCopyInto :: "copier" where
  "LogstreamConfig_DeepCopyInto = struct_into [(''MinSeverity'', new_with assign)]"

definition LogstreamConfig_DeepCopy :: "copier" where
  "LogstreamConfig_DeepCopy = new_with LogstreamConfig_DeepCopyInto"

definition S3LogsConfig_layout :: "gty" where
  "S3LogsConfig_layout = TStruct [(''AuditLogs'', TPtr AuditLogstreamConfig_layout), (''CollectorLogs'', TPtr LogstreamConfig_layout),
     (''HubLogs'', TPtr LogstreamConfig_layout), (''OtherLogs'', TPtr LogstreamConfig_layout),
     (''S3Region'', TScalar), (''S3Bucket'', TScalar)]"

definition S3LogsConfig_DeepCopyInto :: "copier" where
  "S3LogsConfig_DeepCopyInto = struct_into [(''AuditLogs'', new_with assign), (''CollectorLogs'', new_with LogstreamConfig_DeepCopyInto),
     (''HubLogs'', new_with LogstreamConfig_DeepCopyInto), (''OtherLogs'', new_with LogstreamConfig_DeepCopyInto)]"

definition S3LogsConfig_DeepCopy :: "copier" where
  "S3LogsConfig_DeepCopy = new_with S3LogsConfig_DeepCopyInto"

definition OtlpLogsConfig_layout :: "gty" where
  "OtlpLogsConfig_layout = TStruct [(''AuditLogs'', TPtr AuditLogstreamConfig_layout), (''CollectorLogs'', TPtr LogstreamConfig_layout),
     (''HubLogs'', TPtr LogstreamConfig_layout), (''OtherLogs'', TPtr LogstreamConfig_layout),
     (''Endpoint'', TScalar)]"

definition OtlpLogsConfig_DeepCopyInto :: "copier" where
  "OtlpLogsConfig_DeepCopyInto = struct_into [(''AuditLogs'', new_with assign), (''CollectorLogs'', new_with LogstreamConfig_DeepCopyInto),
     (''HubLogs'', new_with LogstreamConfig_DeepCopyInto), (''OtherLogs'', new_with LogstreamConfig_DeepCopyInto)]"

definition OtlpLogsConfig_DeepCopy :: "copier" where
  "OtlpLogsConfig_DeepCopy = new_with OtlpLogsConfig_DeepCopyInto"

definition LogsConfig_layout :: "gty" where
  "LogsConfig_layout = TStruct [(''S3'', TPtr S3LogsConfig_layout), (''Otlp'', TPtr OtlpLogsConfig_layout)]"

definition LogsConfig_DeepCopyInto :: "copier" where
  "LogsConfig_DeepCopyInto = struct_into [(''S3'', new_with S3LogsConfig_DeepCopyInto), (''Otlp'', new_with OtlpLogsConfig_DeepCopyInto)]"

definition LogsConfig_DeepCopy :: "copier" where
  "LogsConfig_DeepCopy = new_with LogsConfig_DeepCopyInto"

definition MdaiCollectorSpec_layout :: "external_types \<Rightarrow> gty" where
  "MdaiCollectorSpec_layout X = TStruct [(''AWSConfig'', TPtr AWSConfig_layout), (''Logs'', TPtr LogsConfig_layout), (''Image'', TScalar),
     (''Replicas'', TScalar), (''Tolerations'', TSlice (ext_layout (X ''corev1.Toleration'')))]"

definition MdaiCollectorSpec_DeepCopyInto :: "external_types \<Rightarrow> copier" where
  "MdaiCollectorSpec_DeepCopyInto X = struct_into [(''AWSConfig'', new_with AWSConfig_DeepCopyInto), (''Logs'', new_with LogsConfig_DeepCopyInto),
     (''Tolerations'', make_each (ext_DeepCopyInto (X ''corev1.Toleration'')))]"

definition MdaiCollectorSpec_DeepCopy :: "external_types \<Rightarrow> copier" where
  "MdaiCollectorSpec_DeepCopy X = new_with (MdaiCollectorSpec_DeepCopyInto X)"

definition MdaiCollectorStatus_layout :: "external_types \<Rightarrow> gty" where
  "MdaiCollectorStatus_layout X = TStruct [(''LastUpdatedTime'', TPtr (ext_layout (X ''metav1.Time''))),
     (''Conditions'', TSlice (ext_layout (X ''metav1.Condition'')))]"

definition MdaiCollectorStatus_DeepCopyInto :: "external_types \<Rightarrow> copier" where
  "MdaiCollectorStatus_DeepCopyInto X = struct_into [(''LastUpdatedTime'', ext_DeepCopy (X ''metav1.Time'')),
     (''Conditions'', make_each (ext_DeepCopyInto (X ''metav1.Condition'')))]"

definition MdaiCollectorStatus_DeepCopy :: "external_types \<Rightarrow> copier" where
  "MdaiCollectorStatus_DeepCopy X = new_with (MdaiCollectorStatus_DeepCopyInto X)"

definition MdaiCollector_layout :: "external_types \<Rightarrow> gty" where
  "MdaiCollector_layout X = TStruct [(''TypeMeta'', ext_layout (X ''metav1.TypeMeta'')), (''ObjectMeta'', ext_layout (X ''metav1.ObjectMeta'')),
     (''Spec'', (MdaiCollectorSpec_layout X)), (''Status'', (MdaiCollectorStatus_layout X))]"

definition MdaiCollector_DeepCopyInto :: "external_types \<Rightarrow> copier" where
  "MdaiCollector_DeepCopyInto X = struct_into [(''TypeMeta'', assign), (''ObjectMeta'', ext_DeepCopyInto (X ''metav1.ObjectMeta'')),
     (''Spec'', (MdaiCollectorSpec_DeepCopyInto X)), (''Status'', (MdaiCollectorStatus_DeepCopyInto X))]"

definition MdaiCollector_DeepCopy :: "external_types \<Rightarrow> copier" where
  "MdaiCollector_DeepCopy X = new_with (MdaiCollector_DeepCopyInto X)"

definition MdaiCollector_DeepCopyObject :: "external_types \<Rightarrow> gv \<Rightarrow> gheap \<Rightarrow> gv option \<times> gheap" where
  "MdaiCollector_DeepCopyObject X = deep_copy_object (MdaiCollector_DeepCopy X)"

definition MdaiCollectorList_layout :: "external_types \<Rightarrow> gty" where
  "MdaiCollectorList_layout X = TStruct [(''TypeMeta'', ext_layout (X ''metav1.TypeMeta'')), (''ListMeta'', ext_layout (X ''metav1.ListMeta'')),
     (''Items'', TSlice (MdaiCollector_layout X))]"

definition MdaiCollectorList_DeepCopyInto :: "external_types \<Rightarrow> copier" where
  "MdaiCollectorList_DeepCopyInto X = struct_into [(''TypeMeta'', assign), (''ListMeta'', ext_DeepCopyInto (X ''metav1.ListMeta'')),
     (''Items'', make_each (MdaiCollector_DeepCopyInto X))]"

definition MdaiCollectorList_DeepCopy :: "external_types \<Rightarrow> copier" where
  "MdaiCollectorList_DeepCopy X = new_with (MdaiCollectorList_DeepCopyInto X)"

definition MdaiCollectorList_DeepCopyObject :: "external_types \<Rightarrow> gv \<Rightarrow> gheap \<Rightarrow> gv option \<times> gheap" where
  "MdaiCollectorList_DeepCopyObject X = deep_copy_object (MdaiCollectorList_DeepCopy X)"

definition MdaiDalAWSCredentials_layout :: "gty" where
  "MdaiDalAWSCredentials_layout = TStruct [(''SecretName'', TScalar), (''AccessKeyField'', TScalar), (''SecretKeyField'', TScalar)]"

definition MdaiDalAWSCredentials_DeepCopyInto :: "copier" where
  "MdaiDalAWSCredentials_DeepCopyInto = struct_into []"

definition MdaiDalAWSCredentials_DeepCopy :: "copier" where
  "MdaiDalAWSCredentials_DeepCopy = new_with MdaiDalAWSCredentials_DeepCopyInto"

definition MdaiDalAWSConfig_layout :: "gty" where
  "MdaiDalAWSConfig_layout = TStruct [(''Region'', TScalar), (''Credentials'', MdaiDalAWSCredentials_layout)]"

definition MdaiDalAWSConfig_DeepCopyInto :: "copier" where
  "MdaiDalAWSConfig_DeepCopyInto = struct_into [(''Credentials'', assign)]"

definition MdaiDalAWSConfig_DeepCopy :: "copier" where
  "MdaiDalAWSConfig_DeepCopy = new_with MdaiDalAWSConfig_DeepCopyInto"

definition MdaiDalImageSpec_layout :: "gty" where
  "MdaiDalImageSpec_layout = TStruct [(''Repository'', TScalar), (''Tag'', TScalar), (''PullPolicy'', TScalar)]"

definition MdaiDalImageSpec_DeepCopyInto :: "copier" where
  "MdaiDalImageSpec_DeepCopyInto = struct_into []"

definition MdaiDalImageSpec_DeepCopy :: "copier" where
  "MdaiDalImageSpec_DeepCopy = new_with MdaiDalImageSpec_DeepCopyInto"

definition MdaiDalS3Config_layout :: "gty" where
  "MdaiDalS3Config_layout = TStruct [(''Bucket'', TScalar), (''Prefix'', TScalar)]"

definition MdaiDalS3Config_DeepCopyInto :: "copier" where
  "MdaiDalS3Config_DeepCopyInto = struct_into []"

definition MdaiDalS3Config_DeepCopy :: "copier" where
  "MdaiDalS3Config_DeepCopy = new_with MdaiDalS3Config_DeepCopyInto"

definition MdaiDalSpec_layout :: "gty" where
  "MdaiDalSpec_layout = TStruct [(''Granularity'', TScalar), (''UsePayloadTS'', TScalar), (''Marshaler'', TScalar),
     (''S3'', MdaiDalS3Config_layout), (''AWS'', MdaiDalAWSConfig_layout),
     (''ImageSpec'', TPtr MdaiDalImageSpec_layout)]"

definition MdaiDalSpec_DeepCopyInto :: "copier" where
  "MdaiDalSpec_DeepCopyInto = struct_into [(''S3'', assign), (''AWS'', assign), (''ImageSpec'', new_with assign)]"

definition MdaiDalSpec_DeepCopy :: "copier" where
  "MdaiDalSpec_DeepCopy = new_with MdaiDalSpec_DeepCopyInto"

definition MdaiDalStatus_layout :: "external_types \<Rightarrow> gty" where
  "MdaiDalStatus_layout X = TStruct [(''Conditions'', TSlice (ext_layout (X ''metav1.Condition''))), (''ObservedGeneration'', TScalar),
     (''Replicas'', TScalar), (''ReadyReplicas'', TScalar), (''Endpoint'', TScalar),
     (''LastSyncedTime'', ext_layout (X ''metav1.Time''))]"

definition MdaiDalStatus_DeepCopyInto :: "external_types \<Rightarrow> copier" where
  "MdaiDalStatus_DeepCopyInto X = struct_into [(''Conditions'', make_each (ext_DeepCopyInto (X ''metav1.Condition''))),
     (''LastSyncedTime'', ext_DeepCopyInto (X ''metav1.Time''))]"

definition MdaiDalStatus_DeepCopy :: "external_types \<Rightarrow> copier" where
  "MdaiDalStatus_DeepCopy X = new_with (MdaiDalStatus_DeepCopyInto X)"

definition MdaiDal_layout :: "external_types \<Rightarrow> gty" where
  "MdaiDal_layout X = TStruct [(''TypeMeta'', ext_layout (X ''metav1.TypeMeta'')), (''ObjectMeta'', ext_layout (X ''metav1.ObjectMeta'')),
     (''Spec'', MdaiDalSpec_layout), (''Status'', (MdaiDalStatus_layout X))]"

definition MdaiDal_DeepCopyInto :: "external_types \<Rightarrow> copier" where
  "MdaiDal_DeepCopyInto X = struct_into [(''TypeMeta'', assign), (''ObjectMeta'', ext_DeepCopyInto (X ''metav1.ObjectMeta'')),
     (''Spec'', MdaiDalSpec_DeepCopyInto), (''Status'', (MdaiDalStatus_DeepCopyInto X))]"

definition MdaiDal_DeepCopy :: "external_types \<Rightarrow> copier" where
  "MdaiDal_DeepCopy X = new_with (MdaiDal_DeepCopyInto X)"

definition MdaiDal_DeepCopyObject :: "external_types \<Rightarrow> gv \<Rightarrow> gheap \<Rightarrow> gv option \<times> gheap" where
  "MdaiDal_DeepCopyObject X = deep_copy_object (MdaiDal_DeepCopy X)"

definition MdaiDalList_layout :: "external_types \<Rightarrow> gty" where
  "MdaiDalList_layout X = TStruct [(''TypeMeta'', ext_layout (X ''metav1.TypeMeta'')), (''ListMeta'', ext_layout (X ''metav1.ListMeta'')),
     (''Items'', TSlice (MdaiDal_layout X))]"

definition MdaiDalList_DeepCopyInto :: "external_types \<Rightarrow> copier" where
  "MdaiDalList_DeepCopyInto X = struct_into [(''TypeMeta'', assign), (''ListMeta'', ext_DeepCopyInto (X ''metav1.ListMeta'')),
     (''Items'', make_each (MdaiDal_DeepCopyInto X))]"

definition MdaiDalList_DeepCopy :: "external_types \<Rightarrow> copier" where
  "MdaiDalList_DeepCopy X = new_with (MdaiDalList_DeepCopyInto X)"

definition MdaiDalList_DeepCopyObject :: "external_types \<Rightarrow> gv \<Rightarrow> gheap \<Rightarrow> gv option \<times> gheap" where
  "MdaiDalList_DeepCopyObject X = deep_copy_object (MdaiDalList_DeepCopy X)"

definition JoinTransformer_layout :: "gty" where
  "JoinTransformer_layout = TStruct [(''Delimiter'', TScalar)]"

definition JoinTransformer_DeepCopyInto :: "copier" where
  "JoinTransformer_DeepCopyInto = struct_into []"

definition JoinTransformer_DeepCopy :: "copier" where
  "JoinTransformer_DeepCopy = new_with JoinTransformer_DeepCopyInto"

definition VariableTransformer_layout :: "gty" where
  "VariableTransformer_layout = TStruct [(''Type'', TScalar), (''Join'', TPtr JoinTransformer_layout)]"

definition VariableTransformer_DeepCopyInto :: "copier" where
  "VariableTransformer_DeepCopyInto = struct_into [(''Join'', new_with assign)]"

definition VariableTransformer_DeepCopy :: "copier" where
  "VariableTransformer_DeepCopy = new_with VariableTransformer_DeepCopyInto"

definition Serializer_layout :: "gty" where
  "Serializer_layout = TStruct [(''Name'', TScalar), (''Transformers'', TSlice VariableTransformer_layout)]"

definition Serializer_DeepCopyInto :: "copier" where
  "Serializer_DeepCopyInto = struct_into [(''Transformers'', make_each VariableTransformer_DeepCopyInto)]"

definition Serializer_DeepCopy :: "copier" where
  "Serializer_DeepCopy = new_with Serializer_DeepCopyInto"

definition Variable_layout :: "gty" where
  "Variable_layout = TStruct [(''Key'', TScalar), (''Type'', TScalar), (''DataType'', TScalar), (''StorageType'', TScalar),
     (''VariableRefs'', TSlice TScalar), (''SerializeAs'', TPtr (TSlice Serializer_layout))]"

definition Variable_DeepCopyInto :: "copier" where
  "Variable_DeepCopyInto = struct_into [(''VariableRefs'', make_each assign), (''SerializeAs'', new_with (make_each Serializer_DeepCopyInto))]"

definition Variable_DeepCopy :: "copier" where
  "Variable_DeepCopy = new_with Variable_DeepCopyInto"

definition PrometheusAlert_layout :: "external_types \<Rightarrow> gty" where
  "PrometheusAlert_layout X = TStruct [(''Name'', TScalar), (''Expr'', ext_layout (X ''intstr.IntOrString'')),
     (''For'', TPtr (ext_layout (X ''monitoringv1.Duration''))),
     (''KeepFiringFor'', TPtr (ext_layout (X ''monitoringv1.NonEmptyDuration''))), (''Severity'', TScalar)]"

definition PrometheusAlert_DeepCopyInto :: "external_types \<Rightarrow> copier" where
  "PrometheusAlert_DeepCopyInto X = struct_into [(''Expr'', assign), (''For'', new_with assign), (''KeepFiringFor'', new_with assign)]"

definition PrometheusAlert_DeepCopy :: "external_types \<Rightarrow> copier" where
  "PrometheusAlert_DeepCopy X = new_with (PrometheusAlert_DeepCopyInto X)"

definition Config_layout :: "external_types \<Rightarrow> gty" where
  "Config_layout X = TStruct [(''EvaluationInterval'', TPtr (ext_layout (X ''monitoringv1.Duration'')))]"

definition Config_DeepCopyInto :: "external_types \<Rightarrow> copier" where
  "Config_DeepCopyInto X = struct_into [(''EvaluationInterval'', new_with assign)]"

definition Config_DeepCopy :: "external_types \<Rightarrow> copier" where
  "Config_DeepCopy X = new_with (Config_DeepCopyInto X)"

definition ValueFromSource_layout :: "external_types \<Rightarrow> gty" where
  "ValueFromSource_layout X = TStruct [(''SecretKeyRef'', TPtr (ext_layout (X ''corev1.SecretKeySelector''))),
     (''ConfigMapKeyRef'', TPtr (ext_layout (X ''corev1.ConfigMapKeySelector'')))]"

definition ValueFromSource_DeepCopyInto :: "external_types \<Rightarrow> copier" where
  "ValueFromSource_DeepCopyInto X = struct_into [(''SecretKeyRef'', new_with (ext_DeepCopyInto (X ''corev1.SecretKeySelector''))),
     (''ConfigMapKeyRef'', new_with (ext_DeepCopyInto (X ''corev1.ConfigMapKeySelector'')))]"

definition ValueFromSource_DeepCopy :: "external_types \<Rightarrow> copier" where
  "ValueFromSource_DeepCopy X = new_with (ValueFromSource_DeepCopyInto X)"

definition StringOrFrom_layout :: "external_types \<Rightarrow> gty" where
  "StringOrFrom_layout X = TStruct [(''Value'', TPtr TScalar), (''ValueFrom'', TPtr (ValueFromSource_layout X))]"

definition StringOrFrom_DeepCopyInto :: "external_types \<Rightarrow> copier" where
  "StringOrFrom_DeepCopyInto X = struct_into [(''Value'', new_with assign), (''ValueFrom'', new_with (ValueFromSource_DeepCopyInto X))]"

definition StringOrFrom_DeepCopy :: "external_types \<Rightarrow> copier" where
  "StringOrFrom_DeepCopy X = new_with (StringOrFrom_DeepCopyInto X)"

definition CallWebhookAction_layout :: "external_types \<Rightarrow> gty" where
  "CallWebhookAction_layout X = TStruct [(''URL'', (StringOrFrom_layout X)), (''Method'', TScalar), (''TemplateRef'', TScalar),
     (''PayloadTemplate'', TPtr (StringOrFrom_layout X)), (''TemplateValues'', TMap TScalar),
     (''TemplateValuesFrom'', TMap (ValueFromSource_layout X)), (''Headers'', TMap TScalar),
     (''HeadersFrom'', TMap (ValueFromSource_layout X)), (''Timeout'', TPtr (ext_layout (X ''metav1.Duration'')))]"

definition CallWebhookAction_DeepCopyInto :: "external_types \<Rightarrow> copier" where
  "CallWebhookAction_DeepCopyInto X = struct_into [(''URL'', (StringOrFrom_DeepCopyInto X)), (''PayloadTemplate'', new_with (StringOrFrom_DeepCopyInto X)),
     (''TemplateValues'', make_map assign),
     (''TemplateValuesFrom'', make_map (deref_copy (ValueFromSource_DeepCopy X))), (''Headers'', make_map assign),
     (''HeadersFrom'', make_map (deref_copy (ValueFromSource_DeepCopy X))), (''Timeout'', new_with assign)]"

definition CallWebhookAction_DeepCopy :: "external_types \<Rightarrow> copier" where
  "CallWebhookAction_DeepCopy X = new_with (CallWebhookAction_DeepCopyInto X)"

definition CleanUpReplayAction_layout :: "gty" where
  "CleanUpReplayAction_layout = TStruct []"

definition CleanUpReplayAction_DeepCopyInto :: "copier" where
  "CleanUpReplayAction_DeepCopyInto = struct_into []"

definition CleanUpReplayAction_DeepCopy :: "copier" where
  "CleanUpReplayAction_DeepCopy = new_with CleanUpReplayAction_DeepCopyInto"

definition MdaiReplayOtlpHttpDestinationConfiguration_layout :: "gty" where
  "MdaiReplayOtlpHttpDestinationConfiguration_layout = TStruct [(''Endpoint'', TScalar)]"

definition MdaiReplayOtlpHttpDestinationConfiguration_DeepCopyInto :: "copier" where
  "MdaiReplayOtlpHttpDestinationConfiguration_DeepCopyInto = struct_into []"

definition MdaiReplayOtlpHttpDestinationConfiguration_DeepCopy :: "copier" where
  "MdaiReplayOtlpHttpDestinationConfiguration_DeepCopy = new_with MdaiReplayOtlpHttpDestinationConfiguration_DeepCopyInto"

definition MdaiReplayDestinationConfiguration_layout :: "gty" where
  "MdaiReplayDestinationConfiguration_layout = TStruct [(''OtlpHttp'', TPtr MdaiReplayOtlpHttpDestinationConfiguration_layout)]"

definition MdaiReplayDestinationConfiguration_DeepCopyInto :: "copier" where
  "MdaiReplayDestinationConfiguration_DeepCopyInto = struct_into [(''OtlpHttp'', new_with assign)]"

definition MdaiReplayDestinationConfiguration_DeepCopy :: "copier" where
  "MdaiReplayDestinationConfiguration_DeepCopy = new_with MdaiReplayDestinationConfiguration_DeepCopyInto"

definition MdaiReplayResourceConfiguration_layout :: "gty" where
  "MdaiReplayResourceConfiguration_layout = TStruct [(''Image'', TScalar)]"

definition MdaiReplayResourceConfiguration_DeepCopyInto :: "copier" where
  "MdaiReplayResourceConfiguration_DeepCopyInto = struct_into []"

definition MdaiReplayResourceConfiguration_DeepCopy :: "copier" where
  "MdaiReplayResourceConfiguration_DeepCopy = new_with MdaiReplayResourceConfiguration_DeepCopyInto"

definition MdaiReplayAwsConfig_layout :: "gty" where
  "MdaiReplayAwsConfig_layout = TStruct [(''AWSAccessKeySecret'', TPtr TScalar)]"

definition MdaiReplayAwsConfig_DeepCopyInto :: "copier" where
  "MdaiReplayAwsConfig_DeepCopyInto = struct_into [(''AWSAccessKeySecret'', new_with assign)]"

definition MdaiReplayAwsConfig_DeepCopy :: "copier" where
  "MdaiReplayAwsConfig_DeepCopy = new_with MdaiReplayAwsConfig_DeepCopyInto"

definition MdaiReplayS3Configuration_layout :: "gty" where
  "MdaiReplayS3Configuration_layout = TStruct [(''S3Region'', TScalar), (''S3Bucket'', TScalar), (''FilePrefix'', TScalar), (''S3Path'', TScalar),
     (''S3Partition'', TScalar)]"

definition MdaiReplayS3Configuration_DeepCopyInto :: "copier" where
  "MdaiReplayS3Configuration_DeepCopyInto = struct_into []"

definition MdaiReplayS3Configuration_DeepCopy :: "copier" where
  "MdaiReplayS3Configuration_DeepCopy = new_with MdaiReplayS3Configuration_DeepCopyInto"

definition MdaiReplaySourceConfiguration_layout :: "gty" where
  "MdaiReplaySourceConfiguration_layout = TStruct [(''AWSConfig'', TPtr MdaiReplayAwsConfig_layout), (''S3'', TPtr MdaiReplayS3Configuration_layout)]"

definition MdaiReplaySourceConfiguration_DeepCopyInto :: "copier" where
  "MdaiReplaySourceConfiguration_DeepCopyInto = struct_into [(''AWSConfig'', new_with MdaiReplayAwsConfig_DeepCopyInto), (''S3'', new_with assign)]"

definition MdaiReplaySourceConfiguration_DeepCopy :: "copier" where
  "MdaiReplaySourceConfiguration_DeepCopy = new_with MdaiReplaySourceConfiguration_DeepCopyInto"

definition MdaiReplaySpec_layout :: "gty" where
  "MdaiReplaySpec_layout = TStruct [(''StartTime'', TScalar), (''EndTime'', TScalar), (''TelemetryType'', TScalar), (''HubName'', TScalar),
     (''StatusVariableRef'', TScalar), (''OpAMPEndpoint'', TScalar), (''IgnoreSendingQueue'', TScalar),
     (''Source'', MdaiReplaySourceConfiguration_layout),
     (''Destination'', MdaiReplayDestinationConfiguration_layout),
     (''Resource'', MdaiReplayResourceConfiguration_layout)]"

definition MdaiReplaySpec_DeepCopyInto :: "copier" where
  "MdaiReplaySpec_DeepCopyInto = struct_into [(''Source'', MdaiReplaySourceConfiguration_DeepCopyInto),
     (''Destination'', MdaiReplayDestinationConfiguration_DeepCopyInto), (''Resource'', assign)]"

definition MdaiReplaySpec_DeepCopy :: "copier" where
  "MdaiReplaySpec_DeepCopy = new_with MdaiReplaySpec_DeepCopyInto"

definition DeployReplayAction_layout :: "gty" where
  "DeployReplayAction_layout = TStruct [(''ReplaySpec'', MdaiReplaySpec_layout)]"

definition DeployReplayAction_DeepCopyInto :: "copier" where
  "DeployReplayAction_DeepCopyInto = struct_into [(''ReplaySpec'', MdaiReplaySpec_DeepCopyInto)]"

definition DeployReplayAction_DeepCopy :: "copier" where
  "DeployReplayAction_DeepCopy = new_with DeployReplayAction_DeepCopyInto"

definition MapAction_layout :: "gty" where
  "MapAction_layout = TStruct [(''Map'', TScalar), (''Key'', TScalar), (''Value'', TPtr TScalar)]"

definition MapAction_DeepCopyInto :: "copier" where
  "MapAction_DeepCopyInto = struct_into [(''Value'', new_with assign)]"

definition MapAction_DeepCopy :: "copier" where
  "MapAction_DeepCopy = new_with MapAction_DeepCopyInto"

definition ScalarAction_layout :: "gty" where
  "ScalarAction_layout = TStruct [(''Scalar'', TScalar), (''Value'', TScalar)]"

definition ScalarAction_DeepCopyInto :: "copier" where
  "ScalarAction_DeepCopyInto = struct_into []"

definition ScalarAction_DeepCopy :: "copier" where
  "ScalarAction_DeepCopy = new_with ScalarAction_DeepCopyInto"

definition SetAction_layout :: "gty" where
  "SetAction_layout = TStruct [(''Set'', TScalar), (''Value'', TScalar)]"

definition SetAction_DeepCopyInto :: "copier" where
  "SetAction_DeepCopyInto = struct_into []"

definition SetAction_DeepCopy :: "copier" where
  "SetAction_DeepCopy = new_with SetAction_DeepCopyInto"

definition Action_layout :: "external_types \<Rightarrow> gty" where
  "Action_layout X = TStruct [(''AddToSet'', TPtr SetAction_layout), (''RemoveFromSet'', TPtr SetAction_layout),
     (''SetVariable'', TPtr ScalarAction_layout), (''AddToMap'', TPtr MapAction_layout),
     (''RemoveFromMap'', TPtr MapAction_layout), (''CallWebhook'', TPtr (CallWebhookAction_layout X)),
     (''DeployReplay'', TPtr DeployReplayAction_layout), (''CleanUpReplay'', TPtr CleanUpReplayAction_layout)]"

definition Action_DeepCopyInto :: "external_types \<Rightarrow> copier" where
  "Action_DeepCopyInto X = struct_into [(''AddToSet'', new_with assign), (''RemoveFromSet'', new_with assign), (''SetVariable'', new_with assign),
     (''AddToMap'', new_with MapAction_DeepCopyInto), (''RemoveFromMap'', new_with MapAction_DeepCopyInto),
     (''CallWebhook'', new_with (CallWebhookAction_DeepCopyInto X)),
     (''DeployReplay'', new_with DeployReplayAction_DeepCopyInto), (''CleanUpReplay'', new_with assign)]"

definition Action_DeepCopy :: "external_types \<Rightarrow> copier" where
  "Action_DeepCopy X = new_with (Action_DeepCopyInto X)"

definition When_layout :: "gty" where
  "When_layout = TStruct [(''AlertName'', TPtr TScalar), (''Status'', TPtr TScalar), (''VariableUpdated'', TPtr TScalar),
     (''UpdateType'', TPtr TScalar)]"

definition When_DeepCopyInto :: "copier" where
  "When_DeepCopyInto = struct_into [(''AlertName'', new_with assign), (''Status'', new_with assign), (''VariableUpdated'', new_with assign),
     (''UpdateType'', new_with assign)]"

definition When_DeepCopy :: "copier" where
  "When_DeepCopy = new_with When_DeepCopyInto"

definition AutomationRule_layout :: "external_types \<Rightarrow> gty" where
  "AutomationRule_layout X = TStruct [(''Name'', TScalar), (''When'', When_layout), (''Then'', TSlice (Action_layout X))]"

definition AutomationRule_DeepCopyInto :: "external_types \<Rightarrow> copier" where
  "AutomationRule_DeepCopyInto X = struct_into [(''When'', When_DeepCopyInto), (''Then'', make_each (Action_DeepCopyInto X))]"

definition AutomationRule_DeepCopy :: "external_types \<Rightarrow> copier" where
  "AutomationRule_DeepCopy X = new_with (AutomationRule_DeepCopyInto X)"

definition MdaiHubSpec_layout :: "external_types \<Rightarrow> gty" where
  "MdaiHubSpec_layout X = TStruct [(''Config'', TPtr (Config_layout X)), (''Variables'', TSlice Variable_layout),
     (''PrometheusAlerts'', TSlice (PrometheusAlert_layout X)), (''Rules'', TSlice (AutomationRule_layout X))]"

definition MdaiHubSpec_DeepCopyInto :: "external_types \<Rightarrow> copier" where
  "MdaiHubSpec_DeepCopyInto X = struct_into [(''Config'', new_with (Config_DeepCopyInto X)), (''Variables'', make_each Variable_DeepCopyInto),
     (''PrometheusAlerts'', make_each (PrometheusAlert_DeepCopyInto X)),
     (''Rules'', make_each (AutomationRule_DeepCopyInto X))]"

definition MdaiHubSpec_DeepCopy :: "external_types \<Rightarrow> copier" where
  "MdaiHubSpec_DeepCopy X = new_with (MdaiHubSpec_DeepCopyInto X)"

definition MdaiHubStatus_layout :: "external_types \<Rightarrow> gty" where
  "MdaiHubStatus_layout X = TStruct [(''HubStatus'', TScalar), (''LastUpdatedTime'', TPtr (ext_layout (X ''metav1.Time''))),
     (''Conditions'', TSlice (ext_layout (X ''metav1.Condition'')))]"

definition MdaiHubStatus_DeepCopyInto :: "external_types \<Rightarrow> copier" where
  "MdaiHubStatus_DeepCopyInto X = struct_into [(''LastUpdatedTime'', ext_DeepCopy (X ''metav1.Time'')),
     (''Conditions'', make_each (ext_DeepCopyInto (X ''metav1.Condition'')))]"

definition MdaiHubStatus_DeepCopy :: "external_types \<Rightarrow> copier" where
  "MdaiHubStatus_DeepCopy X = new_with (MdaiHubStatus_DeepCopyInto X)"

definition MdaiHub_layout :: "external_types \<Rightarrow> gty" where
  "MdaiHub_layout X = TStruct [(''TypeMeta'', ext_layout (X ''metav1.TypeMeta'')), (''ObjectMeta'', ext_layout (X ''metav1.ObjectMeta'')),
     (''Spec'', (MdaiHubSpec_layout X)), (''Status'', (MdaiHubStatus_layout X))]"

definition MdaiHub_DeepCopyInto :: "external_types \<Rightarrow> copier" where
  "MdaiHub_DeepCopyInto X = struct_into [(''TypeMeta'', assign), (''ObjectMeta'', ext_DeepCopyInto (X ''metav1.ObjectMeta'')),
     (''Spec'', (MdaiHubSpec_DeepCopyInto X)), (''Status'', (MdaiHubStatus_DeepCopyInto X))]"

definition MdaiHub_DeepCopy :: "external_types \<Rightarrow> copier" where
  "MdaiHub_DeepCopy X = new_with (MdaiHub_DeepCopyInto X)"

definition MdaiHub_DeepCopyObject :: "external_types \<Rightarrow> gv \<Rightarrow> gheap \<Rightarrow> gv option \<times> gheap" where
  "MdaiHub_DeepCopyObject X = deep_copy_object (MdaiHub_DeepCopy X)"

definition MdaiHubList_layout :: "external_types \<Rightarrow> gty" where
  "MdaiHubList_layout X = TStruct [(''TypeMeta'', ext_layout (X ''metav1.TypeMeta'')), (''ListMeta'', ext_layout (X ''metav1.ListMeta'')),
     (''Items'', TSlice (MdaiHub_layout X))]"

definition MdaiHubList_DeepCopyInto :: "external_types \<Rightarrow> copier" where
  "MdaiHubList_DeepCopyInto X = struct_into [(''TypeMeta'', assign), (''ListMeta'', ext_DeepCopyInto (X ''metav1.ListMeta'')),
     (''Items'', make_each (MdaiHub_DeepCopyInto X))]"

definition MdaiHubList_DeepCopy :: "external_types \<Rightarrow> copier" where
  "MdaiHubList_DeepCopy X = new_with (MdaiHubList_DeepCopyInto X)"

definition MdaiHubList_DeepCopyObject :: "external_types \<Rightarrow> gv \<Rightarrow> gheap \<Rightarrow> gv option \<times> gheap" where
  "MdaiHubList_DeepCopyObject X = deep_copy_object (MdaiHubList_DeepCopy X)"

definition IngressService_layout :: "external_types \<Rightarrow> gty" where
  "IngressService_layout X = TStruct [(''Type'', ext_layout (X ''corev1.ServiceType'')), (''Annotations'', TMap TScalar)]"

definition IngressService_DeepCopyInto :: "external_types \<Rightarrow> copier" where
  "IngressService_DeepCopyInto X = struct_into [(''Annotations'', make_map assign)]"

definition IngressService_DeepCopy :: "external_types \<Rightarrow> copier" where
  "IngressService_DeepCopy X = new_with (IngressService_DeepCopyInto X)"

definition OtelColRef_layout :: "gty" where
  "OtelColRef_layout = TStruct [(''Name'', TScalar)]"

definition OtelColRef_DeepCopyInto :: "copier" where
  "OtelColRef_DeepCopyInto = struct_into []"

definition OtelColRef_DeepCopy :: "copier" where
  "OtelColRef_DeepCopy = new_with OtelColRef_DeepCopyInto"

definition MdaiIngressSpec_layout :: "external_types \<Rightarrow> gty" where
  "MdaiIngressSpec_layout X = TStruct [(''OtelCollector'', OtelColRef_layout), (''CloudType'', TScalar), (''Annotations'', TMap TScalar),
     (''IngressClassName'', TPtr TScalar), (''GrpcService'', TPtr (IngressService_layout X)),
     (''NonGrpcService'', TPtr (IngressService_layout X)), (''CollectorEndpoints'', TMap TScalar)]"

definition MdaiIngressSpec_DeepCopyInto :: "external_types \<Rightarrow> copier" where
  "MdaiIngressSpec_DeepCopyInto X = struct_into [(''OtelCollector'', assign), (''Annotations'', make_map assign), (''IngressClassName'', new_with assign),
     (''GrpcService'', new_with (IngressService_DeepCopyInto X)),
     (''NonGrpcService'', new_with (IngressService_DeepCopyInto X)), (''CollectorEndpoints'', make_map assign)]"

definition MdaiIngressSpec_DeepCopy :: "external_types \<Rightarrow> copier" where
  "MdaiIngressSpec_DeepCopy X = new_with (MdaiIngressSpec_DeepCopyInto X)"

definition MdaiIngressStatus_layout :: "gty" where
  "MdaiIngressStatus_layout = TStruct []"

definition MdaiIngressStatus_DeepCopyInto :: "copier" where
  "MdaiIngressStatus_DeepCopyInto = struct_into []"

definition MdaiIngressStatus_DeepCopy :: "copier" where
  "MdaiIngressStatus_DeepCopy = new_with MdaiIngressStatus_DeepCopyInto"

definition MdaiIngress_layout :: "external_types \<Rightarrow> gty" where
  "MdaiIngress_layout X = TStruct [(''TypeMeta'', ext_layout (X ''metav1.TypeMeta'')), (''ObjectMeta'', ext_layout (X ''metav1.ObjectMeta'')),
     (''Spec'', (MdaiIngressSpec_layout X)), (''Status'', MdaiIngressStatus_layout)]"

definition MdaiIngress_DeepCopyInto :: "external_types \<Rightarrow> copier" where
  "MdaiIngress_DeepCopyInto X = struct_into [(''TypeMeta'', assign), (''ObjectMeta'', ext_DeepCopyInto (X ''metav1.ObjectMeta'')),
     (''Spec'', (MdaiIngressSpec_DeepCopyInto X)), (''Status'', assign)]"

definition MdaiIngress_DeepCopy :: "external_types \<Rightarrow> copier" where
  "MdaiIngress_DeepCopy X = new_with (MdaiIngress_DeepCopyInto X)"

definition MdaiIngress_DeepCopyObject :: "external_types \<Rightarrow> gv \<Rightarrow> gheap \<Rightarrow> gv option \<times> gheap" where
  "MdaiIngress_DeepCopyObject X = deep_copy_object (MdaiIngress_DeepCopy X)"

definition OtelMdaiIngressComb_layout :: "external_types \<Rightarrow> gty" where
  "OtelMdaiIngressComb_layout X = TStruct [(''Otelcol'', ext_layout (X ''v1beta1.OpenTelemetryCollector'')), (''MdaiIngress'', (MdaiIngress_layout X))]"

definition OtelMdaiIngressComb_DeepCopyInto :: "external_types \<Rightarrow> copier" where
  "OtelMdaiIngressComb_DeepCopyInto X = struct_into [(''Otelcol'', ext_DeepCopyInto (X ''v1beta1.OpenTelemetryCollector'')),
     (''MdaiIngress'', (MdaiIngress_DeepCopyInto X))]"

definition OtelMdaiIngressComb_DeepCopy :: "external_types \<Rightarrow> copier" where
  "OtelMdaiIngressComb_DeepCopy X = new_with (OtelMdaiIngressComb_DeepCopyInto X)"

definition MdaiIngressList_layout :: "external_types \<Rightarrow> gty" where
  "MdaiIngressList_layout X = TStruct [(''TypeMeta'', ext_layout (X ''metav1.TypeMeta'')), (''ListMeta'', ext_layout (X ''metav1.ListMeta'')),
     (''Items'', TSlice (MdaiIngress_layout X))]"

definition MdaiIngressList_DeepCopyInto :: "external_types \<Rightarrow> copier" where
  "MdaiIngressList_DeepCopyInto X = struct_into [(''TypeMeta'', assign), (''ListMeta'', ext_DeepCopyInto (X ''metav1.ListMeta'')),
     (''Items'', make_each (MdaiIngress_DeepCopyInto X))]"

definition MdaiIngressList_DeepCopy :: "external_types \<Rightarrow> copier" where
  "MdaiIngressList_DeepCopy X = new_with (MdaiIngressList_DeepCopyInto X)"

definition MdaiIngressList_DeepCopyObject :: "external_types \<Rightarrow> gv \<Rightarrow> gheap \<Rightarrow> gv option \<times> gheap" where
  "MdaiIngressList_DeepCopyObject X = deep_copy_object (MdaiIngressList_DeepCopy X)"

definition ObserverLogsFilter_layout :: "gty" where
  "ObserverLogsFilter_layout = TStruct [(''LogRecord'', TSlice TScalar)]"

definition ObserverLogsFilter_DeepCopyInto :: "copier" where
  "ObserverLogsFilter_DeepCopyInto = struct_into [(''LogRecord'', make_each assign)]"

definition ObserverLogsFilter_DeepCopy :: "copier" where
  "ObserverLogsFilter_DeepCopy = new_with ObserverLogsFilter_DeepCopyInto"

definition ObserverFilter_layout :: "gty" where
  "ObserverFilter_layout = TStruct [(''ErrorMode'', TPtr TScalar), (''Logs'', TPtr ObserverLogsFilter_layout)]"

definition ObserverFilter_DeepCopyInto :: "copier" where
  "ObserverFilter_DeepCopyInto = struct_into [(''ErrorMode'', new_with assign), (''Logs'', new_with ObserverLogsFilter_DeepCopyInto)]"

definition ObserverFilter_DeepCopy :: "copier" where
  "ObserverFilter_DeepCopy = new_with ObserverFilter_DeepCopyInto"

definition Observer_layout :: "gty" where
  "Observer_layout = TStruct [(''Name'', TScalar), (''LabelResourceAttributes'', TSlice TScalar), (''CountMetricName'', TPtr TScalar),
     (''BytesMetricName'', TPtr TScalar), (''Filter'', TPtr ObserverFilter_layout)]"

definition Observer_DeepCopyInto :: "copier" where
  "Observer_DeepCopyInto = struct_into [(''LabelResourceAttributes'', make_each assign), (''CountMetricName'', new_with assign),
     (''BytesMetricName'', new_with assign), (''Filter'', new_with ObserverFilter_DeepCopyInto)]"

definition Observer_DeepCopy :: "copier" where
  "Observer_DeepCopy = new_with Observer_DeepCopyInto"

definition ObserverResource_layout :: "external_types \<Rightarrow> gty" where
  "ObserverResource_layout X = TStruct [(''Image'', TScalar), (''Replicas'', TScalar),
     (''Resources'', TPtr (ext_layout (X ''corev1.ResourceRequirements''))),
     (''GrpcReceiverMaxMsgSize'', TPtr TScalar), (''OwnLogsOtlpEndpoint'', TPtr TScalar),
     (''Tolerations'', TSlice (ext_layout (X ''corev1.Toleration'')))]"

definition ObserverResource_DeepCopyInto :: "external_types \<Rightarrow> copier" where
  "ObserverResource_DeepCopyInto X = struct_into [(''Resources'', new_with (ext_DeepCopyInto (X ''corev1.ResourceRequirements''))),
     (''GrpcReceiverMaxMsgSize'', new_with assign), (''OwnLogsOtlpEndpoint'', new_with assign),
     (''Tolerations'', make_each (ext_DeepCopyInto (X ''corev1.Toleration'')))]"

definition ObserverResource_DeepCopy :: "external_types \<Rightarrow> copier" where
  "ObserverResource_DeepCopy X = new_with (ObserverResource_DeepCopyInto X)"

definition MdaiObserverSpec_layout :: "external_types \<Rightarrow> gty" where
  "MdaiObserverSpec_layout X = TStruct [(''Observers'', TSlice Observer_layout), (''ObserverResource'', (ObserverResource_layout X))]"

definition MdaiObserverSpec_DeepCopyInto :: "external_types \<Rightarrow> copier" where
  "MdaiObserverSpec_DeepCopyInto X = struct_into [(''Observers'', make_each Observer_DeepCopyInto), (''ObserverResource'', (ObserverResource_DeepCopyInto X))]"

definition MdaiObserverSpec_DeepCopy :: "external_types \<Rightarrow> copier" where
  "MdaiObserverSpec_DeepCopy X = new_with (MdaiObserverSpec_DeepCopyInto X)"

definition MdaiObserverStatus_layout :: "external_types \<Rightarrow> gty" where
  "MdaiObserverStatus_layout X = TStruct [(''ObserverStatus'', TScalar), (''LastUpdatedTime'', TPtr (ext_layout (X ''metav1.Time''))),
     (''Conditions'', TSlice (ext_layout (X ''metav1.Condition'')))]"

definition MdaiObserverStatus_DeepCopyInto :: "external_types \<Rightarrow> copier" where
  "MdaiObserverStatus_DeepCopyInto X = struct_into [(''LastUpdatedTime'', ext_DeepCopy (X ''metav1.Time'')),
     (''Conditions'', make_each (ext_DeepCopyInto (X ''metav1.Condition'')))]"

definition MdaiObserverStatus_DeepCopy :: "external_types \<Rightarrow> copier" where
  "MdaiObserverStatus_DeepCopy X = new_with (MdaiObserverStatus_DeepCopyInto X)"

definition MdaiObserver_layout :: "external_types \<Rightarrow> gty" where
  "MdaiObserver_layout X = TStruct [(''TypeMeta'', ext_layout (X ''metav1.TypeMeta'')), (''ObjectMeta'', ext_layout (X ''metav1.ObjectMeta'')),
     (''Spec'', (MdaiObserverSpec_layout X)), (''Status'', (MdaiObserverStatus_layout X))]"

definition MdaiObserver_DeepCopyInto :: "external_types \<Rightarrow> copier" where
  "MdaiObserver_DeepCopyInto X = struct_into [(''TypeMeta'', assign), (''ObjectMeta'', ext_DeepCopyInto (X ''metav1.ObjectMeta'')),
     (''Spec'', (MdaiObserverSpec_DeepCopyInto X)), (''Status'', (MdaiObserverStatus_DeepCopyInto X))]"

definition MdaiObserver_DeepCopy :: "external_types \<Rightarrow> copier" where
  "MdaiObserver_DeepCopy X = new_with (MdaiObserver_DeepCopyInto X)"

definition MdaiObserver_DeepCopyObject :: "external_types \<Rightarrow> gv \<Rightarrow> gheap \<Rightarrow> gv option \<times> gheap" where
  "MdaiObserver_DeepCopyObject X = deep_copy_object (MdaiObserver_DeepCopy X)"

definition MdaiObserverList_layout :: "external_types \<Rightarrow> gty" where
  "MdaiObserverList_layout X = TStruct [(''TypeMeta'', ext_layout (X ''metav1.TypeMeta'')), (''ListMeta'', ext_layout (X ''metav1.ListMeta'')),
     (''Items'', TSlice (MdaiObserver_layout X))]"

definition MdaiObserverList_DeepCopyInto :: "external_types \<Rightarrow> copier" where
  "MdaiObserverList_DeepCopyInto X = struct_into [(''TypeMeta'', assign), (''ListMeta'', ext_DeepCopyInto (X ''metav1.ListMeta'')),
     (''Items'', make_each (MdaiObserver_DeepCopyInto X))]"

definition MdaiObserverList_DeepCopy :: "external_types \<Rightarrow> copier" where
  "MdaiObserverList_DeepCopy X = new_with (MdaiObserverList_DeepCopyInto X)"

definition MdaiObserverList_DeepCopyObject :: "external_types \<Rightarrow> gv \<Rightarrow> gheap \<Rightarrow> gv option \<times> gheap" where
  "MdaiObserverList_DeepCopyObject X = deep_copy_object (MdaiObserverList_DeepCopy X)"

definition MdaiReplayStatus_layout :: "external_types \<Rightarrow> gty" where
  "MdaiReplayStatus_layout X = TStruct [(''LastUpdatedTime'', TPtr (ext_layout (X ''metav1.Time''))),
     (''Conditions'', TSlice (ext_layout (X ''metav1.Condition'')))]"

definition MdaiReplayStatus_DeepCopyInto :: "external_types \<Rightarrow> copier" where
  "MdaiReplayStatus_DeepCopyInto X = struct_into [(''LastUpdatedTime'', ext_DeepCopy (X ''metav1.Time'')),
     (''Conditions'', make_each (ext_DeepCopyInto (X ''metav1.Condition'')))]"

definition MdaiReplayStatus_DeepCopy :: "external_types \<Rightarrow> copier" where
  "MdaiReplayStatus_DeepCopy X = new_with (MdaiReplayStatus_DeepCopyInto X)"

definition MdaiReplay_layout :: "external_types \<Rightarrow> gty" where
  "MdaiReplay_layout X = TStruct [(''TypeMeta'', ext_layout (X ''metav1.TypeMeta'')), (''ObjectMeta'', ext_layout (X ''metav1.ObjectMeta'')),
     (''Spec'', MdaiReplaySpec_layout), (''Status'', (MdaiReplayStatus_layout X))]"

definition MdaiReplay_DeepCopyInto :: "external_types \<Rightarrow> copier" where
  "MdaiReplay_DeepCopyInto X = struct_into [(''TypeMeta'', assign), (''ObjectMeta'', ext_DeepCopyInto (X ''metav1.ObjectMeta'')),
     (''Spec'', MdaiReplaySpec_DeepCopyInto), (''Status'', (MdaiReplayStatus_DeepCopyInto X))]"

definition MdaiReplay_DeepCopy :: "external_types \<Rightarrow> copier" where
  "MdaiReplay_DeepCopy X = new_with (MdaiReplay_DeepCopyInto X)"

definition MdaiReplay_DeepCopyObject :: "external_types \<Rightarrow> gv \<Rightarrow> gheap \<Rightarrow> gv option \<times> gheap" where
  "MdaiReplay_DeepCopyObject X = deep_copy_object (MdaiReplay_DeepCopy X)"

definition MdaiReplayList_layout :: "external_types \<Rightarrow> gty" where
  "MdaiReplayList_layout X = TStruct [(''TypeMeta'', ext_layout (X ''metav1.TypeMeta'')), (''ListMeta'', ext_layout (X ''metav1.ListMeta'')),
     (''Items'', TSlice (MdaiReplay_layout X))]"

definition MdaiReplayList_DeepCopyInto :: "external_types \<Rightarrow> copier" where
  "MdaiReplayList_DeepCopyInto X = struct_into [(''TypeMeta'', assign), (''ListMeta'', ext_DeepCopyInto (X ''metav1.ListMeta'')),
     (''Items'', make_each (MdaiReplay_DeepCopyInto X))]"

definition MdaiReplayList_DeepCopy :: "external_types \<Rightarrow> copier" where
  "MdaiReplayList_DeepCopy X = new_with (MdaiReplayList_DeepCopyInto X)"

definition MdaiReplayList_DeepCopyObject :: "external_types \<Rightarrow> gv \<Rightarrow> gheap \<Rightarrow> gv option \<times> gheap" where
  "MdaiReplayList_DeepCopyObject X = deep_copy_object (MdaiReplayList_DeepCopy X)"

section \<open>All methods\<close>

text \<open>Every type of the API with its \<^verbatim>\<open>DeepCopy\<close>, and the kinds with their \<^verbatim>\<open>DeepCopyObject\<close>.\<close>

definition api_copies :: "external_types \<Rightarrow> (gty \<times> copier) list" where
  "api_copies X = [
     (AWSConfig_layout, AWSConfig_DeepCopy),
     (AuditLogstreamConfig_layout, AuditLogstreamConfig_DeepCopy),
     (LogstreamConfig_layout, LogstreamConfig_DeepCopy),
     (S3LogsConfig_layout, S3LogsConfig_DeepCopy),
     (OtlpLogsConfig_layout, OtlpLogsConfig_DeepCopy),
     (LogsConfig_layout, LogsConfig_DeepCopy),
     (MdaiCollectorSpec_layout X, MdaiCollectorSpec_DeepCopy X),
     (MdaiCollectorStatus_layout X, MdaiCollectorStatus_DeepCopy X),
     (MdaiCollector_layout X, MdaiCollector_DeepCopy X),
     (MdaiCollectorList_layout X, MdaiCollectorList_DeepCopy X),
     (MdaiDalAWSCredentials_layout, MdaiDalAWSCredentials_DeepCopy),
     (MdaiDalAWSConfig_layout, MdaiDalAWSConfig_DeepCopy),
     (MdaiDalImageSpec_layout, MdaiDalImageSpec_DeepCopy),
     (MdaiDalS3Config_layout, MdaiDalS3Config_DeepCopy),
     (MdaiDalSpec_layout, MdaiDalSpec_DeepCopy),
     (MdaiDalStatus_layout X, MdaiDalStatus_DeepCopy X),
     (MdaiDal_layout X, MdaiDal_DeepCopy X),
     (MdaiDalList_layout X, MdaiDalList_DeepCopy X),
     (JoinTransformer_layout, JoinTransformer_DeepCopy),
     (VariableTransformer_layout, VariableTransformer_DeepCopy),
     (Serializer_layout, Serializer_DeepCopy),
     (Variable_layout, Variable_DeepCopy),
     (PrometheusAlert_layout X, PrometheusAlert_DeepCopy X),
     (Config_layout X, Config_DeepCopy X),
     (ValueFromSource_layout X, ValueFromSource_DeepCopy X),
     (StringOrFrom_layout X, StringOrFrom_DeepCopy X),
     (CallWebhookAction_layout X, CallWebhookAction_DeepCopy X),
     (CleanUpReplayAction_layout, CleanUpReplayAction_DeepCopy),
     (MdaiReplayOtlpHttpDestinationConfiguration_layout, MdaiReplayOtlpHttpDestinationConfiguration_DeepCopy),
     (MdaiReplayDestinationConfiguration_layout, MdaiReplayDestinationConfiguration_DeepCopy),
     (MdaiReplayResourceConfiguration_layout, MdaiReplayResourceConfiguration_DeepCopy),
     (MdaiReplayAwsConfig_layout, MdaiReplayAwsConfig_DeepCopy),
     (MdaiReplayS3Configuration_layout, MdaiReplayS3Configuration_DeepCopy),
     (MdaiReplaySourceConfiguration_layout, MdaiReplaySourceConfiguration_DeepCopy),
     (MdaiReplaySpec_layout, MdaiReplaySpec_DeepCopy),
     (DeployReplayAction_layout, DeployReplayAction_DeepCopy),
     (MapAction_layout, MapAction_DeepCopy),
     (ScalarAction_layout, ScalarAction_DeepCopy),
     (SetAction_layout, SetAction_DeepCopy),
     (Action_layout X, Action_DeepCopy X),
     (When_layout, When_DeepCopy),
     (AutomationRule_layout X, AutomationRule_DeepCopy X),
     (MdaiHubSpec_layout X, MdaiHubSpec_DeepCopy X),
     (MdaiHubStatus_layout X, MdaiHubStatus_DeepCopy X),
     (MdaiHub_layout X, MdaiHub_DeepCopy X),
     (MdaiHubList_layout X, MdaiHubList_DeepCopy X),
     (IngressService_layout X, IngressService_DeepCopy X),
     (OtelColRef_layout, OtelColRef_DeepCopy),
     (MdaiIngressSpec_layout X, MdaiIngressSpec_DeepCopy X),
     (MdaiIngressStatus_layout, MdaiIngressStatus_DeepCopy),
     (MdaiIngress_layout X, MdaiIngress_DeepCopy X),
     (OtelMdaiIngressComb_layout X, OtelMdaiIngressComb_DeepCopy X),
     (MdaiIngressList_layout X, MdaiIngressList_DeepCopy X),
     (ObserverLogsFilter_layout, ObserverLogsFilter_DeepCopy),
     (ObserverFilter_layout, ObserverFilter_DeepCopy),
     (Observer_layout, Observer_DeepCopy),
     (ObserverResource_layout X, ObserverResource_DeepCopy X),
     (MdaiObserverSpec_layout X, MdaiObserverSpec_DeepCopy X),
     (MdaiObserverStatus_layout X, MdaiObserverStatus_DeepCopy X),
     (MdaiObserver_layout X, MdaiObserver_DeepCopy X),
     (MdaiObserverList_layout X, MdaiObserverList_DeepCopy X),
     (MdaiReplayStatus_layout X, MdaiReplayStatus_DeepCopy X),
     (MdaiReplay_layout X, MdaiReplay_DeepCopy X),
     (MdaiReplayList_layout X, MdaiReplayList_DeepCopy X)]"

definition api_objects :: "external_types \<Rightarrow> (gty \<times> (gv \<Rightarrow> gheap \<Rightarrow> gv option \<times> gheap)) list" where
  "api_objects X = [
     (MdaiCollector_layout X, MdaiCollector_DeepCopyObject X),
     (MdaiCollectorList_layout X, MdaiCollectorList_DeepCopyObject X),
     (MdaiDal_layout X, MdaiDal_DeepCopyObject X),
     (MdaiDalList_layout X, MdaiDalList_DeepCopyObject X),
     (MdaiHub_layout X, MdaiHub_DeepCopyObject X),
     (MdaiHubList_layout X, MdaiHubList_DeepCopyObject X),
     (MdaiIngress_layout X, MdaiIngress_DeepCopyObject X),
     (MdaiIngressList_layout X, MdaiIngressList_DeepCopyObject X),
     (MdaiObserver_layout X, MdaiObserver_DeepCopyObject X),
     (MdaiObserverList_layout X, MdaiObserverList_DeepCopyObject X),
     (MdaiReplay_layout X, MdaiReplay_DeepCopyObject X),
     (MdaiReplayList_layout X, MdaiReplayList_DeepCopyObject X)]"

end
