(* ===== verification/Copy_Isolation.thy ===== *)
theory Copy_Isolation
  imports Api_Deep_Copies
begin

text \<open>
  The generated methods are deep copies: each is complete for the struct declaration of its type. The proofs only name
  the type; a field added to a struct without running the generator again would make one of them fail.
\<close>

section \<open>Types that assignment copies\<close>

lemma flat_layouts [simp]: "flat AuditLogstreamConfig_layout" "flat MdaiDalAWSCredentials_layout" "flat MdaiDalAWSConfig_layout" "flat MdaiDalImageSpec_layout" "flat MdaiDalS3Config_layout" "flat JoinTransformer_layout" "flat CleanUpReplayAction_layout" "flat MdaiReplayOtlpHttpDestinationConfiguration_layout" "flat MdaiReplayResourceConfiguration_layout" "flat MdaiReplayS3Configuration_layout" "flat ScalarAction_layout" "flat SetAction_layout" "flat OtelColRef_layout" "flat MdaiIngressStatus_layout"
  by (simp_all add: AuditLogstreamConfig_layout_def MdaiDalAWSCredentials_layout_def MdaiDalAWSConfig_layout_def MdaiDalImageSpec_layout_def MdaiDalS3Config_layout_def JoinTransformer_layout_def CleanUpReplayAction_layout_def MdaiReplayOtlpHttpDestinationConfiguration_layout_def MdaiReplayResourceConfiguration_layout_def MdaiReplayS3Configuration_layout_def ScalarAction_layout_def SetAction_layout_def OtelColRef_layout_def MdaiIngressStatus_layout_def)

lemma plain_externals [simp]:
    "external_documented X \<Longrightarrow> flat (ext_layout (X ''corev1.ServiceType''))"
    "external_documented X \<Longrightarrow> flat (ext_layout (X ''intstr.IntOrString''))"
    "external_documented X \<Longrightarrow> flat (ext_layout (X ''metav1.Duration''))"
    "external_documented X \<Longrightarrow> flat (ext_layout (X ''metav1.TypeMeta''))"
    "external_documented X \<Longrightarrow> flat (ext_layout (X ''monitoringv1.Duration''))"
    "external_documented X \<Longrightarrow> flat (ext_layout (X ''monitoringv1.NonEmptyDuration''))"
  by (simp_all add: external_documented_def plain_types_def)

lemma external_copier [copier_intros]:
  "external_documented X \<Longrightarrow> deep_copier (ext_layout (X n)) (ext_DeepCopyInto (X n))"
  "external_documented X \<Longrightarrow> deep_copier (TPtr (ext_layout (X n))) (ext_DeepCopy (X n))"
  by (simp_all add: external_documented_def)

section \<open>The methods\<close>

lemma AWSConfig_copier [copier_intros]: "deep_copier AWSConfig_layout AWSConfig_DeepCopyInto"
  unfolding AWSConfig_layout_def AWSConfig_DeepCopyInto_def
  by (rule struct_into_copier) (auto simp: complete_for_def intro!: copier_intros)

lemma AuditLogstreamConfig_copier [copier_intros]: "deep_copier AuditLogstreamConfig_layout AuditLogstreamConfig_DeepCopyInto"
  unfolding AuditLogstreamConfig_layout_def AuditLogstreamConfig_DeepCopyInto_def
  by (rule struct_into_copier) (auto simp: complete_for_def intro!: copier_intros)

lemma LogstreamConfig_copier [copier_intros]: "deep_copier LogstreamConfig_layout LogstreamConfig_DeepCopyInto"
  unfolding LogstreamConfig_layout_def LogstreamConfig_DeepCopyInto_def
  by (rule struct_into_copier) (auto simp: complete_for_def intro!: copier_intros)

lemma S3LogsConfig_copier [copier_intros]: "deep_copier S3LogsConfig_layout S3LogsConfig_DeepCopyInto"
  unfolding S3LogsConfig_layout_def S3LogsConfig_DeepCopyInto_def
  by (rule struct_into_copier) (auto simp: complete_for_def intro!: copier_intros)

lemma OtlpLogsConfig_copier [copier_intros]: "deep_copier OtlpLogsConfig_layout OtlpLogsConfig_DeepCopyInto"
  unfolding OtlpLogsConfig_layout_def OtlpLogsConfig_DeepCopyInto_def
  by (rule struct_into_copier) (auto simp: complete_for_def intro!: copier_intros)

lemma LogsConfig_copier [copier_intros]: "deep_copier LogsConfig_layout LogsConfig_DeepCopyInto"
  unfolding LogsConfig_layout_def LogsConfig_DeepCopyInto_def
  by (rule struct_into_copier) (auto simp: complete_for_def intro!: copier_intros)

lemma MdaiCollectorSpec_copier [copier_intros]: "external_documented X \<Longrightarrow> deep_copier (MdaiCollectorSpec_layout X) (MdaiCollectorSpec_DeepCopyInto X)"
  unfolding MdaiCollectorSpec_layout_def MdaiCollectorSpec_DeepCopyInto_def
  by (rule struct_into_copier) (auto simp: complete_for_def intro!: copier_intros)

lemma MdaiCollectorStatus_copier [copier_intros]: "external_documented X \<Longrightarrow> deep_copier (MdaiCollectorStatus_layout X) (MdaiCollectorStatus_DeepCopyInto X)"
  unfolding MdaiCollectorStatus_layout_def MdaiCollectorStatus_DeepCopyInto_def
  by (rule struct_into_copier) (auto simp: complete_for_def intro!: copier_intros)

lemma MdaiCollector_copier [copier_intros]: "external_documented X \<Longrightarrow> deep_copier (MdaiCollector_layout X) (MdaiCollector_DeepCopyInto X)"
  unfolding MdaiCollector_layout_def MdaiCollector_DeepCopyInto_def
  by (rule struct_into_copier) (auto simp: complete_for_def intro!: copier_intros)

lemma MdaiCollectorList_copier [copier_intros]: "external_documented X \<Longrightarrow> deep_copier (MdaiCollectorList_layout X) (MdaiCollectorList_DeepCopyInto X)"
  unfolding MdaiCollectorList_layout_def MdaiCollectorList_DeepCopyInto_def
  by (rule struct_into_copier) (auto simp: complete_for_def intro!: copier_intros)

lemma MdaiDalAWSCredentials_copier [copier_intros]: "deep_copier MdaiDalAWSCredentials_layout MdaiDalAWSCredentials_DeepCopyInto"
  unfolding MdaiDalAWSCredentials_layout_def MdaiDalAWSCredentials_DeepCopyInto_def
  by (rule struct_into_copier) (auto simp: complete_for_def intro!: copier_intros)

lemma MdaiDalAWSConfig_copier [copier_intros]: "deep_copier MdaiDalAWSConfig_layout MdaiDalAWSConfig_DeepCopyInto"
  unfolding MdaiDalAWSConfig_layout_def MdaiDalAWSConfig_DeepCopyInto_def
  by (rule struct_into_copier) (auto simp: complete_for_def intro!: copier_intros)

lemma MdaiDalImageSpec_copier [copier_intros]: "deep_copier MdaiDalImageSpec_layout MdaiDalImageSpec_DeepCopyInto"
  unfolding MdaiDalImageSpec_layout_def MdaiDalImageSpec_DeepCopyInto_def
  by (rule struct_into_copier) (auto simp: complete_for_def intro!: copier_intros)

lemma MdaiDalS3Config_copier [copier_intros]: "deep_copier MdaiDalS3Config_layout MdaiDalS3Config_DeepCopyInto"
  unfolding MdaiDalS3Config_layout_def MdaiDalS3Config_DeepCopyInto_def
  by (rule struct_into_copier) (auto simp: complete_for_def intro!: copier_intros)

lemma MdaiDalSpec_copier [copier_intros]: "deep_copier MdaiDalSpec_layout MdaiDalSpec_DeepCopyInto"
  unfolding MdaiDalSpec_layout_def MdaiDalSpec_DeepCopyInto_def
  by (rule struct_into_copier) (auto simp: complete_for_def intro!: copier_intros)

lemma MdaiDalStatus_copier [copier_intros]: "external_documented X \<Longrightarrow> deep_copier (MdaiDalStatus_layout X) (MdaiDalStatus_DeepCopyInto X)"
  unfolding MdaiDalStatus_layout_def MdaiDalStatus_DeepCopyInto_def
  by (rule struct_into_copier) (auto simp: complete_for_def intro!: copier_intros)

lemma MdaiDal_copier [copier_intros]: "external_documented X \<Longrightarrow> deep_copier (MdaiDal_layout X) (MdaiDal_DeepCopyInto X)"
  unfolding MdaiDal_layout_def MdaiDal_DeepCopyInto_def
  by (rule struct_into_copier) (auto simp: complete_for_def intro!: copier_intros)

lemma MdaiDalList_copier [copier_intros]: "external_documented X \<Longrightarrow> deep_copier (MdaiDalList_layout X) (MdaiDalList_DeepCopyInto X)"
  unfolding MdaiDalList_layout_def MdaiDalList_DeepCopyInto_def
  by (rule struct_into_copier) (auto simp: complete_for_def intro!: copier_intros)

lemma JoinTransformer_copier [copier_intros]: "deep_copier JoinTransformer_layout JoinTransformer_DeepCopyInto"
  unfolding JoinTransformer_layout_def JoinTransformer_DeepCopyInto_def
  by (rule struct_into_copier) (auto simp: complete_for_def intro!: copier_intros)

lemma VariableTransformer_copier [copier_intros]: "deep_copier VariableTransformer_layout VariableTransformer_DeepCopyInto"
  unfolding VariableTransformer_layout_def VariableTransformer_DeepCopyInto_def
  by (rule struct_into_copier) (auto simp: complete_for_def intro!: copier_intros)

lemma Serializer_copier [copier_intros]: "deep_copier Serializer_layout Serializer_DeepCopyInto"
  unfolding Serializer_layout_def Serializer_DeepCopyInto_def
  by (rule struct_into_copier) (auto simp: complete_for_def intro!: copier_intros)

lemma Variable_copier [copier_intros]: "deep_copier Variable_layout Variable_DeepCopyInto"
  unfolding Variable_layout_def Variable_DeepCopyInto_def
  by (rule struct_into_copier) (auto simp: complete_for_def intro!: copier_intros)

lemma PrometheusAlert_copier [copier_intros]: "external_documented X \<Longrightarrow> deep_copier (PrometheusAlert_layout X) (PrometheusAlert_DeepCopyInto X)"
  unfolding PrometheusAlert_layout_def PrometheusAlert_DeepCopyInto_def
  by (rule struct_into_copier) (auto simp: complete_for_def intro!: copier_intros)

lemma Config_copier [copier_intros]: "external_documented X \<Longrightarrow> deep_copier (Config_layout X) (Config_DeepCopyInto X)"
  unfolding Config_layout_def Config_DeepCopyInto_def
  by (rule struct_into_copier) (auto simp: complete_for_def intro!: copier_intros)

lemma ValueFromSource_copier [copier_intros]: "external_documented X \<Longrightarrow> deep_copier (ValueFromSource_layout X) (ValueFromSource_DeepCopyInto X)"
  unfolding ValueFromSource_layout_def ValueFromSource_DeepCopyInto_def
  by (rule struct_into_copier) (auto simp: complete_for_def intro!: copier_intros)

lemma ValueFromSource_DeepCopy_copier [copier_intros]:
  "external_documented X \<Longrightarrow> deep_copier (TPtr (ValueFromSource_layout X)) (ValueFromSource_DeepCopy X)"
  unfolding ValueFromSource_DeepCopy_def by (auto intro!: copier_intros)

lemma StringOrFrom_copier [copier_intros]: "external_documented X \<Longrightarrow> deep_copier (StringOrFrom_layout X) (StringOrFrom_DeepCopyInto X)"
  unfolding StringOrFrom_layout_def StringOrFrom_DeepCopyInto_def
  by (rule struct_into_copier) (auto simp: complete_for_def intro!: copier_intros)

lemma CallWebhookAction_copier [copier_intros]: "external_documented X \<Longrightarrow> deep_copier (CallWebhookAction_layout X) (CallWebhookAction_DeepCopyInto X)"
  unfolding CallWebhookAction_layout_def CallWebhookAction_DeepCopyInto_def
  by (rule struct_into_copier) (auto simp: complete_for_def intro!: copier_intros)

lemma CleanUpReplayAction_copier [copier_intros]: "deep_copier CleanUpReplayAction_layout CleanUpReplayAction_DeepCopyInto"
  unfolding CleanUpReplayAction_layout_def CleanUpReplayAction_DeepCopyInto_def
  by (rule struct_into_copier) (auto simp: complete_for_def intro!: copier_intros)

lemma MdaiReplayOtlpHttpDestinationConfiguration_copier [copier_intros]: "deep_copier MdaiReplayOtlpHttpDestinationConfiguration_layout MdaiReplayOtlpHttpDestinationConfiguration_DeepCopyInto"
  unfolding MdaiReplayOtlpHttpDestinationConfiguration_layout_def MdaiReplayOtlpHttpDestinationConfiguration_DeepCopyInto_def
  by (rule struct_into_copier) (auto simp: complete_for_def intro!: copier_intros)

lemma MdaiReplayDestinationConfiguration_copier [copier_intros]: "deep_copier MdaiReplayDestinationConfiguration_layout MdaiReplayDestinationConfiguration_DeepCopyInto"
  unfolding MdaiReplayDestinationConfiguration_layout_def MdaiReplayDestinationConfiguration_DeepCopyInto_def
  by (rule struct_into_copier) (auto simp: complete_for_def intro!: copier_intros)

lemma MdaiReplayResourceConfiguration_copier [copier_intros]: "deep_copier MdaiReplayResourceConfiguration_layout MdaiReplayResourceConfiguration_DeepCopyInto"
  unfolding MdaiReplayResourceConfiguration_layout_def MdaiReplayResourceConfiguration_DeepCopyInto_def
  by (rule struct_into_copier) (auto simp: complete_for_def intro!: copier_intros)

lemma MdaiReplayAwsConfig_copier [copier_intros]: "deep_copier MdaiReplayAwsConfig_layout MdaiReplayAwsConfig_DeepCopyInto"
  unfolding MdaiReplayAwsConfig_layout_def MdaiReplayAwsConfig_DeepCopyInto_def
  by (rule struct_into_copier) (auto simp: complete_for_def intro!: copier_intros)

lemma MdaiReplayS3Configuration_copier [copier_intros]: "deep_copier MdaiReplayS3Configuration_layout MdaiReplayS3Configuration_DeepCopyInto"
  unfolding MdaiReplayS3Configuration_layout_def MdaiReplayS3Configuration_DeepCopyInto_def
  by (rule struct_into_copier) (auto simp: complete_for_def intro!: copier_intros)

lemma MdaiReplaySourceConfiguration_copier [copier_intros]: "deep_copier MdaiReplaySourceConfiguration_layout MdaiReplaySourceConfiguration_DeepCopyInto"
  unfolding MdaiReplaySourceConfiguration_layout_def MdaiReplaySourceConfiguration_DeepCopyInto_def
  by (rule struct_into_copier) (auto simp: complete_for_def intro!: copier_intros)

lemma MdaiReplaySpec_copier [copier_intros]: "deep_copier MdaiReplaySpec_layout MdaiReplaySpec_DeepCopyInto"
  unfolding MdaiReplaySpec_layout_def MdaiReplaySpec_DeepCopyInto_def
  by (rule struct_into_copier) (auto simp: complete_for_def intro!: copier_intros)

lemma DeployReplayAction_copier [copier_intros]: "deep_copier DeployReplayAction_layout DeployReplayAction_DeepCopyInto"
  unfolding DeployReplayAction_layout_def DeployReplayAction_DeepCopyInto_def
  by (rule struct_into_copier) (auto simp: complete_for_def intro!: copier_intros)

lemma MapAction_copier [copier_intros]: "deep_copier MapAction_layout MapAction_DeepCopyInto"
  unfolding MapAction_layout_def MapAction_DeepCopyInto_def
  by (rule struct_into_copier) (auto simp: complete_for_def intro!: copier_intros)

lemma ScalarAction_copier [copier_intros]: "deep_copier ScalarAction_layout ScalarAction_DeepCopyInto"
  unfolding ScalarAction_layout_def ScalarAction_DeepCopyInto_def
  by (rule struct_into_copier) (auto simp: complete_for_def intro!: copier_intros)

lemma SetAction_copier [copier_intros]: "deep_copier SetAction_layout SetAction_DeepCopyInto"
  unfolding SetAction_layout_def SetAction_DeepCopyInto_def
  by (rule struct_into_copier) (auto simp: complete_for_def intro!: copier_intros)

lemma Action_copier [copier_intros]: "external_documented X \<Longrightarrow> deep_copier (Action_layout X) (Action_DeepCopyInto X)"
  unfolding Action_layout_def Action_DeepCopyInto_def
  by (rule struct_into_copier) (auto simp: complete_for_def intro!: copier_intros)

lemma When_copier [copier_intros]: "deep_copier When_layout When_DeepCopyInto"
  unfolding When_layout_def When_DeepCopyInto_def
  by (rule struct_into_copier) (auto simp: complete_for_def intro!: copier_intros)

lemma AutomationRule_copier [copier_intros]: "external_documented X \<Longrightarrow> deep_copier (AutomationRule_layout X) (AutomationRule_DeepCopyInto X)"
  unfolding AutomationRule_layout_def AutomationRule_DeepCopyInto_def
  by (rule struct_into_copier) (auto simp: complete_for_def intro!: copier_intros)

lemma MdaiHubSpec_copier [copier_intros]: "external_documented X \<Longrightarrow> deep_copier (MdaiHubSpec_layout X) (MdaiHubSpec_DeepCopyInto X)"
  unfolding MdaiHubSpec_layout_def MdaiHubSpec_DeepCopyInto_def
  by (rule struct_into_copier) (auto simp: complete_for_def intro!: copier_intros)

lemma MdaiHubStatus_copier [copier_intros]: "external_documented X \<Longrightarrow> deep_copier (MdaiHubStatus_layout X) (MdaiHubStatus_DeepCopyInto X)"
  unfolding MdaiHubStatus_layout_def MdaiHubStatus_DeepCopyInto_def
  by (rule struct_into_copier) (auto simp: complete_for_def intro!: copier_intros)

lemma MdaiHub_copier [copier_intros]: "external_documented X \<Longrightarrow> deep_copier (MdaiHub_layout X) (MdaiHub_DeepCopyInto X)"
  unfolding MdaiHub_layout_def MdaiHub_DeepCopyInto_def
  by (rule struct_into_copier) (auto simp: complete_for_def intro!: copier_intros)

lemma MdaiHubList_copier [copier_intros]: "external_documented X \<Longrightarrow> deep_copier (MdaiHubList_layout X) (MdaiHubList_DeepCopyInto X)"
  unfolding MdaiHubList_layout_def MdaiHubList_DeepCopyInto_def
  by (rule struct_into_copier) (auto simp: complete_for_def intro!: copier_intros)

lemma IngressService_copier [copier_intros]: "external_documented X \<Longrightarrow> deep_copier (IngressService_layout X) (IngressService_DeepCopyInto X)"
  unfolding IngressService_layout_def IngressService_DeepCopyInto_def
  by (rule struct_into_copier) (auto simp: complete_for_def intro!: copier_intros)

lemma OtelColRef_copier [copier_intros]: "deep_copier OtelColRef_layout OtelColRef_DeepCopyInto"
  unfolding OtelColRef_layout_def OtelColRef_DeepCopyInto_def
  by (rule struct_into_copier) (auto simp: complete_for_def intro!: copier_intros)

lemma MdaiIngressSpec_copier [copier_intros]: "external_documented X \<Longrightarrow> deep_copier (MdaiIngressSpec_layout X) (MdaiIngressSpec_DeepCopyInto X)"
  unfolding MdaiIngressSpec_layout_def MdaiIngressSpec_DeepCopyInto_def
  by (rule struct_into_copier) (auto simp: complete_for_def intro!: copier_intros)

lemma MdaiIngressStatus_copier [copier_intros]: "deep_copier MdaiIngressStatus_layout MdaiIngressStatus_DeepCopyInto"
  unfolding MdaiIngressStatus_layout_def MdaiIngressStatus_DeepCopyInto_def
  by (rule struct_into_copier) (auto simp: complete_for_def intro!: copier_intros)

lemma MdaiIngress_copier [copier_intros]: "external_documented X \<Longrightarrow> deep_copier (MdaiIngress_layout X) (MdaiIngress_DeepCopyInto X)"
  unfolding MdaiIngress_layout_def MdaiIngress_DeepCopyInto_def
  by (rule struct_into_copier) (auto simp: complete_for_def intro!: copier_intros)

lemma OtelMdaiIngressComb_copier [copier_intros]: "external_documented X \<Longrightarrow> deep_copier (OtelMdaiIngressComb_layout X) (OtelMdaiIngressComb_DeepCopyInto X)"
  unfolding OtelMdaiIngressComb_layout_def OtelMdaiIngressComb_DeepCopyInto_def
  by (rule struct_into_copier) (auto simp: complete_for_def intro!: copier_intros)

lemma MdaiIngressList_copier [copier_intros]: "external_documented X \<Longrightarrow> deep_copier (MdaiIngressList_layout X) (MdaiIngressList_DeepCopyInto X)"
  unfolding MdaiIngressList_layout_def MdaiIngressList_DeepCopyInto_def
  by (rule struct_into_copier) (auto simp: complete_for_def intro!: copier_intros)

lemma ObserverLogsFilter_copier [copier_intros]: "deep_copier ObserverLogsFilter_layout ObserverLogsFilter_DeepCopyInto"
  unfolding ObserverLogsFilter_layout_def ObserverLogsFilter_DeepCopyInto_def
  by (rule struct_into_copier) (auto simp: complete_for_def intro!: copier_intros)

lemma ObserverFilter_copier [copier_intros]: "deep_copier ObserverFilter_layout ObserverFilter_DeepCopyInto"
  unfolding ObserverFilter_layout_def ObserverFilter_DeepCopyInto_def
  by (rule struct_into_copier) (auto simp: complete_for_def intro!: copier_intros)

lemma Observer_copier [copier_intros]: "deep_copier Observer_layout Observer_DeepCopyInto"
  unfolding Observer_layout_def Observer_DeepCopyInto_def
  by (rule struct_into_copier) (auto simp: complete_for_def intro!: copier_intros)

lemma ObserverResource_copier [copier_intros]: "external_documented X \<Longrightarrow> deep_copier (ObserverResource_layout X) (ObserverResource_DeepCopyInto X)"
  unfolding ObserverResource_layout_def ObserverResource_DeepCopyInto_def
  by (rule struct_into_copier) (auto simp: complete_for_def intro!: copier_intros)

lemma MdaiObserverSpec_copier [copier_intros]: "external_documented X \<Longrightarrow> deep_copier (MdaiObserverSpec_layout X) (MdaiObserverSpec_DeepCopyInto X)"
  unfolding MdaiObserverSpec_layout_def MdaiObserverSpec_DeepCopyInto_def
  by (rule struct_into_copier) (auto simp: complete_for_def intro!: copier_intros)

lemma MdaiObserverStatus_copier [copier_intros]: "external_documented X \<Longrightarrow> deep_copier (MdaiObserverStatus_layout X) (MdaiObserverStatus_DeepCopyInto X)"
  unfolding MdaiObserverStatus_layout_def MdaiObserverStatus_DeepCopyInto_def
  by (rule struct_into_copier) (auto simp: complete_for_def intro!: copier_intros)

lemma MdaiObserver_copier [copier_intros]: "external_documented X \<Longrightarrow> deep_copier (MdaiObserver_layout X) (MdaiObserver_DeepCopyInto X)"
  unfolding MdaiObserver_layout_def MdaiObserver_DeepCopyInto_def
  by (rule struct_into_copier) (auto simp: complete_for_def intro!: copier_intros)

lemma MdaiObserverList_copier [copier_intros]: "external_documented X \<Longrightarrow> deep_copier (MdaiObserverList_layout X) (MdaiObserverList_DeepCopyInto X)"
  unfolding MdaiObserverList_layout_def MdaiObserverList_DeepCopyInto_def
  by (rule struct_into_copier) (auto simp: complete_for_def intro!: copier_intros)

lemma MdaiReplayStatus_copier [copier_intros]: "external_documented X \<Longrightarrow> deep_copier (MdaiReplayStatus_layout X) (MdaiReplayStatus_DeepCopyInto X)"
  unfolding MdaiReplayStatus_layout_def MdaiReplayStatus_DeepCopyInto_def
  by (rule struct_into_copier) (auto simp: complete_for_def intro!: copier_intros)

lemma MdaiReplay_copier [copier_intros]: "external_documented X \<Longrightarrow> deep_copier (MdaiReplay_layout X) (MdaiReplay_DeepCopyInto X)"
  unfolding MdaiReplay_layout_def MdaiReplay_DeepCopyInto_def
  by (rule struct_into_copier) (auto simp: complete_for_def intro!: copier_intros)

lemma MdaiReplayList_copier [copier_intros]: "external_documented X \<Longrightarrow> deep_copier (MdaiReplayList_layout X) (MdaiReplayList_DeepCopyInto X)"
  unfolding MdaiReplayList_layout_def MdaiReplayList_DeepCopyInto_def
  by (rule struct_into_copier) (auto simp: complete_for_def intro!: copier_intros)


lemma api_copies_deep: "external_documented X \<Longrightarrow> list_all (\<lambda>(T, g). deep_copier (TPtr T) g) (api_copies X)"
  unfolding api_copies_def AWSConfig_DeepCopy_def AuditLogstreamConfig_DeepCopy_def LogstreamConfig_DeepCopy_def S3LogsConfig_DeepCopy_def
  OtlpLogsConfig_DeepCopy_def LogsConfig_DeepCopy_def MdaiCollectorSpec_DeepCopy_def MdaiCollectorStatus_DeepCopy_def
  MdaiCollector_DeepCopy_def MdaiCollectorList_DeepCopy_def MdaiDalAWSCredentials_DeepCopy_def MdaiDalAWSConfig_DeepCopy_def
  MdaiDalImageSpec_DeepCopy_def MdaiDalS3Config_DeepCopy_def MdaiDalSpec_DeepCopy_def MdaiDalStatus_DeepCopy_def
  MdaiDal_DeepCopy_def MdaiDalList_DeepCopy_def JoinTransformer_DeepCopy_def VariableTransformer_DeepCopy_def
  Serializer_DeepCopy_def Variable_DeepCopy_def PrometheusAlert_DeepCopy_def Config_DeepCopy_def
  ValueFromSource_DeepCopy_def StringOrFrom_DeepCopy_def CallWebhookAction_DeepCopy_def CleanUpReplayAction_DeepCopy_def
  MdaiReplayOtlpHttpDestinationConfiguration_DeepCopy_def MdaiReplayDestinationConfiguration_DeepCopy_def MdaiReplayResourceConfiguration_DeepCopy_def MdaiReplayAwsConfig_DeepCopy_def
  MdaiReplayS3Configuration_DeepCopy_def MdaiReplaySourceConfiguration_DeepCopy_def MdaiReplaySpec_DeepCopy_def DeployReplayAction_DeepCopy_def
  MapAction_DeepCopy_def ScalarAction_DeepCopy_def SetAction_DeepCopy_def Action_DeepCopy_def
  When_DeepCopy_def AutomationRule_DeepCopy_def MdaiHubSpec_DeepCopy_def MdaiHubStatus_DeepCopy_def
  MdaiHub_DeepCopy_def MdaiHubList_DeepCopy_def IngressService_DeepCopy_def OtelColRef_DeepCopy_def
  MdaiIngressSpec_DeepCopy_def MdaiIngressStatus_DeepCopy_def MdaiIngress_DeepCopy_def OtelMdaiIngressComb_DeepCopy_def
  MdaiIngressList_DeepCopy_def ObserverLogsFilter_DeepCopy_def ObserverFilter_DeepCopy_def Observer_DeepCopy_def
  ObserverResource_DeepCopy_def MdaiObserverSpec_DeepCopy_def MdaiObserverStatus_DeepCopy_def MdaiObserver_DeepCopy_def
  MdaiObserverList_DeepCopy_def MdaiReplayStatus_DeepCopy_def MdaiReplay_DeepCopy_def MdaiReplayList_DeepCopy_def
  by (simp only: list.pred_inject prod.case, intro conjI TrueI)
    (rule new_with_copier, rule copier_intros, (assumption | succeed))+

lemma api_objects_deep:
  "external_documented X \<Longrightarrow> list_all (\<lambda>(T, ob). \<exists>f. ob = deep_copy_object (new_with f) \<and> deep_copier T f) (api_objects X)"
  unfolding api_objects_def
  MdaiCollector_DeepCopyObject_def MdaiCollectorList_DeepCopyObject_def MdaiDal_DeepCopyObject_def MdaiDalList_DeepCopyObject_def
  MdaiHub_DeepCopyObject_def MdaiHubList_DeepCopyObject_def MdaiIngress_DeepCopyObject_def MdaiIngressList_DeepCopyObject_def
  MdaiObserver_DeepCopyObject_def MdaiObserverList_DeepCopyObject_def MdaiReplay_DeepCopyObject_def MdaiReplayList_DeepCopyObject_def
  MdaiCollector_DeepCopy_def MdaiCollectorList_DeepCopy_def MdaiDal_DeepCopy_def MdaiDalList_DeepCopy_def
  MdaiHub_DeepCopy_def MdaiHubList_DeepCopy_def MdaiIngress_DeepCopy_def MdaiIngressList_DeepCopy_def
  MdaiObserver_DeepCopy_def MdaiObserverList_DeepCopy_def MdaiReplay_DeepCopy_def MdaiReplayList_DeepCopy_def
  by (simp only: list.pred_inject prod.case, intro conjI TrueI)
    (rule exI, rule conjI, rule refl, rule copier_intros, assumption)+

text \<open>The methods of types without parts of other modules.\<close>

interpretation replay_spec_copy: deep_copier "TPtr MdaiReplaySpec_layout" MdaiReplaySpec_DeepCopy
  unfolding MdaiReplaySpec_DeepCopy_def by (intro copier_intros)

interpretation logs_copy: deep_copier "TPtr LogsConfig_layout" LogsConfig_DeepCopy
  unfolding LogsConfig_DeepCopy_def by (intro copier_intros)

interpretation variable_copy: deep_copier "TPtr Variable_layout" Variable_DeepCopy
  unfolding Variable_DeepCopy_def by (intro copier_intros)

interpretation observer_copy: deep_copier "TPtr Observer_layout" Observer_DeepCopy
  unfolding Observer_DeepCopy_def by (intro copier_intros)

section \<open>Properties\<close>

text \<open>
  C14. Every \<^verbatim>\<open>DeepCopy\<close> method of the API types copies completely: the copy denotes the same value, leads to new
  addresses only, and whoever writes to the cells of the copy leaves the original as it was. So the objects that the
  controllers get as copies from the cache can be changed in place. The copies of the types of other modules, which the
  methods call, are taken to be deep; for a field of such a type the statement is only as good as that module's method, and the
  free-form configuration of an OpenTelemetryCollector is known to be copied less deeply upstream.
\<close>

theorem deep_copies_isolate:
  assumes "external_documented X" "(T, g) \<in> set (api_copies X)" "wt (TPtr T) h p" "g p h = (q, h')"
  shows "copies (TPtr T) p h (q, h') \<and>
    (\<forall>h''. (\<forall>a. a \<notin> set (reach (TPtr T) h' q) \<longrightarrow> cell_at h'' a = cell_at h' a) \<longrightarrow>
       denotes (TPtr T) h'' p = denotes (TPtr T) h p)"
proof -
  have d: "deep_copier (TPtr T) g" using api_copies_deep [OF assms(1)] assms(2) by (auto simp: list_all_iff)
  show ?thesis using deep_copier.copy [OF d assms(3)] deep_copier.original_isolated [OF d assms(3,4)] assms(4) by auto
qed

text \<open>An ingress resource with a label, an annotation and two finalizers in a heap, and the modules it needs.\<close>

definition meta_layout :: gty where
  "meta_layout = TStruct [(''Name'', TScalar), (''Labels'', TMap TScalar), (''Finalizers'', TSlice TScalar)]"

definition sample_types :: external_types where
  "sample_types n =
     (if n = ''metav1.ObjectMeta''
      then \<lparr>ext_layout = meta_layout,
            ext_DeepCopyInto = struct_into [(''Labels'', make_map assign), (''Finalizers'', make_each assign)],
            ext_DeepCopy = new_with (struct_into [(''Labels'', make_map assign), (''Finalizers'', make_each assign)])\<rparr>
      else \<lparr>ext_layout = TScalar, ext_DeepCopyInto = assign, ext_DeepCopy = new_with assign\<rparr>)"

lemma sample_types_documented: "external_documented sample_types"
proof -
  have "deep_copier meta_layout (struct_into [(''Labels'', make_map assign), (''Finalizers'', make_each assign)])"
    unfolding meta_layout_def by (rule struct_into_copier) (auto simp: complete_for_def intro!: copier_intros)
  then show ?thesis
    by (auto simp: external_documented_def sample_types_def plain_types_def intro!: copier_intros)
qed

abbreviation gstr :: "string \<Rightarrow> gv" where "gstr s \<equiv> VScalar (SStr s)"

definition sample_heap :: gheap where
  "sample_heap =
     [CMap [(''app'', gstr ''otel'')], CArr [gstr ''a'', gstr ''b'', gstr ''c''], CMap [(''k'', gstr ''v'')], CVal (gstr ''nginx''),
      CVal (VStruct [(''TypeMeta'', gstr ''MdaiIngress''),
        (''ObjectMeta'', VStruct [(''Name'', gstr ''in''), (''Labels'', VMap (Some 0)), (''Finalizers'', VSlice (Some (1, 0, 2)))]),
        (''Spec'', VStruct [(''OtelCollector'', VStruct [(''Name'', gstr ''otel'')]), (''CloudType'', gstr ''aws''),
          (''Annotations'', VMap (Some 2)), (''IngressClassName'', VPtr (Some 3)), (''GrpcService'', VPtr None),
          (''NonGrpcService'', VPtr None), (''CollectorEndpoints'', VMap None)]),
        (''Status'', VStruct [])])]"

lemma sample_ingress_wt: "wt (TPtr (MdaiIngress_layout sample_types)) sample_heap (VPtr (Some 4))"
  by (simp add: MdaiIngress_layout_def MdaiIngressSpec_layout_def MdaiIngressStatus_layout_def OtelColRef_layout_def
      IngressService_layout_def sample_types_def meta_layout_def sample_heap_def is_var_def is_map_def is_slice_def val_at_def map_at_def
      arr_at_def elems_def cell_at_def field_def struct_fields_def)

theorem deep_copies_isolate_witness:
  "copies (TPtr (MdaiIngress_layout sample_types)) (VPtr (Some 4)) sample_heap
     (MdaiIngress_DeepCopy sample_types (VPtr (Some 4)) sample_heap)"
proof -
  obtain q h' where r: "MdaiIngress_DeepCopy sample_types (VPtr (Some 4)) sample_heap = (q, h')" by fastforce
  have "(MdaiIngress_layout sample_types, MdaiIngress_DeepCopy sample_types) \<in> set (api_copies sample_types)"
    by (simp add: api_copies_def)
  from deep_copies_isolate [OF sample_types_documented this sample_ingress_wt r] show ?thesis by (simp only: r)
qed

text \<open>
  \<^verbatim>\<open>DeepCopyObject\<close> of a kind is the nil interface exactly for a nil object, never an interface that holds a nil
  pointer, and otherwise the deep copy.
\<close>

theorem deep_copy_objects:
  assumes "external_documented X" "(T, ob) \<in> set (api_objects X)" "wt (TPtr T) h p" "ob p h = (r, h')"
  shows "case r of None \<Rightarrow> p = VPtr None \<and> h' = h | Some q \<Rightarrow> p \<noteq> VPtr None \<and> q \<noteq> VPtr None \<and> copies (TPtr T) p h (q, h')"
proof -
  obtain f where f: "ob = deep_copy_object (new_with f)" "deep_copier T f"
    using api_objects_deep [OF assms(1)] assms(2) by (auto simp: list_all_iff)
  from assms(3) show ?thesis
  proof (cases rule: wt_PtrE)
    case 1
    with f(1) assms(4) show ?thesis by (auto simp: deep_copy_object_def new_with_def)
  next
    case (2 a)
    then have "fst (new_with f p h) \<noteq> VPtr None" by (simp add: new_with_def alloc_def split: prod.splits)
    with 2(1) f(1) assms(4) deep_copier.copy [OF new_with_copier [OF f(2)] assms(3)] show ?thesis
      by (auto simp: deep_copy_object_def split: prod.splits)
  qed
qed

theorem deep_copy_objects_witness:
  "\<exists>q h'. MdaiIngress_DeepCopyObject sample_types (VPtr (Some 4)) sample_heap = (Some q, h') \<and> q \<noteq> VPtr (Some 4)"
proof -
  obtain r h' where r: "MdaiIngress_DeepCopyObject sample_types (VPtr (Some 4)) sample_heap = (r, h')" by fastforce
  have "(MdaiIngress_layout sample_types, MdaiIngress_DeepCopyObject sample_types) \<in> set (api_objects sample_types)"
    by (simp add: api_objects_def)
  from deep_copy_objects [OF sample_types_documented this sample_ingress_wt r] show ?thesis using r
    by (auto simp: copies_iff sample_heap_def split: option.splits)
qed

end
