(* ===== verification/Generated_Clients.thy ===== *)
theory Generated_Clients
  imports Prelude Complex_Main
begin

text \<open>
  The generated client set (\<^verbatim>\<open>pkg/generated/clientset\<close>) and listers (\<^verbatim>\<open>pkg/generated/listers\<close>): how a
  program that uses the API builds its clients. The generic client and lister of \<^verbatim>\<open>client-go\<close> are the arguments
  they are made from.
\<close>

section \<open>The API group (api/v1/groupversion\_info.go)\<close>

record group_version =
  gv_Group :: string
  gv_Version :: string

record group_resource =
  gr_Group :: string
  gr_Resource :: string

record group_version_resource =
  gvr_GroupVersion :: group_version
  gvr_Resource :: string

definition GroupVersion :: group_version where
  "GroupVersion = \<lparr>gv_Group = ''hub.mydecisive.ai'', gv_Version = ''v1''\<rparr>"

definition SchemeGroupVersion :: group_version where
  "SchemeGroupVersion = \<lparr>gv_Group = gv_Group GroupVersion, gv_Version = gv_Version GroupVersion\<rparr>"

definition WithResource :: "group_version \<Rightarrow> string \<Rightarrow> group_version_resource" where
  "WithResource gv resource = \<lparr>gvr_GroupVersion = gv, gvr_Resource = resource\<rparr>"

definition GroupResource :: "group_version_resource \<Rightarrow> group_resource" where
  "GroupResource r = \<lparr>gr_Group = gv_Group (gvr_GroupVersion r), gr_Resource = gvr_Resource r\<rparr>"

definition Resource :: "string \<Rightarrow> group_resource" where
  "Resource resource = GroupResource (WithResource SchemeGroupVersion resource)"

section \<open>The client of the group (api\_client.go)\<close>

text \<open>
  The fields of \<^verbatim>\<open>rest.Config\<close> that the code reads or writes, over the type of rate limiters. \<^verbatim>\<open>QPS\<close> is a
  \<^verbatim>\<open>float32\<close>, of which only the sign matters.
\<close>

record 'rl rest_config =
  rc_UserAgent :: string
  rc_QPS :: rat
  rc_Burst :: int
  rc_RateLimiter :: "'rl option"
  rc_GroupVersion :: "group_version option"
  rc_APIPath :: string
  rc_NegotiatedSerializer :: "string option"

text \<open>What the code calls of \<^verbatim>\<open>client-go\<close>.\<close>

record ('rl, 'http, 'rest, 'disc) rest_lib =
  rl_DefaultKubernetesUserAgent :: string
  rl_HTTPClientFor :: "'rl rest_config \<Rightarrow> goerr + 'http"
  rl_RESTClientForConfigAndClient :: "'rl rest_config \<Rightarrow> 'http \<Rightarrow> goerr + 'rest"
  rl_NewDiscoveryClientForConfigAndClient :: "'rl rest_config \<Rightarrow> 'http \<Rightarrow> goerr + 'disc"
  rl_NewDiscoveryClient :: "'rest \<Rightarrow> 'disc"
  rl_NewTokenBucketRateLimiter :: "rat \<Rightarrow> int \<Rightarrow> 'rl"
  rl_Codec :: string

record 'rest HubV1Client =
  restClient :: 'rest

definition RESTClient :: "'rest HubV1Client option \<Rightarrow> 'rest option" where
  "RESTClient c = (case c of None \<Rightarrow> None | Some cl \<Rightarrow> Some (restClient cl))"

definition setConfigDefaults :: "('rl, 'http, 'rest, 'disc) rest_lib \<Rightarrow> 'rl rest_config \<Rightarrow> 'rl rest_config" where
  "setConfigDefaults R config =
     (let c = config\<lparr>rc_GroupVersion := Some SchemeGroupVersion, rc_APIPath := ''/apis'',
                rc_NegotiatedSerializer := Some (rl_Codec R)\<rparr>
      in if rc_UserAgent c = [] then c\<lparr>rc_UserAgent := rl_DefaultKubernetesUserAgent R\<rparr> else c)"

definition HubV1_NewForConfigAndClient ::
  "('rl, 'http, 'rest, 'disc) rest_lib \<Rightarrow> 'rl rest_config \<Rightarrow> 'http \<Rightarrow> goerr + 'rest HubV1Client" where
  "HubV1_NewForConfigAndClient R c h =
     (case rl_RESTClientForConfigAndClient R (setConfigDefaults R c) h of
        Inl err \<Rightarrow> Inl err
      | Inr client \<Rightarrow> Inr \<lparr>restClient = client\<rparr>)"

definition HubV1_NewForConfig ::
  "('rl, 'http, 'rest, 'disc) rest_lib \<Rightarrow> 'rl rest_config \<Rightarrow> goerr + 'rest HubV1Client" where
  "HubV1_NewForConfig R c =
     (let config = setConfigDefaults R c
      in case rl_HTTPClientFor R config of
           Inl err \<Rightarrow> Inl err
         | Inr httpClient \<Rightarrow> HubV1_NewForConfigAndClient R config httpClient)"

text \<open>\<^verbatim>\<open>panic(err)\<close> carries the error value.\<close>

definition or_die :: "goerr + 'a \<Rightarrow> 'a outcome" where
  "or_die r = (case r of Inl err \<Rightarrow> Panic ''error in the config'' | Inr x \<Rightarrow> Ok x)"

definition HubV1_NewForConfigOrDie ::
  "('rl, 'http, 'rest, 'disc) rest_lib \<Rightarrow> 'rl rest_config \<Rightarrow> 'rest HubV1Client outcome" where
  "HubV1_NewForConfigOrDie R c = or_die (HubV1_NewForConfig R c)"

definition HubV1_New :: "'rest \<Rightarrow> 'rest HubV1Client" where
  "HubV1_New c = \<lparr>restClient = c\<rparr>"

section \<open>The client set (clientset.go)\<close>

record ('rest, 'disc) Clientset =
  cs_DiscoveryClient :: 'disc
  cs_hubV1 :: "'rest HubV1Client"

text \<open>\<^verbatim>\<open>c.hubV1\<close> on a nil client set is a nil dereference.\<close>

definition Clientset_HubV1 :: "('rest, 'disc) Clientset option \<Rightarrow> 'rest HubV1Client outcome" where
  "Clientset_HubV1 c = (case c of None \<Rightarrow> Panic ''nil pointer dereference'' | Some cs \<Rightarrow> Ok (cs_hubV1 cs))"

definition Clientset_Discovery :: "('rest, 'disc) Clientset option \<Rightarrow> 'disc option" where
  "Clientset_Discovery c = (case c of None \<Rightarrow> None | Some cs \<Rightarrow> Some (cs_DiscoveryClient cs))"

definition burst_error :: goerr where
  "burst_error = ErrNew ''burst is required to be greater than 0 when RateLimiter is not set and QPS is set to greater than 0''"

text \<open>The two changes made to the copy of the configuration.\<close>

definition limited_config :: "('rl, 'http, 'rest, 'disc) rest_lib \<Rightarrow> 'rl rest_config \<Rightarrow> 'rl rest_config" where
  "limited_config R c =
     (if rc_RateLimiter c = None \<and> rc_QPS c > 0
      then c\<lparr>rc_RateLimiter := Some (rl_NewTokenBucketRateLimiter R (rc_QPS c) (rc_Burst c))\<rparr> else c)"

definition agent_config :: "('rl, 'http, 'rest, 'disc) rest_lib \<Rightarrow> 'rl rest_config \<Rightarrow> 'rl rest_config" where
  "agent_config R c = (if rc_UserAgent c = [] then c\<lparr>rc_UserAgent := rl_DefaultKubernetesUserAgent R\<rparr> else c)"

definition Clientset_NewForConfigAndClient ::
  "('rl, 'http, 'rest, 'disc) rest_lib \<Rightarrow> 'rl rest_config \<Rightarrow> 'http \<Rightarrow> goerr + ('rest, 'disc) Clientset" where
  "Clientset_NewForConfigAndClient R c httpClient =
     (if rc_RateLimiter c = None \<and> rc_QPS c > 0 \<and> rc_Burst c \<le> 0 then Inl burst_error
      else (case HubV1_NewForConfigAndClient R (limited_config R c) httpClient of
              Inl err \<Rightarrow> Inl err
            | Inr hub \<Rightarrow>
                (case rl_NewDiscoveryClientForConfigAndClient R (limited_config R c) httpClient of
                   Inl err \<Rightarrow> Inl err
                 | Inr disc \<Rightarrow> Inr \<lparr>cs_DiscoveryClient = disc, cs_hubV1 = hub\<rparr>)))"

definition Clientset_NewForConfig ::
  "('rl, 'http, 'rest, 'disc) rest_lib \<Rightarrow> 'rl rest_config \<Rightarrow> goerr + ('rest, 'disc) Clientset" where
  "Clientset_NewForConfig R c =
     (case rl_HTTPClientFor R (agent_config R c) of
        Inl err \<Rightarrow> Inl err
      | Inr httpClient \<Rightarrow> Clientset_NewForConfigAndClient R (agent_config R c) httpClient)"

definition Clientset_NewForConfigOrDie ::
  "('rl, 'http, 'rest, 'disc) rest_lib \<Rightarrow> 'rl rest_config \<Rightarrow> ('rest, 'disc) Clientset outcome" where
  "Clientset_NewForConfigOrDie R c = or_die (Clientset_NewForConfig R c)"

definition Clientset_New :: "('rl, 'http, 'rest, 'disc) rest_lib \<Rightarrow> 'rest \<Rightarrow> ('rest, 'disc) Clientset" where
  "Clientset_New R c = \<lparr>cs_DiscoveryClient = rl_NewDiscoveryClient R c, cs_hubV1 = HubV1_New c\<rparr>"

section \<open>The clients and listers of the kinds\<close>

text \<open>
  The arguments of \<^verbatim>\<open>gentype.NewClientWithList\<close>: the resource in the URL, the REST client, the namespace and the types
  of the object and the list. A lister has an index and the group resource it names in errors.
\<close>

record 'rest typed_client =
  tc_Resource :: string
  tc_REST :: "'rest option"
  tc_Namespace :: string
  tc_Object :: string
  tc_List :: string

record 'ix lister =
  li_Indexer :: 'ix
  li_Resource :: group_resource
  li_Namespace :: "string option"

definition newMdaiCollectors :: "'rest HubV1Client option \<Rightarrow> string \<Rightarrow> 'rest typed_client" where
  "newMdaiCollectors c namespace = \<lparr>tc_Resource = ''mdaicollectors'', tc_REST = RESTClient c, tc_Namespace = namespace,
     tc_Object = ''MdaiCollector'', tc_List = ''MdaiCollectorList''\<rparr>"

definition HubV1Client_MdaiCollectors :: "'rest HubV1Client option \<Rightarrow> string \<Rightarrow> 'rest typed_client" where
  "HubV1Client_MdaiCollectors c namespace = newMdaiCollectors c namespace"

definition NewMdaiCollectorLister :: "'ix \<Rightarrow> 'ix lister" where
  "NewMdaiCollectorLister indexer = \<lparr>li_Indexer = indexer, li_Resource = Resource ''mdaicollector'', li_Namespace = None\<rparr>"

definition mdaiCollectorLister_MdaiCollectors :: "'ix lister \<Rightarrow> string \<Rightarrow> 'ix lister" where
  "mdaiCollectorLister_MdaiCollectors s namespace = s\<lparr>li_Namespace := Some namespace\<rparr>"

definition newMdaiDals :: "'rest HubV1Client option \<Rightarrow> string \<Rightarrow> 'rest typed_client" where
  "newMdaiDals c namespace = \<lparr>tc_Resource = ''mdaidals'', tc_REST = RESTClient c, tc_Namespace = namespace,
     tc_Object = ''MdaiDal'', tc_List = ''MdaiDalList''\<rparr>"

definition HubV1Client_MdaiDals :: "'rest HubV1Client option \<Rightarrow> string \<Rightarrow> 'rest typed_client" where
  "HubV1Client_MdaiDals c namespace = newMdaiDals c namespace"

definition NewMdaiDalLister :: "'ix \<Rightarrow> 'ix lister" where
  "NewMdaiDalLister indexer = \<lparr>li_Indexer = indexer, li_Resource = Resource ''mdaidal'', li_Namespace = None\<rparr>"

definition mdaiDalLister_MdaiDals :: "'ix lister \<Rightarrow> string \<Rightarrow> 'ix lister" where
  "mdaiDalLister_MdaiDals s namespace = s\<lparr>li_Namespace := Some namespace\<rparr>"

definition newMdaiHubs :: "'rest HubV1Client option \<Rightarrow> string \<Rightarrow> 'rest typed_client" where
  "newMdaiHubs c namespace = \<lparr>tc_Resource = ''mdaihubs'', tc_REST = RESTClient c, tc_Namespace = namespace,
     tc_Object = ''MdaiHub'', tc_List = ''MdaiHubList''\<rparr>"

definition HubV1Client_MdaiHubs :: "'rest HubV1Client option \<Rightarrow> string \<Rightarrow> 'rest typed_client" where
  "HubV1Client_MdaiHubs c namespace = newMdaiHubs c namespace"

definition NewMdaiHubLister :: "'ix \<Rightarrow> 'ix lister" where
  "NewMdaiHubLister indexer = \<lparr>li_Indexer = indexer, li_Resource = Resource ''mdaihub'', li_Namespace = None\<rparr>"

definition mdaiHubLister_MdaiHubs :: "'ix lister \<Rightarrow> string \<Rightarrow> 'ix lister" where
  "mdaiHubLister_MdaiHubs s namespace = s\<lparr>li_Namespace := Some namespace\<rparr>"

definition newMdaiIngresses :: "'rest HubV1Client option \<Rightarrow> string \<Rightarrow> 'rest typed_client" where
  "newMdaiIngresses c namespace = \<lparr>tc_Resource = ''mdaiingresses'', tc_REST = RESTClient c, tc_Namespace = namespace,
     tc_Object = ''MdaiIngress'', tc_List = ''MdaiIngressList''\<rparr>"

definition HubV1Client_MdaiIngresses :: "'rest HubV1Client option \<Rightarrow> string \<Rightarrow> 'rest typed_client" where
  "HubV1Client_MdaiIngresses c namespace = newMdaiIngresses c namespace"

definition NewMdaiIngressLister :: "'ix \<Rightarrow> 'ix lister" where
  "NewMdaiIngressLister indexer = \<lparr>li_Indexer = indexer, li_Resource = Resource ''mdaiingress'', li_Namespace = None\<rparr>"

definition mdaiIngressLister_MdaiIngresses :: "'ix lister \<Rightarrow> string \<Rightarrow> 'ix lister" where
  "mdaiIngressLister_MdaiIngresses s namespace = s\<lparr>li_Namespace := Some namespace\<rparr>"

definition newMdaiObservers :: "'rest HubV1Client option \<Rightarrow> string \<Rightarrow> 'rest typed_client" where
  "newMdaiObservers c namespace = \<lparr>tc_Resource = ''mdaiobservers'', tc_REST = RESTClient c, tc_Namespace = namespace,
     tc_Object = ''MdaiObserver'', tc_List = ''MdaiObserverList''\<rparr>"

definition HubV1Client_MdaiObservers :: "'rest HubV1Client option \<Rightarrow> string \<Rightarrow> 'rest typed_client" where
  "HubV1Client_MdaiObservers c namespace = newMdaiObservers c namespace"

definition NewMdaiObserverLister :: "'ix \<Rightarrow> 'ix lister" where
  "NewMdaiObserverLister indexer = \<lparr>li_Indexer = indexer, li_Resource = Resource ''mdaiobserver'', li_Namespace = None\<rparr>"

definition mdaiObserverLister_MdaiObservers :: "'ix lister \<Rightarrow> string \<Rightarrow> 'ix lister" where
  "mdaiObserverLister_MdaiObservers s namespace = s\<lparr>li_Namespace := Some namespace\<rparr>"

definition newMdaiReplays :: "'rest HubV1Client option \<Rightarrow> string \<Rightarrow> 'rest typed_client" where
  "newMdaiReplays c namespace = \<lparr>tc_Resource = ''mdaireplays'', tc_REST = RESTClient c, tc_Namespace = namespace,
     tc_Object = ''MdaiReplay'', tc_List = ''MdaiReplayList''\<rparr>"

definition HubV1Client_MdaiReplays :: "'rest HubV1Client option \<Rightarrow> string \<Rightarrow> 'rest typed_client" where
  "HubV1Client_MdaiReplays c namespace = newMdaiReplays c namespace"

definition NewMdaiReplayLister :: "'ix \<Rightarrow> 'ix lister" where
  "NewMdaiReplayLister indexer = \<lparr>li_Indexer = indexer, li_Resource = Resource ''mdaireplay'', li_Namespace = None\<rparr>"

definition mdaiReplayLister_MdaiReplays :: "'ix lister \<Rightarrow> string \<Rightarrow> 'ix lister" where
  "mdaiReplayLister_MdaiReplays s namespace = s\<lparr>li_Namespace := Some namespace\<rparr>"

section \<open>Properties\<close>

text \<open>
  A client set is built exactly when its parts can be: a missing burst with a positive rate and no limiter is refused
  before any client is made, a failure to make a client is passed on, and otherwise the REST client is made for the
  group's version under \<^verbatim>\<open>/apis\<close>, with the given limiter or one made from rate and burst and with a user agent.
\<close>

theorem clientset_construction:
  assumes "rl_DefaultKubernetesUserAgent R \<noteq> []"
  shows "case Clientset_NewForConfig R c of
      Inr cs \<Rightarrow> \<exists>http config. rl_HTTPClientFor R (agent_config R c) = Inr http \<and>
        rl_RESTClientForConfigAndClient R config http = Inr (restClient (cs_hubV1 cs)) \<and>
        rc_UserAgent config \<noteq> [] \<and> rc_GroupVersion config = Some GroupVersion \<and> rc_APIPath config = ''/apis'' \<and>
        rc_RateLimiter config = (if rc_RateLimiter c = None \<and> rc_QPS c > 0
          then Some (rl_NewTokenBucketRateLimiter R (rc_QPS c) (rc_Burst c)) else rc_RateLimiter c) \<and>
        \<not> (rc_RateLimiter c = None \<and> rc_QPS c > 0 \<and> rc_Burst c \<le> 0)
    | Inl err \<Rightarrow> (rc_RateLimiter c = None \<and> rc_QPS c > 0 \<and> rc_Burst c \<le> 0 \<and> err = burst_error) \<or>
        (\<exists>config. rl_HTTPClientFor R config = Inl err) \<or> (\<exists>config h. rl_RESTClientForConfigAndClient R config h = Inl err) \<or>
        (\<exists>config h. rl_NewDiscoveryClientForConfigAndClient R config h = Inl err)"
proof -
  let ?c = "agent_config R c"
  let ?config = "setConfigDefaults R (limited_config R ?c)"
  have fields: "rc_RateLimiter ?c = rc_RateLimiter c" "rc_QPS ?c = rc_QPS c" "rc_Burst ?c = rc_Burst c"
    by (simp_all add: agent_config_def)
  have config: "rc_UserAgent ?config \<noteq> []" "rc_GroupVersion ?config = Some GroupVersion" "rc_APIPath ?config = ''/apis''"
    "rc_RateLimiter ?config = (if rc_RateLimiter c = None \<and> rc_QPS c > 0
       then Some (rl_NewTokenBucketRateLimiter R (rc_QPS c) (rc_Burst c)) else rc_RateLimiter c)"
    using assms by (simp_all add: setConfigDefaults_def limited_config_def agent_config_def Let_def SchemeGroupVersion_def)
  show ?thesis
  proof (cases "Clientset_NewForConfig R c")
    case (Inl err)
    then show ?thesis
      by (auto simp: Clientset_NewForConfig_def Clientset_NewForConfigAndClient_def HubV1_NewForConfigAndClient_def fields
          split: sum.splits if_splits)
  next
    case (Inr cs)
    then obtain h where "rl_HTTPClientFor R ?c = Inr h" "rl_RESTClientForConfigAndClient R ?config h = Inr (restClient (cs_hubV1 cs))"
      "\<not> (rc_RateLimiter c = None \<and> rc_QPS c > 0 \<and> rc_Burst c \<le> 0)"
      by (auto simp: Clientset_NewForConfig_def Clientset_NewForConfigAndClient_def HubV1_NewForConfigAndClient_def fields
          split: sum.splits if_splits)
    with Inr config show ?thesis by (simp only: sum.case) blast
  qed
qed

text \<open>A library that makes every client.\<close>

definition sample_rest_lib :: "(int, unit, string, unit) rest_lib" where
  "sample_rest_lib = \<lparr>rl_DefaultKubernetesUserAgent = ''agent'', rl_HTTPClientFor = (\<lambda>c. Inr ()),
     rl_RESTClientForConfigAndClient = (\<lambda>c h. Inr (rc_APIPath c @ rc_UserAgent c)),
     rl_NewDiscoveryClientForConfigAndClient = (\<lambda>c h. Inr ()), rl_NewDiscoveryClient = (\<lambda>c. ()),
     rl_NewTokenBucketRateLimiter = (\<lambda>q b. b), rl_Codec = ''json''\<rparr>"

definition sample_rest_config :: "int rest_config" where
  "sample_rest_config = \<lparr>rc_UserAgent = [], rc_QPS = 5, rc_Burst = 0, rc_RateLimiter = None, rc_GroupVersion = None, rc_APIPath = [],
     rc_NegotiatedSerializer = None\<rparr>"

theorem clientset_construction_witness:
  "Clientset_NewForConfig sample_rest_lib sample_rest_config = Inl burst_error \<and>
   (\<exists>cs. Clientset_NewForConfig sample_rest_lib (sample_rest_config\<lparr>rc_Burst := 10\<rparr>) = Inr cs)"
proof -
  have "rl_DefaultKubernetesUserAgent sample_rest_lib \<noteq> []" by (simp add: sample_rest_lib_def)
  note c = clientset_construction [OF this]
  have "Clientset_NewForConfig sample_rest_lib sample_rest_config = Inl burst_error"
    using c [of sample_rest_config]
    by (auto simp: sample_rest_lib_def sample_rest_config_def split: sum.splits)
  moreover have "\<exists>cs. Clientset_NewForConfig sample_rest_lib (sample_rest_config\<lparr>rc_Burst := 10\<rparr>) = Inr cs"
    using c [of "sample_rest_config\<lparr>rc_Burst := 10\<rparr>"]
    by (auto simp: sample_rest_lib_def sample_rest_config_def split: sum.splits)
  ultimately show ?thesis by simp
qed

end
