(* ===== verification/Informers.thy ===== *)
theory Informers
  imports Generated_Clients "HOL-Library.Multiset"
begin

text \<open>
  The generated shared informers (\<^verbatim>\<open>pkg/generated/informers\<close>): a factory that keeps one informer per type, starts each
  in a goroutine of its own and waits for them when it is shut down. Every method takes the factory's lock, so the calls of
  several goroutines are a sequence of steps; the goroutines of the informers end in between.
\<close>

section \<open>Informers and the factory\<close>

type_synonym 'opt tweak = "'opt \<Rightarrow> 'opt"

datatype go_context = Background | Ctx nat

datatype ('rest, 'opt) client_call = CList "'rest typed_client" go_context 'opt | CWatch "'rest typed_client" go_context 'opt

record ('rest, 'opt) list_watch =
  ListFunc :: "'opt \<Rightarrow> ('rest, 'opt) client_call"
  WatchFunc :: "'opt \<Rightarrow> ('rest, 'opt) client_call"
  ListWithContextFunc :: "go_context \<Rightarrow> 'opt \<Rightarrow> ('rest, 'opt) client_call"
  WatchFuncWithContext :: "go_context \<Rightarrow> 'opt \<Rightarrow> ('rest, 'opt) client_call"

text \<open>A \<^verbatim>\<open>cache.SharedIndexInformer\<close>: what it is made from and the transform set on it.\<close>

record ('rest, 'opt, 'tr) informer =
  si_ListWatch :: "('rest, 'opt) list_watch"
  si_Object :: string
  si_Resync :: int
  si_Indexers :: "string list"
  si_Transform :: "'tr option"

definition NewSharedIndexInformer ::
  "('rest, 'opt) list_watch \<Rightarrow> string \<Rightarrow> int \<Rightarrow> string list \<Rightarrow> ('rest, 'opt, 'tr) informer" where
  "NewSharedIndexInformer lw obj resync indexers =
     \<lparr>si_ListWatch = lw, si_Object = obj, si_Resync = resync, si_Indexers = indexers, si_Transform = None\<rparr>"

definition NamespaceIndex :: string where "NamespaceIndex = ''namespace''"

text \<open>\<^verbatim>\<open>if tweakListOptions != nil { tweakListOptions(&options) }\<close>.\<close>

definition tweaked :: "'opt tweak option \<Rightarrow> 'opt \<Rightarrow> 'opt" where
  "tweaked t options = (case t of None \<Rightarrow> options | Some f \<Rightarrow> f options)"

text \<open>The factory; types are their names, \<^verbatim>\<open>wg\<close> is the counter of the wait group.\<close>

record ('rest, 'opt, 'tr) factory =
  ff_client :: "'rest HubV1Client option"
  ff_namespace :: string
  ff_tweakListOptions :: "'opt tweak option"
  ff_defaultResync :: int
  ff_customResync :: "(string, int) gomap"
  ff_transform :: "'tr option"
  ff_informers :: "(string, ('rest, 'opt, 'tr) informer) gomap"
  ff_startedInformers :: "(string, bool) gomap"
  ff_wg :: nat
  ff_shuttingDown :: bool

type_synonym ('rest, 'opt, 'tr) factory_option = "('rest, 'opt, 'tr) factory \<Rightarrow> ('rest, 'opt, 'tr) factory"

definition WithCustomResyncConfig :: "(string, int) gomap \<Rightarrow> ('rest, 'opt, 'tr) factory_option" where
  "WithCustomResyncConfig resyncConfig f =
     f\<lparr>ff_customResync := fold (\<lambda>(k, v) m. gset k v m) resyncConfig (ff_customResync f)\<rparr>"

definition WithTweakListOptions :: "'opt tweak option \<Rightarrow> ('rest, 'opt, 'tr) factory_option" where
  "WithTweakListOptions t f = f\<lparr>ff_tweakListOptions := t\<rparr>"

definition WithNamespace :: "string \<Rightarrow> ('rest, 'opt, 'tr) factory_option" where
  "WithNamespace namespace f = f\<lparr>ff_namespace := namespace\<rparr>"

definition WithTransform :: "'tr option \<Rightarrow> ('rest, 'opt, 'tr) factory_option" where
  "WithTransform t f = f\<lparr>ff_transform := t\<rparr>"

definition NewSharedInformerFactoryWithOptions ::
  "'rest HubV1Client option \<Rightarrow> int \<Rightarrow> ('rest, 'opt, 'tr) factory_option list \<Rightarrow> ('rest, 'opt, 'tr) factory" where
  "NewSharedInformerFactoryWithOptions client defaultResync options =
     fold (\<lambda>opt f. opt f) options
       \<lparr>ff_client = client, ff_namespace = [], ff_tweakListOptions = None, ff_defaultResync = defaultResync, ff_customResync = [],
        ff_transform = None, ff_informers = [], ff_startedInformers = [], ff_wg = 0, ff_shuttingDown = False\<rparr>"

definition NewSharedInformerFactory :: "'rest HubV1Client option \<Rightarrow> int \<Rightarrow> ('rest, 'opt, 'tr) factory" where
  "NewSharedInformerFactory client defaultResync = NewSharedInformerFactoryWithOptions client defaultResync []"

definition NewFilteredSharedInformerFactory ::
  "'rest HubV1Client option \<Rightarrow> int \<Rightarrow> string \<Rightarrow> 'opt tweak option \<Rightarrow> ('rest, 'opt, 'tr) factory" where
  "NewFilteredSharedInformerFactory client defaultResync namespace t =
     NewSharedInformerFactoryWithOptions client defaultResync [WithNamespace namespace, WithTweakListOptions t]"

definition InformerFor ::
  "string \<Rightarrow> ('rest HubV1Client option \<Rightarrow> int \<Rightarrow> ('rest, 'opt, 'tr) informer) \<Rightarrow> ('rest, 'opt, 'tr) factory
     \<Rightarrow> ('rest, 'opt, 'tr) informer \<times> ('rest, 'opt, 'tr) factory" where
  "InformerFor informerType newFunc f =
     (case gget (ff_informers f) informerType of
        Some informer \<Rightarrow> (informer, f)
      | None \<Rightarrow>
          (let resyncPeriod = (case gget (ff_customResync f) informerType of Some r \<Rightarrow> r | None \<Rightarrow> ff_defaultResync f);
               informer = (newFunc (ff_client f) resyncPeriod)\<lparr>si_Transform := ff_transform f\<rparr>
           in (informer, f\<lparr>ff_informers := gset informerType informer (ff_informers f)\<rparr>)))"

text \<open>
  A goroutine that runs an informer until its stop channel is closed: the type and the channel. The loop of
  \<^verbatim>\<open>Start\<close> visits the informers in the order \<^term>\<open>rng\<close>.
\<close>

type_synonym goroutine = "string \<times> nat"

definition is_started :: "('rest, 'opt, 'tr) factory \<Rightarrow> string \<Rightarrow> bool" where
  "is_started f t \<longleftrightarrow> gget (ff_startedInformers f) t = Some True"

definition start_informer ::
  "nat \<Rightarrow> string \<Rightarrow> goroutine list \<times> ('rest, 'opt, 'tr) factory \<Rightarrow> goroutine list \<times> ('rest, 'opt, 'tr) factory" where
  "start_informer stopCh informerType = (\<lambda>(gs, f).
     if is_started f informerType then (gs, f)
     else (gs @ [(informerType, stopCh)],
           f\<lparr>ff_wg := ff_wg f + 1, ff_startedInformers := gset informerType True (ff_startedInformers f)\<rparr>))"

definition factory_Start ::
  "(string list \<Rightarrow> string list) \<Rightarrow> nat \<Rightarrow> ('rest, 'opt, 'tr) factory \<Rightarrow> goroutine list \<times> ('rest, 'opt, 'tr) factory" where
  "factory_Start rng stopCh f =
     (if ff_shuttingDown f then ([], f) else fold (start_informer stopCh) (rng (map fst (ff_informers f))) ([], f))"

definition Shutdown_mark :: "('rest, 'opt, 'tr) factory \<Rightarrow> ('rest, 'opt, 'tr) factory" where
  "Shutdown_mark f = f\<lparr>ff_shuttingDown := True\<rparr>"

text \<open>\<^verbatim>\<open>cache.WaitForCacheSync\<close> is a parameter.\<close>

definition WaitForCacheSync ::
  "(nat \<Rightarrow> ('rest, 'opt, 'tr) informer \<Rightarrow> bool) \<Rightarrow> nat \<Rightarrow> ('rest, 'opt, 'tr) factory \<Rightarrow> (string, bool) gomap" where
  "WaitForCacheSync wait stopCh f =
     map (\<lambda>(t, i). (t, wait stopCh i)) (filter (\<lambda>(t, i). is_started f t) (ff_informers f))"

section \<open>The informers of the kinds\<close>

record 'opt versioned =
  ve_namespace :: string
  ve_tweak :: "'opt tweak option"

text \<open>
  The group of a factory, its version and the informer structs of the kinds have the same fields; the factory itself is the
  argument of the methods.
\<close>

definition group_New :: "string \<Rightarrow> 'opt tweak option \<Rightarrow> 'opt versioned" where
  "group_New namespace tweakListOptions = \<lparr>ve_namespace = namespace, ve_tweak = tweakListOptions\<rparr>"

definition version_New :: "string \<Rightarrow> 'opt tweak option \<Rightarrow> 'opt versioned" where
  "version_New namespace tweakListOptions = \<lparr>ve_namespace = namespace, ve_tweak = tweakListOptions\<rparr>"

definition group_V1 :: "'opt versioned \<Rightarrow> 'opt versioned" where
  "group_V1 g = version_New (ve_namespace g) (ve_tweak g)"

definition version_MdaiCollectors :: "'opt versioned \<Rightarrow> 'opt versioned" where
  "version_MdaiCollectors v = \<lparr>ve_namespace = ve_namespace v, ve_tweak = ve_tweak v\<rparr>"

definition version_MdaiDals :: "'opt versioned \<Rightarrow> 'opt versioned" where
  "version_MdaiDals v = \<lparr>ve_namespace = ve_namespace v, ve_tweak = ve_tweak v\<rparr>"

definition version_MdaiHubs :: "'opt versioned \<Rightarrow> 'opt versioned" where
  "version_MdaiHubs v = \<lparr>ve_namespace = ve_namespace v, ve_tweak = ve_tweak v\<rparr>"

definition version_MdaiIngresses :: "'opt versioned \<Rightarrow> 'opt versioned" where
  "version_MdaiIngresses v = \<lparr>ve_namespace = ve_namespace v, ve_tweak = ve_tweak v\<rparr>"

definition version_MdaiObservers :: "'opt versioned \<Rightarrow> 'opt versioned" where
  "version_MdaiObservers v = \<lparr>ve_namespace = ve_namespace v, ve_tweak = ve_tweak v\<rparr>"

definition version_MdaiReplays :: "'opt versioned \<Rightarrow> 'opt versioned" where
  "version_MdaiReplays v = \<lparr>ve_namespace = ve_namespace v, ve_tweak = ve_tweak v\<rparr>"

definition factory_Hub :: "('rest, 'opt, 'tr) factory \<Rightarrow> 'opt versioned" where
  "factory_Hub f = group_New (ff_namespace f) (ff_tweakListOptions f)"

lemma informer_structs [simp]: "group_V1 v = v" "version_MdaiCollectors v = v" "version_MdaiDals v = v" "version_MdaiHubs v = v" "version_MdaiIngresses v = v" "version_MdaiObservers v = v" "version_MdaiReplays v = v"
  by (simp_all add: group_V1_def version_New_def version_MdaiCollectors_def version_MdaiDals_def version_MdaiHubs_def version_MdaiIngresses_def version_MdaiObservers_def version_MdaiReplays_def)

definition NewFilteredMdaiCollectorInformer ::
  "'rest HubV1Client option \<Rightarrow> string \<Rightarrow> int \<Rightarrow> string list \<Rightarrow> 'opt tweak option \<Rightarrow> ('rest, 'opt, 'tr) informer" where
  "NewFilteredMdaiCollectorInformer client namespace resyncPeriod indexers tweakListOptions =
     NewSharedIndexInformer
       \<lparr>ListFunc = (\<lambda>options. CList (HubV1Client_MdaiCollectors client namespace) Background (tweaked tweakListOptions options)),
        WatchFunc = (\<lambda>options. CWatch (HubV1Client_MdaiCollectors client namespace) Background (tweaked tweakListOptions options)),
        ListWithContextFunc = (\<lambda>ctx options. CList (HubV1Client_MdaiCollectors client namespace) ctx (tweaked tweakListOptions options)),
        WatchFuncWithContext = (\<lambda>ctx options. CWatch (HubV1Client_MdaiCollectors client namespace) ctx (tweaked tweakListOptions options))\<rparr>
       ''MdaiCollector'' resyncPeriod indexers"

definition NewMdaiCollectorInformer ::
  "'rest HubV1Client option \<Rightarrow> string \<Rightarrow> int \<Rightarrow> string list \<Rightarrow> ('rest, 'opt, 'tr) informer" where
  "NewMdaiCollectorInformer client namespace resyncPeriod indexers =
     NewFilteredMdaiCollectorInformer client namespace resyncPeriod indexers None"

definition mdaiCollector_defaultInformer ::
  "'opt versioned \<Rightarrow> 'rest HubV1Client option \<Rightarrow> int \<Rightarrow> ('rest, 'opt, 'tr) informer" where
  "mdaiCollector_defaultInformer v client resyncPeriod =
     NewFilteredMdaiCollectorInformer client (ve_namespace v) resyncPeriod [NamespaceIndex] (ve_tweak v)"

definition mdaiCollector_Informer :: "'opt versioned \<Rightarrow> ('rest, 'opt, 'tr) factory \<Rightarrow> ('rest, 'opt, 'tr) informer \<times> ('rest, 'opt, 'tr) factory" where
  "mdaiCollector_Informer v f = InformerFor ''MdaiCollector'' (mdaiCollector_defaultInformer v) f"

definition mdaiCollector_Lister :: "'opt versioned \<Rightarrow> ('rest, 'opt, 'tr) factory \<Rightarrow> ('rest, 'opt, 'tr) informer lister \<times> ('rest, 'opt, 'tr) factory" where
  "mdaiCollector_Lister v f = (case mdaiCollector_Informer v f of (i, f') \<Rightarrow> (NewMdaiCollectorLister i, f'))"

definition NewFilteredMdaiDalInformer ::
  "'rest HubV1Client option \<Rightarrow> string \<Rightarrow> int \<Rightarrow> string list \<Rightarrow> 'opt tweak option \<Rightarrow> ('rest, 'opt, 'tr) informer" where
  "NewFilteredMdaiDalInformer client namespace resyncPeriod indexers tweakListOptions =
     NewSharedIndexInformer
       \<lparr>ListFunc = (\<lambda>options. CList (HubV1Client_MdaiDals client namespace) Background (tweaked tweakListOptions options)),
        WatchFunc = (\<lambda>options. CWatch (HubV1Client_MdaiDals client namespace) Background (tweaked tweakListOptions options)),
        ListWithContextFunc = (\<lambda>ctx options. CList (HubV1Client_MdaiDals client namespace) ctx (tweaked tweakListOptions options)),
        WatchFuncWithContext = (\<lambda>ctx options. CWatch (HubV1Client_MdaiDals client namespace) ctx (tweaked tweakListOptions options))\<rparr>
       ''MdaiDal'' resyncPeriod indexers"

definition NewMdaiDalInformer ::
  "'rest HubV1Client option \<Rightarrow> string \<Rightarrow> int \<Rightarrow> string list \<Rightarrow> ('rest, 'opt, 'tr) informer" where
  "NewMdaiDalInformer client namespace resyncPeriod indexers =
     NewFilteredMdaiDalInformer client namespace resyncPeriod indexers None"

definition mdaiDal_defaultInformer ::
  "'opt versioned \<Rightarrow> 'rest HubV1Client option \<Rightarrow> int \<Rightarrow> ('rest, 'opt, 'tr) informer" where
  "mdaiDal_defaultInformer v client resyncPeriod =
     NewFilteredMdaiDalInformer client (ve_namespace v) resyncPeriod [NamespaceIndex] (ve_tweak v)"

definition mdaiDal_Informer :: "'opt versioned \<Rightarrow> ('rest, 'opt, 'tr) factory \<Rightarrow> ('rest, 'opt, 'tr) informer \<times> ('rest, 'opt, 'tr) factory" where
  "mdaiDal_Informer v f = InformerFor ''MdaiDal'' (mdaiDal_defaultInformer v) f"

definition mdaiDal_Lister :: "'opt versioned \<Rightarrow> ('rest, 'opt, 'tr) factory \<Rightarrow> ('rest, 'opt, 'tr) informer lister \<times> ('rest, 'opt, 'tr) factory" where
  "mdaiDal_Lister v f = (case mdaiDal_Informer v f of (i, f') \<Rightarrow> (NewMdaiDalLister i, f'))"

definition NewFilteredMdaiHubInformer ::
  "'rest HubV1Client option \<Rightarrow> string \<Rightarrow> int \<Rightarrow> string list \<Rightarrow> 'opt tweak option \<Rightarrow> ('rest, 'opt, 'tr) informer" where
  "NewFilteredMdaiHubInformer client namespace resyncPeriod indexers tweakListOptions =
     NewSharedIndexInformer
       \<lparr>ListFunc = (\<lambda>options. CList (HubV1Client_MdaiHubs client namespace) Background (tweaked tweakListOptions options)),
        WatchFunc = (\<lambda>options. CWatch (HubV1Client_MdaiHubs client namespace) Background (tweaked tweakListOptions options)),
        ListWithContextFunc = (\<lambda>ctx options. CList (HubV1Client_MdaiHubs client namespace) ctx (tweaked tweakListOptions options)),
        WatchFuncWithContext = (\<lambda>ctx options. CWatch (HubV1Client_MdaiHubs client namespace) ctx (tweaked tweakListOptions options))\<rparr>
       ''MdaiHub'' resyncPeriod indexers"

definition NewMdaiHubInformer ::
  "'rest HubV1Client option \<Rightarrow> string \<Rightarrow> int \<Rightarrow> string list \<Rightarrow> ('rest, 'opt, 'tr) informer" where
  "NewMdaiHubInformer client namespace resyncPeriod indexers =
     NewFilteredMdaiHubInformer client namespace resyncPeriod indexers None"

definition mdaiHub_defaultInformer ::
  "'opt versioned \<Rightarrow> 'rest HubV1Client option \<Rightarrow> int \<Rightarrow> ('rest, 'opt, 'tr) informer" where
  "mdaiHub_defaultInformer v client resyncPeriod =
     NewFilteredMdaiHubInformer client (ve_namespace v) resyncPeriod [NamespaceIndex] (ve_tweak v)"

definition mdaiHub_Informer :: "'opt versioned \<Rightarrow> ('rest, 'opt, 'tr) factory \<Rightarrow> ('rest, 'opt, 'tr) informer \<times> ('rest, 'opt, 'tr) factory" where
  "mdaiHub_Informer v f = InformerFor ''MdaiHub'' (mdaiHub_defaultInformer v) f"

definition mdaiHub_Lister :: "'opt versioned \<Rightarrow> ('rest, 'opt, 'tr) factory \<Rightarrow> ('rest, 'opt, 'tr) informer lister \<times> ('rest, 'opt, 'tr) factory" where
  "mdaiHub_Lister v f = (case mdaiHub_Informer v f of (i, f') \<Rightarrow> (NewMdaiHubLister i, f'))"

definition NewFilteredMdaiIngressInformer ::
  "'rest HubV1Client option \<Rightarrow> string \<Rightarrow> int \<Rightarrow> string list \<Rightarrow> 'opt tweak option \<Rightarrow> ('rest, 'opt, 'tr) informer" where
  "NewFilteredMdaiIngressInformer client namespace resyncPeriod indexers tweakListOptions =
     NewSharedIndexInformer
       \<lparr>ListFunc = (\<lambda>options. CList (HubV1Client_MdaiIngresses client namespace) Background (tweaked tweakListOptions options)),
        WatchFunc = (\<lambda>options. CWatch (HubV1Client_MdaiIngresses client namespace) Background (tweaked tweakListOptions options)),
        ListWithContextFunc = (\<lambda>ctx options. CList (HubV1Client_MdaiIngresses client namespace) ctx (tweaked tweakListOptions options)),
        WatchFuncWithContext = (\<lambda>ctx options. CWatch (HubV1Client_MdaiIngresses client namespace) ctx (tweaked tweakListOptions options))\<rparr>
       ''MdaiIngress'' resyncPeriod indexers"

definition NewMdaiIngressInformer ::
  "'rest HubV1Client option \<Rightarrow> string \<Rightarrow> int \<Rightarrow> string list \<Rightarrow> ('rest, 'opt, 'tr) informer" where
  "NewMdaiIngressInformer client namespace resyncPeriod indexers =
     NewFilteredMdaiIngressInformer client namespace resyncPeriod indexers None"

definition mdaiIngress_defaultInformer ::
  "'opt versioned \<Rightarrow> 'rest HubV1Client option \<Rightarrow> int \<Rightarrow> ('rest, 'opt, 'tr) informer" where
  "mdaiIngress_defaultInformer v client resyncPeriod =
     NewFilteredMdaiIngressInformer client (ve_namespace v) resyncPeriod [NamespaceIndex] (ve_tweak v)"

definition mdaiIngress_Informer :: "'opt versioned \<Rightarrow> ('rest, 'opt, 'tr) factory \<Rightarrow> ('rest, 'opt, 'tr) informer \<times> ('rest, 'opt, 'tr) factory" where
  "mdaiIngress_Informer v f = InformerFor ''MdaiIngress'' (mdaiIngress_defaultInformer v) f"

definition mdaiIngress_Lister :: "'opt versioned \<Rightarrow> ('rest, 'opt, 'tr) factory \<Rightarrow> ('rest, 'opt, 'tr) informer lister \<times> ('rest, 'opt, 'tr) factory" where
  "mdaiIngress_Lister v f = (case mdaiIngress_Informer v f of (i, f') \<Rightarrow> (NewMdaiIngressLister i, f'))"

definition NewFilteredMdaiObserverInformer ::
  "'rest HubV1Client option \<Rightarrow> string \<Rightarrow> int \<Rightarrow> string list \<Rightarrow> 'opt tweak option \<Rightarrow> ('rest, 'opt, 'tr) informer" where
  "NewFilteredMdaiObserverInformer client namespace resyncPeriod indexers tweakListOptions =
     NewSharedIndexInformer
       \<lparr>ListFunc = (\<lambda>options. CList (HubV1Client_MdaiObservers client namespace) Background (tweaked tweakListOptions options)),
        WatchFunc = (\<lambda>options. CWatch (HubV1Client_MdaiObservers client namespace) Background (tweaked tweakListOptions options)),
        ListWithContextFunc = (\<lambda>ctx options. CList (HubV1Client_MdaiObservers client namespace) ctx (tweaked tweakListOptions options)),
        WatchFuncWithContext = (\<lambda>ctx options. CWatch (HubV1Client_MdaiObservers client namespace) ctx (tweaked tweakListOptions options))\<rparr>
       ''MdaiObserver'' resyncPeriod indexers"

definition NewMdaiObserverInformer ::
  "'rest HubV1Client option \<Rightarrow> string \<Rightarrow> int \<Rightarrow> string list \<Rightarrow> ('rest, 'opt, 'tr) informer" where
  "NewMdaiObserverInformer client namespace resyncPeriod indexers =
     NewFilteredMdaiObserverInformer client namespace resyncPeriod indexers None"

definition mdaiObserver_defaultInformer ::
  "'opt versioned \<Rightarrow> 'rest HubV1Client option \<Rightarrow> int \<Rightarrow> ('rest, 'opt, 'tr) informer" where
  "mdaiObserver_defaultInformer v client resyncPeriod =
     NewFilteredMdaiObserverInformer client (ve_namespace v) resyncPeriod [NamespaceIndex] (ve_tweak v)"

definition mdaiObserver_Informer :: "'opt versioned \<Rightarrow> ('rest, 'opt, 'tr) factory \<Rightarrow> ('rest, 'opt, 'tr) informer \<times> ('rest, 'opt, 'tr) factory" where
  "mdaiObserver_Informer v f = InformerFor ''MdaiObserver'' (mdaiObserver_defaultInformer v) f"

definition mdaiObserver_Lister :: "'opt versioned \<Rightarrow> ('rest, 'opt, 'tr) factory \<Rightarrow> ('rest, 'opt, 'tr) informer lister \<times> ('rest, 'opt, 'tr) factory" where
  "mdaiObserver_Lister v f = (case mdaiObserver_Informer v f of (i, f') \<Rightarrow> (NewMdaiObserverLister i, f'))"

definition NewFilteredMdaiReplayInformer ::
  "'rest HubV1Client option \<Rightarrow> string \<Rightarrow> int \<Rightarrow> string list \<Rightarrow> 'opt tweak option \<Rightarrow> ('rest, 'opt, 'tr) informer" where
  "NewFilteredMdaiReplayInformer client namespace resyncPeriod indexers tweakListOptions =
     NewSharedIndexInformer
       \<lparr>ListFunc = (\<lambda>options. CList (HubV1Client_MdaiReplays client namespace) Background (tweaked tweakListOptions options)),
        WatchFunc = (\<lambda>options. CWatch (HubV1Client_MdaiReplays client namespace) Background (tweaked tweakListOptions options)),
        ListWithContextFunc = (\<lambda>ctx options. CList (HubV1Client_MdaiReplays client namespace) ctx (tweaked tweakListOptions options)),
        WatchFuncWithContext = (\<lambda>ctx options. CWatch (HubV1Client_MdaiReplays client namespace) ctx (tweaked tweakListOptions options))\<rparr>
       ''MdaiReplay'' resyncPeriod indexers"

definition NewMdaiReplayInformer ::
  "'rest HubV1Client option \<Rightarrow> string \<Rightarrow> int \<Rightarrow> string list \<Rightarrow> ('rest, 'opt, 'tr) informer" where
  "NewMdaiReplayInformer client namespace resyncPeriod indexers =
     NewFilteredMdaiReplayInformer client namespace resyncPeriod indexers None"

definition mdaiReplay_defaultInformer ::
  "'opt versioned \<Rightarrow> 'rest HubV1Client option \<Rightarrow> int \<Rightarrow> ('rest, 'opt, 'tr) informer" where
  "mdaiReplay_defaultInformer v client resyncPeriod =
     NewFilteredMdaiReplayInformer client (ve_namespace v) resyncPeriod [NamespaceIndex] (ve_tweak v)"

definition mdaiReplay_Informer :: "'opt versioned \<Rightarrow> ('rest, 'opt, 'tr) factory \<Rightarrow> ('rest, 'opt, 'tr) informer \<times> ('rest, 'opt, 'tr) factory" where
  "mdaiReplay_Informer v f = InformerFor ''MdaiReplay'' (mdaiReplay_defaultInformer v) f"

definition mdaiReplay_Lister :: "'opt versioned \<Rightarrow> ('rest, 'opt, 'tr) factory \<Rightarrow> ('rest, 'opt, 'tr) informer lister \<times> ('rest, 'opt, 'tr) factory" where
  "mdaiReplay_Lister v f = (case mdaiReplay_Informer v f of (i, f') \<Rightarrow> (NewMdaiReplayLister i, f'))"

section \<open>Access by resource (generic.go)\<close>

record ('rest, 'opt, 'tr) genericInformer =
  gi_resource :: group_resource
  gi_informer :: "('rest, 'opt, 'tr) informer"

text \<open>\<^verbatim>\<open>cache.NewGenericLister\<close> is a parameter.\<close>

definition genericInformer_Informer :: "('rest, 'opt, 'tr) genericInformer \<Rightarrow> ('rest, 'opt, 'tr) informer" where
  "genericInformer_Informer f = gi_informer f"

definition genericInformer_Lister ::
  "(('rest, 'opt, 'tr) informer \<Rightarrow> group_resource \<Rightarrow> 'l) \<Rightarrow> ('rest, 'opt, 'tr) genericInformer \<Rightarrow> 'l" where
  "genericInformer_Lister newGenericLister f = newGenericLister (genericInformer_Informer f) (gi_resource f)"

definition ForResource ::
  "group_version_resource \<Rightarrow> ('rest, 'opt, 'tr) factory
     \<Rightarrow> (goerr + ('rest, 'opt, 'tr) genericInformer) \<times> ('rest, 'opt, 'tr) factory" where
  "ForResource resource f =
     (let hub = factory_Hub f;
          found = (\<lambda>(i, f'). (Inr \<lparr>gi_resource = GroupResource resource, gi_informer = i\<rparr>, f'))
      in if resource = WithResource SchemeGroupVersion ''mdaicollectors'' then found (mdaiCollector_Informer (version_MdaiCollectors (group_V1 hub)) f)
         else if resource = WithResource SchemeGroupVersion ''mdaidals'' then found (mdaiDal_Informer (version_MdaiDals (group_V1 hub)) f)
         else if resource = WithResource SchemeGroupVersion ''mdaihubs'' then found (mdaiHub_Informer (version_MdaiHubs (group_V1 hub)) f)
         else if resource = WithResource SchemeGroupVersion ''mdaiingresses'' then found (mdaiIngress_Informer (version_MdaiIngresses (group_V1 hub)) f)
         else if resource = WithResource SchemeGroupVersion ''mdaiobservers'' then found (mdaiObserver_Informer (version_MdaiObservers (group_V1 hub)) f)
         else if resource = WithResource SchemeGroupVersion ''mdaireplays'' then found (mdaiReplay_Informer (version_MdaiReplays (group_V1 hub)) f)
         else (Inl (ErrNew (''no informer found for '' @ gv_Group (gvr_GroupVersion resource) @ ''/'' @
                 gv_Version (gvr_GroupVersion resource) @ '', Resource='' @ gvr_Resource resource)), f))"

section \<open>The factory under concurrent use\<close>

text \<open>
  The factory with its running goroutines, every goroutine started so far, the \<^verbatim>\<open>Shutdown\<close> calls that wait, and whether
  one has returned. \<^verbatim>\<open>InformerFor\<close> is called with any constructor; a goroutine may end at any time.
\<close>

record ('rest, 'opt, 'tr) informer_system =
  is_factory :: "('rest, 'opt, 'tr) factory"
  is_running :: "goroutine list"
  is_started_ever :: "string list"
  is_waiting :: nat
  is_returned :: bool

inductive informer_step :: "('rest, 'opt, 'tr) informer_system \<Rightarrow> ('rest, 'opt, 'tr) informer_system \<Rightarrow> bool" where
  informer_for: "InformerFor t newFunc (is_factory s) = (i, f') \<Longrightarrow> informer_step s (s\<lparr>is_factory := f'\<rparr>)"
| start_call: "mset (rng (map fst (ff_informers (is_factory s)))) = mset (map fst (ff_informers (is_factory s))) \<Longrightarrow>
    factory_Start rng ch (is_factory s) = (gs, f') \<Longrightarrow>
    informer_step s (s\<lparr>is_factory := f', is_running := is_running s @ gs, is_started_ever := is_started_ever s @ map fst gs\<rparr>)"
| goroutine_ends: "is_running s = xs @ g # ys \<Longrightarrow>
    informer_step s (s\<lparr>is_running := xs @ ys, is_factory := (is_factory s)\<lparr>ff_wg := ff_wg (is_factory s) - 1\<rparr>\<rparr>)"
| shutdown_call: "informer_step s (s\<lparr>is_factory := Shutdown_mark (is_factory s), is_waiting := is_waiting s + 1\<rparr>)"
| shutdown_returns: "0 < is_waiting s \<Longrightarrow> ff_wg (is_factory s) = 0 \<Longrightarrow>
    informer_step s (s\<lparr>is_waiting := is_waiting s - 1, is_returned := True\<rparr>)"

definition new_system :: "('rest, 'opt, 'tr) factory \<Rightarrow> ('rest, 'opt, 'tr) informer_system" where
  "new_system f = \<lparr>is_factory = f, is_running = [], is_started_ever = [], is_waiting = 0, is_returned = False\<rparr>"

inductive informer_reachable :: "('rest, 'opt, 'tr) factory \<Rightarrow> ('rest, 'opt, 'tr) informer_system \<Rightarrow> bool"
  for f where
  fresh: "informer_reachable f (new_system f)"
| next_step: "informer_reachable f s \<Longrightarrow> informer_step s s' \<Longrightarrow> informer_reachable f s'"

section \<open>Lemmas on the goroutines\<close>

lemma start_informer_simps:
  "is_started f t \<Longrightarrow> start_informer ch t (gs, f) = (gs, f)"
  "\<not> is_started f t \<Longrightarrow> start_informer ch t (gs, f) = (gs @ [(t, ch)],
     f\<lparr>ff_wg := ff_wg f + 1, ff_startedInformers := gset t True (ff_startedInformers f)\<rparr>)"
  by (simp_all add: start_informer_def)

lemma start_informers:
  assumes "fold (start_informer ch) ts (gs, f) = (gs', f')"
  shows "\<exists>new. gs' = gs @ map (\<lambda>t. (t, ch)) new \<and> distinct new \<and> (\<forall>t. t \<in> set new \<longrightarrow> \<not> is_started f t) \<and>
    ff_wg f' = ff_wg f + length new \<and> (\<forall>t. is_started f' t \<longleftrightarrow> is_started f t \<or> t \<in> set new) \<and>
    ff_shuttingDown f' = ff_shuttingDown f"
  using assms
proof (induction ts arbitrary: gs f)
  case (Cons t ts)
  show ?case
  proof (cases "is_started f t")
    case True
    with Cons show ?thesis by (simp add: start_informer_simps)
  next
    case False
    let ?f = "f\<lparr>ff_wg := ff_wg f + 1, ff_startedInformers := gset t True (ff_startedInformers f)\<rparr>"
    have "fold (start_informer ch) ts (gs @ [(t, ch)], ?f) = (gs', f')"
      using Cons.prems False by (simp add: start_informer_simps)
    from Cons.IH [OF this] obtain new where new: "gs' = (gs @ [(t, ch)]) @ map (\<lambda>t. (t, ch)) new" "distinct new"
      "\<forall>u. u \<in> set new \<longrightarrow> \<not> is_started ?f u" "ff_wg f' = ff_wg ?f + length new"
      "\<forall>u. is_started f' u \<longleftrightarrow> is_started ?f u \<or> u \<in> set new" "ff_shuttingDown f' = ff_shuttingDown ?f" by blast
    have "is_started ?f u \<longleftrightarrow> u = t \<or> is_started f u" for u by (simp add: is_started_def update_conv)
    with new False show ?thesis by (intro exI [of _ "t # new"]) auto
  qed
qed auto

text \<open>What holds whenever the lock is free.\<close>

definition informers_ok :: "('rest, 'opt, 'tr) informer_system \<Rightarrow> bool" where
  "informers_ok s \<longleftrightarrow> ff_wg (is_factory s) = length (is_running s) \<and> distinct (is_started_ever s) \<and>
     (\<forall>t. is_started (is_factory s) t \<longleftrightarrow> t \<in> set (is_started_ever s)) \<and>
     (0 < is_waiting s \<or> is_returned s \<longrightarrow> ff_shuttingDown (is_factory s)) \<and> (is_returned s \<longrightarrow> is_running s = [])"

lemma InformerFor_fields:
  assumes "InformerFor t newFunc f = (i, f')"
  shows "ff_wg f' = ff_wg f" "is_started f' = is_started f" "ff_shuttingDown f' = ff_shuttingDown f"
  using assms by (auto simp: InformerFor_def is_started_def fun_eq_iff Let_def split: option.splits)

lemma informer_step_ok:
  assumes "informer_step s s'" "informers_ok s"
  shows "informers_ok s'"
  using assms
proof (cases rule: informer_step.cases)
  case (informer_for t newFunc i f')
  with assms(2) InformerFor_fields [OF informer_for(2)] show ?thesis by (simp add: informers_ok_def)
next
  case (start_call rng ch gs f')
  show ?thesis
  proof (cases "ff_shuttingDown (is_factory s)")
    case True
    with start_call assms(2) show ?thesis by (simp add: informers_ok_def factory_Start_def)
  next
    case False
    then obtain new where "gs = map (\<lambda>t. (t, ch)) new" "distinct new" "\<forall>t. t \<in> set new \<longrightarrow> \<not> is_started (is_factory s) t"
      "ff_wg f' = ff_wg (is_factory s) + length new" "\<forall>t. is_started f' t \<longleftrightarrow> is_started (is_factory s) t \<or> t \<in> set new"
      "ff_shuttingDown f' = ff_shuttingDown (is_factory s)"
      using start_call(3) start_informers [of ch "rng (map fst (ff_informers (is_factory s)))" "[]" "is_factory s" gs f']
      by (auto simp: factory_Start_def)
    with False start_call(1) assms(2) show ?thesis by (auto simp: informers_ok_def comp_def)
  qed
qed (auto simp: informers_ok_def is_started_def Shutdown_mark_def)

lemma informer_reachable_ok:
  assumes "informer_reachable (NewFilteredSharedInformerFactory client resync ns t) s"
  shows "informers_ok s"
  using assms
proof (induction rule: informer_reachable.induct)
  case fresh
  show ?case
    by (simp add: informers_ok_def new_system_def NewFilteredSharedInformerFactory_def NewSharedInformerFactoryWithOptions_def
        WithNamespace_def WithTweakListOptions_def is_started_def)
qed (rule informer_step_ok)

section \<open>Properties\<close>

text \<open>
  C33. However the methods of an informer factory are called from several goroutines, every informer is started at most
  once, and the wait group counts the goroutines that run. Once a call of \<^verbatim>\<open>Shutdown\<close> has returned, no informer is
  running and \<^verbatim>\<open>Start\<close> does not start one.
\<close>

theorem informers_stopped_after_shutdown:
  assumes "informer_reachable (NewFilteredSharedInformerFactory client resync ns t) s"
  shows "distinct (is_started_ever s) \<and> ff_wg (is_factory s) = length (is_running s) \<and>
    (is_returned s \<longrightarrow> is_running s = [] \<and> factory_Start rng ch (is_factory s) = ([], is_factory s))"
  using informer_reachable_ok [OF assms] by (auto simp: informers_ok_def factory_Start_def)

text \<open>One informer, started and ended, and the factory shut down.\<close>

definition sample_client :: "unit HubV1Client option" where
  "sample_client = Some \<lparr>restClient = ()\<rparr>"

abbreviation sample_factory :: "(unit, string, unit) factory" where
  "sample_factory \<equiv> NewFilteredSharedInformerFactory sample_client 60 ''mdai'' (Some (\<lambda>x. x @ ''!''))"

theorem informers_stopped_after_shutdown_witness:
  "\<exists>s. informer_reachable sample_factory s \<and> is_returned s \<and> is_started_ever s = [''MdaiHub''] \<and> is_running s = []"
proof -
  let ?f1 = "snd (mdaiHub_Informer (factory_Hub sample_factory) sample_factory)"
  let ?f2 = "?f1\<lparr>ff_wg := 1, ff_startedInformers := [(''MdaiHub'', True)]\<rparr>"
  have init: "sample_factory = \<lparr>ff_client = sample_client, ff_namespace = ''mdai'', ff_tweakListOptions = Some (\<lambda>x. x @ ''!''),
      ff_defaultResync = 60, ff_customResync = [], ff_transform = None, ff_informers = [], ff_startedInformers = [], ff_wg = 0,
      ff_shuttingDown = False\<rparr>"
    by (simp add: NewFilteredSharedInformerFactory_def NewSharedInformerFactoryWithOptions_def WithNamespace_def WithTweakListOptions_def)
  let ?s1 = "(new_system sample_factory)\<lparr>is_factory := ?f1\<rparr>"
  have f1: "map fst (ff_informers ?f1) = [''MdaiHub'']" "ff_wg ?f1 = 0" "ff_startedInformers ?f1 = []" "\<not> ff_shuttingDown ?f1"
    by (simp_all add: mdaiHub_Informer_def InformerFor_def init Let_def)
  have "InformerFor ''MdaiHub'' (mdaiHub_defaultInformer (factory_Hub sample_factory)) (is_factory (new_system sample_factory)) =
      (fst (mdaiHub_Informer (factory_Hub sample_factory) sample_factory), ?f1)"
    by (simp add: new_system_def mdaiHub_Informer_def)
  from next_step [OF fresh informer_for [OF this]] have "informer_reachable sample_factory ?s1" .
  moreover have "factory_Start (\<lambda>ts. ts) 7 ?f1 = ([(''MdaiHub'', 7)], ?f2)"
    using f1 by (simp add: factory_Start_def start_informer_simps is_started_def)
  ultimately have s2: "informer_reachable sample_factory
      (?s1\<lparr>is_factory := ?f2, is_running := [(''MdaiHub'', 7)], is_started_ever := [''MdaiHub'']\<rparr>)" (is "informer_reachable _ ?s2")
    using next_step [OF _ start_call [of "\<lambda>ts. ts" ?s1 7 "[(''MdaiHub'', 7)]" ?f2]] by (simp add: new_system_def)
  have s3: "informer_reachable sample_factory (?s2\<lparr>is_running := [], is_factory := ?f2\<lparr>ff_wg := 0\<rparr>\<rparr>)" (is "informer_reachable _ ?s3")
    using next_step [OF s2 goroutine_ends [of ?s2 "[]" "(''MdaiHub'', 7)" "[]"]] by simp
  have s4: "informer_reachable sample_factory (?s3\<lparr>is_factory := Shutdown_mark (is_factory ?s3), is_waiting := 1\<rparr>)" (is "informer_reachable _ ?s4")
    using next_step [OF s3 shutdown_call] by (simp add: new_system_def)
  have s5: "informer_reachable sample_factory (?s4\<lparr>is_waiting := is_waiting ?s4 - 1, is_returned := True\<rparr>)" (is "informer_reachable _ ?s5")
    by (rule next_step [OF s4 shutdown_returns]) (simp_all add: Shutdown_mark_def)
  from informers_stopped_after_shutdown [OF s5] s5 show ?thesis by (intro exI [of _ ?s5]) (simp add: new_system_def)
qed

section \<open>The informer of a resource\<close>

text \<open>The resources of the group with their types.\<close>

definition api_resources :: "(string \<times> string) list" where
  "api_resources = [(''mdaicollectors'', ''MdaiCollector''), (''mdaidals'', ''MdaiDal''), (''mdaihubs'', ''MdaiHub''),
     (''mdaiingresses'', ''MdaiIngress''), (''mdaiobservers'', ''MdaiObserver''), (''mdaireplays'', ''MdaiReplay'')]"

text \<open>
  An informer that serves a resource for the factory: all four of its functions list or watch that resource in the factory's
  namespace with the tweaked options, and the objects are of the resource's type.
\<close>

definition resource_client :: "('rest, 'opt, 'tr) factory \<Rightarrow> string \<Rightarrow> string \<Rightarrow> 'rest typed_client" where
  "resource_client f res ty = \<lparr>tc_Resource = res, tc_REST = RESTClient (ff_client f), tc_Namespace = ff_namespace f,
     tc_Object = ty, tc_List = ty @ ''List''\<rparr>"

definition serves :: "('rest, 'opt, 'tr) factory \<Rightarrow> string \<Rightarrow> string \<Rightarrow> ('rest, 'opt, 'tr) informer \<Rightarrow> bool" where
  "serves f res ty i \<longleftrightarrow>
     (let tc = resource_client f res ty; t = tweaked (ff_tweakListOptions f)
      in si_ListWatch i = \<lparr>ListFunc = (\<lambda>opt. CList tc Background (t opt)), WatchFunc = (\<lambda>opt. CWatch tc Background (t opt)),
           ListWithContextFunc = (\<lambda>ctx opt. CList tc ctx (t opt)), WatchFuncWithContext = (\<lambda>ctx opt. CWatch tc ctx (t opt))\<rparr>) \<and>
     si_Object i = ty \<and>
     si_Resync i = (case gget (ff_customResync f) ty of Some r \<Rightarrow> r | None \<Rightarrow> ff_defaultResync f) \<and> si_Transform i = ff_transform f"

text \<open>A factory whose informers were made by the accessors of the kinds.\<close>

definition factory_typed :: "('rest, 'opt, 'tr) factory \<Rightarrow> bool" where
  "factory_typed f \<longleftrightarrow> (\<forall>(res, ty) \<in> set api_resources. \<forall>i. gget (ff_informers f) ty = Some i \<longrightarrow> serves f res ty i)"

lemma serves_informers [simp]: "serves (f\<lparr>ff_informers := m\<rparr>) = serves f"
  by (simp add: serves_def resource_client_def fun_eq_iff cong: option.case_cong)

lemma InformerFor_serves:
  assumes typed: "factory_typed f" and kind: "(res, ty) \<in> set api_resources"
    and new: "\<And>r. serves (f\<lparr>ff_defaultResync := r, ff_customResync := []\<rparr>) res ty ((newFunc (ff_client f) r)\<lparr>si_Transform := ff_transform f\<rparr>)"
    and run: "InformerFor ty newFunc f = (i, f')"
  shows "serves f res ty i \<and> factory_typed f' \<and> gget (ff_informers f') ty = Some i \<and> f' = f\<lparr>ff_informers := ff_informers f'\<rparr>"
proof (cases "gget (ff_informers f) ty")
  case (Some j)
  with run typed kind show ?thesis by (auto simp: InformerFor_def factory_typed_def)
next
  case None
  define r where "r = (case gget (ff_customResync f) ty of Some r \<Rightarrow> r | None \<Rightarrow> ff_defaultResync f)"
  have i: "i = (newFunc (ff_client f) r)\<lparr>si_Transform := ff_transform f\<rparr>" and f': "f' = f\<lparr>ff_informers := gset ty i (ff_informers f)\<rparr>"
    using run None by (auto simp: InformerFor_def Let_def r_def)
  have "serves f res ty i" using new [of r] by (simp add: serves_def resource_client_def i r_def)
  moreover have "res' = res" if "(res', ty) \<in> set api_resources" for res' using that kind by (auto simp: api_resources_def)
  ultimately show ?thesis using typed f' by (auto simp: factory_typed_def update_conv)
qed

lemmas accessor_defs = api_resources_def serves_def resource_client_def Let_def NewSharedIndexInformer_def factory_Hub_def group_New_def

lemma mdaiCollector_serves:
  "factory_typed f \<Longrightarrow> mdaiCollector_Informer (factory_Hub f) f = (i, f') \<Longrightarrow>
     serves f ''mdaicollectors'' ''MdaiCollector'' i \<and> factory_typed f' \<and> gget (ff_informers f') ''MdaiCollector'' = Some i"
  using InformerFor_serves [of f "''mdaicollectors''" "''MdaiCollector''" "mdaiCollector_defaultInformer (factory_Hub f)" i f']
  unfolding mdaiCollector_Informer_def
  by (simp add: accessor_defs mdaiCollector_defaultInformer_def NewFilteredMdaiCollectorInformer_def HubV1Client_MdaiCollectors_def newMdaiCollectors_def)

lemma mdaiDal_serves:
  "factory_typed f \<Longrightarrow> mdaiDal_Informer (factory_Hub f) f = (i, f') \<Longrightarrow>
     serves f ''mdaidals'' ''MdaiDal'' i \<and> factory_typed f' \<and> gget (ff_informers f') ''MdaiDal'' = Some i"
  using InformerFor_serves [of f "''mdaidals''" "''MdaiDal''" "mdaiDal_defaultInformer (factory_Hub f)" i f']
  unfolding mdaiDal_Informer_def
  by (simp add: accessor_defs mdaiDal_defaultInformer_def NewFilteredMdaiDalInformer_def HubV1Client_MdaiDals_def newMdaiDals_def)

lemma mdaiHub_serves:
  "factory_typed f \<Longrightarrow> mdaiHub_Informer (factory_Hub f) f = (i, f') \<Longrightarrow>
     serves f ''mdaihubs'' ''MdaiHub'' i \<and> factory_typed f' \<and> gget (ff_informers f') ''MdaiHub'' = Some i"
  using InformerFor_serves [of f "''mdaihubs''" "''MdaiHub''" "mdaiHub_defaultInformer (factory_Hub f)" i f']
  unfolding mdaiHub_Informer_def
  by (simp add: accessor_defs mdaiHub_defaultInformer_def NewFilteredMdaiHubInformer_def HubV1Client_MdaiHubs_def newMdaiHubs_def)

lemma mdaiIngress_serves:
  "factory_typed f \<Longrightarrow> mdaiIngress_Informer (factory_Hub f) f = (i, f') \<Longrightarrow>
     serves f ''mdaiingresses'' ''MdaiIngress'' i \<and> factory_typed f' \<and> gget (ff_informers f') ''MdaiIngress'' = Some i"
  using InformerFor_serves [of f "''mdaiingresses''" "''MdaiIngress''" "mdaiIngress_defaultInformer (factory_Hub f)" i f']
  unfolding mdaiIngress_Informer_def
  by (simp add: accessor_defs mdaiIngress_defaultInformer_def NewFilteredMdaiIngressInformer_def HubV1Client_MdaiIngresses_def newMdaiIngresses_def)

lemma mdaiObserver_serves:
  "factory_typed f \<Longrightarrow> mdaiObserver_Informer (factory_Hub f) f = (i, f') \<Longrightarrow>
     serves f ''mdaiobservers'' ''MdaiObserver'' i \<and> factory_typed f' \<and> gget (ff_informers f') ''MdaiObserver'' = Some i"
  using InformerFor_serves [of f "''mdaiobservers''" "''MdaiObserver''" "mdaiObserver_defaultInformer (factory_Hub f)" i f']
  unfolding mdaiObserver_Informer_def
  by (simp add: accessor_defs mdaiObserver_defaultInformer_def NewFilteredMdaiObserverInformer_def HubV1Client_MdaiObservers_def newMdaiObservers_def)

lemma mdaiReplay_serves:
  "factory_typed f \<Longrightarrow> mdaiReplay_Informer (factory_Hub f) f = (i, f') \<Longrightarrow>
     serves f ''mdaireplays'' ''MdaiReplay'' i \<and> factory_typed f' \<and> gget (ff_informers f') ''MdaiReplay'' = Some i"
  using InformerFor_serves [of f "''mdaireplays''" "''MdaiReplay''" "mdaiReplay_defaultInformer (factory_Hub f)" i f']
  unfolding mdaiReplay_Informer_def
  by (simp add: accessor_defs mdaiReplay_defaultInformer_def NewFilteredMdaiReplayInformer_def HubV1Client_MdaiReplays_def newMdaiReplays_def)

lemmas kind_serves = mdaiCollector_serves mdaiDal_serves mdaiHub_serves mdaiIngress_serves mdaiObserver_serves mdaiReplay_serves

section \<open>Access by resource\<close>

text \<open>
  The informer that a factory gives for a resource of the group lists and watches that resource, in the factory's
  namespace, with the factory's options on each of the four paths, with the configured resync period and transform; it is
  the one informer of its type, and every resource of the group has one. Any other resource is an error that leaves the factory
  alone.
\<close>

theorem for_resource_informer:
  assumes "factory_typed f" "ForResource r f = (x, f')"
  shows "factory_typed f' \<and> (case x of
      Inl err \<Rightarrow> f' = f \<and> \<not> list_ex (\<lambda>(res, ty). r = WithResource SchemeGroupVersion res) api_resources
    | Inr g \<Rightarrow> list_ex (\<lambda>(res, ty). r = WithResource SchemeGroupVersion res \<and> serves f res ty (gi_informer g) \<and>
        gget (ff_informers f') ty = Some (gi_informer g)) api_resources)"
  using assms
  by (auto simp: ForResource_def Let_def api_resources_def split: if_splits prod.splits
      dest: kind_serves [OF assms(1)])

theorem for_resource_informer_witness:
  "\<exists>g f'. ForResource (WithResource SchemeGroupVersion ''mdaihubs'') sample_factory = (Inr g, f') \<and>
     ListFunc (si_ListWatch (gi_informer g)) ''x'' =
       CList (newMdaiHubs sample_client ''mdai'') Background ''x!''"
proof -
  obtain x f' where r: "ForResource (WithResource SchemeGroupVersion ''mdaihubs'') sample_factory = (x, f')" by fastforce
  have init: "ff_informers sample_factory = []" "ff_namespace sample_factory = ''mdai''" "ff_client sample_factory = sample_client"
    "ff_tweakListOptions sample_factory = Some (\<lambda>x. x @ ''!'')"
    by (simp_all add: NewFilteredSharedInformerFactory_def NewSharedInformerFactoryWithOptions_def WithNamespace_def WithTweakListOptions_def)
  then have "factory_typed sample_factory" by (simp add: factory_typed_def)
  from for_resource_informer [OF this r] r obtain g where g: "x = Inr g" "serves sample_factory ''mdaihubs'' ''MdaiHub'' (gi_informer g)"
    by (auto simp: api_resources_def WithResource_def split: sum.splits)
  then show ?thesis using r by (auto simp: serves_def resource_client_def init tweaked_def newMdaiHubs_def Let_def)
qed

end
