(* ===== verification/Ingress_Ownership.thy ===== *)
theory Ingress_Ownership
  imports Main_Program
begin

text \<open>
  What the ingress controller takes for its own. It lists services and ingresses through the cache of the manager by an
  index on the names of their owners (\<^verbatim>\<open>SetupWithManager\<close>, \<^verbatim>\<open>findMdaiIngressOwnedObjects\<close>) and prunes what it
  does not apply. The cluster is a parameter: what is stored after the calls of a history.
\<close>

section \<open>Lists through the cache and the index\<close>

fun kind_of :: "client_object \<Rightarrow> obj_kind option" where
  "kind_of (OService _) = Some ServiceKind"
| "kind_of (OIngress _) = Some IngressKind"
| "kind_of (OOther _ _) = None"

fun kind_text :: "obj_kind \<Rightarrow> string" where
  "kind_text ServiceKind = ''Service''"
| "kind_text IngressKind = ''Ingress''"

text \<open>The two index functions that \<^verbatim>\<open>SetupWithManager\<close> registers under the key for the owner.\<close>

fun resource_owner_index :: "obj_kind \<Rightarrow> client_object \<Rightarrow> string list" where
  "resource_owner_index ServiceKind = service_owner_index"
| "resource_owner_index IngressKind = ingress_owner_index"

definition visible :: "client_object \<Rightarrow> bool" where
  "visible ob \<longleftrightarrow> (case kind_of ob of None \<Rightarrow> True | Some k \<Rightarrow> cached (kind_text k) (object_meta_of ob))"

definition indexed :: "obj_kind \<Rightarrow> string \<Rightarrow> string \<Rightarrow> client_object \<Rightarrow> bool" where
  "indexed k ns n ob \<longleftrightarrow> kind_of ob = Some k \<and> visible ob \<and> om_Namespace (object_meta_of ob) = ns \<and>
     n \<in> set (resource_owner_index k ob)"

text \<open>
  The cluster: \<^verbatim>\<open>List\<close> answers from the cache by the index, no two objects have the same UID, reads change nothing,
  and the types of the lists are known to the scheme.
\<close>

definition lists_cluster :: "'v ig_env \<Rightarrow> (ig_history \<Rightarrow> client_object list) \<Rightarrow> bool" where
  "lists_cluster E cluster \<longleftrightarrow>
     (\<forall>h k ns n. ie_List E h k ns n = Inr (filter (indexed k ns n) (cluster h))) \<and>
     (\<forall>h. distinct (map uid_of (cluster h))) \<and>
     (\<forall>h k ns n req. cluster (IListOwned k ns n # h) = cluster h \<and> cluster (IGetIngress req # h) = cluster h \<and>
        cluster (IGetOtelcol req # h) = cluster h) \<and>
     (\<forall>k. \<exists>t. ie_GVKForObject E k = Inr t) \<and> (\<forall>t. \<exists>l. ie_NewList E t = Inr (l, True)) \<and>
     (\<forall>obs. ie_ExtractError E obs = None)"

section \<open>Lemmas\<close>

lemma set_gset_new: "k \<notin> fst ` set m \<Longrightarrow> set (gset k v m) = insert (k, v) (set m)"
  by (induction m) auto

text \<open>Entries with new keys are all added.\<close>

lemma set_fold_gset:
  assumes "distinct (map fst kvs)" "fst ` set kvs \<inter> fst ` set acc = {}"
  shows "set (fold (\<lambda>(k, v) m. gset k v m) kvs acc) = set acc \<union> set kvs"
  using assms
proof (induction kvs arbitrary: acc)
  case (Cons e kvs)
  obtain k v where e: "e = (k, v)" by fastforce
  have new: "set (gset k v acc) = insert (k, v) (set acc)" using Cons.prems(2) by (intro set_gset_new) (auto simp: e)
  have "set (fold (\<lambda>(k, v) m. gset k v m) kvs (gset k v acc)) = set (gset k v acc) \<union> set kvs"
    using Cons.prems by (intro Cons.IH) (auto simp: e new)
  then show ?case by (simp add: e new)
qed simp

definition with_uid :: "client_object \<Rightarrow> string \<times> client_object" where
  "with_uid ob = (uid_of ob, ob)"

lemma collect_all:
  "collect_typed (\<lambda>_. True) k obs acc = Inr (fold (\<lambda>(k, v) m. gset k v m) (map with_uid obs) acc)"
  by (induction obs arbitrary: acc) (auto simp: with_uid_def)

abbreviation listed :: "(ig_history \<Rightarrow> client_object list) \<Rightarrow> obj_kind \<Rightarrow> string \<Rightarrow> string \<Rightarrow> ig_history \<Rightarrow> client_object list" where
  "listed cluster k ns n h \<equiv> filter (indexed k ns n) (cluster h)"

lemma listed_distinct:
  assumes "lists_cluster E cluster"
  shows "distinct (map fst (map with_uid (listed cluster k ns n h)))"
proof -
  have "distinct (map uid_of (listed cluster k ns n h))"
    using assms by (auto simp: lists_cluster_def distinct_map_filter)
  then show ?thesis by (simp add: with_uid_def comp_def)
qed

lemma getList_cluster:
  assumes "lists_cluster E cluster"
  shows "\<exists>m. getList E (\<lambda>_. True) k ns n h = (Inr m, IListOwned k ns n # h) \<and> set m = with_uid ` set (listed cluster k ns n h) \<and>
    distinct (map fst m)"
proof -
  let ?obs = "listed cluster k ns n h"
  let ?m = "fold (\<lambda>(k, v) m. gset k v m) (map with_uid ?obs) []"
  obtain t l where "ie_GVKForObject E k = Inr t" "ie_NewList E (t @ ''List'') = Inr (l, True)"
    using assms unfolding lists_cluster_def by metis
  then have "getList E (\<lambda>_. True) k ns n h = (Inr ?m, IListOwned k ns n # h)"
    using assms by (simp add: lists_cluster_def getList_def collect_all)
  moreover have "set ?m = with_uid ` set ?obs" using set_fold_gset [OF listed_distinct [OF assms], of k ns n h "[]"] by simp
  moreover have "distinct (map fst (fold (\<lambda>(k, v) m. gset k v m) kvs acc))" if "distinct (map fst acc)"
    for kvs :: owned_objects and acc using that by (induction kvs arbitrary: acc) auto
  then have "distinct (map fst ?m)" by (metis distinct.simps(1) list.simps(8))
  ultimately show ?thesis by blast
qed

lemma uid_unique:
  assumes "lists_cluster E cluster" "a \<in> set (cluster h)" "b \<in> set (cluster h)" "uid_of a = uid_of b"
  shows "a = b"
  using assms by (auto simp: lists_cluster_def distinct_map inj_on_def)

text \<open>The map of owned objects: everything the two indexes find under the name.\<close>

lemma owned_by_name:
  assumes "lists_cluster E cluster" "visits_all (ie_range E)" and that: "m = mi_Meta (pa_MdaiIngress params)"
  shows "\<exists>owned. findMdaiIngressOwnedObjects E params h =
      (Inr owned, IListOwned IngressKind (om_Namespace m) (om_Name m) # IListOwned ServiceKind (om_Namespace m) (om_Name m) # h) \<and>
    set owned = with_uid ` {ob \<in> set (cluster h). \<exists>k. indexed k (om_Namespace m) (om_Name m) ob}"
proof -
  let ?ns = "om_Namespace m" and ?n = "om_Name m"
  let ?h1 = "IListOwned ServiceKind ?ns ?n # h"
  obtain s where s: "getList E (\<lambda>_. True) ServiceKind ?ns ?n h = (Inr s, ?h1)"
    "set s = with_uid ` set (listed cluster ServiceKind ?ns ?n h)" "distinct (map fst s)" using getList_cluster [OF assms(1)] by blast
  obtain g where g: "getList E (\<lambda>_. True) IngressKind ?ns ?n ?h1 = (Inr g, IListOwned IngressKind ?ns ?n # ?h1)"
    "set g = with_uid ` set (listed cluster IngressKind ?ns ?n ?h1)" "distinct (map fst g)" using getList_cluster [OF assms(1)] by blast
  have same: "cluster ?h1 = cluster h" using assms(1) by (simp add: lists_cluster_def)
  have perm: "set (ie_range E x) = set x" "distinct (map fst (ie_range E x)) = distinct (map fst x)" for x
    using set_range [OF assms(2)] assms(2) mset_eq_imp_distinct_iff [of "map fst (ie_range E x)" "map fst x"]
    by (simp_all add: visits_all_def)
  have apart: "fst ` set g \<inter> fst ` set s = {}"
  proof (rule ccontr)
    assume "fst ` set g \<inter> fst ` set s \<noteq> {}"
    then obtain a b where "uid_of a = uid_of b" "a \<in> set (cluster h)" "indexed IngressKind ?ns ?n a"
      "b \<in> set (cluster h)" "indexed ServiceKind ?ns ?n b" unfolding s(2) g(2) same by (auto simp: with_uid_def)
    moreover from this have "a = b" using uid_unique [OF assms(1), of a h b] by simp
    ultimately show False by (simp add: indexed_def)
  qed
  have 1: "set (maps_copy [] (ie_range E s)) = set s"
    unfolding maps_copy_def using set_fold_gset [of "ie_range E s" "[]"] s(3) by (simp add: perm)
  have 2: "set (maps_copy (maps_copy [] (ie_range E s)) (ie_range E g)) = set s \<union> set g"
    unfolding maps_copy_def [of _ "ie_range E g"] using set_fold_gset [of "ie_range E g"] g(3) apart by (simp add: perm 1)
  have "with_uid ` {ob \<in> set (cluster h). \<exists>k. indexed k ?ns ?n ob} = set s \<union> set g"
    unfolding s(2) g(2) same by (auto simp: image_iff) (metis obj_kind.exhaust)
  with 2 show ?thesis using that s(1) g(1)
    by (intro exI [of _ "maps_copy (maps_copy [] (ie_range E s)) (ie_range E g)"])
      (simp add: findMdaiIngressOwnedObjects_def GetOwnedResourceTypes_def Let_def)
qed

lemma ingress_run:
  assumes "ingress_Reconcile E cd pl req (rg, h) = (Done d None, rg', h')" "ie_GetIngress E h req = Inr mi"
  obtains k params ds owned h3 where "pa_MdaiIngress params = mi"
    "findMdaiIngressOwnedObjects E params (IGetOtelcol k # IGetIngress req # h) = (Inr owned, h3)"
    "reconcileDesiredObjects E (mi_Meta mi) ds owned h3 = (None, h')"
proof -
  define k where "k = \<lparr>nn_Name = mi_OtelCollector mi, nn_Namespace = nn_Namespace req\<rparr>"
  let ?h2 = "IGetOtelcol k # IGetIngress req # h"
  obtain oc ds rg1 owned h3 where "BuildCollector cd pl (NewOtelIngressConfig oc mi) rg = (Ok ds, rg1)"
    "findMdaiIngressOwnedObjects E (NewOtelIngressConfig oc mi) ?h2 = (Inr owned, h3)"
    "reconcileDesiredObjects E (mi_Meta mi) ds owned h3 = (None, h')"
    using assms
    by (auto simp: ingress_Reconcile_def Let_def k_def
        split: if_splits sum.splits prod.splits outcome.splits)
  then show ?thesis by (intro that [of "NewOtelIngressConfig oc mi" k owned h3 ds]) (simp_all add: NewOtelIngressConfig_def)
qed

text \<open>What a successful reconciliation prunes.\<close>

lemma pruned_by_name:
  assumes E: "lists_cluster E cluster" "visits_all (ie_range E)"
    and run: "ingress_Reconcile E cd pl req (rg, h) = (Done d None, rg', h')" "ie_GetIngress E h req = Inr mi"
    and ob: "ob \<in> set (cluster h)" "indexed k (om_Namespace (mi_Meta mi)) (om_Name (mi_Meta mi)) ob"
  shows "\<exists>new. h' = new @ h \<and> (\<not> applied (uid_of ob) new \<longrightarrow> IDelete ob \<in> set new)"
proof -
  obtain oc params ds owned h3 where r: "pa_MdaiIngress params = mi"
    "findMdaiIngressOwnedObjects E params (IGetOtelcol oc # IGetIngress req # h) = (Inr owned, h3)"
    "reconcileDesiredObjects E (mi_Meta mi) ds owned h3 = (None, h')" using ingress_run [OF run] .
  let ?h2 = "IGetOtelcol oc # IGetIngress req # h"
  obtain lists where h3: "h3 = lists @ ?h2" "\<And>u. \<not> applied u lists" and owned: "with_uid ob \<in> set owned"
    using owned_by_name [OF E, of "mi_Meta mi" params ?h2] r(1,2) ob E(1)
    by (fastforce simp: lists_cluster_def applied_def)
  obtain new where new: "h' = new @ h3" "\<forall>u ob. (u, ob) \<in> set owned \<and> \<not> applied u new \<longrightarrow> IDelete ob \<in> set new"
    using prune_calls [OF E(2) r(3)] by blast
  then show ?thesis using h3 owned
    by (intro exI [of _ "new @ lists @ [IGetOtelcol oc, IGetIngress req]"]) (auto simp: with_uid_def)
qed

section \<open>Objects of other owners\<close>

text \<open>\<^verbatim>\<open>SetControllerReference\<close> changes the owners only; an object without owner gets the one.\<close>

definition names_owner :: "kube_lib \<Rightarrow> bool" where
  "names_owner L \<longleftrightarrow> (\<forall>owner k m m'. kl_SetControllerReference L owner k m = Inr m' \<longrightarrow>
     m' = m\<lparr>om_OwnerReferences := om_OwnerReferences m'\<rparr> \<and>
     (om_OwnerReferences m = [] \<longrightarrow> om_OwnerReferences m' = [\<lparr>or_Name = om_Name owner, or_Kind = k, or_UID = om_UID owner\<rparr>]))"

text \<open>The services that a DAL and a replay create, and one of them in the cluster with what the server adds.\<close>

definition dal_service_created :: "kube_lib \<Rightarrow> mdai_dal \<Rightarrow> service outcome" where
  "dal_service_created L cr = dal_service_mutate L cr (service_named (meta_named (cr_name cr) (cr_namespace cr)))"

definition replay_service_created :: "kube_lib \<Rightarrow> mdai_replay \<Rightarrow> service outcome" where
  "replay_service_created L cr =
     bind_outcome (set_controller L (rs_Meta cr) ''MdaiReplay'' (meta_named (getReplayerResourceName cr ''service'') (cr_namespace cr)))
       (\<lambda>m. replay_service_mutate cr (service_named m))"

definition stored_as :: "service \<Rightarrow> service \<Rightarrow> bool" where
  "stored_as s1 sv \<longleftrightarrow> (\<exists>u t. svc_Meta sv = (svc_Meta s1)\<lparr>om_UID := u, om_CreationTimestamp := t\<rparr>) \<and> svc_Spec sv = svc_Spec s1"

lemma created_meta:
  "dal_service_mutate L dcr s = Ok s1 \<Longrightarrow> \<exists>m. set_controller L (rs_Meta dcr) ''MdaiDal'' (svc_Meta s) = Ok m \<and>
     om_OwnerReferences (svc_Meta s1) = om_OwnerReferences m \<and> om_Namespace (svc_Meta s1) = om_Namespace m"
  "replay_service_mutate rcr s = Ok s1 \<Longrightarrow> om_OwnerReferences (svc_Meta s1) = om_OwnerReferences (svc_Meta s) \<and>
     om_Namespace (svc_Meta s1) = om_Namespace (svc_Meta s)"
  by (auto simp: dal_service_mutate_def replay_service_mutate_def service_builder_defs Let_def outcome_iff split: if_splits)

lemma set_controller_names:
  assumes "names_owner L" "set_controller L owner k (meta_named n ns) = Ok m"
  shows "om_OwnerReferences m = [\<lparr>or_Name = om_Name owner, or_Kind = k, or_UID = om_UID owner\<rparr>] \<and> om_Namespace m = ns"
proof -
  have m: "kl_SetControllerReference L owner k (meta_named n ns) = Inr m"
    using assms(2) by (auto simp: set_controller_def outcome_iff split: sum.splits)
  then have "m = (meta_named n ns)\<lparr>om_OwnerReferences := om_OwnerReferences m\<rparr>" using assms(1) unfolding names_owner_def by blast
  then have "om_Namespace m = ns" by (metis meta_named_simps(2) object_meta.select_convs(2) object_meta.surjective object_meta.update_convs(8))
  then show ?thesis using m assms(1) by (simp add: names_owner_def meta_named_def empty_meta_def)
qed

lemma stored_indexed:
  assumes "stored_as s1 sv" "managed (svc_Meta s1)" "om_Namespace (svc_Meta s1) = ns"
    "om_OwnerReferences (svc_Meta s1) = [\<lparr>or_Name = n, or_Kind = k, or_UID = u\<rparr>]"
  shows "indexed ServiceKind ns n (OService sv)"
  using assms by (auto simp: stored_as_def indexed_def visible_def cached_iff)

lemma dal_service_indexed:
  assumes "names_owner L" "dal_service_created L cr = Ok s1" "stored_as s1 sv"
  shows "indexed ServiceKind (cr_namespace cr) (cr_name cr) (OService sv)"
proof -
  note s1 = assms(2) [unfolded dal_service_created_def]
  obtain m where "set_controller L (rs_Meta cr) ''MdaiDal'' (meta_named (cr_name cr) (cr_namespace cr)) = Ok m"
    "om_OwnerReferences (svc_Meta s1) = om_OwnerReferences m" "om_Namespace (svc_Meta s1) = om_Namespace m"
    using created_meta(1) [OF s1] by (auto simp: service_named_def)
  then show ?thesis using set_controller_names [OF assms(1)] dal_labels_managed(3) [OF s1] assms(3)
    by (intro stored_indexed) auto
qed

lemma replay_service_indexed:
  assumes "names_owner L" "replay_service_created L cr = Ok s1" "stored_as s1 sv"
  shows "indexed ServiceKind (cr_namespace cr) (cr_name cr) (OService sv)"
proof -
  obtain m where m: "set_controller L (rs_Meta cr) ''MdaiReplay'' (meta_named (getReplayerResourceName cr ''service'') (cr_namespace cr)) = Ok m"
    and s1: "replay_service_mutate cr (service_named m) = Ok s1"
    using assms(2) by (auto simp: replay_service_created_def outcome_iff)
  then show ?thesis using set_controller_names [OF assms(1) m] replay_labels_managed(2) [OF s1] created_meta(2) [OF s1] assms(3)
    by (intro stored_indexed) (auto simp: service_named_def)
qed

section \<open>Properties\<close>

text \<open>
  C11. The ingress controller takes objects for its own by the name of their owner alone, whatever its kind. So a successful
  reconciliation of an ingress deletes the service of a DAL or of a replay with the same name in the same namespace, unless
  the ingress has just applied that very object.
\<close>

theorem ingress_prunes_namesakes:
  assumes "lists_cluster E cluster" "visits_all (ie_range E)" "names_owner L"
    and "ingress_Reconcile E cd pl req (rg, h) = (Done d None, rg', h')" "ie_GetIngress E h req = Inr mi"
    and "dal_service_created L dcr = Ok s1 \<and> key_of (mi_Meta mi) = key_of (rs_Meta dcr) \<or>
      replay_service_created L rcr = Ok s1 \<and> key_of (mi_Meta mi) = key_of (rs_Meta rcr)"
    and "stored_as s1 sv" "OService sv \<in> set (cluster h)"
  shows "\<exists>new. h' = new @ h \<and> (applied (om_UID (svc_Meta sv)) new \<or> IDelete (OService sv) \<in> set new)"
proof -
  have "indexed ServiceKind (om_Namespace (mi_Meta mi)) (om_Name (mi_Meta mi)) (OService sv)"
    using assms(6) dal_service_indexed [OF assms(3) _ assms(7), of dcr] replay_service_indexed [OF assms(3) _ assms(7), of rcr]
    by (auto simp: key_of_def)
  from pruned_by_name [OF assms(1,2,4,5,8) this] show ?thesis by auto
qed

text \<open>An ingress with the name of the DAL of the samples; its collector is deployed beside it.\<close>

definition namesake_ingress :: mdai_ingress where
  "namesake_ingress = (pa_MdaiIngress sample_params)\<lparr>mi_Meta := meta_named ''dal'' ''mdai''\<rparr>"

definition namesake_service :: service where
  "namesake_service = (case dal_service_created sample_lib sample_dal of
     Ok s \<Rightarrow> s\<lparr>svc_Meta := (svc_Meta s)\<lparr>om_UID := ''d'', om_CreationTimestamp := Some 1\<rparr>\<rparr>
   | _ \<Rightarrow> service_named empty_meta)"

definition namesake_env :: "unit ig_env" where
  "namesake_env = sample_ig_env\<lparr>ie_GetIngress := (\<lambda>_ _. Inr namesake_ingress),
     ie_GetOtelcol := (\<lambda>_ _. Inr (pa_Otelcol sample_params)),
     ie_List := (\<lambda>h k ns n. Inr (filter (indexed k ns n) [OService namesake_service]))\<rparr>"

definition applies :: "string \<Rightarrow> ig_call \<Rightarrow> bool" where
  "applies u c \<longleftrightarrow> (case c of ICreateOrUpdate d ex None \<Rightarrow> uid_of ex = u | _ \<Rightarrow> False)"

lemma applied_iff: "applied u calls \<longleftrightarrow> list_ex (applies u) calls"
proof -
  have "applies u c \<longleftrightarrow> (\<exists>d ex. c = ICreateOrUpdate d ex None \<and> uid_of ex = u)" for c
    by (cases c) (auto simp: applies_def split: option.splits)
  then show ?thesis unfolding applied_def list_ex_iff by auto
qed

theorem ingress_prunes_namesakes_witness:
  "\<exists>h'. fst (ingress_Reconcile namesake_env sample_codec sample_port_lib (key_of (mi_Meta namesake_ingress)) (sample_registries, []))
     = Done \<lparr>res_RequeueAfter = 0\<rparr> None \<and>
   snd (snd (ingress_Reconcile namesake_env sample_codec sample_port_lib (key_of (mi_Meta namesake_ingress)) (sample_registries, [])))
     = h' \<and> IDelete (OService namesake_service) \<in> set h'"
proof -
  let ?r = "ingress_Reconcile namesake_env sample_codec sample_port_lib (key_of (mi_Meta namesake_ingress)) (sample_registries, [])"
  have "fst ?r = Done \<lparr>res_RequeueAfter = 0\<rparr> None \<and> \<not> list_ex (applies (om_UID (svc_Meta namesake_service))) (snd (snd ?r))"
    by code_simp
  then have ok: "fst ?r = Done \<lparr>res_RequeueAfter = 0\<rparr> None"
    and other: "\<not> applied (om_UID (svc_Meta namesake_service)) (snd (snd ?r))" by (simp_all add: applied_iff)
  have run: "?r = (Done \<lparr>res_RequeueAfter = 0\<rparr> None, fst (snd ?r), snd (snd ?r))" using ok by (metis prod.collapse)
  have lists: "lists_cluster namesake_env (\<lambda>_. [OService namesake_service])"
    by (simp add: lists_cluster_def namesake_env_def sample_ig_env_def)
  have range: "visits_all (ie_range namesake_env)" by (simp add: visits_all_def namesake_env_def sample_ig_env_def)
  have owner: "names_owner sample_lib" by (simp add: names_owner_def sample_lib_def)
  have get: "ie_GetIngress namesake_env [] (key_of (mi_Meta namesake_ingress)) = Inr namesake_ingress" by (simp add: namesake_env_def)
  obtain s1 where s1: "dal_service_created sample_lib sample_dal = Ok s1"
    by (simp add: dal_service_created_def dal_service_mutate_def set_controller_def sample_lib_def Let_def)
  have key: "key_of (mi_Meta namesake_ingress) = key_of (rs_Meta sample_dal)"
    by (simp add: namesake_ingress_def sample_dal_def key_of_def meta_named_def empty_meta_def)
  have stored: "stored_as s1 namesake_service" by (auto simp: stored_as_def namesake_service_def s1)
  from other ingress_prunes_namesakes [OF lists range owner run get _ stored, of sample_dal] s1 key ok show ?thesis by auto
qed

section \<open>A label that hides the services\<close>

text \<open>
  \<^verbatim>\<open>CreateOrUpdate\<close> reads through the cache: an object that is stored and not visible there is not found, is created,
  and the server answers that it already exists.
\<close>

definition same_slot :: "client_object \<Rightarrow> client_object \<Rightarrow> bool" where
  "same_slot a b \<longleftrightarrow> kind_of a = kind_of b \<and> key_of (object_meta_of a) = key_of (object_meta_of b)"

definition creates_through_cache :: "'v ig_env \<Rightarrow> (ig_history \<Rightarrow> client_object list) \<Rightarrow> bool" where
  "creates_through_cache E cluster \<longleftrightarrow> (\<forall>h d mu. list_ex (same_slot d) (cluster h) \<longrightarrow>
     list_all (\<lambda>ob. same_slot d ob \<longrightarrow> \<not> visible ob) (cluster h) \<longrightarrow>
     (\<exists>err. snd (ie_CreateOrUpdate E h d mu) = Some err \<and> \<not> ie_IsImmutableChange E err))"

lemma desired_loop_fails:
  assumes "d \<in> set ds" and fails: "\<And>h d1. own_object E owner d = Inr d1 \<Longrightarrow>
      \<exists>err. snd (ie_CreateOrUpdate E h d1 (\<lambda>x. MutateFuncFor (ie_merge E) x d1)) = Some err \<and> \<not> ie_IsImmutableChange E err"
    and run: "desired_loop E owner ds errs owned h = (Collected errs' owned', h')"
  shows "errs' \<noteq> []"
  using assms(1) run
proof (induction ds arbitrary: errs owned h)
  case (Cons x ds)
  have grows: "errs' \<noteq> []" if "desired_loop E owner ds (errs @ [e]) owned1 h1 = (Collected errs' owned', h')" for e owned1 h1
    using desired_loop_record [OF that] by (auto simp: loop_record_def)
  show ?case
  proof (cases "x = d")
    case True
    show ?thesis
    proof (cases "own_object E owner d")
      case (Inl e)
      then show ?thesis using grows Cons.prems(2) True by simp
    next
      case (Inr d1)
      obtain ex err where "ie_CreateOrUpdate E h d1 (\<lambda>x. MutateFuncFor (ie_merge E) x d1) = (ex, Some err)"
        "\<not> ie_IsImmutableChange E err" using fails [OF Inr, of h] by (metis prod.collapse)
      then show ?thesis using grows Cons.prems(2) True Inr by (simp add: Let_def)
    qed
  next
    case False
    with Cons.prems(1) have "d \<in> set ds" by simp
    then show ?thesis using Cons.IH [of _ _ _] Cons.prems(2)
      by (auto simp: Let_def split: sum.splits prod.splits option.splits if_splits)
  qed
qed simp

lemma reconcile_fails:
  assumes "d \<in> set ds" and fails: "\<And>h d1. own_object E owner d = Inr d1 \<Longrightarrow>
      \<exists>err. snd (ie_CreateOrUpdate E h d1 (\<lambda>x. MutateFuncFor (ie_merge E) x d1)) = Some err \<and> \<not> ie_IsImmutableChange E err"
    and run: "reconcileDesiredObjects E owner ds owned h = (r, h')"
  shows "r \<noteq> None \<and> (\<exists>new. h' = new @ h \<and> (\<forall>ob. IDelete ob \<in> set new \<longrightarrow> replaced E new ob))"
proof -
  obtain lr h1 where l: "desired_loop E owner ds [] owned h = (lr, h1)" by fastforce
  from desired_loop_record [OF l] obtain new where new: "h1 = new @ h" "loop_record E [] owned new lr" by blast
  have "errs \<noteq> []" if "lr = Collected errs left" for errs left
    using desired_loop_fails [OF assms(1) fails] l that by blast
  with run l new show ?thesis by (cases lr) (auto simp: reconcileDesiredObjects_def loop_record_def)
qed

lemma own_object_slot:
  assumes "names_owner (ie_lib E)" "own_object E owner (OService g) = Inr d1"
  shows "same_slot d1 (OService g)"
proof -
  obtain m where m: "kl_SetControllerReference (ie_lib E) owner ''MdaiIngress'' (svc_Meta g) = Inr m" "d1 = OService (g\<lparr>svc_Meta := m\<rparr>)"
    using assms(2) by (auto simp: own_object_def split: sum.splits)
  then have "m = (svc_Meta g)\<lparr>om_OwnerReferences := om_OwnerReferences m\<rparr>" using assms(1) unfolding names_owner_def by blast
  then have "key_of m = key_of (svc_Meta g)" by (cases "svc_Meta g"; cases m) (simp add: key_of_def)
  with m(2) show ?thesis by (simp add: same_slot_def)
qed

lemma owned_loop_history:
  "\<exists>ls. snd (owned_loop E ns n ks acc h) = ls @ h \<and> (\<forall>ob. IDelete ob \<notin> set ls)"
proof (induction ks arbitrary: acc h)
  case (Cons k ks)
  have "\<exists>ls. snd (getList E (\<lambda>_. True) k ns n h) = ls @ h \<and> (\<forall>ob. IDelete ob \<notin> set ls)"
    by (auto simp: getList_def split: sum.splits option.splits)
  then obtain r ls where g: "getList E (\<lambda>_. True) k ns n h = (r, ls @ h)" "\<forall>ob. IDelete ob \<notin> set ls" by (metis prod.collapse)
  show ?case
  proof (cases r)
    case (Inl e)
    with g show ?thesis by simp
  next
    case (Inr objs)
    obtain ls' where "snd (owned_loop E ns n ks (maps_copy acc (ie_range E objs)) (ls @ h)) = ls' @ ls @ h"
      "\<forall>ob. IDelete ob \<notin> set ls'" using Cons.IH by blast
    with g Inr show ?thesis by (intro exI [of _ "ls' @ ls"]) simp
  qed
qed simp

lemma built_services:
  assumes "BuildCollector cd pl params rg = (Ok ds, rg1)"
    "collector_GrpcService pl params = Ok (Some g) \<or> collector_NonGrpcService pl params = Ok (Some g)"
  shows "OService g \<in> set ds"
  using assms by (auto simp: BuildCollector_def collector_Build_def outcome_iff split: prod.splits option.splits)

text \<open>
  C16. A collector resource with a \<^verbatim>\<open>managed-by\<close> label of its own, as Helm sets one, stops its ingress: once a
  generated service is in the cluster, every further reconciliation ends with an error, because the operator does not find
  the service in its cache and cannot create it again, and nothing is pruned.
\<close>

theorem foreign_label_blocks_ingress:
  assumes E: "creates_through_cache E cluster" "names_owner (ie_lib E)"
    and get: "ie_GetIngress E h req = Inr mi" "mi_OtelCollector mi \<noteq> []"
      "ie_GetOtelcol E (IGetIngress req # h) \<lparr>nn_Name = mi_OtelCollector mi, nn_Namespace = nn_Namespace req\<rparr> = Inr oc"
    and build: "BuildCollector cd pl (NewOtelIngressConfig oc mi) rg = (Ok ds, rg1)"
      "collector_GrpcService pl (NewOtelIngressConfig oc mi) = Ok (Some g) \<or>
       collector_NonGrpcService pl (NewOtelIngressConfig oc mi) = Ok (Some g)"
    and label: "distinct (map fst (entries (om_Labels (ocl_Meta oc))))"
      "gget (entries (om_Labels (ocl_Meta oc))) ''app.kubernetes.io/managed-by'' = Some v" "v \<noteq> ''mdai-operator''"
    and there: "\<And>h. list_ex (same_slot (OService g)) (cluster h)"
      "\<And>h. list_all (\<lambda>ob. same_slot (OService g) ob \<longrightarrow> om_Labels (object_meta_of ob) = om_Labels (svc_Meta g)) (cluster h)"
  shows "\<exists>err new. ingress_Reconcile E cd pl req (rg, h) = (Done \<lparr>res_RequeueAfter = 0\<rparr> (Some err), rg1, new @ h) \<and>
    (\<forall>ob. IDelete ob \<in> set new \<longrightarrow> replaced E new ob)"
proof -
  let ?p = "NewOtelIngressConfig oc mi"
  have hidden: "\<not> cached ''Service'' (svc_Meta g)"
    using ingress_services_cached_iff [OF build(2)] label by (simp add: NewOtelIngressConfig_def)
  have fails: "\<exists>err. snd (ie_CreateOrUpdate E h' d1 mu) = Some err \<and> \<not> ie_IsImmutableChange E err"
    if "own_object E (mi_Meta mi) (OService g) = Inr d1" for h' d1 mu
  proof -
    have slot: "same_slot d1 ob \<longleftrightarrow> same_slot (OService g) ob" for ob
      using own_object_slot [OF E(2) that] by (auto simp: same_slot_def)
    have "visible ob \<longrightarrow> \<not> same_slot (OService g) ob" if "ob \<in> set (cluster h')" for ob
      using there(2) [of h'] that hidden by (auto simp: list_all_iff visible_def same_slot_def cached_def split: option.splits)
    then have "list_all (\<lambda>ob. same_slot d1 ob \<longrightarrow> \<not> visible ob) (cluster h')" by (auto simp: slot list_all_iff)
    moreover have "list_ex (same_slot d1) (cluster h')" using there(1) [of h'] by (simp add: slot list_ex_iff)
    ultimately show ?thesis using E(1) unfolding creates_through_cache_def by blast
  qed
  define h2 where "h2 = IGetOtelcol \<lparr>nn_Name = mi_OtelCollector mi, nn_Namespace = nn_Namespace req\<rparr> # IGetIngress req # h"
  obtain r h3 ls where f: "findMdaiIngressOwnedObjects E ?p h2 = (r, h3)" "h3 = ls @ h2" "\<forall>ob. IDelete ob \<notin> set ls"
    using owned_loop_history [of E _ _ GetOwnedResourceTypes "[]" h2] unfolding findMdaiIngressOwnedObjects_def Let_def
    by (metis prod.collapse)
  show ?thesis
  proof (cases r)
    case (Inl e)
    then show ?thesis using get build(1) f by (simp add: ingress_Reconcile_def Let_def h2_def)
  next
    case (Inr owned)
    obtain r4 h4 where run: "reconcileDesiredObjects E (mi_Meta mi) ds owned h3 = (r4, h4)" by fastforce
    obtain err new where "r4 = Some err" "h4 = new @ h3" "\<forall>ob. IDelete ob \<in> set new \<longrightarrow> replaced E new ob"
      using reconcile_fails [OF built_services [OF build] fails run] by blast
    then show ?thesis using get build(1) f Inr run
      by (intro exI [of _ err] exI [of _ "new @ ls @ take 2 h2"]) (auto simp: ingress_Reconcile_def Let_def h2_def)
  qed
qed

text \<open>The collector that Helm installed, with its gRPC service in the cluster.\<close>

definition helm_service :: service where
  "helm_service = (case collector_GrpcService sample_port_lib helm_params of Ok (Some g) \<Rightarrow> g | _ \<Rightarrow> service_named empty_meta)"

definition helm_env :: "unit ig_env" where
  "helm_env = sample_ig_env\<lparr>ie_GetIngress := (\<lambda>_ _. Inr (pa_MdaiIngress helm_params)),
     ie_GetOtelcol := (\<lambda>_ _. Inr (pa_Otelcol helm_params)),
     ie_CreateOrUpdate := (\<lambda>_ d _. (d, if same_slot d (OService helm_service) then Some (ErrLib ''already exists'') else None))\<rparr>"

theorem foreign_label_blocks_ingress_witness:
  "\<exists>err rg1 new. ingress_Reconcile helm_env sample_codec sample_port_lib (key_of (mi_Meta (pa_MdaiIngress helm_params)))
     (sample_registries, []) = (Done \<lparr>res_RequeueAfter = 0\<rparr> (Some err), rg1, new)"
proof -
  let ?mi = "pa_MdaiIngress helm_params" and ?oc = "pa_Otelcol helm_params"
  have p: "NewOtelIngressConfig ?oc ?mi = helm_params" by (simp add: NewOtelIngressConfig_def)
  have "case fst (BuildCollector sample_codec sample_port_lib helm_params sample_registries) of Ok _ \<Rightarrow> True | _ \<Rightarrow> False"
    by code_simp
  then obtain ds rg1 where build: "BuildCollector sample_codec sample_port_lib (NewOtelIngressConfig ?oc ?mi) sample_registries = (Ok ds, rg1)"
    unfolding p by (cases "BuildCollector sample_codec sample_port_lib helm_params sample_registries") (auto split: outcome.splits)
  obtain g where g: "collector_GrpcService sample_port_lib helm_params = Ok (Some g)" using helm_grpc_service by blast
  have cluster: "creates_through_cache helm_env (\<lambda>_. [OService helm_service])"
    by (auto simp: creates_through_cache_def helm_env_def sample_ig_env_def)
  have owner: "names_owner (ie_lib helm_env)" by (simp add: names_owner_def helm_env_def sample_ig_env_def sample_lib_def)
  have get: "ie_GetIngress helm_env h k = Inr ?mi" "ie_GetOtelcol helm_env h k = Inr ?oc" for h k by (simp_all add: helm_env_def)
  have name: "mi_OtelCollector ?mi \<noteq> []" by (simp add: helm_params_def sample_params_def)
  have labels: "entries (om_Labels (ocl_Meta ?oc)) = [(''app.kubernetes.io/managed-by'', ''Helm'')]" by (simp add: helm_params_def)
  have service: "helm_service = g" by (simp add: helm_service_def g)
  have "\<exists>err new. ingress_Reconcile helm_env sample_codec sample_port_lib (key_of (mi_Meta ?mi)) (sample_registries, []) =
      (Done \<lparr>res_RequeueAfter = 0\<rparr> (Some err), rg1, new @ []) \<and> (\<forall>ob. IDelete ob \<in> set new \<longrightarrow> replaced helm_env new ob)"
    by (rule foreign_label_blocks_ingress [OF cluster owner get(1) name get(2) build, of g "''Helm''"])
      (simp_all only: p g labels service, simp_all add: same_slot_def)
  then show ?thesis by (metis append_Nil2)
qed

end
