(* ===== verification/Watches.thy ===== *)
theory Watches
  imports Main_Program
begin

text \<open>
  What the controllers are called for: the registrations of the methods \<^verbatim>\<open>SetupWithManager\<close> of the six controllers
  (\<^verbatim>\<open>internal/controller/*_controller.go\<close>). A registration is a type of object, a predicate on its events and a function
  from an object to requests. The handler for owners of controller-runtime is a parameter.
\<close>

section \<open>Registrations\<close>

datatype 'v kobject = KObject string object_meta | KIngress mdai_ingress | KOtelcol "'v otelcol"

fun kobject_type :: "'v kobject \<Rightarrow> string" where
  "kobject_type (KObject t _) = t"
| "kobject_type (KIngress _) = ''MdaiIngress''"
| "kobject_type (KOtelcol _) = ''OpenTelemetryCollector''"

fun kobject_meta :: "'v kobject \<Rightarrow> object_meta" where
  "kobject_meta (KObject _ m) = m"
| "kobject_meta (KIngress i) = mi_Meta i"
| "kobject_meta (KOtelcol c) = ocl_Meta c"

text \<open>The type assertions in the predicates and map functions.\<close>

fun as_ingress :: "'v kobject \<Rightarrow> mdai_ingress option" where
  "as_ingress (KIngress i) = Some i"
| "as_ingress _ = None"

fun as_otelcol :: "'v kobject \<Rightarrow> 'v otelcol option" where
  "as_otelcol (KOtelcol c) = Some c"
| "as_otelcol _ = None"

fun cast_event :: "('o \<Rightarrow> 'p option) \<Rightarrow> 'o watch_event \<Rightarrow> 'p watch_event" where
  "cast_event f (CreateEvent a) = CreateEvent (Option.bind a f)"
| "cast_event f (UpdateEvent a b) = UpdateEvent (Option.bind a f) (Option.bind b f)"
| "cast_event f (DeleteEvent a) = DeleteEvent (Option.bind a f)"
| "cast_event f (GenericEvent a) = GenericEvent (Option.bind a f)"

record 'o watch =
  wa_Type :: string
  wa_Predicate :: "'o watch_event \<Rightarrow> bool"
  wa_Handler :: "'o \<Rightarrow> nsname list"

text \<open>\<^verbatim>\<open>For\<close>, \<^verbatim>\<open>Owns\<close> and \<^verbatim>\<open>Watches\<close> of the builder; the first argument of the handler for owners is their type.\<close>

type_synonym owner_handler = "string \<Rightarrow> object_meta \<Rightarrow> nsname list"

definition For :: "string \<Rightarrow> ('v kobject watch_event \<Rightarrow> bool) \<Rightarrow> 'v kobject watch" where
  "For t p = \<lparr>wa_Type = t, wa_Predicate = p, wa_Handler = (\<lambda>ob. [key_of (kobject_meta ob)])\<rparr>"

definition Owns :: "owner_handler \<Rightarrow> string \<Rightarrow> string \<Rightarrow> ('v kobject watch_event \<Rightarrow> bool) \<Rightarrow> 'v kobject watch" where
  "Owns own owner t p = \<lparr>wa_Type = t, wa_Predicate = p, wa_Handler = (\<lambda>ob. own owner (kobject_meta ob))\<rparr>"

definition any_event :: "'o watch_event \<Rightarrow> bool" where
  "any_event e \<longleftrightarrow> True"

section \<open>The six controllers\<close>

definition hub_watches ::
  "owner_handler \<Rightarrow> ('v kobject option \<Rightarrow> 'v kobject option \<Rightarrow> bool) \<Rightarrow> ('v kobject watch_event \<Rightarrow> bool)
     \<Rightarrow> (goerr + mdai_hub list) \<Rightarrow> 'v kobject watch list" where
  "hub_watches own generationChanged selectorPredicate listed =
     [For ''MdaiHub'' any_event,
      Owns own ''MdaiHub'' ''ConfigMap'' (mdaiResourcesPredicate generationChanged),
      Owns own ''MdaiHub'' ''Service'' (mdaiResourcesPredicate generationChanged),
      Owns own ''MdaiHub'' ''Deployment'' (mdaiResourcesPredicate generationChanged),
      \<lparr>wa_Type = ''OpenTelemetryCollector'', wa_Predicate = combinedPredicate selectorPredicate,
       wa_Handler = (\<lambda>ob. requeueByLabels listed (as_otelcol ob))\<rparr>]"

definition collector_watches :: "'v kobject watch list" where
  "collector_watches = [For ''MdaiCollector'' any_event]"

definition observer_watches :: "'v kobject watch list" where
  "observer_watches = [For ''MdaiObserver'' any_event]"

definition replay_watches :: "'v kobject watch list" where
  "replay_watches = [For ''MdaiReplay'' any_event]"

definition dal_watches :: "owner_handler \<Rightarrow> 'v kobject watch list" where
  "dal_watches own = [For ''MdaiDal'' any_event, Owns own ''MdaiDal'' ''Deployment'' any_event,
     Owns own ''MdaiDal'' ''ConfigMap'' any_event, Owns own ''MdaiDal'' ''Service'' any_event]"

definition ingress_watches :: "'v ig_env \<Rightarrow> ig_history \<Rightarrow> 'v kobject watch list" where
  "ingress_watches E h =
     [For ''MdaiIngress'' (\<lambda>e. fst (mdaiIngressPredicates E (cast_event as_ingress e) h)),
      \<lparr>wa_Type = ''OpenTelemetryCollector'', wa_Predicate = (\<lambda>e. otelcolPredicates E (cast_event as_otelcol e)),
       wa_Handler = (\<lambda>ob. fst (requeueByCollectorRef E (map_option ocl_Meta (as_otelcol ob)) h))\<rparr>]"

text \<open>
  The fields that lists of objects are asked by, and the set-up of the ingress controller: its two indexes first, then
  the registrations. \<^verbatim>\<open>indexField\<close> is the field indexer of the manager, \<^verbatim>\<open>finish\<close> is \<^verbatim>\<open>Complete\<close> of the builder.
\<close>

definition resourceOwnerKey :: string where "resourceOwnerKey = ''metadata.ownerReferences.name''"

definition MdaiIngressOtelColLookupKey :: string where "MdaiIngressOtelColLookupKey = ''spec.otelCol.lookupKey''"

definition ingress_SetupWithManager ::
  "(string \<Rightarrow> string \<Rightarrow> goerr option) \<Rightarrow> ('v kobject watch list \<Rightarrow> goerr option) \<Rightarrow> 'v ig_env \<Rightarrow> ig_history \<Rightarrow> goerr option" where
  "ingress_SetupWithManager indexField finish E h =
     (case indexField ''Service'' resourceOwnerKey of
        Some err \<Rightarrow> Some err
      | None \<Rightarrow> (case indexField ''Ingress'' resourceOwnerKey of
          Some err \<Rightarrow> Some err
        | None \<Rightarrow> finish (ingress_watches E h)))"

definition SetMdaiIngressIndexers :: "(string \<Rightarrow> string \<Rightarrow> goerr option) \<Rightarrow> goerr option" where
  "SetMdaiIngressIndexers indexField = indexField ''MdaiIngress'' MdaiIngressOtelColLookupKey"

section \<open>Requests\<close>

fun event_objects :: "'o watch_event \<Rightarrow> 'o list" where
  "event_objects (CreateEvent a) = (case a of None \<Rightarrow> [] | Some x \<Rightarrow> [x])"
| "event_objects (UpdateEvent a b) = (case a of None \<Rightarrow> [] | Some x \<Rightarrow> [x]) @ (case b of None \<Rightarrow> [] | Some x \<Rightarrow> [x])"
| "event_objects (DeleteEvent a) = (case a of None \<Rightarrow> [] | Some x \<Rightarrow> [x])"
| "event_objects (GenericEvent a) = (case a of None \<Rightarrow> [] | Some x \<Rightarrow> [x])"

text \<open>What the registrations ask for on an event.\<close>

definition watch_requests :: "'v kobject watch \<Rightarrow> 'v kobject watch_event \<Rightarrow> nsname list" where
  "watch_requests w e =
     (if wa_Predicate w e then concat (map (\<lambda>ob. if kobject_type ob = wa_Type w then wa_Handler w ob else []) (event_objects e))
      else [])"

definition requests :: "'v kobject watch list \<Rightarrow> 'v kobject watch_event \<Rightarrow> nsname list" where
  "requests ws e = concat (map (\<lambda>w. watch_requests w e) ws)"

text \<open>
  The documented behaviour of the handler for owners, for objects with one owner, and of the generation predicate: an
  update counts when the generation of the two objects differs.
\<close>

definition owner_handler_documented :: "owner_handler \<Rightarrow> bool" where
  "owner_handler_documented own \<longleftrightarrow> (\<forall>t m r. om_OwnerReferences m = [r] \<longrightarrow>
     own t m = (if or_Kind r = t then [\<lparr>nn_Name = or_Name r, nn_Namespace = om_Namespace m\<rparr>] else []))"

definition generation_documented :: "('v kobject option \<Rightarrow> 'v kobject option \<Rightarrow> bool) \<Rightarrow> bool" where
  "generation_documented gc \<longleftrightarrow> (\<forall>a b. gc (Some a) (Some b) \<longleftrightarrow> om_Generation (kobject_meta a) \<noteq> om_Generation (kobject_meta b))"

section \<open>Lemmas\<close>

lemma watch_requests_other: "\<forall>ob \<in> set (event_objects e). kobject_type ob \<noteq> wa_Type w \<Longrightarrow> watch_requests w e = []"
  by (auto simp: watch_requests_def)

lemma requests_Cons: "requests (w # ws) e = watch_requests w e @ requests ws e"
  by (simp add: requests_def)

lemma requests_Nil [simp]: "requests [] e = []"
  by (simp add: requests_def)

lemma watch_types [simp]: "wa_Type (For t p) = t" "wa_Type (Owns own o' t p) = t" "wa_Predicate (For t p) = p"
  "wa_Predicate (Owns own o' t p) = p"
  by (simp_all add: For_def Owns_def)

text \<open>An event of an object with one owner, or of two versions of it.\<close>

definition owned_version :: "string \<Rightarrow> string \<Rightarrow> owner_ref \<Rightarrow> 'v kobject \<Rightarrow> bool" where
  "owned_version t ns r ob \<longleftrightarrow> kobject_type ob = t \<and> om_Namespace (kobject_meta ob) = ns \<and> om_OwnerReferences (kobject_meta ob) = [r]"

fun owned_event :: "string \<Rightarrow> string \<Rightarrow> owner_ref \<Rightarrow> 'v kobject watch_event \<Rightarrow> bool" where
  "owned_event t ns r (UpdateEvent (Some a) (Some b)) \<longleftrightarrow> owned_version t ns r a \<and> owned_version t ns r b"
| "owned_event t ns r (UpdateEvent _ _) \<longleftrightarrow> False"
| "owned_event t ns r (CreateEvent (Some a)) \<longleftrightarrow> owned_version t ns r a"
| "owned_event t ns r (DeleteEvent (Some a)) \<longleftrightarrow> owned_version t ns r a"
| "owned_event t ns r (GenericEvent (Some a)) \<longleftrightarrow> owned_version t ns r a"
| "owned_event t ns r _ \<longleftrightarrow> False"

lemma owned_objects:
  assumes "owned_event t ns r e"
  shows "event_objects e \<noteq> []" "ob \<in> set (event_objects e) \<Longrightarrow> owned_version t ns r ob"
  using assms by (cases "(t, ns, r, e)" rule: owned_event.cases; auto)+

fun new_generation :: "'v kobject watch_event \<Rightarrow> bool" where
  "new_generation (UpdateEvent (Some a) (Some b)) \<longleftrightarrow> om_Generation (kobject_meta a) \<noteq> om_Generation (kobject_meta b)"
| "new_generation _ \<longleftrightarrow> False"

lemma resources_predicate:
  "generation_documented gc \<Longrightarrow> owned_event t ns r e \<Longrightarrow> mdaiResourcesPredicate gc e \<longleftrightarrow> new_generation e"
  by (cases "(t, ns, r, e)" rule: owned_event.cases) (auto simp: generation_documented_def)

text \<open>One registration on such an event.\<close>

lemma For_requests: "owned_event t ns r e \<Longrightarrow> t' \<noteq> t \<Longrightarrow> watch_requests (For t' p) e = []"
  by (intro watch_requests_other) (auto dest: owned_objects(2) simp: owned_version_def)

lemma Owns_requests:
  assumes "owner_handler_documented own" "owned_event t ns r e"
  shows "set (watch_requests (Owns own k t' p) e) =
    (if t' = t \<and> p e \<and> or_Kind r = k then {\<lparr>nn_Name = or_Name r, nn_Namespace = ns\<rparr>} else {})"
proof -
  have "own k (kobject_meta ob) = (if or_Kind r = k then [\<lparr>nn_Name = or_Name r, nn_Namespace = ns\<rparr>] else [])" "kobject_type ob = t"
    if "ob \<in> set (event_objects e)" for ob
    using owned_objects(2) [OF assms(2) that] assms(1) by (auto simp: owner_handler_documented_def owned_version_def)
  then show ?thesis using owned_objects(1) [OF assms(2)]
    by (cases "event_objects e") (auto simp: watch_requests_def Owns_def)
qed

section \<open>Properties\<close>

text \<open>
  C20. Who notices a change of a ConfigMap, service or deployment that the operator made for a resource: the controllers of
  collectors, observers, replays and ingresses never do; the DAL controller is called for its DAL on every event; the hub
  controller is called for its hub only by an update that changes the generation. The API server counts generations of
  specs, and a ConfigMap, the only one of the three kinds that a hub owns, has none.
\<close>

theorem dependents_noticed:
  assumes docs: "owner_handler_documented own" "generation_documented gc"
    and e: "owned_event t ns r e" "t \<in> {''ConfigMap'', ''Service'', ''Deployment''}"
  shows "requests collector_watches e = [] \<and> requests observer_watches e = [] \<and> requests replay_watches e = [] \<and>
    requests (ingress_watches E h) e = [] \<and>
    set (requests (dal_watches own) e) =
      (if or_Kind r = ''MdaiDal'' then {\<lparr>nn_Name = or_Name r, nn_Namespace = ns\<rparr>} else {}) \<and>
    set (requests (hub_watches own gc sel listed) e) =
      (if or_Kind r = ''MdaiHub'' \<and> new_generation e then {\<lparr>nn_Name = or_Name r, nn_Namespace = ns\<rparr>} else {})"
proof -
  have for_: "watch_requests (For k p) e = []" if "k \<in> {''MdaiCollector'', ''MdaiObserver'', ''MdaiReplay'', ''MdaiIngress'', ''MdaiDal'', ''MdaiHub''}" for k p
    using that e(2) by (intro For_requests [OF e(1)]) auto
  have otelcol: "watch_requests \<lparr>wa_Type = ''OpenTelemetryCollector'', wa_Predicate = p, wa_Handler = f\<rparr> e = []" for p f
    using e by (intro watch_requests_other) (auto dest: owned_objects(2) simp: owned_version_def)
  show ?thesis using e(2)
    by (auto simp: requests_Cons for_ otelcol collector_watches_def observer_watches_def replay_watches_def ingress_watches_def
        dal_watches_def hub_watches_def Owns_requests [OF docs(1) e(1)] resources_predicate [OF docs(2) e(1)] any_event_def)
qed

text \<open>The deletion of the service of a DAL and the change of a ConfigMap of a hub.\<close>

definition sample_owner_handler :: owner_handler where
  "sample_owner_handler t m = map (\<lambda>r. \<lparr>nn_Name = or_Name r, nn_Namespace = om_Namespace m\<rparr>)
     (filter (\<lambda>r. or_Kind r = t) (om_OwnerReferences m))"

definition sample_generation :: "unit kobject option \<Rightarrow> unit kobject option \<Rightarrow> bool" where
  "sample_generation a b = (case (a, b) of
     (Some x, Some y) \<Rightarrow> om_Generation (kobject_meta x) \<noteq> om_Generation (kobject_meta y) | _ \<Rightarrow> False)"

definition owned_object :: "string \<Rightarrow> string \<Rightarrow> string \<Rightarrow> unit kobject" where
  "owned_object t k n = KObject t ((meta_named ''x'' ''mdai'')\<lparr>om_OwnerReferences := [\<lparr>or_Name = n, or_Kind = k, or_UID = ''u''\<rparr>]\<rparr>)"

theorem dependents_noticed_witness:
  "set (requests (dal_watches sample_owner_handler) (DeleteEvent (Some (owned_object ''Service'' ''MdaiDal'' ''dal''))))
     = {\<lparr>nn_Name = ''dal'', nn_Namespace = ''mdai''\<rparr>} \<and>
   set (requests (hub_watches sample_owner_handler sample_generation (\<lambda>_. True) (Inr []))
     (UpdateEvent (Some (owned_object ''ConfigMap'' ''MdaiHub'' ''hub'')) (Some (owned_object ''ConfigMap'' ''MdaiHub'' ''hub'')))) = {}"
proof -
  have docs: "owner_handler_documented sample_owner_handler" "generation_documented sample_generation"
    by (simp_all add: owner_handler_documented_def sample_owner_handler_def generation_documented_def sample_generation_def)
  have v: "owned_version t ''mdai'' \<lparr>or_Name = n, or_Kind = k, or_UID = ''u''\<rparr> (owned_object t k n)" for t k n
    by (simp add: owned_version_def owned_object_def meta_named_def)
  show ?thesis
    using dependents_noticed [OF docs, of "''Service''" "''mdai''" "\<lparr>or_Name = ''dal'', or_Kind = ''MdaiDal'', or_UID = ''u''\<rparr>"
        "DeleteEvent (Some (owned_object ''Service'' ''MdaiDal'' ''dal''))" sample_ig_env "[]" "\<lambda>_. True" "Inr []"]
      dependents_noticed [OF docs, of "''ConfigMap''" "''mdai''" "\<lparr>or_Name = ''hub'', or_Kind = ''MdaiHub'', or_UID = ''u''\<rparr>"
        "UpdateEvent (Some (owned_object ''ConfigMap'' ''MdaiHub'' ''hub'')) (Some (owned_object ''ConfigMap'' ''MdaiHub'' ''hub''))"
        sample_ig_env "[]" "\<lambda>_. True" "Inr []"]
    by (simp add: v)
qed

end
