(* ===== verification/Adapters.thy ===== *)
theory Adapters
  imports Main_Program
begin

text \<open>
  The adapters as the controllers use them: their structs and constructors, their methods for the finalizer, and the
  reconcilers with the handler that takes an adapter behind the interface \<^verbatim>\<open>Adapter\<close> and asserts its type
  (\<^verbatim>\<open>internal/controller/*_adapter.go\<close> and \<^verbatim>\<open>*_controller.go\<close>). The lemmas show that this is the composition of
  operations the other theories reason about. Loggers and the event recorder are left out.
\<close>

section \<open>Structs and constructors\<close>

text \<open>The client and the scheme of an adapter are in the environment its operations take.\<close>

record HubAdapter =
  ha_mdaiCR :: mdai_hub
  ha_env :: hub_env
  ha_valkeyAuditStreamExpiry :: duration

record MdaiCollectorAdapter =
  ca_collectorCR :: mdai_collector
  ca_env :: "mdai_collector wl_env"

record ObserverAdapter =
  oa_observerCR :: mdai_observer
  oa_env :: "mdai_observer wl_env"
  oa_releaseName :: string

record MdaiReplayAdapter =
  ra_replayCR :: mdai_replay
  ra_env :: "mdai_replay wl_env"
  ra_http :: replay_http

record MdaiDalAdapter =
  da_dalCR :: mdai_dal
  da_env :: "mdai_dal wl_env"

definition NewHubAdapter :: "(string \<Rightarrow> string) \<Rightarrow> mdai_hub \<Rightarrow> hub_env \<Rightarrow> duration \<Rightarrow> HubAdapter" where
  "NewHubAdapter Getenv cr env valkeyAuditStreamExpiry =
     \<lparr>ha_mdaiCR = cr, ha_env = env\<lparr>he_releaseName := Getenv ''RELEASE_NAME''\<rparr>, ha_valkeyAuditStreamExpiry = valkeyAuditStreamExpiry\<rparr>"

definition NewMdaiCollectorAdapter :: "mdai_collector \<Rightarrow> mdai_collector wl_env \<Rightarrow> MdaiCollectorAdapter" where
  "NewMdaiCollectorAdapter cr env = \<lparr>ca_collectorCR = cr, ca_env = env\<rparr>"

definition NewObserverAdapter :: "(string \<Rightarrow> string) \<Rightarrow> mdai_observer \<Rightarrow> mdai_observer wl_env \<Rightarrow> ObserverAdapter" where
  "NewObserverAdapter Getenv cr env = \<lparr>oa_observerCR = cr, oa_env = env, oa_releaseName = Getenv ''RELEASE_NAME''\<rparr>"

definition NewMdaiReplayAdapter ::
  "mdai_replay \<Rightarrow> mdai_replay wl_env \<Rightarrow> replay_http \<Rightarrow> (string \<Rightarrow> string \<Rightarrow> string) option \<Rightarrow> MdaiReplayAdapter" where
  "NewMdaiReplayAdapter cr env httpClient metricsURLBuilder =
     \<lparr>ra_replayCR = cr, ra_env = env, ra_http = with_metrics_url metricsURLBuilder httpClient\<rparr>"

definition NewMdaiDalAdapter :: "mdai_dal \<Rightarrow> mdai_dal wl_env \<Rightarrow> MdaiDalAdapter" where
  "NewMdaiDalAdapter dalCR env = \<lparr>da_dalCR = dalCR, da_env = env\<rparr>"

text \<open>An adapter behind the interface, with its dynamic type.\<close>

datatype Adapter = AHub HubAdapter | ACollector MdaiCollectorAdapter | AObserver ObserverAdapter | AReplay MdaiReplayAdapter
  | ADal MdaiDalAdapter

fun adapter_type :: "Adapter \<Rightarrow> string" where
  "adapter_type (AHub _) = ''controller.HubAdapter''"
| "adapter_type (ACollector _) = ''controller.MdaiCollectorAdapter''"
| "adapter_type (AObserver _) = ''controller.ObserverAdapter''"
| "adapter_type (AReplay _) = ''controller.MdaiReplayAdapter''"
| "adapter_type (ADal _) = ''controller.MdaiDalAdapter''"

definition unexpected_adapter :: "Adapter \<Rightarrow> reconcile_return" where
  "unexpected_adapter a = Done \<lparr>res_RequeueAfter = 0\<rparr> (Some (ErrNew (''unexpected adapter type: '' @ adapter_type a)))"

section \<open>Finalizers\<close>

definition collector_deleteFinalizer ::
  "MdaiCollectorAdapter \<Rightarrow> string \<Rightarrow> mdai_collector \<times> collector_history \<Rightarrow> goerr option \<times> mdai_collector \<times> collector_history" where
  "collector_deleteFinalizer c finalizer = (\<lambda>(cr, w).
     if finalizer \<in> set (om_Finalizers (rs_Meta cr))
     then (let cr1 = cr\<lparr>rs_Meta := (rs_Meta cr)\<lparr>om_Finalizers := filter (\<lambda>f. f \<noteq> finalizer) (om_Finalizers (rs_Meta cr))\<rparr>\<rparr>
           in case cc_Update (wl_client (ca_env c)) cr1 w of (Inl err, w') \<Rightarrow> (Some err, cr1, w') | (Inr cr2, w') \<Rightarrow> (None, cr2, w'))
     else (None, cr, w))"

definition collector_ensureFinalizerDeleted ::
  "MdaiCollectorAdapter \<Rightarrow> mdai_collector \<times> collector_history \<Rightarrow> goerr option \<times> mdai_collector \<times> collector_history" where
  "collector_ensureFinalizerDeleted c = collector_deleteFinalizer c hubFinalizer"

definition observer_deleteFinalizer ::
  "ObserverAdapter \<Rightarrow> string \<Rightarrow> mdai_observer \<times> mdai_observer wl_history \<Rightarrow> goerr option \<times> mdai_observer \<times> mdai_observer wl_history" where
  "observer_deleteFinalizer c finalizer = (\<lambda>(cr, w).
     if finalizer \<in> set (om_Finalizers (rs_Meta cr))
     then (let cr1 = cr\<lparr>rs_Meta := (rs_Meta cr)\<lparr>om_Finalizers := filter (\<lambda>f. f \<noteq> finalizer) (om_Finalizers (rs_Meta cr))\<rparr>\<rparr>
           in case cc_Update (wl_client (oa_env c)) cr1 w of (Inl err, w') \<Rightarrow> (Some err, cr1, w') | (Inr cr2, w') \<Rightarrow> (None, cr2, w'))
     else (None, cr, w))"

definition observer_ensureFinalizerDeleted ::
  "ObserverAdapter \<Rightarrow> mdai_observer \<times> mdai_observer wl_history \<Rightarrow> goerr option \<times> mdai_observer \<times> mdai_observer wl_history" where
  "observer_ensureFinalizerDeleted c = observer_deleteFinalizer c hubFinalizer"

definition replay_deleteFinalizer ::
  "MdaiReplayAdapter \<Rightarrow> string \<Rightarrow> mdai_replay \<times> replay_history \<Rightarrow> goerr option \<times> mdai_replay \<times> replay_history" where
  "replay_deleteFinalizer c finalizer = (\<lambda>(cr, w).
     if finalizer \<in> set (om_Finalizers (rs_Meta cr))
     then (let cr1 = cr\<lparr>rs_Meta := (rs_Meta cr)\<lparr>om_Finalizers := filter (\<lambda>f. f \<noteq> finalizer) (om_Finalizers (rs_Meta cr))\<rparr>\<rparr>
           in case cc_Update (wl_client (ra_env c)) cr1 w of (Inl err, w') \<Rightarrow> (Some err, cr1, w') | (Inr cr2, w') \<Rightarrow> (None, cr2, w'))
     else (None, cr, w))"

definition replay_ensureFinalizerDeleted ::
  "MdaiReplayAdapter \<Rightarrow> mdai_replay \<times> replay_history \<Rightarrow> goerr option \<times> mdai_replay \<times> replay_history" where
  "replay_ensureFinalizerDeleted c = replay_deleteFinalizer c mdaiReplayFinalizerName"

definition dal_deleteFinalizer ::
  "MdaiDalAdapter \<Rightarrow> string \<Rightarrow> mdai_dal \<times> dal_history \<Rightarrow> goerr option \<times> mdai_dal \<times> dal_history" where
  "dal_deleteFinalizer c finalizer = (\<lambda>(cr, w).
     if finalizer \<in> set (om_Finalizers (rs_Meta cr))
     then (let cr1 = cr\<lparr>rs_Meta := (rs_Meta cr)\<lparr>om_Finalizers := filter (\<lambda>f. f \<noteq> finalizer) (om_Finalizers (rs_Meta cr))\<rparr>\<rparr>
           in case cc_Update (wl_client (da_env c)) cr1 w of (Inl err, w') \<Rightarrow> (Some err, cr1, w') | (Inr cr2, w') \<Rightarrow> (None, cr2, w'))
     else (None, cr, w))"

definition dal_ensureFinalizerDeleted ::
  "MdaiDalAdapter \<Rightarrow> mdai_dal \<times> dal_history \<Rightarrow> goerr option \<times> mdai_dal \<times> dal_history" where
  "dal_ensureFinalizerDeleted c = dal_deleteFinalizer c hubFinalizer"

section \<open>Handlers\<close>

definition hub_ReconcileHandler :: "Adapter \<Rightarrow> hub_history \<Rightarrow> reconcile_return \<times> hub_history" where
  "hub_ReconcileHandler adapter h =
     (case adapter of
        AHub a \<Rightarrow> (case run_operations (hub_operations (ha_env a)) (ha_mdaiCR a, h) of (r, s) \<Rightarrow> (r, snd s))
      | _ \<Rightarrow> (unexpected_adapter adapter, h))"

definition collector_ReconcileHandler :: "range_fun \<Rightarrow> Adapter \<Rightarrow> collector_history \<Rightarrow> reconcile_return \<times> collector_history" where
  "collector_ReconcileHandler rng adapter h =
     (case adapter of
        ACollector a \<Rightarrow> (case run_operations (collector_operations (ca_env a) rng) (ca_collectorCR a, h) of (r, s) \<Rightarrow> (r, snd s))
      | _ \<Rightarrow> (unexpected_adapter adapter, h))"

definition observer_ReconcileHandler :: "Adapter \<Rightarrow> mdai_observer wl_history \<Rightarrow> reconcile_return \<times> mdai_observer wl_history" where
  "observer_ReconcileHandler adapter h =
     (case adapter of
        AObserver a \<Rightarrow> (case run_operations (observer_operations (oa_env a)) (oa_observerCR a, h) of (r, s) \<Rightarrow> (r, snd s))
      | _ \<Rightarrow> (unexpected_adapter adapter, h))"

definition replay_ReconcileHandler :: "Adapter \<Rightarrow> replay_history \<Rightarrow> reconcile_return \<times> replay_history" where
  "replay_ReconcileHandler adapter h =
     (case adapter of
        AReplay a \<Rightarrow> (case run_operations (replay_operations (ra_env a) (ra_http a)) (ra_replayCR a, h) of (r, s) \<Rightarrow> (r, snd s))
      | _ \<Rightarrow> (unexpected_adapter adapter, h))"

definition dal_ReconcileHandler :: "Adapter \<Rightarrow> dal_history \<Rightarrow> reconcile_return \<times> dal_history" where
  "dal_ReconcileHandler adapter h =
     (case adapter of
        ADal a \<Rightarrow> (case run_operations (dal_operations (da_env a)) (da_dalCR a, h) of (r, s) \<Rightarrow> (r, snd s))
      | _ \<Rightarrow> (unexpected_adapter adapter, h))"

section \<open>Reconcilers\<close>

text \<open>
  \<^verbatim>\<open>Reconcile\<close> of a controller: \<open>wrap\<close> makes the adapter of the fetched resource. All but the replay controller
  discard the result of the handler.
\<close>

definition reconcile_with ::
  "kube_lib \<Rightarrow> ('cr, 'w) cr_client \<Rightarrow> ('cr \<Rightarrow> Adapter) \<Rightarrow> (Adapter \<Rightarrow> 'w \<Rightarrow> reconcile_return \<times> 'w) \<Rightarrow> (reconcile_return \<Rightarrow> reconcile_return)
     \<Rightarrow> nsname \<Rightarrow> 'w \<Rightarrow> reconcile_return \<times> 'w" where
  "reconcile_with L cl wrap handler answer req w =
     (case cc_Get cl req w of
        (Inl err, w') \<Rightarrow> (Done \<lparr>res_RequeueAfter = 0\<rparr> (if kl_IsNotFound L err then None else Some err), w')
      | (Inr fetchedCR, w') \<Rightarrow> map_prod answer id (handler (wrap fetchedCR) w'))"

fun drop_result :: "reconcile_return \<Rightarrow> reconcile_return" where
  "drop_result (Done _ err) = Done \<lparr>res_RequeueAfter = 0\<rparr> err"
| "drop_result (Crashed m) = Crashed m"

section \<open>The composition\<close>

lemmas finalizer_methods =
  collector_ensureFinalizerDeleted_def collector_deleteFinalizer_def observer_ensureFinalizerDeleted_def observer_deleteFinalizer_def
  replay_ensureFinalizerDeleted_def replay_deleteFinalizer_def dal_ensureFinalizerDeleted_def dal_deleteFinalizer_def

text \<open>Each adapter's own methods for the finalizer are the ones its finalization runs.\<close>

lemma finalizer_methods_agree:
  "collector_ensureFinalizerDeleted c = ensureFinalizerDeleted (wl_client (ca_env c)) hubFinalizer"
  "observer_ensureFinalizerDeleted o1 = ensureFinalizerDeleted (wl_client (oa_env o1)) hubFinalizer"
  "replay_ensureFinalizerDeleted r = ensureFinalizerDeleted (wl_client (ra_env r)) mdaiReplayFinalizerName"
  "dal_ensureFinalizerDeleted d = ensureFinalizerDeleted (wl_client (da_env d)) hubFinalizer"
  by (intro ext; simp add: finalizer_methods ensureFinalizerDeleted_def deleteFinalizer_def split_def Let_def)+

lemma Reconcile_handled:
  assumes "\<And>cr w. handler (wrap cr) w = (case run_operations ops (cr, w) of (r, s) \<Rightarrow> (r, snd s))"
  shows "reconcile_with L cl wrap handler drop_result = Reconcile L cl ops"
  by (intro ext) (auto simp: reconcile_with_def Reconcile_def assms split: prod.splits sum.splits reconcile_return.splits)

text \<open>
  The reconcilers run the operations of their adapters: no controller meets the error of its type assertion, the hub runs
  with the release name of its environment, and the replay controller with the default address of the metrics.
\<close>

theorem reconcilers_run_adapters:
  "reconcile_with (he_lib E) (hub_client E) (\<lambda>cr. AHub (NewHubAdapter env cr E expiry)) hub_ReconcileHandler drop_result =
     Reconcile (he_lib E) (hub_client E) (hub_operations (E\<lparr>he_releaseName := env ''RELEASE_NAME''\<rparr>))"
  "reconcile_with (we_lib C) (wl_client C) (\<lambda>cr. ACollector (NewMdaiCollectorAdapter cr C)) (collector_ReconcileHandler rng) drop_result =
     collector_Reconcile C rng"
  "reconcile_with (we_lib V) (wl_client V) (\<lambda>cr. AObserver (NewObserverAdapter env cr V)) observer_ReconcileHandler drop_result =
     observer_Reconcile V"
  "reconcile_with (we_lib D) (wl_client D) (\<lambda>cr. ADal (NewMdaiDalAdapter cr D)) dal_ReconcileHandler drop_result = dal_Reconcile D"
  "reconcile_with (we_lib R) (wl_client R) (\<lambda>cr. AReplay (NewMdaiReplayAdapter cr R http None)) replay_ReconcileHandler id =
     replay_Reconcile R http"
proof -
  show "reconcile_with (he_lib E) (hub_client E) (\<lambda>cr. AHub (NewHubAdapter env cr E expiry)) hub_ReconcileHandler drop_result =
     Reconcile (he_lib E) (hub_client E) (hub_operations (E\<lparr>he_releaseName := env ''RELEASE_NAME''\<rparr>))"
    by (rule Reconcile_handled) (simp add: hub_ReconcileHandler_def NewHubAdapter_def)
  show "reconcile_with (we_lib C) (wl_client C) (\<lambda>cr. ACollector (NewMdaiCollectorAdapter cr C)) (collector_ReconcileHandler rng) drop_result =
     collector_Reconcile C rng"
    unfolding collector_Reconcile_def by (rule Reconcile_handled) (simp add: collector_ReconcileHandler_def NewMdaiCollectorAdapter_def)
  show "reconcile_with (we_lib V) (wl_client V) (\<lambda>cr. AObserver (NewObserverAdapter env cr V)) observer_ReconcileHandler drop_result =
     observer_Reconcile V"
    unfolding observer_Reconcile_def by (rule Reconcile_handled) (simp add: observer_ReconcileHandler_def NewObserverAdapter_def)
  show "reconcile_with (we_lib D) (wl_client D) (\<lambda>cr. ADal (NewMdaiDalAdapter cr D)) dal_ReconcileHandler drop_result = dal_Reconcile D"
    unfolding dal_Reconcile_def by (rule Reconcile_handled) (simp add: dal_ReconcileHandler_def NewMdaiDalAdapter_def)
  show "reconcile_with (we_lib R) (wl_client R) (\<lambda>cr. AReplay (NewMdaiReplayAdapter cr R http None)) replay_ReconcileHandler id =
     replay_Reconcile R http"
    by (intro ext) (auto simp: reconcile_with_def replay_Reconcile_def replay_ReconcileHandler_def NewMdaiReplayAdapter_def
        split: prod.splits sum.splits reconcile_return.splits)
qed

text \<open>A handler that gets another adapter answers with an error and makes no call.\<close>

lemma handlers_assert_types:
  "(\<nexists>x. a = AHub x) \<Longrightarrow> hub_ReconcileHandler a h = (unexpected_adapter a, h)"
  "(\<nexists>x. a = ACollector x) \<Longrightarrow> collector_ReconcileHandler rng a ch = (unexpected_adapter a, ch)"
  "(\<nexists>x. a = AObserver x) \<Longrightarrow> observer_ReconcileHandler a oh = (unexpected_adapter a, oh)"
  "(\<nexists>x. a = AReplay x) \<Longrightarrow> replay_ReconcileHandler a rh = (unexpected_adapter a, rh)"
  "(\<nexists>x. a = ADal x) \<Longrightarrow> dal_ReconcileHandler a dh = (unexpected_adapter a, dh)"
  by (cases a; simp add: hub_ReconcileHandler_def collector_ReconcileHandler_def observer_ReconcileHandler_def
      replay_ReconcileHandler_def dal_ReconcileHandler_def)+

end
