(* ===== verification/Replay_Admission.thy ===== *)
theory Replay_Admission
  imports Convergence Resource_Webhooks Replay_Adapter
begin

text \<open>
  What becomes of a replay that the webhook (\<^verbatim>\<open>internal/webhook/v1/mdaireplay_webhook.go\<close>) accepts: the webhook, the
  adapter and the controller together.
\<close>

section \<open>A server that accepts the objects of a replay\<close>

text \<open>
  Create-or-update succeeds when the mutation does on the new object and on the ones that may be in the cluster, the owner
  can be set, and the configuration can be printed and hashed. A ConfigMap in the cluster has data: the mutation assigns to
  an entry of the map.
\<close>

definition accepts :: "('ob \<Rightarrow> bool) \<Rightarrow> (mdai_replay, 'ob) create_or_update \<Rightarrow> bool" where
  "accepts existing cou \<longleftrightarrow> (\<forall>h ob f. (\<forall>x. x = ob \<or> existing x \<longrightarrow> (\<exists>y. f x = Ok y)) \<longrightarrow> (\<exists>y. cou h ob f = Ok y))"

definition workload_answers :: "mdai_replay wl_env \<Rightarrow> bool" where
  "workload_answers E \<longleftrightarrow> accepts (\<lambda>cm. cm_Data cm \<noteq> None) (we_ConfigMap E) \<and> accepts (\<lambda>_. True) (we_Service E) \<and>
     accepts (\<lambda>_. True) (we_Deployment E) \<and>
     (\<forall>owner k m. \<exists>m'. kl_SetControllerReference (we_lib E) owner k m = Inr m') \<and>
     (\<forall>c. \<exists>s. we_marshalYAML E c = Inr s) \<and> (\<forall>cm. \<exists>s. we_marshalConfigMap E cm = Inr s)"

lemma workload_answersD:
  assumes "workload_answers E"
  shows "(\<And>x. cm_Data x \<noteq> None \<Longrightarrow> \<exists>y. f1 x = Ok y) \<Longrightarrow> cm_Data c \<noteq> None \<Longrightarrow> \<exists>y. we_ConfigMap E h c f1 = Ok y"
    "(\<And>x. \<exists>y. f2 x = Ok y) \<Longrightarrow> \<exists>y. we_Service E h s f2 = Ok y"
    "(\<And>x. \<exists>y. f3 x = Ok y) \<Longrightarrow> \<exists>y. we_Deployment E h d f3 = Ok y"
    "\<exists>m'. set_controller (we_lib E) owner k m = Ok m'"
    "\<exists>y. of_sum (YAML (we_marshalYAML E) b) = Ok y" "\<exists>y. of_sum (getConfigMapSHA E cm) = Ok y"
proof -
  from assms obtain m' x y where "kl_SetControllerReference (we_lib E) owner k m = Inr m'"
    "we_marshalYAML E b = Inr x" "we_marshalConfigMap E cm = Inr y" unfolding workload_answers_def by metis
  then show "\<exists>m'. set_controller (we_lib E) owner k m = Ok m'" "\<exists>y. of_sum (YAML (we_marshalYAML E) b) = Ok y"
    "\<exists>y. of_sum (getConfigMapSHA E cm) = Ok y" by (simp_all add: set_controller_def YAML_def getConfigMapSHA_def)
qed (use assms in \<open>auto simp: workload_answers_def accepts_def\<close>)

section \<open>The synchronisation\<close>

lemma replay_yaml:
  assumes "we_base E = Inr baseReplayCollectorYaml" "rp_TelemetryType (rpl_Spec cr) \<noteq> []"
  shows "rp_S3 (rpl_Spec cr) = None \<Longrightarrow> \<exists>m. getReplayCollectorConfigYAML E cr i n = Panic m"
    "workload_answers E \<Longrightarrow> rp_S3 (rpl_Spec cr) \<noteq> None \<Longrightarrow> \<exists>y. getReplayCollectorConfigYAML E cr i n = Ok y"
  using assms replay_config_cases [where replayId = i and hubName = n and spec = "rpl_Spec cr"] workload_answersD(5) [of E]
  by (auto simp: getReplayCollectorConfigYAML_def split: outcome.splits)

lemma replay_sync_panics:
  assumes "we_base E = Inr baseReplayCollectorYaml" "rp_TelemetryType (rpl_Spec cr) \<noteq> []" "rp_S3 (rpl_Spec cr) = None"
  shows "\<exists>m s. replay_ensureSynchronized E (cr, h) = (Panicked m, s)"
  using replay_yaml(1) [OF assms, of "cr_name cr" "rp_HubName (rpl_Spec cr)"]
  by (auto simp: replay_ensureSynchronized_def createOrUpdateReplayerConfigMap_def seq_result_def on_result_def)

lemma replay_sync_goes_on:
  assumes E: "workload_answers E" "we_base E = Inr baseReplayCollectorYaml"
    and spec: "rp_TelemetryType (rpl_Spec cr) \<noteq> []" "rp_S3 (rpl_Spec cr) \<noteq> None"
  shows "\<exists>c c' d d' s s'. replay_ensureSynchronized E (cr, h) = (ContinueProcessing, cr, WService s s' # WDeployment d d' # WConfigMap c c' # h)"
proof -
  note a = workload_answersD [OF E(1)]
  have "\<exists>hash c c'. createOrUpdateReplayerConfigMap E cr h = (Ok hash, WConfigMap c c' # h)" for h
  proof -
    obtain y m where y: "getReplayCollectorConfigYAML E cr (cr_name cr) (rp_HubName (rpl_Spec cr)) = Ok y"
      "set_controller (we_lib E) (rs_Meta cr) ''MdaiReplay'' (replay_config_meta cr) = Ok m"
      using replay_yaml(2) [OF E(2) spec(1) E(1) spec(2)] a(4) by metis
    obtain cm where cm: "we_ConfigMap E h \<lparr>cm_Meta = m, cm_Data = Some [(''collector.yaml'', y)]\<rparr> (write_data ''collector.yaml'' y) = Ok cm"
      using a(1) [of "write_data ''collector.yaml'' y"] by (fastforce simp: write_data_def)
    show ?thesis using y cm a(6) [of cm] by (auto simp: createOrUpdateReplayerConfigMap_def seq_result_def cou_ConfigMap_def)
  qed
  moreover have "\<exists>x d d'. createOrUpdateReplayerDeployment E cr hash h = (Ok x, WDeployment d d' # h)" for hash h
  proof -
    have "\<exists>y. replay_deployment_mutate (we_lib E) cr hash x = Ok y" for x
      using a(4) [of "rs_Meta cr" "''MdaiReplay''" "dep_Meta x"] by (auto simp: replay_deployment_mutate_def Let_def)
    from a(3) [OF this] show ?thesis by (auto simp: createOrUpdateReplayerDeployment_def cou_Deployment_def)
  qed
  moreover have "\<exists>x s s'. createOrUpdateReplayerService E cr h = (Ok x, WService s s' # h)" for h
  proof -
    obtain m where "set_controller (we_lib E) (rs_Meta cr) ''MdaiReplay'' (meta_named (getReplayerResourceName cr ''service'') (cr_namespace cr)) = Ok m"
      using a(4) by blast
    moreover obtain y where "we_Service E h (service_named m) (replay_service_mutate cr) = Ok y"
      using a(2) [of "replay_service_mutate cr"] by (auto simp: replay_service_mutate_def Let_def)
    ultimately show ?thesis by (simp add: createOrUpdateReplayerService_def seq_result_def cou_Service_def Let_def)
  qed
  ultimately obtain hash c c' x d d' z s s' where "createOrUpdateReplayerConfigMap E cr h = (Ok hash, WConfigMap c c' # h)"
    "createOrUpdateReplayerDeployment E cr hash (WConfigMap c c' # h) = (Ok x, WDeployment d d' # WConfigMap c c' # h)"
    "createOrUpdateReplayerService E cr (WDeployment d d' # WConfigMap c c' # h) = (Ok z, WService s s' # WDeployment d d' # WConfigMap c c' # h)"
    by metis
  then show ?thesis by (auto simp: replay_ensureSynchronized_def on_result_def)
qed

section \<open>The controller that returns the result of its operations\<close>

text \<open>An operation that asks for no delay.\<close>

definition no_delay :: "('cr, 'w) operation \<Rightarrow> bool" where
  "no_delay opn \<longleftrightarrow> (\<forall>s res err s'. opn s = (Returned res err, s') \<longrightarrow> RequeueDelay res = 0)"

lemma run_no_delay:
  assumes "\<And>opn. opn \<in> set ops \<Longrightarrow> no_delay opn" "run_operations ops s = (Done r err, s')"
  shows "r = \<lparr>res_RequeueAfter = 0\<rparr>"
  using assms
proof (induction ops arbitrary: s)
  case (Cons opn ops)
  have rest: "r = \<lparr>res_RequeueAfter = 0\<rparr>" if "run_operations ops t = (Done r err, s')" for t
    using Cons.IH [OF _ that] Cons.prems(1) by simp
  have "RequeueDelay res = 0" if "fst (opn s) = Returned res e" for res e
    using Cons.prems(1) [of opn] that unfolding no_delay_def by (metis list.set_intros(1) prod.collapse)
  with rest Cons.prems(2) show ?case
    by (auto simp: run_operations_Cons split: if_splits op_return.splits)
qed simp

lemma lifecycle_no_delay:
  "no_delay (ensureStatusInitialized L cl)" "no_delay (ensureFinalizerInitialized L cl fz)" "no_delay (ensureStatusSetToDone L cl)"
  "no_delay (replay_ensureSynchronized E)"
  by (auto simp: no_delay_def ensureStatusInitialized_def ensureFinalizerInitialized_def ensureStatusSetToDone_def
      replay_ensureSynchronized_def on_result_def op_return_defs Let_def split: sum.splits prod.splits if_splits outcome.splits)

lemma replay_operations_lifecycle:
  "replay_operations E R = lifecycle_operations (we_lib E) (wl_client E) mdaiReplayFinalizerName (replay_finalize E R)
     [replay_ensureSynchronized E]"
  by (simp add: replay_operations_def lifecycle_operations_def replay_ensureDeletionProcessed_def
      replay_ensureStatusInitialized_def replay_ensureFinalizerInitialized_def replay_ensureStatusSetToDone_def)

text \<open>While the replay is not being deleted, the result it returns is the empty one.\<close>

lemma replay_Reconcile_lifecycle:
  assumes "we_Get E h req = Inr cr" "om_DeletionTimestamp (rs_Meta cr) = None"
  shows "replay_Reconcile E R req h = lifecycle_Reconcile (we_lib E) (wl_client E) mdaiReplayFinalizerName
    (replay_finalize E (with_metrics_url None R)) [replay_ensureSynchronized E] req h"
proof -
  let ?ops = "replay_operations E (with_metrics_url None R)"
  have "r = \<lparr>res_RequeueAfter = 0\<rparr>" if "run_operations ?ops (cr, WGet req # h) = (Done r err, s)" for r err s
  proof (rule run_no_delay)
    show "run_operations (tl ?ops) (cr, WGet req # h) = (Done r err, s)"
      using that assms(2) by (simp add: replay_operations_def replay_ensureDeletionProcessed_def deletion_skipped run_operations_Cons)
  qed (auto simp: replay_operations_lifecycle lifecycle_operations_def lifecycle_no_delay)
  then show ?thesis using assms(1)
    by (auto simp: replay_Reconcile_def Reconcile_def replay_operations_lifecycle wl_client_def split: prod.splits reconcile_return.splits)
qed

section \<open>Properties\<close>

lemma replay_ready:
  assumes "kube_lib_documented (we_lib E)"
    and fresh: "rs_Conditions cr = []" "om_DeletionTimestamp (rs_Meta cr) = None" "mdaiReplayFinalizerName \<notin> set (om_Finalizers (rs_Meta cr))"
  shows "\<exists>h. reconcile_times 2 (replay_Reconcile (serving cr E) R (key_of (rs_Meta cr))) [] = ([quiet, quiet], h) \<and>
    ready (we_lib E) mdaiReplayFinalizerName (stored_in cr h) \<and> same_object (stored_in cr h) cr \<and>
    mdaiReplayFinalizerName \<in> set (om_Finalizers (rs_Meta (stored_in cr h)))"
proof -
  let ?E = "serving cr E"
  let ?F = "\<lambda>h. lifecycle_Reconcile (we_lib E) (wl_client ?E) mdaiReplayFinalizerName (replay_finalize ?E (with_metrics_url None R))
    [replay_ensureSynchronized ?E] (key_of (rs_Meta (stored_in cr h))) h"
  have same: "replay_Reconcile ?E R req h = lifecycle_Reconcile (we_lib E) (wl_client ?E) mdaiReplayFinalizerName
      (replay_finalize ?E (with_metrics_url None R)) [replay_ensureSynchronized ?E] req h"
    if "om_DeletionTimestamp (rs_Meta (stored_in cr h)) = None" for h req
    using replay_Reconcile_lifecycle [of ?E h req "stored_in cr h" R] that by simp
  obtain h1 where h1: "?F [] = (quiet, h1)" "same_object (stored_in cr h1) cr" "rs_Conditions (stored_in cr h1) \<noteq> []"
    "om_Finalizers (rs_Meta (stored_in cr h1)) = om_Finalizers (rs_Meta cr)" "om_DeletionTimestamp (rs_Meta (stored_in cr h1)) = None"
    using history_server.first_reconciliation [of cr "[]" "we_lib E"] fresh assms(1)
    by (auto simp: kube_lib_documented_def) (metis empty_iff list.set(1))
  obtain h2 where h2: "?F h1 = (quiet, h2)" "same_object (stored_in cr h2) (stored_in cr h1)"
    "rs_Conditions (stored_in cr h2) = rs_Conditions (stored_in cr h1)"
    "om_Finalizers (rs_Meta (stored_in cr h2)) = om_Finalizers (rs_Meta (stored_in cr h1)) @ [mdaiReplayFinalizerName]"
    "om_DeletionTimestamp (rs_Meta (stored_in cr h2)) = None"
    using history_server.second_reconciliation [OF h1(3,5) assms(1), of mdaiReplayFinalizerName E
        "replay_finalize ?E (with_metrics_url None R)" "[replay_ensureSynchronized ?E]"] fresh(3) h1(4) by auto
  have "key_of (rs_Meta (stored_in cr h1)) = key_of (rs_Meta cr)" using h1(2) by (simp add: same_object_def)
  then have "reconcile_times 2 (replay_Reconcile ?E R (key_of (rs_Meta cr))) [] = ([quiet, quiet], h2)"
    using h1(1,5) h2(1) same [of "[]"] same [of h1] fresh(2) by (simp add: numeral_2_eq_2)
  moreover have "ready (we_lib E) mdaiReplayFinalizerName (stored_in cr h2)" "same_object (stored_in cr h2) cr"
    using h1 h2 assms(1) by (simp_all add: ready_def kube_lib_documented_def same_object_def)
  ultimately show ?thesis using h2(4) by auto
qed

text \<open>
  C18. A replay that the webhook accepts and that has an S3 source becomes available: with an API server that accepts the
  writes, three reconciliations end without an error, and then the replay has its finalizer and is reported as available.
  One without a source is accepted as well: its finalizer is set in two reconciliations, and the third one panics.
\<close>

theorem accepted_replay_becomes_available:
  assumes accepted: "snd (replay_ValidateCreate parseTime (Inr cr)) = None"
    and E: "kube_lib_documented (we_lib E)" "workload_answers E" "we_base E = Inr baseReplayCollectorYaml"
    and fresh: "rs_Conditions cr = []" "om_DeletionTimestamp (rs_Meta cr) = None" "mdaiReplayFinalizerName \<notin> set (om_Finalizers (rs_Meta cr))"
  shows "\<exists>h. reconcile_times 2 (replay_Reconcile (serving cr E) R (key_of (rs_Meta cr))) [] = ([quiet, quiet], h) \<and>
    mdaiReplayFinalizerName \<in> set (om_Finalizers (rs_Meta (stored_in cr h))) \<and>
    (if rp_S3 (rpl_Spec cr) = None then \<exists>m. fst (replay_Reconcile (serving cr E) R (key_of (rs_Meta cr)) h) = Crashed m
     else \<exists>h'. replay_Reconcile (serving cr E) R (key_of (rs_Meta cr)) h = (quiet, h') \<and> available (stored_in cr h') \<and>
       mdaiReplayFinalizerName \<in> set (om_Finalizers (rs_Meta (stored_in cr h'))))"
proof -
  let ?E = "serving cr E"
  obtain h where h: "reconcile_times 2 (replay_Reconcile ?E R (key_of (rs_Meta cr))) [] = ([quiet, quiet], h)"
    "ready (we_lib E) mdaiReplayFinalizerName (stored_in cr h)" "same_object (stored_in cr h) cr"
    "mdaiReplayFinalizerName \<in> set (om_Finalizers (rs_Meta (stored_in cr h)))" using replay_ready [OF E(1) fresh] by blast
  have spec: "rpl_Spec c = rpl_Spec cr" if "same_object c (stored_in cr h)" for c :: mdai_replay
    using that h(3) by (cases c; cases cr; cases "stored_in cr h") (simp add: same_object_def)
  have tele: "rp_TelemetryType (rpl_Spec cr) \<noteq> []" using accepted by (auto simp: replay_accepted_iff Let_def validTelemetryTypes_def)
  have base: "we_base ?E = Inr baseReplayCollectorYaml" using E(3) by (simp add: serving_def)
  have answers: "workload_answers ?E" using E(2) by (simp add: workload_answers_def serving_def)
  have rec: "replay_Reconcile ?E R (key_of (rs_Meta cr)) h = lifecycle_Reconcile (we_lib E) (wl_client ?E) mdaiReplayFinalizerName
      (replay_finalize ?E (with_metrics_url None R)) [replay_ensureSynchronized ?E] (key_of (rs_Meta (stored_in cr h))) h"
    using replay_Reconcile_lifecycle [of ?E h "key_of (rs_Meta cr)" "stored_in cr h" R] h(2,3) by (simp add: ready_def same_object_def)
  show ?thesis
  proof (cases "rp_S3 (rpl_Spec cr)")
    case None
    obtain m s where "replay_ensureSynchronized ?E (stored_in cr h, WGet (key_of (rs_Meta (stored_in cr h))) # h) = (Panicked m, s)"
      using replay_sync_panics [OF base] tele None spec [of "stored_in cr h"] by (metis same_object_def)
    then have "fst (replay_Reconcile ?E R (key_of (rs_Meta cr)) h) = Crashed m"
      by (simp add: rec Reconcile_def wl_client_def lifecycle_ready [OF h(2)] run_operations_Cons halts_def)
    with None h show ?thesis by auto
  next
    case (Some s3)
    have "\<exists>c' h2. replay_ensureSynchronized ?E (c, h1) = (ContinueProcessing, c', h2) \<and> same_object c' (stored_in cr h) \<and>
        stored_in cr h2 = stored_in cr h1" if "same_object c (stored_in cr h)" for c h1
    proof -
      have "rp_TelemetryType (rpl_Spec c) \<noteq> []" "rp_S3 (rpl_Spec c) \<noteq> None" using tele Some spec [OF that] by simp_all
      from replay_sync_goes_on [OF answers base this, of h1] that show ?thesis by auto
    qed
    then have "passes (stored_in cr) (stored_in cr h) opn" if "opn \<in> set [replay_ensureSynchronized ?E]" for opn
      using that by (simp add: passes_def)
    from history_server.ready_reconciliation [OF h(2) E(1), of "[replay_ensureSynchronized ?E]" E
        "replay_finalize ?E (with_metrics_url None R)", OF this] rec Some h
    show ?thesis by auto
  qed
qed

text \<open>A replay of logs from S3 that the webhook accepts.\<close>

definition admitted_replay :: mdai_replay where
  "admitted_replay = \<lparr>rs_Meta = meta_named ''r'' ''mdai'', rs_Conditions = [],
     rpl_Spec = \<lparr>rp_StartTime = ''2024-01-01'', rp_EndTime = ''2024-01-02'', rp_TelemetryType = ''logs'', rp_HubName = ''hub'',
       rp_StatusVariableRef = ''v'', rp_OpAMPEndpoint = ''o'', rp_IgnoreSendingQueue = False, rp_AWSConfig = Some (Some ''secret''),
       rp_S3 = Some \<lparr>r3_S3Region = ''us-east-1'', r3_S3Bucket = ''b'', r3_FilePrefix = ''f'', r3_S3Path = ''p'', r3_S3Partition = ''hour''\<rparr>,
       rp_OtlpHttp = Some ''http://gw:4318'', rp_Image = []\<rparr>\<rparr>"

theorem accepted_replay_becomes_available_witness:
  "\<exists>h h'. reconcile_times 2 (replay_Reconcile (serving admitted_replay (sample_wl_env baseReplayCollectorYaml)) (sample_http 3)
       (key_of (rs_Meta admitted_replay))) [] = ([quiet, quiet], h) \<and>
     replay_Reconcile (serving admitted_replay (sample_wl_env baseReplayCollectorYaml)) (sample_http 3) (key_of (rs_Meta admitted_replay)) h
       = (quiet, h') \<and> available (stored_in admitted_replay h')"
proof -
  let ?E = "sample_wl_env baseReplayCollectorYaml :: mdai_replay wl_env"
  have "snd (replay_ValidateCreate (\<lambda>_ _. None) (Inr admitted_replay)) = None" by code_simp
  moreover have "kube_lib_documented (we_lib ?E)" using sample_lib_documented by (simp add: sample_wl_env_def)
  moreover have "workload_answers ?E" by (simp add: workload_answers_def accepts_def sample_wl_env_def sample_lib_def)
  moreover have "we_base ?E = Inr baseReplayCollectorYaml" by (simp add: sample_wl_env_def)
  ultimately show ?thesis using accepted_replay_becomes_available [of "\<lambda>_ _. None" admitted_replay ?E "sample_http 3"]
    by (auto simp: admitted_replay_def meta_named_def empty_meta_def)
qed

end
