(* ===== verification/Schemes.thy ===== *)
theory Schemes
  imports Generated_Clients
begin

text \<open>
  The registration of types: the group's types (\<^verbatim>\<open>api/v1/*_types.go\<close>), the scheme of the operator
  (\<^verbatim>\<open>init\<close> of \<^verbatim>\<open>cmd/main.go\<close>), the schemes of the generated clients, and the fake client set for tests
  (\<^verbatim>\<open>pkg/generated/clientset/versioned/fake\<close>). The scheme of apimachinery, the object tracker of client-go and the
  registration functions of other modules are parameters.
\<close>

section \<open>Schemes\<close>

record group_version_kind =
  gvk_GroupVersion :: group_version
  gvk_Kind :: string

definition WithKind :: "group_version \<Rightarrow> string \<Rightarrow> group_version_kind" where
  "WithKind gv kind = \<lparr>gvk_GroupVersion = gv, gvk_Kind = kind\<rparr>"

text \<open>A scheme, the registration of types under a group version, and of the common types of a version.\<close>

record 's scheme_lib =
  sl_New :: 's
  sl_AddTypes :: "group_version \<Rightarrow> string list \<Rightarrow> 's \<Rightarrow> goerr + 's"
  sl_AddToGroupVersion :: "group_version \<Rightarrow> 's \<Rightarrow> 's"
  sl_Recognizes :: "'s \<Rightarrow> group_version_kind \<Rightarrow> bool"

definition scheme_documented :: "'s scheme_lib \<Rightarrow> bool" where
  "scheme_documented S \<longleftrightarrow>
     (\<forall>gv ts s s' k. sl_AddTypes S gv ts s = Inr s' \<longrightarrow>
        (sl_Recognizes S s' k \<longleftrightarrow> sl_Recognizes S s k \<or> k \<in> WithKind gv ` set ts)) \<and>
     (\<forall>gv s k. sl_Recognizes S s k \<longrightarrow> sl_Recognizes S (sl_AddToGroupVersion S gv s) k)"

text \<open>\<^verbatim>\<open>utilruntime.Must\<close>.\<close>

definition Must :: "goerr + 's \<Rightarrow> 's outcome" where
  "Must r = (case r of Inl err \<Rightarrow> Panic ''AddToScheme'' | Inr s \<Rightarrow> Ok s)"

section \<open>The types of the group\<close>

text \<open>The \<^verbatim>\<open>init\<close> functions of the files of the types, which run in the order of the files.\<close>

definition MdaiCollector_init :: "string list" where "MdaiCollector_init = [''MdaiCollector'', ''MdaiCollectorList'']"
definition MdaiDal_init :: "string list" where "MdaiDal_init = [''MdaiDal'', ''MdaiDalList'']"
definition MdaiHub_init :: "string list" where "MdaiHub_init = [''MdaiHub'', ''MdaiHubList'']"
definition MdaiIngress_init :: "string list" where "MdaiIngress_init = [''MdaiIngress'', ''MdaiIngressList'']"
definition MdaiObserver_init :: "string list" where "MdaiObserver_init = [''MdaiObserver'', ''MdaiObserverList'']"
definition MdaiReplay_init :: "string list" where "MdaiReplay_init = [''MdaiReplay'', ''MdaiReplayList'']"

definition SchemeBuilder_types :: "string list" where
  "SchemeBuilder_types = MdaiCollector_init @ MdaiDal_init @ MdaiHub_init @ MdaiIngress_init @ MdaiObserver_init @ MdaiReplay_init"

definition AddToScheme :: "'s scheme_lib \<Rightarrow> 's \<Rightarrow> goerr + 's" where
  "AddToScheme S = sl_AddTypes S GroupVersion SchemeBuilder_types"

section \<open>The scheme of the operator (cmd/main.go)\<close>

text \<open>The registration functions of Kubernetes, the collector operator and the Prometheus operator.\<close>

record 's module_adders =
  ma_clientgoscheme :: "'s \<Rightarrow> goerr + 's"
  ma_opentelemetryv1beta1 :: "'s \<Rightarrow> goerr + 's"
  ma_prometheusv1 :: "'s \<Rightarrow> goerr + 's"

definition main_init :: "'s scheme_lib \<Rightarrow> 's module_adders \<Rightarrow> 's outcome" where
  "main_init S M =
     bind_outcome (Must (ma_clientgoscheme M (sl_New S))) (\<lambda>s1.
     bind_outcome (Must (AddToScheme S s1)) (\<lambda>s2.
     bind_outcome (Must (ma_opentelemetryv1beta1 M s2)) (\<lambda>s3.
       Must (ma_prometheusv1 M s3))))"

section \<open>The schemes of the generated clients (scheme/register.go, fake/register.go)\<close>

text \<open>\<^verbatim>\<open>localSchemeBuilder.AddToScheme\<close> with the one function of the list.\<close>

definition client_AddToScheme :: "'s scheme_lib \<Rightarrow> 's \<Rightarrow> goerr + 's" where
  "client_AddToScheme S s = AddToScheme S s"

definition client_scheme_init :: "'s scheme_lib \<Rightarrow> 's outcome" where
  "client_scheme_init S = Must (client_AddToScheme S (sl_AddToGroupVersion S \<lparr>gv_Group = [], gv_Version = ''v1''\<rparr> (sl_New S)))"

definition fake_AddToScheme :: "'s scheme_lib \<Rightarrow> 's \<Rightarrow> goerr + 's" where
  "fake_AddToScheme S s = AddToScheme S s"

definition fake_scheme_init :: "'s scheme_lib \<Rightarrow> 's outcome" where
  "fake_scheme_init S = Must (fake_AddToScheme S (sl_AddToGroupVersion S \<lparr>gv_Group = [], gv_Version = ''v1''\<rparr> (sl_New S)))"

section \<open>The fake client set (fake/clientset\_generated.go)\<close>

text \<open>Actions of the recorder; only a watch has list options.\<close>

record 'opt fake_action =
  fa_Resource :: group_version_resource
  fa_Namespace :: string
  fa_ListOptions :: "'opt option"

record ('tr, 'w, 'opt) tracker_lib =
  tl_New :: 'tr
  tl_Add :: "string \<Rightarrow> 'tr \<Rightarrow> goerr + 'tr"
  tl_Watch :: "'tr \<Rightarrow> group_version_resource \<Rightarrow> string \<Rightarrow> 'opt \<Rightarrow> goerr + 'w"
  tl_zero_options :: 'opt

fun add_objects :: "('tr, 'w, 'opt) tracker_lib \<Rightarrow> string list \<Rightarrow> 'tr \<Rightarrow> 'tr outcome" where
  "add_objects T [] t = Ok t"
| "add_objects T (obj # objects) t =
     (case tl_Add T obj t of Inl err \<Rightarrow> Panic ''tracker.Add'' | Inr t' \<Rightarrow> add_objects T objects t')"

definition watch_reaction ::
  "('tr, 'w, 'opt) tracker_lib \<Rightarrow> 'tr \<Rightarrow> 'opt fake_action \<Rightarrow> bool \<times> 'w option \<times> goerr option" where
  "watch_reaction T t action =
     (let opts = (case fa_ListOptions action of Some x \<Rightarrow> x | None \<Rightarrow> tl_zero_options T)
      in case tl_Watch T t (fa_Resource action) (fa_Namespace action) opts of
           Inl err \<Rightarrow> (False, None, Some err)
         | Inr w \<Rightarrow> (True, Some w, None))"

text \<open>The chains of reactions: the tracker's own for every verb, and the one for watches.\<close>

datatype reaction = ObjectReaction | WatchReaction

record 'tr fake_Clientset =
  fk_tracker :: 'tr
  fk_reactors :: "(string \<times> string \<times> reaction) list"
  fk_watchReactors :: "(string \<times> reaction) list"

definition NewSimpleClientset :: "('tr, 'w, 'opt) tracker_lib \<Rightarrow> string list \<Rightarrow> 'tr fake_Clientset outcome" where
  "NewSimpleClientset T objects = map_outcome (\<lambda>t. \<lparr>fk_tracker = t, fk_reactors = [(''*'', ''*'', ObjectReaction)],
     fk_watchReactors = [(''*'', WatchReaction)]\<rparr>) (add_objects T objects (tl_New T))"

definition fake_Tracker :: "'tr fake_Clientset \<Rightarrow> 'tr" where
  "fake_Tracker c = fk_tracker c"

section \<open>The fake typed clients (typed/api/v1/fake)\<close>

record ('m, 'i) api_list =
  al_ListMeta :: 'm
  al_Items :: "'i list"

text \<open>The arguments of \<^verbatim>\<open>gentype.NewFakeClientWithList\<close>; the recorder is the client set's.\<close>

record ('f, 'm, 'i) fake_client =
  fc_Fake :: 'f
  fc_Namespace :: string
  fc_Resource :: group_version_resource
  fc_Kind :: group_version_kind
  fc_Object :: string
  fc_List :: string
  fc_CopyListMeta :: "('m, 'i) api_list \<Rightarrow> ('m, 'i) api_list \<Rightarrow> ('m, 'i) api_list"
  fc_GetItems :: "('m, 'i) api_list \<Rightarrow> 'i list"
  fc_SetItems :: "('m, 'i) api_list \<Rightarrow> 'i list \<Rightarrow> ('m, 'i) api_list"

text \<open>The typed clients and the discovery client of the fake set hold the recorder of the set and nothing else.\<close>

definition fake_Discovery :: "'tr fake_Clientset \<Rightarrow> 'tr fake_Clientset" where
  "fake_Discovery c = c"

definition HubV1 :: "'tr fake_Clientset \<Rightarrow> 'tr fake_Clientset" where
  "HubV1 c = c"

text \<open>\<^verbatim>\<open>RESTClient\<close> of the fake is a nil client.\<close>

definition fake_RESTClient :: "'f \<Rightarrow> 'rest option" where
  "fake_RESTClient c = None"

definition newFakeMdaiCollectors :: "'f \<Rightarrow> string \<Rightarrow> ('f, 'm, 'i) fake_client" where
  "newFakeMdaiCollectors fake namespace = \<lparr>fc_Fake = fake, fc_Namespace = namespace,
     fc_Resource = WithResource SchemeGroupVersion ''mdaicollectors'', fc_Kind = WithKind SchemeGroupVersion ''MdaiCollector'',
     fc_Object = ''MdaiCollector'', fc_List = ''MdaiCollectorList'', fc_CopyListMeta = (\<lambda>dst src. dst\<lparr>al_ListMeta := al_ListMeta src\<rparr>),
     fc_GetItems = al_Items, fc_SetItems = (\<lambda>list items. list\<lparr>al_Items := items\<rparr>)\<rparr>"

definition FakeHubV1_MdaiCollectors :: "'f \<Rightarrow> string \<Rightarrow> ('f, 'm, 'i) fake_client" where
  "FakeHubV1_MdaiCollectors c namespace = newFakeMdaiCollectors c namespace"

definition newFakeMdaiDals :: "'f \<Rightarrow> string \<Rightarrow> ('f, 'm, 'i) fake_client" where
  "newFakeMdaiDals fake namespace = \<lparr>fc_Fake = fake, fc_Namespace = namespace,
     fc_Resource = WithResource SchemeGroupVersion ''mdaidals'', fc_Kind = WithKind SchemeGroupVersion ''MdaiDal'',
     fc_Object = ''MdaiDal'', fc_List = ''MdaiDalList'', fc_CopyListMeta = (\<lambda>dst src. dst\<lparr>al_ListMeta := al_ListMeta src\<rparr>),
     fc_GetItems = al_Items, fc_SetItems = (\<lambda>list items. list\<lparr>al_Items := items\<rparr>)\<rparr>"

definition FakeHubV1_MdaiDals :: "'f \<Rightarrow> string \<Rightarrow> ('f, 'm, 'i) fake_client" where
  "FakeHubV1_MdaiDals c namespace = newFakeMdaiDals c namespace"

definition newFakeMdaiHubs :: "'f \<Rightarrow> string \<Rightarrow> ('f, 'm, 'i) fake_client" where
  "newFakeMdaiHubs fake namespace = \<lparr>fc_Fake = fake, fc_Namespace = namespace,
     fc_Resource = WithResource SchemeGroupVersion ''mdaihubs'', fc_Kind = WithKind SchemeGroupVersion ''MdaiHub'',
     fc_Object = ''MdaiHub'', fc_List = ''MdaiHubList'', fc_CopyListMeta = (\<lambda>dst src. dst\<lparr>al_ListMeta := al_ListMeta src\<rparr>),
     fc_GetItems = al_Items, fc_SetItems = (\<lambda>list items. list\<lparr>al_Items := items\<rparr>)\<rparr>"

definition FakeHubV1_MdaiHubs :: "'f \<Rightarrow> string \<Rightarrow> ('f, 'm, 'i) fake_client" where
  "FakeHubV1_MdaiHubs c namespace = newFakeMdaiHubs c namespace"

definition newFakeMdaiIngresses :: "'f \<Rightarrow> string \<Rightarrow> ('f, 'm, 'i) fake_client" where
  "newFakeMdaiIngresses fake namespace = \<lparr>fc_Fake = fake, fc_Namespace = namespace,
     fc_Resource = WithResource SchemeGroupVersion ''mdaiingresses'', fc_Kind = WithKind SchemeGroupVersion ''MdaiIngress'',
     fc_Object = ''MdaiIngress'', fc_List = ''MdaiIngressList'', fc_CopyListMeta = (\<lambda>dst src. dst\<lparr>al_ListMeta := al_ListMeta src\<rparr>),
     fc_GetItems = al_Items, fc_SetItems = (\<lambda>list items. list\<lparr>al_Items := items\<rparr>)\<rparr>"

definition FakeHubV1_MdaiIngresses :: "'f \<Rightarrow> string \<Rightarrow> ('f, 'm, 'i) fake_client" where
  "FakeHubV1_MdaiIngresses c namespace = newFakeMdaiIngresses c namespace"

definition newFakeMdaiObservers :: "'f \<Rightarrow> string \<Rightarrow> ('f, 'm, 'i) fake_client" where
  "newFakeMdaiObservers fake namespace = \<lparr>fc_Fake = fake, fc_Namespace = namespace,
     fc_Resource = WithResource SchemeGroupVersion ''mdaiobservers'', fc_Kind = WithKind SchemeGroupVersion ''MdaiObserver'',
     fc_Object = ''MdaiObserver'', fc_List = ''MdaiObserverList'', fc_CopyListMeta = (\<lambda>dst src. dst\<lparr>al_ListMeta := al_ListMeta src\<rparr>),
     fc_GetItems = al_Items, fc_SetItems = (\<lambda>list items. list\<lparr>al_Items := items\<rparr>)\<rparr>"

definition FakeHubV1_MdaiObservers :: "'f \<Rightarrow> string \<Rightarrow> ('f, 'm, 'i) fake_client" where
  "FakeHubV1_MdaiObservers c namespace = newFakeMdaiObservers c namespace"

definition newFakeMdaiReplays :: "'f \<Rightarrow> string \<Rightarrow> ('f, 'm, 'i) fake_client" where
  "newFakeMdaiReplays fake namespace = \<lparr>fc_Fake = fake, fc_Namespace = namespace,
     fc_Resource = WithResource SchemeGroupVersion ''mdaireplays'', fc_Kind = WithKind SchemeGroupVersion ''MdaiReplay'',
     fc_Object = ''MdaiReplay'', fc_List = ''MdaiReplayList'', fc_CopyListMeta = (\<lambda>dst src. dst\<lparr>al_ListMeta := al_ListMeta src\<rparr>),
     fc_GetItems = al_Items, fc_SetItems = (\<lambda>list items. list\<lparr>al_Items := items\<rparr>)\<rparr>"

definition FakeHubV1_MdaiReplays :: "'f \<Rightarrow> string \<Rightarrow> ('f, 'm, 'i) fake_client" where
  "FakeHubV1_MdaiReplays c namespace = newFakeMdaiReplays c namespace"

section \<open>Properties\<close>

lemma Must_Ok_iff [simp]: "Must r = Ok s \<longleftrightarrow> r = Inr s"
  by (auto simp: Must_def split: sum.splits)

lemma WithKind_Kind [simp]: "gvk_Kind (WithKind gv k) = k"
  by (simp add: WithKind_def)

lemma registered_types:
  assumes "scheme_documented S" "AddToScheme S s = Inr s'"
  shows "sl_Recognizes S s' k \<longleftrightarrow> sl_Recognizes S s k \<or> k \<in> WithKind GroupVersion ` set SchemeBuilder_types"
  using assms unfolding scheme_documented_def AddToScheme_def by blast

text \<open>What a module documents of its registration function: its kinds are added, none is lost.\<close>

definition adds_kinds :: "'s scheme_lib \<Rightarrow> group_version_kind set \<Rightarrow> ('s \<Rightarrow> goerr + 's) \<Rightarrow> bool" where
  "adds_kinds S ks f \<longleftrightarrow> (\<forall>s s' k. f s = Inr s' \<longrightarrow> (k \<in> ks \<or> sl_Recognizes S s k) \<longrightarrow> sl_Recognizes S s' k)"

text \<open>
  The scheme of the operator knows the twelve types of its group and every type of the other modules, whatever the
  order of the registrations.
\<close>

theorem operator_scheme_complete:
  assumes "scheme_documented S" "adds_kinds S ks1 (ma_clientgoscheme M)" "adds_kinds S ks2 (ma_opentelemetryv1beta1 M)"
    "adds_kinds S ks3 (ma_prometheusv1 M)" "main_init S M = Ok s"
    and "k \<in> WithKind GroupVersion ` set SchemeBuilder_types \<union> ks1 \<union> ks2 \<union> ks3"
  shows "sl_Recognizes S s k"
proof -
  obtain s1 s2 s3 where s: "ma_clientgoscheme M (sl_New S) = Inr s1" "AddToScheme S s1 = Inr s2"
    "ma_opentelemetryv1beta1 M s2 = Inr s3" "ma_prometheusv1 M s3 = Inr s"
    using assms(5) by (auto simp: main_init_def outcome_iff)
  have 1: "k \<in> ks1 \<Longrightarrow> sl_Recognizes S s1 k" using assms(2) s(1) unfolding adds_kinds_def by blast
  have 2: "sl_Recognizes S s2 k \<longleftrightarrow> sl_Recognizes S s1 k \<or> k \<in> WithKind GroupVersion ` set SchemeBuilder_types"
    using registered_types [OF assms(1) s(2)] .
  have 3: "k \<in> ks2 \<or> sl_Recognizes S s2 k \<Longrightarrow> sl_Recognizes S s3 k" using assms(3) s(3) unfolding adds_kinds_def by blast
  have 4: "k \<in> ks3 \<or> sl_Recognizes S s3 k \<Longrightarrow> sl_Recognizes S s k" using assms(4) s(4) unfolding adds_kinds_def by blast
  from assms(6) 1 2 3 4 show ?thesis by blast
qed


text \<open>A fake client that addresses what the real one does.\<close>

definition stands_for :: "('f, 'm, 'i) fake_client \<Rightarrow> 'rest typed_client \<Rightarrow> bool" where
  "stands_for f c \<longleftrightarrow> gvr_Resource (fc_Resource f) = tc_Resource c \<and> gvr_GroupVersion (fc_Resource f) = SchemeGroupVersion \<and>
     gvk_Kind (fc_Kind f) = tc_Object c \<and> fc_Object f = tc_Object c \<and> fc_List f = tc_List c \<and> fc_Namespace f = tc_Namespace c"

text \<open>
  A fake client stands for the real one: for each of the six kinds both address the same resource in the same
  namespace with the same object and list types, and the kind the fake names is registered in its scheme.
\<close>

theorem fake_clients_stand_for_real:
  assumes "scheme_documented S" "fake_scheme_init S = Ok s"
  shows "list_all (\<lambda>(f, c). stands_for f c \<and> sl_Recognizes S s (fc_Kind f) \<and>
      sl_Recognizes S s (WithKind SchemeGroupVersion (fc_List f)))
    [(FakeHubV1_MdaiCollectors f ns, HubV1Client_MdaiCollectors c ns),
     (FakeHubV1_MdaiDals f ns, HubV1Client_MdaiDals c ns),
     (FakeHubV1_MdaiHubs f ns, HubV1Client_MdaiHubs c ns),
     (FakeHubV1_MdaiIngresses f ns, HubV1Client_MdaiIngresses c ns),
     (FakeHubV1_MdaiObservers f ns, HubV1Client_MdaiObservers c ns),
     (FakeHubV1_MdaiReplays f ns, HubV1Client_MdaiReplays c ns)]"
proof -
  have "sl_Recognizes S s (WithKind GroupVersion t)" if "t \<in> set SchemeBuilder_types" for t
    using registered_types [OF assms(1)] assms(2) that by (auto simp: fake_scheme_init_def fake_AddToScheme_def)
  moreover have "SchemeGroupVersion = GroupVersion" by (simp add: SchemeGroupVersion_def GroupVersion_def)
  ultimately show ?thesis
    by (simp add: stands_for_def FakeHubV1_MdaiCollectors_def newFakeMdaiCollectors_def HubV1Client_MdaiCollectors_def newMdaiCollectors_def FakeHubV1_MdaiDals_def newFakeMdaiDals_def HubV1Client_MdaiDals_def newMdaiDals_def FakeHubV1_MdaiHubs_def newFakeMdaiHubs_def HubV1Client_MdaiHubs_def newMdaiHubs_def FakeHubV1_MdaiIngresses_def newFakeMdaiIngresses_def HubV1Client_MdaiIngresses_def newMdaiIngresses_def FakeHubV1_MdaiObservers_def newFakeMdaiObservers_def HubV1Client_MdaiObservers_def newMdaiObservers_def FakeHubV1_MdaiReplays_def newFakeMdaiReplays_def HubV1Client_MdaiReplays_def newMdaiReplays_def
        WithResource_def SchemeBuilder_types_def MdaiCollector_init_def MdaiDal_init_def MdaiHub_init_def MdaiIngress_init_def MdaiObserver_init_def MdaiReplay_init_def)
qed

text \<open>A scheme as a list of kinds.\<close>

definition list_scheme :: "group_version_kind list scheme_lib" where
  "list_scheme = \<lparr>sl_New = [], sl_AddTypes = (\<lambda>gv ts s. Inr (s @ map (WithKind gv) ts)), sl_AddToGroupVersion = (\<lambda>gv s. s),
     sl_Recognizes = (\<lambda>s k. k \<in> set s)\<rparr>"

lemma list_scheme_documented: "scheme_documented list_scheme"
  by (auto simp: scheme_documented_def list_scheme_def)

theorem fake_clients_stand_for_real_witness:
  "\<exists>s. fake_scheme_init list_scheme = Ok s \<and>
     stands_for (FakeHubV1_MdaiHubs () ''mdai'' :: (unit, unit, unit) fake_client) (HubV1Client_MdaiHubs (None :: unit HubV1Client option) ''mdai'')"
proof -
  obtain s where s: "fake_scheme_init list_scheme = Ok s"
    by (simp add: fake_scheme_init_def fake_AddToScheme_def AddToScheme_def list_scheme_def Must_def)
  from fake_clients_stand_for_real [OF list_scheme_documented s, of "()" "''mdai''" "None :: unit HubV1Client option"] s
  show ?thesis by auto
qed

end
