(* ===== verification/Spec2Isabelle.thy ===== *)
theory Spec2Isabelle
  imports Main_Program Hub_Convergence Stability Config_Shape Copy_Isolation Informers
    Ingress_Ownership Watches Adapters Replay_Admission Schemes
begin

text \<open>
  \<^bold>\<open>The MDAI operator.\<close> A Kubernetes operator in Go with six custom resources: a hub (variables kept in Valkey,
  Prometheus alerts, automation rules), telemetry collectors, observers, replays, data access layers (DAL) and ingresses.
  For each resource there is an admission webhook (\<^verbatim>\<open>src/internal/webhook/v1\<close>) and a controller
  (\<^verbatim>\<open>src/internal/controller\<close>) whose \<^verbatim>\<open>Reconcile\<close> runs a list of operations of an adapter; the ingress
  controller builds its objects with \<^verbatim>\<open>src/internal/manifests\<close>, which reads the ports of a collector configuration
  with the parsers of \<^verbatim>\<open>src/internal/components\<close>.

  \<^bold>\<open>Theories, from the leaves to this root.\<close>
  \<^item> \<^verbatim>\<open>Prelude\<close>: Go values (errors, outcomes with panics, maps as association lists), strings and printing, and the
    lemmas on them that the other theories share.
  \<^item> \<^verbatim>\<open>Naming\<close>: names of generated objects (\<^verbatim>\<open>internal/naming\<close>); they are DNS labels, port names fit.
  \<^item> \<^verbatim>\<open>Kube_Types\<close>: metadata, services, ingresses, deployments, containers, ConfigMaps.
  \<^item> \<^verbatim>\<open>Components\<close>, \<^verbatim>\<open>Registry\<close>: port parsers, their builders and registries (\<^verbatim>\<open>internal/components\<close>), with the ports
    of a receiver on every configuration.
  \<^item> \<^verbatim>\<open>Manifests\<close>: services and ingresses of a collector and the mutation of existing objects.
  \<^item> \<^verbatim>\<open>Reconcile\<close>: operation results, the handler, and the life cycle all adapters repeat (deletion, status, finalizer),
    over an arbitrary API server; the locale \<^verbatim>\<open>lifecycle_calls\<close> is what the handler relies on in an adapter.
  \<^item> \<^verbatim>\<open>Api_Types\<close>, \<^verbatim>\<open>Resource_Webhooks\<close>, \<^verbatim>\<open>Hub_Webhook\<close>: the specs and their admission; the hub's webhook accepts exactly
    the hubs of a declarative contract.
  \<^item> \<^verbatim>\<open>Event_Transformer\<close>, \<^verbatim>\<open>Hub_Adapter\<close>, \<^verbatim>\<open>Hub_Controller\<close>: rules to commands, the operations of the hub, and what
    triggers them.
  \<^item> \<^verbatim>\<open>Builders\<close>: the fluent builders and \<^verbatim>\<open>ConfigBlock\<close> of \<^verbatim>\<open>internal/builder\<close>; a configuration is closed when its
    pipelines only name defined components.
  \<^item> \<^verbatim>\<open>Workloads\<close>: what the observer, collector, replay and DAL adapters share: create-or-update calls, constants, and
    the locale \<^verbatim>\<open>exposed_workload\<close>, the contract between a deployment and its service.
  \<^item> \<^verbatim>\<open>Observer_Adapter\<close>, \<^verbatim>\<open>Collector_Adapter\<close>, \<^verbatim>\<open>Replay_Adapter\<close>, \<^verbatim>\<open>Dal_Adapter\<close>: generated configurations, objects,
    operations, each with its interpretation of the two locales.
  \<^item> \<^verbatim>\<open>Ingress_Controller\<close>: the ingress controller and the pruning of \<^verbatim>\<open>common.go\<close>.
  \<^item> \<^verbatim>\<open>Convergence\<close>: the locale \<^verbatim>\<open>accepting_server\<close>, an API server that accepts writes, interpreted on the histories
    of the adapters; a new resource becomes available.
  \<^item> \<^verbatim>\<open>Interleaving\<close>: reconciliation as a step relation in which users, other controllers and crashes come between the
    operations of an adapter, whose copy may be any version the server has stored, with its reachable states; the locale
    \<^verbatim>\<open>writes_elsewhere\<close> is what the invariant needs of a synchronisation, interpreted for all five adapters.
  \<^item> \<^verbatim>\<open>Hub_Interleaving\<close>, \<^verbatim>\<open>Hub_Convergence\<close>: the hub controller on such servers, and the way of a hub from its admission
    to availability, with the gap of the admission that blocks a hub.
  \<^item> \<^verbatim>\<open>Stability\<close>: the locale \<^verbatim>\<open>settling_mutate\<close>, a mutate function of \<^verbatim>\<open>CreateOrUpdate\<close> that leaves alone what it
    made, interpreted on the functions of the workload adapters; and what they do to defaults of the API server.
  \<^item> \<^verbatim>\<open>Config_Shape\<close>: the list representation of a generated configuration stands for maps, with each key once.
  \<^item> \<^verbatim>\<open>Deep_Copy\<close>, \<^verbatim>\<open>Api_Deep_Copies\<close>, \<^verbatim>\<open>Copy_Isolation\<close>: a heap of addresses, the struct declarations of
    \<^verbatim>\<open>api/v1\<close> as layouts, the methods of \<^verbatim>\<open>zz_generated.deepcopy.go\<close>, and that each copies all of its type; the
    locale \<^verbatim>\<open>deep_copier\<close> is the contract of such a method.
  \<^item> \<^verbatim>\<open>Generated_Clients\<close>, \<^verbatim>\<open>Informers\<close>: the client set, typed clients, listers and the shared informer factory of
    \<^verbatim>\<open>pkg/generated\<close>; the factory's calls and the ends of its goroutines are a step relation.
  \<^item> \<^verbatim>\<open>Main_Program\<close>: \<^verbatim>\<open>cmd/main.go\<close> and \<^verbatim>\<open>cmd/otel.go\<close>, the order of the set-up, and the cache of the manager:
    which of the objects the operator writes it finds again.
  \<^item> \<^verbatim>\<open>Ingress_Ownership\<close>: the ingress controller, its owner index and the label-filtered cache together, on a cluster with
    the objects of other owners.
  \<^item> \<^verbatim>\<open>Watches\<close>: the registrations of the six \<^verbatim>\<open>SetupWithManager\<close> methods, and for which changes a controller is called.
  \<^item> \<^verbatim>\<open>Adapters\<close>: the structs, constructors and finalizer methods of the adapters, and the reconcilers with the handler
    behind the interface \<^verbatim>\<open>Adapter\<close>; they run the operations the other theories reason about.
  \<^item> \<^verbatim>\<open>Replay_Admission\<close>: the way of a replay from its admission to availability, or to a panic.
  \<^item> \<^verbatim>\<open>Schemes\<close>: the types of the group, the schemes they are registered with, and the fake client set; a fake client
    addresses what the real one does.

  \<^bold>\<open>State and effects.\<close> The world of an adapter is the history of the calls made so far, newest first; the answer of
  every call is a function of that history, given by a record of parameters. So a theorem holds for every behaviour of the
  API server, Valkey, the YAML and JSON encoders, the HTTP client and the metrics parser; what a theorem needs of a library
  is a named hypothesis (\<^verbatim>\<open>kube_lib_documented\<close>, \<^verbatim>\<open>merge_overrides\<close>, \<^verbatim>\<open>owner_documented\<close>, \<^verbatim>\<open>names_owner\<close>, \<^verbatim>\<open>owner_handler_documented\<close>, \<^verbatim>\<open>scheme_documented\<close>, for the types of
  other API modules \<^verbatim>\<open>external_documented\<close>) with an instance. Values have no addresses, except in \<^verbatim>\<open>Deep_Copy\<close>,
  whose subject is sharing. Pointers are options, a nil
  dereference, a missing configuration section and a write to a nil map are panics. A \<^verbatim>\<open>range\<close> over a map takes
  the visiting order as an argument; the theorems hold for every order. Configuration blocks are changed through paths,
  because the code changes nested maps in place. All loops are structural recursions; there is no fuel. Strings are ASCII;
  durations of the reconciler are seconds, the Valkey expiry is a 64-bit number of nanoseconds.

  \<^bold>\<open>What the theorems show.\<close> Admission: acceptance is equivalent to the contract, accepted hubs do not make the
  synchronisation panic except for a join without delimiter, meta references never change. Hub: the clean-up in Valkey keeps
  the hub's keys, only collectors of changed namespaces restart, nothing is written for a hub that is not ready, exported
  values and alert rules follow the spec, a key change in Valkey requeues its hub. Workloads: every generated configuration
  is closed, each observer is filtered, grouped and counted as its spec says, the collector's routing refines a table per
  stream, services reach their pods as long as nobody else adds to their selector, a replay waits for its queue unless told
  not to, the DAL reports what exists. Ingress: ports are split and routed to the generated service, pruning deletes exactly the
  unmanaged objects, which are looked up by the name of the owner alone, so that a DAL or a replay with the name of an ingress
  loses its service. Life cycle: convergence of a new resource, for a hub and a replay from their admission on, where a requeue
  is lost, and which changes of dependent objects a controller notices. Programme: the
  manager starts only after all that it needs is set up, a failing step ends the process with code 1, and the objects of the adapters pass the filter of the cache; those of an
  ingress do not when the collector resource has its own \<^verbatim>\<open>managed-by\<close> label, and then its reconciliation fails for good. Whatever others do between the operations of
  an adapter, it only touches dependent objects for a version of the resource that was stored with its finalizer and without a
  deletion mark, and it does not take the finalizer off itself before that; the mutate functions of the workloads leave alone what they made, but three
  of them undo a default of the API server; deep copies denote the same value and share no address with the
  original; after \<^verbatim>\<open>Shutdown\<close> no informer runs and none can be started.

  \<^bold>\<open>Limits.\<close> In \<^verbatim>\<open>Interleaving\<close> an operation is one step: others act between two operations, not inside one. \<^verbatim>\<open>Stability\<close> is
  about the mutate functions on the fields that the model has; of the defaults of the API server it looks at the protocol of
  container ports only. \<^verbatim>\<open>Copy_Isolation\<close> takes the copies of the types of other modules to be deep, which upstream does not hold
  for the nested maps of a collector's free-form configuration. \<^verbatim>\<open>Convergence\<close> is about a server that accepts every write.

  \<^bold>\<open>Not modelled.\<close> The registration of webhooks with the manager, each one step of the set-up; log messages, their encoders and the
  event recorder; the interface declarations and empty expansion types of \<^verbatim>\<open>pkg/generated\<close>, which have no behaviour; the
  retries inside \<^verbatim>\<open>retry.RetryOnConflict\<close>, which is one call here; the YAML adapter that no code calls; the helpers of the
  tests.
\<close>

section \<open>The workloads of the four adapters\<close>

text \<open>A service as it is created, with no selector yet, or one whose selector has the keys of the adapter and no others.\<close>

definition own_selector :: "string list \<Rightarrow> service \<Rightarrow> bool" where
  "own_selector ks s \<longleftrightarrow> entries (ss_Selector (svc_Spec s)) = [] \<or> map fst (entries (ss_Selector (svc_Spec s))) = ks"

text \<open>The observer sets the whole selector, whatever it was.\<close>

lemma observer_reaches:
  assumes "observer_deployment_mutate L ocr hash res d = Ok d1" "observer_service_mutate ocr s = Ok s1"
  shows "service_reaches s1 d1 \<and> own_selector [''app''] s1"
proof -
  define s0 where "s0 = s\<lparr>svc_Spec := (svc_Spec s)\<lparr>ss_Selector := None\<rparr>\<rparr>"
  have "observer_service_mutate ocr s0 = Ok s1" using assms(2) by (simp add: s0_def observer_service_mutate_def)
  with assms(1) show ?thesis
    using observer_exposed.reaches [of L ocr hash res d d1 s0 s1] observer_exposed.keeps_selector [of ocr s0 s1]
    by (simp add: s0_def own_selector_def)
qed

text \<open>
  C13. The service that the observer, collector, replay and DAL adapters write leads to the pods of the deployment that
  the same adapter writes: its selector is satisfied by the labels of the pod template, and every port of the service is
  served by a container port. This holds for every existing deployment, and for a service that is new or whose selector has no
  key but those of the adapter; the adapters write such a service again, so it holds from the creation of the service on
  until somebody else puts a key into its selector, which the adapters of the collector, replay and DAL would leave there.
\<close>

theorem services_reach_pods:
  "(observer_deployment_mutate L ocr hash res d = Ok d1 \<and> observer_service_mutate ocr s = Ok s1 \<longrightarrow>
      service_reaches s1 d1 \<and> own_selector [''app''] s1) \<and>
   (collector_deployment_mutate L ccr params d = Ok d2 \<and>
      collector_service_mutate L ccr (getScopedMdaiCollectorResourceName ccr []) s = Ok s2 \<and> own_selector [''app''] s \<longrightarrow>
      service_reaches s2 d2 \<and> own_selector [''app''] s2) \<and>
   (replay_deployment_mutate L rcr hash d = Ok d3 \<and> replay_service_mutate rcr s = Ok s3 \<and> own_selector [''app''] s \<longrightarrow>
      service_reaches s3 d3 \<and> own_selector [''app''] s3) \<and>
   (dal_deployment_mutate L dcr img d = Ok d4 \<and> dal_service_mutate L dcr s = Ok s4 \<and>
      own_selector [LabelAppNameKey, LabelAppInstanceKey] s \<longrightarrow>
      service_reaches s4 d4 \<and> own_selector [LabelAppNameKey, LabelAppInstanceKey] s4)"
  using observer_reaches [of L ocr hash res d d1 s s1]
    collector_exposed.reaches [of L ccr params d d2 s s2] collector_exposed.keeps_selector [of L ccr s s2]
    replay_exposed.reaches [of L rcr hash d d3 s s3] replay_exposed.keeps_selector [of rcr s s3]
    dal_exposed.reaches [of L dcr img d d4 s s4] dal_exposed.keeps_selector [of L dcr s s4]
  by (simp add: own_selector_def)

definition sample_image :: dal_image where
  "sample_image = \<lparr>di_Repository = ''dal'', di_Tag = ''1'', di_PullPolicy = ''Always''\<rparr>"

definition sample_deployment_params :: CollectorDeploymentParams where
  "sample_deployment_params = \<lparr>cdp_Namespace = ''mdai'', cdp_CollectorConfigMapName = ''cm'', cdp_CollectorEnvConfigName = ''env'',
     cdp_ServiceAccountName = ''sa'', cdp_AwsAccessKeySecret = None, cdp_Hash = ''h'', cdp_Image = ''c:1'',
     cdp_Tolerations = [], cdp_Replicas = 1\<rparr>"

theorem services_reach_pods_witness:
  "\<exists>d s d1 s1 d2 s2 d3 s3 d4 s4.
     observer_deployment_mutate sample_lib new_observer ''h'' sample_observer_resource d = Ok d1 \<and>
     observer_service_mutate new_observer s = Ok s1 \<and> service_reaches s1 d1 \<and>
     collector_deployment_mutate sample_lib sample_collector sample_deployment_params d = Ok d2 \<and>
     collector_service_mutate sample_lib sample_collector (getScopedMdaiCollectorResourceName sample_collector []) s = Ok s2 \<and>
     service_reaches s2 d2 \<and>
     replay_deployment_mutate sample_lib sample_replay ''h'' d = Ok d3 \<and> replay_service_mutate sample_replay s = Ok s3 \<and>
     service_reaches s3 d3 \<and>
     dal_deployment_mutate sample_lib sample_dal sample_image d = Ok d4 \<and> dal_service_mutate sample_lib sample_dal s = Ok s4 \<and>
     service_reaches s4 d4"
proof -
  define d where "d = deployment_named (meta_named ''d'' ''mdai'')"
  define s where "s = service_named (meta_named ''d'' ''mdai'')"
  have own: "own_selector ks s" for ks by (simp add: own_selector_def service_named_def s_def)
  have ctl: "set_controller sample_lib om k m = Ok (m\<lparr>om_OwnerReferences :=
    [\<lparr>or_Name = om_Name om, or_Kind = k, or_UID = om_UID om\<rparr>]\<rparr>)" for om k m
    by (simp add: set_controller_def sample_lib_def)
  obtain d1 s1 where observer: "observer_deployment_mutate sample_lib new_observer ''h'' sample_observer_resource d = Ok d1"
    "observer_service_mutate new_observer s = Ok s1"
    by (simp add: observer_deployment_mutate_def observer_service_mutate_def ctl Let_def)
  obtain d2 s2 where collector: "collector_deployment_mutate sample_lib sample_collector sample_deployment_params d = Ok d2"
    "collector_service_mutate sample_lib sample_collector (getScopedMdaiCollectorResourceName sample_collector []) s = Ok s2"
    by (simp add: collector_deployment_mutate_def collector_service_mutate_def ctl Let_def)
  obtain d3 s3 where replay: "replay_deployment_mutate sample_lib sample_replay ''h'' d = Ok d3"
    "replay_service_mutate sample_replay s = Ok s3"
    by (simp add: replay_deployment_mutate_def replay_service_mutate_def ctl Let_def)
  obtain d4 s4 where dal: "dal_deployment_mutate sample_lib sample_dal sample_image d = Ok d4"
    "dal_service_mutate sample_lib sample_dal s = Ok s4"
    by (simp add: dal_deployment_mutate_def dal_service_mutate_def ctl Let_def)
  from services_reach_pods [of sample_lib new_observer "''h''" sample_observer_resource d d1 s s1
    sample_collector sample_deployment_params d2 s2 sample_replay d3 s3 sample_dal sample_image d4 s4] observer collector replay dal own
  show ?thesis by blast
qed

end
